(* ===== verification/Prelude.thy ===== *)
theory Prelude
  imports Main "HOL-Library.Multiset"
begin

text \<open>
  The shared base of the development: the collections of rewrite rules the component proofs
  draw on, results of fallible Go functions (\<open>'e + 'a\<close>, with \<open>Inl\<close> for a non-nil error),
  and Go's comparator sorts (\<^verbatim>\<open>sort.Slice\<close>, \<^verbatim>\<open>sort.SliceStable\<close>) with the contract a
  comparator has to meet, stated as the locale \<open>comparator\<close> that every comparator of the
  program is shown to satisfy.
\<close>

named_theorems go_text \<open>evaluation of the Go string operations\<close>
named_theorems tx_simps \<open>evaluation of transactions over the store\<close>
named_theorems query_defs \<open>definitions of the SQL queries\<close>

section \<open>Fallible results\<close>

type_synonym ('e, 'a) result = "'e + 'a"

definition bind_result :: "('e, 'a) result \<Rightarrow> ('a \<Rightarrow> ('e, 'b) result) \<Rightarrow> ('e, 'b) result" where
  "bind_result m f = (case m of Inl e \<Rightarrow> Inl e | Inr x \<Rightarrow> f x)"

lemma bind_result_simps [simp]:
  "bind_result (Inl e) f = Inl e"
  "bind_result (Inr x) f = f x"
  by (simp_all add: bind_result_def)

lemma bind_result_eq_Inr_iff:
  "bind_result m f = Inr y \<longleftrightarrow> (\<exists>x. m = Inr x \<and> f x = Inr y)"
  by (cases m) auto

lemma bind_result_eq_Inl_iff:
  "bind_result m f = Inl e \<longleftrightarrow> m = Inl e \<or> (\<exists>x. m = Inr x \<and> f x = Inl e)"
  by (cases m) auto

section \<open>Sorting with a comparator\<close>

text \<open>
  \<open>sort_by lt\<close> is the stable sort by the strict comparator \<open>lt\<close>. For a comparator that is a
  strict weak order the stable sort is unique, so the choice of algorithm does not matter;
  \<^verbatim>\<open>sort.Slice\<close> promises no stability, and is modelled by the same function where the program
  calls it on keys that are pairwise distinct.
\<close>

fun insert_by :: "('a \<Rightarrow> 'a \<Rightarrow> bool) \<Rightarrow> 'a \<Rightarrow> 'a list \<Rightarrow> 'a list" where
  "insert_by lt x [] = [x]"
| "insert_by lt x (y # ys) = (if lt y x then y # insert_by lt x ys else x # y # ys)"

fun sort_by :: "('a \<Rightarrow> 'a \<Rightarrow> bool) \<Rightarrow> 'a list \<Rightarrow> 'a list" where
  "sort_by lt [] = []"
| "sort_by lt (x # xs) = insert_by lt x (sort_by lt xs)"

lemma mset_insert_by [simp]: "mset (insert_by lt x xs) = add_mset x (mset xs)"
  by (induction xs) auto

lemma mset_sort_by [simp]: "mset (sort_by lt xs) = mset xs"
  by (induction xs) auto

lemma set_insert_by [simp]: "set (insert_by lt x xs) = insert x (set xs)"
  by (induction xs) auto

lemma set_sort_by [simp]: "set (sort_by lt xs) = set xs"
  by (induction xs) auto

lemma length_sort_by [simp]: "length (sort_by lt xs) = length xs"
  by (metis mset_sort_by size_mset)

lemma distinct_sort_by [simp]: "distinct (sort_by lt xs) = distinct xs"
  by (metis mset_sort_by mset_eq_imp_distinct_iff)

lemma sort_by_eq_Nil_iff [simp]: "sort_by lt xs = [] \<longleftrightarrow> xs = []"
  by (metis length_0_conv length_sort_by)

locale comparator =
  fixes lt :: "'a \<Rightarrow> 'a \<Rightarrow> bool"
  assumes asym: "lt x y \<Longrightarrow> \<not> lt y x"
    and negative_trans: "lt x z \<Longrightarrow> lt x y \<or> lt y z"
begin

definition ordered :: "'a list \<Rightarrow> bool" where
  "ordered xs \<longleftrightarrow> sorted_wrt (\<lambda>x y. \<not> lt y x) xs"

lemma not_refl: "\<not> lt x x"
  using asym by blast

lemma trans_lt: "lt x y \<Longrightarrow> lt y z \<Longrightarrow> lt x z"
  using asym negative_trans by blast

lemma ordered_insert_by: "ordered xs \<Longrightarrow> ordered (insert_by lt x xs)"
proof (induction xs)
  case Nil
  then show ?case by (simp add: ordered_def)
next
  case (Cons y ys)
  then show ?case
    using asym negative_trans by (fastforce simp: ordered_def)
qed

lemma ordered_sort_by: "ordered (sort_by lt xs)"
  by (induction xs) (simp_all add: ordered_insert_by, simp add: ordered_def)

lemma hd_sort_by_minimal:
  assumes "x \<in> set xs" "ys = sort_by lt xs"
  shows "\<not> lt x (hd ys)"
proof -
  have "ys \<noteq> []" "ordered ys" "x \<in> set ys"
    using assms by (auto simp: ordered_sort_by)
  then show ?thesis
    by (cases ys) (auto simp: ordered_def not_refl)
qed

lemma insert_by_below: "\<forall>y \<in> set xs. \<not> lt y x \<Longrightarrow> insert_by lt x xs = x # xs"
  by (cases xs) auto

text \<open>Stability: elements that the comparator does not separate keep their order.\<close>

lemma filter_insert_by_other: "\<not> P x \<Longrightarrow> filter P (insert_by lt x xs) = filter P xs"
  by (induction xs) auto

lemma filter_insert_by_same:
  assumes "ordered xs" "P x" "\<And>y. P y \<Longrightarrow> \<not> lt x y \<and> \<not> lt y x"
  shows "filter P (insert_by lt x xs) = x # filter P xs"
  using assms
proof (induction xs)
  case Nil
  then show ?case by simp
next
  case (Cons y ys)
  then have "ordered ys" by (simp add: ordered_def)
  with Cons show ?case by auto
qed

lemma sort_by_stable:
  assumes "\<And>x y. P x \<Longrightarrow> P y \<Longrightarrow> \<not> lt x y"
  shows "filter P (sort_by lt xs) = filter P xs"
proof (induction xs)
  case Nil
  then show ?case by simp
next
  case (Cons x xs)
  show ?case
  proof (cases "P x")
    case True
    with assms Cons show ?thesis
      by (simp add: filter_insert_by_same ordered_sort_by)
  next
    case False
    with Cons show ?thesis by (simp add: filter_insert_by_other)
  qed
qed

end

context comparator
begin

text \<open>A comparator that is total on the elements leaves one order only.\<close>

lemma ordered_unique:
  assumes "ordered xs" "ordered ys" "mset xs = mset ys"
    and "\<And>x y. x \<in> set xs \<Longrightarrow> y \<in> set xs \<Longrightarrow> x \<noteq> y \<Longrightarrow> lt x y \<or> lt y x"
  shows "xs = ys"
  using assms
proof (induction xs arbitrary: ys)
  case Nil
  then show ?case by simp
next
  case (Cons x xs)
  then obtain y zs where ys: "ys = y # zs" by (metis list.exhaust mset_zero_iff_right mset.simps(2) add_mset_not_empty)
  have s: "set (x # xs) = set (y # zs)" using Cons.prems(3) ys by (metis mset_eq_setD)
  have "x = y"
  proof (rule ccontr)
    assume "x \<noteq> y"
    then have "y \<in> set xs" "x \<in> set zs" using s by auto
    then have "\<not> lt y x" "\<not> lt x y" using Cons.prems(1,2) ys by (auto simp: ordered_def)
    with \<open>x \<noteq> y\<close> \<open>y \<in> set xs\<close> Cons.prems(4) show False by auto
  qed
  moreover have "xs = zs" using Cons ys \<open>x = y\<close> by (intro Cons.IH) (auto simp: ordered_def)
  ultimately show ?case using ys by simp
qed

lemma sort_by_unique:
  assumes "mset xs = mset ys" "\<And>x y. x \<in> set xs \<Longrightarrow> y \<in> set xs \<Longrightarrow> x \<noteq> y \<Longrightarrow> lt x y \<or> lt y x"
  shows "sort_by lt xs = sort_by lt ys"
  using assms by (intro ordered_unique) (auto simp: ordered_sort_by)

lemma hd_sort_by_unique:
  assumes "x \<in> set xs" "\<And>y. y \<in> set xs \<Longrightarrow> \<not> lt y x"
    and "\<And>y. y \<in> set xs \<Longrightarrow> x \<noteq> y \<Longrightarrow> lt x y \<or> lt y x"
  shows "hd (sort_by lt xs) = x"
proof -
  have "sort_by lt xs \<noteq> []" using assms(1) by auto
  then have "hd (sort_by lt xs) \<in> set xs" by (metis hd_in_set set_sort_by)
  then show ?thesis using hd_sort_by_minimal [OF assms(1) refl] assms(2,3) by metis
qed

end

lemma map_insert_by:
  "\<forall>y \<in> set ys. lt y x = lt' (h y) (h x) \<Longrightarrow> map h (insert_by lt x ys) = insert_by lt' (h x) (map h ys)"
  by (induction ys) auto

lemma map_sort_by:
  "\<forall>x \<in> set xs. \<forall>y \<in> set xs. lt x y = lt' (h x) (h y) \<Longrightarrow> map h (sort_by lt xs) = sort_by lt' (map h xs)"
proof (induction xs)
  case (Cons x xs)
  then have "map h (insert_by lt x (sort_by lt xs)) = insert_by lt' (h x) (map h (sort_by lt xs))"
    by (intro map_insert_by) auto
  with Cons show ?case by simp
qed simp

text \<open>A comparator that compares a key of a linear order meets the contract.\<close>

lemma comparator_key: "comparator (\<lambda>x y. (f x :: 'k :: linorder) < f y)"
  by unfold_locales auto

lemma comparator_key_desc: "comparator (\<lambda>x y. (f y :: 'k :: linorder) < f x)"
  by unfold_locales auto

text \<open>
  Comparing by a first comparator and breaking its ties by a second one, as the
  \<^verbatim>\<open>if a.x != b.x { return a.x < b.x }\<close> chains of the source do.
\<close>

definition lex_cmp :: "('a \<Rightarrow> 'k :: linorder) \<Rightarrow> ('a \<Rightarrow> 'a \<Rightarrow> bool) \<Rightarrow> 'a \<Rightarrow> 'a \<Rightarrow> bool" where
  "lex_cmp f lt x y = (if f x \<noteq> f y then f x < f y else lt x y)"

lemma comparator_lex:
  assumes "comparator lt"
  shows "comparator (lex_cmp f lt)"
proof -
  have asym: "lt x y \<Longrightarrow> \<not> lt y x" and neg: "lt x z \<Longrightarrow> lt x y \<or> lt y z" for x y z
    using assms by (simp_all add: comparator_def)
  show ?thesis
  proof (unfold_locales)
    show "lex_cmp f lt x y \<Longrightarrow> \<not> lex_cmp f lt y x" for x y
      using asym by (auto simp: lex_cmp_def split: if_splits)
    show "lex_cmp f lt x z \<Longrightarrow> lex_cmp f lt x y \<or> lex_cmp f lt y z" for x y z
      using neg by (auto simp: lex_cmp_def split: if_splits)
  qed
qed

section \<open>Finite bookkeeping on lists\<close>

definition upd_row :: "('r \<Rightarrow> bool) \<Rightarrow> ('r \<Rightarrow> 'r) \<Rightarrow> 'r list \<Rightarrow> 'r list" where
  "upd_row p f rs = map (\<lambda>r. if p r then f r else r) rs"

lemma upd_row_Nil [simp]: "upd_row p f [] = []"
  by (simp add: upd_row_def)

lemma upd_row_Cons [simp]: "upd_row p f (r # rs) = (if p r then f r else r) # upd_row p f rs"
  by (simp add: upd_row_def)

lemma length_upd_row [simp]: "length (upd_row p f rs) = length rs"
  by (simp add: upd_row_def)

lemma in_set_upd_row_iff:
  "r \<in> set (upd_row p f rs) \<longleftrightarrow> (\<exists>q \<in> set rs. r = (if p q then f q else q))"
  by (auto simp: upd_row_def)

lemma upd_row_none: "(\<And>r. r \<in> set rs \<Longrightarrow> \<not> p r) \<Longrightarrow> upd_row p f rs = rs"
  by (induction rs) auto

lemma map_key_upd_row:
  "(\<And>r. k (f r) = k r) \<Longrightarrow> map k (upd_row p f rs) = map k rs"
  by (induction rs) auto

lemma find_eq_None_iff: "List.find p xs = None \<longleftrightarrow> (\<forall>x \<in> set xs. \<not> p x)"
  by (induction xs) auto

lemma find_eq_SomeD: "List.find p xs = Some x \<Longrightarrow> x \<in> set xs \<and> p x"
  by (induction xs) (auto split: if_splits)

lemma find_SomeI: "x \<in> set xs \<Longrightarrow> p x \<Longrightarrow> \<exists>y. List.find p xs = Some y"
  by (induction xs) auto

end
