(* ===== verification/GoText.thy ===== *)
theory GoText
  imports Prelude UnicodeTables "HOL-Library.Sublist"
begin

text \<open>
  Go strings and the functions of the packages \<^verbatim>\<open>strings\<close>, \<^verbatim>\<open>path\<close>, \<^verbatim>\<open>path/filepath\<close>,
  \<^verbatim>\<open>strconv\<close> and \<^verbatim>\<open>fmt\<close> that the program calls. A string is the list of its runes: the
  model covers valid UTF-8, for which ranging over a string, the \<^verbatim>\<open>strings\<close> functions and
  the byte-wise order of strings agree with their rune-wise counterparts. \<^verbatim>\<open>filepath\<close> is the
  Unix implementation, where it agrees with \<^verbatim>\<open>path\<close>.
\<close>

type_synonym gostr = "rune list"

text \<open>\<open>lit\<close> is an ASCII string literal of the source.\<close>

definition lit :: "string \<Rightarrow> gostr" where
  "lit s = map of_char s"

lemma lit_simps [simp, go_text]:
  "lit [] = []"
  "lit (c # cs) = of_char c # lit cs"
  by (simp_all add: lit_def)

section \<open>Package strings\<close>

definition trim_left_func :: "(rune \<Rightarrow> bool) \<Rightarrow> gostr \<Rightarrow> gostr" where
  "trim_left_func p s = dropWhile p s"

definition trim_right_func :: "(rune \<Rightarrow> bool) \<Rightarrow> gostr \<Rightarrow> gostr" where
  "trim_right_func p s = rev (dropWhile p (rev s))"

definition trim_func :: "(rune \<Rightarrow> bool) \<Rightarrow> gostr \<Rightarrow> gostr" where
  "trim_func p s = trim_right_func p (trim_left_func p s)"

definition trim_space :: "gostr \<Rightarrow> gostr" where
  "trim_space s = trim_func is_space s"

definition to_lower :: "gostr \<Rightarrow> gostr" where
  "to_lower s = map rune_lower s"

definition has_prefix :: "gostr \<Rightarrow> gostr \<Rightarrow> bool" where
  "has_prefix s p = (take (length p) s = p)"

definition has_suffix :: "gostr \<Rightarrow> gostr \<Rightarrow> bool" where
  "has_suffix s p = has_prefix (rev s) (rev p)"

definition trim_prefix :: "gostr \<Rightarrow> gostr \<Rightarrow> gostr" where
  "trim_prefix s p = (if has_prefix s p then drop (length p) s else s)"

definition trim_suffix :: "gostr \<Rightarrow> gostr \<Rightarrow> gostr" where
  "trim_suffix s p = (if has_suffix s p then take (length s - length p) s else s)"

fun contains_str :: "gostr \<Rightarrow> gostr \<Rightarrow> bool" where
  "contains_str [] p = (p = [])"
| "contains_str (c # s) p = (has_prefix (c # s) p \<or> contains_str s p)"

text \<open>\<^verbatim>\<open>strings.FieldsFunc\<close>: maximal runs of runes that do not satisfy \<open>p\<close>.\<close>

fun fields_acc :: "(rune \<Rightarrow> bool) \<Rightarrow> gostr \<Rightarrow> gostr \<Rightarrow> gostr list" where
  "fields_acc p cur [] = (if cur = [] then [] else [rev cur])"
| "fields_acc p cur (c # s) =
     (if p c then (if cur = [] then fields_acc p [] s else rev cur # fields_acc p [] s)
      else fields_acc p (c # cur) s)"

definition fields_func :: "(rune \<Rightarrow> bool) \<Rightarrow> gostr \<Rightarrow> gostr list" where
  "fields_func p s = fields_acc p [] s"

definition str_fields :: "gostr \<Rightarrow> gostr list" where
  "str_fields s = fields_func is_space s"

fun join :: "gostr list \<Rightarrow> gostr \<Rightarrow> gostr" where
  "join [] sep = []"
| "join [x] sep = x"
| "join (x # y # ys) sep = x @ sep @ join (y # ys) sep"

text \<open>\<^verbatim>\<open>strings.Split\<close> and \<^verbatim>\<open>strings.SplitN\<close> with a one-rune separator (\<open>n > 0\<close> for the latter).\<close>

fun split_acc :: "rune \<Rightarrow> gostr \<Rightarrow> gostr \<Rightarrow> gostr list" where
  "split_acc sep cur [] = [rev cur]"
| "split_acc sep cur (c # s) =
     (if c = sep then rev cur # split_acc sep [] s else split_acc sep (c # cur) s)"

definition split_on :: "rune \<Rightarrow> gostr \<Rightarrow> gostr list" where
  "split_on sep s = split_acc sep [] s"

fun split_n_acc :: "rune \<Rightarrow> nat \<Rightarrow> gostr \<Rightarrow> gostr \<Rightarrow> gostr list" where
  "split_n_acc sep n cur [] = [rev cur]"
| "split_n_acc sep n cur (c # s) =
     (if n \<le> 1 then [rev cur @ c # s]
      else if c = sep then rev cur # split_n_acc sep (n - 1) [] s
      else split_n_acc sep n (c # cur) s)"

definition split_n :: "rune \<Rightarrow> nat \<Rightarrow> gostr \<Rightarrow> gostr list" where
  "split_n sep n s = (if n = 0 then [] else split_n_acc sep n [] s)"

text \<open>\<^verbatim>\<open>strings.ReplaceAll\<close> of one rune by another.\<close>

definition replace_rune :: "rune \<Rightarrow> rune \<Rightarrow> gostr \<Rightarrow> gostr" where
  "replace_rune a b s = map (\<lambda>c. if c = a then b else c) s"

text \<open>
  \<^verbatim>\<open>strings.EqualFold\<close> against an ASCII literal: simple folding maps the long s (U+017F) to
  \<^verbatim>\<open>s\<close> and the Kelvin sign (U+212A) to \<^verbatim>\<open>k\<close>; no other rune outside ASCII folds into ASCII, and the
  dotted capital i (U+0130), whose lower case is \<^verbatim>\<open>i\<close>, folds to itself only.
\<close>

definition fold_rune :: "rune \<Rightarrow> rune" where
  "fold_rune r = (if r = 383 then 115 else if r = 8490 then 107 else if r = 304 then 304 else rune_lower r)"

definition equal_fold_ascii :: "gostr \<Rightarrow> gostr \<Rightarrow> bool" where
  "equal_fold_ascii s t = (map fold_rune s = map fold_rune t)"

text \<open>The byte-wise order \<^verbatim>\<open><\<close> of strings.\<close>

fun str_less :: "gostr \<Rightarrow> gostr \<Rightarrow> bool" where
  "str_less [] [] = False"
| "str_less [] (d # t) = True"
| "str_less (c # s) [] = False"
| "str_less (c # s) (d # t) = (if c \<noteq> d then c < d else str_less s t)"

text \<open>
  The UTF-8 length of a string in bytes, and the slice \<^verbatim>\<open>s[n:]\<close> at a byte offset \<open>n\<close>: the bytes of a
  rune that the offset cuts decode to the replacement character, one for each byte left.
\<close>

definition rune_len :: "rune \<Rightarrow> nat" where
  "rune_len r = (if r < 128 then 1 else if r < 2048 then 2 else if r < 65536 then 3 else 4)"

definition byte_len :: "gostr \<Rightarrow> nat" where
  "byte_len s = sum_list (map rune_len s)"

fun byte_drop :: "nat \<Rightarrow> gostr \<Rightarrow> gostr" where
  "byte_drop n [] = []"
| "byte_drop n (c # s) =
     (if n = 0 then c # s
      else if n < rune_len c then replicate (rune_len c - n) 65533 @ s
      else byte_drop (n - rune_len c) s)"

section \<open>Packages path and path/filepath\<close>

abbreviation slash :: rune where "slash \<equiv> 47"
abbreviation dot :: rune where "dot \<equiv> 46"

definition path_base :: "gostr \<Rightarrow> gostr" where
  "path_base p =
     (if p = [] then [dot]
      else let q = trim_right_func (\<lambda>c. c = slash) p
           in if q = [] then [slash] else last (split_on slash q))"

text \<open>\<^verbatim>\<open>path.Ext\<close>: from the last dot of the last element, the empty string when it has none.\<close>

definition path_ext :: "gostr \<Rightarrow> gostr" where
  "path_ext p =
     (let e = last (split_on slash p)
      in if dot \<in> set e then dot # rev (takeWhile (\<lambda>c. c \<noteq> dot) (rev e)) else [])"

text \<open>
  \<^verbatim>\<open>path.Clean\<close>: elements are processed left to right with the output reversed; a \<^verbatim>\<open>..\<close> removes
  the previous element, is dropped at the root and kept at the front of a relative path.
\<close>

fun clean_elems :: "bool \<Rightarrow> gostr list \<Rightarrow> gostr list \<Rightarrow> gostr list" where
  "clean_elems rooted out [] = rev out"
| "clean_elems rooted out (e # es) =
     (if e = [] \<or> e = [dot] then clean_elems rooted out es
      else if e = [dot, dot] then
        (case out of
           [] \<Rightarrow> if rooted then clean_elems rooted [] es else clean_elems rooted [e] es
         | o1 # os \<Rightarrow> if o1 = [dot, dot] then clean_elems rooted (e # out) es
                    else clean_elems rooted os es)
      else clean_elems rooted (e # out) es)"

definition path_clean :: "gostr \<Rightarrow> gostr" where
  "path_clean p =
     (if p = [] then [dot]
      else let rooted = has_prefix p [slash];
               body = join (clean_elems rooted [] (split_on slash p)) [slash]
           in if rooted then slash # body else if body = [] then [dot] else body)"

text \<open>\<^verbatim>\<open>path.Dir\<close>: everything up to and including the last slash, cleaned.\<close>

definition path_dir :: "gostr \<Rightarrow> gostr" where
  "path_dir p = path_clean (rev (dropWhile (\<lambda>c. c \<noteq> slash) (rev p)))"

text \<open>\<^verbatim>\<open>filepath.Join\<close>: the non-empty elements joined by slashes and cleaned.\<close>

definition path_join :: "gostr list \<Rightarrow> gostr" where
  "path_join es =
     (let ne = dropWhile (\<lambda>e. e = []) es
      in if ne = [] then [] else path_clean (join ne [slash]))"

section \<open>Decimal conversion\<close>

fun digits_acc :: "nat \<Rightarrow> nat \<Rightarrow> gostr \<Rightarrow> gostr" where
  "digits_acc 0 n acc = acc"
| "digits_acc (Suc k) n acc =
     (let acc' = (48 + int (n mod 10)) # acc
      in if n < 10 then acc' else digits_acc k (n div 10) acc')"

text \<open>\<open>nat_str\<close> prints a natural number; \<open>Suc n\<close> steps are enough for the digits of \<open>n\<close>.\<close>

definition nat_str :: "nat \<Rightarrow> gostr" where
  "nat_str n = digits_acc (Suc n) n []"

definition itoa :: "int \<Rightarrow> gostr" where
  "itoa i = (if i < 0 then 45 # nat_str (nat (- i)) else nat_str (nat i))"

text \<open>\<^verbatim>\<open>%0wd\<close> for a nonnegative number.\<close>

definition pad_zero :: "nat \<Rightarrow> int \<Rightarrow> gostr" where
  "pad_zero w i = (let s = itoa i in replicate (w - length s) 48 @ s)"

text \<open>\<^verbatim>\<open>domain.decimal\<close> lives in file\_selection.go but is a pure text function used by three components.\<close>

fun decimal_acc :: "int \<Rightarrow> gostr \<Rightarrow> int" where
  "decimal_acc result [] = result"
| "decimal_acc result (c # cs) =
     (if c < 48 \<or> c > 57 then 0 else decimal_acc (result * 10 + (c - 48)) cs)"

definition decimal :: "gostr \<Rightarrow> int" where
  "decimal value = decimal_acc 0 value"

section \<open>Facts\<close>

lemmas text_defs = trim_space_def trim_func_def trim_left_func_def trim_right_func_def
  to_lower_def has_prefix_def has_suffix_def trim_prefix_def trim_suffix_def fields_func_def
  str_fields_def split_on_def replace_rune_def

declare text_defs [go_text]

lemma has_prefix_append [simp]: "has_prefix (p @ s) p"
  by (simp add: has_prefix_def)

lemma has_prefix_Nil [simp]: "has_prefix s []"
  by (simp add: has_prefix_def)

lemma has_prefix_iff: "has_prefix s p \<longleftrightarrow> (\<exists>t. s = p @ t)"
  by (metis append_take_drop_id has_prefix_append has_prefix_def)

lemma has_suffix_iff: "has_suffix s p \<longleftrightarrow> (\<exists>t. s = t @ p)"
proof -
  have "has_suffix s p \<longleftrightarrow> (\<exists>t. rev s = rev p @ t)"
    by (simp add: has_suffix_def has_prefix_iff)
  also have "\<dots> \<longleftrightarrow> (\<exists>t. s = t @ p)"
    by (metis rev_append rev_rev_ident)
  finally show ?thesis .
qed

lemma trim_suffix_append [simp]: "trim_suffix (s @ p) p = s"
  by (simp add: trim_suffix_def has_suffix_iff)

lemma contains_str_iff: "contains_str s p \<longleftrightarrow> (\<exists>u v. s = u @ p @ v)"
proof (induction s)
  case Nil
  then show ?case by auto
next
  case IH: (Cons c s)
  show ?case
  proof
    assume "contains_str (c # s) p"
    then consider "has_prefix (c # s) p" | "contains_str s p" by auto
    then show "\<exists>u v. c # s = u @ p @ v"
    proof cases
      case 1
      then show ?thesis by (auto simp: has_prefix_iff intro: exI [of _ "[]"])
    next
      case 2
      then obtain u v where "s = u @ p @ v" using IH by blast
      then have "c # s = (c # u) @ p @ v" by simp
      then show ?thesis by blast
    qed
  next
    assume "\<exists>u v. c # s = u @ p @ v"
    then obtain u v where "c # s = u @ p @ v" by blast
    then show "contains_str (c # s) p"
    proof (cases u)
      case Nil
      then have "has_prefix (c # s) p" using \<open>c # s = u @ p @ v\<close> by simp
      then show ?thesis by simp
    next
      case (Cons d w)
      then have "s = w @ p @ v" using \<open>c # s = u @ p @ v\<close> by simp
      then have "contains_str s p" using IH by blast
      then show ?thesis by simp
    qed
  qed
qed

lemma set_dropWhile_subset: "set (dropWhile p xs) \<subseteq> set xs"
  by (induction xs) auto

lemma set_trim_func: "set (trim_func p s) \<subseteq> set s"
proof -
  have "set (dropWhile p (rev (dropWhile p s))) \<subseteq> set (dropWhile p s)"
    using set_dropWhile_subset [of p "rev (dropWhile p s)"] by simp
  then show ?thesis
    using set_dropWhile_subset [of p s]
    by (auto simp: trim_func_def trim_left_func_def trim_right_func_def)
qed

lemma dropWhile_eq_Cons: "dropWhile p xs = y # ys \<Longrightarrow> \<not> p y"
  by (induction xs) (auto split: if_splits)

lemma trim_left_hd: "trim_left_func p s = c # t \<Longrightarrow> \<not> p c"
  unfolding trim_left_func_def by (rule dropWhile_eq_Cons)

lemma trim_right_last: "trim_right_func p s \<noteq> [] \<Longrightarrow> \<not> p (last (trim_right_func p s))"
  by (simp add: trim_right_func_def last_rev hd_dropWhile)

lemma dropWhile_append_hd:
  "xs \<noteq> [] \<Longrightarrow> \<not> p (hd xs) \<Longrightarrow> dropWhile p xs = xs"
  by (cases xs) auto

lemma trim_right_prefix: "\<exists>t. s = trim_right_func p s @ t"
proof -
  have "rev s = takeWhile p (rev s) @ dropWhile p (rev s)" by simp
  then have "s = rev (dropWhile p (rev s)) @ rev (takeWhile p (rev s))"
    by (metis rev_append rev_rev_ident)
  then show ?thesis unfolding trim_right_func_def by blast
qed

lemma trim_func_hd:
  assumes "trim_func p s \<noteq> []"
  shows "\<not> p (hd (trim_func p s))"
proof -
  let ?l = "trim_left_func p s"
  obtain t where t: "?l = trim_right_func p ?l @ t" using trim_right_prefix by blast
  with assms have "hd ?l = hd (trim_func p s)" "?l \<noteq> []"
    by (metis hd_append2 trim_func_def, metis append_is_Nil_conv trim_func_def)
  then show ?thesis by (metis hd_dropWhile trim_left_func_def)
qed

lemma trim_func_last: "trim_func p s \<noteq> [] \<Longrightarrow> \<not> p (last (trim_func p s))"
  by (simp add: trim_func_def trim_right_last)

lemma trim_func_fixed:
  assumes "s \<noteq> [] \<Longrightarrow> \<not> p (hd s)" "s \<noteq> [] \<Longrightarrow> \<not> p (last s)"
  shows "trim_func p s = s"
proof (cases "s = []")
  case True
  then show ?thesis by (simp add: trim_func_def trim_left_func_def trim_right_func_def)
next
  case False
  then have "dropWhile p s = s" "dropWhile p (rev s) = rev s"
    using assms by (simp_all add: dropWhile_append_hd hd_rev)
  then show ?thesis by (simp add: trim_func_def trim_left_func_def trim_right_func_def)
qed

lemma trim_func_idem [simp]: "trim_func p (trim_func p s) = trim_func p s"
  by (rule trim_func_fixed) (simp_all add: trim_func_hd trim_func_last)

lemma trim_space_idem [simp]: "trim_space (trim_space s) = trim_space s"
  by (simp add: trim_space_def)

lemma trim_space_Nil [simp]: "trim_space [] = []"
  by (simp add: text_defs)

subsection \<open>Paths built from proper elements\<close>

text \<open>A proper element names a file or a directory in place: no slash, not empty, not a dot entry.\<close>

definition proper_elem :: "gostr \<Rightarrow> bool" where
  "proper_elem e \<longleftrightarrow> slash \<notin> set e \<and> e \<noteq> [] \<and> e \<noteq> [dot] \<and> e \<noteq> [dot, dot]"

lemma split_acc_no_sep: "sep \<notin> set s \<Longrightarrow> split_acc sep cur s = [rev cur @ s]"
  by (induction s arbitrary: cur) auto

lemma split_acc_append:
  "sep \<notin> set s \<Longrightarrow> split_acc sep cur (s @ sep # t) = (rev cur @ s) # split_acc sep [] t"
  by (induction s arbitrary: cur) auto

lemma split_on_no_sep [simp]: "sep \<notin> set s \<Longrightarrow> split_on sep s = [s]"
  by (simp add: split_on_def split_acc_no_sep)

lemma split_on_join:
  "ws \<noteq> [] \<Longrightarrow> \<forall>w \<in> set ws. sep \<notin> set w \<Longrightarrow> split_on sep (join ws [sep]) = ws"
  by (induction ws "[sep]" rule: join.induct)
     (simp_all add: split_on_def split_acc_no_sep split_acc_append)

lemma clean_elems_proper: "\<forall>e \<in> set es. proper_elem e \<Longrightarrow> clean_elems r out es = rev out @ es"
  by (induction es arbitrary: out) (auto simp: proper_elem_def)

lemma join_eq_Nil: "\<forall>e \<in> set es. e \<noteq> [] \<Longrightarrow> join es sep = [] \<longleftrightarrow> es = []"
  by (induction es sep rule: join.induct) auto

lemma hd_join_proper:
  "es \<noteq> [] \<Longrightarrow> \<forall>e \<in> set es. proper_elem e \<Longrightarrow> join es sep \<noteq> [] \<and> hd (join es sep) = hd (hd es)"
  by (induction es sep rule: join.induct) (auto simp: proper_elem_def hd_append)

lemma path_clean_join_proper:
  assumes "es \<noteq> []" "\<forall>e \<in> set es. proper_elem e"
  shows "path_clean (join es [slash]) = join es [slash]"
proof -
  have sl: "\<forall>e \<in> set es. slash \<notin> set e" and "hd es \<in> set es"
    using assms by (auto simp: proper_elem_def)
  then have "hd (join es [slash]) \<noteq> slash" "join es [slash] \<noteq> []"
    using hd_join_proper [OF assms, of "[slash]"] assms
    by (metis hd_in_set proper_elem_def, simp)
  then have "\<not> has_prefix (join es [slash]) [slash]" by (auto simp: has_prefix_iff)
  then show ?thesis
    using \<open>join es [slash] \<noteq> []\<close> assms
    by (simp add: path_clean_def split_on_join [OF assms(1) sl] clean_elems_proper)
qed

lemma path_join_proper:
  assumes "es \<noteq> []" "\<forall>e \<in> set es. proper_elem e"
  shows "path_join es = join es [slash]"
proof -
  have "dropWhile (\<lambda>e. e = []) es = es" using assms by (cases es) (auto simp: proper_elem_def)
  then show ?thesis using assms by (simp add: path_join_def path_clean_join_proper)
qed

lemma path_join_nested:
  assumes "proper_elem a" "proper_elem b" "proper_elem c"
  shows "path_join [path_join [a, b], c] = a @ [slash] @ b @ [slash] @ c"
proof -
  have "path_join [a @ [slash] @ b, c] = path_clean (join [a, b, c] [slash])"
    using assms by (simp add: path_join_def proper_elem_def)
  also have "\<dots> = a @ [slash] @ b @ [slash] @ c"
    using assms path_clean_join_proper [of "[a, b, c]"] by simp
  finally show ?thesis using assms by (simp add: path_join_proper)
qed

lemma path_base_no_slash: "slash \<notin> set e \<Longrightarrow> e \<noteq> [] \<Longrightarrow> path_base e = e"
proof -
  assume e: "slash \<notin> set e" "e \<noteq> []"
  then have "\<not> (hd (rev e) = slash)" "rev e \<noteq> []" by (metis hd_in_set set_rev rev_is_Nil_conv, simp)
  then have "trim_right_func (\<lambda>c. c = slash) e = e"
    using dropWhile_append_hd [of "rev e" "\<lambda>c. c = slash"] by (simp add: trim_right_func_def)
  with e show ?thesis by (simp add: path_base_def)
qed

lemma split_acc_ne [simp]: "split_acc sep cur s \<noteq> []"
  by (induction s arbitrary: cur) auto

lemma path_base_join:
  assumes "slash \<notin> set e" "e \<noteq> []"
  shows "path_base (d @ [slash] @ e) = e"
proof -
  have last: "last (split_acc slash cur (d @ slash # e)) = e" for cur
    using assms by (induction d arbitrary: cur) (auto simp: split_acc_no_sep)
  have "rev e \<noteq> []" "hd (rev e) \<noteq> slash" using assms by (simp, metis hd_in_set rev_is_Nil_conv set_rev)
  then have "trim_right_func (\<lambda>c. c = slash) (d @ [slash] @ e) = d @ [slash] @ e"
    using dropWhile_append_hd [of "rev (d @ [slash] @ e)" "\<lambda>c. c = slash"]
    by (simp add: trim_right_func_def hd_append)
  then show ?thesis by (simp add: path_base_def split_on_def last)
qed

lemma path_ext_append:
  assumes "slash \<notin> set b" "slash \<notin> set x" "dot \<notin> set x"
  shows "path_ext (b @ dot # x) = dot # x"
proof -
  have "takeWhile (\<lambda>c. c \<noteq> dot) (rev (b @ dot # x)) = rev x"
    using assms by (auto simp: takeWhile_append)
  with assms show ?thesis by (simp add: path_ext_def)
qed

lemma trim_prefix_append [simp]: "trim_prefix (p @ s) p = s"
  by (simp add: trim_prefix_def)

subsection \<open>Decimal text\<close>

lemma digits_acc_set:
  "\<forall>c \<in> set acc. 48 \<le> c \<and> c \<le> 57 \<Longrightarrow> \<forall>c \<in> set (digits_acc k n acc). 48 \<le> c \<and> c \<le> 57"
  by (induction k n acc rule: digits_acc.induct) (auto simp: Let_def)

lemma digits_acc_length: "length acc \<le> length (digits_acc k n acc)"
  by (induction k n acc rule: digits_acc.induct) (auto simp: Let_def dest: Suc_leD)

lemma nat_str_set: "c \<in> set (nat_str n) \<Longrightarrow> 48 \<le> c \<and> c \<le> 57"
  using digits_acc_set [of "[]" "Suc n" n] by (simp add: nat_str_def)

lemma nat_str_ne: "nat_str n \<noteq> []"
  using digits_acc_length [of "[48 + int (n mod 10)]" n "n div 10"]
  by (auto simp: nat_str_def Let_def)

lemma pad_zero_set: "0 \<le> i \<Longrightarrow> c \<in> set (pad_zero w i) \<Longrightarrow> 48 \<le> c \<and> c \<le> 57"
  using nat_str_set by (auto simp: pad_zero_def itoa_def Let_def)

subsection \<open>Printing and reading numbers\<close>

lemma decimal_acc_snoc:
  "\<forall>c \<in> set s. 48 \<le> c \<and> c \<le> 57 \<Longrightarrow> 48 \<le> d \<Longrightarrow> d \<le> 57 \<Longrightarrow>
     decimal_acc r (s @ [d]) = decimal_acc r s * 10 + (d - 48)"
  by (induction s arbitrary: r) auto

lemma digits_acc_append: "digits_acc k n acc = digits_acc k n [] @ acc"
proof (induction k arbitrary: n acc)
  case 0
  then show ?case by simp
next
  case (Suc k)
  show ?case using Suc.IH [of "n div 10" "(48 + int (n mod 10)) # acc"]
      Suc.IH [of "n div 10" "[48 + int (n mod 10)]"] by (simp add: Let_def)
qed

lemma decimal_digits: "n < k \<Longrightarrow> decimal_acc 0 (digits_acc k n []) = int n"
proof (induction k arbitrary: n)
  case 0
  then show ?case by simp
next
  case (Suc k)
  show ?case
  proof (cases "n < 10")
    case False
    then have "n div 10 < k" using Suc.prems by auto
    moreover have "\<forall>c \<in> set (digits_acc k (n div 10) []). 48 \<le> c \<and> c \<le> 57"
      using digits_acc_set [of "[]" k "n div 10"] by auto
    ultimately have "decimal_acc 0 (digits_acc k (n div 10) [] @ [48 + int (n mod 10)]) =
        int (n div 10) * 10 + int (n mod 10)"
      using Suc.IH by (subst decimal_acc_snoc) auto
    moreover have "int (n div 10) * 10 + int (n mod 10) = int n"
      by (metis div_mult_mod_eq of_nat_add of_nat_mult of_nat_numeral)
    ultimately show ?thesis using False digits_acc_append [of k "n div 10" "[48 + int (n mod 10)]"]
      by (simp add: Let_def)
  qed simp
qed

lemma decimal_nat_str: "decimal (nat_str n) = int n"
  by (simp add: decimal_def nat_str_def decimal_digits del: digits_acc.simps)

lemma nat_str_inj: "nat_str m = nat_str n \<Longrightarrow> m = n"
  by (metis decimal_nat_str of_nat_eq_iff)

lemma itoa_inj: "itoa i = itoa j \<Longrightarrow> i = j"
proof -
  have h: "nat_str n \<noteq> 45 # s" for n s
    using nat_str_set [of 45 n] by auto
  assume "itoa i = itoa j"
  then show ?thesis
    using h h [symmetric] by (auto simp: itoa_def split: if_splits dest!: nat_str_inj)
qed

subsection \<open>The order of strings\<close>

lemma str_less_irrefl: "\<not> str_less s s"
  by (induction s) auto

lemma str_less_asym: "str_less s t \<Longrightarrow> \<not> str_less t s"
  by (induction s t rule: str_less.induct) (auto split: if_splits)

lemma str_less_negative_trans: "str_less s u \<Longrightarrow> str_less s t \<or> str_less t u"
proof (induction s u arbitrary: t rule: str_less.induct)
  case (2 d u)
  then show ?case by (cases t) auto
next
  case (4 c s d u)
  then show ?case by (cases t) (auto split: if_splits)
qed auto

end
