(* ===== verification/EpisodeMapping.thy ===== *)
theory EpisodeMapping
  imports GoText
begin

text \<open>
  Mapping of source episodes to TMDb episodes (\<^verbatim>\<open>internal/domain/mapping.go\<close>): one anchor pairs a
  source episode with a TMDb episode, and every other episode of the same source season is
  placed relative to it on the absolute sequence that the regular TMDb seasons form. Episode
  and season numbers are far from the range of Go's 64-bit \<^verbatim>\<open>int\<close> and are modelled by \<open>int\<close>.
\<close>

section \<open>Data\<close>

record EpisodeCoordinate =
  Season :: int
  Episode :: int
  EpisodeFractionHundredths :: int

abbreviation coord :: "int \<Rightarrow> int \<Rightarrow> EpisodeCoordinate" where
  "coord s e \<equiv> \<lparr>Season = s, Episode = e, EpisodeFractionHundredths = 0\<rparr>"

definition zero_coord :: EpisodeCoordinate where
  "zero_coord = coord 0 0"

record TMDbSeason =
  SeasonNumber :: int
  EpisodeCount :: int
  Titles :: "int \<rightharpoonup> gostr"

record EpisodeMappingRequest =
  Source :: EpisodeCoordinate
  AnchorSource :: EpisodeCoordinate
  AnchorTarget :: EpisodeCoordinate
  TMDbSeasons :: "TMDbSeason list"

datatype MappingStatus = MappingMapped | MappingPending | MappingExcluded

datatype MappingMatchSource =
  MappingMatchAnchor | MappingMatchExplicit | MappingMatchAbsolute | MappingMatchPending

record EpisodeMappingResult =
  Status :: MappingStatus
  AbsoluteEpisode :: int
  Target :: EpisodeCoordinate
  TargetTitle :: gostr
  MatchSource :: MappingMatchSource
  ErrorCode :: string

section \<open>Operations\<close>

definition validSourceCoordinate :: "EpisodeCoordinate \<Rightarrow> bool" where
  "validSourceCoordinate c =
     (Season c > 0 \<and> Episode c > 0 \<and>
      EpisodeFractionHundredths c \<ge> 0 \<and> EpisodeFractionHundredths c \<le> 99)"

definition validTargetCoordinate :: "EpisodeCoordinate \<Rightarrow> bool" where
  "validTargetCoordinate c =
     (Season c \<ge> 0 \<and> Episode c > 0 \<and> EpisodeFractionHundredths c = 0)"

definition pendingMapping :: "int \<Rightarrow> EpisodeCoordinate \<Rightarrow> string \<Rightarrow> EpisodeMappingResult" where
  "pendingMapping absolute target code =
     \<lparr>Status = MappingPending, AbsoluteEpisode = absolute, Target = target, TargetTitle = [],
      MatchSource = MappingMatchPending, ErrorCode = code\<rparr>"

definition season_less :: "TMDbSeason \<Rightarrow> TMDbSeason \<Rightarrow> bool" where
  "season_less l r = (SeasonNumber l < SeasonNumber r)"

definition regularTMDbSeasons :: "TMDbSeason list \<Rightarrow> TMDbSeason list" where
  "regularTMDbSeasons seasons =
     sort_by season_less (filter (\<lambda>s. SeasonNumber s > 0 \<and> EpisodeCount s > 0) seasons)"

text \<open>The loops over the regular seasons; \<open>None\<close> is the result \<^verbatim>\<open>(_, false)\<close>.\<close>

fun absolute_loop :: "EpisodeCoordinate \<Rightarrow> int \<Rightarrow> TMDbSeason list \<Rightarrow> int option" where
  "absolute_loop target absolute [] = None"
| "absolute_loop target absolute (season # ss) =
     (if SeasonNumber season = Season target then
        (if Episode target > EpisodeCount season then None else Some (absolute + Episode target))
      else absolute_loop target (absolute + EpisodeCount season) ss)"

definition AbsoluteEpisodeForTarget :: "EpisodeCoordinate \<Rightarrow> TMDbSeason list \<Rightarrow> int option" where
  "AbsoluteEpisodeForTarget target seasons =
     (if \<not> validTargetCoordinate target \<or> Season target = 0 then None
      else absolute_loop target 0 (regularTMDbSeasons seasons))"

fun target_loop :: "int \<Rightarrow> TMDbSeason list \<Rightarrow> EpisodeCoordinate option" where
  "target_loop remaining [] = None"
| "target_loop remaining (season # ss) =
     (if remaining \<le> EpisodeCount season then Some (coord (SeasonNumber season) remaining)
      else target_loop (remaining - EpisodeCount season) ss)"

definition TargetForAbsoluteEpisode :: "int \<Rightarrow> TMDbSeason list \<Rightarrow> EpisodeCoordinate option" where
  "TargetForAbsoluteEpisode absolute seasons =
     (if absolute \<le> 0 then None else target_loop absolute (regularTMDbSeasons seasons))"

definition RegularEpisodeCount :: "TMDbSeason list \<Rightarrow> int" where
  "RegularEpisodeCount seasons =
     foldl (\<lambda>total s. total + EpisodeCount s) 0 (regularTMDbSeasons seasons)"

text \<open>\<^verbatim>\<open>resolveTargetTitle\<close>: the title, or the error code.\<close>

fun resolveTargetTitle :: "TMDbSeason list \<Rightarrow> EpisodeCoordinate \<Rightarrow> (string, gostr) result" where
  "resolveTargetTitle [] target = Inl ''mapping_target_out_of_range''"
| "resolveTargetTitle (season # ss) target =
     (if SeasonNumber season \<noteq> Season target then resolveTargetTitle ss target
      else if Episode target \<le> 0 \<or> Episode target > EpisodeCount season then
        Inl ''mapping_target_out_of_range''
      else let title = trim_space (case Titles season (Episode target) of
                                     None \<Rightarrow> [] | Some t \<Rightarrow> t)
           in if title = [] then Inl ''mapping_title_missing'' else Inr title)"

definition ResolveEpisodeMapping :: "EpisodeMappingRequest \<Rightarrow> EpisodeMappingResult" where
  "ResolveEpisodeMapping request =
     (if \<not> validSourceCoordinate (Source request) \<or> \<not> validSourceCoordinate (AnchorSource request) then
        pendingMapping 0 zero_coord ''mapping_source_invalid''
      else if EpisodeFractionHundredths (Source request) \<noteq> 0 \<or>
              EpisodeFractionHundredths (AnchorSource request) \<noteq> 0 then
        pendingMapping 0 zero_coord ''mapping_source_requires_explicit''
      else if Season (Source request) \<noteq> Season (AnchorSource request) then
        pendingMapping 0 zero_coord ''mapping_source_season_mismatch''
      else
        (case AbsoluteEpisodeForTarget (AnchorTarget request) (TMDbSeasons request) of
           None \<Rightarrow> pendingMapping 0 (AnchorTarget request) ''mapping_anchor_target_invalid''
         | Some anchorAbsolute \<Rightarrow>
             let absolute = anchorAbsolute + Episode (Source request) - Episode (AnchorSource request)
             in if absolute \<le> 0 then pendingMapping 0 zero_coord ''mapping_target_out_of_range''
                else
                  (case TargetForAbsoluteEpisode absolute (TMDbSeasons request) of
                     None \<Rightarrow> pendingMapping absolute zero_coord ''mapping_target_out_of_range''
                   | Some target \<Rightarrow>
                       (case resolveTargetTitle (TMDbSeasons request) target of
                          Inl errorCode \<Rightarrow> pendingMapping absolute target errorCode
                        | Inr title \<Rightarrow>
                            \<lparr>Status = MappingMapped, AbsoluteEpisode = absolute, Target = target,
                             TargetTitle = title, MatchSource = MappingMatchAnchor,
                             ErrorCode = ''''\<rparr>))))"

definition ResolveExplicitEpisodeMapping ::
  "EpisodeCoordinate \<Rightarrow> EpisodeCoordinate \<Rightarrow> TMDbSeason list \<Rightarrow> EpisodeMappingResult" where
  "ResolveExplicitEpisodeMapping source target seasons =
     (if \<not> validSourceCoordinate source then
        pendingMapping 0 zero_coord ''mapping_source_invalid''
      else if \<not> validTargetCoordinate target then
        pendingMapping 0 target ''mapping_target_out_of_range''
      else
        (case resolveTargetTitle seasons target of
           Inl errorCode \<Rightarrow> pendingMapping 0 target errorCode
         | Inr title \<Rightarrow>
             (case (if Season target > 0 then AbsoluteEpisodeForTarget target seasons else Some 0) of
                None \<Rightarrow> pendingMapping 0 target ''mapping_target_out_of_range''
              | Some absolute \<Rightarrow>
                  \<lparr>Status = MappingMapped, AbsoluteEpisode = absolute, Target = target,
                   TargetTitle = title, MatchSource = MappingMatchExplicit, ErrorCode = ''''\<rparr>)))"

section \<open>The absolute sequence\<close>

interpretation season_order: comparator season_less
  unfolding season_less_def by (rule comparator_key)

lemma regular_positive:
  "s \<in> set (regularTMDbSeasons seasons) \<Longrightarrow> 0 < SeasonNumber s \<and> 0 < EpisodeCount s"
  by (simp add: regularTMDbSeasons_def)

lemma regular_subset: "set (regularTMDbSeasons seasons) \<subseteq> set seasons"
  by (auto simp: regularTMDbSeasons_def)

definition episode_total :: "TMDbSeason list \<Rightarrow> int" where
  "episode_total ss = sum_list (map EpisodeCount ss)"

lemma foldl_episode_count: "foldl (\<lambda>total s. total + EpisodeCount s) a ss = a + episode_total ss"
  by (induction ss arbitrary: a) (simp_all add: episode_total_def)

lemma RegularEpisodeCount_total:
  "RegularEpisodeCount seasons = episode_total (regularTMDbSeasons seasons)"
  by (simp add: RegularEpisodeCount_def foldl_episode_count)

lemma target_loop_Some_iff:
  assumes "\<forall>s \<in> set ss. 0 < EpisodeCount s" "0 < n"
  shows "(\<exists>c. target_loop n ss = Some c) \<longleftrightarrow> n \<le> episode_total ss"
  using assms
proof (induction ss arbitrary: n)
  case Nil
  then show ?case by (simp add: episode_total_def)
next
  case (Cons s ss)
  have "0 \<le> episode_total ss"
    using Cons.prems unfolding episode_total_def by (intro sum_list_nonneg) auto
  with Cons show ?case by (auto simp: episode_total_def)
qed

lemma target_loop_sound:
  assumes "target_loop n ss = Some c" "0 < n" "\<forall>s \<in> set ss. 0 < EpisodeCount s"
  shows "\<exists>s \<in> set ss. Season c = SeasonNumber s \<and> 0 < Episode c \<and> Episode c \<le> EpisodeCount s
           \<and> EpisodeFractionHundredths c = 0"
  using assms
proof (induction ss arbitrary: n)
  case Nil
  then show ?case by simp
next
  case (Cons s ss)
  show ?case
  proof (cases "n \<le> EpisodeCount s")
    case True
    with Cons.prems show ?thesis by auto
  next
    case False
    with Cons show ?thesis by auto
  qed
qed

lemma absolute_target_loop:
  assumes "target_loop n ss = Some c" "0 < n" "distinct (map SeasonNumber ss)"
    "\<forall>s \<in> set ss. 0 < EpisodeCount s"
  shows "absolute_loop c a ss = Some (a + n)"
  using assms
proof (induction ss arbitrary: n a)
  case Nil
  then show ?case by simp
next
  case (Cons s ss)
  show ?case
  proof (cases "n \<le> EpisodeCount s")
    case True
    with Cons.prems show ?thesis by auto
  next
    case False
    with Cons.prems have rest: "target_loop (n - EpisodeCount s) ss = Some c"
      and pos: "0 < n - EpisodeCount s" by auto
    from Cons.prems(3,4) have d: "distinct (map SeasonNumber ss)"
      and p: "\<forall>s \<in> set ss. 0 < EpisodeCount s" by auto
    obtain s' where "s' \<in> set ss" "Season c = SeasonNumber s'"
      using target_loop_sound [OF rest pos p] by blast
    with Cons.prems(3) have "SeasonNumber s \<noteq> Season c" by auto
    with Cons.IH [OF rest pos d p] show ?thesis by simp
  qed
qed

lemma target_absolute_loop:
  assumes "absolute_loop c a ss = Some n" "0 < Episode c" "EpisodeFractionHundredths c = 0"
    "\<forall>s \<in> set ss. 0 < EpisodeCount s"
  shows "a < n \<and> target_loop (n - a) ss = Some c"
  using assms
proof (induction ss arbitrary: a)
  case Nil
  then show ?case by simp
next
  case (Cons s ss)
  show ?case
  proof (cases "SeasonNumber s = Season c")
    case True
    with Cons.prems have "Episode c \<le> EpisodeCount s" "n = a + Episode c"
      by (auto split: if_splits)
    with True Cons.prems(2,3) show ?thesis by auto
  next
    case False
    with Cons.prems have "absolute_loop c (a + EpisodeCount s) ss = Some n" by simp
    with Cons have "a + EpisodeCount s < n" "target_loop (n - (a + EpisodeCount s)) ss = Some c"
      by auto
    with Cons.prems(4) show ?thesis by (auto simp: algebra_simps)
  qed
qed


lemma distinct_regular:
  "distinct (map SeasonNumber seasons) \<Longrightarrow> distinct (map SeasonNumber (regularTMDbSeasons seasons))"
proof -
  assume d: "distinct (map SeasonNumber seasons)"
  let ?f = "filter (\<lambda>s. SeasonNumber s > 0 \<and> EpisodeCount s > 0) seasons"
  have "distinct (map SeasonNumber ?f)" using d by (simp add: distinct_map_filter)
  moreover have "mset (map SeasonNumber (sort_by season_less ?f)) = mset (map SeasonNumber ?f)"
    by simp
  ultimately show ?thesis
    unfolding regularTMDbSeasons_def by (metis mset_eq_imp_distinct_iff)
qed

lemma resolveTargetTitle_sound:
  "resolveTargetTitle seasons target = Inr title \<Longrightarrow>
     title \<noteq> [] \<and> (\<exists>s \<in> set seasons. SeasonNumber s = Season target \<and> 0 < Episode target
        \<and> Episode target \<le> EpisodeCount s)"
  by (induction seasons) (auto simp: Let_def split: if_splits)

text \<open>The whole behaviour of an anchored mapping that succeeds, in one statement.\<close>

lemma ResolveEpisodeMapping_mapped_iff:
  "Status (ResolveEpisodeMapping r) = MappingMapped \<longleftrightarrow>
     validSourceCoordinate (Source r) \<and> validSourceCoordinate (AnchorSource r) \<and>
     EpisodeFractionHundredths (Source r) = 0 \<and> EpisodeFractionHundredths (AnchorSource r) = 0 \<and>
     Season (Source r) = Season (AnchorSource r) \<and>
     (\<exists>a t title. AbsoluteEpisodeForTarget (AnchorTarget r) (TMDbSeasons r) = Some a \<and>
        0 < a + Episode (Source r) - Episode (AnchorSource r) \<and>
        TargetForAbsoluteEpisode (a + Episode (Source r) - Episode (AnchorSource r))
          (TMDbSeasons r) = Some t \<and>
        resolveTargetTitle (TMDbSeasons r) t = Inr title)"
  by (auto simp: ResolveEpisodeMapping_def pendingMapping_def Let_def
      split: option.splits sum.splits)

lemma ResolveEpisodeMapping_mappedD:
  assumes "Status (ResolveEpisodeMapping r) = MappingMapped"
  shows "\<exists>a. AbsoluteEpisodeForTarget (AnchorTarget r) (TMDbSeasons r) = Some a \<and>
     AbsoluteEpisode (ResolveEpisodeMapping r) =
       a + Episode (Source r) - Episode (AnchorSource r) \<and>
     0 < AbsoluteEpisode (ResolveEpisodeMapping r) \<and>
     TargetForAbsoluteEpisode (AbsoluteEpisode (ResolveEpisodeMapping r)) (TMDbSeasons r) =
       Some (Target (ResolveEpisodeMapping r)) \<and>
     resolveTargetTitle (TMDbSeasons r) (Target (ResolveEpisodeMapping r)) =
       Inr (TargetTitle (ResolveEpisodeMapping r))"
  using assms
  by (auto simp: ResolveEpisodeMapping_def pendingMapping_def Let_def
      split: option.splits sum.splits if_splits)

lemma ResolveEpisodeMapping_mapped_fields:
  "Status (ResolveEpisodeMapping r) = MappingMapped \<Longrightarrow>
     MatchSource (ResolveEpisodeMapping r) = MappingMatchAnchor \<and>
     ErrorCode (ResolveEpisodeMapping r) = ''''"
  by (auto simp: ResolveEpisodeMapping_def pendingMapping_def Let_def
      split: option.splits sum.splits if_splits)

lemma absolute_target_back:
  assumes d: "distinct (map SeasonNumber seasons)"
    and t: "TargetForAbsoluteEpisode n seasons = Some c"
  shows "AbsoluteEpisodeForTarget c seasons = Some n"
proof -
  let ?r = "regularTMDbSeasons seasons"
  have pos: "\<forall>s \<in> set ?r. 0 < EpisodeCount s" using regular_positive by blast
  from t have n: "0 < n" and loop: "target_loop n ?r = Some c"
    by (auto simp: TargetForAbsoluteEpisode_def split: if_splits)
  obtain s where "s \<in> set ?r" "Season c = SeasonNumber s" "0 < Episode c"
    "EpisodeFractionHundredths c = 0"
    using target_loop_sound [OF loop n pos] by blast
  with regular_positive [of s seasons] have "validTargetCoordinate c" "Season c \<noteq> 0"
    by (auto simp: validTargetCoordinate_def)
  with absolute_target_loop [OF loop n distinct_regular [OF d] pos, of 0] show ?thesis
    by (simp add: AbsoluteEpisodeForTarget_def)
qed

lemma target_absolute_back:
  assumes "AbsoluteEpisodeForTarget c seasons = Some n"
  shows "TargetForAbsoluteEpisode n seasons = Some c"
proof -
  let ?r = "regularTMDbSeasons seasons"
  have pos: "\<forall>s \<in> set ?r. 0 < EpisodeCount s" using regular_positive by blast
  from assms have "absolute_loop c 0 ?r = Some n" "validTargetCoordinate c"
    by (auto simp: AbsoluteEpisodeForTarget_def split: if_splits)
  then have "0 < n \<and> target_loop n ?r = Some c"
    using target_absolute_loop [of c 0 ?r n] pos by (simp add: validTargetCoordinate_def)
  then show ?thesis by (simp add: TargetForAbsoluteEpisode_def)
qed

section \<open>Properties\<close>

text \<open>
  C12: the absolute sequence is a bijection. For a catalogue whose season numbers are distinct,
  \<open>TargetForAbsoluteEpisode\<close> answers exactly on the absolute numbers
  \<open>1, ..., RegularEpisodeCount\<close>, and \<open>AbsoluteEpisodeForTarget\<close> takes its answer back to the
  number it came from; in the other direction every target that has an absolute number is
  what that number resolves to.
\<close>

theorem absolute_sequence_roundtrip:
  assumes "distinct (map SeasonNumber seasons)"
  shows "((\<exists>c. TargetForAbsoluteEpisode n seasons = Some c) \<longleftrightarrow>
            1 \<le> n \<and> n \<le> RegularEpisodeCount seasons)
     \<and> (\<forall>c. TargetForAbsoluteEpisode n seasons = Some c \<longrightarrow>
            AbsoluteEpisodeForTarget c seasons = Some n)
     \<and> (\<forall>c. AbsoluteEpisodeForTarget c seasons = Some n \<longrightarrow>
            TargetForAbsoluteEpisode n seasons = Some c)"
proof (intro conjI allI impI)
  have pos: "\<forall>s \<in> set (regularTMDbSeasons seasons). 0 < EpisodeCount s"
    using regular_positive by blast
  show "(\<exists>c. TargetForAbsoluteEpisode n seasons = Some c) \<longleftrightarrow>
            1 \<le> n \<and> n \<le> RegularEpisodeCount seasons"
    using target_loop_Some_iff [OF pos, of n]
    by (auto simp: TargetForAbsoluteEpisode_def RegularEpisodeCount_total)
next
  show "TargetForAbsoluteEpisode n seasons = Some c \<Longrightarrow>
      AbsoluteEpisodeForTarget c seasons = Some n" for c
    using absolute_target_back [OF assms] .
  show "AbsoluteEpisodeForTarget c seasons = Some n \<Longrightarrow>
      TargetForAbsoluteEpisode n seasons = Some c" for c
    by (rule target_absolute_back)
qed

definition two_seasons :: "TMDbSeason list" where
  "two_seasons =
     [\<lparr>SeasonNumber = 2, EpisodeCount = 3, Titles = (\<lambda>_. Some (lit ''B''))\<rparr>,
      \<lparr>SeasonNumber = 0, EpisodeCount = 9, Titles = (\<lambda>_. None)\<rparr>,
      \<lparr>SeasonNumber = 1, EpisodeCount = 2, Titles = (\<lambda>_. Some (lit ''A''))\<rparr>]"

lemma regular_two_seasons:
  "regularTMDbSeasons two_seasons =
     [\<lparr>SeasonNumber = 1, EpisodeCount = 2, Titles = (\<lambda>_. Some (lit ''A''))\<rparr>,
      \<lparr>SeasonNumber = 2, EpisodeCount = 3, Titles = (\<lambda>_. Some (lit ''B''))\<rparr>]"
  by (simp add: regularTMDbSeasons_def two_seasons_def season_less_def)

theorem absolute_sequence_roundtrip_witness:
  "TargetForAbsoluteEpisode 4 two_seasons = Some (coord 2 2)
   \<and> AbsoluteEpisodeForTarget (coord 2 2) two_seasons = Some 4"
proof -
  have d: "distinct (map SeasonNumber two_seasons)" by (simp add: two_seasons_def)
  have t: "TargetForAbsoluteEpisode 4 two_seasons = Some (coord 2 2)"
    by (simp add: TargetForAbsoluteEpisode_def regular_two_seasons)
  with absolute_sequence_roundtrip [OF d, of 4] show ?thesis by simp
qed



text \<open>
  C14: the two mapping modes agree. Whatever target an anchored mapping chooses is a regular
  catalogue episode inside its season with a non-blank title, an explicit mapping of the same
  source episode to that target is accepted with the same absolute number and title, and the
  anchor episode itself is mapped to the anchor target.
\<close>

theorem anchor_explicit_agree:
  assumes d: "distinct (map SeasonNumber (TMDbSeasons r))"
    and m: "Status (ResolveEpisodeMapping r) = MappingMapped"
  shows "ResolveExplicitEpisodeMapping (Source r) (Target (ResolveEpisodeMapping r)) (TMDbSeasons r) =
           (ResolveEpisodeMapping r)\<lparr>MatchSource := MappingMatchExplicit\<rparr>
     \<and> TargetTitle (ResolveEpisodeMapping r) \<noteq> []
     \<and> (\<exists>s \<in> set (TMDbSeasons r). SeasonNumber s = Season (Target (ResolveEpisodeMapping r)) \<and>
          0 < SeasonNumber s \<and> 1 \<le> Episode (Target (ResolveEpisodeMapping r)) \<and>
          Episode (Target (ResolveEpisodeMapping r)) \<le> EpisodeCount s)
     \<and> (Source r = AnchorSource r \<longrightarrow> Target (ResolveEpisodeMapping r) = AnchorTarget r)"
proof -
  let ?m = "ResolveEpisodeMapping r" and ?ss = "TMDbSeasons r"
  obtain a where a: "AbsoluteEpisodeForTarget (AnchorTarget r) ?ss = Some a"
    and abs: "AbsoluteEpisode ?m = a + Episode (Source r) - Episode (AnchorSource r)"
    and tgt: "TargetForAbsoluteEpisode (AbsoluteEpisode ?m) ?ss = Some (Target ?m)"
    and title: "resolveTargetTitle ?ss (Target ?m) = Inr (TargetTitle ?m)"
    using ResolveEpisodeMapping_mappedD [OF m] by blast
  have inv: "AbsoluteEpisodeForTarget (Target ?m) ?ss = Some (AbsoluteEpisode ?m)"
    using absolute_target_back [OF d tgt] .
  then have valid: "validTargetCoordinate (Target ?m)" "Season (Target ?m) \<noteq> 0"
    by (auto simp: AbsoluteEpisodeForTarget_def split: if_splits)
  have "validSourceCoordinate (Source r)"
    using m by (simp add: ResolveEpisodeMapping_mapped_iff)
  then have "ResolveExplicitEpisodeMapping (Source r) (Target ?m) ?ss =
      ?m\<lparr>MatchSource := MappingMatchExplicit\<rparr>"
    using m valid title inv ResolveEpisodeMapping_mapped_fields [OF m]
    by (intro EpisodeMappingResult.equality)
      (simp_all add: ResolveExplicitEpisodeMapping_def validTargetCoordinate_def)
  moreover have "\<exists>s \<in> set ?ss. SeasonNumber s = Season (Target ?m) \<and> 0 < SeasonNumber s \<and>
      1 \<le> Episode (Target ?m) \<and> Episode (Target ?m) \<le> EpisodeCount s"
    using resolveTargetTitle_sound [OF title] valid by (force simp: validTargetCoordinate_def)
  moreover have "Source r = AnchorSource r \<longrightarrow> Target ?m = AnchorTarget r"
    using target_absolute_back [OF a] tgt abs by auto
  ultimately show ?thesis using resolveTargetTitle_sound [OF title] by blast
qed

theorem anchor_explicit_agree_witness:
  "ResolveExplicitEpisodeMapping (coord 1 2) (coord 2 1) two_seasons =
     \<lparr>Status = MappingMapped, AbsoluteEpisode = 3, Target = coord 2 1, TargetTitle = lit ''B'',
      MatchSource = MappingMatchExplicit, ErrorCode = ''''\<rparr>"
proof -
  let ?r = "\<lparr>Source = coord 1 2, AnchorSource = coord 1 1, AnchorTarget = coord 1 2,
    TMDbSeasons = two_seasons\<rparr>"
  have title: "resolveTargetTitle two_seasons (coord 2 1) = Inr (lit ''B'')"
    by (simp add: two_seasons_def text_defs is_space_def)
  have d: "distinct (map SeasonNumber (TMDbSeasons ?r))" by (simp add: two_seasons_def)
  have eq: "ResolveEpisodeMapping ?r =
      \<lparr>Status = MappingMapped, AbsoluteEpisode = 3, Target = coord 2 1, TargetTitle = lit ''B'',
       MatchSource = MappingMatchAnchor, ErrorCode = ''''\<rparr>"
    using title
    by (simp add: ResolveEpisodeMapping_def validSourceCoordinate_def AbsoluteEpisodeForTarget_def
        TargetForAbsoluteEpisode_def validTargetCoordinate_def regular_two_seasons)
  have "Status (ResolveEpisodeMapping ?r) = MappingMapped" by (simp only: eq) simp
  from anchor_explicit_agree [OF d this] show ?thesis by (simp add: eq)
qed

end
