(* ===== verification/GoRegex.thy ===== *)
theory GoRegex
  imports GoText
begin

text \<open>
  The part of Go's package \<^verbatim>\<open>regexp\<close> that the program uses: syntax trees of the patterns, an
  executable matcher with the leftmost-first semantics of RE2 (the match a backtracking engine
  finds first), submatches, and \<^verbatim>\<open>MatchString\<close>, \<^verbatim>\<open>FindStringSubmatch\<close>, \<^verbatim>\<open>FindAllString\<close>,
  \<^verbatim>\<open>ReplaceAllString\<close>. The matcher is proved to agree with a declarative semantics, the
  relation \<open>rx_step\<close>, which is what the proofs about concrete patterns use.
\<close>

section \<open>Patterns\<close>

text \<open>
  \<open>Cls neg rs\<close> is a character class, \<open>Rep r lo hi\<close> the greedy repetition \<^verbatim>\<open>r{lo,hi}\<close> (\<open>None\<close>: no
  upper bound), \<open>Grp n r\<close> a capturing group, \<open>Bot\<close> and \<open>Eot\<close> the anchors \<^verbatim>\<open>^\<close> and \<^verbatim>\<open>$\<close> without
  the flag \<^verbatim>\<open>m\<close>, \<open>Wb\<close> the ASCII word boundary \<^verbatim>\<open>\b\<close>.
\<close>

datatype rx =
    Emp
  | Cls bool "(int \<times> int) list"
  | Cat rx rx
  | Alt rx rx
  | Rep rx nat "nat option"
  | Grp nat rx
  | Bot
  | Eot
  | Wb

text \<open>A position in the subject: the rune before it, the runes after it, the groups so far.\<close>

record pos =
  prior :: "rune option"
  after :: gostr
  groups :: "(nat \<times> gostr) list"

definition cls_mem :: "bool \<Rightarrow> (int \<times> int) list \<Rightarrow> rune \<Rightarrow> bool" where
  "cls_mem neg rs c = (in_ranges rs c \<noteq> neg)"

definition word_rune :: "rune \<Rightarrow> bool" where
  "word_rune c = ((48 \<le> c \<and> c \<le> 57) \<or> (65 \<le> c \<and> c \<le> 90) \<or> c = 95 \<or> (97 \<le> c \<and> c \<le> 122))"

definition at_boundary :: "pos \<Rightarrow> bool" where
  "at_boundary s =
     ((case prior s of None \<Rightarrow> False | Some c \<Rightarrow> word_rune c) \<noteq>
      (case after s of [] \<Rightarrow> False | c # _ \<Rightarrow> word_rune c))"

section \<open>The matcher\<close>

text \<open>
  A matcher runs a continuation at the positions it can reach, best one first, and returns the
  first success. \<open>rep_match\<close> makes at most \<open>n\<close> further iterations, of which \<open>lo\<close> are required.
\<close>

fun rep_match ::
  "(pos \<Rightarrow> (pos \<Rightarrow> pos option) \<Rightarrow> pos option) \<Rightarrow> nat \<Rightarrow> nat \<Rightarrow> pos \<Rightarrow> (pos \<Rightarrow> pos option) \<Rightarrow> pos option" where
  "rep_match m 0 lo s k = (if lo = 0 then k s else None)"
| "rep_match m (Suc n) lo s k =
     (case m s (\<lambda>s'. rep_match m n (lo - 1) s' k) of
        Some r \<Rightarrow> Some r
      | None \<Rightarrow> if lo = 0 then k s else None)"

text \<open>
  An unbounded repetition needs no more iterations than its lower bound and the rest of the
  subject together, since the repeated patterns of the program always consume a rune.
\<close>

definition rep_bound :: "nat \<Rightarrow> nat option \<Rightarrow> pos \<Rightarrow> nat" where
  "rep_bound lo hi s = (case hi of Some h \<Rightarrow> h | None \<Rightarrow> lo + length (after s))"

primrec rx_match :: "rx \<Rightarrow> pos \<Rightarrow> (pos \<Rightarrow> pos option) \<Rightarrow> pos option" where
  "rx_match Emp s k = k s"
| "rx_match (Cls neg rs) s k =
     (case after s of
        [] \<Rightarrow> None
      | c # cs \<Rightarrow> if cls_mem neg rs c then k (s\<lparr>prior := Some c, after := cs\<rparr>) else None)"
| "rx_match (Cat r1 r2) s k = rx_match r1 s (\<lambda>s'. rx_match r2 s' k)"
| "rx_match (Alt r1 r2) s k =
     (case rx_match r1 s k of Some r \<Rightarrow> Some r | None \<Rightarrow> rx_match r2 s k)"
| "rx_match (Rep r lo hi) s k = rep_match (rx_match r) (rep_bound lo hi s) lo s k"
| "rx_match (Grp n r) s k =
     rx_match r s (\<lambda>s'. k (s'\<lparr>groups :=
       (n, take (length (after s) - length (after s')) (after s)) # groups s'\<rparr>))"
| "rx_match Bot s k = (if prior s = None then k s else None)"
| "rx_match Eot s k = (if after s = [] then k s else None)"
| "rx_match Wb s k = (if at_boundary s then k s else None)"

text \<open>
  A match: the number of runes skipped before it, the matched text, the submatch of a group (the
  empty string when the group did not take part, as in Go's \<^verbatim>\<open>FindStringSubmatch\<close>).
\<close>

record rmatch =
  m_start :: nat
  m_text :: gostr
  m_groups :: "(nat \<times> gostr) list"

definition m_end :: "rmatch \<Rightarrow> nat" where
  "m_end m = m_start m + length (m_text m)"

definition submatch :: "rmatch \<Rightarrow> nat \<Rightarrow> gostr" where
  "submatch m n = (case map_of (m_groups m) n of None \<Rightarrow> [] | Some g \<Rightarrow> g)"

text \<open>The leftmost match at or after a position.\<close>

fun find_from :: "rx \<Rightarrow> nat \<Rightarrow> rune option \<Rightarrow> gostr \<Rightarrow> rmatch option" where
  "find_from r i b cs =
     (case rx_match r \<lparr>prior = b, after = cs, groups = []\<rparr> Some of
        Some e \<Rightarrow> Some \<lparr>m_start = i, m_text = take (length cs - length (after e)) cs,
                       m_groups = groups e\<rparr>
      | None \<Rightarrow> (case cs of [] \<Rightarrow> None | c # cs' \<Rightarrow> find_from r (Suc i) (Some c) cs'))"

declare find_from.simps [simp del]

definition rx_find :: "rx \<Rightarrow> gostr \<Rightarrow> rmatch option" where
  "rx_find r s = find_from r 0 None s"

definition rx_matches :: "rx \<Rightarrow> gostr \<Rightarrow> bool" where
  "rx_matches r s = (rx_find r s \<noteq> None)"

text \<open>
  The successive non-overlapping matches, in the order of \<^verbatim>\<open>FindAllStringSubmatch(s, -1)\<close>, for
  patterns that never match the empty string (all of the program's): \<open>n\<close> bounds their number.
\<close>

fun find_all_from :: "rx \<Rightarrow> nat \<Rightarrow> nat \<Rightarrow> rune option \<Rightarrow> gostr \<Rightarrow> rmatch list" where
  "find_all_from r 0 i b cs = []"
| "find_all_from r (Suc n) i b cs =
     (case find_from r i b cs of
        None \<Rightarrow> []
      | Some m \<Rightarrow>
          let d = m_end m - i
          in if m_text m = [] then []
             else m # find_all_from r n (m_end m) (Some (last (m_text m))) (drop d cs))"

definition rx_find_all :: "rx \<Rightarrow> gostr \<Rightarrow> rmatch list" where
  "rx_find_all r s = find_all_from r (length s) 0 None s"

text \<open>\<^verbatim>\<open>ReplaceAllString\<close> with a replacement that has no \<^verbatim>\<open>$\<close>.\<close>

fun replace_matches :: "nat \<Rightarrow> rmatch list \<Rightarrow> gostr \<Rightarrow> gostr \<Rightarrow> gostr" where
  "replace_matches i [] repl cs = cs"
| "replace_matches i (m # ms) repl cs =
     take (m_start m - i) cs @ repl @ replace_matches (m_end m) ms repl (drop (m_end m - i) cs)"

definition rx_replace_all :: "rx \<Rightarrow> gostr \<Rightarrow> gostr \<Rightarrow> gostr" where
  "rx_replace_all r s repl = replace_matches 0 (rx_find_all r s) repl s"

section \<open>Building patterns\<close>

fun cat :: "rx list \<Rightarrow> rx" where
  "cat [] = Emp"
| "cat [r] = r"
| "cat (r # rs) = Cat r (cat rs)"

fun alts :: "rx list \<Rightarrow> rx" where
  "alts [] = Cls False []"
| "alts [r] = r"
| "alts (r # rs) = Alt r (alts rs)"

abbreviation ch :: "rune \<Rightarrow> rx" where "ch c \<equiv> Cls False [(c, c)]"
abbreviation opt :: "rx \<Rightarrow> rx" where "opt r \<equiv> Rep r 0 (Some 1)"
abbreviation star :: "rx \<Rightarrow> rx" where "star r \<equiv> Rep r 0 None"
abbreviation plus :: "rx \<Rightarrow> rx" where "plus r \<equiv> Rep r 1 None"
abbreviation between :: "rx \<Rightarrow> nat \<Rightarrow> nat \<Rightarrow> rx" where "between r lo hi \<equiv> Rep r lo (Some hi)"

definition str :: "gostr \<Rightarrow> rx" where
  "str s = cat (map ch s)"

text \<open>A lower-case ASCII literal under the flag \<^verbatim>\<open>i\<close>, with the simple foldings of \<^verbatim>\<open>s\<close> and \<^verbatim>\<open>k\<close>.\<close>

definition ci_rune :: "rune \<Rightarrow> rx" where
  "ci_rune c = Cls False
     (if 97 \<le> c \<and> c \<le> 122 then
        (c, c) # (c - 32, c - 32) #
          (if c = 115 then [(383, 383)] else if c = 107 then [(8490, 8490)] else [])
      else [(c, c)])"

definition ci :: "string \<Rightarrow> rx" where
  "ci s = cat (map ci_rune (lit s))"

abbreviation digit :: rx where "digit \<equiv> Cls False [(48, 57)]"

text \<open>\<^verbatim>\<open>[[:alnum:]]\<close> as ranges, \<^verbatim>\<open>[^[:alnum:]]\<close>; the flag \<^verbatim>\<open>i\<close> adds U+017F and U+212A to the class.\<close>

abbreviation alnum_ranges :: "(int \<times> int) list" where
  "alnum_ranges \<equiv> [(48, 57), (65, 90), (97, 122)]"

abbreviation not_alnum :: rx where "not_alnum \<equiv> Cls True alnum_ranges"
abbreviation not_alnum_ci :: rx where "not_alnum_ci \<equiv> Cls True (alnum_ranges @ [(383, 383), (8490, 8490)])"

text \<open>\<^verbatim>\<open>[[:space:]]\<close>: tab, newline, vertical tab, form feed, carriage return and blank.\<close>

abbreviation space_ranges :: "(int \<times> int) list" where "space_ranges \<equiv> [(9, 13), (32, 32)]"
abbreviation space_rx :: rx where "space_rx \<equiv> Cls False space_ranges"

text \<open>
  Pieces that many patterns of the release parsers share: the separators \<^verbatim>\<open>[ ._-]*\<close>, the edges
  \<^verbatim>\<open>(?:^|[^[:alnum:]])\<close> and \<^verbatim>\<open>(?:$|[^[:alnum:]])\<close> under the flag \<^verbatim>\<open>i\<close>, the version suffix \<^verbatim>\<open>(?:v[0-9]+)?\<close>.
\<close>

abbreviation sep_rx :: rx where "sep_rx \<equiv> Cls False [(32, 32), (46, 46), (95, 95), (45, 45)]"
abbreviation left_edge :: rx where "left_edge \<equiv> Alt Bot not_alnum_ci"
abbreviation right_edge :: rx where "right_edge \<equiv> Alt Eot not_alnum_ci"
abbreviation version_rx :: rx where "version_rx \<equiv> opt (Cat (ci ''v'') (plus digit))"

section \<open>Declarative semantics\<close>

inductive rx_step :: "rx \<Rightarrow> pos \<Rightarrow> pos \<Rightarrow> bool" where
  step_emp: "rx_step Emp s s"
| step_cls: "after s = c # cs \<Longrightarrow> cls_mem neg rs c \<Longrightarrow>
     rx_step (Cls neg rs) s (s\<lparr>prior := Some c, after := cs\<rparr>)"
| step_cat: "rx_step r1 s s' \<Longrightarrow> rx_step r2 s' s'' \<Longrightarrow> rx_step (Cat r1 r2) s s''"
| step_alt1: "rx_step r1 s s' \<Longrightarrow> rx_step (Alt r1 r2) s s'"
| step_alt2: "rx_step r2 s s' \<Longrightarrow> rx_step (Alt r1 r2) s s'"
| step_rep0: "rx_step (Rep r 0 hi) s s"
| step_rep: "rx_step r s s' \<Longrightarrow> hi \<noteq> Some 0 \<Longrightarrow>
     rx_step (Rep r (lo - 1) (map_option (\<lambda>h. h - 1) hi)) s' s'' \<Longrightarrow> rx_step (Rep r lo hi) s s''"
| step_grp: "rx_step r s s' \<Longrightarrow> rx_step (Grp n r) s (s'\<lparr>groups :=
     (n, take (length (after s) - length (after s')) (after s)) # groups s'\<rparr>)"
| step_bot: "prior s = None \<Longrightarrow> rx_step Bot s s"
| step_eot: "after s = [] \<Longrightarrow> rx_step Eot s s"
| step_wb: "at_boundary s \<Longrightarrow> rx_step Wb s s"

inductive_simps rx_step_simps [simp]:
  "rx_step Emp s s'"
  "rx_step (Cls neg rs) s s'"
  "rx_step (Cat r1 r2) s s'"
  "rx_step (Alt r1 r2) s s'"
  "rx_step (Grp n r) s s'"
  "rx_step Bot s s'"
  "rx_step Eot s s'"
  "rx_step Wb s s'"

inductive_cases rx_step_repE: "rx_step (Rep r lo hi) s s'"

lemma rx_step_length: "rx_step r s s' \<Longrightarrow> length (after s') \<le> length (after s)"
  by (induction rule: rx_step.induct) auto

text \<open>
  A pattern is \<open>wf_rx\<close> when what it repeats without bound consumes at least one rune, and the
  bounds of its bounded repetitions are in order. \<open>consumes\<close> is the syntactic check.
\<close>

primrec consumes :: "rx \<Rightarrow> bool" where
  "consumes Emp = False"
| "consumes (Cls neg rs) = True"
| "consumes (Cat r1 r2) = (consumes r1 \<or> consumes r2)"
| "consumes (Alt r1 r2) = (consumes r1 \<and> consumes r2)"
| "consumes (Rep r lo hi) = (consumes r \<and> 0 < lo)"
| "consumes (Grp n r) = consumes r"
| "consumes Bot = False"
| "consumes Eot = False"
| "consumes Wb = False"

primrec wf_rx :: "rx \<Rightarrow> bool" where
  "wf_rx Emp = True"
| "wf_rx (Cls neg rs) = True"
| "wf_rx (Cat r1 r2) = (wf_rx r1 \<and> wf_rx r2)"
| "wf_rx (Alt r1 r2) = (wf_rx r1 \<and> wf_rx r2)"
| "wf_rx (Rep r lo hi) = (wf_rx r \<and> (case hi of None \<Rightarrow> consumes r | Some h \<Rightarrow> lo \<le> h))"
| "wf_rx (Grp n r) = wf_rx r"
| "wf_rx Bot = True"
| "wf_rx Eot = True"
| "wf_rx Wb = True"

lemma consumes_length: "rx_step r s s' \<Longrightarrow> consumes r \<Longrightarrow> length (after s') < length (after s)"
proof (induction rule: rx_step.induct)
  case (step_cat r1 s s' r2 s'')
  then show ?case using rx_step_length [OF step_cat.hyps(1)] rx_step_length [OF step_cat.hyps(2)]
    by (auto intro: le_less_trans less_le_trans)
next
  case (step_rep r s s' hi lo s'')
  then show ?case using rx_step_length [OF step_rep.hyps(3)] by auto
qed auto

subsection \<open>The matcher agrees with the semantics\<close>

lemma rep_match_sound:
  assumes m: "\<And>s k e. m s k = Some e \<Longrightarrow> \<exists>s'. rx_step r s s' \<and> k s' = Some e"
  shows "rep_match m n lo s k = Some e \<Longrightarrow> (\<And>h. hi = Some h \<Longrightarrow> n \<le> h) \<Longrightarrow>
     \<exists>s'. rx_step (Rep r lo hi) s s' \<and> k s' = Some e"
proof (induction n arbitrary: lo s hi)
  case 0
  then show ?case by (auto split: if_splits intro: step_rep0)
next
  case (Suc n)
  show ?case
  proof (cases "m s (\<lambda>s'. rep_match m n (lo - 1) s' k)")
    case None
    with Suc.prems show ?thesis by (auto split: if_splits intro: step_rep0)
  next
    case (Some f)
    then have "m s (\<lambda>s'. rep_match m n (lo - 1) s' k) = Some e" using Suc.prems(1) by simp
    then obtain s1 where s1: "rx_step r s s1" "rep_match m n (lo - 1) s1 k = Some e"
      using m by blast
    have "\<And>h. map_option (\<lambda>h. h - 1) hi = Some h \<Longrightarrow> n \<le> h" using Suc.prems(2) by fastforce
    then obtain s2 where "rx_step (Rep r (lo - 1) (map_option (\<lambda>h. h - 1) hi)) s1 s2" "k s2 = Some e"
      using Suc.IH [OF s1(2)] by blast
    moreover have "hi \<noteq> Some 0" using Suc.prems(2) by fastforce
    ultimately show ?thesis using s1(1) step_rep by blast
  qed
qed

lemma rx_match_sound: "rx_match r s k = Some e \<Longrightarrow> \<exists>s'. rx_step r s s' \<and> k s' = Some e"
proof (induction r arbitrary: s k e)
  case (Cls neg rs)
  then show ?case by (auto split: list.splits if_splits)
next
  case (Cat r1 r2)
  then show ?case by fastforce
next
  case (Alt r1 r2)
  then show ?case by (force split: option.splits)
next
  case (Rep r lo hi)
  have "rep_match (rx_match r) (rep_bound lo hi s) lo s k = Some e" using Rep.prems by simp
  then show ?case
    using rep_match_sound [of "rx_match r" r, OF Rep.IH] by (auto simp: rep_bound_def)
next
  case (Grp n r)
  then show ?case by fastforce
qed (auto split: if_splits)

lemma rx_step_rep_iff:
  "rx_step (Rep r lo hi) s s' \<longleftrightarrow> (lo = 0 \<and> s' = s) \<or>
     (\<exists>s1. rx_step r s s1 \<and> hi \<noteq> Some 0 \<and>
        rx_step (Rep r (lo - 1) (map_option (\<lambda>h. h - 1) hi)) s1 s')"
  by (auto elim: rx_step_repE intro: step_rep0 step_rep)

lemma rep_match_complete:
  assumes m: "\<forall>s s' k. rx_step r s s' \<longrightarrow> k s' \<noteq> None \<longrightarrow> m s k \<noteq> None"
    and c: "hi = None \<longrightarrow> consumes r"
  shows "rx_step (Rep r lo hi) s s' \<Longrightarrow> k s' \<noteq> None \<Longrightarrow>
     (case hi of Some h \<Rightarrow> n = h | None \<Rightarrow> lo + length (after s) \<le> n) \<Longrightarrow>
     rep_match m n lo s k \<noteq> None"
  using c
proof (induction n arbitrary: lo s hi)
  case 0
  from 0(1) consider "lo = 0" "s' = s" | s1 where "rx_step r s s1" "hi \<noteq> Some 0"
    by (subst (asm) rx_step_rep_iff) blast
  then show ?case
  proof cases
    case 1
    with 0(2) show ?thesis by simp
  next
    case 2
    with 0(3,4) show ?thesis using consumes_length [OF 2(1)] by (auto split: option.splits)
  qed
next
  case (Suc n)
  from Suc.prems(1) consider "lo = 0" "s' = s" | s1 where "rx_step r s s1" "hi \<noteq> Some 0"
    "rx_step (Rep r (lo - 1) (map_option (\<lambda>h. h - 1) hi)) s1 s'"
    by (subst (asm) rx_step_rep_iff) blast
  then show ?case
  proof cases
    case 1
    with Suc.prems(2) show ?thesis by (auto split: option.splits)
  next
    case 2
    have "case map_option (\<lambda>h. h - 1) hi of Some h \<Rightarrow> n = h | None \<Rightarrow> lo - 1 + length (after s1) \<le> n"
      using Suc.prems(3,4) consumes_length [OF 2(1)] by (auto split: option.splits)
    then have "rep_match m n (lo - 1) s1 k \<noteq> None"
      using Suc.IH [OF 2(3) Suc.prems(2)] Suc.prems(4) by auto
    then have "m s (\<lambda>s'. rep_match m n (lo - 1) s' k) \<noteq> None"
      using m [rule_format, OF 2(1), of "\<lambda>s'. rep_match m n (lo - 1) s' k"] by simp
    then show ?thesis by auto
  qed
qed

lemma rx_match_complete:
  "wf_rx r \<Longrightarrow> rx_step r s s' \<Longrightarrow> k s' \<noteq> None \<Longrightarrow> rx_match r s k \<noteq> None"
proof (induction r arbitrary: s s' k)
  case (Cat r1 r2)
  then obtain s1 where "rx_step r1 s s1" "rx_step r2 s1 s'" by auto
  with Cat show ?case by simp
next
  case (Alt r1 r2)
  then consider "rx_match r1 s k \<noteq> None" | "rx_match r2 s k \<noteq> None" by auto
  then show ?case by cases (auto split: option.splits)
next
  case (Rep r lo hi)
  have m: "\<forall>s s' k. rx_step r s s' \<longrightarrow> k s' \<noteq> None \<longrightarrow> rx_match r s k \<noteq> None"
    using Rep.IH Rep.prems(1) by simp
  have c: "hi = None \<longrightarrow> consumes r" using Rep.prems(1) by (simp split: option.splits)
  have "case hi of Some h \<Rightarrow> rep_bound lo hi s = h | None \<Rightarrow> lo + length (after s) \<le> rep_bound lo hi s"
    by (simp add: rep_bound_def split: option.split)
  from rep_match_complete [where m = "rx_match r" and r = r and hi = hi and k = k, OF m c Rep.prems(2) Rep.prems(3) this]
  show ?case by simp
next
  case (Grp n r)
  then obtain s1 where "rx_step r s s1"
    "s' = s1\<lparr>groups := (n, take (length (after s) - length (after s1)) (after s)) # groups s1\<rparr>"
    by auto
  with Grp show ?case by simp
qed auto

lemma rx_match_iff: "wf_rx r \<Longrightarrow> rx_match r s Some \<noteq> None \<longleftrightarrow> (\<exists>s'. rx_step r s s')"
  using rx_match_complete [of r s _ Some] rx_match_sound [of r s Some] by blast

text \<open>A search succeeds exactly when the pattern matches at some position of the subject.\<close>

definition rx_at :: "rx \<Rightarrow> gostr \<Rightarrow> gostr \<Rightarrow> bool" where
  "rx_at r u v = (\<exists>s'. rx_step r
     \<lparr>prior = (if u = [] then None else Some (last u)), after = v, groups = []\<rparr> s')"

lemma find_from_None_iff:
  assumes "wf_rx r"
  shows "find_from r i (if u = [] then None else Some (last u)) cs = None \<longleftrightarrow>
     (\<forall>v w. cs = v @ w \<longrightarrow> \<not> rx_at r (u @ v) w)"
proof (induction cs arbitrary: i u)
  case Nil
  let ?p = "\<lparr>prior = (if u = [] then None else Some (last u)), after = [], groups = []\<rparr>"
  have "find_from r i (if u = [] then None else Some (last u)) [] = None \<longleftrightarrow>
      rx_match r ?p Some = None"
    by (subst find_from.simps) (simp split: option.split)
  also have "\<dots> \<longleftrightarrow> \<not> rx_at r u []"
    using rx_match_iff [OF assms, of ?p] unfolding rx_at_def by blast
  finally show ?case by simp
next
  case (Cons c cs)
  let ?p = "\<lparr>prior = (if u = [] then None else Some (last u)), after = c # cs, groups = []\<rparr>"
  show ?case
  proof (cases "rx_match r ?p Some")
    case (Some e)
    then have "rx_at r (u @ []) (c # cs)" using rx_match_iff [OF assms, of ?p]
      by (auto simp: rx_at_def)
    with Some show ?thesis by (subst find_from.simps) (auto simp del: append_Nil2)
  next
    case None
    then have no: "\<not> rx_at r u (c # cs)" using rx_match_iff [OF assms, of ?p]
      by (auto simp: rx_at_def)
    have "find_from r i (if u = [] then None else Some (last u)) (c # cs) =
        find_from r (Suc i) (if u @ [c] = [] then None else Some (last (u @ [c]))) cs"
      using None by (subst find_from.simps) simp
    also have "\<dots> = None \<longleftrightarrow> (\<forall>v w. cs = v @ w \<longrightarrow> \<not> rx_at r ((u @ [c]) @ v) w)"
      by (rule Cons.IH)
    also have "\<dots> \<longleftrightarrow> (\<forall>v w. c # cs = v @ w \<longrightarrow> \<not> rx_at r (u @ v) w)"
      using no by (auto simp: Cons_eq_append_conv)
    finally show ?thesis .
  qed
qed

lemma rx_matches_iff:
  assumes "wf_rx r"
  shows "rx_matches r s \<longleftrightarrow> (\<exists>u v. s = u @ v \<and> rx_at r u v)"
  using find_from_None_iff [OF assms, of 0 "[]" s]
  by (auto simp: rx_matches_def rx_find_def)

text \<open>An unbounded repetition of a character class consumes a run of runes of the class.\<close>

lemma ex_list_iff: "(\<exists>u. P u) \<longleftrightarrow> P [] \<or> (\<exists>c u. P (c # u))"
  by (metis list.exhaust)

lemma rx_step_class_rep:
  "rx_step (Rep (Cls neg rs) lo None) s s' \<longleftrightarrow>
     (\<exists>u. after s = u @ after s' \<and> (\<forall>c \<in> set u. cls_mem neg rs c) \<and> lo \<le> length u \<and>
        groups s' = groups s \<and> prior s' = (if u = [] then prior s else Some (last u)))"
proof (induction "length (after s)" arbitrary: s lo rule: less_induct)
  case less
  let ?run = "\<lambda>u lo s. after s = u @ after s' \<and> (\<forall>c \<in> set u. cls_mem neg rs c) \<and> lo \<le> length u \<and>
        groups s' = groups s \<and> prior s' = (if u = [] then prior s else Some (last u))"
  have empty: "s' = s \<longleftrightarrow> ?run [] 0 s" by (auto intro: pos.equality)
  have "rx_step (Rep (Cls neg rs) lo None) s s' \<longleftrightarrow> (lo = 0 \<and> s' = s) \<or>
     (\<exists>c cs. after s = c # cs \<and> cls_mem neg rs c \<and>
        rx_step (Rep (Cls neg rs) (lo - 1) None) (s\<lparr>prior := Some c, after := cs\<rparr>) s')"
    by (subst rx_step_rep_iff) auto
  also have "\<dots> \<longleftrightarrow> (lo = 0 \<and> ?run [] 0 s) \<or>
     (\<exists>c cs. after s = c # cs \<and> cls_mem neg rs c \<and>
        (\<exists>u. ?run u (lo - 1) (s\<lparr>prior := Some c, after := cs\<rparr>)))"
  proof -
    have "rx_step (Rep (Cls neg rs) (lo - 1) None) (s\<lparr>prior := Some c, after := cs\<rparr>) s' \<longleftrightarrow>
        (\<exists>u. ?run u (lo - 1) (s\<lparr>prior := Some c, after := cs\<rparr>))" if "after s = c # cs" for c cs
      using less [of "s\<lparr>prior := Some c, after := cs\<rparr>" "lo - 1"] that by simp
    then show ?thesis unfolding empty by blast
  qed
  also have "\<dots> \<longleftrightarrow> (lo = 0 \<and> ?run [] 0 s) \<or> (\<exists>c u. ?run (c # u) lo s)"
  proof -
    have "(\<exists>cs. after s = c # cs \<and> cls_mem neg rs c \<and>
        (\<exists>u. ?run u (lo - 1) (s\<lparr>prior := Some c, after := cs\<rparr>))) \<longleftrightarrow> (\<exists>u. ?run (c # u) lo s)" for c
      by (auto simp: le_diff_conv)
    then show ?thesis by blast
  qed
  also have "\<dots> \<longleftrightarrow> (\<exists>u. ?run u lo s)"
    by (subst (2) ex_list_iff) auto
  finally show ?case .
qed

subsection \<open>What a group can capture\<close>

primrec grps :: "rx \<Rightarrow> (nat \<times> rx) list" where
  "grps Emp = []"
| "grps (Cls neg rs) = []"
| "grps (Cat r1 r2) = grps r1 @ grps r2"
| "grps (Alt r1 r2) = grps r1 @ grps r2"
| "grps (Rep r lo hi) = grps r"
| "grps (Grp n r) = (n, r) # grps r"
| "grps Bot = []"
| "grps Eot = []"
| "grps Wb = []"

text \<open>\<open>captures r g\<close>: some run of \<open>r\<close> consumes exactly \<open>g\<close>.\<close>

definition captures :: "rx \<Rightarrow> gostr \<Rightarrow> bool" where
  "captures r g = (\<exists>a b. rx_step r a b \<and> after a = g @ after b)"

lemma rx_step_suffix: "rx_step r s s' \<Longrightarrow> \<exists>u. after s = u @ after s'"
  by (induction rule: rx_step.induct) auto

lemma rx_step_groups:
  "rx_step r s s' \<Longrightarrow> \<exists>new. groups s' = new @ groups s \<and>
     (\<forall>(n, g) \<in> set new. \<exists>sub. (n, sub) \<in> set (grps r) \<and> captures sub g)"
proof (induction rule: rx_step.induct)
  case (step_cat r1 s s' r2 s'')
  then obtain n1 n2 where "groups s' = n1 @ groups s" "groups s'' = n2 @ groups s'"
    "\<forall>(n, g) \<in> set n1. \<exists>sub. (n, sub) \<in> set (grps r1) \<and> captures sub g"
    "\<forall>(n, g) \<in> set n2. \<exists>sub. (n, sub) \<in> set (grps r2) \<and> captures sub g" by blast
  then show ?case by (intro exI [of _ "n2 @ n1"]) fastforce
next
  case (step_rep r s s' hi lo s'')
  then obtain n1 n2 where "groups s' = n1 @ groups s" "groups s'' = n2 @ groups s'"
    "\<forall>(n, g) \<in> set n1. \<exists>sub. (n, sub) \<in> set (grps r) \<and> captures sub g"
    "\<forall>(n, g) \<in> set n2. \<exists>sub. (n, sub) \<in> set (grps r) \<and> captures sub g" by auto
  then show ?case by (intro exI [of _ "n2 @ n1"]) fastforce
next
  case (step_grp r s s' n)
  then obtain new where new: "groups s' = new @ groups s"
    "\<forall>(n, g) \<in> set new. \<exists>sub. (n, sub) \<in> set (grps r) \<and> captures sub g" by blast
  obtain u where u: "after s = u @ after s'" using rx_step_suffix [OF step_grp.hyps] by blast
  have "captures r u" using step_grp.hyps u captures_def by blast
  with new u show ?case by (intro exI [of _ "(n, u) # new"]) fastforce
qed fastforce+

lemma find_from_groups:
  "find_from r i b cs = Some m \<Longrightarrow>
     \<forall>(n, g) \<in> set (m_groups m). \<exists>sub. (n, sub) \<in> set (grps r) \<and> captures sub g"
proof (induction cs arbitrary: i b)
  case Nil
  then show ?case using rx_match_sound rx_step_groups
    by (subst (asm) find_from.simps) (fastforce split: option.splits)
next
  case (Cons c cs)
  show ?case
  proof (cases "rx_match r \<lparr>prior = b, after = c # cs, groups = []\<rparr> Some")
    case None
    with Cons.prems have "find_from r (Suc i) (Some c) cs = Some m"
      by (subst (asm) find_from.simps) simp
    then show ?thesis by (rule Cons.IH)
  next
    case (Some e)
    with Cons.prems have "m_groups m = groups e" by (subst (asm) find_from.simps) auto
    moreover obtain s' where "rx_step r \<lparr>prior = b, after = c # cs, groups = []\<rparr> s'" "s' = e"
      using rx_match_sound [OF Some] by auto
    ultimately show ?thesis using rx_step_groups by fastforce
  qed
qed

lemma submatch_captured:
  assumes "rx_find r s = Some m"
  shows "submatch m n = [] \<or> (\<exists>sub. (n, sub) \<in> set (grps r) \<and> captures sub (submatch m n))"
proof (cases "map_of (m_groups m) n")
  case None
  then show ?thesis by (simp add: submatch_def)
next
  case (Some g)
  then have "(n, g) \<in> set (m_groups m)" by (rule map_of_SomeD)
  then show ?thesis using find_from_groups assms Some
    by (fastforce simp: rx_find_def submatch_def)
qed

lemma bounded_class_run:
  "rx_step (Rep (Cls neg rs) lo (Some hi)) a b \<Longrightarrow>
     \<exists>u. after a = u @ after b \<and> (\<forall>c \<in> set u. cls_mem neg rs c) \<and> length u \<le> hi"
proof (induction hi arbitrary: lo a)
  case 0
  then show ?case by (subst (asm) rx_step_rep_iff) auto
next
  case (Suc hi)
  from Suc.prems consider "b = a"
    | c cs where "after a = c # cs" "cls_mem neg rs c"
        "rx_step (Rep (Cls neg rs) (lo - 1) (Some hi)) (a\<lparr>prior := Some c, after := cs\<rparr>) b"
    by (subst (asm) rx_step_rep_iff) auto
  then show ?case
  proof cases
    case 2
    then obtain u where "cs = u @ after b" "\<forall>c \<in> set u. cls_mem neg rs c" "length u \<le> hi"
      using Suc.IH by fastforce
    with 2 show ?thesis by (intro exI [of _ "c # u"]) auto
  qed auto
qed

lemma grps_cat [simp]: "set (grps (cat rs)) = (\<Union>r \<in> set rs. set (grps r))"
  by (induction rs rule: cat.induct) auto

lemma grps_alts [simp]: "set (grps (alts rs)) = (\<Union>r \<in> set rs. set (grps r))"
  by (induction rs rule: alts.induct) auto

lemma grps_ci [simp]: "set (grps (ci s)) = {}"
  by (auto simp: ci_def ci_rune_def)

end
