(* ===== verification/MediaNaming.thy ===== *)
theory MediaNaming
  imports GoRegex
begin

text \<open>
  File names of processed media and their place in the library: \<^verbatim>\<open>internal/domain/naming.go\<close>, the
  library paths of \<^verbatim>\<open>internal/domain/task_workflow.go\<close> and the artifact check of
  \<^verbatim>\<open>internal/domain/media_workflow.go\<close>. The lemmas show that a sanitised title can neither leave
  its directory nor clash with path syntax, and that names that were built are accepted by the
  later stages.
\<close>

section \<open>Names\<close>

text \<open>\<^verbatim>\<open>^[a-z0-9]+$\<close>\<close>

definition mediaExtensionPattern :: rx where
  "mediaExtensionPattern = cat [Bot, plus (Cls False [(97, 122), (48, 57)]), Eot]"

record EpisodeNamingRequest =
  SeriesTitle :: gostr
  NSeason :: int
  NEpisode :: int
  EpisodeTitle :: gostr
  VideoExtension :: gostr

record MovieNamingRequest =
  MovieTitle :: gostr
  ReleaseYear :: int
  MVideoExtension :: gostr

record EpisodeFileNames =
  BaseName :: gostr
  VideoName :: gostr
  SubtitleName :: gostr

record EpisodeNamingError =
  ne_Code :: string
  ne_Field :: string
  ne_Reason :: string

definition invalidEpisodeName :: "string \<Rightarrow> string \<Rightarrow> string \<Rightarrow> EpisodeNamingError" where
  "invalidEpisodeName code field reason = \<lparr>ne_Code = code, ne_Field = field, ne_Reason = reason\<rparr>"

text \<open>The runes \<^verbatim>\<open><>:"/\|?*\<close>.\<close>

definition forbidden_runes :: "rune list" where
  "forbidden_runes = [60, 62, 58, 34, 47, 92, 124, 63, 42]"

definition unsafe_rune :: "rune \<Rightarrow> bool" where
  "unsafe_rune c = (is_control c \<or> List.member forbidden_runes c)"

definition space_or_dot :: "rune \<Rightarrow> bool" where
  "space_or_dot c = (c = 32 \<or> c = 46)"

definition sanitizeMediaNamePart :: "gostr \<Rightarrow> gostr" where
  "sanitizeMediaNamePart value =
     trim_func space_or_dot
       (join (str_fields (map (\<lambda>c. if unsafe_rune c then 32 else c) value)) [32])"

definition BuildMovieFileNames ::
  "MovieNamingRequest \<Rightarrow> (EpisodeNamingError, EpisodeFileNames) result" where
  "BuildMovieFileNames request =
     (let movieTitle = sanitizeMediaNamePart (MovieTitle request)
      in if movieTitle = [] then
           Inl (invalidEpisodeName ''invalid_media_name'' ''movieTitle'' ''must not be blank'')
         else if ReleaseYear request < 1870 \<or> ReleaseYear request > 9999 then
           Inl (invalidEpisodeName ''invalid_media_name'' ''releaseYear''
             ''must be between 1870 and 9999'')
         else if \<not> rx_matches mediaExtensionPattern (MVideoExtension request) then
           Inl (invalidEpisodeName ''invalid_media_name'' ''videoExtension''
             ''must contain lowercase letters and digits without a dot'')
         else
           let baseName = movieTitle @ lit ''('' @ pad_zero 4 (ReleaseYear request) @ lit '')''
           in Inr \<lparr>BaseName = baseName,
                   VideoName = baseName @ lit ''.'' @ MVideoExtension request,
                   SubtitleName = baseName @ lit ''.ass''\<rparr>)"

definition BuildEpisodeFileNames ::
  "EpisodeNamingRequest \<Rightarrow> (EpisodeNamingError, EpisodeFileNames) result" where
  "BuildEpisodeFileNames request =
     (let seriesTitle = sanitizeMediaNamePart (SeriesTitle request)
      in if seriesTitle = [] then
           Inl (invalidEpisodeName ''invalid_media_name'' ''seriesTitle'' ''must not be blank'')
         else if NSeason request < 0 then
           Inl (invalidEpisodeName ''invalid_media_name'' ''season'' ''must be nonnegative'')
         else if NEpisode request \<le> 0 then
           Inl (invalidEpisodeName ''invalid_media_name'' ''episode'' ''must be positive'')
         else if trim_space (EpisodeTitle request) = [] then
           Inl (invalidEpisodeName ''mapping_title_missing'' ''episodeTitle''
             ''must contain the TMDb episode title'')
         else
           let episodeTitle = sanitizeMediaNamePart (EpisodeTitle request)
           in if episodeTitle = [] then
                Inl (invalidEpisodeName ''invalid_media_name'' ''episodeTitle''
                  ''contains no usable filename characters'')
              else if \<not> rx_matches mediaExtensionPattern (VideoExtension request) then
                Inl (invalidEpisodeName ''invalid_media_name'' ''videoExtension''
                  ''must contain lowercase letters and digits without a dot'')
              else
                let baseName = seriesTitle @ lit '' - S'' @ pad_zero 2 (NSeason request) @ lit ''E'' @
                      pad_zero 2 (NEpisode request) @ lit '' - '' @ episodeTitle
                in Inr \<lparr>BaseName = baseName,
                        VideoName = baseName @ lit ''.'' @ VideoExtension request,
                        SubtitleName = baseName @ lit ''.ass''\<rparr>)"

section \<open>Library paths\<close>

record LibraryRelativePaths =
  Directory :: gostr
  Video :: gostr
  Subtitle :: gostr

datatype LibraryPathError = LibraryPathError string | LibraryNamingError EpisodeNamingError

definition base_name_ok :: "gostr \<Rightarrow> bool" where
  "base_name_ok name = (trim_space name \<noteq> [] \<and> path_base name = name)"

definition BuildMovieLibraryRelativePaths ::
  "gostr \<Rightarrow> int \<Rightarrow> gostr \<Rightarrow> gostr \<Rightarrow> (LibraryPathError, LibraryRelativePaths) result" where
  "BuildMovieLibraryRelativePaths movieTitle releaseYear videoName subtitleName =
     (let movie = sanitizeMediaNamePart movieTitle
      in if movie = [] then Inl (LibraryPathError ''library movie title must not be blank'')
         else if \<not> base_name_ok videoName \<or> \<not> base_name_ok subtitleName then
           Inl (LibraryPathError ''library filenames must be non-empty base names'')
         else
           let videoExtension = trim_prefix (to_lower (path_ext videoName)) (lit ''.'')
           in (case BuildMovieFileNames
                      \<lparr>MovieTitle = movie, ReleaseYear = releaseYear, MVideoExtension = videoExtension\<rparr> of
                 Inl e \<Rightarrow> Inl (LibraryNamingError e)
               | Inr names \<Rightarrow>
                   if videoName \<noteq> VideoName names \<or> subtitleName \<noteq> SubtitleName names then
                     Inl (LibraryPathError
                       ''library movie filenames must use the canonical title and year basename'')
                   else
                     let directory = BaseName names
                     in Inr \<lparr>Directory = directory, Video = path_join [directory, videoName],
                             Subtitle = path_join [directory, subtitleName]\<rparr>))"

definition BuildLibraryRelativePaths ::
  "gostr \<Rightarrow> int \<Rightarrow> gostr \<Rightarrow> gostr \<Rightarrow> (LibraryPathError, LibraryRelativePaths) result" where
  "BuildLibraryRelativePaths seriesTitle season videoName subtitleName =
     (let series = sanitizeMediaNamePart seriesTitle
      in if series = [] then Inl (LibraryPathError ''library series title must not be blank'')
         else if season < 0 then Inl (LibraryPathError ''library season must be nonnegative'')
         else if \<not> base_name_ok videoName \<or> \<not> base_name_ok subtitleName then
           Inl (LibraryPathError ''library filenames must be non-empty base names'')
         else
           let directory = path_join [series, lit ''Season'' @ itoa season]
           in Inr \<lparr>Directory = directory, Video = path_join [directory, videoName],
                   Subtitle = path_join [directory, subtitleName]\<rparr>)"

section \<open>Artifacts\<close>

text \<open>Identifiers are \<^verbatim>\<open>uuid.UUID\<close> values, compared only for equality and with \<^verbatim>\<open>uuid.Nil\<close>.\<close>

type_synonym uuid = nat

abbreviation uuid_nil :: uuid where "uuid_nil \<equiv> 0"

datatype MediaKind = MediaUnknown | MediaVideo | MediaSubtitle | MediaExtra | MediaOther

text \<open>\<open>NoSubtitleFormat\<close> is the empty format string.\<close>

datatype SubtitleFormat = NoSubtitleFormat | SubtitleASS | SubtitleSSA | SubtitleSRT | SubtitleWebVTT
  | SubtitleMovText | SubtitlePGS | SubtitleVobSub

record MediaArtifactCompletion =
  ac_TaskID :: uuid
  ac_OperationID :: uuid
  ac_SourceFileID :: uuid
  ac_TranscodeProfileID :: uuid
  ac_Kind :: MediaKind
  ac_BaseName :: gostr
  ac_FilePath :: gostr
  ac_Format :: gostr
  ac_SizeBytes :: int
  ac_ChecksumSHA256 :: "nat list"

definition SubtitleFormatFromPath :: "gostr \<Rightarrow> SubtitleFormat" where
  "SubtitleFormatFromPath filePath =
     (let e = to_lower (path_ext filePath)
      in if e = lit ''.ass'' then SubtitleASS
         else if e = lit ''.ssa'' then SubtitleSSA
         else if e = lit ''.srt'' then SubtitleSRT
         else if e = lit ''.vtt'' then SubtitleWebVTT
         else if e = lit ''.idx'' \<or> e = lit ''.sub'' then SubtitleVobSub
         else NoSubtitleFormat)"

definition SubtitleFormatFromCodec :: "gostr \<Rightarrow> SubtitleFormat" where
  "SubtitleFormatFromCodec codec =
     (let c = to_lower (trim_space codec)
      in if c = lit ''ass'' then SubtitleASS
         else if c = lit ''ssa'' then SubtitleSSA
         else if c = lit ''subrip'' \<or> c = lit ''srt'' then SubtitleSRT
         else if c = lit ''webvtt'' then SubtitleWebVTT
         else if c = lit ''mov_text'' then SubtitleMovText
         else if c = lit ''hdmv_pgs_subtitle'' \<or> c = lit ''pgs'' then SubtitlePGS
         else if c = lit ''dvd_subtitle'' \<or> c = lit ''vobsub'' then SubtitleVobSub
         else NoSubtitleFormat)"

definition ValidateArtifactCompletion :: "MediaArtifactCompletion \<Rightarrow> (string, unit) result" where
  "ValidateArtifactCompletion completion =
     (let fileName = path_base (ac_FilePath completion)
      in if ac_TaskID completion = uuid_nil \<or> ac_OperationID completion = uuid_nil then
           Inl ''artifact completion requires task and operation IDs''
         else if ac_SourceFileID completion = uuid_nil then
           Inl ''artifact completion requires a source file ID''
         else if ac_Kind completion \<noteq> MediaVideo \<and> ac_Kind completion \<noteq> MediaSubtitle then
           Inl ''artifact completion kind must be video or subtitle''
         else if ac_Kind completion = MediaVideo \<and> ac_TranscodeProfileID completion = uuid_nil then
           Inl ''video artifact requires a transcode profile''
         else if trim_space (ac_BaseName completion) = [] \<or> trim_space (ac_FilePath completion) = [] \<or>
                 trim_space (ac_Format completion) = [] then
           Inl ''artifact completion requires basename, path, and format''
         else if trim_suffix fileName (path_ext fileName) \<noteq> ac_BaseName completion then
           Inl ''artifact filename must use its canonical basename''
         else if ac_Kind completion = MediaSubtitle \<and>
                 (to_lower (ac_Format completion) \<noteq> lit ''ass'' \<or>
                  to_lower (path_ext fileName) \<noteq> lit ''.ass'') then
           Inl ''subtitle artifact must be an ASS file''
         else if ac_SizeBytes completion \<le> 0 \<or> length (ac_ChecksumSHA256 completion) \<noteq> 32 then
           Inl ''artifact completion requires positive size and SHA-256 checksum''
         else Inr ())"

section \<open>Single-spaced text\<close>

fun single_spaced :: "gostr \<Rightarrow> bool" where
  "single_spaced [] = True"
| "single_spaced [c] = (is_space c \<longrightarrow> c = 32)"
| "single_spaced (a # b # v) = ((is_space a \<longrightarrow> a = 32 \<and> \<not> is_space b) \<and> single_spaced (b # v))"

lemma single_spaced_append: "single_spaced (u @ v) \<Longrightarrow> single_spaced u \<and> single_spaced v"
proof (induction u rule: single_spaced.induct)
  case (2 c)
  then show ?case by (cases v) auto
qed auto

lemma single_spaced_word: "\<forall>c \<in> set w. \<not> is_space c \<Longrightarrow> single_spaced w"
  by (induction w rule: single_spaced.induct) auto

lemma is_space_32 [simp]: "is_space 32"
  by (simp add: is_space_def)

lemma single_spaced_join_step:
  "\<forall>c \<in> set w. \<not> is_space c \<Longrightarrow> single_spaced t \<Longrightarrow> t \<noteq> [] \<Longrightarrow> \<not> is_space (hd t) \<Longrightarrow>
     single_spaced (w @ 32 # t)"
proof (induction w)
  case Nil
  then show ?case by (cases t) auto
next
  case (Cons c w)
  then show ?case by (cases w; cases t) auto
qed

definition words_ok :: "gostr list \<Rightarrow> bool" where
  "words_ok ws \<longleftrightarrow> (\<forall>w \<in> set ws. w \<noteq> [] \<and> (\<forall>c \<in> set w. \<not> is_space c))"

lemma words_ok_simps [simp]:
  "words_ok []"
  "words_ok (w # ws) \<longleftrightarrow> w \<noteq> [] \<and> (\<forall>c \<in> set w. \<not> is_space c) \<and> words_ok ws"
  by (auto simp: words_ok_def)

lemma words_ok_fields_acc:
  "\<forall>c \<in> set cur. \<not> is_space c \<Longrightarrow> words_ok (fields_acc is_space cur s)"
  by (induction s arbitrary: cur) auto

lemma words_ok_fields: "words_ok (str_fields s)"
  by (simp add: str_fields_def fields_func_def words_ok_fields_acc)

lemma join_words:
  "words_ok ws \<Longrightarrow> single_spaced (join ws [32]) \<and>
     (ws \<noteq> [] \<longrightarrow> join ws [32] \<noteq> [] \<and> \<not> is_space (hd (join ws [32])))"
proof (induction ws "[32::int]" rule: join.induct)
  case (2 x)
  then show ?case by (auto simp: words_ok_def intro: single_spaced_word)
next
  case (3 x y ys)
  then have "words_ok (y # ys)" "x \<noteq> []" "\<forall>c \<in> set x. \<not> is_space c" by (auto simp: words_ok_def)
  with 3 single_spaced_join_step [of x "join (y # ys) [32]"] show ?case by (auto simp: hd_append)
qed simp

lemma join_fields_acc:
  "\<forall>c \<in> set cur. \<not> is_space c \<Longrightarrow> single_spaced s \<Longrightarrow>
    cur = [] \<and> s \<noteq> [] \<longrightarrow> \<not> is_space (hd s) \<Longrightarrow> s \<noteq> [] \<longrightarrow> \<not> is_space (last s) \<Longrightarrow>
    join (fields_acc is_space cur s) [32] = rev cur @ s"
proof (induction s arbitrary: cur)
  case Nil
  then show ?case by simp
next
  case (Cons c s)
  have ss: "single_spaced s" using Cons.prems(2) by (cases s) auto
  show ?case
  proof (cases "is_space c")
    case False
    then show ?thesis using Cons.IH [of "c # cur"] Cons.prems ss by (auto split: if_splits)
  next
    case True
    then have cur: "cur \<noteq> []" using Cons.prems(3) by auto
    have ne: "s \<noteq> []" using Cons.prems(4) True by auto
    then have c: "c = 32" and hd: "\<not> is_space (hd s)" and la: "\<not> is_space (last s)"
      using Cons.prems(2,4) True by (cases s; simp)+
    then have IH: "join (fields_acc is_space [] s) [32] = s"
      using Cons.IH [of "[]"] ss by simp
    then have "fields_acc is_space [] s \<noteq> []" using ne by auto
    then have "join (rev cur # fields_acc is_space [] s) [32] = rev cur @ [32] @ s"
      using IH by (cases "fields_acc is_space [] s") auto
    with True cur c show ?thesis by simp
  qed
qed

lemma join_fields_fixed:
  "single_spaced s \<Longrightarrow> (s \<noteq> [] \<Longrightarrow> \<not> is_space (hd s)) \<Longrightarrow> (s \<noteq> [] \<Longrightarrow> \<not> is_space (last s)) \<Longrightarrow>
     join (str_fields s) [32] = s"
  by (simp add: str_fields_def fields_func_def join_fields_acc)

lemma set_join: "set (join ws sep) \<subseteq> (\<Union>w \<in> set ws. set w) \<union> set sep"
  by (induction ws sep rule: join.induct) auto

lemma set_fields_acc: "w \<in> set (fields_acc p cur s) \<Longrightarrow> set w \<subseteq> set cur \<union> set s"
  by (induction p cur s rule: fields_acc.induct) (auto split: if_splits)

lemma set_fields: "w \<in> set (str_fields s) \<Longrightarrow> set w \<subseteq> set s"
  using set_fields_acc [of w is_space "[]" s] by (simp add: str_fields_def fields_func_def)

lemma trim_func_infix: "\<exists>u v. s = u @ trim_func p s @ v"
proof -
  obtain t where "dropWhile p s = trim_func p s @ t"
    using trim_right_prefix [of "dropWhile p s" p] by (auto simp: trim_func_def trim_left_func_def)
  moreover have "s = takeWhile p s @ dropWhile p s" by simp
  ultimately show ?thesis by metis
qed

section \<open>Sanitised parts\<close>

lemma sanitize_safe: "c \<in> set (sanitizeMediaNamePart v) \<Longrightarrow> \<not> unsafe_rune c"
proof -
  let ?m = "map (\<lambda>c. if unsafe_rune c then 32 else c) v"
  assume "c \<in> set (sanitizeMediaNamePart v)"
  then have "c \<in> set (join (str_fields ?m) [32])"
    using set_trim_func unfolding sanitizeMediaNamePart_def by fast
  then have "c \<in> set ?m \<or> c = 32"
    using set_join [of "str_fields ?m" "[32]"] set_fields [of _ ?m] by fastforce
  then show ?thesis by (auto simp: unsafe_rune_def is_control_def forbidden_runes_def split: if_splits)
qed

lemma sanitize_ends:
  assumes "sanitizeMediaNamePart v \<noteq> []"
  shows "\<not> space_or_dot (hd (sanitizeMediaNamePart v))" "\<not> space_or_dot (last (sanitizeMediaNamePart v))"
  using assms trim_func_hd trim_func_last unfolding sanitizeMediaNamePart_def by blast+

lemma sanitize_single_spaced: "single_spaced (sanitizeMediaNamePart v)"
  using join_words [OF words_ok_fields] single_spaced_append trim_func_infix
  unfolding sanitizeMediaNamePart_def by metis

lemma single_spaced_space: "single_spaced s \<Longrightarrow> c \<in> set s \<Longrightarrow> is_space c \<Longrightarrow> c = 32"
  by (induction s rule: single_spaced.induct) auto

lemma sanitize_space: "c \<in> set (sanitizeMediaNamePart v) \<Longrightarrow> is_space c \<Longrightarrow> c = 32"
  using single_spaced_space [OF sanitize_single_spaced] .

lemma sanitize_no_slash: "47 \<notin> set (sanitizeMediaNamePart v)"
  using sanitize_safe [of 47 v] by (auto simp: unsafe_rune_def forbidden_runes_def)

lemma sanitize_idem: "sanitizeMediaNamePart (sanitizeMediaNamePart v) = sanitizeMediaNamePart v"
proof -
  let ?s = "sanitizeMediaNamePart v"
  have map: "map (\<lambda>c. if unsafe_rune c then 32 else c) ?s = ?s"
    using sanitize_safe by (induction ?s) (auto simp: map_idI)
  have "\<not> is_space (hd ?s)" "\<not> is_space (last ?s)" if "?s \<noteq> []"
    using that sanitize_ends [OF that] sanitize_space [of _ v] by (auto simp: space_or_dot_def)
  then have "join (str_fields ?s) [32] = ?s"
    using join_fields_fixed sanitize_single_spaced by blast
  then have "sanitizeMediaNamePart ?s = trim_func space_or_dot ?s"
    by (simp only: sanitizeMediaNamePart_def [of ?s] map)
  also have "\<dots> = ?s" using sanitize_ends by (intro trim_func_fixed) blast+
  finally show ?thesis .
qed

section \<open>Names that were built\<close>

text \<open>The extension pattern, characterised through the relational semantics of patterns.\<close>

definition media_extension :: "gostr \<Rightarrow> bool" where
  "media_extension x \<longleftrightarrow> x \<noteq> [] \<and> (\<forall>c \<in> set x. 97 \<le> c \<and> c \<le> 122 \<or> 48 \<le> c \<and> c \<le> 57)"

lemma wf_mediaExtensionPattern: "wf_rx mediaExtensionPattern"
  by (simp add: mediaExtensionPattern_def)

lemma mediaExtensionPattern_iff: "rx_matches mediaExtensionPattern x \<longleftrightarrow> media_extension x"
proof -
  have "rx_at mediaExtensionPattern u v \<longleftrightarrow> u = [] \<and> media_extension v" for u v
    by (cases u) (auto simp: rx_at_def mediaExtensionPattern_def rx_step_simps rx_step_class_rep
      cls_mem_def media_extension_def Suc_le_eq
      intro!: exI [of _ "\<lparr>prior = Some (last v), after = [], groups = []\<rparr>"] exI [of _ v])
  then show ?thesis by (simp add: rx_matches_iff [OF wf_mediaExtensionPattern])
qed

lemma media_extension_facts:
  assumes "media_extension x"
  shows "slash \<notin> set x" "dot \<notin> set x" "to_lower x = x" "x \<noteq> []" "\<not> is_space (last x)"
proof -
  have r: "97 \<le> c \<and> c \<le> 122 \<or> 48 \<le> c \<and> c \<le> 57" if "c \<in> set x" for c
    using assms that by (simp add: media_extension_def)
  show "slash \<notin> set x" "dot \<notin> set x" using r by fastforce+
  show ne: "x \<noteq> []" using assms by (simp add: media_extension_def)
  show "to_lower x = x" using r by (force simp: to_lower_def intro: map_idI)
  show "\<not> is_space (last x)" using r [of "last x"] ne by (auto simp: is_space_def)
qed

lemma sanitize_proper: "sanitizeMediaNamePart v \<noteq> [] \<Longrightarrow> proper_elem (sanitizeMediaNamePart v)"
  using sanitize_ends [of v] sanitize_no_slash [of v]
  by (auto simp: proper_elem_def space_or_dot_def)

lemma trim_space_ne: "c \<in> set s \<Longrightarrow> \<not> is_space c \<Longrightarrow> trim_space s \<noteq> []"
proof -
  assume c: "c \<in> set s" "\<not> is_space c"
  then have "c \<in> set (dropWhile is_space s)" by (induction s) auto
  with c(2) show ?thesis by (auto simp: text_defs)
qed

text \<open>
  A built file name: a base with no slash that starts with a visible rune, a dot and an
  extension.
\<close>

lemma built_name_facts:
  assumes "slash \<notin> set b" "b \<noteq> []" "\<not> space_or_dot (hd b)" "media_extension x"
  shows "proper_elem (b @ dot # x)" "base_name_ok (b @ dot # x)"
    "path_ext (b @ dot # x) = dot # x" "trim_suffix (b @ dot # x) (dot # x) = b"
    "to_lower (path_ext (b @ dot # x)) = dot # x"
proof -
  note x = media_extension_facts [OF assms(4)]
  obtain c b' where b: "b = c # b'" using assms(2) by (cases b) auto
  show p: "proper_elem (b @ dot # x)"
    using assms x b by (auto simp: proper_elem_def space_or_dot_def)
  show e: "path_ext (b @ dot # x) = dot # x" using assms x by (simp add: path_ext_append)
  show "trim_suffix (b @ dot # x) (dot # x) = b" by simp
  show "to_lower (path_ext (b @ dot # x)) = dot # x" using x(3) by (simp add: e to_lower_def)
  have "trim_space (b @ dot # x) \<noteq> []"
    using trim_space_ne [of "last x" "b @ dot # x"] x by simp
  then show "base_name_ok (b @ dot # x)"
    using p by (simp add: base_name_ok_def path_base_no_slash proper_elem_def)
qed

lemma lit_Cons: "lit (c # s) = of_char c # lit s" "lit [] = []"
  by (simp_all add: lit_def)

lemma ass_extension: "media_extension (lit ''ass'')"
  by (simp add: media_extension_def lit_Cons)

lemma pad_zero_no_slash: "0 \<le> i \<Longrightarrow> slash \<notin> set (pad_zero w i)"
  using pad_zero_set [of i slash w] by auto

lemma BuildEpisodeFileNames_InrD:
  assumes "BuildEpisodeFileNames r = Inr names"
  shows "sanitizeMediaNamePart (SeriesTitle r) \<noteq> []" "0 \<le> NSeason r" "0 < NEpisode r"
    "media_extension (VideoExtension r)"
    "BaseName names = sanitizeMediaNamePart (SeriesTitle r) @ lit '' - S'' @ pad_zero 2 (NSeason r) @
       lit ''E'' @ pad_zero 2 (NEpisode r) @ lit '' - '' @ sanitizeMediaNamePart (EpisodeTitle r)"
    "VideoName names = BaseName names @ dot # VideoExtension r"
    "SubtitleName names = BaseName names @ dot # lit ''ass''"
  using assms
  by (auto simp: BuildEpisodeFileNames_def mediaExtensionPattern_iff Let_def lit_Cons split: if_splits)

lemma episode_base_ok:
  assumes "BuildEpisodeFileNames r = Inr names"
  shows "slash \<notin> set (BaseName names)" "BaseName names \<noteq> []" "\<not> space_or_dot (hd (BaseName names))"
    "\<not> is_space (hd (BaseName names))"
proof -
  note d = BuildEpisodeFileNames_InrD [OF assms]
  show "slash \<notin> set (BaseName names)"
    using d(2,3) sanitize_no_slash pad_zero_no_slash by (auto simp: d(5) lit_Cons)
  show "BaseName names \<noteq> []" using d(1) by (simp add: d(5))
  show "\<not> space_or_dot (hd (BaseName names))" using d(1) sanitize_ends by (simp add: d(5))
  show "\<not> is_space (hd (BaseName names))"
    using d(1) sanitize_ends(1) [OF d(1)] sanitize_space [OF hd_in_set [OF d(1)]]
    by (auto simp: d(5) space_or_dot_def)
qed

lemma BuildMovieFileNames_InrD:
  assumes "BuildMovieFileNames r = Inr names"
  shows "sanitizeMediaNamePart (MovieTitle r) \<noteq> []" "1870 \<le> ReleaseYear r" "ReleaseYear r \<le> 9999"
    "media_extension (MVideoExtension r)"
    "BaseName names = sanitizeMediaNamePart (MovieTitle r) @ lit ''('' @ pad_zero 4 (ReleaseYear r) @ lit '')''"
    "VideoName names = BaseName names @ dot # MVideoExtension r"
    "SubtitleName names = BaseName names @ dot # lit ''ass''"
  using assms
  by (auto simp: BuildMovieFileNames_def mediaExtensionPattern_iff Let_def lit_Cons split: if_splits)

lemma movie_base_ok:
  assumes "BuildMovieFileNames r = Inr names"
  shows "slash \<notin> set (BaseName names)" "BaseName names \<noteq> []" "\<not> space_or_dot (hd (BaseName names))"
    "proper_elem (BaseName names)"
proof -
  note d = BuildMovieFileNames_InrD [OF assms]
  show a: "slash \<notin> set (BaseName names)"
    using d(2) sanitize_no_slash pad_zero_no_slash [of "ReleaseYear r"] by (auto simp: d(5) lit_Cons)
  show b: "BaseName names \<noteq> []" using d(1) by (simp add: d(5))
  show c: "\<not> space_or_dot (hd (BaseName names))" using d(1) sanitize_ends by (simp add: d(5))
  show "proper_elem (BaseName names)"
    using a b c by (cases "BaseName names") (auto simp: proper_elem_def space_or_dot_def)
qed

lemma season_dir_proper: "proper_elem (lit ''Season'' @ itoa n)"
  using nat_str_set [of slash] by (auto simp: proper_elem_def lit_Cons itoa_def)

section \<open>Safe elements\<close>

text \<open>A path element that stays where it is put: not empty, not \<^verbatim>\<open>.\<close> or \<^verbatim>\<open>..\<close>, without separators and forbidden runes.\<close>

definition safe_elem :: "gostr \<Rightarrow> bool" where
  "safe_elem e \<longleftrightarrow> proper_elem e \<and> list_all (\<lambda>c. \<not> unsafe_rune c) e"

lemma digits_safe: "48 \<le> c \<and> c \<le> 57 \<Longrightarrow> \<not> unsafe_rune c"
  by (auto simp: unsafe_rune_def forbidden_runes_def is_control_def)

lemma extension_safe: "media_extension x \<Longrightarrow> c \<in> set x \<Longrightarrow> \<not> unsafe_rune c"
  by (fastforce simp: media_extension_def unsafe_rune_def forbidden_runes_def is_control_def list_all_iff)

lemma lit_safe: "\<not> unsafe_rune 32" "\<not> unsafe_rune 45" "\<not> unsafe_rune 46" "65 \<le> c \<and> c \<le> 90 \<Longrightarrow> \<not> unsafe_rune c"
  "97 \<le> c \<and> c \<le> 122 \<Longrightarrow> \<not> unsafe_rune c"
  by (auto simp: unsafe_rune_def forbidden_runes_def is_control_def)

lemma episode_names_safe:
  assumes "BuildEpisodeFileNames r = Inr names"
  shows "safe_elem (VideoName names)" "safe_elem (SubtitleName names)"
proof -
  note d = BuildEpisodeFileNames_InrD [OF assms] and b = episode_base_ok [OF assms]
  have "\<not> unsafe_rune c" if "c \<in> set (BaseName names)" for c
    using that d(2,3) sanitize_safe pad_zero_set [of "NSeason r" c 2] pad_zero_set [of "NEpisode r" c 2]
    by (auto simp: d(5) lit_Cons lit_safe digits_safe)
  then have base: "list_all (\<lambda>c. \<not> unsafe_rune c) (BaseName names)" by (simp add: list_all_iff)
  show "safe_elem (VideoName names)" "safe_elem (SubtitleName names)"
    using base built_name_facts(1) [OF b(1-3) d(4)] built_name_facts(1) [OF b(1-3) ass_extension]
      extension_safe [OF d(4)] extension_safe [OF ass_extension]
    by (auto simp: safe_elem_def d(6,7) list_all_iff lit_safe)
qed

lemma season_safe: "0 \<le> n \<Longrightarrow> safe_elem (lit ''Season'' @ itoa n)"
proof -
  assume n: "0 \<le> n"
  have "\<forall>c \<in> set (itoa n). \<not> unsafe_rune c" using n nat_str_set digits_safe unfolding itoa_def by auto
  then have "\<forall>c \<in> set (lit ''Season'' @ itoa n). \<not> unsafe_rune c" by (auto simp: lit_Cons lit_safe)
  then show ?thesis using season_dir_proper [of n] unfolding safe_elem_def list_all_iff by blast
qed

section \<open>Properties\<close>

text \<open>
  C15: A sanitised title part is free of control and path runes, neither starts nor ends with a
  blank or a dot, has no white space but single blanks, is a proper path element unless it is
  empty, and sanitising it again changes nothing.
\<close>

theorem sanitized_part_safe:
  "sanitizeMediaNamePart (sanitizeMediaNamePart v) = sanitizeMediaNamePart v \<and>
   single_spaced (sanitizeMediaNamePart v) \<and>
   list_all (\<lambda>c. \<not> unsafe_rune c) (sanitizeMediaNamePart v) \<and>
   (sanitizeMediaNamePart v = [] \<or>
      proper_elem (sanitizeMediaNamePart v) \<and>
      \<not> space_or_dot (hd (sanitizeMediaNamePart v)) \<and> \<not> space_or_dot (last (sanitizeMediaNamePart v)))"
  using sanitize_idem sanitize_single_spaced sanitize_safe sanitize_proper [of v] sanitize_ends [of v]
  by (auto simp: list_all_iff)

text \<open>
  C16: The names built for an episode are accepted by the library stage, and the library paths are
  exactly series, season directory and file name in that order. Each of these elements is safe, so
  that no other directory can be reached whatever the titles contain, and the base names of the
  paths are the built names.
\<close>

theorem episode_library_paths:
  fixes r
  defines "series \<equiv> sanitizeMediaNamePart (SeriesTitle r)" and "season \<equiv> lit ''Season'' @ itoa (NSeason r)"
  assumes "BuildEpisodeFileNames r = Inr names"
  shows "\<exists>paths. BuildLibraryRelativePaths (SeriesTitle r) (NSeason r) (VideoName names) (SubtitleName names) = Inr paths \<and>
    Directory paths = join [series, season] [slash] \<and>
    Video paths = join [series, season, VideoName names] [slash] \<and>
    Subtitle paths = join [series, season, SubtitleName names] [slash] \<and>
    list_all safe_elem [series, season, VideoName names, SubtitleName names] \<and>
    split_on slash (Video paths) = [series, season, VideoName names] \<and>
    split_on slash (Subtitle paths) = [series, season, SubtitleName names] \<and>
    path_base (Video paths) = VideoName names \<and> path_base (Subtitle paths) = SubtitleName names"
proof -
  note d = BuildEpisodeFileNames_InrD [OF assms(3)] and b = episode_base_ok [OF assms(3)]
  note v = built_name_facts [OF b(1-3) d(4)] and t = built_name_facts [OF b(1-3) ass_extension]
  have p: "proper_elem series" "proper_elem season" "series \<noteq> []"
    using d(1) sanitize_proper season_dir_proper unfolding series_def season_def by blast+
  have "path_join [series, season] = join [series, season] [slash]"
    "path_join [path_join [series, season], VideoName names] = join [series, season, VideoName names] [slash]"
    "path_join [path_join [series, season], SubtitleName names] = join [series, season, SubtitleName names] [slash]"
    using p v(1) t(1) path_join_proper [of "[series, season]"]
    by (simp, simp_all only: d(6,7) path_join_nested join.simps)
  moreover have "base_name_ok (VideoName names)" "base_name_ok (SubtitleName names)"
    using v(2) t(2) by (simp_all only: d(6,7))
  ultimately have build: "BuildLibraryRelativePaths (SeriesTitle r) (NSeason r) (VideoName names) (SubtitleName names) =
      Inr \<lparr>Directory = join [series, season] [slash], Video = join [series, season, VideoName names] [slash],
           Subtitle = join [series, season, SubtitleName names] [slash]\<rparr>"
    using d(2) p(3) unfolding BuildLibraryRelativePaths_def series_def [symmetric] season_def [symmetric] Let_def by simp
  have safe: "list_all safe_elem [series, season, VideoName names, SubtitleName names]"
    using p(1) sanitize_safe [of _ "SeriesTitle r"] season_safe [OF d(2)] episode_names_safe [OF assms(3)]
    by (auto simp: safe_elem_def series_def season_def list_all_iff)
  then have "slash \<notin> set e" if "e \<in> {series, season, VideoName names, SubtitleName names}" for e
    using that by (auto simp: safe_elem_def proper_elem_def)
  then have "split_on slash (join [series, season, n] [slash]) = [series, season, n]"
      "path_base (join [series, season, n] [slash]) = n" if "n \<in> {VideoName names, SubtitleName names}" for n
    using that safe split_on_join [of "[series, season, n]" slash] path_base_join [of n "join [series, season] [slash]"]
    by (auto simp: safe_elem_def proper_elem_def)
  with build safe show ?thesis by simp
qed

definition frieren_request :: EpisodeNamingRequest where
  "frieren_request = \<lparr>SeriesTitle = lit ''Frieren: Beyond'', NSeason = 1, NEpisode = 2,
     EpisodeTitle = lit ''../It Didn't Have to Be'', VideoExtension = lit ''mkv''\<rparr>"

definition frieren_names :: EpisodeFileNames where
  "frieren_names = \<lparr>BaseName = lit ''Frieren Beyond - S01E02 - It Didn't Have to Be'',
     VideoName = lit ''Frieren Beyond - S01E02 - It Didn't Have to Be.mkv'',
     SubtitleName = lit ''Frieren Beyond - S01E02 - It Didn't Have to Be.ass''\<rparr>"

lemma frieren_build: "BuildEpisodeFileNames frieren_request = Inr frieren_names"
  by code_simp

theorem episode_library_paths_witness:
  "\<exists>paths. BuildLibraryRelativePaths (SeriesTitle frieren_request) (NSeason frieren_request)
     (VideoName frieren_names) (SubtitleName frieren_names) = Inr paths \<and>
   Video paths = lit ''Frieren Beyond/Season1/Frieren Beyond - S01E02 - It Didn't Have to Be.mkv'' \<and>
   path_base (Video paths) = VideoName frieren_names \<and> safe_elem (VideoName frieren_names)"
proof -
  have "join [sanitizeMediaNamePart (SeriesTitle frieren_request), lit ''Season'' @ itoa (NSeason frieren_request),
      VideoName frieren_names] [slash] = lit ''Frieren Beyond/Season1/Frieren Beyond - S01E02 - It Didn't Have to Be.mkv''"
    by code_simp
  with episode_library_paths [OF frieren_build] show ?thesis by (auto simp del: lit_simps)
qed

text \<open>
  The names built for a movie are accepted by the library stage under the same title and year,
  in one directory named as the base name; since the stage rebuilds the names, it accepts no other
  pair with that video extension.
\<close>

theorem movie_library_paths:
  assumes "BuildMovieFileNames r = Inr names"
  shows "BuildMovieLibraryRelativePaths (MovieTitle r) (ReleaseYear r) (VideoName names) (SubtitleName names) =
      Inr \<lparr>Directory = BaseName names, Video = join [BaseName names, VideoName names] [slash],
           Subtitle = join [BaseName names, SubtitleName names] [slash]\<rparr> \<and>
    (\<forall>v t paths. BuildMovieLibraryRelativePaths (MovieTitle r) (ReleaseYear r) v t = Inr paths \<longrightarrow>
      path_ext v = path_ext (VideoName names) \<longrightarrow> v = VideoName names \<and> t = SubtitleName names)"
proof (intro conjI allI impI)
  note d = BuildMovieFileNames_InrD [OF assms] and b = movie_base_ok [OF assms]
  note v = built_name_facts [OF b(1-3) d(4)] and t = built_name_facts [OF b(1-3) ass_extension]
  have ext: "trim_prefix (to_lower (path_ext (VideoName names))) (lit ''.'') = MVideoExtension r"
    using v(5) trim_prefix_append [of "[dot]"] by (simp add: d(6) lit_Cons)
  have again: "BuildMovieFileNames \<lparr>MovieTitle = sanitizeMediaNamePart (MovieTitle r),
      ReleaseYear = ReleaseYear r, MVideoExtension = MVideoExtension r\<rparr> = Inr names"
    using assms
    by (simp only: BuildMovieFileNames_def MovieNamingRequest.select_convs sanitize_idem)
  show "BuildMovieLibraryRelativePaths (MovieTitle r) (ReleaseYear r) (VideoName names) (SubtitleName names) =
      Inr \<lparr>Directory = BaseName names, Video = join [BaseName names, VideoName names] [slash],
           Subtitle = join [BaseName names, SubtitleName names] [slash]\<rparr>"
    using d(1) v(1,2) t(1,2) [folded d(7)] b(4) ext again
      path_join_proper [of "[BaseName names, VideoName names]"]
      path_join_proper [of "[BaseName names, SubtitleName names]"]
    by (simp add: BuildMovieLibraryRelativePaths_def Let_def flip: d(6,7))
  show "v = VideoName names" "t = SubtitleName names"
    if "BuildMovieLibraryRelativePaths (MovieTitle r) (ReleaseYear r) v t = Inr paths"
      "path_ext v = path_ext (VideoName names)" for v t paths
    using that again ext by (auto simp: BuildMovieLibraryRelativePaths_def Let_def split: if_splits)
qed

theorem movie_library_paths_witness:
  "\<exists>names. BuildMovieFileNames \<lparr>MovieTitle = lit ''Your Name.'', ReleaseYear = 2016, MVideoExtension = lit ''mkv''\<rparr>
     = Inr names \<and>
   BuildMovieLibraryRelativePaths (lit ''Your Name.'') 2016 (VideoName names) (SubtitleName names) =
   Inr \<lparr>Directory = lit ''Your Name(2016)'', Video = lit ''Your Name(2016)/Your Name(2016).mkv'',
        Subtitle = lit ''Your Name(2016)/Your Name(2016).ass''\<rparr>"
proof -
  let ?r = "\<lparr>MovieTitle = lit ''Your Name.'', ReleaseYear = 2016, MVideoExtension = lit ''mkv''\<rparr>"
  let ?n = "\<lparr>BaseName = lit ''Your Name(2016)'', VideoName = lit ''Your Name(2016).mkv'',
    SubtitleName = lit ''Your Name(2016).ass''\<rparr>"
  have build: "BuildMovieFileNames ?r = Inr ?n" by code_simp
  have "join [BaseName ?n, VideoName ?n] [slash] = lit ''Your Name(2016)/Your Name(2016).mkv''"
    "join [BaseName ?n, SubtitleName ?n] [slash] = lit ''Your Name(2016)/Your Name(2016).ass''"
    by code_simp+
  with movie_library_paths [OF build] build show ?thesis by auto
qed

text \<open>
  C17: A file stored in any directory under the video or subtitle name built for an episode passes
  the artifact check exactly when the completion names its task, operation and source file, a
  profile for a video, a positive size and a 32-byte checksum.
\<close>

theorem built_artifact_accepted:
  assumes "BuildEpisodeFileNames r = Inr names" "ac_BaseName c = BaseName names"
    "ac_Kind c = MediaVideo \<and> ac_FilePath c = dir @ [slash] @ VideoName names \<and> ac_Format c = VideoExtension r \<or>
     ac_Kind c = MediaSubtitle \<and> ac_FilePath c = dir @ [slash] @ SubtitleName names \<and> ac_Format c = lit ''ass''"
  shows "ValidateArtifactCompletion c = Inr () \<longleftrightarrow>
     ac_TaskID c \<noteq> uuid_nil \<and> ac_OperationID c \<noteq> uuid_nil \<and> ac_SourceFileID c \<noteq> uuid_nil \<and>
     (ac_Kind c = MediaVideo \<longrightarrow> ac_TranscodeProfileID c \<noteq> uuid_nil) \<and>
     0 < ac_SizeBytes c \<and> length (ac_ChecksumSHA256 c) = 32"
proof -
  note d = BuildEpisodeFileNames_InrD [OF assms(1)] and b = episode_base_ok [OF assms(1)]
  obtain x where x: "media_extension x" "ac_FilePath c = dir @ [slash] @ (BaseName names @ dot # x)"
      "ac_Format c = x" "ac_Kind c = MediaSubtitle \<Longrightarrow> x = lit ''ass''" "ac_Kind c = MediaVideo \<or> ac_Kind c = MediaSubtitle"
    using assms(3) d(4,6,7) ass_extension by auto
  note n = built_name_facts [OF b(1-3) x(1)] and e = media_extension_facts [OF x(1)]
  have base: "path_base (ac_FilePath c) = BaseName names @ dot # x"
    using n(1) path_base_join [of "BaseName names @ dot # x" dir] by (simp add: x(2) proper_elem_def)
  have "trim_space (ac_BaseName c) \<noteq> []"
    using trim_space_ne [of "hd (BaseName names)"] b(2,4) assms(2) by simp
  moreover have "trim_space (ac_FilePath c) \<noteq> []" "trim_space (ac_Format c) \<noteq> []"
    using trim_space_ne [of slash "ac_FilePath c"] trim_space_ne [of "last x" x] x(2,3) e
    by (simp_all add: is_space_def)
  ultimately show ?thesis
    using x(4,5) n(3-5) e(3) assms(2) base x(3)
    by (auto simp: ValidateArtifactCompletion_def Let_def lit_Cons)
qed

theorem built_artifact_accepted_witness:
  "ValidateArtifactCompletion \<lparr>ac_TaskID = 1, ac_OperationID = 2, ac_SourceFileID = 3,
     ac_TranscodeProfileID = 4, ac_Kind = MediaVideo, ac_BaseName = BaseName frieren_names,
     ac_FilePath = lit ''/srv/stage'' @ [slash] @ VideoName frieren_names, ac_Format = lit ''mkv'',
     ac_SizeBytes = 7, ac_ChecksumSHA256 = replicate 32 0\<rparr> = Inr ()"
  by (subst built_artifact_accepted [OF frieren_build, where dir = "lit ''/srv/stage''"])
     (simp_all add: frieren_request_def)

end
