(* ===== verification/Subtitle.thy ===== *)
theory Subtitle
  imports MediaNaming GoRegex
begin

text \<open>
  Subtitle candidates (\<^verbatim>\<open>internal/domain/subtitle.go\<close>): the language evidence a label or a language
  tag gives, the ranking of the external files and embedded streams of a video, the identifiers
  of candidates, the FFmpeg arguments of a plan, and the structural check of ASS files.
\<close>

section \<open>Data\<close>

datatype SubtitleSource = SubtitleSourceExternal | SubtitleSourceEmbedded

datatype SubtitleAction = SubtitleActionCopy | SubtitleActionConvert | SubtitleActionExtract

datatype SubtitleEvidence =
    SubtitleEvidenceSimplified | SubtitleEvidenceMixed | SubtitleEvidenceTraditional
  | SubtitleEvidenceGeneric | SubtitleEvidenceUnknown | SubtitleEvidenceOther

record SubtitleCandidate =
  sc_SourceFileID :: uuid
  sc_Path :: gostr
  sc_Format :: SubtitleFormat
  sc_Language :: gostr

text \<open>\<open>NoChineseScript\<close> is the empty string, the value of a field that is not set.\<close>

datatype ChineseScript = NoChineseScript | ChineseScriptUnknown | ChineseScriptSimplified | ChineseScriptTraditional

record SubtitleStream =
  ss_Index :: int
  ss_Format :: SubtitleFormat
  ss_Language :: gostr
  ss_Title :: gostr
  ss_Default :: bool
  ss_Forced :: bool
  ss_Script :: ChineseScript

record SubtitleSelectionRequest =
  sr_VideoPath :: gostr
  sr_External :: "SubtitleCandidate list"
  sr_Embedded :: "SubtitleStream list"

record SubtitlePlan =
  sp_Source :: SubtitleSource
  sp_SourceFileID :: uuid
  sp_Action :: SubtitleAction
  sp_InputPath :: gostr
  sp_StreamIndex :: int
  sp_InputFormat :: SubtitleFormat
  sp_Language :: string
  sp_Evidence :: SubtitleEvidence

record SubtitleError =
  se_Code :: string
  se_Message :: string

record subtitleChoice =
  ch_plan :: SubtitlePlan
  ch_score :: int
  ch_order :: nat

section \<open>Language evidence\<close>

text \<open>The Chinese characters of the labels; \<open>_s\<close> and \<open>_t\<close> mark the simplified and the traditional form.\<close>

abbreviation zh_jian_s :: rune where "zh_jian_s \<equiv> 31616"
abbreviation zh_jian_t :: rune where "zh_jian_t \<equiv> 31777"
abbreviation zh_fan :: rune where "zh_fan \<equiv> 32321"
abbreviation zh_ti_s :: rune where "zh_ti_s \<equiv> 20307"
abbreviation zh_ti_t :: rune where "zh_ti_t \<equiv> 39636"
abbreviation zh_zhong :: rune where "zh_zhong \<equiv> 20013"
abbreviation zh_ri :: rune where "zh_ri \<equiv> 26085"
abbreviation zh_ying :: rune where "zh_ying \<equiv> 33521"
abbreviation zh_shuang_s :: rune where "zh_shuang_s \<equiv> 21452"
abbreviation zh_shuang_t :: rune where "zh_shuang_t \<equiv> 38617"
abbreviation zh_yu_s :: rune where "zh_yu_s \<equiv> 35821"
abbreviation zh_yu_t :: rune where "zh_yu_t \<equiv> 35486"
abbreviation zh_wen :: rune where "zh_wen \<equiv> 25991"
definition containsAny :: "gostr \<Rightarrow> gostr list \<Rightarrow> bool" where
  "containsAny val candidates = list_ex (contains_str val) candidates"

definition containsSubtitleLabelToken :: "gostr \<Rightarrow> gostr list \<Rightarrow> bool" where
  "containsSubtitleLabelToken normalized tokens =
     list_ex (\<lambda>token. contains_str normalized (32 # token @ [32])) tokens"

definition normalizeSubtitleLabel :: "gostr \<Rightarrow> gostr" where
  "normalizeSubtitleLabel label =
     32 # join (fields_func (\<lambda>c. \<not> is_letter c \<and> \<not> is_number c) label) [32] @ [32]"

definition subtitleLabelSignals :: "gostr \<Rightarrow> bool \<times> bool \<times> bool" where
  "subtitleLabelSignals label =
     (let lower = to_lower (trim_space label);
          normalized = normalizeSubtitleLabel lower;
          simplified = containsAny lower
              [[zh_jian_s, zh_ti_s], [zh_jian_t, zh_ti_t], [zh_jian_s, zh_zhong],
                [zh_jian_t, zh_zhong], [zh_jian_s, zh_fan], [zh_jian_t, zh_fan],
                [zh_fan, zh_jian_s], [zh_fan, zh_jian_t], [zh_jian_s, zh_ri],
                [zh_jian_t, zh_ri], [zh_ri, zh_jian_s], [zh_ri, zh_jian_t],
                [zh_jian_s, zh_ying], [zh_jian_t, zh_ying], [zh_ying, zh_jian_s],
                [zh_ying, zh_jian_t]] \<or>
            containsSubtitleLabelToken normalized
              [lit ''zh hans'', lit ''zh cn'', lit ''zh sg'', lit ''chs'', lit ''sc'',
                lit ''gb'', lit ''gb2312'', lit ''gbk'', lit ''simplified'',
                lit ''simplified chinese'', lit ''jpsc'', lit ''scjp'',
                lit ''jpnsc'', lit ''scjpn''];
          traditional = containsAny lower
              [[zh_fan, zh_ti_s], [zh_fan, zh_ti_t], [zh_fan, zh_zhong], [zh_fan, zh_ri],
                [zh_fan, zh_ying], [zh_jian_s, zh_fan], [zh_jian_t, zh_fan],
                [zh_fan, zh_jian_s], [zh_fan, zh_jian_t]] \<or>
            containsSubtitleLabelToken normalized
              [lit ''zh hant'', lit ''zh tw'', lit ''zh hk'', lit ''zh mo'', lit ''cht'',
                lit ''tc'', lit ''big5'', lit ''traditional'',
                lit ''traditional chinese'', lit ''jptc'', lit ''tcjp'',
                lit ''jpntc'', lit ''tcjpn''];
          otherLanguage = containsAny lower
              [[zh_jian_s, zh_ying], [zh_jian_t, zh_ying], [zh_jian_s, zh_ri],
                [zh_jian_t, zh_ri], [zh_zhong, zh_ying], [zh_zhong, zh_ri],
                [zh_shuang_s, zh_yu_s], [zh_shuang_t, zh_yu_t],
                [zh_ying, zh_wen], [zh_ying, zh_yu_s], [zh_ying, zh_yu_t],
                [zh_ri, zh_wen], [zh_ri, zh_yu_s], [zh_ri, zh_yu_t]] \<or>
            containsSubtitleLabelToken normalized
              [lit ''en'', lit ''eng'', lit ''english'', lit ''ja'', lit ''jpn'', lit ''jp'',
                lit ''japanese'', lit ''bilingual'', lit ''multilingual'']
      in (simplified, traditional, otherLanguage))"

definition subtitleLabelEvidence ::
  "bool \<Rightarrow> bool \<Rightarrow> bool \<Rightarrow> SubtitleEvidence \<Rightarrow> SubtitleEvidence" where
  "subtitleLabelEvidence simplified traditional otherLanguage fallback =
     (if simplified \<and> traditional then SubtitleEvidenceMixed
      else if simplified then SubtitleEvidenceSimplified
      else if traditional then SubtitleEvidenceTraditional
      else if otherLanguage then SubtitleEvidenceOther
      else fallback)"

definition subtitleMetadataEvidence :: "gostr \<Rightarrow> gostr \<Rightarrow> SubtitleEvidence" where
  "subtitleMetadataEvidence language label =
     (let language = to_lower (replace_rune 95 45 (trim_space language));
          (simplified, traditional, otherLanguage) = subtitleLabelSignals label
      in if language \<in> set [lit ''zh-hans'', lit ''zh-cn'', lit ''zh-sg'', lit ''chs'', lit ''sc'',
                            lit ''gb'', lit ''gb2312'', lit ''gbk''] then
           (if traditional then SubtitleEvidenceMixed else SubtitleEvidenceSimplified)
         else if language \<in> set [lit ''zh-hant'', lit ''zh-tw'', lit ''zh-hk'', lit ''zh-mo'',
                                 lit ''cht'', lit ''tc'', lit ''big5''] then
           (if simplified then SubtitleEvidenceMixed else SubtitleEvidenceTraditional)
         else if language \<in> set [[], lit ''und'', lit ''unknown''] then
           subtitleLabelEvidence simplified traditional otherLanguage SubtitleEvidenceUnknown
         else if language \<in> set [lit ''chi'', lit ''zho'', lit ''zh''] then
           subtitleLabelEvidence simplified traditional otherLanguage SubtitleEvidenceGeneric
         else SubtitleEvidenceOther)"

fun subtitleEvidenceScore :: "SubtitleEvidence \<Rightarrow> int" where
  "subtitleEvidenceScore SubtitleEvidenceSimplified = 400"
| "subtitleEvidenceScore SubtitleEvidenceMixed = 300"
| "subtitleEvidenceScore SubtitleEvidenceTraditional = 250"
| "subtitleEvidenceScore SubtitleEvidenceGeneric = 200"
| "subtitleEvidenceScore SubtitleEvidenceUnknown = 100"
| "subtitleEvidenceScore SubtitleEvidenceOther = 0"

fun isTextSubtitle :: "SubtitleFormat \<Rightarrow> bool" where
  "isTextSubtitle NoSubtitleFormat = False"
| "isTextSubtitle SubtitlePGS = False"
| "isTextSubtitle SubtitleVobSub = False"
| "isTextSubtitle _ = True"

definition subtitleFormatScore :: "SubtitleFormat \<Rightarrow> int" where
  "subtitleFormatScore format = (if format = SubtitleASS then 5 else 0)"

definition SubtitleStreamNeedsContentInspection :: "SubtitleStream \<Rightarrow> bool" where
  "SubtitleStreamNeedsContentInspection stream =
     (if \<not> isTextSubtitle (ss_Format stream) then False
      else let evidence = subtitleMetadataEvidence (ss_Language stream) (ss_Title stream)
           in evidence \<noteq> SubtitleEvidenceSimplified \<and> evidence \<noteq> SubtitleEvidenceOther)"

definition isSimplifiedChineseSubtitle :: "gostr \<Rightarrow> gostr \<Rightarrow> bool" where
  "isSimplifiedChineseSubtitle language label =
     (subtitleMetadataEvidence language label = SubtitleEvidenceSimplified)"

section \<open>Candidate identifiers\<close>

text \<open>
  \<open>uuid_str\<close> stands for \<^verbatim>\<open>uuid.UUID.String\<close> of the package \<^verbatim>\<open>github.com/google/uuid\<close>. \<open>LegacyCandidateID\<close>
  replaces pairs of backslashes, as the raw string literal of the source says.
\<close>

fun replace_pair :: "rune \<Rightarrow> rune \<Rightarrow> gostr \<Rightarrow> gostr" where
  "replace_pair a b (c # d # s) =
     (if c = a \<and> d = a then b # replace_pair a b s else c # replace_pair a b (d # s))"
| "replace_pair a b s = s"

abbreviation backslash :: rune where "backslash \<equiv> 92"

definition LegacyCandidateID :: "SubtitlePlan \<Rightarrow> gostr" where
  "LegacyCandidateID plan =
     (if sp_Source plan = SubtitleSourceEmbedded then lit ''stream:'' @ itoa (sp_StreamIndex plan)
      else lit ''file:'' @ path_base (replace_pair backslash slash (sp_InputPath plan)))"

definition CandidateID :: "(uuid \<Rightarrow> gostr) \<Rightarrow> SubtitlePlan \<Rightarrow> gostr" where
  "CandidateID uuid_str plan =
     (if sp_Source plan = SubtitleSourceEmbedded then lit ''stream:'' @ itoa (sp_StreamIndex plan)
      else if sp_SourceFileID plan \<noteq> uuid_nil then lit ''external:'' @ uuid_str (sp_SourceFileID plan)
      else LegacyCandidateID plan)"

definition MatchesLegacyCandidateID :: "SubtitlePlan \<Rightarrow> gostr \<Rightarrow> bool" where
  "MatchesLegacyCandidateID plan candidateID =
     (LegacyCandidateID plan = candidateID \<or>
      candidateID = lit ''file:'' @ path_base (replace_rune backslash slash (sp_InputPath plan)))"

section \<open>Ranking\<close>

text \<open>
  The two loops of \<^verbatim>\<open>RankSubtitleCandidates\<close>. The state is the list of choices so far, the flag
  \<^verbatim>\<open>unsupportedChinese\<close> and the counter \<^verbatim>\<open>order\<close>, which every candidate advances.
\<close>

type_synonym rank_state = "subtitleChoice list \<times> bool \<times> nat"

definition rank_step ::
  "SubtitleEvidence \<Rightarrow> SubtitleFormat \<Rightarrow> SubtitlePlan \<Rightarrow> int \<Rightarrow> rank_state \<Rightarrow> rank_state" where
  "rank_step evidence format plan score st =
     (case st of (choices, unsupportedChinese, order) \<Rightarrow>
        if evidence = SubtitleEvidenceOther then (choices, unsupportedChinese, order + 1)
        else if \<not> isTextSubtitle format then
          (choices, unsupportedChinese \<or> evidence \<noteq> SubtitleEvidenceUnknown, order + 1)
        else (choices @ [\<lparr>ch_plan = plan, ch_score = score, ch_order = order\<rparr>],
              unsupportedChinese, order + 1))"

definition external_evidence :: "SubtitleCandidate \<Rightarrow> SubtitleEvidence" where
  "external_evidence candidate =
     subtitleMetadataEvidence (sc_Language candidate)
       (path_base (replace_rune backslash slash (sc_Path candidate)))"

definition external_plan :: "SubtitleCandidate \<Rightarrow> SubtitlePlan" where
  "external_plan candidate =
     \<lparr>sp_Source = SubtitleSourceExternal, sp_SourceFileID = sc_SourceFileID candidate,
      sp_Action = SubtitleActionConvert, sp_InputPath = sc_Path candidate, sp_StreamIndex = -1,
      sp_InputFormat = sc_Format candidate, sp_Language = ''zh-Hans'',
      sp_Evidence = external_evidence candidate\<rparr>"

definition external_score :: "SubtitleCandidate \<Rightarrow> int" where
  "external_score candidate =
     subtitleEvidenceScore (external_evidence candidate) + 50 + subtitleFormatScore (sc_Format candidate)"

definition rank_external :: "SubtitleCandidate \<Rightarrow> rank_state \<Rightarrow> rank_state" where
  "rank_external candidate =
     rank_step (external_evidence candidate) (sc_Format candidate) (external_plan candidate)
       (external_score candidate)"

definition stream_evidence :: "SubtitleStream \<Rightarrow> SubtitleEvidence" where
  "stream_evidence stream = subtitleMetadataEvidence (ss_Language stream) (ss_Title stream)"

definition stream_plan :: "gostr \<Rightarrow> SubtitleStream \<Rightarrow> SubtitlePlan" where
  "stream_plan videoPath stream =
     \<lparr>sp_Source = SubtitleSourceEmbedded, sp_SourceFileID = uuid_nil,
      sp_Action = SubtitleActionExtract, sp_InputPath = videoPath,
      sp_StreamIndex = ss_Index stream, sp_InputFormat = ss_Format stream,
      sp_Language = ''zh-Hans'', sp_Evidence = stream_evidence stream\<rparr>"

definition stream_score :: "SubtitleStream \<Rightarrow> int" where
  "stream_score stream =
     subtitleEvidenceScore (stream_evidence stream) + subtitleFormatScore (ss_Format stream)
     + (if ss_Default stream then 5 else 0) - (if ss_Forced stream then 10 else 0)"

definition rank_embedded :: "gostr \<Rightarrow> SubtitleStream \<Rightarrow> rank_state \<Rightarrow> rank_state" where
  "rank_embedded videoPath stream =
     rank_step (stream_evidence stream) (ss_Format stream) (stream_plan videoPath stream)
       (stream_score stream)"

definition choice_before :: "subtitleChoice \<Rightarrow> subtitleChoice \<Rightarrow> bool" where
  "choice_before l r =
     (if ch_score l \<noteq> ch_score r then ch_score l > ch_score r else ch_order l < ch_order r)"

definition rank_all :: "SubtitleSelectionRequest \<Rightarrow> rank_state" where
  "rank_all request =
     fold (rank_embedded (sr_VideoPath request)) (sr_Embedded request)
       (fold rank_external (sr_External request) ([], False, 0))"

definition RankSubtitleCandidates ::
  "SubtitleSelectionRequest \<Rightarrow> (SubtitleError, SubtitlePlan list) result" where
  "RankSubtitleCandidates request =
     (case rank_all request of
        (choices, unsupportedChinese, order) \<Rightarrow>
          if choices = [] then
            (if unsupportedChinese then
               Inl \<lparr>se_Code = ''subtitle_format_unsupported'',
                    se_Message = ''the available Chinese subtitle uses a bitmap or unsupported format''\<rparr>
             else
               Inl \<lparr>se_Code = ''simplified_chinese_subtitle_not_found'',
                    se_Message = ''no potentially usable Chinese text subtitle source was found''\<rparr>)
          else Inr (map ch_plan (sort_by choice_before choices)))"

text \<open>\<^verbatim>\<open>plans[0]\<close> is the head of the list: \<open>None\<close> would be the panic of an index out of range.\<close>

definition SelectSubtitle ::
  "SubtitleSelectionRequest \<Rightarrow> (SubtitleError, SubtitlePlan) result option" where
  "SelectSubtitle request =
     (case RankSubtitleCandidates request of
        Inl err \<Rightarrow> Some (Inl err)
      | Inr [] \<Rightarrow> None
      | Inr (plan # _) \<Rightarrow> Some (Inr plan))"

section \<open>FFmpeg arguments\<close>

definition plan_invalid :: "string \<Rightarrow> (SubtitleError, 'a) result" where
  "plan_invalid message = Inl \<lparr>se_Code = ''subtitle_plan_invalid'', se_Message = message\<rparr>"

definition BuildSubtitleFFmpegArgs ::
  "SubtitlePlan \<Rightarrow> gostr \<Rightarrow> gostr \<Rightarrow> (SubtitleError, gostr list) result" where
  "BuildSubtitleFFmpegArgs plan videoPath temporaryOutput =
     (if trim_space temporaryOutput = [] then
        Inl \<lparr>se_Code = ''subtitle_output_invalid'', se_Message = ''temporary subtitle output path is required''\<rparr>
      else if sp_Action plan = SubtitleActionCopy then
        Inl \<lparr>se_Code = ''subtitle_ffmpeg_not_required'', se_Message = ''ASS copy plans do not require FFmpeg''\<rparr>
      else if \<not> isTextSubtitle (sp_InputFormat plan) then
        Inl \<lparr>se_Code = ''subtitle_format_unsupported'', se_Message = ''subtitle format cannot be converted to ASS''\<rparr>
      else bind_result
        (case sp_Source plan of
           SubtitleSourceExternal \<Rightarrow>
             if sp_Action plan \<noteq> SubtitleActionConvert then
               plan_invalid ''external subtitle plan must copy or convert''
             else Inr (sp_InputPath plan, lit ''0:0'')
         | SubtitleSourceEmbedded \<Rightarrow>
             if sp_Action plan \<noteq> SubtitleActionExtract \<or> sp_StreamIndex plan < 0 then
               plan_invalid ''embedded subtitle plan requires a stream index''
             else Inr (if sp_InputPath plan = [] then videoPath else sp_InputPath plan,
                       lit ''0:'' @ itoa (sp_StreamIndex plan)))
        (\<lambda>(inputPath, streamMap).
           if trim_space inputPath = [] then plan_invalid ''subtitle input path is required''
           else Inr [lit ''-y'', lit ''-i'', inputPath, lit ''-map'', streamMap, lit ''-vn'', lit ''-an'',
                     lit ''-c:s'', lit ''ass'', lit ''-f'', lit ''ass'', temporaryOutput]))"

section \<open>Structure of ASS files\<close>

text \<open>
  \<^verbatim>\<open>bufio.Scanner\<close> with its default split function: the lines without their newline and one
  carriage return before it, no line after a final newline. A line of \<^verbatim>\<open>maxASSScanTokenBytes\<close>
  bytes or more fills the buffer and stops the scan with an error: the result has the lines
  before it and \<open>False\<close>.
\<close>

definition maxASSScanTokenBytes :: nat where
  "maxASSScanTokenBytes = 67108864"

definition drop_cr :: "gostr \<Rightarrow> gostr" where
  "drop_cr line = (if has_suffix line [13] then butlast line else line)"

definition scanner_tokens :: "gostr \<Rightarrow> gostr list" where
  "scanner_tokens content =
     (let parts = split_on 10 content in if last parts = [] then butlast parts else parts)"

definition newASSScanner :: "gostr \<Rightarrow> gostr list \<times> bool" where
  "newASSScanner content =
     (let tokens = scanner_tokens content;
          ok = takeWhile (\<lambda>token. byte_len token < maxASSScanTokenBytes) tokens
      in (map drop_cr ok, length ok = length tokens))"

definition trim_bom :: "gostr \<Rightarrow> gostr" where
  "trim_bom content = trim_prefix content [65279]"

record ass_state =
  as_section :: gostr
  as_hasScriptInfo :: bool
  as_hasEvents :: bool
  as_hasFormat :: bool
  as_hasDialogue :: bool

definition section_line :: "gostr \<Rightarrow> bool" where
  "section_line line = (has_prefix line (lit ''['') \<and> has_suffix line (lit '']''))"

definition ass_line :: "gostr \<Rightarrow> ass_state \<Rightarrow> ass_state" where
  "ass_line text st =
     (let line = trim_space text
      in if section_line line then
           (let sect = to_lower line
            in st\<lparr>as_section := sect,
                  as_hasScriptInfo := as_hasScriptInfo st \<or> sect = lit ''[script info]'',
                  as_hasEvents := as_hasEvents st \<or> sect = lit ''[events]''\<rparr>)
         else if as_section st \<noteq> lit ''[events]'' then st
         else
           (let lower = to_lower line
            in st\<lparr>as_hasFormat := as_hasFormat st \<or>
                    (has_prefix lower (lit ''format:'') \<and> trim_space (byte_drop 7 line) \<noteq> []),
                  as_hasDialogue := as_hasDialogue st \<or>
                    (has_prefix lower (lit ''dialogue:'') \<and> trim_space (byte_drop 9 line) \<noteq> [])\<rparr>))"

definition ass_init :: ass_state where
  "ass_init = \<lparr>as_section = [], as_hasScriptInfo = False, as_hasEvents = False,
     as_hasFormat = False, as_hasDialogue = False\<rparr>"

definition validateASSStructure :: "gostr \<Rightarrow> bool \<Rightarrow> SubtitleError option" where
  "validateASSStructure content requireScriptInfo =
     (case newASSScanner (trim_bom content) of (lines, complete) \<Rightarrow>
        let st = fold ass_line lines ass_init
        in if \<not> complete then
             Some \<lparr>se_Code = ''subtitle_invalid_ass'',
                   se_Message = ''read ASS subtitle: bufio.Scanner: token too long''\<rparr>
           else if (requireScriptInfo \<and> \<not> as_hasScriptInfo st) \<or> \<not> as_hasEvents st \<or>
                   \<not> as_hasFormat st \<or> \<not> as_hasDialogue st then
             Some \<lparr>se_Code = ''subtitle_invalid_ass'',
                   se_Message =
                     (if requireScriptInfo
                      then ''ASS subtitle requires Script Info, Events, Format, and Dialogue''
                      else ''ASS subtitle requires Events, Format, and Dialogue'')\<rparr>
           else None)"

definition ValidateASS :: "gostr \<Rightarrow> SubtitleError option" where
  "ValidateASS content = validateASSStructure content True"

definition ValidateASSCandidate :: "gostr \<Rightarrow> SubtitleError option" where
  "ValidateASSCandidate content = validateASSStructure content False"

section \<open>The ranking against its specification\<close>

text \<open>
  The specification of the ranking: the usable candidates (text formats that are not labelled with
  a foreign language), external files before embedded streams, each with its score, sorted stably
  by descending score.
\<close>

definition usable_external :: "SubtitleCandidate \<Rightarrow> bool" where
  "usable_external c = (external_evidence c \<noteq> SubtitleEvidenceOther \<and> isTextSubtitle (sc_Format c))"

definition usable_stream :: "SubtitleStream \<Rightarrow> bool" where
  "usable_stream s = (stream_evidence s \<noteq> SubtitleEvidenceOther \<and> isTextSubtitle (ss_Format s))"

definition usable_candidates :: "SubtitleSelectionRequest \<Rightarrow> (SubtitlePlan \<times> int) list" where
  "usable_candidates request =
     map (\<lambda>c. (external_plan c, external_score c)) (filter usable_external (sr_External request)) @
     map (\<lambda>s. (stream_plan (sr_VideoPath request) s, stream_score s))
       (filter usable_stream (sr_Embedded request))"

definition bitmap_chinese :: "SubtitleFormat \<Rightarrow> SubtitleEvidence \<Rightarrow> bool" where
  "bitmap_chinese format evidence =
     (\<not> isTextSubtitle format \<and> evidence \<notin> {SubtitleEvidenceOther, SubtitleEvidenceUnknown})"

definition has_bitmap_chinese :: "SubtitleSelectionRequest \<Rightarrow> bool" where
  "has_bitmap_chinese request =
     (list_ex (\<lambda>c. bitmap_chinese (sc_Format c) (external_evidence c)) (sr_External request) \<or>
      list_ex (\<lambda>s. bitmap_chinese (ss_Format s) (stream_evidence s)) (sr_Embedded request))"

text \<open>Choices collected so far carry increasing order numbers below the counter.\<close>

definition choices_ok :: "rank_state \<Rightarrow> bool" where
  "choices_ok st = (case st of (choices, u, order) \<Rightarrow>
     sorted_wrt (\<lambda>a b. ch_order a < ch_order b) choices \<and> (\<forall>c \<in> set choices. ch_order c < order))"

definition scored :: "rank_state \<Rightarrow> (SubtitlePlan \<times> int) list" where
  "scored st = map (\<lambda>c. (ch_plan c, ch_score c)) (fst st)"

lemma rank_step_facts:
  assumes "choices_ok st"
  shows "choices_ok (rank_step ev fm p sc st)"
    "scored (rank_step ev fm p sc st) =
       scored st @ (if ev \<noteq> SubtitleEvidenceOther \<and> isTextSubtitle fm then [(p, sc)] else [])"
    "fst (snd (rank_step ev fm p sc st)) \<longleftrightarrow> fst (snd st) \<or> bitmap_chinese fm ev"
  using assms
  by (auto simp: rank_step_def choices_ok_def scored_def bitmap_chinese_def sorted_wrt_append
      less_SucI split: prod.splits)

lemma fold_rank:
  assumes "choices_ok st"
  shows "choices_ok (fold (\<lambda>x. rank_step (ev x) (fm x) (p x) (sc x)) xs st) \<and>
    scored (fold (\<lambda>x. rank_step (ev x) (fm x) (p x) (sc x)) xs st) =
       scored st @ map (\<lambda>x. (p x, sc x))
         (filter (\<lambda>x. ev x \<noteq> SubtitleEvidenceOther \<and> isTextSubtitle (fm x)) xs) \<and>
    (fst (snd (fold (\<lambda>x. rank_step (ev x) (fm x) (p x) (sc x)) xs st)) \<longleftrightarrow>
       fst (snd st) \<or> list_ex (\<lambda>x. bitmap_chinese (fm x) (ev x)) xs)"
  using assms
proof (induction xs arbitrary: st)
  case Nil
  then show ?case by simp
next
  case (Cons x xs)
  note f = rank_step_facts [OF Cons.prems, of "ev x" "fm x" "p x" "sc x"]
  show ?case using Cons.IH [OF f(1)] by (simp add: f(2,3) disj_assoc)
qed

lemma insert_by_choice:
  "\<forall>y \<in> set ys. ch_order x < ch_order y \<Longrightarrow>
     insert_by choice_before x ys = insort_key (\<lambda>c. - ch_score c) x ys"
  by (induction ys) (auto simp: choice_before_def)

lemma sort_by_choice:
  "sorted_wrt (\<lambda>a b. ch_order a < ch_order b) cs \<Longrightarrow>
     sort_by choice_before cs = sort_key (\<lambda>c. - ch_score c) cs"
  by (induction cs) (simp_all add: insert_by_choice)

lemma map_insort_key: "map f (insort_key (\<lambda>x. g (f x)) x xs) = insort_key g (f x) (map f xs)"
  by (induction xs) auto

lemma map_sort_key: "map f (sort_key (\<lambda>x. g (f x)) xs) = sort_key g (map f xs)"
  by (induction xs) (simp_all add: map_insort_key)

lemma ranked_plans:
  assumes "choices_ok st"
  shows "map ch_plan (sort_by choice_before (fst st)) = map fst (sort_key (\<lambda>x. - snd x) (scored st))"
proof -
  have s: "sort_by choice_before (fst st) = sort_key (\<lambda>c. - ch_score c) (fst st)"
    using assms by (auto simp: choices_ok_def intro: sort_by_choice split: prod.splits)
  have "map (\<lambda>c. (ch_plan c, ch_score c)) (sort_key (\<lambda>c. - ch_score c) (fst st)) =
      sort_key (\<lambda>x. - snd x) (scored st)"
    using map_sort_key [of "\<lambda>c. (ch_plan c, ch_score c)" "\<lambda>x. - snd x" "fst st"]
    by (simp add: scored_def)
  then have "map fst (map (\<lambda>c. (ch_plan c, ch_score c)) (sort_by choice_before (fst st))) =
      map fst (sort_key (\<lambda>x. - snd x) (scored st))"
    by (simp only: s)
  then show ?thesis by (simp add: comp_def)
qed

lemma rank_all_facts:
  "choices_ok (rank_all request)"
  "scored (rank_all request) = usable_candidates request"
  "fst (snd (rank_all request)) \<longleftrightarrow> has_bitmap_chinese request"
proof -
  define a where "a = fold rank_external (sr_External request) ([], False, 0)"
  have b: "rank_all request = fold (rank_embedded (sr_VideoPath request)) (sr_Embedded request) a"
    by (simp add: rank_all_def a_def)
  have "choices_ok ([], False, 0)" by (simp add: choices_ok_def)
  from fold_rank [OF this, of external_evidence sc_Format external_plan external_score "sr_External request"]
  have a: "choices_ok a" "scored a = map (\<lambda>c. (external_plan c, external_score c))
      (filter usable_external (sr_External request))"
    "fst (snd a) \<longleftrightarrow> list_ex (\<lambda>c. bitmap_chinese (sc_Format c) (external_evidence c)) (sr_External request)"
    by (simp_all add: a_def rank_external_def [abs_def] scored_def usable_external_def [abs_def])
  from fold_rank [OF a(1), of stream_evidence ss_Format "stream_plan (sr_VideoPath request)" stream_score "sr_Embedded request"]
  show "choices_ok (rank_all request)" "scored (rank_all request) = usable_candidates request"
    "fst (snd (rank_all request)) \<longleftrightarrow> has_bitmap_chinese request"
    by (simp_all add: b rank_embedded_def [abs_def] a usable_candidates_def usable_stream_def [abs_def]
        has_bitmap_chinese_def)
qed

lemma no_choices_iff: "fst (rank_all request) = [] \<longleftrightarrow> usable_candidates request = []"
  using rank_all_facts(2) [of request] by (auto simp: scored_def)

lemma rank_Inr_iff:
  "RankSubtitleCandidates request = Inr plans \<longleftrightarrow> usable_candidates request \<noteq> [] \<and>
     plans = map fst (sort_key (\<lambda>x. - snd x) (usable_candidates request))"
  using ranked_plans [OF rank_all_facts(1), of request, unfolded rank_all_facts(2)]
    no_choices_iff [of request]
  by (cases "rank_all request") (auto simp: RankSubtitleCandidates_def)

section \<open>Identifiers\<close>

lemma distinct_map_sort_key: "distinct (map g (sort_key f xs)) = distinct (map g xs)"
  by (metis mset_eq_imp_distinct_iff mset_map mset_sort)

lemma embedded_id_ne_external:
  "CandidateID u (stream_plan v s) \<noteq> CandidateID u (external_plan c)"
  by (simp add: CandidateID_def LegacyCandidateID_def stream_plan_def external_plan_def)

section \<open>Properties\<close>

text \<open>
  C21: ranking equals its specification. The plans are the usable candidates in stable descending
  order of score; when there are none, the error says whether a Chinese subtitle was there in a
  bitmap format; taking the first plan never fails when ranking succeeds.
\<close>

theorem rank_subtitles_reference:
  "RankSubtitleCandidates request =
     (if usable_candidates request = [] then
        Inl (if has_bitmap_chinese request then
               \<lparr>se_Code = ''subtitle_format_unsupported'',
                se_Message = ''the available Chinese subtitle uses a bitmap or unsupported format''\<rparr>
             else
               \<lparr>se_Code = ''simplified_chinese_subtitle_not_found'',
                se_Message = ''no potentially usable Chinese text subtitle source was found''\<rparr>)
      else Inr (map fst (sort_key (\<lambda>x. - snd x) (usable_candidates request)))) \<and>
   SelectSubtitle request = Some (map_sum id hd (RankSubtitleCandidates request))"
proof
  show "RankSubtitleCandidates request =
     (if usable_candidates request = [] then
        Inl (if has_bitmap_chinese request then
               \<lparr>se_Code = ''subtitle_format_unsupported'',
                se_Message = ''the available Chinese subtitle uses a bitmap or unsupported format''\<rparr>
             else
               \<lparr>se_Code = ''simplified_chinese_subtitle_not_found'',
                se_Message = ''no potentially usable Chinese text subtitle source was found''\<rparr>)
      else Inr (map fst (sort_key (\<lambda>x. - snd x) (usable_candidates request))))"
    using ranked_plans [OF rank_all_facts(1), of request, unfolded rank_all_facts(2)]
      no_choices_iff [of request] rank_all_facts(3) [of request]
    by (cases "rank_all request") (auto simp: RankSubtitleCandidates_def)
  have "RankSubtitleCandidates request \<noteq> Inr []"
    by (metis length_0_conv length_sort map_is_Nil_conv rank_Inr_iff)
  then show "SelectSubtitle request = Some (map_sum id hd (RankSubtitleCandidates request))"
    by (auto simp: SelectSubtitle_def split: sum.split list.split)
qed

text \<open>
  C22: every plan that ranking returns can be run. For a video path, external paths and an output
  path that are not blank and stream indexes that are not negative, building the FFmpeg arguments
  of a ranked plan succeeds, with the input of the candidate and its stream.
\<close>

theorem ranked_plans_run:
  assumes "RankSubtitleCandidates request = Inr plans" "plan \<in> set plans"
    and "trim_space output \<noteq> []" "trim_space (sr_VideoPath request) \<noteq> []"
    and "\<forall>c \<in> set (sr_External request). trim_space (sc_Path c) \<noteq> []"
    and "\<forall>s \<in> set (sr_Embedded request). 0 \<le> ss_Index s"
  shows "BuildSubtitleFFmpegArgs plan videoPath output =
     Inr [lit ''-y'', lit ''-i'', sp_InputPath plan, lit ''-map'',
          (if sp_Source plan = SubtitleSourceEmbedded then lit ''0:'' @ itoa (sp_StreamIndex plan)
           else lit ''0:0''),
          lit ''-vn'', lit ''-an'', lit ''-c:s'', lit ''ass'', lit ''-f'', lit ''ass'', output] \<and>
     sp_Evidence plan \<noteq> SubtitleEvidenceOther"
proof -
  have "plan \<in> fst ` set (usable_candidates request)"
    using assms(1,2) by (auto simp: rank_Inr_iff)
  then consider c where "c \<in> set (sr_External request)" "usable_external c" "plan = external_plan c"
    | s where "s \<in> set (sr_Embedded request)" "usable_stream s" "plan = stream_plan (sr_VideoPath request) s"
    by (auto simp: usable_candidates_def)
  then show ?thesis
  proof cases
    case 1
    then show ?thesis using assms(3,5)
      by (auto simp: BuildSubtitleFFmpegArgs_def external_plan_def usable_external_def)
  next
    case 2
    then show ?thesis using assms(3,4,6)
      by (auto simp: BuildSubtitleFFmpegArgs_def stream_plan_def usable_stream_def)
  qed
qed

definition sample_request :: SubtitleSelectionRequest where
  "sample_request = \<lparr>sr_VideoPath = lit ''v.mkv'',
     sr_External = [\<lparr>sc_SourceFileID = 7, sc_Path = lit ''v.tc.srt'', sc_Format = SubtitleSRT, sc_Language = []\<rparr>],
     sr_Embedded = [\<lparr>ss_Index = 2, ss_Format = SubtitleASS, ss_Language = lit ''chs'', ss_Title = [],
       ss_Default = True, ss_Forced = False, ss_Script = ChineseScriptUnknown\<rparr>]\<rparr>"

definition sample_stream :: SubtitlePlan where
  "sample_stream = \<lparr>sp_Source = SubtitleSourceEmbedded, sp_SourceFileID = 0, sp_Action = SubtitleActionExtract,
      sp_InputPath = lit ''v.mkv'', sp_StreamIndex = 2, sp_InputFormat = SubtitleASS,
      sp_Language = ''zh-Hans'', sp_Evidence = SubtitleEvidenceSimplified\<rparr>"

definition sample_file :: SubtitlePlan where
  "sample_file = \<lparr>sp_Source = SubtitleSourceExternal, sp_SourceFileID = 7, sp_Action = SubtitleActionConvert,
      sp_InputPath = lit ''v.tc.srt'', sp_StreamIndex = -1, sp_InputFormat = SubtitleSRT,
      sp_Language = ''zh-Hans'', sp_Evidence = SubtitleEvidenceTraditional\<rparr>"

lemma sample_rank: "RankSubtitleCandidates sample_request = Inr [sample_stream, sample_file]"
  by code_simp

text \<open>The traditional external file ranks below the simplified embedded stream, and both run.\<close>

theorem ranked_plans_run_witness:
  "BuildSubtitleFFmpegArgs sample_stream (lit ''v.mkv'') (lit ''o'') =
     Inr [lit ''-y'', lit ''-i'', lit ''v.mkv'', lit ''-map'', lit ''0:2'',
          lit ''-vn'', lit ''-an'', lit ''-c:s'', lit ''ass'', lit ''-f'', lit ''ass'', lit ''o'']"
proof -
  have "trim_space (lit ''o'') \<noteq> []" "trim_space (lit ''v.mkv'') \<noteq> []" "trim_space (lit ''v.tc.srt'') \<noteq> []"
    "itoa 2 = lit ''2''" by code_simp+
  then show ?thesis
    using ranked_plans_run [OF sample_rank, of sample_stream "lit ''o''" "lit ''v.mkv''"]
    by (simp add: sample_request_def sample_stream_def del: lit_simps) simp
qed

text \<open>
  The candidate identifiers of a ranking are unambiguous. When the external files have
  distinct identifiers other than the nil UUID and the streams distinct indexes, no two ranked
  plans share a candidate identifier, for any injective rendering of UUIDs.
\<close>

theorem candidate_ids_distinct:
  assumes "inj uuid_str"
    and "distinct (map sc_SourceFileID (sr_External request))"
    and "uuid_nil \<notin> set (map sc_SourceFileID (sr_External request))"
    and "distinct (map ss_Index (sr_Embedded request))"
    and "RankSubtitleCandidates request = Inr plans"
  shows "distinct (map (CandidateID uuid_str) plans)"
proof -
  let ?id = "CandidateID uuid_str"
  have ext: "distinct (map (?id \<circ> external_plan) (filter usable_external (sr_External request)))"
  proof -
    have "distinct (map sc_SourceFileID (filter usable_external (sr_External request)))"
      using assms(2) by (simp add: distinct_map_filter)
    moreover have "?id (external_plan c) = lit ''external:'' @ uuid_str (sc_SourceFileID c)"
      if "c \<in> set (sr_External request)" for c
      using that assms(3) by (force simp: CandidateID_def external_plan_def)
    ultimately show ?thesis using assms(1)
      by (auto simp: distinct_map inj_on_def dest: injD)
  qed
  have emb: "distinct (map (?id \<circ> stream_plan (sr_VideoPath request)) (filter usable_stream (sr_Embedded request)))"
  proof -
    have "distinct (map ss_Index (filter usable_stream (sr_Embedded request)))"
      using assms(4) by (simp add: distinct_map_filter)
    then show ?thesis
      by (auto simp: distinct_map inj_on_def CandidateID_def stream_plan_def dest: itoa_inj)
  qed
  have "distinct (map ?id (map fst (usable_candidates request)))"
    using ext emb embedded_id_ne_external [of uuid_str]
    by (auto simp: usable_candidates_def comp_def) metis
  then have "distinct (map (?id \<circ> fst) (sort_key (\<lambda>x. - snd x) (usable_candidates request)))"
    by (simp only: distinct_map_sort_key map_map)
  then show ?thesis using assms(5) by (simp add: rank_Inr_iff)
qed
theorem candidate_ids_distinct_witness:
  "distinct (map (CandidateID nat_str) [sample_stream, sample_file])"
proof (rule candidate_ids_distinct [OF _ _ _ _ sample_rank])
  show "inj nat_str" by (auto intro: injI nat_str_inj)
qed (simp_all add: sample_request_def)

end
