(* ===== verification/FileSelection.thy ===== *)
theory FileSelection
  imports Subtitle EpisodeMapping "HOL-Library.AList"
begin

text \<open>
  Selection of files from a torrent (\<^verbatim>\<open>internal/domain/file_selection.go\<close>): validation of the
  manifest, classification of each path, the source episode a path names, the choice of one
  video and up to eight subtitles per episode, and the repair of episode numbers that an earlier
  version collapsed.
\<close>

section \<open>Patterns\<close>

text \<open>The alternatives the two patterns of extra tokens share, from \<^verbatim>\<open>ncop\<close> to the Japanese words for commentary.\<close>

definition extra_tokens :: rx where
  "extra_tokens =
     alts [ci ''ncop'', ci ''nced'', cat [ci ''op'', star digit], cat [ci ''ed'', star digit],
       cat [ci ''pv'', star digit], cat [ci ''cm'', star digit], cat [ci ''sp'', star digit],
       ci ''menu'', cat [ci ''scan'', opt (ci ''s'')], ci ''sample'', ci ''trailer'',
       ci ''teaser'', ci ''bonus'', ci ''creditless'', cat [ci ''talk'', star digit],
       ci ''commentary'', ci ''audiocommentary'', str [35848, 35805], str [35370, 35527],
       str [35775, 35848], str [21103, 38899, 22768], str [12467, 12513, 12531, 12479, 12522,
       12540], str [12458, 12540, 12487, 12451, 12458, 12467, 12513, 12531, 12479, 12522,
       12540]]"

definition extraTokenPattern :: rx where
  "extraTokenPattern =
     cat [Grp 1 left_edge, extra_tokens, right_edge]"

definition extraSingleTokenPattern :: rx where
  "extraSingleTokenPattern =
     cat [Bot, extra_tokens, Eot]"

definition extraDirectoryTokenPattern :: rx where
  "extraDirectoryTokenPattern =
     plus (Cls False (letter_table @ number_table))"

definition seasonDecimalEpisodePattern :: rx where
  "seasonDecimalEpisodePattern =
     cat [left_edge, ci ''s'', Grp 1 (between digit 1 2), star sep_rx, ci ''e'',
       Grp 2 (between digit 1 3), Cls False [(46, 46)], Grp 3 (between digit 1 2), version_rx,
       right_edge]"

definition seasonEpisodePattern :: rx where
  "seasonEpisodePattern =
     cat [left_edge, ci ''s'', Grp 1 (between digit 1 2), star sep_rx, ci ''e'',
       Grp 2 (between digit 1 3), version_rx, right_edge]"

definition seasonDirectoryPattern :: rx where
  "seasonDirectoryPattern =
     cat [alts [Bot, ch 47], alts [ci ''season'', ci ''s''], star sep_rx,
       Grp 1 (between digit 1 2), alts [ch 47, Eot]]"

definition eastAsianDecimalEpisodePattern :: rx where
  "eastAsianDecimalEpisodePattern =
     cat [opt (cat [ch 31532, star space_rx]), Grp 1 (between digit 1 3), Cls False [(46, 46)],
       Grp 2 (between digit 1 2), star space_rx, Cls False [(35805, 35805), (35441, 35441),
       (38598, 38598)]]"

definition eastAsianEpisodePattern :: rx where
  "eastAsianEpisodePattern =
     cat [opt (cat [ch 31532, star space_rx]), Grp 1 (between digit 1 3), star space_rx,
       Cls False [(35805, 35805), (35441, 35441), (38598, 38598)]]"

definition episodeTokenDecimalPattern :: rx where
  "episodeTokenDecimalPattern =
     cat [left_edge, alts [ci ''ep'', ci ''episode'', ci ''e''], star sep_rx,
       Grp 1 (between digit 1 3), Cls False [(46, 46)], Grp 2 (between digit 1 2), version_rx,
       right_edge]"

definition episodeTokenPattern :: rx where
  "episodeTokenPattern =
     cat [left_edge, alts [ci ''ep'', ci ''episode'', ci ''e''], star sep_rx,
       Grp 1 (between digit 1 3), version_rx, right_edge]"

definition delimitedDecimalEpisodePattern :: rx where
  "delimitedDecimalEpisodePattern =
     cat [alts [Bot, Cls False [(9, 13), (32, 32), (46, 46), (95, 95), (91, 91), (93, 93),
       (45, 45)]], Grp 1 (between digit 1 3), Cls False [(46, 46)], Grp 2 (between digit 1 2),
       version_rx, alts [Eot, Cls False [(9, 13), (32, 32), (46, 46), (95, 95), (93, 93),
       (41, 41), (45, 45)]]]"

definition delimitedEpisodePattern :: rx where
  "delimitedEpisodePattern =
     cat [alts [Bot, Cls False [(9, 13), (32, 32), (46, 46), (95, 95), (91, 91), (93, 93),
       (45, 45)]], Grp 1 (between digit 1 3), version_rx, alts [Eot, Cls False [(9, 13),
       (32, 32), (46, 46), (95, 95), (93, 93), (41, 41), (45, 45)]]]"

definition drivePathPattern :: rx where
  "drivePathPattern =
     cat [Bot, Cls False [(97, 122), (65, 90), (383, 383), (8490, 8490)], str (lit '':/'')]"

definition nonNamePattern :: rx where
  "nonNamePattern =
     plus not_alnum"

definition trailingLanguagePattern :: rx where
  "trailingLanguagePattern =
     cat [plus sep_rx, alts [cat [ci ''zh'', star sep_rx, alts [ci ''hans'', ci ''hant'',
       ci ''cn'', ci ''sg'', ci ''tw'', ci ''hk'', ci ''mo'']], ci ''chs'', ci ''cht'',
       ci ''sc'', ci ''tc'', cat [ci ''gb'', opt (alts [str (lit ''2312''), ci ''k''])],
       ci ''big5'', ci ''scjp'', ci ''tcjp'', ci ''jpsc'', ci ''jptc'', cat [ci ''chs'',
       star sep_rx, ci ''jp'', opt (ci ''n'')], cat [ci ''cht'', star sep_rx, ci ''jp'',
       opt (ci ''n'')], cat [ci ''sc'', star sep_rx, ci ''jp'', opt (ci ''n'')], cat [ci ''tc'',
       star sep_rx, ci ''jp'', opt (ci ''n'')], cat [ci ''chs'', star sep_rx, ci ''en'',
       opt (ci ''g'')], cat [ci ''cht'', star sep_rx, ci ''en'', opt (ci ''g'')], cat
       [ci ''sc'', star sep_rx, ci ''en'', opt (ci ''g'')], cat [ci ''tc'', star sep_rx,
       ci ''en'', opt (ci ''g'')], cat [str [31616, 26085], opt (str [21452, 35821])], cat
       [str [32321, 26085], opt (str [21452, 35821])], str [26085, 31616], str [26085, 32321],
       cat [str [20013, 26085], opt (str [21452, 35821])], cat [str [20013, 33521],
       opt (str [21452, 35821])], str [31616, 33521], str [32321, 33521], str [21452, 35821],
       cat [str [31616, 20307], opt (str [20013, 25991])], cat [str [31777, 39636],
       opt (str [20013, 25991])], str [31616, 20013], str [31777, 20013], str [32321, 20013],
       str [31616, 32321], str [32321, 31616], ci ''ja'', ci ''jpn'', ci ''jp'', ci ''en'',
       ci ''eng''], Eot]"


definition videoExtensions :: "gostr list" where
  "videoExtensions = [lit ''.avi'', lit ''.m2ts'', lit ''.m4v'', lit ''.mkv'', lit ''.mov'',
     lit ''.mp4'', lit ''.ts'', lit ''.webm'']"

definition subtitleExtensions :: "gostr list" where
  "subtitleExtensions = [lit ''.ass'', lit ''.srt'', lit ''.ssa'', lit ''.vtt'']"

section \<open>Data\<close>

record DownloadFile =
  df_Index :: int
  df_RelativePath :: gostr
  df_SizeBytes :: int

record ClassifiedDownloadFile = DownloadFile +
  cf_Kind :: MediaKind
  cf_SourceSeason :: int
  cf_SourceEpisode :: int
  cf_SourceEpisodeFractionHundredths :: int
  cf_Language :: gostr
  cf_Selected :: bool

record SelectedEpisode =
  se_SourceSeason :: int
  se_SourceEpisode :: int
  se_SourceEpisodeFractionHundredths :: int
  se_Video :: ClassifiedDownloadFile
  se_Subtitle :: "ClassifiedDownloadFile option"
  se_Subtitles :: "ClassifiedDownloadFile list"

record FileSelectionOptions =
  fo_DefaultSeason :: int
  fo_DefaultEpisode :: int
  fo_SingleEpisode :: bool

record FileSelectionResult =
  fr_Files :: "ClassifiedDownloadFile list"
  fr_Episodes :: "SelectedEpisode list"

text \<open>
  The errors, with the index the message names. \<open>NegativeIndex\<close> and \<open>DuplicateIndex\<close> wrap
  \<^verbatim>\<open>ErrDuplicateDownloadFile\<close>, \<open>UnsafePath\<close> wraps \<^verbatim>\<open>ErrUnsafeDownloadPath\<close>.
\<close>

datatype FileSelectionError =
    DefaultSeasonNotPositive
  | SingleEpisodeNotPositive
  | NegativeIndex int
  | DuplicateIndex int
  | UnsafePath int
  | NegativeSize int
  | ErrNoMainVideo

section \<open>Paths\<close>

abbreviation unix_path :: "gostr \<Rightarrow> gostr" where
  "unix_path p \<equiv> replace_rune backslash slash p"

text \<open>\<open>True\<close> is the result \<^verbatim>\<open>nil\<close>, \<open>False\<close> is \<^verbatim>\<open>ErrUnsafeDownloadPath\<close>.\<close>

definition validateRelativeDownloadPath :: "gostr \<Rightarrow> bool" where
  "validateRelativeDownloadPath filePath =
     (let normalized = unix_path (trim_space filePath)
      in \<not> (normalized = [] \<or> 0 \<in> set normalized \<or> has_prefix normalized [slash] \<or>
            rx_matches drivePathPattern normalized) \<and>
         list_all (\<lambda>segment. segment \<noteq> [dot, dot]) (split_on slash normalized))"

definition isAllDigits :: "gostr \<Rightarrow> bool" where
  "isAllDigits val = (val \<noteq> [] \<and> list_all (\<lambda>c. 48 \<le> c \<and> c \<le> 57) val)"

fun extra_token_loop :: "bool \<Rightarrow> gostr list \<Rightarrow> bool" where
  "extra_token_loop hasExtra [] = hasExtra"
| "extra_token_loop hasExtra (token # tokens) =
     (if isAllDigits token then extra_token_loop hasExtra tokens
      else if rx_matches extraSingleTokenPattern token then extra_token_loop True tokens
      else False)"

definition isIndependentExtraDirectory :: "gostr \<Rightarrow> bool" where
  "isIndependentExtraDirectory segment =
     (let trimmed = trim_space segment
      in if trimmed = [] \<or> trimmed = [dot] then False
         else if \<not> rx_matches extraTokenPattern trimmed then False
         else
           (let tokens = map m_text (rx_find_all extraDirectoryTokenPattern (to_lower trimmed))
            in if tokens = [] then False else extra_token_loop False tokens))"

definition extra_directory :: "gostr \<Rightarrow> bool" where
  "extra_directory dir =
     (dir \<noteq> [dot] \<and>
      (case split_on slash dir of
         [] \<Rightarrow> False
       | segment # rest \<Rightarrow>
           isIndependentExtraDirectory segment \<or> list_ex (rx_matches extraTokenPattern) rest))"

definition classifyDownloadPath :: "gostr \<Rightarrow> MediaKind" where
  "classifyDownloadPath filePath =
     (let normalized = unix_path filePath
      in if rx_matches extraTokenPattern (path_base normalized) then MediaExtra
         else if extra_directory (path_dir normalized) then MediaExtra
         else let extension = to_lower (path_ext normalized)
              in if extension \<in> set videoExtensions then MediaVideo
                 else if extension \<in> set subtitleExtensions then MediaSubtitle
                 else MediaOther)"

section \<open>Source coordinates\<close>

record parsedSourceCoordinate =
  pc_coordinate :: EpisodeCoordinate
  pc_legacyCollapsedEpisode :: int
  pc_fractional :: bool

text \<open>A result \<^verbatim>\<open>(value, ok)\<close> is an option.\<close>

definition episodeFractionHundredths :: "gostr \<Rightarrow> int option" where
  "episodeFractionHundredths raw =
     (if byte_len raw = 0 \<or> byte_len raw > 2 then None
      else let fraction = (if byte_len raw = 1 then decimal raw * 10 else decimal raw)
           in if fraction \<ge> 0 \<and> fraction \<le> 99 then Some fraction else None)"

definition parseDecimalSourceCoordinate :: "int \<Rightarrow> gostr \<Rightarrow> gostr \<Rightarrow> parsedSourceCoordinate option" where
  "parseDecimalSourceCoordinate season episodeRaw fractionRaw =
     (let episode = decimal episodeRaw
      in case episodeFractionHundredths fractionRaw of
           None \<Rightarrow> None
         | Some fraction \<Rightarrow>
             if season \<le> 0 \<or> episode \<le> 0 then None
             else Some \<lparr>pc_coordinate = \<lparr>Season = season, Episode = episode,
                          EpisodeFractionHundredths = fraction\<rparr>,
                        pc_legacyCollapsedEpisode = episode * 10 + decimal fractionRaw,
                        pc_fractional = True\<rparr>)"

definition whole_coordinate :: "int \<Rightarrow> int \<Rightarrow> parsedSourceCoordinate option" where
  "whole_coordinate season episode =
     (if season > 0 \<and> episode > 0 then
        Some \<lparr>pc_coordinate = coord season episode, pc_legacyCollapsedEpisode = 0, pc_fractional = False\<rparr>
      else None)"

text \<open>The four attempts of \<^verbatim>\<open>parseSourceCoordinate\<close>, in order; the two loops try their patterns in turn.\<close>

definition match_then :: "rx \<Rightarrow> gostr \<Rightarrow> (rmatch \<Rightarrow> 'a option) \<Rightarrow> 'a option" where
  "match_then r s f = Option.bind (rx_find r s) f"

fun first_some :: "('a \<Rightarrow> 'b option) \<Rightarrow> 'a list \<Rightarrow> 'b option" where
  "first_some f [] = None"
| "first_some f (x # xs) = (case f x of Some y \<Rightarrow> Some y | None \<Rightarrow> first_some f xs)"

definition directory_season :: "gostr \<Rightarrow> int \<Rightarrow> int" where
  "directory_season normalized defaultSeason =
     (case rx_find seasonDirectoryPattern normalized of
        Some m \<Rightarrow> decimal (submatch m 1)
      | None \<Rightarrow> defaultSeason)"

definition parseSourceCoordinate :: "gostr \<Rightarrow> int \<Rightarrow> parsedSourceCoordinate option" where
  "parseSourceCoordinate filePath defaultSeason =
     (let normalized = unix_path (trim_space filePath);
          base = path_base normalized;
          stem = trim_suffix base (path_ext base);
          season = directory_season normalized defaultSeason
      in first_some (\<lambda>attempt. attempt ())
           [\<lambda>_. match_then seasonDecimalEpisodePattern stem
                  (\<lambda>m. parseDecimalSourceCoordinate (decimal (submatch m 1)) (submatch m 2) (submatch m 3)),
            \<lambda>_. match_then seasonEpisodePattern stem
                  (\<lambda>m. whole_coordinate (decimal (submatch m 1)) (decimal (submatch m 2))),
            \<lambda>_. first_some (\<lambda>pattern. match_then pattern stem
                  (\<lambda>m. parseDecimalSourceCoordinate season (submatch m 1) (submatch m 2)))
                  [eastAsianDecimalEpisodePattern, episodeTokenDecimalPattern, delimitedDecimalEpisodePattern],
            \<lambda>_. first_some (\<lambda>pattern. match_then pattern stem
                  (\<lambda>m. whole_coordinate season (decimal (submatch m 1))))
                  [eastAsianEpisodePattern, episodeTokenPattern, delimitedEpisodePattern]])"

definition ParseSourceCoordinate :: "gostr \<Rightarrow> int \<Rightarrow> EpisodeCoordinate option" where
  "ParseSourceCoordinate filePath defaultSeason =
     map_option pc_coordinate (parseSourceCoordinate filePath defaultSeason)"

definition RecoverLegacyFractionalSourceCoordinate ::
  "gostr \<Rightarrow> EpisodeCoordinate \<Rightarrow> EpisodeCoordinate \<times> bool" where
  "RecoverLegacyFractionalSourceCoordinate filePath persisted =
     (if Season persisted \<le> 0 \<or> Episode persisted \<le> 0 \<or> EpisodeFractionHundredths persisted \<noteq> 0 then
        (persisted, False)
      else
        (case parseSourceCoordinate filePath (Season persisted) of
           None \<Rightarrow> (persisted, False)
         | Some parsed \<Rightarrow>
             if \<not> pc_fractional parsed \<or> Season (pc_coordinate parsed) \<noteq> Season persisted \<or>
                pc_legacyCollapsedEpisode parsed \<noteq> Episode persisted then (persisted, False)
             else (pc_coordinate parsed, True)))"

section \<open>Classification\<close>

definition detectSubtitleLanguage :: "gostr \<Rightarrow> gostr" where
  "detectSubtitleLanguage filePath =
     (let label = path_base (unix_path filePath);
          (simplified, traditional, otherLanguage) = subtitleLabelSignals label
      in if simplified \<and> \<not> traditional \<and> \<not> otherLanguage then lit ''zh-Hans''
         else if traditional \<and> \<not> simplified \<and> \<not> otherLanguage then lit ''zh-Hant''
         else
           (let normalized = normalizeSubtitleLabel (to_lower label)
            in if containsSubtitleLabelToken normalized [lit ''ja'', lit ''jpn'', lit ''jp'', lit ''japanese'']
               then lit ''ja''
               else if containsSubtitleLabelToken normalized [lit ''en'', lit ''eng'', lit ''english'']
               then lit ''en'' else []))"

definition source_coordinate :: "FileSelectionOptions \<Rightarrow> gostr \<Rightarrow> EpisodeCoordinate option" where
  "source_coordinate options p =
     (if fo_SingleEpisode options then Some (coord (fo_DefaultSeason options) (fo_DefaultEpisode options))
      else ParseSourceCoordinate p (fo_DefaultSeason options))"

definition classify_file :: "FileSelectionOptions \<Rightarrow> DownloadFile \<Rightarrow> ClassifiedDownloadFile" where
  "classify_file options file =
     (let p = df_RelativePath file;
          kind = classifyDownloadPath p;
          c = (if kind = MediaVideo \<or> kind = MediaSubtitle then
                 (case source_coordinate options p of
                    Some coordinate \<Rightarrow> coordinate
                  | None \<Rightarrow> coord 0 0)
               else coord 0 0)
      in \<lparr>df_Index = df_Index file, df_RelativePath = p, df_SizeBytes = df_SizeBytes file,
          cf_Kind = kind, cf_SourceSeason = Season c, cf_SourceEpisode = Episode c,
          cf_SourceEpisodeFractionHundredths = EpisodeFractionHundredths c,
          cf_Language = (if kind = MediaSubtitle then detectSubtitleLanguage p else []),
          cf_Selected = False\<rparr>)"

fun classify_loop ::
  "FileSelectionOptions \<Rightarrow> int list \<Rightarrow> DownloadFile list \<Rightarrow>
     (FileSelectionError, ClassifiedDownloadFile list) result" where
  "classify_loop options seenIndexes [] = Inr []"
| "classify_loop options seenIndexes (file # files) =
     (let i = df_Index file
      in if i < 0 then Inl (NegativeIndex i)
         else if i \<in> set seenIndexes then Inl (DuplicateIndex i)
         else if \<not> validateRelativeDownloadPath (df_RelativePath file) then Inl (UnsafePath i)
         else if df_SizeBytes file < 0 then Inl (NegativeSize i)
         else bind_result (classify_loop options (i # seenIndexes) files)
                (\<lambda>rest. Inr (classify_file options file # rest)))"

definition ClassifyDownloadFiles ::
  "DownloadFile list \<Rightarrow> FileSelectionOptions \<Rightarrow> (FileSelectionError, ClassifiedDownloadFile list) result" where
  "ClassifyDownloadFiles files options =
     (if fo_DefaultSeason options \<le> 0 then Inl DefaultSeasonNotPositive
      else if fo_SingleEpisode options \<and> fo_DefaultEpisode options \<le> 0 then Inl SingleEpisodeNotPositive
      else classify_loop options [] files)"

section \<open>Selection\<close>

definition betterVideo :: "ClassifiedDownloadFile \<Rightarrow> ClassifiedDownloadFile \<Rightarrow> bool" where
  "betterVideo candidate current =
     (if df_SizeBytes candidate \<noteq> df_SizeBytes current then df_SizeBytes candidate > df_SizeBytes current
      else if df_Index candidate \<noteq> df_Index current then df_Index candidate < df_Index current
      else str_less (df_RelativePath candidate) (df_RelativePath current))"

definition normalizedMediaStem :: "gostr \<Rightarrow> bool \<Rightarrow> gostr" where
  "normalizedMediaStem filePath stripLanguage =
     (let base = path_base (unix_path filePath);
          stem0 = trim_suffix base (path_ext base);
          stem = (if stripLanguage then rx_replace_all trailingLanguagePattern stem0 [] else stem0)
      in trim_space (rx_replace_all nonNamePattern (to_lower stem) [32]))"

definition subtitleScore :: "ClassifiedDownloadFile \<Rightarrow> ClassifiedDownloadFile \<Rightarrow> int" where
  "subtitleScore subtitle video =
     (if normalizedMediaStem (df_RelativePath subtitle) True = normalizedMediaStem (df_RelativePath video) False
      then 1000 else 0)
     + (if path_dir (unix_path (df_RelativePath subtitle)) = path_dir (unix_path (df_RelativePath video))
        then 100 else 0)
     + (if equal_fold_ascii (path_ext (df_RelativePath subtitle)) (lit ''.ass'') then 10 else 0)"

definition subtitleTieBreak :: "ClassifiedDownloadFile \<Rightarrow> ClassifiedDownloadFile \<Rightarrow> bool" where
  "subtitleTieBreak candidate current =
     (if df_Index candidate \<noteq> df_Index current then df_Index candidate < df_Index current
      else str_less (df_RelativePath candidate) (df_RelativePath current))"

definition maxExternalSubtitleCandidates :: nat where
  "maxExternalSubtitleCandidates = 8"

record subtitleFileChoice =
  fc_index :: nat
  fc_score :: int

definition at_coordinate :: "EpisodeCoordinate \<Rightarrow> ClassifiedDownloadFile \<Rightarrow> bool" where
  "at_coordinate c f =
     (cf_SourceSeason f = Season c \<and> cf_SourceEpisode f = Episode c \<and>
      cf_SourceEpisodeFractionHundredths f = EpisodeFractionHundredths c)"

definition file_evidence :: "ClassifiedDownloadFile \<Rightarrow> SubtitleEvidence" where
  "file_evidence f = subtitleMetadataEvidence (cf_Language f) (path_base (unix_path (df_RelativePath f)))"

definition subtitle_candidate :: "EpisodeCoordinate \<Rightarrow> ClassifiedDownloadFile \<Rightarrow> bool" where
  "subtitle_candidate c f =
     (cf_Kind f = MediaSubtitle \<and> at_coordinate c f \<and> file_evidence f \<noteq> SubtitleEvidenceOther)"

definition choice_score :: "ClassifiedDownloadFile \<Rightarrow> ClassifiedDownloadFile \<Rightarrow> int" where
  "choice_score video f = subtitleEvidenceScore (file_evidence f) * 10 + subtitleScore f video"

definition subtitle_choices ::
  "ClassifiedDownloadFile list \<Rightarrow> EpisodeCoordinate \<Rightarrow> ClassifiedDownloadFile \<Rightarrow> subtitleFileChoice list" where
  "subtitle_choices files coordinate video =
     map (\<lambda>(i, f). \<lparr>fc_index = i, fc_score = choice_score video f\<rparr>)
       (filter (\<lambda>(i, f). subtitle_candidate coordinate f) (enumerate 0 files))"

definition choice_less :: "ClassifiedDownloadFile list \<Rightarrow> subtitleFileChoice \<Rightarrow> subtitleFileChoice \<Rightarrow> bool" where
  "choice_less files l r =
     (if fc_score l \<noteq> fc_score r then fc_score l > fc_score r
      else subtitleTieBreak (files ! fc_index l) (files ! fc_index r))"

definition selectSubtitles ::
  "ClassifiedDownloadFile list \<Rightarrow> EpisodeCoordinate \<Rightarrow> ClassifiedDownloadFile \<Rightarrow> nat list" where
  "selectSubtitles files coordinate video =
     map fc_index (take maxExternalSubtitleCandidates
       (sort_by (choice_less files) (subtitle_choices files coordinate video)))"

text \<open>
  \<^verbatim>\<open>SelectDownloadFiles\<close>: the map \<^verbatim>\<open>videos\<close> is an association list in the order of first insertion;
  Go ranges over it in an arbitrary order and sorts the keys afterwards.
\<close>

definition file_coordinate :: "ClassifiedDownloadFile \<Rightarrow> EpisodeCoordinate" where
  "file_coordinate f =
     \<lparr>Season = cf_SourceSeason f, Episode = cf_SourceEpisode f,
      EpisodeFractionHundredths = cf_SourceEpisodeFractionHundredths f\<rparr>"

definition main_video :: "ClassifiedDownloadFile \<Rightarrow> bool" where
  "main_video f = (cf_Kind f = MediaVideo \<and> cf_SourceSeason f > 0 \<and> cf_SourceEpisode f > 0)"

definition consider_video ::
  "ClassifiedDownloadFile list \<Rightarrow> nat \<times> ClassifiedDownloadFile \<Rightarrow>
     (EpisodeCoordinate \<times> nat) list \<Rightarrow> (EpisodeCoordinate \<times> nat) list" where
  "consider_video files entry videos =
     (case entry of (i, f) \<Rightarrow>
        if \<not> main_video f then videos
        else case map_of videos (file_coordinate f) of
               None \<Rightarrow> AList.update (file_coordinate f) i videos
             | Some current \<Rightarrow>
                 if betterVideo f (files ! current) then AList.update (file_coordinate f) i videos
                 else videos)"

definition best_videos :: "ClassifiedDownloadFile list \<Rightarrow> (EpisodeCoordinate \<times> nat) list" where
  "best_videos files = fold (consider_video files) (enumerate 0 files) []"

definition coordinate_less :: "EpisodeCoordinate \<Rightarrow> EpisodeCoordinate \<Rightarrow> bool" where
  "coordinate_less l r =
     (if Season l \<noteq> Season r then Season l < Season r
      else if Episode l \<noteq> Episode r then Episode l < Episode r
      else EpisodeFractionHundredths l < EpisodeFractionHundredths r)"

definition mark_selected :: "nat \<Rightarrow> ClassifiedDownloadFile list \<Rightarrow> ClassifiedDownloadFile list" where
  "mark_selected i files = files[i := (files ! i)\<lparr>cf_Selected := True\<rparr>]"

definition take_subtitle ::
  "nat \<Rightarrow> ClassifiedDownloadFile list \<times> ClassifiedDownloadFile list \<Rightarrow>
     ClassifiedDownloadFile list \<times> ClassifiedDownloadFile list" where
  "take_subtitle i st =
     (case st of (files, subtitles) \<Rightarrow>
        let files' = mark_selected i files in (files', subtitles @ [files' ! i]))"

definition select_episode ::
  "(EpisodeCoordinate \<times> nat) list \<Rightarrow> EpisodeCoordinate \<Rightarrow>
     ClassifiedDownloadFile list \<times> SelectedEpisode list \<Rightarrow>
     ClassifiedDownloadFile list \<times> SelectedEpisode list" where
  "select_episode videos coordinate st =
     (case st of (files, episodes) \<Rightarrow>
        let videoIndex = (case map_of videos coordinate of Some i \<Rightarrow> i | None \<Rightarrow> 0);
            files1 = mark_selected videoIndex files;
            subtitleIndexes = selectSubtitles files1 coordinate (files1 ! videoIndex);
            (files2, subtitles) = fold take_subtitle subtitleIndexes (files1, [])
        in (files2, episodes @ [\<lparr>se_SourceSeason = Season coordinate, se_SourceEpisode = Episode coordinate,
              se_SourceEpisodeFractionHundredths = EpisodeFractionHundredths coordinate,
              se_Video = files2 ! videoIndex,
              se_Subtitle = (case subtitles of [] \<Rightarrow> None | selected # _ \<Rightarrow> Some selected),
              se_Subtitles = subtitles\<rparr>]))"

definition select_classified ::
  "ClassifiedDownloadFile list \<Rightarrow> (FileSelectionError, FileSelectionResult) result" where
  "select_classified files =
     (let videos = best_videos files
      in if videos = [] then Inl ErrNoMainVideo
         else
           (let coordinates = sort_by coordinate_less (map fst videos);
                (files', episodes) = fold (select_episode videos) coordinates (files, [])
            in Inr \<lparr>fr_Files = files', fr_Episodes = episodes\<rparr>))"

definition SelectDownloadFiles ::
  "DownloadFile list \<Rightarrow> FileSelectionOptions \<Rightarrow> (FileSelectionError, FileSelectionResult) result" where
  "SelectDownloadFiles files options =
     bind_result (ClassifyDownloadFiles files options) select_classified"

section \<open>Facts about the classification\<close>

definition acceptable_file :: "DownloadFile \<Rightarrow> bool" where
  "acceptable_file f \<longleftrightarrow> 0 \<le> df_Index f \<and> validateRelativeDownloadPath (df_RelativePath f) \<and> 0 \<le> df_SizeBytes f"

lemma classify_loop_Inr_iff:
  "classify_loop options seen fs = Inr cs \<longleftrightarrow>
     cs = map (classify_file options) fs \<and> distinct (map df_Index fs) \<and>
     (\<forall>f \<in> set fs. acceptable_file f \<and> df_Index f \<notin> set seen)"
proof (induction fs arbitrary: seen cs)
  case (Cons f fs)
  show ?case
    by (auto simp: Let_def acceptable_file_def bind_result_eq_Inr_iff Cons.IH not_less split: if_splits)
      (metis imageI)
qed auto

lemma ClassifyDownloadFiles_Inr_iff:
  "ClassifyDownloadFiles fs options = Inr cs \<longleftrightarrow>
     0 < fo_DefaultSeason options \<and> (fo_SingleEpisode options \<longrightarrow> 0 < fo_DefaultEpisode options) \<and>
     cs = map (classify_file options) fs \<and> distinct (map df_Index fs) \<and> (\<forall>f \<in> set fs. acceptable_file f)"
  by (auto simp: ClassifyDownloadFiles_def classify_loop_Inr_iff not_le)

lemma classify_file_simps [simp]:
  "df_Index (classify_file options f) = df_Index f"
  "df_RelativePath (classify_file options f) = df_RelativePath f"
  "df_SizeBytes (classify_file options f) = df_SizeBytes f"
  by (simp_all add: classify_file_def Let_def)

section \<open>Captured numbers\<close>

definition all_digits :: "gostr \<Rightarrow> bool" where
  "all_digits s = (\<forall>c \<in> set s. 48 \<le> c \<and> c \<le> 57)"

lemma captures_digits: "captures (between digit lo hi) g \<Longrightarrow> all_digits g \<and> length g \<le> hi"
  by (auto simp: captures_def all_digits_def cls_mem_def dest!: bounded_class_run)

text \<open>A group that captures between \<open>lo\<close> and \<open>hi\<close> digits yields a number of at most \<open>hi\<close> digits.\<close>

lemma submatch_digits:
  assumes "rx_find r s = Some m" "\<forall>(k, sub) \<in> set (grps r). k = n \<longrightarrow> (\<exists>lo. sub = between digit lo hi)"
  shows "all_digits (submatch m n) \<and> length (submatch m n) \<le> hi"
  using submatch_captured [OF assms(1), of n] assms(2)
  by (auto simp: all_digits_def dest!: captures_digits)

lemma decimal_acc_bounds:
  "all_digits s \<Longrightarrow> 0 \<le> r \<Longrightarrow> 0 \<le> decimal_acc r s \<and> decimal_acc r s < (r + 1) * 10 ^ length s"
proof (induction s arbitrary: r)
  case Nil
  then show ?case by simp
next
  case (Cons c s)
  have c: "48 \<le> c" "c \<le> 57" "all_digits s" using Cons.prems by (auto simp: all_digits_def)
  then have "0 \<le> decimal_acc (r * 10 + (c - 48)) s"
    "decimal_acc (r * 10 + (c - 48)) s < (r * 10 + (c - 48) + 1) * 10 ^ length s"
    using Cons.IH [OF c(3), of "r * 10 + (c - 48)"] c(1) Cons.prems(2) by simp_all
  moreover have "(r * 10 + (c - 48) + 1) * 10 ^ length s \<le> (r * 10 + 10) * (10 :: int) ^ length s"
    using c by (intro mult_right_mono) auto
  moreover have "(r * 10 + 10) * (10 :: int) ^ length s = (r + 1) * 10 ^ length (c # s)"
    by (simp add: algebra_simps)
  moreover have "decimal_acc r (c # s) = decimal_acc (r * 10 + (c - 48)) s" using c by simp
  ultimately show ?case by linarith
qed

lemma decimal_bounds:
  assumes "all_digits s" "length s \<le> k"
  shows "0 \<le> decimal s" "decimal s < 10 ^ k"
proof -
  have "decimal s < 10 ^ length s" "0 \<le> decimal s"
    using decimal_acc_bounds [OF assms(1), of 0] by (auto simp: decimal_def)
  moreover have "(10 :: int) ^ length s \<le> 10 ^ k" using assms(2) by (intro power_increasing) auto
  ultimately show "0 \<le> decimal s" "decimal s < 10 ^ k" by linarith+
qed

section \<open>Facts about parsed coordinates\<close>

lemmas pattern_defs = seasonDecimalEpisodePattern_def seasonEpisodePattern_def seasonDirectoryPattern_def
  eastAsianDecimalEpisodePattern_def episodeTokenDecimalPattern_def delimitedDecimalEpisodePattern_def
  eastAsianEpisodePattern_def episodeTokenPattern_def delimitedEpisodePattern_def

lemma pattern_groups:
  "set (grps seasonDecimalEpisodePattern) =
     {(1, between digit 1 2), (2, between digit 1 3), (3, between digit 1 2)}"
  "set (grps seasonEpisodePattern) = {(1, between digit 1 2), (2, between digit 1 3)}"
  "set (grps seasonDirectoryPattern) = {(1, between digit 1 2)}"
  "set (grps eastAsianDecimalEpisodePattern) = {(1, between digit 1 3), (2, between digit 1 2)}"
  "set (grps episodeTokenDecimalPattern) = {(1, between digit 1 3), (2, between digit 1 2)}"
  "set (grps delimitedDecimalEpisodePattern) = {(1, between digit 1 3), (2, between digit 1 2)}"
  "set (grps eastAsianEpisodePattern) = {(1, between digit 1 3)}"
  "set (grps episodeTokenPattern) = {(1, between digit 1 3)}"
  "set (grps delimitedEpisodePattern) = {(1, between digit 1 3)}"
  by (auto simp add: pattern_defs simp del: cat.simps alts.simps)


text \<open>
  What parsing guarantees: a source coordinate that the mapping accepts, an episode of at most
  three digits, and for a fractional name the number that an earlier version made of it, the
  episode followed by the one or two digits of the fraction.
\<close>

definition parsed_ok :: "parsedSourceCoordinate \<Rightarrow> bool" where
  "parsed_ok parsed =
     (let c = pc_coordinate parsed; f = pc_legacyCollapsedEpisode parsed - Episode c * 10
      in validSourceCoordinate c \<and> Episode c \<le> 999 \<and>
         (if pc_fractional parsed then EpisodeFractionHundredths c \<in> {f * 10, f}
          else EpisodeFractionHundredths c = 0))"

lemma byte_len_digits: "all_digits s \<Longrightarrow> byte_len s = length s"
  by (induction s) (auto simp: byte_len_def rune_len_def all_digits_def)

lemma parseDecimal_ok:
  assumes "parseDecimalSourceCoordinate season e f = Some parsed"
    and "all_digits e \<and> length e \<le> 3" "all_digits f \<and> length f \<le> 2"
  shows "parsed_ok parsed \<and> Season (pc_coordinate parsed) = season"
  using assms decimal_bounds [of e 3] decimal_bounds [of f 2]
  by (auto simp: parseDecimalSourceCoordinate_def episodeFractionHundredths_def parsed_ok_def
      validSourceCoordinate_def Let_def split: if_splits option.splits)

lemma whole_ok:
  assumes "whole_coordinate season (decimal e) = Some parsed" "all_digits e \<and> length e \<le> 3"
  shows "parsed_ok parsed \<and> Season (pc_coordinate parsed) = season"
  using assms decimal_bounds [of e 3]
  by (auto simp: whole_coordinate_def parsed_ok_def validSourceCoordinate_def split: if_splits)

lemma first_some_SomeD: "first_some f xs = Some y \<Longrightarrow> \<exists>x \<in> set xs. f x = Some y"
  by (induction xs) (auto split: option.splits)

lemma match_then_SomeD: "match_then r s f = Some y \<Longrightarrow> \<exists>m. rx_find r s = Some m \<and> f m = Some y"
  by (auto simp: match_then_def split: Option.bind_splits)

lemma directory_season_cases:
  "directory_season n d = d \<or> (0 \<le> directory_season n d \<and> directory_season n d \<le> 99)"
proof (cases "rx_find seasonDirectoryPattern n")
  case (Some m)
  then have "all_digits (submatch m 1) \<and> length (submatch m 1) \<le> 2"
    by (rule submatch_digits) (auto simp: pattern_groups)
  then show ?thesis using decimal_bounds [of "submatch m 1" 2] Some
    by (auto simp: directory_season_def)
qed (simp add: directory_season_def)

lemma decimal_pattern_ok:
  assumes "r \<in> {eastAsianDecimalEpisodePattern, episodeTokenDecimalPattern, delimitedDecimalEpisodePattern}"
    and "match_then r s (\<lambda>m. parseDecimalSourceCoordinate season (submatch m 1) (submatch m 2)) = Some parsed"
  shows "parsed_ok parsed \<and> Season (pc_coordinate parsed) = season"
proof -
  obtain m where m: "rx_find r s = Some m"
    "parseDecimalSourceCoordinate season (submatch m 1) (submatch m 2) = Some parsed"
    using match_then_SomeD [OF assms(2)] by blast
  have "all_digits (submatch m 1) \<and> length (submatch m 1) \<le> 3"
    "all_digits (submatch m 2) \<and> length (submatch m 2) \<le> 2"
    by (rule submatch_digits [OF m(1)]; use assms(1) in \<open>auto simp: pattern_groups\<close>)+
  with m(2) show ?thesis by (intro parseDecimal_ok)
qed

lemma whole_pattern_ok:
  assumes "r \<in> {eastAsianEpisodePattern, episodeTokenPattern, delimitedEpisodePattern}"
    and "match_then r s (\<lambda>m. whole_coordinate season (decimal (submatch m 1))) = Some parsed"
  shows "parsed_ok parsed \<and> Season (pc_coordinate parsed) = season"
proof -
  obtain m where m: "rx_find r s = Some m" "whole_coordinate season (decimal (submatch m 1)) = Some parsed"
    using match_then_SomeD [OF assms(2)] by blast
  have "all_digits (submatch m 1) \<and> length (submatch m 1) \<le> 3"
    by (rule submatch_digits [OF m(1)], use assms(1) in \<open>auto simp: pattern_groups\<close>)
  with m(2) show ?thesis by (intro whole_ok)
qed

lemma season_pattern_ok:
  assumes "match_then seasonDecimalEpisodePattern s
       (\<lambda>m. parseDecimalSourceCoordinate (decimal (submatch m 1)) (submatch m 2) (submatch m 3)) = Some parsed \<or>
     match_then seasonEpisodePattern s
       (\<lambda>m. whole_coordinate (decimal (submatch m 1)) (decimal (submatch m 2))) = Some parsed"
  shows "parsed_ok parsed \<and> Season (pc_coordinate parsed) \<le> 99"
  using assms
proof (elim disjE)
  assume "match_then seasonDecimalEpisodePattern s
       (\<lambda>m. parseDecimalSourceCoordinate (decimal (submatch m 1)) (submatch m 2) (submatch m 3)) = Some parsed"
  then obtain m where m: "rx_find seasonDecimalEpisodePattern s = Some m"
    "parseDecimalSourceCoordinate (decimal (submatch m 1)) (submatch m 2) (submatch m 3) = Some parsed"
    by (blast dest: match_then_SomeD)
  have d: "all_digits (submatch m 1) \<and> length (submatch m 1) \<le> 2"
    "all_digits (submatch m 2) \<and> length (submatch m 2) \<le> 3"
    "all_digits (submatch m 3) \<and> length (submatch m 3) \<le> 2"
    by (rule submatch_digits [OF m(1)]; simp add: pattern_groups)+
  with m(2) show ?thesis using parseDecimal_ok decimal_bounds [of "submatch m 1" 2] by fastforce
next
  assume "match_then seasonEpisodePattern s
       (\<lambda>m. whole_coordinate (decimal (submatch m 1)) (decimal (submatch m 2))) = Some parsed"
  then obtain m where m: "rx_find seasonEpisodePattern s = Some m"
    "whole_coordinate (decimal (submatch m 1)) (decimal (submatch m 2)) = Some parsed"
    by (blast dest: match_then_SomeD)
  have d: "all_digits (submatch m 1) \<and> length (submatch m 1) \<le> 2"
    "all_digits (submatch m 2) \<and> length (submatch m 2) \<le> 3"
    by (rule submatch_digits [OF m(1)]; simp add: pattern_groups)+
  with m(2) show ?thesis using whole_ok decimal_bounds [of "submatch m 1" 2] by fastforce
qed

lemma parse_ok:
  assumes "parseSourceCoordinate p d = Some parsed"
  shows "parsed_ok parsed \<and> (Season (pc_coordinate parsed) = d \<or> Season (pc_coordinate parsed) \<le> 99)"
proof -
  define n where "n = unix_path (trim_space p)"
  define stem where "stem = trim_suffix (path_base n) (path_ext (path_base n))"
  define season where "season = directory_season n d"
  have s: "season = d \<or> season \<le> 99" using directory_season_cases [of n d] by (auto simp: season_def)
  from first_some_SomeD [OF assms [unfolded parseSourceCoordinate_def Let_def, folded n_def, folded stem_def season_def]]
  consider (sd) "match_then seasonDecimalEpisodePattern stem
       (\<lambda>m. parseDecimalSourceCoordinate (decimal (submatch m 1)) (submatch m 2) (submatch m 3)) = Some parsed"
    | (se) "match_then seasonEpisodePattern stem
       (\<lambda>m. whole_coordinate (decimal (submatch m 1)) (decimal (submatch m 2))) = Some parsed"
    | (dp) "first_some (\<lambda>pattern. match_then pattern stem
       (\<lambda>m. parseDecimalSourceCoordinate season (submatch m 1) (submatch m 2)))
       [eastAsianDecimalEpisodePattern, episodeTokenDecimalPattern, delimitedDecimalEpisodePattern] = Some parsed"
    | (wp) "first_some (\<lambda>pattern. match_then pattern stem (\<lambda>m. whole_coordinate season (decimal (submatch m 1))))
       [eastAsianEpisodePattern, episodeTokenPattern, delimitedEpisodePattern] = Some parsed"
    by (simp only: list.set bex_simps insert_iff) blast
  then show ?thesis
  proof cases
    case dp
    from first_some_SomeD [OF dp] show ?thesis using decimal_pattern_ok s by fastforce
  next
    case wp
    from first_some_SomeD [OF wp] show ?thesis using whole_pattern_ok s by fastforce
  qed (use season_pattern_ok in blast)+
qed

section \<open>Properties of coordinates\<close>

text \<open>
  C25: every coordinate that parsing a path yields lies in bounds: a positive season of at most two
  digits or the default one, an episode between 1 and 999 and hundredths between 0 and 99, so the
  episode mapping accepts it as a source.
\<close>

theorem parsed_coordinate_bounds:
  assumes "ParseSourceCoordinate p defaultSeason = Some c"
  shows "validSourceCoordinate c \<and> (1 \<le> Season c \<and> Season c \<le> 99 \<or> Season c = defaultSeason) \<and>
    1 \<le> Episode c \<and> Episode c \<le> 999 \<and>
    0 \<le> EpisodeFractionHundredths c \<and> EpisodeFractionHundredths c \<le> 99"
proof -
  obtain parsed where "parseSourceCoordinate p defaultSeason = Some parsed" "pc_coordinate parsed = c"
    using assms by (auto simp: ParseSourceCoordinate_def)
  with parse_ok [of p defaultSeason parsed] show ?thesis
    by (auto simp: parsed_ok_def validSourceCoordinate_def Let_def)
qed

theorem parsed_coordinate_bounds_witness:
  "validSourceCoordinate \<lparr>Season = 1, Episode = 12, EpisodeFractionHundredths = 50\<rparr>"
proof -
  have "ParseSourceCoordinate (lit ''S01E12.5.mkv'') 4 =
      Some \<lparr>Season = 1, Episode = 12, EpisodeFractionHundredths = 50\<rparr>" by code_simp
  from parsed_coordinate_bounds [OF this] show ?thesis by blast
qed

text \<open>
  C26: recovery of a collapsed number is exact. It changes a stored coordinate only to what the
  path says, in the same season, when the stored episode is the episode of the path followed by
  the digits of its fraction; the result is valid and a second recovery leaves it alone. When
  recovery does not apply, the stored coordinate is returned as it was.
\<close>

theorem legacy_recovery_exact:
  assumes "RecoverLegacyFractionalSourceCoordinate p persisted = (c, changed)"
  shows "if changed then
      ParseSourceCoordinate p (Season persisted) = Some c \<and> validSourceCoordinate c \<and>
      Season c = Season persisted \<and> EpisodeFractionHundredths persisted = 0 \<and>
      (Episode persisted = Episode c * 10 + EpisodeFractionHundredths c div 10 \<and>
         10 dvd EpisodeFractionHundredths c \<or>
       Episode persisted = Episode c * 10 + EpisodeFractionHundredths c) \<and>
      RecoverLegacyFractionalSourceCoordinate p c = (c, False)
    else c = persisted"
proof (cases changed)
  case False
  with assms show ?thesis
    by (auto simp: RecoverLegacyFractionalSourceCoordinate_def split: if_splits option.splits)
next
  case True
  with assms obtain parsed where p: "parseSourceCoordinate p (Season persisted) = Some parsed"
    "pc_fractional parsed" "Season (pc_coordinate parsed) = Season persisted"
    "pc_legacyCollapsedEpisode parsed = Episode persisted" "pc_coordinate parsed = c"
    "EpisodeFractionHundredths persisted = 0"
    by (auto simp: RecoverLegacyFractionalSourceCoordinate_def split: if_splits option.splits)
  have ok: "validSourceCoordinate c" "EpisodeFractionHundredths c \<in>
      {(Episode persisted - Episode c * 10) * 10, Episode persisted - Episode c * 10}"
    using parse_ok [OF p(1)] p by (auto simp: parsed_ok_def Let_def)
  then have "Episode persisted \<noteq> Episode c" by (auto simp: validSourceCoordinate_def)
  then have "RecoverLegacyFractionalSourceCoordinate p c = (c, False)"
    using p by (auto simp: RecoverLegacyFractionalSourceCoordinate_def)
  moreover have "EpisodeFractionHundredths c = (Episode persisted - Episode c * 10) * 10 \<Longrightarrow>
      Episode persisted = Episode c * 10 + EpisodeFractionHundredths c div 10 \<and>
      10 dvd EpisodeFractionHundredths c" by simp
  ultimately show ?thesis using True ok p by (auto simp: ParseSourceCoordinate_def)
qed

theorem legacy_recovery_exact_witness:
  "ParseSourceCoordinate (lit ''Show.12.05.mkv'') 1 =
     Some \<lparr>Season = 1, Episode = 12, EpisodeFractionHundredths = 5\<rparr>"
proof -
  have "RecoverLegacyFractionalSourceCoordinate (lit ''Show.12.05.mkv'') (coord 1 125) =
      (\<lparr>Season = 1, Episode = 12, EpisodeFractionHundredths = 5\<rparr>, True)" by code_simp
  from legacy_recovery_exact [OF this] show ?thesis by simp
qed

end
