(* ===== verification/FileSelectionSpec.thy ===== *)
theory FileSelectionSpec
  imports FileSelection
begin

text \<open>
  What the selection of files promises: a specification over the classified files, the proof that
  the loops of \<^verbatim>\<open>SelectDownloadFiles\<close> compute it, and its consequences.
\<close>

section \<open>The selection against its specification\<close>

text \<open>
  The specification works on the classified files as a set: the best video of an episode is the
  first in the order of \<open>betterVideo\<close>, its subtitles are the best eight candidates, and the episodes
  are the coordinates of the main videos in ascending order.
\<close>

definition selected :: "ClassifiedDownloadFile \<Rightarrow> ClassifiedDownloadFile" where
  "selected f = f\<lparr>cf_Selected := True\<rparr>"

definition best_video :: "ClassifiedDownloadFile list \<Rightarrow> EpisodeCoordinate \<Rightarrow> ClassifiedDownloadFile" where
  "best_video fs c = hd (sort_by betterVideo (filter (\<lambda>f. main_video f \<and> file_coordinate f = c) fs))"

definition subtitle_before ::
  "ClassifiedDownloadFile \<Rightarrow> ClassifiedDownloadFile \<Rightarrow> ClassifiedDownloadFile \<Rightarrow> bool" where
  "subtitle_before video l r =
     (if choice_score video l \<noteq> choice_score video r then choice_score video l > choice_score video r
      else subtitleTieBreak l r)"

definition best_subtitles ::
  "ClassifiedDownloadFile list \<Rightarrow> EpisodeCoordinate \<Rightarrow> ClassifiedDownloadFile \<Rightarrow> ClassifiedDownloadFile list" where
  "best_subtitles fs c video = take 8 (sort_by (subtitle_before video) (filter (subtitle_candidate c) fs))"

definition episode_of :: "ClassifiedDownloadFile list \<Rightarrow> EpisodeCoordinate \<Rightarrow> SelectedEpisode" where
  "episode_of fs c =
     (let video = best_video fs c; subtitles = map selected (best_subtitles fs c video)
      in \<lparr>se_SourceSeason = Season c, se_SourceEpisode = Episode c,
          se_SourceEpisodeFractionHundredths = EpisodeFractionHundredths c,
          se_Video = selected video,
          se_Subtitle = (if subtitles = [] then None else Some (hd subtitles)),
          se_Subtitles = subtitles\<rparr>)"

definition episode_coordinates :: "ClassifiedDownloadFile list \<Rightarrow> EpisodeCoordinate list" where
  "episode_coordinates fs = sort_by coordinate_less (remdups (map file_coordinate (filter main_video fs)))"

definition chosen :: "ClassifiedDownloadFile list \<Rightarrow> ClassifiedDownloadFile \<Rightarrow> bool" where
  "chosen fs f = list_ex (\<lambda>c. f = best_video fs c \<or> f \<in> set (best_subtitles fs c (best_video fs c)))
     (episode_coordinates fs)"

definition reference_selection :: "ClassifiedDownloadFile list \<Rightarrow> FileSelectionResult" where
  "reference_selection fs =
     \<lparr>fr_Files = map (\<lambda>f. if chosen fs f then selected f else f) fs,
      fr_Episodes = map (episode_of fs) (episode_coordinates fs)\<rparr>"

subsection \<open>The comparators\<close>

lemma comparator_betterVideo: "comparator betterVideo"
  by unfold_locales
    (auto simp: betterVideo_def split: if_splits dest: str_less_asym str_less_negative_trans)

lemma comparator_coordinate: "comparator coordinate_less"
  by unfold_locales (auto simp: coordinate_less_def split: if_splits)

lemma comparator_subtitle: "comparator (subtitle_before v)"
  by unfold_locales
    (auto simp: subtitle_before_def subtitleTieBreak_def split: if_splits
      dest: str_less_asym str_less_negative_trans)

interpretation video_order: comparator betterVideo by (rule comparator_betterVideo)
interpretation coordinate_order: comparator coordinate_less by (rule comparator_coordinate)
interpretation subtitle_order: comparator "subtitle_before v" for v by (rule comparator_subtitle)

lemma coordinate_total: "c \<noteq> d \<Longrightarrow> coordinate_less c d \<or> coordinate_less d c"
  by (cases c; cases d) (auto simp: coordinate_less_def)

lemma index_total:
  assumes "df_Index f \<noteq> df_Index g"
  shows "betterVideo f g \<or> betterVideo g f" "subtitle_before v f g \<or> subtitle_before v g f"
  using assms by (auto simp: betterVideo_def subtitle_before_def subtitleTieBreak_def)

subsection \<open>The loops\<close>

text \<open>Marking files changes nothing that the selection looks at.\<close>

definition unmark :: "ClassifiedDownloadFile \<Rightarrow> ClassifiedDownloadFile" where
  "unmark f = f\<lparr>cf_Selected := False\<rparr>"

lemma unmark_simps [simp]:
  "df_Index (unmark f) = df_Index f" "df_RelativePath (unmark f) = df_RelativePath f"
  "df_SizeBytes (unmark f) = df_SizeBytes f" "cf_Kind (unmark f) = cf_Kind f"
  "file_coordinate (unmark f) = file_coordinate f" "main_video (unmark f) = main_video f"
  "subtitle_candidate c (unmark f) = subtitle_candidate c f"
  "choice_score (unmark v) f = choice_score v f" "choice_score v (unmark f) = choice_score v f"
  "unmark (selected f) = unmark f" "selected (unmark f) = selected f"
  by (simp_all add: unmark_def selected_def file_coordinate_def main_video_def subtitle_candidate_def
      at_coordinate_def file_evidence_def choice_score_def subtitleScore_def)

lemma tie_unmark [simp]: "subtitleTieBreak (unmark f) (unmark g) = subtitleTieBreak f g"
  by (simp add: subtitleTieBreak_def)

lemma enumerate_filter_nth:
  "(i, f) \<in> set (enumerate 0 fs) \<longleftrightarrow> i < length fs \<and> f = fs ! i"
  by (auto simp: in_set_enumerate_eq)

lemma selectSubtitles_files:
  "map ((!) fs) (selectSubtitles fs c v) = best_subtitles fs c v"
proof -
  let ?h = "\<lambda>x. fs ! fc_index x"
  have mem: "x \<in> set (subtitle_choices fs c v) \<Longrightarrow> fc_score x = choice_score v (?h x)" for x
    by (auto simp: subtitle_choices_def enumerate_filter_nth)
  have "map ?h (subtitle_choices fs c v) = map snd (filter (\<lambda>(i, f). subtitle_candidate c f) (enumerate 0 fs))"
    by (auto simp: subtitle_choices_def enumerate_filter_nth)
  also have "\<dots> = filter (subtitle_candidate c) (map snd (enumerate 0 fs))"
    by (simp add: filter_map comp_def case_prod_beta' del: map_snd_enumerate)
  finally have m: "map ?h (subtitle_choices fs c v) = filter (subtitle_candidate c) fs" by simp
  have "map ?h (sort_by (choice_less fs) (subtitle_choices fs c v)) =
      sort_by (subtitle_before v) (map ?h (subtitle_choices fs c v))"
    by (rule map_sort_by) (auto simp: choice_less_def subtitle_before_def mem)
  then show ?thesis
    by (simp add: selectSubtitles_def best_subtitles_def maxExternalSubtitleCandidates_def m
        take_map [symmetric] comp_def)
qed

lemma enumerate_map: "enumerate n (map g xs) = map (\<lambda>(i, x). (i, g x)) (enumerate n xs)"
  by (induction xs arbitrary: n) auto

lemma subtitle_choice_facts:
  "x \<in> set (subtitle_choices fs c v) \<Longrightarrow> fc_index x < length fs"
  by (auto simp: subtitle_choices_def enumerate_filter_nth)

lemma selectSubtitles_range: "i \<in> set (selectSubtitles fs c v) \<Longrightarrow> i < length fs"
  by (auto simp: selectSubtitles_def dest!: in_set_takeD subtitle_choice_facts)

lemma selectSubtitles_unmark:
  "selectSubtitles (map unmark fs) c (unmark v) = selectSubtitles fs c v"
proof -
  have e: "subtitle_choices (map unmark fs) c (unmark v) = subtitle_choices fs c v"
    by (simp add: subtitle_choices_def enumerate_map filter_map comp_def case_prod_beta')
  have "map id (sort_by (choice_less (map unmark fs)) (subtitle_choices fs c v)) =
      sort_by (choice_less fs) (map id (subtitle_choices fs c v))"
    by (rule map_sort_by) (auto simp: choice_less_def dest!: subtitle_choice_facts)
  with e show ?thesis by (simp add: selectSubtitles_def)
qed

lemma unmark_selectedI: "unmark x = unmark y \<Longrightarrow> cf_Selected x \<Longrightarrow> x = selected y"
  by (metis (full_types) ClassifiedDownloadFile.surjective ClassifiedDownloadFile.update_convs(6)
      selected_def unmark_def unmark_simps(11))

lemma mark_selected_facts:
  assumes "i < length files"
  shows "map unmark (mark_selected i files) = map unmark files"
    "mark_selected i files ! i = selected (files ! i)"
    "j < length files \<Longrightarrow> cf_Selected (mark_selected i files ! j) \<longleftrightarrow> cf_Selected (files ! j) \<or> j = i"
    "length (mark_selected i files) = length files"
proof -
  show "map unmark (mark_selected i files) = map unmark files"
    using assms by (simp add: mark_selected_def selected_def [symmetric] map_update)
      (metis list_update_id nth_map)
  show "mark_selected i files ! i = selected (files ! i)"
    "j < length files \<Longrightarrow> cf_Selected (mark_selected i files ! j) \<longleftrightarrow> cf_Selected (files ! j) \<or> j = i"
    "length (mark_selected i files) = length files"
    using assms by (auto simp: mark_selected_def selected_def nth_list_update)
qed

lemma take_subtitle_simp [simp]:
  "take_subtitle i (files, subs) = (mark_selected i files, subs @ [mark_selected i files ! i])"
  by (simp add: take_subtitle_def Let_def)

lemma take_subtitles_facts:
  assumes "\<forall>i \<in> set idx. i < length files"
  shows "map unmark (fst (fold take_subtitle idx (files, subs))) = map unmark files \<and>
    snd (fold take_subtitle idx (files, subs)) = subs @ map (\<lambda>i. selected (unmark (files ! i))) idx \<and>
    (\<forall>j < length files. cf_Selected (fst (fold take_subtitle idx (files, subs)) ! j) \<longleftrightarrow>
       cf_Selected (files ! j) \<or> j \<in> set idx)"
  using assms
proof (induction idx arbitrary: files subs)
  case (Cons i idx)
  let ?f = "mark_selected i files"
  have i: "i < length files" using Cons.prems by simp
  note m = mark_selected_facts [OF i]
  have u: "selected (?f ! j) = selected (files ! j)" if "j < length files" for j
    using m(1) m(4) that by (metis nth_map unmark_simps(11))
  have "\<forall>j \<in> set idx. j < length ?f" using Cons.prems m(4) by simp
  from Cons.IH [OF this, of "subs @ [?f ! i]"] show ?case
    using m u i Cons.prems by auto
qed simp

lemma select_episode_facts:
  assumes fs: "map unmark files = fs" "map unmark fs = fs" and c: "map_of videos c = Some i"
    and i: "i < length fs" and best: "fs ! i = best_video fs c"
  shows "\<exists>files'. select_episode videos c (files, eps) = (files', eps @ [episode_of fs c]) \<and>
    map unmark files' = fs \<and>
    (\<forall>j < length fs. cf_Selected (files' ! j) \<longleftrightarrow>
       cf_Selected (files ! j) \<or> j = i \<or> j \<in> set (selectSubtitles fs c (fs ! i)))"
proof -
  have len: "length files = length fs" using fs(1) by auto
  let ?f1 = "mark_selected i files" and ?idx = "selectSubtitles fs c (fs ! i)"
  note m = mark_selected_facts [of i files, unfolded len, OF i]
  have "unmark (?f1 ! i) = fs ! i" using m(1,4) fs i len by (metis nth_map)
  then have idx: "selectSubtitles ?f1 c (?f1 ! i) = ?idx"
    using selectSubtitles_unmark [of ?f1 c "?f1 ! i"] m(1) fs(1) by simp
  have r: "\<forall>j \<in> set ?idx. j < length ?f1" by (auto simp: m(4) dest: selectSubtitles_range)
  obtain files2 subs where f2: "fold take_subtitle ?idx (?f1, []) = (files2, subs)" by fastforce
  note t = take_subtitles_facts [OF r, of "[]", unfolded f2 fst_conv snd_conv]
  have u2: "map unmark files2 = fs" using t m(1) fs(1) by simp
  have u1: "selected (?f1 ! j) = selected (fs ! j)" if "j < length fs" for j
    using m(1,4) fs that len by (metis nth_map unmark_simps(11))
  have flags: "\<forall>j < length fs. cf_Selected (files2 ! j) \<longleftrightarrow>
       cf_Selected (files ! j) \<or> j = i \<or> j \<in> set ?idx"
    using t m(3,4) by auto
  have l2: "length files2 = length fs" using u2 by auto
  have "unmark (files2 ! i) = unmark (fs ! i)" using u2 i fs l2 by (metis nth_map)
  then have v: "files2 ! i = selected (fs ! i)" using flags i by (intro unmark_selectedI) auto
  have "subs = map (\<lambda>j. selected (fs ! j)) ?idx"
    using t u1 r m(4) by auto
  also have "\<dots> = map selected (best_subtitles fs c (fs ! i))"
    using selectSubtitles_files [of fs c "fs ! i"] by (metis (mono_tags, lifting) comp_apply map_map map_eq_conv)
  finally have s: "subs = map selected (best_subtitles fs c (best_video fs c))" using best by simp
  have "select_episode videos c (files, eps) = (files2, eps @ [episode_of fs c])"
    using c idx f2 v s best
    by (auto simp: select_episode_def episode_of_def Let_def split: list.split)
  with u2 flags show ?thesis by blast
qed


lemma select_episodes_facts:
  assumes fs: "map unmark fs = fs"
    and ok: "\<forall>c \<in> set cs. \<exists>i. map_of videos c = Some i \<and> i < length fs \<and> fs ! i = best_video fs c"
  shows "map unmark files = fs \<Longrightarrow>
    \<exists>files'. fold (select_episode videos) cs (files, eps) = (files', eps @ map (episode_of fs) cs) \<and>
    map unmark files' = fs \<and>
    (\<forall>j < length fs. cf_Selected (files' ! j) \<longleftrightarrow> cf_Selected (files ! j) \<or>
       (\<exists>c \<in> set cs. map_of videos c = Some j \<or> j \<in> set (selectSubtitles fs c (best_video fs c))))"
  using ok
proof (induction cs arbitrary: files eps)
  case (Cons c cs)
  then obtain i where i: "map_of videos c = Some i" "i < length fs" "fs ! i = best_video fs c" by auto
  from select_episode_facts [OF Cons.prems(1) fs i, of eps] obtain f1 where
    f1: "select_episode videos c (files, eps) = (f1, eps @ [episode_of fs c])" "map unmark f1 = fs"
    "\<forall>j < length fs. cf_Selected (f1 ! j) \<longleftrightarrow>
       cf_Selected (files ! j) \<or> j = i \<or> j \<in> set (selectSubtitles fs c (fs ! i))" by blast
  from Cons.IH [OF f1(2), of "eps @ [episode_of fs c]"] Cons.prems(2) obtain f2 where
    f2: "fold (select_episode videos) cs (f1, eps @ [episode_of fs c]) =
       (f2, (eps @ [episode_of fs c]) @ map (episode_of fs) cs)" "map unmark f2 = fs"
    "\<forall>j < length fs. cf_Selected (f2 ! j) \<longleftrightarrow> cf_Selected (f1 ! j) \<or>
       (\<exists>c \<in> set cs. map_of videos c = Some j \<or> j \<in> set (selectSubtitles fs c (best_video fs c)))" by auto
  then show ?case using f1 i by (intro exI [of _ f2]) auto
qed simp

text \<open>The first loop: the index it keeps for a coordinate is that of the best video so far.\<close>

definition best_upto :: "ClassifiedDownloadFile list \<Rightarrow> nat \<Rightarrow> (EpisodeCoordinate \<times> nat) list \<Rightarrow> bool" where
  "best_upto fs k videos \<longleftrightarrow> distinct (map fst videos) \<and>
     (\<forall>c i. map_of videos c = Some i \<longrightarrow> i < k \<and> main_video (fs ! i) \<and> file_coordinate (fs ! i) = c \<and>
        (\<forall>j < k. main_video (fs ! j) \<and> file_coordinate (fs ! j) = c \<longrightarrow> \<not> betterVideo (fs ! j) (fs ! i))) \<and>
     (\<forall>j < k. main_video (fs ! j) \<longrightarrow> map_of videos (file_coordinate (fs ! j)) \<noteq> None)"

lemma consider_video_best:
  assumes "best_upto fs k videos"
  shows "best_upto fs (Suc k) (consider_video fs (k, fs ! k) videos)"
proof (cases "main_video (fs ! k)")
  case False
  with assms show ?thesis by (auto simp: best_upto_def consider_video_def less_Suc_eq)
next
  case True
  let ?c = "file_coordinate (fs ! k)"
  have old: "i < k" "main_video (fs ! i)" "file_coordinate (fs ! i) = c"
      "j < k \<Longrightarrow> main_video (fs ! j) \<Longrightarrow> file_coordinate (fs ! j) = c \<Longrightarrow> \<not> betterVideo (fs ! j) (fs ! i)"
    if "map_of videos c = Some i" for c i j
    using assms that unfolding best_upto_def by blast+
  have dom: "map_of videos (file_coordinate (fs ! j)) \<noteq> None" if "j < k" "main_video (fs ! j)" for j
    using assms that unfolding best_upto_def by blast
  have upd: "best_upto fs (Suc k) (AList.update ?c k videos)"
    if better: "\<And>i. map_of videos ?c = Some i \<Longrightarrow> betterVideo (fs ! k) (fs ! i)"
    unfolding best_upto_def
  proof (intro conjI allI impI)
    show "distinct (map fst (AList.update ?c k videos))"
      using assms by (simp add: best_upto_def distinct_update)
    fix c i
    assume m: "map_of (AList.update ?c k videos) c = Some i"
    then have cases: "c = ?c \<and> i = k \<or> c \<noteq> ?c \<and> map_of videos c = Some i"
      by (auto simp: update_conv' split: if_splits)
    then show "i < Suc k" "main_video (fs ! i)" "file_coordinate (fs ! i) = c"
      using True old by (auto simp: less_SucI)
    fix j
    assume j: "j < Suc k" "main_video (fs ! j) \<and> file_coordinate (fs ! j) = c"
    from cases show "\<not> betterVideo (fs ! j) (fs ! i)"
    proof (elim disjE conjE)
      assume c: "c = ?c" "i = k"
      show ?thesis
      proof (cases "j = k")
        case True
        with c show ?thesis by (simp add: video_order.not_refl)
      next
        case False
        then have "j < k" using j by simp
        then obtain i0 where "map_of videos ?c = Some i0" using dom [of j] j c by auto
        then show ?thesis using better old(4) \<open>j < k\<close> j c video_order.trans_lt by metis
      qed
    next
      assume "c \<noteq> ?c" "map_of videos c = Some i"
      then show ?thesis using old(4) [of c i j] j by (auto simp: less_Suc_eq)
    qed
  next
    fix j
    assume "j < Suc k" "main_video (fs ! j)"
    then show "map_of (AList.update ?c k videos) (file_coordinate (fs ! j)) \<noteq> None"
      using dom by (auto simp: update_conv' less_Suc_eq)
  qed
  show ?thesis
  proof (cases "map_of videos ?c")
    case None
    then show ?thesis using upd True by (simp add: consider_video_def)
  next
    case (Some i)
    show ?thesis
    proof (cases "betterVideo (fs ! k) (fs ! i)")
      case True
      then show ?thesis using upd Some \<open>main_video (fs ! k)\<close> by (simp add: consider_video_def)
    next
      case False
      then show ?thesis using assms Some \<open>main_video (fs ! k)\<close>
        by (auto simp: best_upto_def consider_video_def less_Suc_eq simp del: map_of_eq_Some_iff)
    qed
  qed
qed


lemma best_videos_best: "best_upto fs (length fs) (best_videos fs)"
proof -
  have "best_upto fs k (fold (consider_video fs) (enumerate 0 (take k fs)) [])" if "k \<le> length fs" for k
    using that
  proof (induction k)
    case 0
    then show ?case by (simp add: best_upto_def)
  next
    case (Suc k)
    then have "take (Suc k) fs = take k fs @ [fs ! k]" by (simp add: take_Suc_conv_app_nth)
    then have "fold (consider_video fs) (enumerate 0 (take (Suc k) fs)) [] =
        consider_video fs (k, fs ! k) (fold (consider_video fs) (enumerate 0 (take k fs)) [])"
      using Suc.prems by (simp add: enumerate_append_eq)
    with Suc show ?case by (simp add: consider_video_best)
  qed
  from this [of "length fs"] show ?thesis by (simp add: best_videos_def)
qed

lemma best_videos_keys:
  "set (map fst (best_videos fs)) = file_coordinate ` {f \<in> set fs. main_video f}"
  "distinct (map fst (best_videos fs))"
proof -
  note b = best_videos_best [of fs, unfolded best_upto_def]
  show "distinct (map fst (best_videos fs))" using b by blast
  have "c \<in> set (map fst (best_videos fs)) \<longleftrightarrow> map_of (best_videos fs) c \<noteq> None" for c
    by (simp add: map_of_eq_None_iff)
  then show "set (map fst (best_videos fs)) = file_coordinate ` {f \<in> set fs. main_video f}"
    using b by (auto simp: in_set_conv_nth image_iff set_eq_iff) (metis option.exhaust nth_mem)+
qed

lemma index_inj:
  "distinct (map df_Index fs) \<Longrightarrow> f \<in> set fs \<Longrightarrow> g \<in> set fs \<Longrightarrow> f \<noteq> g \<Longrightarrow> df_Index f \<noteq> df_Index g"
  by (auto simp: distinct_map inj_on_def)

lemma best_videos_index:
  assumes "distinct (map df_Index fs)" "c \<in> set (map fst (best_videos fs))"
  shows "\<exists>i. map_of (best_videos fs) c = Some i \<and> i < length fs \<and> fs ! i = best_video fs c"
proof -
  obtain i where i: "map_of (best_videos fs) c = Some i"
    using assms(2) by (metis map_of_eq_None_iff option.exhaust list.set_map)
  note b = best_videos_best [of fs, unfolded best_upto_def]
  have il: "i < length fs" "main_video (fs ! i)" "file_coordinate (fs ! i) = c" using b i by blast+
  let ?vs = "filter (\<lambda>f. main_video f \<and> file_coordinate f = c) fs"
  have "hd (sort_by betterVideo ?vs) = fs ! i"
  proof (rule video_order.hd_sort_by_unique)
    show "fs ! i \<in> set ?vs" using il by simp
    show "\<not> betterVideo y (fs ! i)" if "y \<in> set ?vs" for y
    proof -
      have y: "y \<in> set fs" "main_video y \<and> file_coordinate y = c" using that by auto
      then obtain j where "j < length fs" "y = fs ! j" by (metis in_set_conv_nth)
      with y have "j < length fs" "y = fs ! j" "main_video (fs ! j) \<and> file_coordinate (fs ! j) = c" by auto
      with b i show ?thesis by blast
    qed
    show "betterVideo (fs ! i) y \<or> betterVideo y (fs ! i)" if "y \<in> set ?vs" "fs ! i \<noteq> y" for y
    proof (rule index_total)
      show "df_Index (fs ! i) \<noteq> df_Index y"
        using index_inj [OF assms(1)] that il(1) by simp
    qed
  qed
  with i il show ?thesis by (auto simp: best_video_def)
qed

lemma sorted_keys: "sort_by coordinate_less (map fst (best_videos fs)) = episode_coordinates fs"
proof -
  have "set (map fst (best_videos fs)) = set (remdups (map file_coordinate (filter main_video fs)))"
    using best_videos_keys(1) by simp
  then have "mset (map fst (best_videos fs)) = mset (remdups (map file_coordinate (filter main_video fs)))"
    using best_videos_keys(2) distinct_remdups set_eq_iff_mset_eq_distinct by blast
  then show ?thesis unfolding episode_coordinates_def
    by (rule coordinate_order.sort_by_unique) (rule coordinate_total)
qed

lemma best_videos_Nil: "best_videos fs = [] \<longleftrightarrow> filter main_video fs = []"
proof -
  have "best_videos fs = [] \<longleftrightarrow> set (map fst (best_videos fs)) = {}" by simp
  also have "\<dots> \<longleftrightarrow> filter main_video fs = []" unfolding best_videos_keys(1) by (auto simp: filter_empty_conv)
  finally show ?thesis .
qed

lemma unmark_classify_file [simp]: "unmark (classify_file options f) = classify_file options f"
  by (simp add: classify_file_def unmark_def Let_def)

text \<open>The selection of classified files equals the specification.\<close>

lemma select_classified_reference:
  assumes d: "distinct (map df_Index fs)" and u: "map unmark fs = fs"
  shows "select_classified fs =
     (if filter main_video fs = [] then Inl ErrNoMainVideo else Inr (reference_selection fs))"
proof (cases "filter main_video fs = []")
  case True
  then show ?thesis by (simp add: select_classified_def best_videos_Nil [symmetric])
next
  case False
  let ?cs = "episode_coordinates fs" and ?v = "best_videos fs"
  have set_cs: "set ?cs = set (map fst ?v)" using sorted_keys [of fs] by (metis set_sort_by)
  have ok: "\<forall>c \<in> set ?cs. \<exists>i. map_of ?v c = Some i \<and> i < length fs \<and> fs ! i = best_video fs c"
    using best_videos_index [OF d] set_cs by blast
  from select_episodes_facts [OF u ok u, of "[]"] obtain files' where
    f: "fold (select_episode ?v) ?cs (fs, []) = (files', map (episode_of fs) ?cs)" "map unmark files' = fs"
    "\<forall>j < length fs. cf_Selected (files' ! j) \<longleftrightarrow> cf_Selected (fs ! j) \<or>
       (\<exists>c \<in> set ?cs. map_of ?v c = Some j \<or> j \<in> set (selectSubtitles fs c (best_video fs c)))" by auto
  have len: "length files' = length fs" using f(2) by auto
  have inj: "fs ! i = fs ! j \<Longrightarrow> i < length fs \<Longrightarrow> j < length fs \<Longrightarrow> i = j" for i j
    using d by (metis distinct_map nth_eq_iff_index_eq)
  have flag: "cf_Selected (files' ! j) \<longleftrightarrow> chosen fs (fs ! j)" if j: "j < length fs" for j
  proof -
    have "\<not> cf_Selected (fs ! j)" using u j by (metis nth_map unmark_def ClassifiedDownloadFile.select_convs(6)
          ClassifiedDownloadFile.surjective ClassifiedDownloadFile.update_convs(6))
    moreover have "map_of ?v c = Some j \<longleftrightarrow> fs ! j = best_video fs c" if "c \<in> set ?cs" for c
      using ok that inj j by (metis option.inject)
    moreover have "j \<in> set (selectSubtitles fs c v) \<longleftrightarrow> fs ! j \<in> set (best_subtitles fs c v)" for c v
      using selectSubtitles_files [of fs c v, symmetric] inj [OF _ j] selectSubtitles_range
      by auto
    ultimately show ?thesis using f(3) j by (auto simp: chosen_def list_ex_iff)
  qed
  have "files' = map (\<lambda>f. if chosen fs f then selected f else f) fs"
  proof (rule nth_equalityI)
    fix j assume "j < length files'"
    then have j: "j < length fs" by (simp add: len)
    have uj: "unmark (files' ! j) = unmark (fs ! j)" using f(2) u j len by (metis nth_map)
    show "files' ! j = map (\<lambda>f. if chosen fs f then selected f else f) fs ! j"
    proof (cases "chosen fs (fs ! j)")
      case True
      then show ?thesis using flag [OF j] uj j by (simp add: unmark_selectedI)
    next
      case False
      then have "unmark (files' ! j) = files' ! j" using flag [OF j] by (simp add: unmark_def)
      then show ?thesis using False uj j u by (simp, metis nth_map)
    qed
  qed (simp add: len)
  then show ?thesis using False f(1)
    by (simp add: select_classified_def best_videos_Nil sorted_keys reference_selection_def)
qed


subsection \<open>The specification depends on the set of files only\<close>

lemma mset_filter_cong: "mset xs = mset ys \<Longrightarrow> mset (filter P xs) = mset (filter P ys)"
  by (metis mset_filter)

lemma total_by_index:
  assumes "distinct (map df_Index fs)" "f \<in> set (filter P fs)" "g \<in> set (filter P fs)" "f \<noteq> g"
  shows "betterVideo f g \<or> betterVideo g f" "subtitle_before v f g \<or> subtitle_before v g f"
proof -
  have "df_Index f \<noteq> df_Index g" using index_inj [OF assms(1)] assms(2-4) by simp
  then show "betterVideo f g \<or> betterVideo g f" "subtitle_before v f g \<or> subtitle_before v g f"
    by (rule index_total)+
qed

lemma specification_permutes:
  assumes d: "distinct (map df_Index fs)" and m: "mset fs = mset gs"
  shows "best_video fs c = best_video gs c" "best_subtitles fs c v = best_subtitles gs c v"
    "episode_coordinates fs = episode_coordinates gs" "episode_of fs c = episode_of gs c"
    "chosen fs = chosen gs"
proof -
  show v: "best_video fs c = best_video gs c" for c unfolding best_video_def
    by (rule arg_cong [where f = hd], rule video_order.sort_by_unique, rule mset_filter_cong [OF m])
      (rule total_by_index(1) [OF d])
  show s: "best_subtitles fs c v = best_subtitles gs c v" for c v unfolding best_subtitles_def
    by (rule arg_cong [where f = "take 8"], rule subtitle_order.sort_by_unique, rule mset_filter_cong [OF m])
      (rule total_by_index(2) [OF d])
  have "mset (remdups (map file_coordinate (filter main_video fs))) =
      mset (remdups (map file_coordinate (filter main_video gs)))"
    using mset_eq_setD [OF m] by (simp add: set_eq_iff_mset_remdups_eq [symmetric])
  then show e: "episode_coordinates fs = episode_coordinates gs" unfolding episode_coordinates_def
    by (rule coordinate_order.sort_by_unique) (rule coordinate_total)
  show "episode_of fs c = episode_of gs c" by (simp add: episode_of_def v s)
  show "chosen fs = chosen gs" by (rule ext) (simp add: chosen_def v s e)
qed

lemma classified_ok:
  assumes "ClassifyDownloadFiles files options = Inr fs"
  shows "distinct (map df_Index fs)" "map unmark fs = fs"
  using assms by (auto simp: ClassifyDownloadFiles_Inr_iff comp_def)

section \<open>Properties of the selection\<close>

text \<open>
  C27: the selection equals its specification. Classification errors are passed on, a manifest
  without a main video is refused, and otherwise there is one episode per coordinate of a main
  video, in ascending order, with the best video (largest, then lowest index) and the eight best
  subtitle candidates; exactly the files of the episodes are marked as selected.
\<close>

theorem select_files_reference:
  "SelectDownloadFiles files options =
     (case ClassifyDownloadFiles files options of
        Inl err \<Rightarrow> Inl err
      | Inr fs \<Rightarrow> if filter main_video fs = [] then Inl ErrNoMainVideo else Inr (reference_selection fs))"
  using classified_ok select_classified_reference
  by (auto simp: SelectDownloadFiles_def split: sum.split)

text \<open>
  C28: the selection does not depend on the order in which the client lists the files. A permuted
  manifest gives the same episodes and the same marked files.
\<close>

theorem selection_order_independent:
  assumes "mset files = mset files'" "SelectDownloadFiles files options = Inr result"
  shows "\<exists>result'. SelectDownloadFiles files' options = Inr result' \<and>
    fr_Episodes result' = fr_Episodes result \<and> mset (fr_Files result') = mset (fr_Files result)"
proof -
  obtain fs where fs: "ClassifyDownloadFiles files options = Inr fs" "select_classified fs = Inr result"
    using assms(2) by (auto simp: SelectDownloadFiles_def bind_result_eq_Inr_iff)
  define gs where "gs = map (classify_file options) files'"
  have m: "mset fs = mset gs" using fs(1) assms(1) by (auto simp: ClassifyDownloadFiles_Inr_iff gs_def)
  have "distinct (map df_Index files')"
    using fs(1) assms(1) by (metis ClassifyDownloadFiles_Inr_iff mset_eq_imp_distinct_iff mset_map)
  then have gs: "ClassifyDownloadFiles files' options = Inr gs"
    using fs(1) mset_eq_setD [OF assms(1)] by (auto simp: ClassifyDownloadFiles_Inr_iff gs_def)
  note p = specification_permutes [OF classified_ok(1) [OF fs(1)] m]
  have "filter main_video fs \<noteq> []" "result = reference_selection fs"
    using fs(2) select_classified_reference [OF classified_ok [OF fs(1)]] by (auto split: if_splits)
  moreover have "filter main_video gs \<noteq> []"
    using \<open>filter main_video fs \<noteq> []\<close> mset_eq_setD [OF m] by (auto simp: filter_empty_conv)
  ultimately show ?thesis
    using gs select_classified_reference [OF classified_ok [OF gs]] p m
    by (auto simp: SelectDownloadFiles_def reference_selection_def)
qed

lemma best_video_facts:
  assumes "c \<in> set (episode_coordinates fs)"
  shows "best_video fs c \<in> set fs" "main_video (best_video fs c)" "file_coordinate (best_video fs c) = c"
    "f \<in> set fs \<Longrightarrow> main_video f \<Longrightarrow> file_coordinate f = c \<Longrightarrow> \<not> betterVideo f (best_video fs c)"
proof -
  let ?vs = "filter (\<lambda>f. main_video f \<and> file_coordinate f = c) fs"
  have "?vs \<noteq> []" using assms by (auto simp: episode_coordinates_def filter_empty_conv)
  then have "sort_by betterVideo ?vs \<noteq> []" by simp
  then have "best_video fs c \<in> set ?vs" unfolding best_video_def by (metis hd_in_set set_sort_by)
  then show "best_video fs c \<in> set fs" "main_video (best_video fs c)" "file_coordinate (best_video fs c) = c"
    by auto
  show "\<not> betterVideo f (best_video fs c)" if "f \<in> set fs" "main_video f" "file_coordinate f = c"
    using that video_order.hd_sort_by_minimal [of f ?vs, OF _ refl] by (simp add: best_video_def)
qed

lemma best_subtitles_facts:
  "length (best_subtitles fs c v) \<le> 8"
  "s \<in> set (best_subtitles fs c v) \<Longrightarrow> s \<in> set fs \<and> subtitle_candidate c s"
  by (auto simp: best_subtitles_def dest!: in_set_takeD)

lemma selected_simps [simp]:
  "df_Index (selected f) = df_Index f" "df_RelativePath (selected f) = df_RelativePath f"
  "df_SizeBytes (selected f) = df_SizeBytes f" "cf_Kind (selected f) = cf_Kind f"
  "file_coordinate (selected f) = file_coordinate f" "main_video (selected f) = main_video f"
  "cf_Selected (selected f)"
  by (simp_all add: selected_def file_coordinate_def main_video_def)

lemma candidate_coordinate: "subtitle_candidate c s \<Longrightarrow> cf_Kind s = MediaSubtitle \<and> file_coordinate s = c"
  by (auto simp: subtitle_candidate_def at_coordinate_def file_coordinate_def)

text \<open>
  Bounds of the selection. An episode has the largest main video of its coordinate and at most
  eight subtitles of the same coordinate, all marked as selected and taken from the manifest, and
  no two episodes share a coordinate.
\<close>

theorem selection_bounds:
  assumes "SelectDownloadFiles files options = Inr result"
  shows "distinct (map (file_coordinate \<circ> se_Video) (fr_Episodes result)) \<and>
    (\<forall>e \<in> set (fr_Episodes result). length (se_Subtitles e) \<le> 8 \<and> main_video (se_Video e) \<and>
       df_RelativePath (se_Video e) \<in> df_RelativePath ` set files \<and>
       (\<forall>s \<in> set (se_Subtitles e). cf_Kind s = MediaSubtitle \<and> cf_Selected s \<and>
          file_coordinate s = file_coordinate (se_Video e) \<and>
          df_RelativePath s \<in> df_RelativePath ` set files) \<and>
       (\<forall>f \<in> set files. main_video (classify_file options f) \<and>
          file_coordinate (classify_file options f) = file_coordinate (se_Video e) \<longrightarrow>
          df_SizeBytes f \<le> df_SizeBytes (se_Video e)))"
proof -
  obtain fs where fs: "ClassifyDownloadFiles files options = Inr fs" "select_classified fs = Inr result"
    using assms by (auto simp: SelectDownloadFiles_def bind_result_eq_Inr_iff)
  have cf: "fs = map (classify_file options) files" using fs(1) by (simp add: ClassifyDownloadFiles_Inr_iff)
  have e: "fr_Episodes result = map (episode_of fs) (episode_coordinates fs)"
    using fs(2) select_classified_reference [OF classified_ok [OF fs(1)]]
    by (auto simp: reference_selection_def split: if_splits)
  have "distinct (episode_coordinates fs)" by (simp add: episode_coordinates_def)
  moreover have "map (file_coordinate \<circ> se_Video) (map (episode_of fs) (episode_coordinates fs)) =
      map (\<lambda>c. c) (episode_coordinates fs)"
    unfolding map_map by (rule map_cong [OF refl]) (simp add: episode_of_def Let_def best_video_facts)
  ultimately have "distinct (map (file_coordinate \<circ> se_Video) (fr_Episodes result))" by (simp add: e)
  moreover have "length (se_Subtitles (episode_of fs c)) \<le> 8 \<and> main_video (se_Video (episode_of fs c)) \<and>
      df_RelativePath (se_Video (episode_of fs c)) \<in> df_RelativePath ` set files \<and>
      (\<forall>s \<in> set (se_Subtitles (episode_of fs c)). cf_Kind s = MediaSubtitle \<and> cf_Selected s \<and>
         file_coordinate s = file_coordinate (se_Video (episode_of fs c)) \<and>
         df_RelativePath s \<in> df_RelativePath ` set files) \<and>
      (\<forall>f \<in> set files. main_video (classify_file options f) \<and>
         file_coordinate (classify_file options f) = file_coordinate (se_Video (episode_of fs c)) \<longrightarrow>
         df_SizeBytes f \<le> df_SizeBytes (se_Video (episode_of fs c)))"
    if c: "c \<in> set (episode_coordinates fs)" for c
  proof -
    note v = best_video_facts [OF c]
    have paths: "df_RelativePath f \<in> df_RelativePath ` set files" if "f \<in> set fs" for f
      using that cf by auto
    have "df_SizeBytes f \<le> df_SizeBytes (best_video fs c)"
      if "f \<in> set files" "main_video (classify_file options f)" "file_coordinate (classify_file options f) = c" for f
      using v(4) [of "classify_file options f"] that cf by (auto simp: betterVideo_def split: if_splits)
    then show ?thesis
      using v(1,2,3) best_subtitles_facts(1) [of fs c "best_video fs c"]
        best_subtitles_facts(2) [of _ fs c "best_video fs c"]
      by (auto simp: episode_of_def Let_def paths dest: candidate_coordinate)
  qed
  ultimately show ?thesis by (simp add: e)
qed

text \<open>A manifest with two releases of one episode and a subtitle.\<close>

definition sample_manifest :: "DownloadFile list" where
  "sample_manifest =
     [\<lparr>df_Index = 0, df_RelativePath = lit ''S1E2.ts'', df_SizeBytes = 5\<rparr>,
      \<lparr>df_Index = 1, df_RelativePath = lit ''S1E2v2.ts'', df_SizeBytes = 7\<rparr>,
      \<lparr>df_Index = 2, df_RelativePath = lit ''S1E2.sc.ass'', df_SizeBytes = 1\<rparr>]"

definition sample_options :: FileSelectionOptions where
  "sample_options = \<lparr>fo_DefaultSeason = 1, fo_DefaultEpisode = 0, fo_SingleEpisode = False\<rparr>"

definition sample_classified :: "int \<Rightarrow> gostr \<Rightarrow> int \<Rightarrow> MediaKind \<Rightarrow> gostr \<Rightarrow> bool \<Rightarrow> ClassifiedDownloadFile" where
  "sample_classified i p n k l sel =
     \<lparr>df_Index = i, df_RelativePath = p, df_SizeBytes = n, cf_Kind = k,
      cf_SourceSeason = 1, cf_SourceEpisode = 2, cf_SourceEpisodeFractionHundredths = 0,
      cf_Language = l, cf_Selected = sel\<rparr>"

definition sample_selection :: FileSelectionResult where
  "sample_selection =
     (let first = sample_classified 0 (lit ''S1E2.ts'') 5 MediaVideo [] False;
          second = sample_classified 1 (lit ''S1E2v2.ts'') 7 MediaVideo [] True;
          sub = sample_classified 2 (lit ''S1E2.sc.ass'') 1 MediaSubtitle (lit ''zh-Hans'') True
      in \<lparr>fr_Files = [first, second, sub],
          fr_Episodes = [\<lparr>se_SourceSeason = 1, se_SourceEpisode = 2, se_SourceEpisodeFractionHundredths = 0,
            se_Video = second, se_Subtitle = Some sub, se_Subtitles = [sub]\<rparr>]\<rparr>)"

lemma sample_select: "SelectDownloadFiles sample_manifest sample_options = Inr sample_selection"
  by code_simp

theorem selection_order_independent_witness:
  "\<exists>result'. SelectDownloadFiles (rev sample_manifest) sample_options = Inr result' \<and>
     fr_Episodes result' = fr_Episodes sample_selection \<and> mset (fr_Files result') = mset (fr_Files sample_selection)"
  by (rule selection_order_independent [OF _ sample_select]) simp

theorem selection_bounds_witness:
  "distinct (map (file_coordinate \<circ> se_Video) (fr_Episodes sample_selection))"
  using selection_bounds [OF sample_select] by blast

end
