(* ===== verification/FilePaths.thy ===== *)
theory FilePaths
  imports FileSelection
begin

text \<open>
  Paths of the workers (\<^verbatim>\<open>internal/worker/media_files.go\<close>, \<^verbatim>\<open>emby_import.go\<close>): joining a
  configured root with a relative path so that the result stays below the root, and the final and
  temporary paths of an output. \<^verbatim>\<open>filepath.Abs\<close> asks the operating system for the working directory
  only for a relative path; \<open>wd\<close> is its answer, \<open>None\<close> a failure.
\<close>

section \<open>filepath.Abs and filepath.Rel\<close>

definition is_abs :: "gostr \<Rightarrow> bool" where
  "is_abs p = has_prefix p [slash]"

definition path_abs :: "gostr option \<Rightarrow> gostr \<Rightarrow> gostr option" where
  "path_abs wd p = (if is_abs p then Some (path_clean p) else map_option (\<lambda>d. path_join [d, p]) wd)"

definition path_elems :: "gostr \<Rightarrow> gostr list" where
  "path_elems p = filter (\<lambda>e. e \<noteq> []) (split_on slash p)"

fun strip_common :: "'a list \<Rightarrow> 'a list \<Rightarrow> 'a list \<times> 'a list" where
  "strip_common (x # xs) (y # ys) = (if x = y then strip_common xs ys else (x # xs, y # ys))"
| "strip_common xs ys = (xs, ys)"

text \<open>\<^verbatim>\<open>filepath.Rel\<close> of two absolute, clean paths, the only way the workers call it.\<close>

definition path_rel :: "gostr \<Rightarrow> gostr \<Rightarrow> gostr" where
  "path_rel base targ =
     (if targ = base then [dot]
      else case strip_common (path_elems base) (path_elems targ) of
             (bs, ts) \<Rightarrow> join (replicate (length bs) [dot, dot] @ ts) [slash])"

definition escapes :: "gostr \<Rightarrow> bool" where
  "escapes relative = (relative = [dot, dot] \<or> has_prefix relative [dot, dot, slash])"

section \<open>Paths of media files\<close>

definition secureJoin :: "gostr option \<Rightarrow> gostr \<Rightarrow> gostr \<Rightarrow> gostr option" where
  "secureJoin wd basePath relativePath =
     (if trim_space basePath = [] \<or> trim_space relativePath = [] \<or> is_abs relativePath then None
      else Option.bind (path_abs wd (path_clean basePath)) (\<lambda>base.
           Option.bind (path_abs wd (path_join [base, replace_rune 92 slash relativePath])) (\<lambda>candidate.
           if escapes (path_rel base candidate) then None else Some candidate)))"

record mediaOutputPaths =
  mo_Directory :: gostr
  mo_Final :: gostr
  mo_Temporary :: gostr

definition buildMediaOutputPaths ::
  "(uuid \<Rightarrow> gostr) \<Rightarrow> gostr option \<Rightarrow> gostr \<Rightarrow> uuid \<Rightarrow> uuid \<Rightarrow> gostr \<Rightarrow> mediaOutputPaths option" where
  "buildMediaOutputPaths uuid_str wd stagingRoot taskID operationID relativePath =
     (if taskID = uuid_nil \<or> operationID = uuid_nil \<or> trim_space relativePath = [] then None
      else
        let slashed = replace_rune 92 slash relativePath
        in if is_abs slashed then None
           else
             let normalized = path_clean slashed
             in if normalized = [dot] \<or> escapes normalized then None
                else
                  let fileName = path_base normalized
                  in if trim_space fileName = [] \<or> fileName = [dot] then None
                     else Option.bind (path_abs wd (path_clean stagingRoot)) (\<lambda>root.
                       let taskRoot = path_join [root, uuid_str taskID];
                           final = path_join [taskRoot, normalized]
                       in if escapes (path_rel taskRoot final) then None
                          else
                            let directory = path_dir final;
                                extension = path_ext fileName;
                                stem = trim_suffix fileName extension
                            in Some \<lparr>mo_Directory = directory, mo_Final = final,
                                     mo_Temporary = path_join [directory,
                                       lit ''.'' @ stem @ lit ''.'' @ uuid_str operationID @ lit ''.part'' @ extension]\<rparr>))"

definition importTemporaryPath :: "(uuid \<Rightarrow> gostr) \<Rightarrow> gostr \<Rightarrow> uuid \<Rightarrow> gostr" where
  "importTemporaryPath uuid_str final operationID =
     (let extension = path_ext final;
          stem = trim_suffix (path_base final) extension
      in path_join [path_dir final,
           lit ''.'' @ stem @ lit ''.'' @ uuid_str operationID @ lit ''.import.part'' @ extension])"

section \<open>Absolute paths as lists of elements\<close>

definition abs_path :: "gostr list \<Rightarrow> gostr" where
  "abs_path es = slash # join es [slash]"

abbreviation propers :: "gostr list \<Rightarrow> bool" where
  "propers es \<equiv> \<forall>e \<in> set es. proper_elem e"

lemma split_on_Cons_sep: "split_on sep (sep # s) = [] # split_on sep s"
  by (simp add: split_on_def)

lemma split_acc_split: "split_acc sep cur (s @ sep # t) = split_acc sep cur s @ split_acc sep [] t"
  by (induction s arbitrary: cur) auto

lemma split_on_append: "split_on sep (s @ sep # t) = split_on sep s @ split_on sep t"
  by (simp add: split_on_def split_acc_split)

lemma split_acc_no_slash: "sep \<notin> set cur \<Longrightarrow> e \<in> set (split_acc sep cur s) \<Longrightarrow> sep \<notin> set e"
  by (induction s arbitrary: cur) (fastforce split: if_splits)+

lemma split_on_no_slash: "e \<in> set (split_on sep s) \<Longrightarrow> sep \<notin> set e"
  by (auto simp: split_on_def dest: split_acc_no_slash [rotated])

lemma split_on_abs_path: "propers es \<Longrightarrow> split_on slash (abs_path es) = [] # (if es = [] then [[]] else es)"
  by (auto simp: abs_path_def split_on_Cons_sep split_on_join proper_elem_def)

lemma path_elems_abs_path [simp]: "propers es \<Longrightarrow> path_elems (abs_path es) = es"
  by (auto simp: path_elems_def split_on_abs_path filter_id_conv proper_elem_def)

lemma abs_path_inj: "propers es \<Longrightarrow> propers fs \<Longrightarrow> abs_path es = abs_path fs \<longleftrightarrow> es = fs"
  by (metis path_elems_abs_path)

lemma is_abs_abs_path [simp]: "is_abs (abs_path es)"
  by (simp add: is_abs_def abs_path_def has_prefix_def)

lemma clean_elems_rooted:
  "propers out \<Longrightarrow> \<forall>e \<in> set es. slash \<notin> set e \<Longrightarrow> propers (clean_elems True out es)"
proof (induction es arbitrary: out)
  case (Cons e es)
  consider "e = [] \<or> e = [dot]" | "e = [dot, dot]" | "proper_elem e"
    using Cons.prems(2) by (auto simp: proper_elem_def)
  then show ?case
  proof cases
    case 1
    then show ?thesis using Cons by simp
  next
    case 2
    show ?thesis
    proof (cases out)
      case Nil
      then show ?thesis using 2 Cons.IH [of "[]"] Cons.prems by simp
    next
      case out: (Cons o1 os)
      then have "o1 \<noteq> [dot, dot]" using \<open>propers out\<close> by (simp add: proper_elem_def)
      then show ?thesis using 2 out Cons.IH [of os] Cons.prems by simp
    qed
  next
    case 3
    then have "e \<noteq> []" "e \<noteq> [dot]" "e \<noteq> [dot, dot]" by (auto simp: proper_elem_def)
    then show ?thesis using Cons.IH [of "e # out"] 3 Cons.prems by simp
  qed
qed simp

lemma path_clean_abs:
  assumes "is_abs p"
  shows "path_clean p = abs_path (clean_elems True [] (split_on slash p))"
    "propers (clean_elems True [] (split_on slash p))"
proof -
  have "p \<noteq> []" using assms by (auto simp: is_abs_def has_prefix_def)
  then show "path_clean p = abs_path (clean_elems True [] (split_on slash p))"
    using assms by (simp add: path_clean_def is_abs_def abs_path_def Let_def)
  show "propers (clean_elems True [] (split_on slash p))"
    by (rule clean_elems_rooted) (auto dest: split_on_no_slash)
qed

lemma clean_elems_append: "clean_elems r out (es @ fs) = clean_elems r (rev (clean_elems r out es)) fs"
  by (induction es arbitrary: out) (auto split: list.split)

lemma clean_abs_path [simp]:
  assumes "propers es"
  shows "path_clean (abs_path es) = abs_path es"
proof -
  have "clean_elems True [] (split_on slash (abs_path es)) = es"
    using assms clean_elems_proper [OF assms, of True "[]"] by (simp add: split_on_abs_path)
  then show ?thesis using path_clean_abs [of "abs_path es"] by simp
qed

lemma path_join_abs_path:
  assumes "propers es"
  shows "path_join [abs_path es, r] = abs_path (clean_elems True (rev es) (split_on slash r))"
    "propers (clean_elems True (rev es) (split_on slash r))"
proof -
  have s: "split_on slash (abs_path es @ slash # r) = ([] # (if es = [] then [[]] else es)) @ split_on slash r"
    using assms by (simp add: split_on_append split_on_abs_path)
  have "clean_elems True [] ([] # (if es = [] then [[]] else es)) = es"
    using assms clean_elems_proper [OF assms, of True "[]"] by simp
  then have "clean_elems True [] (split_on slash (abs_path es @ slash # r)) =
      clean_elems True (rev es) (split_on slash r)"
    unfolding s clean_elems_append by simp
  moreover have "is_abs (abs_path es @ slash # r)" by (simp add: is_abs_def abs_path_def has_prefix_def)
  moreover have "path_join [abs_path es, r] = path_clean (abs_path es @ slash # r)"
    by (simp add: path_join_def abs_path_def)
  ultimately show "path_join [abs_path es, r] = abs_path (clean_elems True (rev es) (split_on slash r))"
    using path_clean_abs by simp
  show "propers (clean_elems True (rev es) (split_on slash r))"
    using assms by (intro clean_elems_rooted) (auto dest: split_on_no_slash)
qed

lemma clean_elems_no_dotdot:
  "[dot, dot] \<notin> set es \<Longrightarrow> clean_elems r out es = rev out @ filter (\<lambda>e. e \<noteq> [] \<and> e \<noteq> [dot]) es"
  by (induction es arbitrary: out) auto

lemma path_abs_abs_path:
  assumes "path_abs wd p = Some q" "\<forall>w. wd = Some w \<longrightarrow> is_abs w"
  obtains es where "q = abs_path es" "propers es"
proof (cases "is_abs p")
  case True
  then have "q = path_clean p" using assms(1) by (simp add: path_abs_def)
  then show ?thesis using path_clean_abs [OF True] by (intro that) simp_all
next
  case False
  then obtain w where w: "wd = Some w" "q = path_join [w, p]" using assms(1) by (auto simp: path_abs_def)
  then have "is_abs w" using assms(2) by simp
  then have "w \<noteq> []" by (auto simp: is_abs_def has_prefix_def)
  then have q: "q = path_clean (w @ slash # p)" using w by (simp add: path_join_def)
  have "is_abs (w @ slash # p)" using \<open>is_abs w\<close> by (auto simp: is_abs_def has_prefix_iff)
  from path_clean_abs [OF this] show ?thesis using that q by simp
qed

lemma strip_common_decomp:
  "strip_common bs ts = (bs', ts') \<Longrightarrow> \<exists>cs. bs = cs @ bs' \<and> ts = cs @ ts' \<and> (bs' = [] \<or> ts' = [] \<or> hd bs' \<noteq> hd ts')"
proof (induction bs ts rule: strip_common.induct)
  case (1 x xs y ys)
  show ?case
  proof (cases "x = y")
    case True
    with 1 obtain cs where "xs = cs @ bs'" "ys = cs @ ts'" "bs' = [] \<or> ts' = [] \<or> hd bs' \<noteq> hd ts'" by auto
    with True show ?thesis by (intro exI [of _ "x # cs"]) auto
  next
    case False
    with 1 show ?thesis by auto
  qed
qed auto

lemma strip_common_self [simp]: "strip_common cs cs = ([], [])"
  by (induction cs) auto

lemma strip_common_prefix: "strip_common cs (cs @ ts) = ([], ts)"
  by (induction cs) simp_all

lemma join_dotdot: "join ([dot, dot] # es) [slash] = [dot, dot] @ (if es = [] then [] else slash # join es [slash])"
  by (cases es) auto

text \<open>A relative path that does not climb means that the target lies below the base, and conversely.\<close>

lemma path_rel_escapes_iff:
  assumes "propers bs" "propers ts"
  shows "\<not> escapes (path_rel (abs_path bs) (abs_path ts)) \<longleftrightarrow> (\<exists>es. ts = bs @ es)"
proof (cases "ts = bs")
  case True
  then show ?thesis by (auto simp: path_rel_def escapes_def has_prefix_def)
next
  case False
  obtain bs' ts' where s: "strip_common bs ts = (bs', ts')" by fastforce
  obtain cs where cs: "bs = cs @ bs'" "ts = cs @ ts'" "bs' = [] \<or> ts' = [] \<or> hd bs' \<noteq> hd ts'"
    using strip_common_decomp [OF s] by blast
  have rel: "path_rel (abs_path bs) (abs_path ts) = join (replicate (length bs') [dot, dot] @ ts') [slash]"
    using False assms by (simp add: path_rel_def abs_path_inj s)
  show ?thesis
  proof (cases bs')
    case Nil
    with False cs have "ts' \<noteq> []" by auto
    then obtain t ts2 where t: "ts' = t # ts2" by (cases ts') auto
    then have p: "proper_elem t" using assms cs by auto
    have "\<not> escapes (join (t # ts2) [slash])"
    proof -
      have "t \<noteq> [dot, dot]" "slash \<notin> set t" using p by (auto simp: proper_elem_def)
      then show ?thesis
        by (cases ts2; cases t; cases "tl t"; cases "tl (tl t)") (auto simp: escapes_def has_prefix_def)
    qed
    then show ?thesis using rel Nil t cs by auto
  next
    case (Cons b bs2)
    then have "escapes (path_rel (abs_path bs) (abs_path ts))"
      using rel by (cases "replicate (length bs2) [dot, dot] @ ts' = []")
        (simp_all add: join_dotdot escapes_def has_prefix_def)
    moreover have "\<nexists>es. ts = bs @ es"
      using cs Cons by auto
    ultimately show ?thesis by blast
  qed
qed

section \<open>Segments\<close>

lemma split_acc_segment:
  "e \<in> set (split_acc c cur s) \<Longrightarrow>
     \<exists>x y. rev cur @ s = x @ e @ y \<and> (x = [] \<or> last x = c) \<and> (y = [] \<or> hd y = c)"
proof (induction s arbitrary: cur)
  case Nil
  then show ?case by (intro exI [of _ "[]"]) simp
next
  case (Cons d s)
  show ?case
  proof (cases "d = c")
    case False
    then show ?thesis using Cons.IH [of "d # cur"] Cons.prems by simp
  next
    case True
    with Cons.prems consider "e = rev cur" | "e \<in> set (split_acc c [] s)" by auto
    then show ?thesis
    proof cases
      case 1
      then show ?thesis using True by (intro exI [of _ "[]"] exI [of _ "d # s"]) simp
    next
      case 2
      then obtain x y where xy: "s = x @ e @ y" "x = [] \<or> last x = c" "y = [] \<or> hd y = c"
        using Cons.IH [of "[]"] by auto
      have "last (rev cur @ d # x) = c" using xy(2) True by (cases x) auto
      then show ?thesis using xy by (intro exI [of _ "rev cur @ d # x"] exI [of _ y]) simp
    qed
  qed
qed

lemma split_on_segment_iff:
  "e \<in> set (split_on c s) \<longleftrightarrow> c \<notin> set e \<and>
     (\<exists>x y. s = x @ e @ y \<and> (x = [] \<or> last x = c) \<and> (y = [] \<or> hd y = c))"
proof
  assume e: "e \<in> set (split_on c s)"
  then have "c \<notin> set e" by (rule split_on_no_slash)
  with split_acc_segment [of e c "[]" s] e show "c \<notin> set e \<and>
     (\<exists>x y. s = x @ e @ y \<and> (x = [] \<or> last x = c) \<and> (y = [] \<or> hd y = c))"
    by (simp add: split_on_def)
next
  assume "c \<notin> set e \<and> (\<exists>x y. s = x @ e @ y \<and> (x = [] \<or> last x = c) \<and> (y = [] \<or> hd y = c))"
  then obtain x y where c: "c \<notin> set e" "s = x @ e @ y" "x = [] \<or> last x = c" "y = [] \<or> hd y = c" by blast
  have ey: "e \<in> set (split_on c (e @ y))"
    using c(1,4) by (cases y) (auto simp: split_on_append)
  show "e \<in> set (split_on c s)"
  proof (cases "x = []")
    case True
    then show ?thesis using ey c by simp
  next
    case False
    then have "s = butlast x @ c # (e @ y)" using c by (metis append.assoc append_Cons append_Nil append_butlast_last_id)
    then show ?thesis using ey split_on_append [of c "butlast x" "e @ y"] by simp
  qed
qed

lemma trim_func_decomp:
  "\<exists>a b. s = a @ trim_func p s @ b \<and> (\<forall>c \<in> set a. p c) \<and> (\<forall>c \<in> set b. p c)"
proof -
  let ?l = "trim_left_func p s"
  have "s = takeWhile p s @ ?l" by (simp add: trim_left_func_def)
  moreover have "?l = trim_func p s @ rev (takeWhile p (rev ?l))"
    by (metis rev_append rev_rev_ident takeWhile_dropWhile_id trim_func_def trim_right_func_def)
  ultimately have "s = takeWhile p s @ trim_func p s @ rev (takeWhile p (rev ?l))" by simp
  moreover have "\<forall>c \<in> set (takeWhile p xs). p c" for xs by (auto dest: set_takeWhileD)
  ultimately show ?thesis by (metis set_rev)
qed

text \<open>Trimming keeps a segment that neither starts nor ends with a trimmed rune.\<close>

lemma trim_keeps_segment:
  assumes "e \<in> set (split_on c s)" "e \<noteq> []" "\<not> p (hd e)" "\<not> p (last e)"
  shows "e \<in> set (split_on c (trim_func p s))"
proof -
  obtain x y where xy: "c \<notin> set e" "s = x @ e @ y" "x = [] \<or> last x = c" "y = [] \<or> hd y = c"
    using assms(1) by (auto simp: split_on_segment_iff)
  obtain a b where ab: "s = a @ trim_func p s @ b" "\<forall>c \<in> set a. p c" "\<forall>c \<in> set b. p c"
    using trim_func_decomp by blast
  have "x @ e @ y = a @ trim_func p s @ b" using xy ab by simp
  then consider us where "x = a @ us" "us @ e @ y = trim_func p s @ b"
    | us where "x @ us = a" "e @ y = us @ trim_func p s @ b"
    by (subst (asm) append_eq_append_conv2) blast
  then obtain us where us: "x = a @ us" "us @ e @ y = trim_func p s @ b"
  proof cases
    case (2 us)
    show ?thesis
    proof (cases us)
      case Nil
      then show ?thesis using 2 that [of "[]"] by simp
    next
      case (Cons u vs)
      then have "hd e = u" "u \<in> set a" using 2 assms(2) by (cases e; auto)+
      then show ?thesis using ab(2) assms(3) by auto
    qed
  qed
  from us(2) have "(us @ e) @ y = trim_func p s @ b" by simp
  then consider vs where "us @ e = trim_func p s @ vs" "b = vs @ y"
    | vs where "(us @ e) @ vs = trim_func p s" "y = vs @ b"
    by (subst (asm) append_eq_append_conv2) blast
  then obtain vs where vs: "trim_func p s = (us @ e) @ vs" "y = vs @ b"
  proof cases
    case (1 vs)
    show ?thesis
    proof (cases "vs = []")
      case True
      then show ?thesis using 1 that [of "[]"] by simp
    next
      case False
      then have "last (us @ e) = last vs" using 1(1) by simp
      then have "last e = last vs" using assms(2) by simp
      moreover have "last vs \<in> set b" using False 1(2) by simp
      ultimately show ?thesis using ab(3) assms(4) by auto
    qed
  next
    case (2 vs)
    then show ?thesis using that [of vs] by simp
  qed
  have "us = [] \<or> last us = c" using xy(3) us(1) by (cases us) auto
  moreover have "vs = [] \<or> hd vs = c" using xy(4) vs(2) by (cases vs) auto
  ultimately show ?thesis using xy(1) vs(1) by (auto simp: split_on_segment_iff)
qed

lemma trim_func_map: "trim_func p (map f s) = map f (trim_func (\<lambda>c. p (f c)) s)"
  by (simp add: trim_func_def trim_left_func_def trim_right_func_def dropWhile_map rev_map comp_def)

lemma is_space_slash [simp]: "\<not> is_space slash" "\<not> is_space backslash" "\<not> is_space dot"
  by (simp_all add: is_space_def)

lemma unix_path_trim: "unix_path (trim_space p) = trim_space (unix_path p)"
proof -
  have "is_space (if c = backslash then slash else c) = is_space c" for c by simp
  then show ?thesis by (simp add: replace_rune_def trim_space_def trim_func_map)
qed

lemma valid_path_segments:
  assumes "validateRelativeDownloadPath r"
  shows "[dot, dot] \<notin> set (split_on slash (unix_path r))" "\<not> is_abs r" "trim_space r \<noteq> []"
proof -
  let ?n = "trim_space (unix_path r)"
  have v: "?n \<noteq> []" "\<not> has_prefix ?n [slash]" "[dot, dot] \<notin> set (split_on slash ?n)"
    using assms by (auto simp: validateRelativeDownloadPath_def unix_path_trim Let_def list_all_iff)
  show "[dot, dot] \<notin> set (split_on slash (unix_path r))"
    using v(3) trim_keeps_segment [of "[dot, dot]" slash "unix_path r" is_space] by (auto simp: trim_space_def)
  show "trim_space r \<noteq> []" using v(1) by (metis unix_path_trim replace_rune_def list.simps(8))
  show "\<not> is_abs r"
  proof
    assume "is_abs r"
    then obtain t where t: "r = slash # t" by (auto simp: is_abs_def has_prefix_iff)
    then have "unix_path r = slash # unix_path t" by (simp add: replace_rune_def)
    moreover obtain a b where "unix_path r = a @ ?n @ b" "\<forall>c \<in> set a. is_space c"
      using trim_func_decomp [of "unix_path r" is_space] by (auto simp: trim_space_def)
    ultimately show False using v(1,2) by (cases a; cases ?n) (auto simp: has_prefix_def)
  qed
qed

section \<open>Joining stays below the root\<close>

lemma secureJoin_below:
  assumes "secureJoin wd b r = Some c" "\<forall>w. wd = Some w \<longrightarrow> is_abs w"
  obtains bs es where "path_abs wd (path_clean b) = Some (abs_path bs)" "c = abs_path (bs @ es)" "propers (bs @ es)"
proof -
  from assms(1) obtain base where base: "path_abs wd (path_clean b) = Some base"
    "path_abs wd (path_join [base, replace_rune 92 slash r]) = Some c" "\<not> escapes (path_rel base c)"
    by (auto simp: secureJoin_def split: if_splits Option.bind_splits)
  obtain bs where bs: "base = abs_path bs" "propers bs" using path_abs_abs_path [OF base(1) assms(2)] .
  obtain cs where cs: "c = abs_path cs" "propers cs" using path_abs_abs_path [OF base(2) assms(2)] .
  from path_rel_escapes_iff [OF bs(2) cs(2)] base(3) bs(1) cs(1) obtain es where "cs = bs @ es" by auto
  with that base(1) bs cs show ?thesis by simp
qed

lemma secureJoin_valid:
  assumes "is_abs b" "validateRelativeDownloadPath r"
  shows "\<exists>bs. path_clean b = abs_path bs \<and>
    propers (bs @ filter (\<lambda>e. e \<noteq> [] \<and> e \<noteq> [dot]) (split_on slash (unix_path r))) \<and>
    secureJoin wd b r = Some (abs_path (bs @ filter (\<lambda>e. e \<noteq> [] \<and> e \<noteq> [dot]) (split_on slash (unix_path r))))"
proof -
  let ?es = "filter (\<lambda>e. e \<noteq> [] \<and> e \<noteq> [dot]) (split_on slash (unix_path r))"
  obtain bs where bs: "path_clean b = abs_path bs" "propers bs" using path_clean_abs [OF assms(1)] by blast
  note v = valid_path_segments [OF assms(2)]
  have j: "path_join [abs_path bs, unix_path r] = abs_path (bs @ ?es)" "propers (bs @ ?es)"
    using path_join_abs_path [OF bs(2), of "unix_path r"] clean_elems_no_dotdot [OF v(1), of True "rev bs"] by auto
  have "trim_space b \<noteq> []"
  proof -
    obtain t where "b = slash # t" using assms(1) by (auto simp: is_abs_def has_prefix_iff)
    then show ?thesis using trim_func_decomp [of b is_space] by (force simp: trim_space_def Cons_eq_append_conv)
  qed
  moreover have "\<not> escapes (path_rel (abs_path bs) (abs_path (bs @ ?es)))"
    using path_rel_escapes_iff [OF bs(2) j(2)] by blast
  ultimately have "secureJoin wd b r = Some (abs_path (bs @ ?es))"
    using v bs j by (simp add: secureJoin_def path_abs_def)
  with bs(1) j(2) show ?thesis by blast
qed

section \<open>The last element of a path\<close>

lemma join_snoc: "join (es @ [n]) s = (if es = [] then n else join es s @ s @ n)"
  by (induction es s rule: join.induct) auto

lemma abs_path_snoc: "abs_path (es @ [n]) = (if es = [] then [] else abs_path es) @ slash # n"
  by (simp add: abs_path_def join_snoc)

lemma path_dir_abs_path:
  assumes "propers es" "slash \<notin> set n"
  shows "path_dir (abs_path (es @ [n])) = abs_path es"
proof -
  have d: "rev (dropWhile (\<lambda>c. c \<noteq> slash) (rev (d @ slash # n))) = d @ [slash]" for d
    using assms(2) by (simp add: dropWhile_append)
  show ?thesis
  proof (cases "es = []")
    case True
    then show ?thesis using d [of "[]"] clean_abs_path [of "[]"] by (simp add: path_dir_def abs_path_def)
  next
    case False
    have s: "split_on slash (abs_path es @ [slash]) = [] # es @ [[]]"
      using split_on_append [of slash "abs_path es" "[]"] assms(1) False by (simp add: split_on_abs_path)
    have "is_abs (abs_path es @ [slash])" by (simp add: is_abs_def abs_path_def has_prefix_def)
    from path_clean_abs(1) [OF this] have "path_clean (abs_path es @ [slash]) = abs_path es"
      using assms(1) clean_elems_proper [of es True "[]"] by (simp add: s clean_elems_append)
    then show ?thesis using False d [of "abs_path es"] by (simp add: path_dir_def abs_path_snoc)
  qed
qed

lemma path_join_snoc:
  assumes "propers es" "proper_elem n"
  shows "path_join [abs_path es, n] = abs_path (es @ [n])"
  using path_join_abs_path(1) [OF assms(1), of n] assms(2) clean_elems_proper [of "[n]" True "rev es"]
  by (simp add: proper_elem_def)

lemma path_ext_abs_path:
  assumes "slash \<notin> set b" "slash \<notin> set x" "dot \<notin> set x"
  shows "path_ext (abs_path (es @ [b @ dot # x])) = dot # x"
proof -
  have "last (split_on slash (d @ slash # b @ dot # x)) = b @ dot # x" for d
    using assms by (simp add: split_on_append)
  then have "path_ext (d @ slash # b @ dot # x) = path_ext (b @ dot # x)" for d
    using assms by (simp add: path_ext_def)
  then show ?thesis
    unfolding abs_path_snoc using path_ext_append [OF assms] by simp
qed

lemma proper_name:
  "slash \<notin> set b \<Longrightarrow> slash \<notin> set e \<Longrightarrow> dot \<notin> set e \<Longrightarrow> e \<noteq> [] \<Longrightarrow> proper_elem (b @ dot # e)"
  by (cases b; cases e) (simp_all add: proper_elem_def append_eq_Cons_conv)

lemma distinct_snoc_paths:
  assumes "propers es" "distinct ns" "\<forall>n \<in> set ns. proper_elem n"
  shows "distinct (map (\<lambda>n. abs_path (es @ [n])) ns)"
  unfolding distinct_map
proof (intro conjI inj_onI assms(2))
  fix x y
  assume "x \<in> set ns" "y \<in> set ns" "abs_path (es @ [x]) = abs_path (es @ [y])"
  then show "x = y" using abs_path_inj [of "es @ [x]" "es @ [y]"] assms(1,3) by auto
qed

lemma importTemporaryPath_pair:
  assumes "propers es" "slash \<notin> set b" "slash \<notin> set x" "dot \<notin> set x" "slash \<notin> set (uuid_str i)"
  shows "importTemporaryPath uuid_str (abs_path (es @ [b @ dot # x])) i =
    abs_path (es @ [(dot # b @ dot # uuid_str i @ lit ''.import.part'') @ dot # x])"
    (is "_ = abs_path (es @ [?t])")
proof -
  let ?n = "b @ dot # x"
  have base: "path_base (abs_path (es @ [?n])) = ?n"
    unfolding abs_path_snoc using path_base_join [of ?n "if es = [] then [] else abs_path es"] assms by simp
  have t: "proper_elem ?t" using assms by (auto simp: proper_elem_def)
  have "trim_suffix ?n (dot # x) = b" using trim_suffix_append [of b "dot # x"] by simp
  then show ?thesis
    using path_join_snoc [OF assms(1) t] path_dir_abs_path [OF assms(1), of ?n] assms
    by (simp add: importTemporaryPath_def path_ext_abs_path base)
qed

section \<open>Property\<close>

text \<open>
  C30: every path of an accepted manifest can be opened below the download directory. For an
  absolute save path, joining it with the path of a classified file succeeds, and the result is the
  cleaned save path followed by the proper elements of the file's path, so it never leaves the
  directory.
\<close>

theorem accepted_paths_confined:
  assumes "ClassifyDownloadFiles files options = Inr classified" "f \<in> set classified" "is_abs savePath"
  shows "\<exists>root es. path_clean savePath = abs_path root \<and> propers (root @ es) \<and>
     secureJoin wd savePath (df_RelativePath f) = Some (abs_path (root @ es))"
proof -
  have "validateRelativeDownloadPath (df_RelativePath f)"
    using assms(1,2) by (auto simp: ClassifyDownloadFiles_Inr_iff acceptable_file_def)
  from secureJoin_valid [OF assms(3) this] show ?thesis by blast
qed


theorem accepted_paths_confined_witness:
  "\<exists>root es. path_clean (lit ''/d'') = abs_path root \<and> propers (root @ es) \<and>
     secureJoin None (lit ''/d'') (lit ''S/1.ts'') = Some (abs_path (root @ es))"
proof -
  let ?f = "\<lparr>df_Index = 0, df_RelativePath = lit ''S/1.ts'', df_SizeBytes = 5\<rparr>"
  let ?o = "\<lparr>fo_DefaultSeason = 1, fo_DefaultEpisode = 1, fo_SingleEpisode = True\<rparr>"
  have "validateRelativeDownloadPath (lit ''S/1.ts'')" by code_simp
  then have c: "ClassifyDownloadFiles [?f] ?o = Inr [classify_file ?o ?f]"
    by (simp add: ClassifyDownloadFiles_Inr_iff acceptable_file_def del: lit_simps)
  from accepted_paths_confined [OF c, of "classify_file ?o ?f" "lit ''/d''" None] show ?thesis
    by (simp add: is_abs_def has_prefix_def)
qed

end
