(* ===== verification/FileSystem.thy ===== *)
theory FileSystem
  imports FilePaths
begin

text \<open>
  The file system as the workers use it. A path is absolute and clean and names a regular file
  with its bytes, a directory, a symbolic link or something else. Every interaction with the
  operating system, and every look at the context of the operation, takes the next event of a
  list the environment chose: \<open>None\<close> lets it go through, \<open>Some n\<close> makes it fail, and an operation
  that writes has then written \<open>n\<close> of its units. When the list is used up nothing fails any more.
  The state survives a failure, unlike that of a transaction.
\<close>

section \<open>State\<close>

type_synonym bytes = "nat list"

datatype node = FileN bytes | DirN | LinkN gostr | OtherN

type_synonym files = "(gostr \<times> node) list"

definition node_at :: "files \<Rightarrow> gostr \<Rightarrow> node option" where
  "node_at fs p = map_of fs p"

definition put_node :: "gostr \<Rightarrow> node \<Rightarrow> files \<Rightarrow> files" where
  "put_node p n fs = AList.update p n fs"

definition drop_node :: "gostr \<Rightarrow> files \<Rightarrow> files" where
  "drop_node p fs = AList.delete p fs"

lemma node_at_simps [simp]:
  "node_at (put_node p n fs) q = (if q = p then Some n else node_at fs q)"
  "node_at (drop_node p fs) q = (if q = p then None else node_at fs q)"
  by (auto simp: node_at_def put_node_def drop_node_def update_conv' delete_conv')

text \<open>\<open>ErrConflict\<close> is the \<^verbatim>\<open>destinationConflictError\<close> of the import.\<close>

datatype io_error = ErrNotExist | ErrExist | ErrIO | ErrCancelled | ErrConflict gostr | ErrUnsafe string | ErrMedia string

record disk =
  d_files :: files
  d_events :: "nat option list"

type_synonym 'a io = "disk \<Rightarrow> (io_error, 'a) result \<times> disk"

definition io_return :: "'a \<Rightarrow> 'a io" where
  "io_return x d = (Inr x, d)"

definition io_fail :: "io_error \<Rightarrow> 'a io" where
  "io_fail e d = (Inl e, d)"

definition io_bind :: "'a io \<Rightarrow> ('a \<Rightarrow> 'b io) \<Rightarrow> 'b io" where
  "io_bind m f d = (case m d of (Inl e, d') \<Rightarrow> (Inl e, d') | (Inr x, d') \<Rightarrow> f x d')"

definition io_seq :: "'a io \<Rightarrow> 'b io \<Rightarrow> 'b io" where
  "io_seq m k = io_bind m (\<lambda>_. k)"

text \<open>\<open>io_try\<close> hands the outcome to the rest of the code, as \<^verbatim>\<open>err != nil\<close> tests do.\<close>

definition io_try :: "'a io \<Rightarrow> ((io_error, 'a) result \<Rightarrow> 'b io) \<Rightarrow> 'b io" where
  "io_try m f d = (case m d of (r, d') \<Rightarrow> f r d')"

fun io_each :: "('a \<Rightarrow> unit io) \<Rightarrow> 'a list \<Rightarrow> unit io" where
  "io_each f [] = io_return ()"
| "io_each f (x # xs) = io_seq (f x) (io_each f xs)"

text \<open>A deferred call runs after the body whatever its outcome; its own error is dropped.\<close>

definition io_defer :: "unit io \<Rightarrow> 'a io \<Rightarrow> 'a io" where
  "io_defer cleanup body d = (case body d of (r, d') \<Rightarrow> (r, snd (cleanup d')))"

definition next_event :: "disk \<Rightarrow> nat option \<times> disk" where
  "next_event d = (case d_events d of [] \<Rightarrow> (None, d) | e # es \<Rightarrow> (e, d\<lparr>d_events := es\<rparr>))"

text \<open>An operation that either takes effect or fails without one.\<close>

definition syscall :: "(files \<Rightarrow> (io_error, 'a \<times> files) result) \<Rightarrow> 'a io" where
  "syscall f d =
     (case next_event d of
        (Some n, d') \<Rightarrow> (Inl ErrIO, d')
      | (None, d') \<Rightarrow>
          (case f (d_files d') of
             Inl e \<Rightarrow> (Inl e, d')
           | Inr (x, fs) \<Rightarrow> (Inr x, d'\<lparr>d_files := fs\<rparr>)))"

text \<open>\<^verbatim>\<open>context.Cause(ctx)\<close>.\<close>

definition context_cause :: "unit io" where
  "context_cause d =
     (case next_event d of (Some n, d') \<Rightarrow> (Inl ErrCancelled, d') | (None, d') \<Rightarrow> (Inr (), d'))"

section \<open>Operations of package os\<close>

definition os_Lstat :: "gostr \<Rightarrow> node io" where
  "os_Lstat p = syscall (\<lambda>fs. case node_at fs p of None \<Rightarrow> Inl ErrNotExist | Some n \<Rightarrow> Inr (n, fs))"

text \<open>Symbolic links are followed up to the limit of the kernel.\<close>

fun follow :: "nat \<Rightarrow> files \<Rightarrow> gostr \<Rightarrow> (io_error, node) result" where
  "follow 0 fs p = Inl ErrIO"
| "follow (Suc k) fs p =
     (case node_at fs p of None \<Rightarrow> Inl ErrNotExist | Some (LinkN q) \<Rightarrow> follow k fs q | Some n \<Rightarrow> Inr n)"

definition os_Stat :: "gostr \<Rightarrow> node io" where
  "os_Stat p = syscall (\<lambda>fs. map_sum id (\<lambda>n. (n, fs)) (follow 40 fs p))"

definition has_children :: "files \<Rightarrow> gostr \<Rightarrow> bool" where
  "has_children fs p = list_ex (\<lambda>(q, n). q \<noteq> p \<and> path_dir q = p) fs"

definition os_Remove :: "gostr \<Rightarrow> unit io" where
  "os_Remove p = syscall (\<lambda>fs.
     case node_at fs p of
       None \<Rightarrow> Inl ErrNotExist
     | Some DirN \<Rightarrow> if has_children fs p then Inl ErrIO else Inr ((), drop_node p fs)
     | Some _ \<Rightarrow> Inr ((), drop_node p fs))"

definition parent_is_dir :: "files \<Rightarrow> gostr \<Rightarrow> bool" where
  "parent_is_dir fs p = (node_at fs (path_dir p) = Some DirN)"

definition os_Mkdir :: "gostr \<Rightarrow> unit io" where
  "os_Mkdir p = syscall (\<lambda>fs.
     if node_at fs p \<noteq> None then Inl ErrExist
     else if \<not> parent_is_dir fs p then Inl ErrNotExist
     else Inr ((), put_node p DirN fs))"

text \<open>The prefixes of a path, shortest first: what \<^verbatim>\<open>os.MkdirAll\<close> creates where nothing is there.\<close>

definition path_prefixes :: "gostr \<Rightarrow> gostr list" where
  "path_prefixes p = map (\<lambda>n. abs_path (take n (path_elems p))) [0..<Suc (length (path_elems p))]"

definition make_dirs :: "gostr list \<Rightarrow> files \<Rightarrow> files" where
  "make_dirs ps fs = fold (\<lambda>p g. if node_at g p = None then put_node p DirN g else g) ps fs"

definition os_MkdirAll :: "gostr \<Rightarrow> unit io" where
  "os_MkdirAll p d =
     (case next_event d of
        (Some n, d') \<Rightarrow> (Inl ErrIO, d'\<lparr>d_files := make_dirs (take n (path_prefixes p)) (d_files d')\<rparr>)
      | (None, d') \<Rightarrow>
          if list_all (\<lambda>q. node_at (d_files d') q \<in> {None, Some DirN}) (path_prefixes p)
          then (Inr (), d'\<lparr>d_files := make_dirs (path_prefixes p) (d_files d')\<rparr>)
          else (Inl ErrIO, d'))"

definition os_ReadFile :: "gostr \<Rightarrow> bytes io" where
  "os_ReadFile p = syscall (\<lambda>fs.
     case follow 40 fs p of
       Inl e \<Rightarrow> Inl e
     | Inr (FileN c) \<Rightarrow> Inr (c, fs)
     | Inr _ \<Rightarrow> Inl ErrIO)"

text \<open>\<^verbatim>\<open>OpenFile\<close> with \<^verbatim>\<open>O_CREATE|O_EXCL\<close>: an empty new file, an error when the name is taken.\<close>

definition os_CreateExcl :: "gostr \<Rightarrow> unit io" where
  "os_CreateExcl p = syscall (\<lambda>fs.
     if node_at fs p \<noteq> None then Inl ErrExist
     else if \<not> parent_is_dir fs p then Inl ErrNotExist
     else Inr ((), put_node p (FileN []) fs))"

text \<open>Filling a file that is open: a failure leaves the first bytes.\<close>

definition write_open :: "gostr \<Rightarrow> bytes \<Rightarrow> unit io" where
  "write_open p content d =
     (case next_event d of
        (Some n, d') \<Rightarrow> (Inl ErrIO, d'\<lparr>d_files := put_node p (FileN (take n content)) (d_files d')\<rparr>)
      | (None, d') \<Rightarrow> (Inr (), d'\<lparr>d_files := put_node p (FileN content) (d_files d')\<rparr>))"

definition os_WriteFile :: "gostr \<Rightarrow> bytes \<Rightarrow> unit io" where
  "os_WriteFile p content =
     io_seq (syscall (\<lambda>fs.
       case node_at fs p of
         Some (FileN _) \<Rightarrow> Inr ((), put_node p (FileN []) fs)
       | None \<Rightarrow> if parent_is_dir fs p then Inr ((), put_node p (FileN []) fs) else Inl ErrNotExist
       | Some _ \<Rightarrow> Inl ErrIO))
     (write_open p content)"

text \<open>\<^verbatim>\<open>renameat2\<close> with \<^verbatim>\<open>RENAME_NOREPLACE\<close>, and \<^verbatim>\<open>os.Link\<close>, of files.\<close>

definition no_replace :: "bool \<Rightarrow> gostr \<Rightarrow> gostr \<Rightarrow> files \<Rightarrow> (io_error, unit \<times> files) result" where
  "no_replace keep old new fs =
     (case node_at fs old of
        None \<Rightarrow> Inl ErrNotExist
      | Some DirN \<Rightarrow> Inl ErrIO
      | Some n \<Rightarrow>
          if node_at fs new \<noteq> None then Inl ErrExist
          else if \<not> parent_is_dir fs new then Inl ErrNotExist
          else Inr ((), put_node new n (if keep then fs else drop_node old fs)))"

definition unix_RenameNoReplace :: "gostr \<Rightarrow> gostr \<Rightarrow> unit io" where
  "unix_RenameNoReplace old new = syscall (no_replace False old new)"

definition os_Link :: "gostr \<Rightarrow> gostr \<Rightarrow> unit io" where
  "os_Link old new = syscall (no_replace True old new)"

section \<open>Media files\<close>

text \<open>
  \<open>rename_supported\<close> tells whether the file system knows \<^verbatim>\<open>RENAME_NOREPLACE\<close>; where it does not,
  the call fails with \<^verbatim>\<open>EINVAL\<close> and the code links and removes.
\<close>

definition linkMediaFile :: "gostr \<Rightarrow> gostr \<Rightarrow> unit io" where
  "linkMediaFile temporary final = io_seq (os_Link temporary final) (os_Remove temporary)"

definition renameMediaFile :: "bool \<Rightarrow> gostr \<Rightarrow> gostr \<Rightarrow> unit io" where
  "renameMediaFile rename_supported temporary final =
     (if rename_supported then unix_RenameNoReplace temporary final else linkMediaFile temporary final)"

definition commitTemporaryFile :: "bool \<Rightarrow> gostr \<Rightarrow> gostr \<Rightarrow> unit io" where
  "commitTemporaryFile rename_supported temporary final = renameMediaFile rename_supported temporary final"

definition remove_if_exists :: "gostr \<Rightarrow> unit io" where
  "remove_if_exists p = io_try (os_Remove p) (\<lambda>r.
     case r of Inl ErrNotExist \<Rightarrow> io_return () | Inl e \<Rightarrow> io_fail e | Inr _ \<Rightarrow> io_return ())"

definition copyMediaContent :: "gostr \<Rightarrow> bytes \<Rightarrow> unit io" where
  "copyMediaContent destination content = io_seq context_cause (io_seq (write_open destination content) context_cause)"

text \<open>\<^verbatim>\<open>copyFile\<close> removes what it wrote when it fails after creating the destination.\<close>

definition copyFile :: "gostr \<Rightarrow> gostr \<Rightarrow> unit io" where
  "copyFile source destination =
     io_seq context_cause
     (io_bind (os_ReadFile source) (\<lambda>content.
      io_seq (os_CreateExcl destination)
      (io_try (io_seq (copyMediaContent destination content)
                (io_seq (syscall (\<lambda>fs. Inr ((), fs))) (io_seq context_cause (syscall (\<lambda>fs. Inr ((), fs))))))
        (\<lambda>r. case r of
               Inr _ \<Rightarrow> io_return ()
             | Inl e \<Rightarrow> io_try (os_Remove destination) (\<lambda>_. io_fail e)))))"

definition fileIdentity :: "(bytes \<Rightarrow> bytes) \<Rightarrow> gostr \<Rightarrow> (int \<times> bytes) io" where
  "fileIdentity sha256 filePath =
     io_seq context_cause
     (io_bind (os_Stat filePath) (\<lambda>info.
        if (case info of FileN c \<Rightarrow> c = [] | _ \<Rightarrow> True)
        then io_fail (ErrMedia ''media output must be a non-empty regular file'')
        else io_bind (os_ReadFile filePath) (\<lambda>content.
             io_seq context_cause (io_return (int (length content), sha256 content)))))"

definition prepareOutputDirectory :: "mediaOutputPaths \<Rightarrow> unit io" where
  "prepareOutputDirectory paths = io_seq (os_MkdirAll (mo_Directory paths)) (remove_if_exists (mo_Temporary paths))"

section \<open>Relations that input and output keep\<close>

definition io_keeps :: "(files \<Rightarrow> files \<Rightarrow> bool) \<Rightarrow> 'a io \<Rightarrow> bool" where
  "io_keeps R m \<longleftrightarrow> (\<forall>d. R (d_files d) (d_files (snd (m d))))"

lemma next_event_files [simp]: "d_files (snd (next_event d)) = d_files d"
  by (simp add: next_event_def split: list.split)

lemma next_event_pair: "next_event d = (e, d') \<Longrightarrow> d_files d' = d_files d"
  by (metis next_event_files snd_conv)

locale io_relation =
  fixes R :: "files \<Rightarrow> files \<Rightarrow> bool"
  assumes R_refl: "R fs fs"
    and R_trans: "R fs gs \<Longrightarrow> R gs hs \<Longrightarrow> R fs hs"
begin

lemma keeps_return: "io_keeps R (io_return x)" and keeps_fail: "io_keeps R (io_fail e)"
  by (simp_all add: io_keeps_def io_return_def io_fail_def R_refl)

lemma keeps_bind: "io_keeps R m \<Longrightarrow> (\<And>x. io_keeps R (f x)) \<Longrightarrow> io_keeps R (io_bind m f)"
  unfolding io_keeps_def io_bind_def
  by (auto split: prod.split sum.split) (metis R_trans snd_conv)+

lemma keeps_seq: "io_keeps R m \<Longrightarrow> io_keeps R k \<Longrightarrow> io_keeps R (io_seq m k)"
  by (simp add: io_seq_def keeps_bind)

lemma keeps_try: "io_keeps R m \<Longrightarrow> (\<And>r. io_keeps R (f r)) \<Longrightarrow> io_keeps R (io_try m f)"
  unfolding io_keeps_def io_try_def by (auto split: prod.split) (metis R_trans snd_conv)

lemma keeps_defer: "io_keeps R c \<Longrightarrow> io_keeps R m \<Longrightarrow> io_keeps R (io_defer c m)"
  unfolding io_keeps_def io_defer_def by (auto split: prod.split) (metis R_trans snd_conv)

lemma keeps_each: "(\<And>x. x \<in> set xs \<Longrightarrow> io_keeps R (f x)) \<Longrightarrow> io_keeps R (io_each f xs)"
  by (induction xs) (simp_all add: keeps_return keeps_seq)

lemma keeps_cause: "io_keeps R context_cause"
  unfolding io_keeps_def context_cause_def
  by (auto split: prod.split option.split simp: R_refl dest: next_event_pair)

lemma keeps_syscall:
  "(\<And>fs x gs. f fs = Inr (x, gs) \<Longrightarrow> R fs gs) \<Longrightarrow> io_keeps R (syscall f)"
  unfolding io_keeps_def syscall_def
  by (auto split: prod.split option.split sum.split simp: R_refl dest: next_event_pair)

lemma keeps_write_open:
  "(\<And>fs c. R fs (put_node p (FileN c) fs)) \<Longrightarrow> io_keeps R (write_open p content)"
  unfolding io_keeps_def write_open_def
  by (auto split: prod.split option.split dest!: next_event_pair)

lemmas keeps = keeps_return keeps_fail keeps_bind keeps_seq keeps_try keeps_each keeps_cause

end

text \<open>Reading operations change nothing.\<close>

interpretation reads: io_relation "(=)"
  by unfold_locales auto

lemma reads_Lstat: "io_keeps (=) (os_Lstat p)"
  and reads_Stat: "io_keeps (=) (os_Stat p)"
  and reads_ReadFile: "io_keeps (=) (os_ReadFile p)"
  unfolding os_Lstat_def os_Stat_def os_ReadFile_def
  by (rule reads.keeps_syscall; force split: option.splits sum.splits node.splits simp: map_sum_def)+

lemma reads_identity: "io_keeps (=) (fileIdentity sha p)"
  unfolding fileIdentity_def by (intro reads.keeps reads_Stat) (auto intro!: reads.keeps reads_ReadFile split: if_split)

text \<open>Changes confined to a set of paths.\<close>

definition only_at :: "gostr set \<Rightarrow> files \<Rightarrow> files \<Rightarrow> bool" where
  "only_at P fs gs \<longleftrightarrow> (\<forall>p. p \<notin> P \<longrightarrow> node_at gs p = node_at fs p)"

interpretation only: io_relation "only_at P" for P
  by unfold_locales (auto simp: only_at_def)

lemma only_at_reads: "io_keeps (=) m \<Longrightarrow> io_keeps (only_at P) m"
  by (simp add: io_keeps_def only_at_def)

lemma only_at_mono: "io_keeps (only_at P) m \<Longrightarrow> P \<subseteq> Q \<Longrightarrow> io_keeps (only_at Q) m"
  by (auto simp: io_keeps_def only_at_def)

lemma only_Remove: "p \<in> P \<Longrightarrow> io_keeps (only_at P) (os_Remove p)"
  unfolding os_Remove_def
  by (rule only.keeps_syscall) (auto simp: only_at_def split: option.splits node.splits if_splits)

lemma only_CreateExcl: "p \<in> P \<Longrightarrow> io_keeps (only_at P) (os_CreateExcl p)"
  unfolding os_CreateExcl_def
  by (rule only.keeps_syscall) (auto simp: only_at_def split: if_splits)

lemma only_write_open: "p \<in> P \<Longrightarrow> io_keeps (only_at P) (write_open p c)"
  by (rule only.keeps_write_open) (auto simp: only_at_def)

lemma only_remove_if_exists: "p \<in> P \<Longrightarrow> io_keeps (only_at P) (remove_if_exists p)"
  unfolding remove_if_exists_def
  by (intro only.keeps only_Remove) (auto intro!: only.keeps split: sum.split io_error.split)

lemma only_copyFile: "t \<in> P \<Longrightarrow> io_keeps (only_at P) (copyFile s t)"
  unfolding copyFile_def copyMediaContent_def
  by (intro only.keeps only_at_reads [OF reads_ReadFile] only_CreateExcl only_write_open only.keeps_syscall)
    (auto intro!: only.keeps only_Remove simp: only_at_def split: sum.split)

section \<open>Pre- and postconditions\<close>

text \<open>
  \<open>io_holds P m Q E\<close>: started on files with \<open>P\<close>, \<open>m\<close> ends with \<open>Q\<close> of its value when it succeeds and
  with \<open>E\<close> when it fails, whatever the events are.
\<close>

definition io_holds :: "(files \<Rightarrow> bool) \<Rightarrow> 'a io \<Rightarrow> ('a \<Rightarrow> files \<Rightarrow> bool) \<Rightarrow> (files \<Rightarrow> bool) \<Rightarrow> bool" where
  "io_holds P m Q E \<longleftrightarrow>
     (\<forall>d. P (d_files d) \<longrightarrow>
        (\<forall>x d'. m d = (Inr x, d') \<longrightarrow> Q x (d_files d')) \<and> (\<forall>e d'. m d = (Inl e, d') \<longrightarrow> E (d_files d')))"

lemma holds_return: "(\<And>fs. P fs \<Longrightarrow> Q x fs) \<Longrightarrow> io_holds P (io_return x) Q E"
  and holds_fail: "(\<And>fs. P fs \<Longrightarrow> E fs) \<Longrightarrow> io_holds P (io_fail e) Q E"
  by (simp_all add: io_holds_def io_return_def io_fail_def)

lemma holds_bind:
  "io_holds P m Q E \<Longrightarrow> (\<And>x. io_holds (Q x) (f x) R E) \<Longrightarrow> io_holds P (io_bind m f) R E"
  unfolding io_holds_def io_bind_def
  by (fastforce split: prod.splits sum.splits)

lemma holds_seq: "io_holds P m (\<lambda>_. Q) E \<Longrightarrow> io_holds Q k R E \<Longrightarrow> io_holds P (io_seq m k) R E"
  unfolding io_seq_def by (rule holds_bind)

lemma holds_try:
  assumes m: "io_holds P m Q F"
    and ok: "\<And>x. io_holds (Q x) (f (Inr x)) R E" and err: "\<And>e. io_holds F (f (Inl e)) R E"
  shows "io_holds P (io_try m f) R E"
  unfolding io_holds_def
proof (intro allI impI)
  fix d :: disk
  assume "P (d_files d)"
  then show "(\<forall>x d'. io_try m f d = (Inr x, d') \<longrightarrow> R x (d_files d')) \<and>
      (\<forall>e d'. io_try m f d = (Inl e, d') \<longrightarrow> E (d_files d'))"
    using m ok err unfolding io_holds_def io_try_def by (cases "m d"; cases "fst (m d)") (simp, blast)+
qed

lemma holds_conseq:
  "io_holds P m Q E \<Longrightarrow> (\<And>fs. P' fs \<Longrightarrow> P fs) \<Longrightarrow> (\<And>x fs. Q x fs \<Longrightarrow> Q' x fs) \<Longrightarrow> (\<And>fs. E fs \<Longrightarrow> E' fs) \<Longrightarrow>
     io_holds P' m Q' E'"
  unfolding io_holds_def by blast

lemma holds_reads: "io_keeps (=) m \<Longrightarrow> io_holds P m (\<lambda>_. P) P"
  unfolding io_keeps_def io_holds_def by (metis snd_conv)

lemma holds_syscall:
  "(\<And>fs x gs. P fs \<Longrightarrow> f fs = Inr (x, gs) \<Longrightarrow> Q x gs) \<Longrightarrow> (\<And>fs. P fs \<Longrightarrow> E fs) \<Longrightarrow> io_holds P (syscall f) Q E"
  unfolding io_holds_def syscall_def
  by (auto split: prod.splits option.splits sum.splits dest!: next_event_pair)

text \<open>What is said of other paths than those an operation changes survives it.\<close>

lemma holds_frame:
  assumes "io_holds P m Q E" "io_keeps (only_at A) m" "\<And>fs gs. only_at A fs gs \<Longrightarrow> F fs \<Longrightarrow> F gs"
  shows "io_holds (\<lambda>fs. P fs \<and> F fs) m (\<lambda>x fs. Q x fs \<and> F fs) E"
  unfolding io_holds_def
proof (intro allI impI)
  fix d :: disk
  assume d: "P (d_files d) \<and> F (d_files d)"
  then have "F (d_files (snd (m d)))" using assms(2,3) unfolding io_keeps_def by blast
  then show "(\<forall>x d'. m d = (Inr x, d') \<longrightarrow> Q x (d_files d') \<and> F (d_files d')) \<and>
      (\<forall>e d'. m d = (Inl e, d') \<longrightarrow> E (d_files d'))"
    using assms(1) d unfolding io_holds_def by auto
qed

context io_relation
begin

lemma holds_keeps: "io_keeps R m \<Longrightarrow> io_holds (R fs) m (\<lambda>_. R fs) (R fs)"
  unfolding io_keeps_def io_holds_def by (metis R_trans snd_conv)

end

lemma holds_Lstat: "io_holds P (os_Lstat p) (\<lambda>n fs. P fs \<and> node_at fs p = Some n) P"
  unfolding os_Lstat_def by (rule holds_syscall) (auto split: option.splits)

lemma holds_Stat:
  "io_holds (\<lambda>fs. P fs \<and> node_at fs p = Some (FileN c)) (os_Stat p)
     (\<lambda>n fs. P fs \<and> node_at fs p = Some (FileN c) \<and> n = FileN c) P"
  unfolding os_Stat_def by (rule holds_syscall) (auto simp: numeral_eq_Suc)

lemma holds_ReadFile:
  "io_holds (\<lambda>fs. P fs \<and> node_at fs p = Some (FileN c)) (os_ReadFile p)
     (\<lambda>b fs. P fs \<and> node_at fs p = Some (FileN c) \<and> b = c) P"
  unfolding os_ReadFile_def by (rule holds_syscall) (auto simp: numeral_eq_Suc)

lemma holds_cause: "io_holds P context_cause (\<lambda>_. P) P"
  by (rule holds_reads) (rule reads.keeps)

lemma holds_identity:
  "io_holds (\<lambda>fs. P fs \<and> node_at fs p = Some (FileN c)) (fileIdentity sha p)
     (\<lambda>r fs. P fs \<and> node_at fs p = Some (FileN c) \<and> c \<noteq> [] \<and> r = (int (length c), sha c)) P"
proof -
  let ?N = "\<lambda>fs. P fs \<and> node_at fs p = Some (FileN c)"
  have c: "io_holds ?N context_cause (\<lambda>_. ?N) P"
    by (rule holds_conseq [OF holds_cause [of ?N]]) auto
  have body: "io_holds (\<lambda>fs. ?N fs \<and> n = FileN c) (if (case n of FileN c \<Rightarrow> c = [] | _ \<Rightarrow> True)
        then io_fail (ErrMedia ''media output must be a non-empty regular file'')
        else io_bind (os_ReadFile p) (\<lambda>content.
             io_seq context_cause (io_return (int (length content), sha content))))
      (\<lambda>r fs. ?N fs \<and> c \<noteq> [] \<and> r = (int (length c), sha c)) P" for n
  proof (cases "n = FileN c \<and> c \<noteq> []")
    case True
    have "io_holds (\<lambda>fs. ?N fs \<and> b = c) (io_seq context_cause (io_return (int (length b), sha b)))
        (\<lambda>r fs. ?N fs \<and> c \<noteq> [] \<and> r = (int (length c), sha c)) P" for b
      by (rule holds_seq [OF holds_conseq [OF holds_cause [of "\<lambda>fs. ?N fs \<and> b = c"]] holds_return]) (use True in auto)
    from holds_bind [OF holds_ReadFile [of P p c] this [simplified conj_assoc]] show ?thesis
      using True by (auto intro: holds_conseq)
  next
    case False
    then show ?thesis by (auto intro!: holds_fail) (auto simp: io_holds_def)
  qed
  show ?thesis
    unfolding fileIdentity_def
    by (rule holds_seq [OF c holds_bind [OF holds_Stat]]) (use body in \<open>simp add: conj_assoc\<close>)
qed

lemma holds_defer:
  assumes "io_holds P m Q E" "io_keeps (only_at A) c"
    "\<And>x fs gs. only_at A fs gs \<Longrightarrow> Q x fs \<Longrightarrow> Q x gs" "\<And>fs gs. only_at A fs gs \<Longrightarrow> E fs \<Longrightarrow> E gs"
  shows "io_holds P (io_defer c m) Q E"
  using assms unfolding io_holds_def io_defer_def io_keeps_def by (auto split: prod.splits) blast+

lemma holds_run:
  "io_holds P m Q E \<Longrightarrow> m d = (r, d') \<Longrightarrow> P (d_files d) \<Longrightarrow> case r of Inl _ \<Rightarrow> E (d_files d') | Inr x \<Rightarrow> Q x (d_files d')"
  unfolding io_holds_def by (cases r) auto

lemma path_prefixes_take:
  "propers es \<Longrightarrow> k \<le> length es \<Longrightarrow> abs_path (take k es) \<in> set (path_prefixes (abs_path es))"
  by (auto simp: path_prefixes_def simp del: upt_Suc)

end
