(* ===== verification/LifecycleStates.thy ===== *)
theory LifecycleStates
  imports Prelude
begin

text \<open>
  The lifecycle state machines of \<^verbatim>\<open>internal/domain/state.go\<close>: RSS entries, downloads, tasks,
  the two media branches of a task (video, subtitle) and cleanups. Each \<^verbatim>\<open>Validate...Transition\<close>
  looks the target up in the set of successors of the source state. The locale
  \<open>lifecycle\<close> is what the workflows rely on: a validator that accepts exactly the edges of a
  successor table. It is interpreted on all six validators.
\<close>

section \<open>States\<close>

datatype RSSState = RSSDiscovered | RSSEnqueueing | RSSEnqueued | RSSEnqueueFailed

datatype DownloadState =
    DownloadEnqueuePending | DownloadFileResolutionPending | DownloadDownloading
  | DownloadCompleted | DownloadSelectingFiles | DownloadMaterialized
  | DownloadFailed | DownloadCancelled

datatype TaskState =
    TaskMediaQueued | TaskProcessing | TaskFinalizing | TaskAwaitingReview | TaskApproved
  | TaskRejected | TaskImportQueued | TaskImporting | TaskImported | TaskFailed | TaskCancelled

datatype VideoState =
    VideoTranscodeQueued | VideoTranscoding | VideoReady | VideoFailed | VideoCancelled

datatype SubtitleState =
    SubtitleQueued | SubtitleExtractingConverting | SubtitleASSReady
  | SubtitleFailed | SubtitleCancelled

datatype CleanupState =
    CleanupQueued | CleanupRunning | CleanupCompleted | CleanupFailed | CleanupCancelled

text \<open>The string constants of the states, as they appear in errors and in the database.\<close>

fun rss_state_str :: "RSSState \<Rightarrow> string" where
  "rss_state_str RSSDiscovered = ''discovered''"
| "rss_state_str RSSEnqueueing = ''enqueueing''"
| "rss_state_str RSSEnqueued = ''enqueued''"
| "rss_state_str RSSEnqueueFailed = ''enqueue_failed''"

fun download_state_str :: "DownloadState \<Rightarrow> string" where
  "download_state_str DownloadEnqueuePending = ''enqueue_pending''"
| "download_state_str DownloadFileResolutionPending = ''file_resolution_pending''"
| "download_state_str DownloadDownloading = ''downloading''"
| "download_state_str DownloadCompleted = ''completed''"
| "download_state_str DownloadSelectingFiles = ''selecting_files''"
| "download_state_str DownloadMaterialized = ''materialized''"
| "download_state_str DownloadFailed = ''failed''"
| "download_state_str DownloadCancelled = ''cancelled''"

fun task_state_str :: "TaskState \<Rightarrow> string" where
  "task_state_str TaskMediaQueued = ''media_queued''"
| "task_state_str TaskProcessing = ''processing''"
| "task_state_str TaskFinalizing = ''finalizing''"
| "task_state_str TaskAwaitingReview = ''awaiting_review''"
| "task_state_str TaskApproved = ''approved''"
| "task_state_str TaskRejected = ''rejected''"
| "task_state_str TaskImportQueued = ''import_queued''"
| "task_state_str TaskImporting = ''importing''"
| "task_state_str TaskImported = ''imported''"
| "task_state_str TaskFailed = ''failed''"
| "task_state_str TaskCancelled = ''cancelled''"

fun video_state_str :: "VideoState \<Rightarrow> string" where
  "video_state_str VideoTranscodeQueued = ''transcode_queued''"
| "video_state_str VideoTranscoding = ''transcoding''"
| "video_state_str VideoReady = ''video_ready''"
| "video_state_str VideoFailed = ''failed''"
| "video_state_str VideoCancelled = ''cancelled''"

fun subtitle_state_str :: "SubtitleState \<Rightarrow> string" where
  "subtitle_state_str SubtitleQueued = ''subtitle_queued''"
| "subtitle_state_str SubtitleExtractingConverting = ''extracting_or_converting''"
| "subtitle_state_str SubtitleASSReady = ''ass_ready''"
| "subtitle_state_str SubtitleFailed = ''failed''"
| "subtitle_state_str SubtitleCancelled = ''cancelled''"

fun cleanup_state_str :: "CleanupState \<Rightarrow> string" where
  "cleanup_state_str CleanupQueued = ''queued''"
| "cleanup_state_str CleanupRunning = ''running''"
| "cleanup_state_str CleanupCompleted = ''completed''"
| "cleanup_state_str CleanupFailed = ''failed''"
| "cleanup_state_str CleanupCancelled = ''cancelled''"

section \<open>Validators\<close>

record TransitionError =
  te_machine :: string
  te_from :: string
  te_to :: string

text \<open>The result \<open>None\<close> is the nil error.\<close>

definition validateTransition ::
  "string \<Rightarrow> string \<Rightarrow> string \<Rightarrow> 's list \<Rightarrow> 's \<Rightarrow> TransitionError option" where
  "validateTransition machine from to allowed target =
     (if List.member allowed target then None
      else Some \<lparr>te_machine = machine, te_from = from, te_to = to\<rparr>)"

fun rss_successors :: "RSSState \<Rightarrow> RSSState list" where
  "rss_successors RSSDiscovered = [RSSEnqueueing]"
| "rss_successors RSSEnqueueing = [RSSEnqueued, RSSEnqueueFailed]"
| "rss_successors RSSEnqueueFailed = [RSSEnqueueing]"
| "rss_successors _ = []"

definition ValidateRSSTransition :: "RSSState \<Rightarrow> RSSState \<Rightarrow> TransitionError option" where
  "ValidateRSSTransition from to =
     validateTransition ''rss'' (rss_state_str from) (rss_state_str to) (rss_successors from) to"

fun download_successors :: "DownloadState \<Rightarrow> DownloadState list" where
  "download_successors DownloadEnqueuePending =
     [DownloadFileResolutionPending, DownloadDownloading, DownloadFailed, DownloadCancelled]"
| "download_successors DownloadFileResolutionPending =
     [DownloadDownloading, DownloadFailed, DownloadCancelled]"
| "download_successors DownloadDownloading = [DownloadCompleted, DownloadFailed, DownloadCancelled]"
| "download_successors DownloadCompleted =
     [DownloadSelectingFiles, DownloadFailed, DownloadCancelled]"
| "download_successors DownloadSelectingFiles =
     [DownloadMaterialized, DownloadFailed, DownloadCancelled]"
| "download_successors DownloadFailed = [DownloadCancelled]"
| "download_successors _ = []"

definition ValidateDownloadTransition ::
  "DownloadState \<Rightarrow> DownloadState \<Rightarrow> TransitionError option" where
  "ValidateDownloadTransition from to =
     validateTransition ''download'' (download_state_str from) (download_state_str to)
       (download_successors from) to"

fun task_successors :: "TaskState \<Rightarrow> TaskState list" where
  "task_successors TaskMediaQueued = [TaskProcessing, TaskFailed, TaskCancelled]"
| "task_successors TaskProcessing = [TaskFinalizing, TaskFailed, TaskCancelled]"
| "task_successors TaskFinalizing = [TaskAwaitingReview, TaskFailed, TaskCancelled]"
| "task_successors TaskAwaitingReview = [TaskApproved, TaskRejected, TaskFailed, TaskCancelled]"
| "task_successors TaskApproved = [TaskImportQueued, TaskFailed, TaskCancelled]"
| "task_successors TaskImportQueued = [TaskImporting, TaskFailed, TaskCancelled]"
| "task_successors TaskImporting = [TaskImported, TaskFailed, TaskCancelled]"
| "task_successors TaskFailed = [TaskProcessing, TaskImportQueued, TaskCancelled]"
| "task_successors _ = []"

definition ValidateTaskTransition :: "TaskState \<Rightarrow> TaskState \<Rightarrow> TransitionError option" where
  "ValidateTaskTransition from to =
     validateTransition ''task'' (task_state_str from) (task_state_str to) (task_successors from) to"

fun video_successors :: "VideoState \<Rightarrow> VideoState list" where
  "video_successors VideoTranscodeQueued = [VideoTranscoding, VideoFailed, VideoCancelled]"
| "video_successors VideoTranscoding = [VideoReady, VideoFailed, VideoCancelled]"
| "video_successors VideoFailed = [VideoTranscodeQueued]"
| "video_successors _ = []"

definition ValidateVideoTransition :: "VideoState \<Rightarrow> VideoState \<Rightarrow> TransitionError option" where
  "ValidateVideoTransition from to =
     validateTransition ''video'' (video_state_str from) (video_state_str to)
       (video_successors from) to"

fun subtitle_successors :: "SubtitleState \<Rightarrow> SubtitleState list" where
  "subtitle_successors SubtitleQueued =
     [SubtitleExtractingConverting, SubtitleFailed, SubtitleCancelled]"
| "subtitle_successors SubtitleExtractingConverting =
     [SubtitleASSReady, SubtitleFailed, SubtitleCancelled]"
| "subtitle_successors SubtitleFailed = [SubtitleQueued]"
| "subtitle_successors _ = []"

definition ValidateSubtitleTransition ::
  "SubtitleState \<Rightarrow> SubtitleState \<Rightarrow> TransitionError option" where
  "ValidateSubtitleTransition from to =
     validateTransition ''subtitle'' (subtitle_state_str from) (subtitle_state_str to)
       (subtitle_successors from) to"

fun cleanup_successors :: "CleanupState \<Rightarrow> CleanupState list" where
  "cleanup_successors CleanupQueued = [CleanupRunning, CleanupFailed, CleanupCancelled]"
| "cleanup_successors CleanupRunning = [CleanupCompleted, CleanupFailed, CleanupCancelled]"
| "cleanup_successors _ = []"

definition ValidateCleanupTransition ::
  "CleanupState \<Rightarrow> CleanupState \<Rightarrow> TransitionError option" where
  "ValidateCleanupTransition from to =
     validateTransition ''cleanup'' (cleanup_state_str from) (cleanup_state_str to)
       (cleanup_successors from) to"

definition ReadyToFinalize :: "TaskState \<Rightarrow> VideoState \<Rightarrow> SubtitleState \<Rightarrow> bool" where
  "ReadyToFinalize task video subtitle =
     (task = TaskProcessing \<and> video = VideoReady \<and> subtitle = SubtitleASSReady)"

section \<open>The contract of a validator\<close>

text \<open>
  A run is a non-empty list of states in which every consecutive pair is accepted by the
  validator; this is how a record evolves when every change is guarded by it.
\<close>

fun valid_run :: "('s \<Rightarrow> 's \<Rightarrow> TransitionError option) \<Rightarrow> 's list \<Rightarrow> bool" where
  "valid_run validate [] = False"
| "valid_run validate [s] = True"
| "valid_run validate (s # t # ss) = (validate s t = None \<and> valid_run validate (t # ss))"

locale lifecycle =
  fixes validate :: "'s \<Rightarrow> 's \<Rightarrow> TransitionError option"
    and successors :: "'s \<Rightarrow> 's list"
  assumes accepts_iff: "validate s t = None \<longleftrightarrow> t \<in> set (successors s)"
begin

lemma run_append:
  "valid_run validate (xs @ s # t # ys) \<longleftrightarrow>
     valid_run validate (xs @ [s]) \<and> t \<in> set (successors s) \<and> valid_run validate (t # ys)"
proof (induction xs)
  case Nil
  then show ?case by (simp add: accepts_iff)
next
  case (Cons x xs)
  then show ?case by (cases xs) (auto simp: accepts_iff)
qed

lemma terminal_run: "successors s = [] \<Longrightarrow> valid_run validate (s # ss) \<Longrightarrow> ss = []"
  by (cases ss) (auto simp: accepts_iff)

text \<open>A state that is not the first one of a run is entered from one of its predecessors.\<close>

lemma run_last_pred:
  assumes "valid_run validate (s # ss)" "ss \<noteq> []"
  shows "\<exists>xs p. s # ss = xs @ [p, last ss] \<and> last ss \<in> set (successors p)"
proof -
  obtain ys t where ss: "ss = ys @ [t]" using assms(2) by (metis rev_exhaust)
  obtain zs p where p: "s # ys = zs @ [p]" by (metis list.distinct(1) rev_exhaust)
  have "s # ss = zs @ [p, t]" using ss p by simp
  with assms(1) have "t \<in> set (successors p)"
    using run_append [of zs p t "[]"] by simp
  with ss p show ?thesis by force
qed

lemma run_prefix: "valid_run validate (xs @ [p, t]) \<Longrightarrow> valid_run validate (xs @ [p])"
  using run_append [of xs p t "[]"] by simp

end

lemma validateTransition_None [simp]:
  "validateTransition m f t allowed x = None \<longleftrightarrow> x \<in> set allowed"
  by (simp add: validateTransition_def)

interpretation rss_machine: lifecycle ValidateRSSTransition rss_successors
  by unfold_locales (simp add: ValidateRSSTransition_def)

interpretation download_machine: lifecycle ValidateDownloadTransition download_successors
  by unfold_locales (simp add: ValidateDownloadTransition_def)

interpretation task_machine: lifecycle ValidateTaskTransition task_successors
  by unfold_locales (simp add: ValidateTaskTransition_def)

interpretation video_machine: lifecycle ValidateVideoTransition video_successors
  by unfold_locales (simp add: ValidateVideoTransition_def)

interpretation subtitle_machine: lifecycle ValidateSubtitleTransition subtitle_successors
  by unfold_locales (simp add: ValidateSubtitleTransition_def)

interpretation cleanup_machine: lifecycle ValidateCleanupTransition cleanup_successors
  by unfold_locales (simp add: ValidateCleanupTransition_def)

lemma task_pred_imported: "TaskImported \<in> set (task_successors s) \<longleftrightarrow> s = TaskImporting"
  by (cases s) auto

lemma task_pred_importing: "TaskImporting \<in> set (task_successors s) \<longleftrightarrow> s = TaskImportQueued"
  by (cases s) auto

lemma task_pred_approved: "TaskApproved \<in> set (task_successors s) \<longleftrightarrow> s = TaskAwaitingReview"
  by (cases s) auto

lemma task_pred_import_queued:
  "TaskImportQueued \<in> set (task_successors s) \<longleftrightarrow> s = TaskApproved \<or> s = TaskFailed"
  by (cases s) auto

lemma task_pred_awaiting_review:
  "TaskAwaitingReview \<in> set (task_successors s) \<longleftrightarrow> s = TaskFinalizing"
  by (cases s) auto

lemma task_terminal_iff:
  "task_successors s = [] \<longleftrightarrow> s \<in> {TaskRejected, TaskImported, TaskCancelled}"
  by (cases s) auto

lemma task_run_last_three:
  assumes "valid_run ValidateTaskTransition (TaskMediaQueued # ss)"
    and "last (TaskMediaQueued # ss) = TaskImported"
  shows "\<exists>xs. TaskMediaQueued # ss = xs @ [TaskImportQueued, TaskImporting, TaskImported]"
proof -
  have "ss \<noteq> []" using assms(2) by auto
  then obtain xs p where xs: "TaskMediaQueued # ss = xs @ [p, TaskImported]"
    and "TaskImported \<in> set (task_successors p)"
    using task_machine.run_last_pred [OF assms(1)] assms(2) by auto
  then have p: "p = TaskImporting" by (simp add: task_pred_imported)
  have run: "valid_run ValidateTaskTransition (xs @ [TaskImporting])"
    using assms(1) task_machine.run_prefix [of xs p TaskImported] by (simp add: xs p)
  obtain ys where ys: "xs = TaskMediaQueued # ys"
    using xs p by (cases xs) auto
  from run ys obtain zs q where "xs @ [TaskImporting] = zs @ [q, TaskImporting]"
    and "TaskImporting \<in> set (task_successors q)"
    using task_machine.run_last_pred [of TaskMediaQueued "ys @ [TaskImporting]"] by auto
  then show ?thesis using xs p by (auto simp: task_pred_importing)
qed

section \<open>Properties\<close>

text \<open>
  C11: a task whose state changes are all accepted by \<open>ValidateTaskTransition\<close> reaches
  \<open>TaskImported\<close> only through \<open>TaskImportQueued\<close> and then \<open>TaskImporting\<close>, and once it is
  rejected, imported or cancelled nothing more is accepted: those are exactly the terminal states.
\<close>

theorem task_import_path:
  "(valid_run ValidateTaskTransition (TaskMediaQueued # ss) \<and>
      last (TaskMediaQueued # ss) = TaskImported \<longrightarrow>
      (\<exists>xs. TaskMediaQueued # ss = xs @ [TaskImportQueued, TaskImporting, TaskImported]))
   \<and> ((\<forall>t. ValidateTaskTransition s t \<noteq> None) \<longleftrightarrow>
        s \<in> {TaskRejected, TaskImported, TaskCancelled})"
proof (rule conjI)
  show "valid_run ValidateTaskTransition (TaskMediaQueued # ss) \<and>
      last (TaskMediaQueued # ss) = TaskImported \<longrightarrow>
      (\<exists>xs. TaskMediaQueued # ss = xs @ [TaskImportQueued, TaskImporting, TaskImported])"
    using task_run_last_three by blast
  have "(\<forall>t. ValidateTaskTransition s t \<noteq> None) \<longleftrightarrow> task_successors s = []"
    by (cases "task_successors s") (auto simp: task_machine.accepts_iff)
  then show "(\<forall>t. ValidateTaskTransition s t \<noteq> None) \<longleftrightarrow>
        s \<in> {TaskRejected, TaskImported, TaskCancelled}"
    by (simp add: task_terminal_iff)
qed

theorem task_import_path_witness:
  "\<exists>xs. [TaskMediaQueued, TaskProcessing, TaskFinalizing, TaskAwaitingReview, TaskApproved,
        TaskImportQueued, TaskImporting, TaskImported] =
      xs @ [TaskImportQueued, TaskImporting, TaskImported]"
  using task_import_path [of "[TaskProcessing, TaskFinalizing, TaskAwaitingReview, TaskApproved,
      TaskImportQueued, TaskImporting, TaskImported]" TaskImported]
  by (simp add: task_machine.accepts_iff)

end
