(* ===== verification/Store.thy ===== *)
theory Store
  imports MediaNaming LifecycleStates
begin

text \<open>
  The PostgreSQL store and its transactions. A table is the list of its rows in insertion order,
  which is also the order of \<^verbatim>\<open>created_at\<close>; rows carry the columns the modelled code reads or
  writes (bookkeeping columns such as \<^verbatim>\<open>updated_at\<close> and the projections that the read models keep
  are left out). A transaction body is a function from the store to an error or to a result with
  the changed store, so a body that fails leaves nothing behind, which is what
  \<^verbatim>\<open>Transactor.WithinTx\<close> (\<^verbatim>\<open>internal/platform/database/transaction.go\<close>) promises. Statements are
  serial: the row locks the code takes (\<^verbatim>\<open>FOR UPDATE\<close>) make the bodies that touch the same rows
  serialisable, and interleaving is therefore modelled as arbitrary sequences of whole bodies.

  Third-party services are parameters, collected in the record \<open>env\<close>: \<^verbatim>\<open>uuid.New\<close>,
  \<^verbatim>\<open>uuid.NewSHA1\<close>, \<^verbatim>\<open>UUID.String\<close>, SHA-256 in hexadecimal and River's \<^verbatim>\<open>InsertTx\<close>.
\<close>

section \<open>Values\<close>

datatype jval =
    JStr gostr | JNum int | JBool bool | JUuid uuid | JBytes "nat list"
  | JList "jval list" | JObj "(string \<times> jval) list"

text \<open>A JSON object; the marshalled form is compared only through its values.\<close>

type_synonym payload = "(string \<times> jval) list"

definition jsonValuesEqual :: "payload \<Rightarrow> payload \<Rightarrow> bool" where
  "jsonValuesEqual l r = list_all (\<lambda>k. map_of l k = map_of r k) (map fst l @ map fst r)"

lemma jsonValuesEqual_iff: "jsonValuesEqual l r \<longleftrightarrow> map_of l = map_of r"
proof
  assume e: "jsonValuesEqual l r"
  show "map_of l = map_of r"
  proof
    fix k
    show "map_of l k = map_of r k"
    proof (cases "k \<in> fst ` set l \<or> k \<in> fst ` set r")
      case True
      then show ?thesis using e by (auto simp: jsonValuesEqual_def list_all_iff)
    next
      case False
      then show ?thesis by (metis map_of_eq_None_iff)
    qed
  qed
qed (simp add: jsonValuesEqual_def list_all_iff)

datatype err_sentinel = ErrStateConflict | ErrInvalidInput

datatype svc_error =
    ErrNotFound
  | ErrOperationNotRunnable
  | ServiceError string string err_sentinel payload
  | WorkflowError string string bool
  | OtherError string

definition NewError :: "string \<Rightarrow> string \<Rightarrow> err_sentinel \<Rightarrow> payload \<Rightarrow> svc_error" where
  "NewError code message cause details = ServiceError code message cause details"

definition mediaWorkflowError :: "string \<Rightarrow> string \<Rightarrow> bool \<Rightarrow> svc_error" where
  "mediaWorkflowError code message retryable = WorkflowError code message retryable"

section \<open>Rows\<close>

datatype OperationStatus = OpQueued | OpRunning | OpSucceeded | OpFailed | OpCancelled

record Operation =
  op_id :: uuid
  op_kind :: string
  op_resource_type :: "string option"
  op_resource_id :: "uuid option"
  op_key :: gostr
  op_status :: OperationStatus
  op_river_job :: "int option"
  op_max_attempts :: int
  op_attempt_count :: int
  op_timeout_seconds :: int
  op_cancel_requested_at :: "nat option"
  op_heartbeat_at :: "nat option"
  op_error_code :: "gostr option"
  op_error_message :: "gostr option"
  op_payload :: payload
  op_started_at :: "nat option"
  op_finished_at :: "nat option"

datatype AttemptStatus = AtRunning | AtSucceeded | AtFailed | AtCancelled

record OperationAttempt =
  at_id :: uuid
  at_operation_id :: uuid
  at_attempt :: int
  at_status :: AttemptStatus
  at_worker_id :: "gostr option"
  at_error_code :: "gostr option"
  at_error_message :: "gostr option"
  at_heartbeat_at :: "nat option"
  at_finished_at :: "nat option"

record Event =
  ev_id :: uuid
  ev_topic :: string
  ev_resource_type :: "string option"
  ev_resource_id :: "uuid option"
  ev_operation_id :: "uuid option"
  ev_actor_user_id :: "uuid option"
  ev_data :: payload

record RiverJob =
  rj_id :: int
  rj_kind :: string
  rj_operation_id :: uuid
  rj_timeout_seconds :: int
  rj_max_attempts :: int
  rj_queue :: string

datatype TaskMediaType = TaskMediaEpisode | TaskMediaMovie

record EpisodeTask =
  tk_id :: uuid
  tk_acquisition_id :: uuid
  tk_source_video_file_id :: uuid
  tk_mapping_id :: "uuid option"
  tk_transcode_profile_id :: uuid
  tk_state :: TaskState
  tk_video_state :: VideoState
  tk_subtitle_state :: SubtitleState
  tk_version :: int
  tk_error_code :: "gostr option"
  tk_error_message :: "gostr option"
  tk_failure_stage :: "string option"
  tk_media_type :: TaskMediaType

record MediaArtifact =
  ar_id :: uuid
  ar_task_id :: uuid
  ar_source_file_id :: "uuid option"
  ar_transcode_profile_id :: "uuid option"
  ar_kind :: MediaKind
  ar_basename :: gostr
  ar_file_path :: gostr
  ar_format :: gostr
  ar_size_bytes :: int
  ar_checksum :: "nat list"

record ArtifactSet =
  as_id :: uuid
  as_task_id :: uuid
  as_transcode_profile_id :: uuid
  as_basename :: gostr
  as_video_artifact_id :: uuid
  as_subtitle_artifact_id :: uuid

record Review =
  rv_id :: uuid
  rv_task_id :: uuid
  rv_decision :: TaskState
  rv_notes :: gostr
  rv_reviewed_by :: "uuid option"
  rv_key :: gostr
  rv_expected_task_version :: int

datatype ImportStatus = ImQueued | ImRunning | ImSucceeded | ImFailed | ImCancelled

record Import =
  im_id :: uuid
  im_task_id :: uuid
  im_attempt :: int
  im_status :: ImportStatus
  im_video_path :: "gostr option"
  im_subtitle_path :: "gostr option"
  im_error_code :: "gostr option"
  im_error_message :: "gostr option"
  im_started_at :: "nat option"
  im_completed_at :: "nat option"

record CleanupRun =
  cl_id :: uuid
  cl_task_id :: uuid
  cl_download_id :: uuid
  cl_attempt :: int
  cl_status :: CleanupState
  cl_torrent_removed :: bool
  cl_staged_files_removed :: bool
  cl_error_code :: "gostr option"
  cl_error_message :: "gostr option"
  cl_started_at :: "nat option"
  cl_completed_at :: "nat option"

record Download =
  dl_id :: uuid
  dl_acquisition_id :: uuid
  dl_attempt :: int
  dl_torrent_hash :: "gostr option"
  dl_status :: DownloadState
  dl_save_path :: "gostr option"
  dl_error_code :: "gostr option"
  dl_error_message :: "gostr option"
  dl_version :: int
  dl_failure_stage :: "string option"
  dl_deleted_at :: "nat option"

record DownloadFile =
  df_id :: uuid
  df_download_id :: uuid
  df_file_index :: int
  df_relative_path :: gostr
  df_media_kind :: MediaKind
  df_selected :: bool
  df_source_season :: "int option"
  df_source_episode :: "int option"
  df_source_fraction :: int
  df_language :: "gostr option"

record Acquisition =
  aq_id :: uuid
  aq_series_id :: uuid
  aq_mapping_profile_id :: "uuid option"
  aq_rss_entry_id :: "uuid option"
  aq_source_payload :: payload
  aq_deletion_requested_at :: "nat option"

record MediaSeries =
  ms_id :: uuid
  ms_title :: gostr
  ms_tmdb_series_id :: "int option"
  ms_media_type :: string
  ms_tmdb_movie_id :: "int option"
  ms_release_year :: "int option"
  ms_status :: "gostr option"

record MediaEpisode =
  me_id :: uuid
  me_series_id :: uuid
  me_tmdb_episode_id :: "int option"
  me_season_number :: int
  me_episode_number :: int
  me_title :: gostr

record EpisodeMappingRow =
  em_id :: uuid
  em_profile_id :: uuid
  em_source_season :: int
  em_source_episode :: int
  em_source_fraction :: int
  em_mapped :: bool
  em_error_code :: "string option"
  em_target_episode_id :: "uuid option"

record RssEntry =
  re_id :: uuid
  re_subscription_id :: uuid
  re_status :: RSSState
  re_source_season :: "int option"
  re_source_episode :: "int option"
  re_source_fraction :: int
  re_last_error_code :: "gostr option"
  re_last_error_message :: "gostr option"
  re_last_error_retryable :: bool
  re_imported_at :: "nat option"

record RssSubscription =
  rs_id :: uuid
  rs_series_id :: uuid
  rs_mapping_profile_id :: "uuid option"
  rs_source_season :: int
  rs_enabled :: bool
  rs_auto_review :: bool
  rs_version :: int
  rs_completed_at :: "nat option"
  rs_deleted_at :: "nat option"
  rs_cleanup_source_on_completion :: bool

record EpisodeMappingProfile =
  mp_id :: uuid
  mp_source_season_lengths :: "int list"
  mp_anchor_source_season :: "int option"

datatype FulfillmentSource = ManagedImport | EmbyCatalog

record RssTargetFulfillment =
  ft_rss_entry_id :: uuid
  ft_target_episode_id :: uuid
  ft_source :: FulfillmentSource
  ft_task_id :: "uuid option"
  ft_verified_at :: nat
  ft_invalidated_at :: "nat option"

record EmbyLibraryItem =
  ei_id :: uuid
  ei_emby_id :: gostr
  ei_parent_emby_id :: "gostr option"
  ei_item_type :: string
  ei_file_path :: "gostr option"
  ei_provider_ids :: "(gostr \<times> gostr) list"
  ei_season_number :: "int option"
  ei_episode_number :: "int option"
  ei_present :: bool

record TranscodeProfileRow =
  tp_id :: uuid
  tp_name :: gostr
  tp_active :: bool
  tp_is_default :: bool
  tp_video_codec :: gostr
  tp_encoder :: gostr
  tp_container :: gostr
  tp_file_extension :: gostr
  tp_quality_mode :: gostr
  tp_quality_thousandths :: int
  tp_audio_policy :: gostr
  tp_audio_codec :: "gostr option"
  tp_preset :: gostr
  tp_pixel_format :: gostr
  tp_thread_count :: int
  tp_max_concurrency :: int

text \<open>Rows of \<^verbatim>\<open>rss_subtitle_groups\<close>.\<close>

record RssSubtitleGroup =
  sg_id :: uuid
  sg_name :: gostr
  sg_normalized_name :: gostr

datatype RunStatus = RunQueued | RunRunning | RunProposed | RunCompleted | RunFailed | RunCancelled

text \<open>The rows of \<^verbatim>\<open>search_runs\<close>, \<^verbatim>\<open>agent_resolutions\<close> and \<^verbatim>\<open>emby_scan_runs\<close> as the lifecycle sees them.\<close>

record ResourceRun =
  rr_id :: uuid
  rr_status :: RunStatus
  rr_error_code :: "gostr option"
  rr_error_message :: "gostr option"
  rr_completed_at :: "nat option"
  rr_version :: int
  rr_capability :: gostr

record db =
  clock :: nat
  uuid_calls :: nat
  operations :: "Operation list"
  op_attempts :: "OperationAttempt list"
  events :: "Event list"
  river_jobs :: "RiverJob list"
  tasks :: "EpisodeTask list"
  artifacts :: "MediaArtifact list"
  artifact_sets :: "ArtifactSet list"
  reviews :: "Review list"
  imports_tab :: "Import list"
  cleanups :: "CleanupRun list"
  downloads :: "Download list"
  download_files :: "DownloadFile list"
  acquisitions :: "Acquisition list"
  series_tab :: "MediaSeries list"
  episodes :: "MediaEpisode list"
  mappings :: "EpisodeMappingRow list"
  rss_entries :: "RssEntry list"
  rss_subscriptions :: "RssSubscription list"
  search_runs :: "ResourceRun list"
  agent_resolutions :: "ResourceRun list"
  emby_scans :: "ResourceRun list"
  mapping_profiles :: "EpisodeMappingProfile list"
  fulfillments :: "RssTargetFulfillment list"
  transcode_profiles :: "TranscodeProfileRow list"
  emby_items :: "EmbyLibraryItem list"
  subtitle_groups :: "RssSubtitleGroup list"

definition empty_db :: db where
  "empty_db = \<lparr>clock = 0, uuid_calls = 0, operations = [], op_attempts = [], events = [], river_jobs = [],
     tasks = [], artifacts = [], artifact_sets = [], reviews = [], imports_tab = [], cleanups = [],
     downloads = [], download_files = [], acquisitions = [], series_tab = [], episodes = [],
     mappings = [], rss_entries = [], rss_subscriptions = [], search_runs = [],
     agent_resolutions = [], emby_scans = [], mapping_profiles = [], fulfillments = [], transcode_profiles = [], emby_items = [],
     subtitle_groups = []\<rparr>"

section \<open>Transactions\<close>

type_synonym 'a tx = "db \<Rightarrow> (svc_error, 'a \<times> db) result"

definition tx_return :: "'a \<Rightarrow> 'a tx" where
  "tx_return x db = Inr (x, db)"

definition tx_fail :: "svc_error \<Rightarrow> 'a tx" where
  "tx_fail e db = Inl e"

definition tx_bind :: "'a tx \<Rightarrow> ('a \<Rightarrow> 'b tx) \<Rightarrow> 'b tx" where
  "tx_bind m f db = (case m db of Inl e \<Rightarrow> Inl e | Inr (x, db') \<Rightarrow> f x db')"

definition tx_seq :: "'a tx \<Rightarrow> 'b tx \<Rightarrow> 'b tx" where
  "tx_seq m k = tx_bind m (\<lambda>_. k)"

definition tx_read :: "(db \<Rightarrow> 'a) \<Rightarrow> 'a tx" where
  "tx_read f db = Inr (f db, db)"

definition tx_modify :: "(db \<Rightarrow> db) \<Rightarrow> unit tx" where
  "tx_modify f db = Inr ((), f db)"

fun tx_each :: "('a \<Rightarrow> unit tx) \<Rightarrow> 'a list \<Rightarrow> unit tx" where
  "tx_each f [] = tx_return ()"
| "tx_each f (x # xs) = tx_seq (f x) (tx_each f xs)"

text \<open>The errors of a body, wrapped.\<close>

definition tx_map_error :: "(svc_error \<Rightarrow> svc_error) \<Rightarrow> 'a tx \<Rightarrow> 'a tx" where
  "tx_map_error f m db = (case m db of Inl e \<Rightarrow> Inl (f e) | Inr r \<Rightarrow> Inr r)"

text \<open>A committed body replaces the store, a failed one leaves it as it was.\<close>

definition WithinTx :: "'a tx \<Rightarrow> db \<Rightarrow> (svc_error, 'a) result \<times> db" where
  "WithinTx body db = (case body db of Inl e \<Rightarrow> (Inl e, db) | Inr (x, db') \<Rightarrow> (Inr x, db'))"

lemma tx_apply [simp, tx_simps]:
  "tx_return x db = Inr (x, db)"
  "tx_fail e db = Inl e"
  "tx_read f db = Inr (f db, db)"
  "tx_modify g db = Inr ((), g db)"
  by (simp_all add: tx_return_def tx_fail_def tx_read_def tx_modify_def)

lemma tx_bind_Inr [simp, tx_simps]: "m db = Inr (x, db') \<Longrightarrow> tx_bind m f db = f x db'"
  by (simp add: tx_bind_def)

lemma tx_bind_Inl [simp, tx_simps]: "m db = Inl e \<Longrightarrow> tx_bind m f db = Inl e"
  by (simp add: tx_bind_def)

lemma tx_bind_eq_Inr_iff:
  "tx_bind m f db = Inr r \<longleftrightarrow> (\<exists>x db'. m db = Inr (x, db') \<and> f x db' = Inr r)"
  by (auto simp: tx_bind_def split: sum.splits)

lemma tx_seq_eq_Inr_iff:
  "tx_seq m k db = Inr r \<longleftrightarrow> (\<exists>x db'. m db = Inr (x, db') \<and> k db' = Inr r)"
  by (auto simp: tx_seq_def tx_bind_eq_Inr_iff)

lemma tx_seq_Inr [simp, tx_simps]: "m db = Inr (x, db') \<Longrightarrow> tx_seq m k db = k db'"
  by (simp add: tx_seq_def)

lemma tx_seq_Inl [simp, tx_simps]: "m db = Inl e \<Longrightarrow> tx_seq m k db = Inl e"
  by (simp add: tx_seq_def)

lemma WithinTx_failed: "fst (WithinTx body db) = Inl e \<Longrightarrow> snd (WithinTx body db) = db"
  by (auto simp: WithinTx_def split: sum.splits)

lemma WithinTx_committed:
  "WithinTx body db = (Inr x, db') \<longleftrightarrow> body db = Inr (x, db')"
  by (auto simp: WithinTx_def split: sum.splits)

section \<open>Statements\<close>

text \<open>\<^verbatim>\<open>SELECT ... WHERE\<close> of at most one row; \<open>None\<close> is \<^verbatim>\<open>pgx.ErrNoRows\<close>.\<close>

definition select_one :: "(db \<Rightarrow> 'r list) \<Rightarrow> ('r \<Rightarrow> bool) \<Rightarrow> 'r option tx" where
  "select_one get p = tx_read (\<lambda>db. List.find p (get db))"

text \<open>
  \<^verbatim>\<open>UPDATE ... WHERE ... RETURNING *\<close>, for a condition that fixes the primary key; the new row may
  depend on the time of the transaction.
\<close>

definition update_one ::
  "(db \<Rightarrow> 'r list) \<Rightarrow> (('r list \<Rightarrow> 'r list) \<Rightarrow> db \<Rightarrow> db) \<Rightarrow> ('r \<Rightarrow> bool) \<Rightarrow> (nat \<Rightarrow> 'r \<Rightarrow> 'r) \<Rightarrow> 'r option tx" where
  "update_one get upd p f db =
     (case List.find p (get db) of
        None \<Rightarrow> Inr (None, db)
      | Some r \<Rightarrow> Inr (Some (f (clock db) r), upd (upd_row p (f (clock db))) db))"

text \<open>\<^verbatim>\<open>UPDATE ... WHERE\<close> that reports the number of rows changed.\<close>

definition update_rows ::
  "(db \<Rightarrow> 'r list) \<Rightarrow> (('r list \<Rightarrow> 'r list) \<Rightarrow> db \<Rightarrow> db) \<Rightarrow> ('r \<Rightarrow> bool) \<Rightarrow> (nat \<Rightarrow> 'r \<Rightarrow> 'r) \<Rightarrow> nat tx" where
  "update_rows get upd p f db =
     Inr (length (filter p (get db)), upd (upd_row p (f (clock db))) db)"

text \<open>\<^verbatim>\<open>INSERT\<close>: a row that collides with a unique key makes the statement fail.\<close>

definition insert_row ::
  "string \<Rightarrow> (db \<Rightarrow> 'r list) \<Rightarrow> (('r list \<Rightarrow> 'r list) \<Rightarrow> db \<Rightarrow> db) \<Rightarrow> ('r \<Rightarrow> bool) \<Rightarrow> 'r \<Rightarrow> 'r tx" where
  "insert_row what get upd clash r db =
     (if list_ex clash (get db) then Inl (OtherError what)
      else Inr (r, upd (\<lambda>rs. rs @ [r]) db))"

lemma update_one_Some_iff:
  "update_one get upd p f db = Inr (Some q, db') \<longleftrightarrow>
     (\<exists>r. List.find p (get db) = Some r \<and> q = f (clock db) r \<and> db' = upd (upd_row p (f (clock db))) db)"
  by (auto simp: update_one_def split: option.splits)

lemma update_one_None_iff:
  "update_one get upd p f db = Inr (None, db') \<longleftrightarrow> (\<forall>r \<in> set (get db). \<not> p r) \<and> db' = db"
  by (auto simp: update_one_def find_eq_None_iff dest: find_eq_SomeD split: option.splits)

lemma update_one_Inr_iff:
  "update_one get upd p f db = Inr (x, db') \<longleftrightarrow>
     (x = None \<and> (\<forall>r \<in> set (get db). \<not> p r) \<and> db' = db) \<or>
     (\<exists>r. List.find p (get db) = Some r \<and> x = Some (f (clock db) r) \<and> db' = upd (upd_row p (f (clock db))) db)"
  by (cases x) (auto simp: update_one_Some_iff update_one_None_iff)

lemma update_one_not_Inl [simp]: "update_one get upd p f db \<noteq> Inl e"
  by (simp add: update_one_def split: option.splits)

lemma insert_row_Inr_iff:
  "insert_row what get upd clash r db = Inr (x, db') \<longleftrightarrow>
     (\<forall>q \<in> set (get db). \<not> clash q) \<and> x = r \<and> db' = upd (\<lambda>rs. rs @ [r]) db"
  by (auto simp: insert_row_def list_ex_iff)

section \<open>Relations kept by a body\<close>

text \<open>
  \<open>maintains R m\<close>: every successful run of the body \<open>m\<close> relates the stores before and after by \<open>R\<close>.
  For a reflexive and transitive \<open>R\<close> the property is compositional; an invariant \<open>I\<close> is the case
  \<open>\<lambda>a b. I a \<longrightarrow> I b\<close>. The locale gives every such relation the rules of the transaction
  constructors, so that a handler's proof is the list of its statements.
\<close>

definition maintains :: "(db \<Rightarrow> db \<Rightarrow> bool) \<Rightarrow> 'a tx \<Rightarrow> bool" where
  "maintains R m \<longleftrightarrow> (\<forall>db x db'. m db = Inr (x, db') \<longrightarrow> R db db')"

lemma maintainsD: "maintains R m \<Longrightarrow> m db = Inr (x, db') \<Longrightarrow> R db db'"
  by (auto simp: maintains_def)

lemma maintains_WithinTx:
  "maintains R m \<Longrightarrow> (\<And>db. R db db) \<Longrightarrow> R db (snd (WithinTx m db))"
  by (auto simp: maintains_def WithinTx_def split: sum.splits)

lemma maintains_map_error: "maintains R m \<Longrightarrow> maintains R (tx_map_error f m)"
  by (auto simp: maintains_def tx_map_error_def split: sum.splits)

locale tx_relation =
  fixes R :: "db \<Rightarrow> db \<Rightarrow> bool"
  assumes rel_refl: "R db db"
    and rel_trans: "R a b \<Longrightarrow> R b c \<Longrightarrow> R a c"
begin

lemma keeps_return: "maintains R (tx_return x)"
  by (simp add: maintains_def rel_refl)

lemma keeps_fail: "maintains R (tx_fail e)"
  by (simp add: maintains_def)

lemma keeps_read: "maintains R (tx_read f)"
  by (simp add: maintains_def rel_refl)

lemma keeps_select: "maintains R (select_one get p)"
  by (simp add: select_one_def keeps_read)

lemma keeps_bind: "maintains R m \<Longrightarrow> (\<And>x. maintains R (f x)) \<Longrightarrow> maintains R (tx_bind m f)"
  unfolding maintains_def tx_bind_eq_Inr_iff by (meson rel_trans)

lemma keeps_seq: "maintains R m \<Longrightarrow> maintains R k \<Longrightarrow> maintains R (tx_seq m k)"
  by (simp add: tx_seq_def keeps_bind)

lemma keeps_each: "(\<And>x. maintains R (f x)) \<Longrightarrow> maintains R (tx_each f xs)"
  by (induction xs) (simp_all add: keeps_return keeps_seq)

lemma keeps_if: "(b \<Longrightarrow> maintains R m) \<Longrightarrow> (\<not> b \<Longrightarrow> maintains R k) \<Longrightarrow> maintains R (if b then m else k)"
  by simp

lemma keeps_option:
  "maintains R m \<Longrightarrow> (\<And>x. maintains R (f x)) \<Longrightarrow> maintains R (case v of None \<Rightarrow> m | Some x \<Rightarrow> f x)"
  by (simp split: option.splits)

lemma keeps_sum:
  "(\<And>x. maintains R (f x)) \<Longrightarrow> (\<And>x. maintains R (g x)) \<Longrightarrow> maintains R (case v of Inl x \<Rightarrow> f x | Inr x \<Rightarrow> g x)"
  by (simp split: sum.splits)

lemma keeps_pair: "(\<And>x y. maintains R (f x y)) \<Longrightarrow> maintains R (case v of (x, y) \<Rightarrow> f x y)"
  by (simp split: prod.splits)

lemma keeps_update_one:
  "(\<And>db. R db (upd (upd_row p (f (clock db))) db)) \<Longrightarrow> maintains R (update_one get upd p f)"
  by (auto simp: maintains_def update_one_Inr_iff rel_refl)

lemma keeps_update_rows:
  "(\<And>db. R db (upd (upd_row p (f (clock db))) db)) \<Longrightarrow> maintains R (update_rows get upd p f)"
  by (auto simp: maintains_def update_rows_def)

lemma keeps_insert_row:
  "(\<And>db. \<forall>q \<in> set (get db). \<not> clash q \<Longrightarrow> R db (upd (\<lambda>rs. rs @ [r]) db)) \<Longrightarrow>
     maintains R (insert_row what get upd clash r)"
  by (auto simp: maintains_def insert_row_Inr_iff)

lemma keeps_modify: "(\<And>db. R db (g db)) \<Longrightarrow> maintains R (tx_modify g)"
  by (auto simp: maintains_def)

lemmas keeps = keeps_return keeps_fail keeps_read keeps_select keeps_bind keeps_seq keeps_each
  keeps_if keeps_option keeps_sum keeps_pair

end

text \<open>An invariant as a relation.\<close>

definition keeping :: "(db \<Rightarrow> bool) \<Rightarrow> db \<Rightarrow> db \<Rightarrow> bool" where
  "keeping I a b \<longleftrightarrow> (I a \<longrightarrow> I b)"

lemma tx_relation_keeping: "tx_relation (keeping I)"
  by unfold_locales (simp_all add: keeping_def)

text \<open>Two relations at once, and a relation under an invariant.\<close>

lemma tx_relation_conj:
  "tx_relation R \<Longrightarrow> tx_relation S \<Longrightarrow> tx_relation (\<lambda>a b. R a b \<and> S a b)"
  unfolding tx_relation_def by blast

definition frame :: "(db \<Rightarrow> 'v) \<Rightarrow> db \<Rightarrow> db \<Rightarrow> bool" where
  "frame get a b \<longleftrightarrow> get b = get a"

lemma tx_relation_frame: "tx_relation (frame get)"
  by unfold_locales (simp_all add: frame_def)

section \<open>Third-party services\<close>

record env =
  e_new_uuid :: "nat \<Rightarrow> uuid"
  e_new_sha1 :: "gostr \<Rightarrow> uuid"
  e_uuid_string :: "uuid \<Rightarrow> gostr"
  e_sha256_hex :: "gostr \<Rightarrow> gostr"
  e_insert_tx :: "RiverJob list \<Rightarrow> RiverJob \<Rightarrow> (gostr, bool \<times> int option) result"

text \<open>\<^verbatim>\<open>uuid.New()\<close>: the calls are numbered; \<open>e_new_uuid\<close> gives the value of each.\<close>

definition uuid_New :: "env \<Rightarrow> uuid tx" where
  "uuid_New env = tx_bind (tx_read uuid_calls) (\<lambda>n.
     tx_seq (tx_modify (uuid_calls_update Suc)) (tx_return (e_new_uuid env n)))"

definition deterministicResourceID :: "env \<Rightarrow> gostr \<Rightarrow> uuid" where
  "deterministicResourceID env key = e_new_sha1 env (lit ''https://emby-auto.local/commands/'' @ key)"

section \<open>Events\<close>

definition nullableUUID :: "uuid \<Rightarrow> uuid option" where
  "nullableUUID value = (if value = uuid_nil then None else Some value)"

definition UUIDFromPG :: "uuid option \<Rightarrow> uuid" where
  "UUIDFromPG v = (case v of None \<Rightarrow> uuid_nil | Some u \<Rightarrow> u)"

definition valueOrEmpty :: "string option \<Rightarrow> string" where
  "valueOrEmpty v = (case v of None \<Rightarrow> '''' | Some s \<Rightarrow> s)"

definition AppendEvent :: "Event \<Rightarrow> Event tx" where
  "AppendEvent e = insert_row ''append event'' events events_update (\<lambda>r. ev_id r = ev_id e) e"

definition append_event ::
  "env \<Rightarrow> string \<Rightarrow> string option \<Rightarrow> uuid option \<Rightarrow> uuid option \<Rightarrow> uuid option \<Rightarrow> payload \<Rightarrow> unit tx" where
  "append_event env topic rtype rid opid actor data =
     tx_bind (uuid_New env) (\<lambda>id.
     tx_seq (AppendEvent \<lparr>ev_id = id, ev_topic = topic, ev_resource_type = rtype, ev_resource_id = rid,
               ev_operation_id = opid, ev_actor_user_id = actor, ev_data = data\<rparr>)
       (tx_return ()))"

definition appendResourceEvent ::
  "env \<Rightarrow> string \<Rightarrow> uuid \<Rightarrow> uuid \<Rightarrow> uuid \<Rightarrow> string \<Rightarrow> payload \<Rightarrow> unit tx" where
  "appendResourceEvent env resourceType resourceID operationID actorUserID topic data =
     append_event env topic (Some resourceType) (Some resourceID) (nullableUUID operationID)
       (nullableUUID actorUserID) data"

text \<open>Events and identifiers only: what appending an event may change.\<close>

definition strip_log :: "db \<Rightarrow> db" where
  "strip_log d = d\<lparr>uuid_calls := 0, events := []\<rparr>"

definition log_only :: "db \<Rightarrow> db \<Rightarrow> bool" where
  "log_only a b \<longleftrightarrow> strip_log b = strip_log a"

interpretation log_rel: tx_relation log_only
  by unfold_locales (simp_all add: log_only_def)

lemma log_only_frame:
  assumes "log_only a b"
  shows "clock b = clock a" "operations b = operations a" "op_attempts b = op_attempts a"
    "river_jobs b = river_jobs a" "tasks b = tasks a" "artifacts b = artifacts a"
    "artifact_sets b = artifact_sets a" "reviews b = reviews a" "imports_tab b = imports_tab a"
    "cleanups b = cleanups a" "downloads b = downloads a" "download_files b = download_files a"
    "acquisitions b = acquisitions a" "series_tab b = series_tab a" "episodes b = episodes a"
    "mappings b = mappings a" "rss_entries b = rss_entries a" "rss_subscriptions b = rss_subscriptions a"
    "search_runs b = search_runs a" "agent_resolutions b = agent_resolutions a" "emby_scans b = emby_scans a"
    "mapping_profiles b = mapping_profiles a" "fulfillments b = fulfillments a"
    "transcode_profiles b = transcode_profiles a" "emby_items b = emby_items a"
    "subtitle_groups b = subtitle_groups a"
  using assms by (cases a; cases b; simp add: log_only_def strip_log_def)+

lemma uuid_New_log_only: "maintains log_only (uuid_New env)"
  unfolding uuid_New_def
  by (intro log_rel.keeps log_rel.keeps_modify) (simp add: log_only_def strip_log_def)

lemma append_event_log_only: "maintains log_only (append_event env t rt ri oi au d)"
  unfolding append_event_def AppendEvent_def
  by (intro log_rel.keeps log_rel.keeps_insert_row uuid_New_log_only) (simp add: log_only_def strip_log_def)

lemma appendResourceEvent_log_only: "maintains log_only (appendResourceEvent env rt ri oi au t d)"
  unfolding appendResourceEvent_def by (rule append_event_log_only)

lemma maintains_mono: "maintains R m \<Longrightarrow> (\<And>a b. R a b \<Longrightarrow> S a b) \<Longrightarrow> maintains S m"
  by (auto simp: maintains_def)

end
