(* ===== verification/OperationScheduler.thy ===== *)
theory OperationScheduler
  imports Store
begin

text \<open>
  Scheduling of operations: the River job kinds of \<^verbatim>\<open>internal/platform/riverqueue/jobs.go\<close>, the
  statements of \<^verbatim>\<open>db/query/operations.sql\<close> (as embedded in \<^verbatim>\<open>db/sqlc/operations.sql.go\<close>) and the
  scheduler of \<^verbatim>\<open>internal/service/operations.go\<close>. The lemmas show that a schedule request creates
  one operation, one job and one event or replays the operation its idempotency key already names,
  and that no statement moves an operation against its lifecycle.
\<close>

section \<open>River jobs\<close>

definition job_kinds :: "string list" where
  "job_kinds = [''search.run'', ''rss.poll'', ''rss.subscription.complete'', ''rss.subscription.delete'',
     ''acquisition.delete'', ''download.enqueue'', ''download.sync'', ''download.materialize'',
     ''download.selection.apply'', ''agent.resolve'', ''subtitle.prepare'', ''transcode.run'',
     ''media.finalize'', ''emby.import'', ''cleanup.run'', ''emby.refresh'', ''emby.scan'',
     ''tmdb.sync'', ''task.cancel'', ''download.cancel'']"

text \<open>Durations are nanoseconds, as \<^verbatim>\<open>time.Duration\<close> counts them.\<close>

abbreviation second :: int where "second \<equiv> 1000000000"
abbreviation max_int32 :: int where "max_int32 \<equiv> 2147483647"

record JobArgs =
  ja_kind :: string
  ja_operation_id :: uuid
  ja_timeout_second :: int

record InsertOpts =
  io_max_attempts :: int
  io_queue :: string

definition NewJobArgs :: "string \<Rightarrow> uuid \<Rightarrow> int \<Rightarrow> (string, JobArgs) result" where
  "NewJobArgs kind operationID timeout =
     (if operationID = uuid_nil then Inl ''operation ID is required''
      else if timeout \<le> 0 \<or> timeout mod second \<noteq> 0 then
        Inl ''operation timeout must be a positive whole number of seconds''
      else if List.member job_kinds kind then
        Inr \<lparr>ja_kind = kind, ja_operation_id = operationID, ja_timeout_second = timeout div second\<rparr>
      else Inl ''unsupported River job kind'')"

definition InsertOptions :: "string \<Rightarrow> int \<Rightarrow> (string, InsertOpts) result" where
  "InsertOptions kind maxAttempts =
     (if maxAttempts \<le> 0 then Inl ''max attempts must be positive''
      else if kind = ''transcode.run'' then Inr \<lparr>io_max_attempts = maxAttempts, io_queue = ''transcode''\<rparr>
      else if kind = ''agent.resolve'' then Inr \<lparr>io_max_attempts = maxAttempts, io_queue = ''agent''\<rparr>
      else if List.member job_kinds kind then Inr \<lparr>io_max_attempts = maxAttempts, io_queue = ''general''\<rparr>
      else Inl ''unsupported River job kind'')"

section \<open>Statements on operations\<close>

definition active_op :: "Operation \<Rightarrow> bool" where
  "active_op r = (op_status r = OpQueued \<or> op_status r = OpRunning)"

text \<open>\<^verbatim>\<open>ON CONFLICT (idempotency_key) DO NOTHING\<close>: the number of rows inserted.\<close>

definition CreateOperation :: "Operation \<Rightarrow> nat tx" where
  "CreateOperation r db =
     (if list_ex (\<lambda>q. op_key q = op_key r) (operations db) then Inr (0, db)
      else tx_seq (insert_row ''create operation'' operations operations_update (\<lambda>q. op_id q = op_id r) r)
             (tx_return 1) db)"

definition GetOperationByIdempotencyKey :: "gostr \<Rightarrow> Operation option tx" where
  "GetOperationByIdempotencyKey key = select_one operations (\<lambda>r. op_key r = key)"

definition LockOperation :: "uuid \<Rightarrow> Operation option tx" where
  "LockOperation i = select_one operations (\<lambda>r. op_id r = i)"

definition AttachRiverJob :: "int \<Rightarrow> uuid \<Rightarrow> Operation option tx" where
  "AttachRiverJob job i = update_one operations operations_update
     (\<lambda>r. op_id r = i \<and> op_status r = OpQueued \<and> op_river_job r = None)
     (\<lambda>now r. r\<lparr>op_river_job := Some job\<rparr>)"

definition AbandonRunningOperationAttempts :: "uuid \<Rightarrow> nat tx" where
  "AbandonRunningOperationAttempts i = update_rows op_attempts op_attempts_update
     (\<lambda>r. at_operation_id r = i \<and> at_status r = AtRunning)
     (\<lambda>now r. r\<lparr>at_status := AtFailed, at_error_code := Some (lit ''worker_interrupted''),
        at_error_message := Some (lit ''the previous worker stopped before finishing the attempt''),
        at_heartbeat_at := Some now, at_finished_at := Some now\<rparr>)"

definition coalesce :: "'a option \<Rightarrow> 'a \<Rightarrow> 'a option" where
  "coalesce v d = (case v of None \<Rightarrow> Some d | Some x \<Rightarrow> Some x)"

definition StartOperationAttempt :: "uuid \<Rightarrow> Operation option tx" where
  "StartOperationAttempt i = update_one operations operations_update
     (\<lambda>r. op_id r = i \<and> active_op r \<and> op_cancel_requested_at r = None \<and> op_attempt_count r < op_max_attempts r)
     (\<lambda>now r. r\<lparr>op_status := OpRunning, op_attempt_count := op_attempt_count r + 1,
        op_started_at := coalesce (op_started_at r) now, op_heartbeat_at := Some now,
        op_error_code := None, op_error_message := None\<rparr>)"

definition RequestOperationCancellation :: "uuid \<Rightarrow> Operation option tx" where
  "RequestOperationCancellation i = update_one operations operations_update
     (\<lambda>r. op_id r = i \<and> active_op r)
     (\<lambda>now r. r\<lparr>op_cancel_requested_at := coalesce (op_cancel_requested_at r) now\<rparr>)"

definition ListCancellableResourceOperations :: "string \<Rightarrow> uuid \<Rightarrow> Operation list tx" where
  "ListCancellableResourceOperations rtype rid = tx_read (\<lambda>db.
     filter (\<lambda>r. op_resource_type r = Some rtype \<and> op_resource_id r = Some rid \<and> active_op r) (operations db))"

definition CountOtherActiveResourceOperations :: "string \<Rightarrow> uuid \<Rightarrow> uuid \<Rightarrow> nat tx" where
  "CountOtherActiveResourceOperations rtype rid i = tx_read (\<lambda>db.
     length (filter (\<lambda>r. op_resource_type r = Some rtype \<and> op_resource_id r = Some rid \<and>
       op_id r \<noteq> i \<and> active_op r) (operations db)))"

definition HeartbeatOperation :: "uuid \<Rightarrow> nat tx" where
  "HeartbeatOperation i = update_rows operations operations_update
     (\<lambda>r. op_id r = i \<and> op_status r = OpRunning \<and> op_cancel_requested_at r = None)
     (\<lambda>now r. r\<lparr>op_heartbeat_at := Some now\<rparr>)"

definition CompleteOperation :: "uuid \<Rightarrow> Operation option tx" where
  "CompleteOperation i = update_one operations operations_update
     (\<lambda>r. op_id r = i \<and> op_status r = OpRunning \<and> op_cancel_requested_at r = None)
     (\<lambda>now r. r\<lparr>op_status := OpSucceeded, op_heartbeat_at := Some now, op_finished_at := Some now\<rparr>)"

definition RetryOperation :: "gostr \<Rightarrow> gostr \<Rightarrow> uuid \<Rightarrow> Operation option tx" where
  "RetryOperation code message i = update_one operations operations_update
     (\<lambda>r. op_id r = i \<and> op_status r = OpRunning \<and> op_cancel_requested_at r = None \<and>
        op_attempt_count r < op_max_attempts r)
     (\<lambda>now r. r\<lparr>op_status := OpQueued, op_error_code := Some code, op_error_message := Some message,
        op_heartbeat_at := Some now\<rparr>)"

text \<open>\<^verbatim>\<open>btrim(x) <> ''\<close>: PostgreSQL trims blanks only.\<close>

definition not_blank :: "gostr \<Rightarrow> bool" where
  "not_blank s = list_ex (\<lambda>c. c \<noteq> 32) s"

text \<open>The two statements whose rows must satisfy a \<^verbatim>\<open>..._failure_error_required\<close> check.\<close>

definition FailOperation :: "gostr \<Rightarrow> gostr \<Rightarrow> uuid \<Rightarrow> Operation option tx" where
  "FailOperation code message i db =
     (if list_ex (\<lambda>r. op_id r = i \<and> active_op r) (operations db) \<and> \<not> (not_blank code \<and> not_blank message)
      then Inl (OtherError ''operations_failure_error_required'')
      else update_one operations operations_update
        (\<lambda>r. op_id r = i \<and> active_op r)
        (\<lambda>now r. r\<lparr>op_status := OpFailed, op_error_code := Some code, op_error_message := Some message,
           op_heartbeat_at := Some now, op_finished_at := Some now\<rparr>) db)"

definition CancelOperation :: "uuid \<Rightarrow> Operation option tx" where
  "CancelOperation i = update_one operations operations_update
     (\<lambda>r. op_id r = i \<and> active_op r)
     (\<lambda>now r. r\<lparr>op_status := OpCancelled,
        op_cancel_requested_at := coalesce (op_cancel_requested_at r) now,
        op_heartbeat_at := (if op_status r = OpRunning then Some now else op_heartbeat_at r),
        op_finished_at := Some now\<rparr>)"

definition CreateOperationAttempt :: "OperationAttempt \<Rightarrow> OperationAttempt tx" where
  "CreateOperationAttempt a = insert_row ''create operation attempt audit'' op_attempts op_attempts_update
     (\<lambda>q. at_id q = at_id a \<or> (at_operation_id q = at_operation_id a \<and> at_attempt q = at_attempt a)) a"

definition HeartbeatOperationAttempt :: "uuid \<Rightarrow> int \<Rightarrow> nat tx" where
  "HeartbeatOperationAttempt i n = update_rows op_attempts op_attempts_update
     (\<lambda>r. at_operation_id r = i \<and> at_attempt r = n \<and> at_status r = AtRunning)
     (\<lambda>now r. r\<lparr>at_heartbeat_at := Some now\<rparr>)"

definition DeleteSnoozedOperationAttempt :: "uuid \<Rightarrow> int \<Rightarrow> nat tx" where
  "DeleteSnoozedOperationAttempt i n db =
     (let p = (\<lambda>r. at_operation_id r = i \<and> at_attempt r = n \<and> at_status r = AtRunning)
      in Inr (length (filter p (op_attempts db)), op_attempts_update (filter (\<lambda>r. \<not> p r)) db))"

definition SnoozeOperation :: "uuid \<Rightarrow> Operation option tx" where
  "SnoozeOperation i = update_one operations operations_update
     (\<lambda>r. op_id r = i \<and> op_status r = OpRunning \<and> op_cancel_requested_at r = None \<and> op_attempt_count r > 0)
     (\<lambda>now r. r\<lparr>op_status := OpQueued, op_attempt_count := op_attempt_count r - 1, op_heartbeat_at := Some now\<rparr>)"

definition FinishOperationAttempt ::
  "AttemptStatus \<Rightarrow> gostr option \<Rightarrow> gostr option \<Rightarrow> uuid \<Rightarrow> int \<Rightarrow> OperationAttempt option tx" where
  "FinishOperationAttempt status code message i n db =
     (let p = (\<lambda>r. at_operation_id r = i \<and> at_attempt r = n \<and> at_status r = AtRunning);
          blank = (case (code, message) of (Some c, Some m) \<Rightarrow> \<not> (not_blank c \<and> not_blank m) | _ \<Rightarrow> True)
      in if list_ex p (op_attempts db) \<and> status = AtFailed \<and> blank
         then Inl (OtherError ''operation_attempts_failure_error_required'')
         else update_one op_attempts op_attempts_update p
           (\<lambda>now r. r\<lparr>at_status := status, at_error_code := code, at_error_message := message,
              at_heartbeat_at := Some now, at_finished_at := Some now\<rparr>) db)"

section \<open>The scheduler\<close>

record ScheduleOperationRequest =
  sq_Kind :: string
  sq_ResourceType :: string
  sq_ResourceID :: uuid
  sq_IdempotencyKey :: gostr
  sq_MaxAttempts :: int
  sq_Timeout :: int
  sq_Payload :: payload
  sq_ActorUserID :: uuid

record OperationView =
  ov_ID :: uuid
  ov_Kind :: string
  ov_ResourceType :: string
  ov_ResourceID :: uuid
  ov_IdempotencyKey :: gostr
  ov_Status :: OperationStatus
  ov_RiverJobID :: int
  ov_MaxAttempts :: int
  ov_AttemptCount :: int
  ov_Timeout :: int
  ov_Payload :: payload

record ScheduleOperationResult =
  sr_Operation :: OperationView
  sr_Created :: bool

record preparedOperation =
  po_request :: ScheduleOperationRequest
  po_operationID :: uuid
  po_jobArgs :: JobArgs
  po_insertOptions :: InsertOpts

definition invalidOperation :: "string \<Rightarrow> string \<Rightarrow> svc_error" where
  "invalidOperation field reason = NewError ''invalid_operation'' ''the operation is invalid'' ErrInvalidInput
     [(''field'', JStr (lit field)), (''reason'', JStr (lit reason))]"

definition prepareOperation :: "env \<Rightarrow> ScheduleOperationRequest \<Rightarrow> preparedOperation tx" where
  "prepareOperation env request0 =
     (if trim_space (sq_IdempotencyKey request0) = [] then
        tx_fail (invalidOperation ''idempotencyKey'' ''must not be blank'')
      else
        let request = request0\<lparr>sq_IdempotencyKey := trim_space (sq_IdempotencyKey request0)\<rparr>
        in if sq_MaxAttempts request \<le> 0 \<or> sq_MaxAttempts request > max_int32 then
             tx_fail (invalidOperation ''maxAttempts'' ''must be between 1 and 2147483647'')
           else if sq_Timeout request \<le> 0 \<or> sq_Timeout request mod second \<noteq> 0 \<or>
                   sq_Timeout request div second > max_int32 then
             tx_fail (invalidOperation ''timeout'' ''must be between 1 and 2147483647 whole seconds'')
           else if (sq_ResourceType request = '''') \<noteq> (sq_ResourceID request = uuid_nil) then
             tx_fail (invalidOperation ''resource'' ''type and ID must be provided together'')
           else tx_bind (uuid_New env) (\<lambda>operationID.
             case NewJobArgs (sq_Kind request) operationID (sq_Timeout request) of
               Inl e \<Rightarrow> tx_fail (invalidOperation ''kind'' e)
             | Inr jobArgs \<Rightarrow>
                 (case InsertOptions (sq_Kind request) (sq_MaxAttempts request) of
                    Inl e \<Rightarrow> tx_fail (invalidOperation ''kind'' e)
                  | Inr opts \<Rightarrow> tx_return \<lparr>po_request = request, po_operationID = operationID,
                      po_jobArgs = jobArgs, po_insertOptions = opts\<rparr>)))"

definition nullableResource :: "string \<Rightarrow> uuid \<Rightarrow> string option \<times> uuid option" where
  "nullableResource resourceType resourceID =
     (if resourceType = '''' then (None, None) else (Some resourceType, Some resourceID))"

definition sameOperationCommand :: "Operation \<Rightarrow> ScheduleOperationRequest \<Rightarrow> bool" where
  "sameOperationCommand operation request =
     (op_kind operation = sq_Kind request \<and>
      valueOrEmpty (op_resource_type operation) = sq_ResourceType request \<and>
      UUIDFromPG (op_resource_id operation) = sq_ResourceID request \<and>
      op_max_attempts operation = sq_MaxAttempts request \<and>
      op_timeout_seconds operation = sq_Timeout request div second \<and>
      jsonValuesEqual (op_payload operation) (sq_Payload request))"

definition operationFromDB :: "Operation \<Rightarrow> OperationView" where
  "operationFromDB operation =
     \<lparr>ov_ID = op_id operation, ov_Kind = op_kind operation,
      ov_ResourceType = valueOrEmpty (op_resource_type operation),
      ov_ResourceID = UUIDFromPG (op_resource_id operation),
      ov_IdempotencyKey = op_key operation, ov_Status = op_status operation,
      ov_RiverJobID = (case op_river_job operation of None \<Rightarrow> 0 | Some j \<Rightarrow> j),
      ov_MaxAttempts = op_max_attempts operation, ov_AttemptCount = op_attempt_count operation,
      ov_Timeout = op_timeout_seconds operation * second, ov_Payload = op_payload operation\<rparr>"

text \<open>River's \<^verbatim>\<open>InsertTx\<close> in the transaction: the result decides whether a job row appears.\<close>

definition job_row :: "JobArgs \<Rightarrow> InsertOpts \<Rightarrow> int \<Rightarrow> RiverJob" where
  "job_row args opts i = \<lparr>rj_id = i, rj_kind = ja_kind args, rj_operation_id = ja_operation_id args,
     rj_timeout_seconds = ja_timeout_second args, rj_max_attempts = io_max_attempts opts,
     rj_queue = io_queue opts\<rparr>"

definition InsertTx :: "env \<Rightarrow> JobArgs \<Rightarrow> InsertOpts \<Rightarrow> (bool \<times> int option) tx" where
  "InsertTx env args opts db =
     (case e_insert_tx env (river_jobs db) (job_row args opts 0) of
        Inl e \<Rightarrow> Inl (OtherError ''insert River job'')
      | Inr (skipped, job) \<Rightarrow>
          Inr ((skipped, job),
            (case job of Some i \<Rightarrow> if skipped then db else river_jobs_update (\<lambda>js. js @ [job_row args opts i]) db
             | None \<Rightarrow> db)))"

definition new_operation_row :: "preparedOperation \<Rightarrow> Operation" where
  "new_operation_row prepared =
     (let request = po_request prepared;
          res = nullableResource (sq_ResourceType request) (sq_ResourceID request)
      in \<lparr>op_id = po_operationID prepared, op_kind = sq_Kind request, op_resource_type = fst res,
          op_resource_id = snd res, op_key = sq_IdempotencyKey request, op_status = OpQueued,
          op_river_job = None, op_max_attempts = sq_MaxAttempts request, op_attempt_count = 0,
          op_timeout_seconds = sq_Timeout request div second, op_cancel_requested_at = None,
          op_heartbeat_at = None, op_error_code = None, op_error_message = None,
          op_payload = sq_Payload request, op_started_at = None, op_finished_at = None\<rparr>)"

definition idempotency_conflict :: "gostr \<Rightarrow> svc_error" where
  "idempotency_conflict key = NewError ''idempotency_conflict''
     ''the idempotency key was already used for a different command'' ErrStateConflict
     [(''idempotencyKey'', JStr key)]"

definition scheduleInScope :: "env \<Rightarrow> preparedOperation \<Rightarrow> ScheduleOperationResult tx" where
  "scheduleInScope env prepared =
     (let request = po_request prepared;
          res = nullableResource (sq_ResourceType request) (sq_ResourceID request)
      in tx_bind (CreateOperation (new_operation_row prepared)) (\<lambda>created.
         if created = 0 then
           tx_bind (GetOperationByIdempotencyKey (sq_IdempotencyKey request)) (\<lambda>existing.
             case existing of
               None \<Rightarrow> tx_fail (OtherError ''load idempotent operation'')
             | Some existing \<Rightarrow>
                 if \<not> sameOperationCommand existing request
                 then tx_fail (idempotency_conflict (sq_IdempotencyKey request))
                 else tx_return \<lparr>sr_Operation = operationFromDB existing, sr_Created = False\<rparr>)
         else
           tx_bind (InsertTx env (po_jobArgs prepared) (po_insertOptions prepared)) (\<lambda>(skipped, job).
             case (skipped, job) of
               (False, Some jobID) \<Rightarrow>
                 tx_bind (AttachRiverJob jobID (po_operationID prepared)) (\<lambda>operation.
                   case operation of
                     None \<Rightarrow> tx_fail (OtherError ''attach River job to operation'')
                   | Some operation \<Rightarrow>
                       tx_seq (append_event env ''operation.queued'' (fst res) (snd res)
                                 (Some (po_operationID prepared)) (nullableUUID (sq_ActorUserID request))
                                 [(''kind'', JStr (lit (sq_Kind request))), (''status'', JStr (lit ''queued''))])
                         (tx_return \<lparr>sr_Operation = operationFromDB operation, sr_Created = True\<rparr>))
             | _ \<Rightarrow> tx_fail (OtherError ''new operation River job was unexpectedly deduplicated''))))"

definition wrapScheduleError :: "svc_error \<Rightarrow> svc_error" where
  "wrapScheduleError e =
     (case e of OtherError m \<Rightarrow> OtherError (''schedule operation: '' @ m) | _ \<Rightarrow> e)"

definition ScheduleInTx :: "env \<Rightarrow> ScheduleOperationRequest \<Rightarrow> ScheduleOperationResult tx" where
  "ScheduleInTx env request =
     tx_bind (prepareOperation env request) (\<lambda>prepared.
       tx_map_error wrapScheduleError (scheduleInScope env prepared))"

definition Schedule :: "env \<Rightarrow> ScheduleOperationRequest \<Rightarrow> db \<Rightarrow> (svc_error, ScheduleOperationResult) result \<times> db" where
  "Schedule env request = WithinTx (ScheduleInTx env request)"

definition findIdempotentResourceCommand ::
  "gostr \<Rightarrow> string \<Rightarrow> uuid \<Rightarrow> gostr \<Rightarrow> string list \<Rightarrow> OperationView option tx" where
  "findIdempotentResourceCommand idempotencyKey resourceType resourceID command allowedKinds =
     tx_bind (GetOperationByIdempotencyKey (trim_space idempotencyKey)) (\<lambda>existing.
       case existing of
         None \<Rightarrow> tx_return None
       | Some existing \<Rightarrow>
           if \<not> List.member allowedKinds (op_kind existing) \<or>
              valueOrEmpty (op_resource_type existing) \<noteq> resourceType \<or>
              UUIDFromPG (op_resource_id existing) \<noteq> resourceID \<or>
              map_of (op_payload existing) ''command'' \<noteq> Some (JStr command)
           then tx_fail (idempotency_conflict idempotencyKey)
           else tx_return (Some (operationFromDB existing)))"

definition requestResourceOperationCancellations ::
  "env \<Rightarrow> string \<Rightarrow> uuid \<Rightarrow> uuid \<Rightarrow> unit tx" where
  "requestResourceOperationCancellations env resourceType resourceID actorUserID =
     tx_bind (ListCancellableResourceOperations resourceType resourceID)
       (tx_each (\<lambda>operation.
          tx_bind (RequestOperationCancellation (op_id operation)) (\<lambda>requested.
            case requested of
              None \<Rightarrow> tx_return ()
            | Some requested \<Rightarrow>
                appendResourceEvent env resourceType resourceID (op_id requested) actorUserID
                  ''operation.cancel_requested'' [(''kind'', JStr (lit (op_kind requested)))])))"

section \<open>Operations only move forward\<close>

definition op_terminal :: "Operation \<Rightarrow> bool" where
  "op_terminal r = (op_status r = OpSucceeded \<or> op_status r = OpFailed \<or> op_status r = OpCancelled)"

text \<open>The command an operation stands for: what no statement may change.\<close>

definition op_command :: "Operation \<Rightarrow> uuid \<times> string \<times> string option \<times> uuid option \<times> gostr \<times> int \<times> int \<times> payload" where
  "op_command r = (op_id r, op_kind r, op_resource_type r, op_resource_id r, op_key r,
     op_max_attempts r, op_timeout_seconds r, op_payload r)"

text \<open>
  One statement may change a row so: the command stays, a terminal row stays as it is, a requested
  cancellation is never withdrawn, starts no further attempt and is never followed by success, and
  the job and the time of the first start stay once they are set.
\<close>

definition op_forward :: "Operation \<Rightarrow> Operation \<Rightarrow> bool" where
  "op_forward r q \<longleftrightarrow> op_command q = op_command r \<and> (op_terminal r \<longrightarrow> q = r) \<and>
     (op_cancel_requested_at r \<noteq> None \<longrightarrow> op_cancel_requested_at q = op_cancel_requested_at r \<and>
        op_attempt_count q \<le> op_attempt_count r \<and> (op_status q = OpSucceeded \<longrightarrow> op_status r = OpSucceeded)) \<and>
     (op_river_job r \<noteq> None \<longrightarrow> op_river_job q = op_river_job r) \<and>
     (op_started_at r \<noteq> None \<longrightarrow> op_started_at q = op_started_at r)"

lemma op_forward_refl: "op_forward r r"
  by (simp add: op_forward_def)

lemma op_forward_trans: "op_forward r q \<Longrightarrow> op_forward q s \<Longrightarrow> op_forward r s"
  unfolding op_forward_def by (auto intro: order_trans)

definition ops_forward :: "db \<Rightarrow> db \<Rightarrow> bool" where
  "ops_forward a b \<longleftrightarrow> (\<exists>old new. operations b = old @ new \<and> list_all2 op_forward (operations a) old)"

lemma list_all2_forward_refl: "list_all2 op_forward rs rs"
  by (simp add: list_all2_refl op_forward_refl)

lemma ops_forward_frame: "operations b = operations a \<Longrightarrow> ops_forward a b"
  unfolding ops_forward_def by (rule exI [of _ "operations a"]) (simp add: list_all2_forward_refl)

interpretation ops_rel: tx_relation ops_forward
proof
  show "ops_forward a a" for a by (simp add: ops_forward_frame)
  show "ops_forward a c" if ab: "ops_forward a b" and bc: "ops_forward b c" for a b c
  proof -
    obtain o1 n1 where b: "operations b = o1 @ n1" "list_all2 op_forward (operations a) o1"
      using ab unfolding ops_forward_def by blast
    obtain o2 n2 where c: "operations c = o2 @ n2" "list_all2 op_forward (operations b) o2"
      using bc unfolding ops_forward_def by blast
    obtain p q where "o2 = p @ q" "list_all2 op_forward o1 p"
      using c(2) b(1) by (auto simp: list_all2_append1)
    then show ?thesis
      using b(2) c(1) list_all2_trans [of op_forward op_forward op_forward "operations a" o1 p] op_forward_trans
      by (auto simp: ops_forward_def)
  qed
qed

lemma ops_forward_update:
  assumes "\<And>r. r \<in> set (operations a) \<Longrightarrow> p r \<Longrightarrow> op_forward r (f r)"
  shows "ops_forward a (operations_update (upd_row p f) a)"
proof -
  have "list_all2 op_forward rs (upd_row p f rs)" if "set rs \<subseteq> set (operations a)" for rs
    using that assms by (induction rs) (auto simp: op_forward_refl)
  then show ?thesis by (auto simp: ops_forward_def intro: exI [of _ "[]"])
qed

lemma ops_forward_insert: "ops_forward a (operations_update (\<lambda>rs. rs @ [r]) a)"
  unfolding ops_forward_def by (rule exI [of _ "operations a"]) (simp add: list_all2_forward_refl)

lemmas forward_defs = op_forward_def op_command_def op_terminal_def active_op_def coalesce_def

lemma operation_statements_forward:
  "maintains ops_forward (CreateOperation r)"
  "maintains ops_forward (AttachRiverJob j i)"
  "maintains ops_forward (StartOperationAttempt i)"
  "maintains ops_forward (RequestOperationCancellation i)"
  "maintains ops_forward (HeartbeatOperation i)"
  "maintains ops_forward (CompleteOperation i)"
  "maintains ops_forward (RetryOperation code msg i)"
  "maintains ops_forward (FailOperation code msg i)"
  "maintains ops_forward (CancelOperation i)"
  "maintains ops_forward (SnoozeOperation i)"
proof -
  show "maintains ops_forward (CreateOperation r)"
    by (auto simp: maintains_def CreateOperation_def insert_row_Inr_iff tx_seq_eq_Inr_iff
      ops_forward_insert ops_rel.rel_refl split: if_splits)
  show "maintains ops_forward (FailOperation code msg i)"
    by (auto simp: maintains_def FailOperation_def update_one_Inr_iff ops_rel.rel_refl forward_defs
      intro!: ops_forward_update split: if_splits)
qed (unfold AttachRiverJob_def StartOperationAttempt_def RequestOperationCancellation_def
      HeartbeatOperation_def CompleteOperation_def RetryOperation_def CancelOperation_def SnoozeOperation_def,
     (intro ops_rel.keeps_update_one ops_rel.keeps_update_rows ops_forward_update,
      force simp: forward_defs split: option.splits)+)


lemma log_only_forward: "maintains log_only m \<Longrightarrow> maintains ops_forward m"
  by (erule maintains_mono) (simp add: ops_forward_frame log_only_frame)

lemma attempt_statements_forward:
  "maintains ops_forward (AbandonRunningOperationAttempts i)"
  "maintains ops_forward (CreateOperationAttempt a)"
  "maintains ops_forward (HeartbeatOperationAttempt i n)"
  "maintains ops_forward (DeleteSnoozedOperationAttempt i n)"
  "maintains ops_forward (FinishOperationAttempt st c m i n)"
  by (auto simp: maintains_def AbandonRunningOperationAttempts_def CreateOperationAttempt_def
    HeartbeatOperationAttempt_def DeleteSnoozedOperationAttempt_def FinishOperationAttempt_def
    update_rows_def insert_row_Inr_iff update_one_Inr_iff Let_def intro!: ops_forward_frame split: if_splits)

lemma InsertTx_forward: "maintains ops_forward (InsertTx env args opts)"
  by (auto simp: maintains_def InsertTx_def intro!: ops_forward_frame split: sum.splits option.splits if_splits)

lemma read_statements_forward:
  "maintains ops_forward (GetOperationByIdempotencyKey key)"
  "maintains ops_forward (LockOperation i)"
  "maintains ops_forward (ListCancellableResourceOperations t i)"
  unfolding GetOperationByIdempotencyKey_def LockOperation_def ListCancellableResourceOperations_def
  by (intro ops_rel.keeps)+

lemmas event_forward = append_event_log_only [THEN log_only_forward]
  appendResourceEvent_log_only [THEN log_only_forward] uuid_New_log_only [THEN log_only_forward]

lemmas forward_rules = ops_rel.keeps operation_statements_forward attempt_statements_forward
  InsertTx_forward read_statements_forward event_forward maintains_map_error

lemma prepareOperation_forward: "maintains ops_forward (prepareOperation env request)"
  unfolding prepareOperation_def Let_def by (intro forward_rules)

lemma keeps_bool_option:
  "tx_relation R \<Longrightarrow> (\<And>x. maintains R (f x)) \<Longrightarrow>
     maintains R (case (b, v) of (False, Some x) \<Rightarrow> f x | _ \<Rightarrow> tx_fail e)"
  by (auto simp: tx_relation.keeps_fail split: bool.splits option.splits)

lemma ScheduleInTx_forward: "maintains ops_forward (ScheduleInTx env request)"
  unfolding ScheduleInTx_def scheduleInScope_def Let_def
  by (intro forward_rules prepareOperation_forward keeps_bool_option ops_rel.tx_relation_axioms)

lemma requestCancellations_forward:
  "maintains ops_forward (requestResourceOperationCancellations env t i a)"
  unfolding requestResourceOperationCancellations_def by (intro forward_rules)

section \<open>What scheduling does\<close>

definition request_ok :: "ScheduleOperationRequest \<Rightarrow> bool" where
  "request_ok r \<longleftrightarrow> trim_space (sq_IdempotencyKey r) \<noteq> [] \<and>
     0 < sq_MaxAttempts r \<and> sq_MaxAttempts r \<le> max_int32 \<and>
     0 < sq_Timeout r \<and> sq_Timeout r mod second = 0 \<and> sq_Timeout r div second \<le> max_int32 \<and>
     ((sq_ResourceType r = '''') = (sq_ResourceID r = uuid_nil)) \<and> List.member job_kinds (sq_Kind r)"

definition queue_of :: "string \<Rightarrow> string" where
  "queue_of kind = (if kind = ''transcode.run'' then ''transcode''
     else if kind = ''agent.resolve'' then ''agent'' else ''general'')"

lemma InsertOptions_ok:
  "List.member job_kinds kind \<Longrightarrow> 0 < n \<Longrightarrow>
     InsertOptions kind n = Inr \<lparr>io_max_attempts = n, io_queue = queue_of kind\<rparr>"
  by (simp add: InsertOptions_def queue_of_def)

definition prepared_for :: "uuid \<Rightarrow> ScheduleOperationRequest \<Rightarrow> preparedOperation" where
  "prepared_for i r = \<lparr>po_request = r\<lparr>sq_IdempotencyKey := trim_space (sq_IdempotencyKey r)\<rparr>,
     po_operationID = i,
     po_jobArgs = \<lparr>ja_kind = sq_Kind r, ja_operation_id = i, ja_timeout_second = sq_Timeout r div second\<rparr>,
     po_insertOptions = \<lparr>io_max_attempts = sq_MaxAttempts r, io_queue = queue_of (sq_Kind r)\<rparr>\<rparr>"

lemma uuid_New_apply [simp]:
  "uuid_New env db = Inr (e_new_uuid env (uuid_calls db), uuid_calls_update Suc db)"
  by (simp add: uuid_New_def)

lemma prepareOperation_ok:
  assumes "request_ok r" "e_new_uuid env (uuid_calls db) \<noteq> uuid_nil"
  shows "prepareOperation env r db =
    Inr (prepared_for (e_new_uuid env (uuid_calls db)) r, uuid_calls_update Suc db)"
  using assms
  by (simp add: prepareOperation_def request_ok_def NewJobArgs_def InsertOptions_ok prepared_for_def Let_def)

lemma prepareOperation_InrD:
  assumes "prepareOperation env r db = Inr (p, db')"
  shows "request_ok r \<and> e_new_uuid env (uuid_calls db) \<noteq> uuid_nil"
proof -
  have "trim_space (sq_IdempotencyKey r) \<noteq> []" "0 < sq_MaxAttempts r" "sq_MaxAttempts r \<le> max_int32"
    "0 < sq_Timeout r" "sq_Timeout r mod second = 0" "sq_Timeout r div second \<le> max_int32"
    "(sq_ResourceType r = '''') = (sq_ResourceID r = uuid_nil)"
    using assms by (simp_all add: prepareOperation_def Let_def split: if_splits)
  moreover have "List.member job_kinds (sq_Kind r)" "e_new_uuid env (uuid_calls db) \<noteq> uuid_nil"
    using assms calculation by (simp_all add: prepareOperation_def Let_def NewJobArgs_def split: if_splits)
  ultimately show ?thesis by (simp add: request_ok_def)
qed

text \<open>The row, the job and the event of a new operation.\<close>

definition scheduled_row :: "uuid \<Rightarrow> ScheduleOperationRequest \<Rightarrow> int \<Rightarrow> Operation" where
  "scheduled_row i r job = (new_operation_row (prepared_for i r))\<lparr>op_river_job := Some job\<rparr>"

definition queued_event :: "uuid \<Rightarrow> uuid \<Rightarrow> ScheduleOperationRequest \<Rightarrow> Event" where
  "queued_event e i r = \<lparr>ev_id = e, ev_topic = ''operation.queued'',
     ev_resource_type = (if sq_ResourceType r = '''' then None else Some (sq_ResourceType r)),
     ev_resource_id = (if sq_ResourceType r = '''' then None else Some (sq_ResourceID r)),
     ev_operation_id = Some i, ev_actor_user_id = nullableUUID (sq_ActorUserID r),
     ev_data = [(''kind'', JStr (lit (sq_Kind r))), (''status'', JStr (lit ''queued''))]\<rparr>"

lemma new_operation_row_simps [simp]:
  "op_id (new_operation_row p) = po_operationID p" "op_key (new_operation_row p) = sq_IdempotencyKey (po_request p)"
  "op_status (new_operation_row p) = OpQueued" "op_river_job (new_operation_row p) = None"
  by (simp_all add: new_operation_row_def Let_def)

lemma upd_row_append_new:
  "\<forall>q \<in> set rs. \<not> p q \<Longrightarrow> p r \<Longrightarrow> upd_row p f (rs @ [r]) = rs @ [f r]"
  by (induction rs) auto

lemma find_append_new: "\<forall>q \<in> set rs. \<not> p q \<Longrightarrow> p r \<Longrightarrow> List.find p (rs @ [r]) = Some r"
  by (induction rs) auto

lemma schedule_new_iff:
  assumes "\<forall>q \<in> set (operations db). op_key q \<noteq> sq_IdempotencyKey (po_request p)"
  shows "scheduleInScope env p db = Inr (res, db') \<Longrightarrow>
    \<exists>job e. (\<forall>q \<in> set (operations db). op_id q \<noteq> po_operationID p) \<and>
      e = e_new_uuid env (uuid_calls db) \<and>
      res = \<lparr>sr_Operation = operationFromDB ((new_operation_row p)\<lparr>op_river_job := Some job\<rparr>), sr_Created = True\<rparr> \<and>
      operations db' = operations db @ [(new_operation_row p)\<lparr>op_river_job := Some job\<rparr>] \<and>
      river_jobs db' = river_jobs db @ [job_row (po_jobArgs p) (po_insertOptions p) job] \<and>
      (\<exists>ev. events db' = events db @ [ev] \<and> ev_operation_id ev = Some (po_operationID p) \<and>
         ev_topic ev = ''operation.queued'')"
proof -
  let ?n = "new_operation_row p" and ?d = "operations_update (\<lambda>rs. rs @ [new_operation_row p]) db"
  assume run: "scheduleInScope env p db = Inr (res, db')"
  have none: "\<not> list_ex (\<lambda>q. op_key q = op_key ?n) (operations db)"
    using assms by (auto simp: list_ex_iff)
  obtain fresh: "\<forall>q \<in> set (operations db). op_id q \<noteq> po_operationID p"
    and create: "CreateOperation ?n db = Inr (1, ?d)"
    using run none
    by (auto simp: scheduleInScope_def CreateOperation_def insert_row_def list_ex_iff tx_bind_def tx_seq_def Let_def
        split: if_splits)
  let ?p = "\<lambda>r. op_id r = po_operationID p \<and> op_status r = OpQueued \<and> op_river_job r = None"
  have none': "\<forall>q \<in> set (operations db). \<not> ?p q" using fresh by blast
  obtain job where ins: "e_insert_tx env (river_jobs db) (job_row (po_jobArgs p) (po_insertOptions p) 0)
      = Inr (False, Some job)"
    using run create
    by (auto simp: scheduleInScope_def InsertTx_def tx_bind_def tx_seq_def Let_def
        split: sum.splits prod.splits bool.splits option.splits if_splits)
  let ?d2 = "river_jobs_update (\<lambda>js. js @ [job_row (po_jobArgs p) (po_insertOptions p) job]) ?d"
  let ?q = "?n\<lparr>op_river_job := Some job\<rparr>"
  have attach: "AttachRiverJob job (po_operationID p) ?d2 =
      Inr (Some ?q, operations_update (\<lambda>_. operations db @ [?q]) ?d2)"
    using none' find_append_new [of "operations db" ?p ?n] upd_row_append_new [of "operations db" ?p ?n]
    by (simp add: AttachRiverJob_def update_one_def)
  have insert: "InsertTx env (po_jobArgs p) (po_insertOptions p) ?d = Inr ((False, Some job), ?d2)"
    using ins by (simp add: InsertTx_def)
  show ?thesis
    using run fresh
    by (auto simp: scheduleInScope_def Let_def create insert attach append_event_def AppendEvent_def
        insert_row_def tx_seq_def tx_bind_def split: if_splits)
qed

text \<open>The request of an existing operation: replayed when the command is the same, refused otherwise.\<close>

lemma schedule_existing:
  assumes "List.find (\<lambda>q. op_key q = sq_IdempotencyKey (po_request p)) (operations db) = Some q"
  shows "scheduleInScope env p db =
    (if sameOperationCommand q (po_request p)
     then Inr (\<lparr>sr_Operation = operationFromDB q, sr_Created = False\<rparr>, db)
     else Inl (idempotency_conflict (sq_IdempotencyKey (po_request p))))"
proof -
  have "list_ex (\<lambda>q. op_key q = op_key (new_operation_row p)) (operations db)"
    using find_eq_SomeD [OF assms] by (auto simp: list_ex_iff)
  then have "CreateOperation (new_operation_row p) db = Inr (0, db)" by (simp add: CreateOperation_def)
  then show ?thesis
    using assms by (simp add: scheduleInScope_def Let_def GetOperationByIdempotencyKey_def select_one_def tx_bind_def)
qed

lemma find_forward:
  assumes "list_all2 op_forward rs qs" "List.find (\<lambda>q. op_key q = k) rs = Some r"
  shows "\<exists>q. List.find (\<lambda>q. op_key q = k) (qs @ new) = Some q \<and> op_forward r q"
  using assms
proof (induction rule: list_all2_induct)
  case Nil
  then show ?case by simp
next
  case (Cons x xs y ys)
  then have "op_key y = op_key x" by (simp add: op_forward_def op_command_def)
  with Cons show ?case by (auto split: if_splits)
qed

lemma ops_forward_find:
  assumes "ops_forward a b" "List.find (\<lambda>q. op_key q = k) (operations a) = Some r"
  obtains q where "List.find (\<lambda>q. op_key q = k) (operations b) = Some q" "op_forward r q"
proof -
  obtain old new where "operations b = old @ new" "list_all2 op_forward (operations a) old"
    using assms(1) unfolding ops_forward_def by blast
  then show ?thesis using find_forward [OF _ assms(2)] that by metis
qed

lemma sameOperationCommand_forward: "op_forward r q \<Longrightarrow> sameOperationCommand q = sameOperationCommand r"
  by (auto simp: op_forward_def op_command_def sameOperationCommand_def fun_eq_iff)

lemma sameOperationCommand_new:
  "request_ok r \<Longrightarrow> sameOperationCommand (new_operation_row (prepared_for i r)\<lparr>op_river_job := j\<rparr>) s \<longleftrightarrow>
     sq_Kind s = sq_Kind r \<and> sq_ResourceType s = sq_ResourceType r \<and> sq_ResourceID s = sq_ResourceID r \<and>
     sq_MaxAttempts s = sq_MaxAttempts r \<and> sq_Timeout s div second = sq_Timeout r div second \<and>
     map_of (sq_Payload s) = map_of (sq_Payload r)"
  by (auto simp: sameOperationCommand_def new_operation_row_def prepared_for_def nullableResource_def
    valueOrEmpty_def UUIDFromPG_def jsonValuesEqual_iff request_ok_def Let_def)


lemma ScheduleInTx_apply:
  assumes "request_ok r" "e_new_uuid env (uuid_calls db) \<noteq> uuid_nil"
  shows "ScheduleInTx env r db = tx_map_error wrapScheduleError
    (scheduleInScope env (prepared_for (e_new_uuid env (uuid_calls db)) r)) (uuid_calls_update Suc db)"
  using prepareOperation_ok [OF assms] by (simp add: ScheduleInTx_def)

lemma ScheduleInTx_InrD:
  assumes "ScheduleInTx env r db = Inr (res, db')"
  shows "request_ok r" "e_new_uuid env (uuid_calls db) \<noteq> uuid_nil"
    "scheduleInScope env (prepared_for (e_new_uuid env (uuid_calls db)) r) (uuid_calls_update Suc db) = Inr (res, db')"
proof -
  have "\<exists>p d. prepareOperation env r db = Inr (p, d)"
    using assms by (auto simp: ScheduleInTx_def tx_bind_eq_Inr_iff)
  then show ok: "request_ok r" "e_new_uuid env (uuid_calls db) \<noteq> uuid_nil"
    using prepareOperation_InrD by blast+
  show "scheduleInScope env (prepared_for (e_new_uuid env (uuid_calls db)) r) (uuid_calls_update Suc db) = Inr (res, db')"
    using assms ScheduleInTx_apply [OF ok] by (simp add: tx_map_error_def split: sum.splits)
qed

text \<open>After a successful request the row its key finds is the operation of the result.\<close>

lemma scheduled_row_found:
  assumes "ScheduleInTx env r db = Inr (res, db')"
  obtains q where "List.find (\<lambda>q. op_key q = trim_space (sq_IdempotencyKey r)) (operations db') = Some q"
    "sr_Operation res = operationFromDB q"
    "sameOperationCommand q = sameOperationCommand (new_operation_row (prepared_for i r)\<lparr>op_river_job := j\<rparr>)"
proof -
  note d = ScheduleInTx_InrD [OF assms]
  let ?p = "prepared_for (e_new_uuid env (uuid_calls db)) r" and ?d = "uuid_calls_update Suc db"
  let ?k = "trim_space (sq_IdempotencyKey r)"
  have key: "sq_IdempotencyKey (po_request ?p) = ?k" by (simp add: prepared_for_def)
  show thesis
  proof (cases "List.find (\<lambda>q. op_key q = ?k) (operations db)")
    case None
    then have "\<forall>q \<in> set (operations ?d). op_key q \<noteq> sq_IdempotencyKey (po_request ?p)"
      by (simp add: find_eq_None_iff key)
    from schedule_new_iff [OF this d(3)] obtain job where
      "res = \<lparr>sr_Operation = operationFromDB ((new_operation_row ?p)\<lparr>op_river_job := Some job\<rparr>), sr_Created = True\<rparr>"
      "operations db' = operations db @ [(new_operation_row ?p)\<lparr>op_river_job := Some job\<rparr>]" by auto
    with None show thesis
      by (intro that [of "(new_operation_row ?p)\<lparr>op_river_job := Some job\<rparr>"])
        (simp_all add: find_append_new find_eq_None_iff key fun_eq_iff sameOperationCommand_new [OF d(1)])
  next
    case (Some q)
    then have "List.find (\<lambda>q. op_key q = sq_IdempotencyKey (po_request ?p)) (operations ?d) = Some q"
      by (simp add: key)
    from schedule_existing [OF this, of env] d(3) have
      "sameOperationCommand q (po_request ?p)" "db' = ?d" "sr_Operation res = operationFromDB q"
      by (auto split: if_splits)
    moreover from this(1) have "sameOperationCommand q s \<longleftrightarrow>
        sameOperationCommand (new_operation_row (prepared_for i r)\<lparr>op_river_job := j\<rparr>) s" for s
      using d(1) unfolding sameOperationCommand_new [OF d(1)]
      by (auto simp: sameOperationCommand_def prepared_for_def jsonValuesEqual_iff)
    ultimately show thesis using Some by (intro that [of q]) auto
  qed
qed

section \<open>What a new request creates\<close>



section \<open>Properties\<close>


text \<open>
  C9: Whatever happened to the operations since a request succeeded, a valid request with the same
  trimmed key is answered from the row the first one made: the same command gets the same operation
  back and changes nothing but the number of identifiers drawn, any other command is refused as an
  idempotency conflict.
\<close>

theorem schedule_idempotent:
  assumes "ScheduleInTx env r db = Inr (res, db1)" "ops_forward db1 db2"
    "request_ok s" "trim_space (sq_IdempotencyKey s) = trim_space (sq_IdempotencyKey r)"
    "e_new_uuid env (uuid_calls db2) \<noteq> uuid_nil"
  shows "\<exists>q. op_id q = ov_ID (sr_Operation res) \<and> List.member (operations db2) q \<and>
    ScheduleInTx env s db2 =
      (if sq_Kind s = sq_Kind r \<and> sq_ResourceType s = sq_ResourceType r \<and> sq_ResourceID s = sq_ResourceID r \<and>
          sq_MaxAttempts s = sq_MaxAttempts r \<and> sq_Timeout s div second = sq_Timeout r div second \<and>
          map_of (sq_Payload s) = map_of (sq_Payload r)
       then Inr (\<lparr>sr_Operation = operationFromDB q, sr_Created = False\<rparr>, uuid_calls_update Suc db2)
       else Inl (idempotency_conflict (trim_space (sq_IdempotencyKey s))))"
proof -
  note d = ScheduleInTx_InrD [OF assms(1)]
  obtain q1 where q1: "List.find (\<lambda>q. op_key q = trim_space (sq_IdempotencyKey r)) (operations db1) = Some q1"
    "sr_Operation res = operationFromDB q1"
    "sameOperationCommand q1 = sameOperationCommand (new_operation_row (prepared_for 0 r)\<lparr>op_river_job := None\<rparr>)"
    using scheduled_row_found [OF assms(1)] by metis
  obtain q where q: "List.find (\<lambda>q. op_key q = trim_space (sq_IdempotencyKey r)) (operations db2) = Some q"
    "op_forward q1 q" using ops_forward_find [OF assms(2) q1(1)] .
  let ?p = "prepared_for (e_new_uuid env (uuid_calls db2)) s"
  have "List.find (\<lambda>q. op_key q = sq_IdempotencyKey (po_request ?p)) (operations (uuid_calls_update Suc db2)) = Some q"
    using q(1) assms(4) by (simp add: prepared_for_def)
  note run = schedule_existing [OF this, of env]
  have "sameOperationCommand q (po_request ?p) \<longleftrightarrow> sq_Kind s = sq_Kind r \<and> sq_ResourceType s = sq_ResourceType r \<and>
      sq_ResourceID s = sq_ResourceID r \<and> sq_MaxAttempts s = sq_MaxAttempts r \<and>
      sq_Timeout s div second = sq_Timeout r div second \<and> map_of (sq_Payload s) = map_of (sq_Payload r)"
    unfolding sameOperationCommand_forward [OF q(2)] q1(3) sameOperationCommand_new [OF d(1)]
    by (simp add: prepared_for_def)
  moreover have "op_id q = ov_ID (sr_Operation res)"
    using q(2) q1(2) by (simp add: op_forward_def op_command_def operationFromDB_def)
  moreover have "List.member (operations db2) q" using find_eq_SomeD [OF q(1)] by simp
  ultimately show ?thesis
    unfolding ScheduleInTx_apply [OF assms(3,5)] tx_map_error_def run
    by (auto simp: wrapScheduleError_def idempotency_conflict_def NewError_def prepared_for_def)
qed


definition sample_env :: env where
  "sample_env = \<lparr>e_new_uuid = (\<lambda>n. n + 1), e_new_sha1 = (\<lambda>s. 1000 + length s), e_uuid_string = nat_str,
     e_sha256_hex = (\<lambda>s. s), e_insert_tx = (\<lambda>js j. Inr (False, Some (int (length js) + 1)))\<rparr>"

definition import_request :: ScheduleOperationRequest where
  "import_request = \<lparr>sq_Kind = ''emby.import'', sq_ResourceType = ''episode_task'', sq_ResourceID = 7,
     sq_IdempotencyKey = lit '' key '', sq_MaxAttempts = 3, sq_Timeout = 1800 * second,
     sq_Payload = [(''importId'', JUuid 9)], sq_ActorUserID = 5\<rparr>"

lemma import_request_runs:
  "\<exists>res d. ScheduleInTx sample_env import_request empty_db = Inr (res, d) \<and> sr_Created res \<and>
     ov_ID (sr_Operation res) = 1 \<and> uuid_calls d = 2"
proof -
  have "(case ScheduleInTx sample_env import_request empty_db of Inl e \<Rightarrow> False
     | Inr (res, d) \<Rightarrow> sr_Created res \<and> ov_ID (sr_Operation res) = 1 \<and> uuid_calls d = 2)" by code_simp
  then show ?thesis by (auto split: sum.splits)
qed


theorem schedule_idempotent_witness:
  "\<exists>res d q. ScheduleInTx sample_env import_request empty_db = Inr (res, d) \<and>
     op_id q = 1 \<and> List.member (operations d) q \<and>
     ScheduleInTx sample_env import_request d = Inr (\<lparr>sr_Operation = operationFromDB q, sr_Created = False\<rparr>, uuid_calls_update Suc d)"
proof -
  obtain res d where run: "ScheduleInTx sample_env import_request empty_db = Inr (res, d)"
    "ov_ID (sr_Operation res) = 1" "uuid_calls d = 2" using import_request_runs by blast
  have "request_ok import_request" by code_simp
  moreover have "e_new_uuid sample_env (uuid_calls d) \<noteq> uuid_nil" by (simp add: sample_env_def)
  ultimately show ?thesis
    using schedule_idempotent [OF run(1) ops_rel.rel_refl, of import_request] run by auto
qed

end
