(* ===== verification/OperationLifecycle.thy ===== *)
theory OperationLifecycle
  imports OperationScheduler
begin

text \<open>
  The life of an operation under its worker: \<^verbatim>\<open>internal/repository/operation_lifecycle.go\<close>, the
  statements that carry a failed or cancelled operation over to its resource (in
  \<^verbatim>\<open>db/query/media.sql\<close>, \<^verbatim>\<open>tasks.sql\<close>, \<^verbatim>\<open>downloads.sql\<close>, \<^verbatim>\<open>rss.sql\<close>, \<^verbatim>\<open>searches.sql\<close>,
  \<^verbatim>\<open>agent.sql\<close> and \<^verbatim>\<open>catalog.sql\<close>) and the worker loop of \<^verbatim>\<open>internal/worker/runtime.go\<close>.
\<close>

section \<open>Statements on the resource of an operation\<close>

definition MarkDownloadEnqueueTerminalFailure :: "gostr \<Rightarrow> gostr \<Rightarrow> uuid option \<Rightarrow> Download option tx" where
  "MarkDownloadEnqueueTerminalFailure code message i = update_one downloads downloads_update
     (\<lambda>r. Some (dl_id r) = i \<and> dl_status r = DownloadEnqueuePending)
     (\<lambda>now r. r\<lparr>dl_status := DownloadFailed, dl_failure_stage := Some ''enqueue'',
        dl_error_code := Some code, dl_error_message := Some message, dl_version := dl_version r + 1\<rparr>)"

definition MarkDownloadFileResolutionTerminalFailure :: "gostr \<Rightarrow> gostr \<Rightarrow> uuid option \<Rightarrow> Download option tx" where
  "MarkDownloadFileResolutionTerminalFailure code message i = update_one downloads downloads_update
     (\<lambda>r. Some (dl_id r) = i \<and> dl_status r = DownloadFileResolutionPending)
     (\<lambda>now r. r\<lparr>dl_status := DownloadFailed, dl_failure_stage := Some ''file_resolution'',
        dl_error_code := Some code, dl_error_message := Some message, dl_version := dl_version r + 1\<rparr>)"

definition MarkDownloadSyncTerminalFailure :: "gostr \<Rightarrow> gostr \<Rightarrow> uuid option \<Rightarrow> Download option tx" where
  "MarkDownloadSyncTerminalFailure code message i = update_one downloads downloads_update
     (\<lambda>r. Some (dl_id r) = i \<and> dl_status r = DownloadDownloading)
     (\<lambda>now r. r\<lparr>dl_status := DownloadFailed, dl_failure_stage := Some ''sync'',
        dl_error_code := Some code, dl_error_message := Some message, dl_version := dl_version r + 1\<rparr>)"

definition MarkDownloadMaterializeTerminalFailure :: "gostr \<Rightarrow> gostr \<Rightarrow> uuid option \<Rightarrow> Download option tx" where
  "MarkDownloadMaterializeTerminalFailure code message i = update_one downloads downloads_update
     (\<lambda>r. Some (dl_id r) = i \<and> (dl_status r = DownloadCompleted \<or> dl_status r = DownloadSelectingFiles))
     (\<lambda>now r. r\<lparr>dl_status := DownloadFailed, dl_failure_stage := Some ''materialize'',
        dl_error_code := Some code, dl_error_message := Some message, dl_version := dl_version r + 1\<rparr>)"

text \<open>The RSS entry behind a download, if its acquisition came from one.\<close>

definition download_entry :: "db \<Rightarrow> uuid \<Rightarrow> uuid option" where
  "download_entry db i =
     (case List.find (\<lambda>d. dl_id d = i) (downloads db) of
        None \<Rightarrow> None
      | Some d \<Rightarrow> (case List.find (\<lambda>a. aq_id a = dl_acquisition_id d) (acquisitions db) of
                    None \<Rightarrow> None | Some a \<Rightarrow> aq_rss_entry_id a))"

definition MarkDownloadRSSEntryEnqueueFailed :: "gostr \<Rightarrow> gostr \<Rightarrow> bool \<Rightarrow> uuid \<Rightarrow> nat tx" where
  "MarkDownloadRSSEntryEnqueueFailed code message retryable i db =
     update_rows rss_entries rss_entries_update
       (\<lambda>r. download_entry db i = Some (re_id r) \<and> re_status r = RSSEnqueueing)
       (\<lambda>now r. r\<lparr>re_status := RSSEnqueueFailed, re_last_error_code := Some code,
          re_last_error_message := Some message, re_last_error_retryable := retryable\<rparr>) db"

definition MarkSearchRunTerminalFailure :: "gostr \<Rightarrow> gostr \<Rightarrow> uuid option \<Rightarrow> ResourceRun option tx" where
  "MarkSearchRunTerminalFailure code message i = update_one search_runs search_runs_update
     (\<lambda>r. Some (rr_id r) = i \<and> (rr_status r = RunQueued \<or> rr_status r = RunRunning))
     (\<lambda>now r. r\<lparr>rr_status := RunFailed, rr_error_code := Some code, rr_error_message := Some message,
        rr_completed_at := coalesce (rr_completed_at r) now\<rparr>)"

definition MarkSearchRunCancelled :: "uuid option \<Rightarrow> ResourceRun option tx" where
  "MarkSearchRunCancelled i = update_one search_runs search_runs_update
     (\<lambda>r. Some (rr_id r) = i \<and> (rr_status r = RunQueued \<or> rr_status r = RunRunning))
     (\<lambda>now r. r\<lparr>rr_status := RunCancelled, rr_completed_at := coalesce (rr_completed_at r) now\<rparr>)"

definition MarkAgentResolutionOperationTerminal ::
  "RunStatus \<Rightarrow> gostr \<Rightarrow> gostr \<Rightarrow> uuid option \<Rightarrow> ResourceRun option tx" where
  "MarkAgentResolutionOperationTerminal status code message i = update_one agent_resolutions agent_resolutions_update
     (\<lambda>r. Some (rr_id r) = i \<and> (rr_status r = RunQueued \<or> rr_status r = RunRunning \<or> rr_status r = RunProposed))
     (\<lambda>now r. r\<lparr>rr_status := status, rr_error_code := Some code, rr_error_message := Some message,
        rr_completed_at := Some now, rr_version := rr_version r + 1\<rparr>)"

definition FailEmbyScanRun :: "RunStatus \<Rightarrow> gostr \<Rightarrow> gostr \<Rightarrow> uuid option \<Rightarrow> ResourceRun option tx" where
  "FailEmbyScanRun status code message i = update_one emby_scans emby_scans_update
     (\<lambda>r. Some (rr_id r) = i \<and> (rr_status r = RunQueued \<or> rr_status r = RunRunning))
     (\<lambda>now r. r\<lparr>rr_status := status, rr_error_code := Some code, rr_error_message := Some message,
        rr_completed_at := Some now\<rparr>)"

definition video_active :: "EpisodeTask \<Rightarrow> bool" where
  "video_active r = (tk_video_state r = VideoTranscodeQueued \<or> tk_video_state r = VideoTranscoding)"

definition subtitle_active :: "EpisodeTask \<Rightarrow> bool" where
  "subtitle_active r = (tk_subtitle_state r = SubtitleQueued \<or> tk_subtitle_state r = SubtitleExtractingConverting)"

definition task_failed :: "string \<Rightarrow> gostr \<Rightarrow> gostr \<Rightarrow> EpisodeTask \<Rightarrow> EpisodeTask" where
  "task_failed stage code message r = r\<lparr>tk_state := TaskFailed, tk_failure_stage := Some stage,
     tk_error_code := Some code, tk_error_message := Some message, tk_version := tk_version r + 1\<rparr>"

definition task_cleared :: "TaskState \<Rightarrow> EpisodeTask \<Rightarrow> EpisodeTask" where
  "task_cleared st r = r\<lparr>tk_state := st, tk_failure_stage := None, tk_error_code := None,
     tk_error_message := None, tk_version := tk_version r + 1\<rparr>"

definition MarkTaskVideoTerminalFailure :: "gostr \<Rightarrow> gostr \<Rightarrow> uuid option \<Rightarrow> EpisodeTask option tx" where
  "MarkTaskVideoTerminalFailure code message i = update_one tasks tasks_update
     (\<lambda>r. Some (tk_id r) = i \<and> video_active r)
     (\<lambda>now r. task_failed ''video'' code message (r\<lparr>tk_video_state := VideoFailed\<rparr>))"

definition MarkTaskSubtitleTerminalFailure :: "gostr \<Rightarrow> gostr \<Rightarrow> uuid option \<Rightarrow> EpisodeTask option tx" where
  "MarkTaskSubtitleTerminalFailure code message i = update_one tasks tasks_update
     (\<lambda>r. Some (tk_id r) = i \<and> subtitle_active r)
     (\<lambda>now r. task_failed ''subtitle'' code message (r\<lparr>tk_subtitle_state := SubtitleFailed\<rparr>))"

definition MarkTaskFinalizeTerminalFailure :: "gostr \<Rightarrow> gostr \<Rightarrow> uuid option \<Rightarrow> EpisodeTask option tx" where
  "MarkTaskFinalizeTerminalFailure code message i = update_one tasks tasks_update
     (\<lambda>r. Some (tk_id r) = i \<and> tk_state r = TaskFinalizing)
     (\<lambda>now r. task_failed ''finalize'' code message r)"

definition MarkTaskImportTerminalFailure :: "gostr \<Rightarrow> gostr \<Rightarrow> uuid option \<Rightarrow> EpisodeTask option tx" where
  "MarkTaskImportTerminalFailure code message i = update_one tasks tasks_update
     (\<lambda>r. Some (tk_id r) = i \<and> (tk_state r = TaskImportQueued \<or> tk_state r = TaskImporting))
     (\<lambda>now r. task_failed ''import'' code message r)"

definition MarkTaskVideoCancelled :: "uuid option \<Rightarrow> EpisodeTask option tx" where
  "MarkTaskVideoCancelled i = update_one tasks tasks_update
     (\<lambda>r. Some (tk_id r) = i \<and> video_active r)
     (\<lambda>now r. task_cleared TaskCancelled (r\<lparr>tk_video_state := VideoCancelled\<rparr>))"

definition MarkTaskSubtitleCancelled :: "uuid option \<Rightarrow> EpisodeTask option tx" where
  "MarkTaskSubtitleCancelled i = update_one tasks tasks_update
     (\<lambda>r. Some (tk_id r) = i \<and> subtitle_active r)
     (\<lambda>now r. task_cleared TaskCancelled (r\<lparr>tk_subtitle_state := SubtitleCancelled\<rparr>))"

definition MarkTaskFinalizeCancelled :: "uuid option \<Rightarrow> EpisodeTask option tx" where
  "MarkTaskFinalizeCancelled i = update_one tasks tasks_update
     (\<lambda>r. Some (tk_id r) = i \<and> tk_state r = TaskFinalizing)
     (\<lambda>now r. task_cleared TaskCancelled r)"

definition CancelTaskImport :: "uuid option \<Rightarrow> EpisodeTask option tx" where
  "CancelTaskImport i = update_one tasks tasks_update
     (\<lambda>r. Some (tk_id r) = i \<and> (tk_state r = TaskImportQueued \<or> tk_state r = TaskImporting))
     (\<lambda>now r. task_cleared TaskCancelled r)"

text \<open>
  \<^verbatim>\<open>SELECT id ... WHERE task_id = $1 AND status IN (...) ORDER BY attempt DESC LIMIT 1\<close>: attempts of
  one task are distinct, so the first row with the largest attempt is the one selected.
\<close>

fun latest_by :: "('r \<Rightarrow> int) \<Rightarrow> 'r list \<Rightarrow> 'r option" where
  "latest_by attempt [] = None"
| "latest_by attempt (r # rs) =
     (case latest_by attempt rs of
        None \<Rightarrow> Some r
      | Some q \<Rightarrow> if attempt q > attempt r then Some q else Some r)"

definition import_active :: "Import \<Rightarrow> bool" where
  "import_active r = (im_status r = ImQueued \<or> im_status r = ImRunning)"

definition cleanup_active :: "CleanupRun \<Rightarrow> bool" where
  "cleanup_active r = (cl_status r = CleanupQueued \<or> cl_status r = CleanupRunning)"

definition update_latest_import :: "(Import \<Rightarrow> bool) \<Rightarrow> uuid option \<Rightarrow> (nat \<Rightarrow> Import \<Rightarrow> Import) \<Rightarrow> Import option tx" where
  "update_latest_import p task f db =
     (case latest_by im_attempt (filter (\<lambda>r. Some (im_task_id r) = task \<and> p r) (imports_tab db)) of
        None \<Rightarrow> Inr (None, db)
      | Some c \<Rightarrow> update_one imports_tab imports_tab_update (\<lambda>r. im_id r = im_id c) f db)"

definition update_latest_cleanup ::
  "(CleanupRun \<Rightarrow> bool) \<Rightarrow> uuid option \<Rightarrow> (nat \<Rightarrow> CleanupRun \<Rightarrow> CleanupRun) \<Rightarrow> CleanupRun option tx" where
  "update_latest_cleanup p task f db =
     (case latest_by cl_attempt (filter (\<lambda>r. Some (cl_task_id r) = task \<and> p r) (cleanups db)) of
        None \<Rightarrow> Inr (None, db)
      | Some c \<Rightarrow> update_one cleanups cleanups_update (\<lambda>r. cl_id r = cl_id c) f db)"

definition MarkActiveImportTerminalFailure :: "gostr \<Rightarrow> gostr \<Rightarrow> uuid option \<Rightarrow> Import option tx" where
  "MarkActiveImportTerminalFailure code message task = update_latest_import import_active task
     (\<lambda>now r. r\<lparr>im_status := ImFailed, im_error_code := Some code, im_error_message := Some message,
        im_completed_at := Some now\<rparr>)"

definition CancelActiveImport :: "uuid option \<Rightarrow> Import option tx" where
  "CancelActiveImport task = update_latest_import import_active task
     (\<lambda>now r. r\<lparr>im_status := ImCancelled, im_completed_at := Some now\<rparr>)"

definition MarkActiveCleanupTerminalFailure :: "gostr \<Rightarrow> gostr \<Rightarrow> uuid option \<Rightarrow> CleanupRun option tx" where
  "MarkActiveCleanupTerminalFailure code message task = update_latest_cleanup cleanup_active task
     (\<lambda>now r. r\<lparr>cl_status := CleanupFailed, cl_error_code := Some code, cl_error_message := Some message,
        cl_completed_at := Some now\<rparr>)"

definition CancelActiveCleanup :: "uuid option \<Rightarrow> CleanupRun option tx" where
  "CancelActiveCleanup task = update_latest_cleanup cleanup_active task
     (\<lambda>now r. r\<lparr>cl_status := CleanupCancelled, cl_completed_at := Some now\<rparr>)"

section \<open>Failing and cancelling the resource\<close>

definition appendTaskLifecycleEvent :: "env \<Rightarrow> uuid \<Rightarrow> uuid \<Rightarrow> string \<Rightarrow> payload \<Rightarrow> unit tx" where
  "appendTaskLifecycleEvent env taskID operationID topic data =
     append_event env topic (Some ''episode_task'') (Some taskID) (Some operationID) None data"

definition appendSearchLifecycleEvent :: "env \<Rightarrow> uuid \<Rightarrow> uuid \<Rightarrow> string \<Rightarrow> payload \<Rightarrow> unit tx" where
  "appendSearchLifecycleEvent env searchID operationID topic data =
     append_event env topic (Some ''search_run'') (Some searchID) (Some operationID) None data"

definition appendOperationEvent :: "env \<Rightarrow> Operation \<Rightarrow> string \<Rightarrow> payload \<Rightarrow> unit tx" where
  "appendOperationEvent env operation topic data =
     append_event env topic (op_resource_type operation) (op_resource_id operation)
       (Some (op_id operation)) None data"

abbreviation jtext :: "string \<Rightarrow> jval" where "jtext s \<equiv> JStr (lit s)"

definition failDownloadEnqueueResource :: "env \<Rightarrow> Operation \<Rightarrow> gostr \<Rightarrow> gostr \<Rightarrow> bool \<Rightarrow> unit tx" where
  "failDownloadEnqueueResource env operation code message retryable =
     tx_bind (MarkDownloadEnqueueTerminalFailure code message (op_resource_id operation)) (\<lambda>d.
       case d of
         None \<Rightarrow> tx_return ()
       | Some download \<Rightarrow>
           tx_seq (MarkDownloadRSSEntryEnqueueFailed code message retryable (dl_id download))
             (append_event env ''download.enqueue_failed'' (Some ''download'') (Some (dl_id download))
                (Some (op_id operation)) None [(''status'', jtext ''failed''), (''errorCode'', JStr code)]))"

definition failDownloadPostEnqueueResource :: "env \<Rightarrow> Operation \<Rightarrow> gostr \<Rightarrow> gostr \<Rightarrow> unit tx" where
  "failDownloadPostEnqueueResource env operation code message =
     (let kind = op_kind operation; rid = op_resource_id operation;
          stage = (if kind = ''download.materialize'' then ''materialize'' else ''sync'');
          finish = (\<lambda>d. case d of
             None \<Rightarrow> tx_return ()
           | Some download \<Rightarrow>
               append_event env (''download.'' @ stage @ ''_failed'') (Some ''download'') (Some (dl_id download))
                 (Some (op_id operation)) None
                 [(''status'', jtext ''failed''), (''failureStage'', jtext stage), (''errorCode'', JStr code)])
      in if kind = ''download.selection.apply'' then
           tx_bind (MarkDownloadFileResolutionTerminalFailure code message rid) finish
         else if kind = ''download.sync'' then
           tx_bind (MarkDownloadSyncTerminalFailure code message rid) finish
         else if kind = ''download.materialize'' then
           tx_bind (MarkDownloadMaterializeTerminalFailure code message rid) finish
         else tx_return ())"

definition failSearchRunResource :: "env \<Rightarrow> Operation \<Rightarrow> gostr \<Rightarrow> gostr \<Rightarrow> unit tx" where
  "failSearchRunResource env operation code message =
     tx_bind (MarkSearchRunTerminalFailure code message (op_resource_id operation)) (\<lambda>s.
       case s of
         None \<Rightarrow> tx_return ()
       | Some search \<Rightarrow> appendSearchLifecycleEvent env (rr_id search) (op_id operation) ''search.failed''
           [(''status'', jtext ''failed''), (''errorCode'', JStr code)])"

definition failTaskMediaResource :: "env \<Rightarrow> Operation \<Rightarrow> gostr \<Rightarrow> gostr \<Rightarrow> unit tx" where
  "failTaskMediaResource env operation code message =
     (let kind = op_kind operation; rid = op_resource_id operation;
          finish = (\<lambda>t. case t of
             None \<Rightarrow> tx_return ()
           | Some task \<Rightarrow> appendTaskLifecycleEvent env (tk_id task) (op_id operation) ''task.media_failed''
               [(''kind'', jtext kind), (''status'', jtext ''failed''), (''errorCode'', JStr code)])
      in if kind = ''transcode.run'' then tx_bind (MarkTaskVideoTerminalFailure code message rid) finish
         else if kind = ''subtitle.prepare'' then tx_bind (MarkTaskSubtitleTerminalFailure code message rid) finish
         else if kind = ''media.finalize'' then tx_bind (MarkTaskFinalizeTerminalFailure code message rid) finish
         else tx_return ())"

definition failTaskImportResource :: "env \<Rightarrow> Operation \<Rightarrow> gostr \<Rightarrow> gostr \<Rightarrow> unit tx" where
  "failTaskImportResource env operation code message =
     tx_bind (MarkActiveImportTerminalFailure code message (op_resource_id operation)) (\<lambda>i.
       case i of
         None \<Rightarrow> tx_return ()
       | Some _ \<Rightarrow>
           tx_bind (MarkTaskImportTerminalFailure code message (op_resource_id operation)) (\<lambda>t.
             case t of
               None \<Rightarrow> tx_return ()
             | Some task \<Rightarrow> appendTaskLifecycleEvent env (tk_id task) (op_id operation) ''task.import_failed''
                 [(''status'', jtext ''failed''), (''errorCode'', JStr code)]))"

definition failTaskCleanupResource :: "env \<Rightarrow> Operation \<Rightarrow> gostr \<Rightarrow> gostr \<Rightarrow> unit tx" where
  "failTaskCleanupResource env operation code message =
     tx_bind (MarkActiveCleanupTerminalFailure code message (op_resource_id operation)) (\<lambda>c.
       case c of
         None \<Rightarrow> tx_return ()
       | Some cleanup \<Rightarrow> appendTaskLifecycleEvent env (cl_task_id cleanup) (op_id operation) ''task.cleanup_failed''
           [(''status'', jtext ''failed''), (''errorCode'', JStr code)])"

fun run_status_str :: "RunStatus \<Rightarrow> string" where
  "run_status_str RunQueued = ''queued''"
| "run_status_str RunRunning = ''running''"
| "run_status_str RunProposed = ''proposed''"
| "run_status_str RunCompleted = ''completed''"
| "run_status_str RunFailed = ''failed''"
| "run_status_str RunCancelled = ''cancelled''"

definition failAgentResolutionResource :: "env \<Rightarrow> Operation \<Rightarrow> RunStatus \<Rightarrow> gostr \<Rightarrow> gostr \<Rightarrow> unit tx" where
  "failAgentResolutionResource env operation status code message =
     tx_bind (MarkAgentResolutionOperationTerminal status code message (op_resource_id operation)) (\<lambda>r.
       case r of
         None \<Rightarrow> tx_return ()
       | Some resolution \<Rightarrow>
           append_event env
             (if status = RunCancelled then ''agent.resolution_cancelled'' else ''agent.resolution_failed'')
             (Some ''agent_resolution'') (Some (rr_id resolution)) (Some (op_id operation)) None
             [(''status'', jtext (run_status_str status)), (''errorCode'', JStr code),
              (''capability'', JStr (rr_capability resolution))])"

definition failEmbyScanResource :: "env \<Rightarrow> Operation \<Rightarrow> RunStatus \<Rightarrow> gostr \<Rightarrow> gostr \<Rightarrow> unit tx" where
  "failEmbyScanResource env operation status code message =
     tx_bind (FailEmbyScanRun status code message (op_resource_id operation)) (\<lambda>s.
       case s of
         None \<Rightarrow> tx_return ()
       | Some scan \<Rightarrow>
           append_event env (if status = RunCancelled then ''emby.scan_cancelled'' else ''emby.scan_failed'')
             (Some ''emby_scan'') (Some (rr_id scan)) (Some (op_id operation)) None
             [(''status'', jtext (run_status_str status)), (''errorCode'', JStr code)])"

definition cancelOperationResource :: "env \<Rightarrow> Operation \<Rightarrow> unit tx" where
  "cancelOperationResource env operation =
     (let kind = op_kind operation; rtype = valueOrEmpty (op_resource_type operation);
          rid = op_resource_id operation;
          finish = (\<lambda>t. case t of
             None \<Rightarrow> tx_return ()
           | Some task \<Rightarrow> appendTaskLifecycleEvent env (tk_id task) (op_id operation) ''task.media_cancelled''
               [(''kind'', jtext kind), (''status'', jtext ''cancelled'')])
      in if kind = ''agent.resolve'' \<and> rtype = ''agent_resolution'' then
           failAgentResolutionResource env operation RunCancelled (lit ''operation_cancelled'')
             (lit ''the Agent resolution was cancelled'')
         else if kind = ''emby.scan'' \<and> rtype = ''emby_scan'' then
           failEmbyScanResource env operation RunCancelled (lit ''operation_cancelled'')
             (lit ''the Emby scan was cancelled'')
         else if kind = ''search.run'' \<and> rtype = ''search_run'' then
           tx_bind (MarkSearchRunCancelled rid) (\<lambda>s.
             case s of
               None \<Rightarrow> tx_return ()
             | Some search \<Rightarrow> appendSearchLifecycleEvent env (rr_id search) (op_id operation) ''search.cancelled''
                 [(''status'', jtext ''cancelled'')])
         else if rtype \<noteq> ''episode_task'' then tx_return ()
         else if kind = ''cleanup.run'' then
           tx_bind (CancelActiveCleanup rid) (\<lambda>c.
             case c of
               None \<Rightarrow> tx_return ()
             | Some cleanup \<Rightarrow> appendTaskLifecycleEvent env (cl_task_id cleanup) (op_id operation)
                 ''task.cleanup_cancelled'' [(''status'', jtext ''cancelled'')])
         else if kind = ''emby.import'' then
           tx_bind (CancelActiveImport rid) (\<lambda>i.
             case i of
               None \<Rightarrow> tx_return ()
             | Some _ \<Rightarrow>
                 tx_bind (CancelTaskImport rid) (\<lambda>t.
                   case t of
                     None \<Rightarrow> tx_return ()
                   | Some task \<Rightarrow> appendTaskLifecycleEvent env (tk_id task) (op_id operation)
                       ''task.import_cancelled'' [(''status'', jtext ''cancelled'')]))
         else if kind = ''transcode.run'' then tx_bind (MarkTaskVideoCancelled rid) finish
         else if kind = ''subtitle.prepare'' then tx_bind (MarkTaskSubtitleCancelled rid) finish
         else if kind = ''media.finalize'' then tx_bind (MarkTaskFinalizeCancelled rid) finish
         else tx_return ())"

section \<open>The lifecycle\<close>

text \<open>A statement of kind \<^verbatim>\<open>:one\<close> whose missing row is an error like any other.\<close>

definition required :: "string \<Rightarrow> 'r option tx \<Rightarrow> 'r tx" where
  "required what m = tx_bind m (\<lambda>v. case v of None \<Rightarrow> tx_fail (OtherError what) | Some r \<Rightarrow> tx_return r)"

definition StartAttempt :: "env \<Rightarrow> uuid \<Rightarrow> int \<Rightarrow> gostr \<Rightarrow> OperationView tx" where
  "StartAttempt env operationID attempt workerID =
     tx_seq (AbandonRunningOperationAttempts operationID)
     (tx_bind (StartOperationAttempt operationID) (\<lambda>started.
        case started of
          None \<Rightarrow>
            tx_bind (required ''lock non-runnable operation'' (LockOperation operationID)) (\<lambda>locked.
              if op_cancel_requested_at locked \<noteq> None \<and> active_op locked then
                tx_bind (required ''cancel operation before attempt'' (CancelOperation operationID)) (\<lambda>cancelled.
                  tx_seq (cancelOperationResource env cancelled)
                  (tx_seq (appendOperationEvent env cancelled ''operation.cancelled'' [(''beforeAttempt'', JBool True)])
                    (tx_return (operationFromDB cancelled))))
              else tx_fail ErrOperationNotRunnable)
        | Some operation \<Rightarrow>
            tx_bind (uuid_New env) (\<lambda>attemptID.
            tx_seq (CreateOperationAttempt \<lparr>at_id = attemptID, at_operation_id = operationID, at_attempt = attempt,
                      at_status = AtRunning, at_worker_id = Some workerID, at_error_code = None,
                      at_error_message = None, at_heartbeat_at = None, at_finished_at = None\<rparr>)
            (tx_seq (appendOperationEvent env operation ''operation.started'' [(''attempt'', JNum attempt)])
              (tx_return (operationFromDB operation))))))"

text \<open>\<^verbatim>\<open>Heartbeat\<close> runs its two statements outside a transaction.\<close>

definition Heartbeat :: "uuid \<Rightarrow> int \<Rightarrow> bool tx" where
  "Heartbeat operationID attempt =
     tx_bind (HeartbeatOperation operationID) (\<lambda>operationRows.
       if operationRows = 0 then tx_return False
       else tx_bind (HeartbeatOperationAttempt operationID attempt) (\<lambda>attemptRows.
         tx_return (attemptRows = 1)))"

definition SucceedAttempt :: "env \<Rightarrow> uuid \<Rightarrow> int \<Rightarrow> unit tx" where
  "SucceedAttempt env operationID attempt =
     tx_seq (required ''finish successful operation attempt''
               (FinishOperationAttempt AtSucceeded None None operationID attempt))
     (tx_bind (required ''complete operation'' (CompleteOperation operationID)) (\<lambda>operation.
        appendOperationEvent env operation ''operation.succeeded'' [(''attempt'', JNum attempt)]))"

definition failOperationResource :: "env \<Rightarrow> Operation \<Rightarrow> gostr \<Rightarrow> gostr \<Rightarrow> bool \<Rightarrow> unit tx" where
  "failOperationResource env locked code message retryable =
     (let kind = op_kind locked; rtype = valueOrEmpty (op_resource_type locked)
      in if kind = ''agent.resolve'' \<and> rtype = ''agent_resolution'' then
           failAgentResolutionResource env locked RunFailed code message
         else if kind = ''download.enqueue'' \<and> rtype = ''download'' then
           failDownloadEnqueueResource env locked code message retryable
         else if (kind = ''download.selection.apply'' \<or> kind = ''download.sync'' \<or> kind = ''download.materialize'') \<and>
                 rtype = ''download'' then
           failDownloadPostEnqueueResource env locked code message
         else if kind = ''search.run'' \<and> rtype = ''search_run'' then
           failSearchRunResource env locked code message
         else if rtype = ''episode_task'' \<and>
                 (kind = ''transcode.run'' \<or> kind = ''subtitle.prepare'' \<or> kind = ''media.finalize'') then
           failTaskMediaResource env locked code message
         else if rtype = ''episode_task'' \<and> kind = ''emby.import'' then
           failTaskImportResource env locked code message
         else if rtype = ''episode_task'' \<and> kind = ''cleanup.run'' then
           failTaskCleanupResource env locked code message
         else if rtype = ''emby_scan'' \<and> kind = ''emby.scan'' then
           failEmbyScanResource env locked RunFailed code message
         else tx_return ())"

definition FailAttempt :: "env \<Rightarrow> uuid \<Rightarrow> int \<Rightarrow> gostr \<Rightarrow> gostr \<Rightarrow> bool \<Rightarrow> unit tx" where
  "FailAttempt env operationID attempt code message retryable =
     tx_bind (required ''lock failed operation'' (LockOperation operationID)) (\<lambda>locked.
       if op_cancel_requested_at locked \<noteq> None then
         tx_seq (required ''finish cancelled operation attempt''
                   (FinishOperationAttempt AtCancelled None None operationID attempt))
         (tx_bind (required ''cancel operation after concurrent request'' (CancelOperation operationID)) (\<lambda>operation.
            tx_seq (cancelOperationResource env operation)
              (appendOperationEvent env operation ''operation.cancelled'' [(''attempt'', JNum attempt)])))
       else
         tx_seq (required ''finish failed operation attempt''
                   (FinishOperationAttempt AtFailed (Some code) (Some message) operationID attempt))
         (if retryable \<and> op_attempt_count locked < op_max_attempts locked then
            tx_bind (required ''schedule operation retry'' (RetryOperation code message operationID)) (\<lambda>operation.
              appendOperationEvent env operation ''operation.retry_scheduled''
                [(''attempt'', JNum attempt), (''errorCode'', JStr code)])
          else
            tx_seq (failOperationResource env locked code message retryable)
            (tx_bind (required ''fail operation'' (FailOperation code message operationID)) (\<lambda>operation.
               appendOperationEvent env operation ''operation.failed''
                 [(''attempt'', JNum attempt), (''errorCode'', JStr code)]))))"

definition CancelAttempt :: "env \<Rightarrow> uuid \<Rightarrow> int \<Rightarrow> unit tx" where
  "CancelAttempt env operationID attempt =
     tx_seq (required ''finish cancelled operation attempt''
               (FinishOperationAttempt AtCancelled None None operationID attempt))
     (tx_bind (required ''cancel operation'' (CancelOperation operationID)) (\<lambda>operation.
        tx_seq (cancelOperationResource env operation)
          (appendOperationEvent env operation ''operation.cancelled'' [(''attempt'', JNum attempt)])))"

definition SnoozeAttempt :: "uuid \<Rightarrow> int \<Rightarrow> unit tx" where
  "SnoozeAttempt operationID attempt =
     tx_bind (DeleteSnoozedOperationAttempt operationID attempt) (\<lambda>deleted.
       if deleted \<noteq> 1 then tx_fail (OtherError ''delete snoozed operation attempt: expected one running attempt'')
       else tx_seq (required ''snooze operation'' (SnoozeOperation operationID)) (tx_return ()))"

section \<open>The worker\<close>

text \<open>
  What the handler returned and why its context ended, as far as \<^verbatim>\<open>operationWorker.Work\<close> looks at
  them: the cause is \<open>Finished\<close> when only \<^verbatim>\<open>errWorkerFinished\<close> was recorded.
\<close>

datatype handler_error =
    HandlerFailure gostr gostr bool   \<comment> \<open>a \<^verbatim>\<open>*Failure\<close> in the chain: code, message, retryable\<close>
  | HandlerSnooze                     \<comment> \<open>a \<^verbatim>\<open>*river.JobSnoozeError\<close>\<close>
  | HandlerError gostr                \<comment> \<open>any other error, with its text\<close>

datatype work_cause = Finished | CancelledByRequest | Interrupted gostr

record Failure =
  fl_Code :: gostr
  fl_Message :: gostr
  fl_Retryable :: bool

definition classifyFailure :: "handler_error option \<Rightarrow> gostr option \<Rightarrow> Failure" where
  "classifyFailure handlerErr contextCause =
     (case (handlerErr, contextCause) of
        (Some (HandlerFailure c m r), _) \<Rightarrow> \<lparr>fl_Code = c, fl_Message = m, fl_Retryable = r\<rparr>
      | (_, Some cause) \<Rightarrow> \<lparr>fl_Code = lit ''operation_interrupted'', fl_Message = cause, fl_Retryable = True\<rparr>
      | (None, None) \<Rightarrow> \<lparr>fl_Code = lit ''operation_failed'', fl_Message = lit ''operation failed without an error'',
          fl_Retryable = True\<rparr>
      | (Some (HandlerError m), None) \<Rightarrow> \<lparr>fl_Code = lit ''operation_failed'', fl_Message = m, fl_Retryable = True\<rparr>
      | (Some HandlerSnooze, None) \<Rightarrow> \<lparr>fl_Code = lit ''operation_failed'', fl_Message = lit ''job snooze'',
          fl_Retryable = True\<rparr>)"

text \<open>What River is told: done, try again later, give up, or retry.\<close>

datatype river_result = RiverDone | RiverSnooze | RiverCancel | RiverError

definition finish_work ::
  "env \<Rightarrow> uuid \<Rightarrow> int \<Rightarrow> handler_error option \<Rightarrow> work_cause \<Rightarrow> bool \<Rightarrow> db \<Rightarrow> river_result \<times> db" where
  "finish_work env operationID attempt handlerErr cause shutdown db =
     (let record_as = (\<lambda>m r. case WithinTx m db of (Inl e, db') \<Rightarrow> (RiverError, db') | (Inr _, db') \<Rightarrow> (r, db'));
          contextCause = (case cause of Interrupted m \<Rightarrow> Some m | _ \<Rightarrow> None);
          failure = classifyFailure handlerErr contextCause
      in if cause = CancelledByRequest then record_as (CancelAttempt env operationID attempt) RiverCancel
         else if shutdown then record_as (SnoozeAttempt operationID attempt) RiverSnooze
         else if cause = Finished \<and> handlerErr = Some HandlerSnooze then
           record_as (SnoozeAttempt operationID attempt) RiverSnooze
         else if cause = Finished \<and> handlerErr = None then
           record_as (SucceedAttempt env operationID attempt) RiverDone
         else record_as (FailAttempt env operationID attempt (fl_Code failure) (fl_Message failure) (fl_Retryable failure))
           (if fl_Retryable failure then RiverError else RiverCancel))"

text \<open>
  \<^verbatim>\<open>Work\<close>: the handler and the heartbeats run between the two transactions; they are given by the
  store they leave and by what the handler returns.
\<close>

definition Work ::
  "env \<Rightarrow> uuid \<Rightarrow> int \<Rightarrow> gostr \<Rightarrow> (OperationView \<Rightarrow> db \<Rightarrow> (handler_error option \<times> work_cause \<times> bool) \<times> db) \<Rightarrow>
     db \<Rightarrow> river_result \<times> db" where
  "Work env operationID attempt workerID handler db =
     (case WithinTx (StartAttempt env operationID attempt workerID) db of
        (Inl e, db') \<Rightarrow> (if e = ErrOperationNotRunnable then RiverCancel else RiverError, db')
      | (Inr operation, db') \<Rightarrow>
          if ov_Status operation = OpCancelled then (RiverCancel, db')
          else (case handler operation db' of
                  ((handlerErr, cause, shutdown), db'') \<Rightarrow>
                    finish_work env operationID attempt handlerErr cause shutdown db''))"

section \<open>What the lifecycle may change\<close>

text \<open>Failing or cancelling the resource of an operation leaves the operations to the caller.\<close>

definition ops_frame :: "db \<Rightarrow> db \<Rightarrow> bool" where
  "ops_frame a b \<longleftrightarrow> clock b = clock a \<and> operations b = operations a \<and> op_attempts b = op_attempts a \<and>
     river_jobs b = river_jobs a"

interpretation frame_rel: tx_relation ops_frame
  by unfold_locales (simp_all add: ops_frame_def)

lemma log_only_ops_frame: "maintains log_only m \<Longrightarrow> maintains ops_frame m"
  by (erule maintains_mono) (simp add: ops_frame_def log_only_frame)

lemma resource_statements_frame:
  "maintains ops_frame (MarkDownloadEnqueueTerminalFailure c m i)"
  "maintains ops_frame (MarkDownloadFileResolutionTerminalFailure c m i)"
  "maintains ops_frame (MarkDownloadSyncTerminalFailure c m i)"
  "maintains ops_frame (MarkDownloadMaterializeTerminalFailure c m i)"
  "maintains ops_frame (MarkSearchRunTerminalFailure c m i)"
  "maintains ops_frame (MarkSearchRunCancelled i)"
  "maintains ops_frame (MarkAgentResolutionOperationTerminal st c m i)"
  "maintains ops_frame (FailEmbyScanRun st c m i)"
  "maintains ops_frame (MarkTaskVideoTerminalFailure c m i)"
  "maintains ops_frame (MarkTaskSubtitleTerminalFailure c m i)"
  "maintains ops_frame (MarkTaskFinalizeTerminalFailure c m i)"
  "maintains ops_frame (MarkTaskImportTerminalFailure c m i)"
  "maintains ops_frame (MarkTaskVideoCancelled i)"
  "maintains ops_frame (MarkTaskSubtitleCancelled i)"
  "maintains ops_frame (MarkTaskFinalizeCancelled i)"
  "maintains ops_frame (CancelTaskImport i)"
  unfolding MarkDownloadEnqueueTerminalFailure_def MarkDownloadFileResolutionTerminalFailure_def
    MarkDownloadSyncTerminalFailure_def MarkDownloadMaterializeTerminalFailure_def
    MarkSearchRunTerminalFailure_def MarkSearchRunCancelled_def MarkAgentResolutionOperationTerminal_def
    FailEmbyScanRun_def MarkTaskVideoTerminalFailure_def MarkTaskSubtitleTerminalFailure_def
    MarkTaskFinalizeTerminalFailure_def MarkTaskImportTerminalFailure_def MarkTaskVideoCancelled_def
    MarkTaskSubtitleCancelled_def MarkTaskFinalizeCancelled_def CancelTaskImport_def
  by (intro frame_rel.keeps_update_one, simp add: ops_frame_def)+

lemma latest_statements_frame:
  "maintains ops_frame (update_latest_import p t f)"
  "maintains ops_frame (update_latest_cleanup q t g)"
  "maintains ops_frame (MarkDownloadRSSEntryEnqueueFailed c m r u)"
  by (auto simp: maintains_def update_latest_import_def update_latest_cleanup_def update_one_Inr_iff
    MarkDownloadRSSEntryEnqueueFailed_def update_rows_def ops_frame_def split: option.splits)

lemmas event_frame = append_event_log_only [THEN log_only_ops_frame]
  appendResourceEvent_log_only [THEN log_only_ops_frame] uuid_New_log_only [THEN log_only_ops_frame]

lemmas frame_rules = frame_rel.keeps resource_statements_frame latest_statements_frame event_frame

lemma cancelOperationResource_frame: "maintains ops_frame (cancelOperationResource env operation)"
  unfolding cancelOperationResource_def failAgentResolutionResource_def failEmbyScanResource_def
    CancelActiveCleanup_def CancelActiveImport_def appendSearchLifecycleEvent_def
    appendTaskLifecycleEvent_def Let_def
  by (intro frame_rules)

lemma failOperationResource_frame: "maintains ops_frame (failOperationResource env operation c m r)"
  unfolding failOperationResource_def failAgentResolutionResource_def failEmbyScanResource_def
    failDownloadEnqueueResource_def failDownloadPostEnqueueResource_def failSearchRunResource_def
    failTaskMediaResource_def failTaskImportResource_def failTaskCleanupResource_def
    MarkActiveImportTerminalFailure_def MarkActiveCleanupTerminalFailure_def
    appendSearchLifecycleEvent_def appendTaskLifecycleEvent_def Let_def
  by (intro frame_rules)

lemma appendOperationEvent_frame: "maintains ops_frame (appendOperationEvent env operation t d)"
  unfolding appendOperationEvent_def by (intro frame_rules)

lemma ops_frame_forward: "maintains ops_frame m \<Longrightarrow> maintains ops_forward m"
  by (erule maintains_mono) (simp add: ops_forward_frame ops_frame_def)

lemma required_Inr_iff: "required what m db = Inr (r, db') \<longleftrightarrow> m db = Inr (Some r, db')"
  by (auto simp: required_def tx_bind_def split: sum.splits option.splits prod.splits)

lemma keeps_required: "maintains R m \<Longrightarrow> maintains R (required what m)"
  by (auto simp: maintains_def required_Inr_iff)

lemmas lifecycle_forward_rules = forward_rules keeps_required
  cancelOperationResource_frame [THEN ops_frame_forward] failOperationResource_frame [THEN ops_frame_forward]
  appendOperationEvent_frame [THEN ops_frame_forward]

lemma lifecycle_forward:
  "maintains ops_forward (StartAttempt env i n w)"
  "maintains ops_forward (Heartbeat i n)"
  "maintains ops_forward (SucceedAttempt env i n)"
  "maintains ops_forward (FailAttempt env i n c m r)"
  "maintains ops_forward (CancelAttempt env i n)"
  "maintains ops_forward (SnoozeAttempt i n)"
  unfolding StartAttempt_def Heartbeat_def SucceedAttempt_def FailAttempt_def CancelAttempt_def SnoozeAttempt_def
  by (intro lifecycle_forward_rules)+


section \<open>The invariant of operations and attempts\<close>

text \<open>The checks of the tables \<^verbatim>\<open>operations\<close> and \<^verbatim>\<open>operation_attempts\<close>.\<close>

definition operation_row_ok :: "Operation \<Rightarrow> bool" where
  "operation_row_ok r \<longleftrightarrow> 0 < op_max_attempts r \<and> 0 \<le> op_attempt_count r \<and> op_attempt_count r \<le> op_max_attempts r \<and>
     0 < op_timeout_seconds r \<and> (op_resource_type r = None) = (op_resource_id r = None) \<and>
     (op_finished_at r \<noteq> None) = op_terminal r \<and>
     (op_status r = OpFailed \<longrightarrow> (\<exists>c m. op_error_code r = Some c \<and> op_error_message r = Some m \<and> not_blank c \<and> not_blank m)) \<and>
     (op_status r = OpRunning \<longrightarrow> 0 < op_attempt_count r)"

definition attempt_row_ok :: "OperationAttempt \<Rightarrow> bool" where
  "attempt_row_ok a \<longleftrightarrow> (at_finished_at a = None) = (at_status a = AtRunning) \<and>
     (at_status a = AtFailed \<longrightarrow> (\<exists>c m. at_error_code a = Some c \<and> at_error_message a = Some m \<and> not_blank c \<and> not_blank m))"

definition running_of :: "uuid \<Rightarrow> OperationAttempt list \<Rightarrow> nat" where
  "running_of i as = length (filter (\<lambda>a. at_operation_id a = i \<and> at_status a = AtRunning) as)"

definition op_inv :: "db \<Rightarrow> bool" where
  "op_inv db \<longleftrightarrow> distinct (map op_id (operations db)) \<and>
     (\<forall>r \<in> set (operations db). operation_row_ok r \<and>
        running_of (op_id r) (op_attempts db) = (if op_status r = OpRunning then 1 else 0)) \<and>
     (\<forall>a \<in> set (op_attempts db). attempt_row_ok a \<and> (\<exists>r \<in> set (operations db). op_id r = at_operation_id a))"

lemma op_inv_cong:
  "operations b = operations a \<Longrightarrow> op_attempts b = op_attempts a \<Longrightarrow> op_inv b = op_inv a"
  by (simp add: op_inv_def)

lemma running_of_append: "running_of i (as @ [a]) =
    running_of i as + (if at_operation_id a = i \<and> at_status a = AtRunning then 1 else 0)"
  by (simp add: running_of_def)

lemma running_of_upd:
  assumes "\<And>a. p a \<Longrightarrow> at_operation_id a = i \<and> at_status a = AtRunning"
    and "\<And>a. p a \<Longrightarrow> at_operation_id (f a) = i \<and> at_status (f a) \<noteq> AtRunning"
  shows "running_of j (upd_row p f as) = (if j = i then running_of i as - length (filter p as) else running_of j as)"
    and "length (filter p as) \<le> running_of i as"
proof -
  have "running_of j (upd_row p f as) + (if j = i then length (filter p as) else 0) = running_of j as"
  proof (induction as)
    case (Cons a as)
    then show ?case using assms [of a] by (cases "p a") (auto simp: running_of_def)
  qed (simp add: running_of_def)
  then show "running_of j (upd_row p f as) = (if j = i then running_of i as - length (filter p as) else running_of j as)"
    by (auto split: if_splits)
  show "length (filter p as) \<le> running_of i as"
  proof (induction as)
    case (Cons a as)
    then show ?case using assms(1) [of a] by (cases "p a") (auto simp: running_of_def)
  qed (simp add: running_of_def)
qed

lemma running_of_filter:
  assumes "\<And>a. p a \<Longrightarrow> at_operation_id a = i \<and> at_status a = AtRunning"
  shows "running_of j (filter (\<lambda>a. \<not> p a) as) = (if j = i then running_of i as - length (filter p as) else running_of j as)"
proof -
  have "running_of j (filter (\<lambda>a. \<not> p a) as) + (if j = i then length (filter p as) else 0) = running_of j as"
  proof (induction as)
    case (Cons a as)
    then show ?case using assms [of a] by (cases "p a") (auto simp: running_of_def)
  qed (simp add: running_of_def)
  then show ?thesis by (auto split: if_splits)
qed

lemma op_invD:
  assumes "op_inv db" "List.find p (operations db) = Some r"
  shows "operation_row_ok r" "running_of (op_id r) (op_attempts db) = (if op_status r = OpRunning then 1 else 0)"
    "p r" "r \<in> set (operations db)"
  using assms find_eq_SomeD [OF assms(2)] by (auto simp: op_inv_def)

text \<open>One row changes together with the attempts of its operation.\<close>

lemma op_inv_update:
  assumes inv: "op_inv a" and find: "List.find p (operations a) = Some r"
    and p: "\<And>q. p q \<Longrightarrow> op_id q = i" and f: "op_id (f r) = i" "operation_row_ok (f r)"
    and ops: "operations b = upd_row p f (operations a)"
    and other: "\<And>j. j \<noteq> i \<Longrightarrow> running_of j (op_attempts b) = running_of j (op_attempts a)"
    and run: "running_of i (op_attempts b) = (if op_status (f r) = OpRunning then 1 else 0)"
    and atts: "\<And>x. x \<in> set (op_attempts b) \<Longrightarrow> attempt_row_ok x \<and>
      (at_operation_id x = i \<or> (\<exists>y \<in> set (op_attempts a). at_operation_id y = at_operation_id x))"
  shows "op_inv b"
proof -
  have r: "r \<in> set (operations a)" "p r" using find_eq_SomeD [OF find] by auto
  have dist: "distinct (map op_id (operations a))" using inv by (simp add: op_inv_def)
  have uniq: "q = r" if "q \<in> set (operations a)" "op_id q = i" for q
    using that r p dist by (metis (no_types, lifting) distinct_map inj_onD)
  have upd: "upd_row p f (operations a) = map (\<lambda>q. if op_id q = i then f r else q) (operations a)"
    unfolding upd_row_def
  proof (rule map_cong [OF refl])
    fix q assume "q \<in> set (operations a)"
    then show "(if p q then f q else q) = (if op_id q = i then f r else q)"
      using uniq [of q] p [of q] r(2) by (cases "op_id q = i") auto
  qed
  have "map op_id (operations b) = map op_id (operations a)"
    unfolding ops upd using f(1) by auto
  then have "distinct (map op_id (operations b))" using dist by simp
  moreover have "operation_row_ok q \<and> running_of (op_id q) (op_attempts b) = (if op_status q = OpRunning then 1 else 0)"
    if q: "q \<in> set (operations b)" for q
  proof -
    consider "q = f r" | "q \<in> set (operations a)" "op_id q \<noteq> i"
      using q unfolding ops upd by (auto split: if_splits)
    then show ?thesis
    proof cases
      case 1 then show ?thesis using f run by simp
    next
      case 2 then show ?thesis using inv other by (simp add: op_inv_def)
    qed
  qed
  moreover have "attempt_row_ok x \<and> (\<exists>q \<in> set (operations b). op_id q = at_operation_id x)"
    if x: "x \<in> set (op_attempts b)" for x
  proof -
    have "at_operation_id x \<in> op_id ` set (operations a)"
    proof (cases "at_operation_id x = i")
      case True
      then show ?thesis using r p [OF r(2)] by (metis imageI)
    next
      case False
      then obtain y where "y \<in> set (op_attempts a)" "at_operation_id y = at_operation_id x"
        using atts [OF x] by blast
      then show ?thesis using inv by (metis imageI op_inv_def)
    qed
    then have "at_operation_id x \<in> set (map op_id (operations b))"
      using \<open>map op_id (operations b) = map op_id (operations a)\<close> by simp
    then show ?thesis using atts [OF x] by auto
  qed
  ultimately show ?thesis by (auto simp: op_inv_def)
qed


section \<open>Effects of the lifecycle\<close>

definition abandoned :: "uuid \<Rightarrow> nat \<Rightarrow> OperationAttempt list \<Rightarrow> OperationAttempt list" where
  "abandoned i now = upd_row (\<lambda>r. at_operation_id r = i \<and> at_status r = AtRunning)
     (\<lambda>r. r\<lparr>at_status := AtFailed, at_error_code := Some (lit ''worker_interrupted''),
        at_error_message := Some (lit ''the previous worker stopped before finishing the attempt''),
        at_heartbeat_at := Some now, at_finished_at := Some now\<rparr>)"

definition finished_with :: "AttemptStatus \<Rightarrow> gostr option \<Rightarrow> gostr option \<Rightarrow> uuid \<Rightarrow> int \<Rightarrow> nat \<Rightarrow>
    OperationAttempt list \<Rightarrow> OperationAttempt list" where
  "finished_with st c m i n now = upd_row (\<lambda>r. at_operation_id r = i \<and> at_attempt r = n \<and> at_status r = AtRunning)
     (\<lambda>r. r\<lparr>at_status := st, at_error_code := c, at_error_message := m,
        at_heartbeat_at := Some now, at_finished_at := Some now\<rparr>)"

definition started_row :: "nat \<Rightarrow> Operation \<Rightarrow> Operation" where
  "started_row now = (\<lambda>r. r\<lparr>op_status := OpRunning, op_attempt_count := op_attempt_count r + 1,
     op_started_at := coalesce (op_started_at r) now, op_heartbeat_at := Some now,
     op_error_code := None, op_error_message := None\<rparr>)"

definition cancelled_row :: "nat \<Rightarrow> Operation \<Rightarrow> Operation" where
  "cancelled_row now = (\<lambda>r. r\<lparr>op_status := OpCancelled,
     op_cancel_requested_at := coalesce (op_cancel_requested_at r) now,
     op_heartbeat_at := (if op_status r = OpRunning then Some now else op_heartbeat_at r),
     op_finished_at := Some now\<rparr>)"

lemmas ops_frameD = maintainsD [OF cancelOperationResource_frame] maintainsD [OF failOperationResource_frame]
  maintainsD [OF appendOperationEvent_frame]

lemma running_of_abandoned: "running_of j (abandoned i now as) = (if j = i then 0 else running_of j as)"
  using running_of_upd(1) [of "\<lambda>r. at_operation_id r = i \<and> at_status r = AtRunning" i]
  by (simp add: abandoned_def running_of_def)

lemma abandoned_keys:
  "y \<in> set as \<Longrightarrow> \<exists>q \<in> set (abandoned i now as). at_operation_id q = at_operation_id y \<and> at_attempt q = at_attempt y"
  unfolding abandoned_def by (induction as) auto

lemma find_conj: "List.find p xs = Some x \<Longrightarrow> q x \<Longrightarrow> List.find (\<lambda>x. p x \<and> q x) xs = Some x"
  by (induction xs) (auto split: if_splits)

lemma lock_bind_iff:
  "tx_bind (required what (LockOperation i)) f a = Inr v \<longleftrightarrow>
     (\<exists>l. List.find (\<lambda>r. op_id r = i) (operations a) = Some l \<and> f l a = Inr v)"
  by (auto simp: tx_bind_eq_Inr_iff required_Inr_iff LockOperation_def select_one_def)

text \<open>Cancelling an operation and its resource, as three of the handlers do.\<close>

lemma cancel_tail:
  assumes "tx_bind (required what (CancelOperation i)) (\<lambda>c. tx_seq (cancelOperationResource env c)
      (tx_seq (appendOperationEvent env c t d) (tx_return (g c)))) a = Inr (v, b)"
  shows "\<exists>r. List.find (\<lambda>r. op_id r = i \<and> active_op r) (operations a) = Some r \<and> v = g (cancelled_row (clock a) r) \<and>
    operations b = upd_row (\<lambda>r. op_id r = i \<and> active_op r) (cancelled_row (clock a)) (operations a) \<and>
    op_attempts b = op_attempts a"
proof -
  obtain r a1 a2 a3 x y where
    r: "List.find (\<lambda>r. op_id r = i \<and> active_op r) (operations a) = Some r"
    and a1: "a1 = operations_update (upd_row (\<lambda>r. op_id r = i \<and> active_op r) (cancelled_row (clock a))) a"
    and run: "cancelOperationResource env (cancelled_row (clock a) r) a1 = Inr (x, a2)"
      "appendOperationEvent env (cancelled_row (clock a) r) t d a2 = Inr (y, a3)"
    and fin: "v = g (cancelled_row (clock a) r)" "b = a3"
    using assms
    by (auto simp: required_Inr_iff CancelOperation_def update_one_Some_iff cancelled_row_def
        tx_bind_eq_Inr_iff tx_seq_eq_Inr_iff)
  have "ops_frame a1 b" using ops_frameD(1) [OF run(1)] ops_frameD(3) [OF run(2)] frame_rel.rel_trans fin by blast
  then show ?thesis using r a1 fin by (auto simp: ops_frame_def)
qed

lemma StartAttempt_effect:
  assumes "StartAttempt env i n w a = Inr (v, b)"
  shows "(\<exists>r x. List.find (\<lambda>r. op_id r = i \<and> active_op r \<and> op_cancel_requested_at r = None \<and>
             op_attempt_count r < op_max_attempts r) (operations a) = Some r \<and>
           v = operationFromDB (started_row (clock a) r) \<and>
           operations b = upd_row (\<lambda>r. op_id r = i \<and> active_op r \<and> op_cancel_requested_at r = None \<and>
             op_attempt_count r < op_max_attempts r) (started_row (clock a)) (operations a) \<and>
           op_attempts b = abandoned i (clock a) (op_attempts a) @ [x] \<and>
           (\<forall>y \<in> set (op_attempts a). at_operation_id y = i \<longrightarrow> at_attempt y \<noteq> n) \<and>
           at_operation_id x = i \<and> at_attempt x = n \<and> at_status x = AtRunning \<and> at_finished_at x = None) \<or>
         (\<exists>r. List.find (\<lambda>r. op_id r = i \<and> active_op r) (operations a) = Some r \<and>
           op_cancel_requested_at r \<noteq> None \<and>
           v = operationFromDB (cancelled_row (clock a) r) \<and>
           operations b = upd_row (\<lambda>r. op_id r = i \<and> active_op r) (cancelled_row (clock a)) (operations a) \<and>
           op_attempts b = abandoned i (clock a) (op_attempts a))"
proof -
  let ?a1 = "op_attempts_update (abandoned i (clock a)) a"
  have ab: "AbandonRunningOperationAttempts i a = Inr (running_of i (op_attempts a), ?a1)"
    by (simp add: AbandonRunningOperationAttempts_def update_rows_def running_of_def abandoned_def)
  let ?p = "\<lambda>r. op_id r = i \<and> active_op r \<and> op_cancel_requested_at r = None \<and> op_attempt_count r < op_max_attempts r"
  show ?thesis
  proof (cases "List.find ?p (operations a)")
    case (Some r)
    then have "StartOperationAttempt i ?a1 = Inr (Some (started_row (clock a) r),
        operations_update (upd_row ?p (started_row (clock a))) ?a1)"
      by (simp add: StartOperationAttempt_def update_one_def started_row_def)
    with assms ab obtain x where x: "\<forall>q \<in> set (abandoned i (clock a) (op_attempts a)).
          \<not> (at_operation_id q = i \<and> at_attempt q = n)"
        "v = operationFromDB (started_row (clock a) r)"
        "operations b = upd_row ?p (started_row (clock a)) (operations a)"
        "op_attempts b = abandoned i (clock a) (op_attempts a) @ [x]"
        "at_operation_id x = i" "at_attempt x = n" "at_status x = AtRunning" "at_finished_at x = None"
      by (auto simp: StartAttempt_def CreateOperationAttempt_def insert_row_Inr_iff tx_bind_eq_Inr_iff
          tx_seq_eq_Inr_iff ops_frame_def dest!: ops_frameD)
    moreover have "\<forall>y \<in> set (op_attempts a). at_operation_id y = i \<longrightarrow> at_attempt y \<noteq> n"
      using x(1) abandoned_keys by metis
    ultimately show ?thesis using Some by blast
  next
    case None
    then have st: "StartOperationAttempt i ?a1 = Inr (None, ?a1)"
      by (simp add: StartOperationAttempt_def update_one_def)
    obtain l where l: "List.find (\<lambda>r. op_id r = i) (operations a) = Some l" "op_cancel_requested_at l \<noteq> None"
        "active_op l"
      and rest: "tx_bind (required ''cancel operation before attempt'' (CancelOperation i)) (\<lambda>c.
          tx_seq (cancelOperationResource env c) (tx_seq (appendOperationEvent env c ''operation.cancelled''
            [(''beforeAttempt'', JBool True)]) (tx_return (operationFromDB c)))) ?a1 = Inr (v, b)"
      using assms ab st
      by (auto simp: StartAttempt_def lock_bind_iff split: if_splits)
    have "List.find (\<lambda>r. op_id r = i \<and> active_op r) (operations a) = Some l"
      using find_conj [OF l(1), of active_op] l(3) by simp
    with cancel_tail [OF rest] l(2) show ?thesis by auto
  qed
qed


lemma FinishOperationAttempt_iff:
  "FinishOperationAttempt st c m i n a = Inr (Some x, b) \<longleftrightarrow>
     (\<exists>y. List.find (\<lambda>r. at_operation_id r = i \<and> at_attempt r = n \<and> at_status r = AtRunning) (op_attempts a) = Some y \<and>
        (st = AtFailed \<longrightarrow> (\<exists>cc mm. c = Some cc \<and> m = Some mm \<and> not_blank cc \<and> not_blank mm)) \<and>
        x = y\<lparr>at_status := st, at_error_code := c, at_error_message := m,
          at_heartbeat_at := Some (clock a), at_finished_at := Some (clock a)\<rparr> \<and>
        b = op_attempts_update (finished_with st c m i n (clock a)) a)"
  by (auto simp: FinishOperationAttempt_def update_one_Some_iff finished_with_def Let_def list_ex_iff
      split: if_splits option.splits dest: find_eq_SomeD)

lemma running_of_finished:
  assumes "st \<noteq> AtRunning" "running_of i as \<le> 1"
    "List.find (\<lambda>r. at_operation_id r = i \<and> at_attempt r = n \<and> at_status r = AtRunning) as = Some y"
  shows "running_of j (finished_with st c m i n now as) = (if j = i then 0 else running_of j as)"
proof -
  let ?p = "\<lambda>r. at_operation_id r = i \<and> at_attempt r = n \<and> at_status r = AtRunning"
  have "filter ?p as \<noteq> []" using find_eq_SomeD [OF assms(3)] by (auto simp: filter_empty_conv)
  then have "1 \<le> length (filter ?p as)" by (cases "filter ?p as") auto
  moreover have "length (filter ?p as) \<le> running_of i as"
    using running_of_upd(2) [of ?p i "\<lambda>r. r\<lparr>at_status := st\<rparr>"] assms(1) by simp
  moreover have "running_of j (finished_with st c m i n now as) =
      (if j = i then running_of i as - length (filter ?p as) else running_of j as)"
    unfolding finished_with_def by (rule running_of_upd(1)) (use assms(1) in auto)
  ultimately show ?thesis using assms(2) by auto
qed

lemma finished_with_rows:
  assumes "x \<in> set (finished_with st c m i n now as)" "\<forall>y \<in> set as. attempt_row_ok y" "st \<noteq> AtRunning"
    "st = AtFailed \<longrightarrow> (\<exists>cc mm. c = Some cc \<and> m = Some mm \<and> not_blank cc \<and> not_blank mm)"
  shows "attempt_row_ok x \<and> (\<exists>y \<in> set as. at_operation_id y = at_operation_id x)"
  using assms by (auto simp: finished_with_def in_set_upd_row_iff attempt_row_ok_def split: if_splits)

text \<open>Finishing the running attempt and moving its operation out of \<^verbatim>\<open>running\<close> keeps the invariant.\<close>

lemma op_inv_finish:
  assumes inv: "op_inv a" and find: "List.find p (operations a) = Some r"
    and p: "\<And>q. p q \<Longrightarrow> op_id q = i" and f: "op_id (f r) = i" "operation_row_ok (f r)" "op_status (f r) \<noteq> OpRunning"
    and fin: "List.find (\<lambda>r. at_operation_id r = i \<and> at_attempt r = n \<and> at_status r = AtRunning) (op_attempts a) = Some y"
      "st \<noteq> AtRunning" "st = AtFailed \<longrightarrow> (\<exists>cc mm. c = Some cc \<and> m = Some mm \<and> not_blank cc \<and> not_blank mm)"
    and ops: "operations b = upd_row p f (operations a)" "op_attempts b = finished_with st c m i n (clock a) (op_attempts a)"
  shows "op_inv b"
proof (rule op_inv_update [OF inv find p f(1,2) ops(1)])
  have "op_id r = i" using op_invD(3) [OF inv find] p by blast
  then have le: "running_of i (op_attempts a) \<le> 1" using op_invD(2) [OF inv find] by (auto split: if_splits)
  note run = running_of_finished [OF fin(2) le fin(1), of _ c m "clock a"]
  show "running_of j (op_attempts b) = running_of j (op_attempts a)" if "j \<noteq> i" for j
    using run [of j] that by (simp add: ops(2))
  show "running_of i (op_attempts b) = (if op_status (f r) = OpRunning then 1 else 0)"
    using run [of i] f(3) by (simp add: ops(2))
  have ok: "\<forall>y \<in> set (op_attempts a). attempt_row_ok y" using inv by (simp add: op_inv_def)
  show "attempt_row_ok x \<and> (at_operation_id x = i \<or> (\<exists>y \<in> set (op_attempts a). at_operation_id y = at_operation_id x))"
    if "x \<in> set (op_attempts b)" for x
    using finished_with_rows [OF that [unfolded ops(2)] ok fin(2,3)] by blast
qed


definition completed_row :: "nat \<Rightarrow> Operation \<Rightarrow> Operation" where
  "completed_row now = (\<lambda>r. r\<lparr>op_status := OpSucceeded, op_heartbeat_at := Some now, op_finished_at := Some now\<rparr>)"

definition retried_row :: "gostr \<Rightarrow> gostr \<Rightarrow> nat \<Rightarrow> Operation \<Rightarrow> Operation" where
  "retried_row c m now = (\<lambda>r. r\<lparr>op_status := OpQueued, op_error_code := Some c, op_error_message := Some m,
     op_heartbeat_at := Some now\<rparr>)"

definition failed_row :: "gostr \<Rightarrow> gostr \<Rightarrow> nat \<Rightarrow> Operation \<Rightarrow> Operation" where
  "failed_row c m now = (\<lambda>r. r\<lparr>op_status := OpFailed, op_error_code := Some c, op_error_message := Some m,
     op_heartbeat_at := Some now, op_finished_at := Some now\<rparr>)"

definition snoozed_row :: "nat \<Rightarrow> Operation \<Rightarrow> Operation" where
  "snoozed_row now = (\<lambda>r. r\<lparr>op_status := OpQueued, op_attempt_count := op_attempt_count r - 1, op_heartbeat_at := Some now\<rparr>)"

definition attempt_running :: "uuid \<Rightarrow> int \<Rightarrow> db \<Rightarrow> bool" where
  "attempt_running i n a \<longleftrightarrow>
     List.find (\<lambda>r. at_operation_id r = i \<and> at_attempt r = n \<and> at_status r = AtRunning) (op_attempts a) \<noteq> None"

text \<open>\<open>moves i p f st c m n a b\<close>: the attempt ends with \<open>st\<close> and the first row with \<open>p\<close> becomes \<open>f\<close> of it.\<close>

definition moves :: "uuid \<Rightarrow> int \<Rightarrow> (Operation \<Rightarrow> bool) \<Rightarrow> (Operation \<Rightarrow> Operation) \<Rightarrow>
    AttemptStatus \<Rightarrow> gostr option \<Rightarrow> gostr option \<Rightarrow> db \<Rightarrow> db \<Rightarrow> bool" where
  "moves i n p f st c m a b \<longleftrightarrow> attempt_running i n a \<and>
     List.find (\<lambda>r. op_id r = i \<and> p r) (operations a) \<noteq> None \<and>
     operations b = upd_row (\<lambda>r. op_id r = i \<and> p r) f (operations a) \<and>
     op_attempts b = finished_with st c m i n (clock a) (op_attempts a)"

lemma SucceedAttempt_effect:
  assumes "SucceedAttempt env i n a = Inr (v, b)"
  shows "moves i n (\<lambda>r. op_status r = OpRunning \<and> op_cancel_requested_at r = None) (completed_row (clock a))
    AtSucceeded None None a b"
  using assms
  by (auto simp: SucceedAttempt_def moves_def attempt_running_def required_Inr_iff FinishOperationAttempt_iff
      CompleteOperation_def update_one_Some_iff completed_row_def tx_bind_eq_Inr_iff tx_seq_eq_Inr_iff ops_frame_def
      dest!: ops_frameD)

lemma cancel_tail':
  assumes "tx_bind (required what (CancelOperation i)) (\<lambda>c. tx_seq (cancelOperationResource env c)
      (appendOperationEvent env c t d)) a = Inr (v, b)"
  shows "\<exists>r. List.find (\<lambda>r. op_id r = i \<and> active_op r) (operations a) = Some r \<and>
    operations b = upd_row (\<lambda>r. op_id r = i \<and> active_op r) (cancelled_row (clock a)) (operations a) \<and>
    op_attempts b = op_attempts a"
proof -
  have "tx_bind (required what (CancelOperation i)) (\<lambda>c. tx_seq (cancelOperationResource env c)
      (tx_seq (appendOperationEvent env c t d) (tx_return ()))) a = Inr ((), b)"
    using assms by (auto simp: tx_bind_eq_Inr_iff tx_seq_eq_Inr_iff)
  from cancel_tail [OF this] show ?thesis by blast
qed

lemma CancelAttempt_effect:
  assumes "CancelAttempt env i n a = Inr (v, b)"
  shows "moves i n active_op (cancelled_row (clock a)) AtCancelled None None a b"
proof -
  obtain y where y: "List.find (\<lambda>r. at_operation_id r = i \<and> at_attempt r = n \<and> at_status r = AtRunning) (op_attempts a) = Some y"
    and rest: "tx_bind (required ''cancel operation'' (CancelOperation i)) (\<lambda>c. tx_seq (cancelOperationResource env c)
      (appendOperationEvent env c ''operation.cancelled'' [(''attempt'', JNum n)]))
      (op_attempts_update (finished_with AtCancelled None None i n (clock a)) a) = Inr (v, b)"
    using assms by (auto simp: CancelAttempt_def tx_seq_eq_Inr_iff [of "required what m" for what m] required_Inr_iff
      FinishOperationAttempt_iff)
  from cancel_tail' [OF rest] y show ?thesis by (auto simp: moves_def attempt_running_def)
qed

lemma FailAttempt_effect:
  assumes "FailAttempt env i n c m retryable a = Inr (v, b)"
  obtains l where "List.find (\<lambda>r. op_id r = i) (operations a) = Some l"
    "op_cancel_requested_at l \<noteq> None \<Longrightarrow> moves i n active_op (cancelled_row (clock a)) AtCancelled None None a b"
    "op_cancel_requested_at l = None \<Longrightarrow> not_blank c \<and> not_blank m"
    "op_cancel_requested_at l = None \<Longrightarrow> retryable \<and> op_attempt_count l < op_max_attempts l \<Longrightarrow>
       moves i n (\<lambda>r. op_status r = OpRunning \<and> op_cancel_requested_at r = None \<and> op_attempt_count r < op_max_attempts r)
         (retried_row c m (clock a)) AtFailed (Some c) (Some m) a b"
    "op_cancel_requested_at l = None \<Longrightarrow> \<not> (retryable \<and> op_attempt_count l < op_max_attempts l) \<Longrightarrow>
       moves i n active_op (failed_row c m (clock a)) AtFailed (Some c) (Some m) a b"
proof -
  obtain l where l: "List.find (\<lambda>r. op_id r = i) (operations a) = Some l"
    and run: "(if op_cancel_requested_at l \<noteq> None then
         tx_seq (required ''finish cancelled operation attempt'' (FinishOperationAttempt AtCancelled None None i n))
         (tx_bind (required ''cancel operation after concurrent request'' (CancelOperation i)) (\<lambda>operation.
            tx_seq (cancelOperationResource env operation)
              (appendOperationEvent env operation ''operation.cancelled'' [(''attempt'', JNum n)])))
       else
         tx_seq (required ''finish failed operation attempt'' (FinishOperationAttempt AtFailed (Some c) (Some m) i n))
         (if retryable \<and> op_attempt_count l < op_max_attempts l then
            tx_bind (required ''schedule operation retry'' (RetryOperation c m i)) (\<lambda>operation.
              appendOperationEvent env operation ''operation.retry_scheduled''
                [(''attempt'', JNum n), (''errorCode'', JStr c)])
          else
            tx_seq (failOperationResource env l c m retryable)
            (tx_bind (required ''fail operation'' (FailOperation c m i)) (\<lambda>operation.
               appendOperationEvent env operation ''operation.failed''
                 [(''attempt'', JNum n), (''errorCode'', JStr c)])))) a = Inr (v, b)"
    using assms unfolding FailAttempt_def lock_bind_iff by blast
  show thesis
  proof (rule that [OF l])
    show "moves i n active_op (cancelled_row (clock a)) AtCancelled None None a b" if cr: "op_cancel_requested_at l \<noteq> None"
    proof -
      have "CancelAttempt env i n a = Inr (v, b)"
        using run cr by (simp add: CancelAttempt_def tx_seq_eq_Inr_iff [of "required what m" for what m] tx_bind_eq_Inr_iff required_Inr_iff)
      then show ?thesis by (rule CancelAttempt_effect)
    qed
    assume cr: "op_cancel_requested_at l = None"
    let ?a1 = "op_attempts_update (finished_with AtFailed (Some c) (Some m) i n (clock a)) a"
    show nb: "not_blank c \<and> not_blank m"
      using run cr by (auto simp: tx_seq_eq_Inr_iff [of "required what m" for what m] required_Inr_iff FinishOperationAttempt_iff)
    have y: "attempt_running i n a"
      using run cr by (auto simp: tx_seq_eq_Inr_iff [of "required what m" for what m] required_Inr_iff FinishOperationAttempt_iff attempt_running_def)
    show "moves i n (\<lambda>r. op_status r = OpRunning \<and> op_cancel_requested_at r = None \<and> op_attempt_count r < op_max_attempts r)
         (retried_row c m (clock a)) AtFailed (Some c) (Some m) a b"
      if "retryable \<and> op_attempt_count l < op_max_attempts l"
      using run cr that y
      by (auto simp: tx_seq_eq_Inr_iff required_Inr_iff FinishOperationAttempt_iff RetryOperation_def update_one_Some_iff
          tx_bind_eq_Inr_iff moves_def retried_row_def ops_frame_def dest!: ops_frameD)
    show "moves i n active_op (failed_row c m (clock a)) AtFailed (Some c) (Some m) a b"
      if nr: "\<not> (retryable \<and> op_attempt_count l < op_max_attempts l)"
    proof -
      obtain a2 x where f: "failOperationResource env l c m retryable ?a1 = Inr (x, a2)"
        and rest: "tx_bind (required ''fail operation'' (FailOperation c m i)) (\<lambda>operation.
           appendOperationEvent env operation ''operation.failed'' [(''attempt'', JNum n), (''errorCode'', JStr c)]) a2 = Inr (v, b)"
        using run cr nr by (auto simp: tx_seq_eq_Inr_iff required_Inr_iff FinishOperationAttempt_iff)
      have "ops_frame ?a1 a2" using ops_frameD(2) [OF f] .
      with rest y show ?thesis
        by (auto simp: required_Inr_iff FailOperation_def update_one_Some_iff tx_bind_eq_Inr_iff moves_def failed_row_def
            ops_frame_def split: if_splits dest!: ops_frameD)
    qed
  qed
qed


lemma SnoozeAttempt_effect:
  assumes "SnoozeAttempt i n a = Inr (v, b)"
  obtains r where
    "List.find (\<lambda>r. op_id r = i \<and> op_status r = OpRunning \<and> op_cancel_requested_at r = None \<and> op_attempt_count r > 0)
       (operations a) = Some r"
    "operations b = upd_row (\<lambda>r. op_id r = i \<and> op_status r = OpRunning \<and> op_cancel_requested_at r = None \<and>
       op_attempt_count r > 0) (snoozed_row (clock a)) (operations a)"
    "op_attempts b = filter (\<lambda>x. \<not> (at_operation_id x = i \<and> at_attempt x = n \<and> at_status x = AtRunning)) (op_attempts a)"
    "length (filter (\<lambda>x. at_operation_id x = i \<and> at_attempt x = n \<and> at_status x = AtRunning) (op_attempts a)) = 1"
  using assms
  by (auto simp: SnoozeAttempt_def DeleteSnoozedOperationAttempt_def SnoozeOperation_def snoozed_row_def
      required_Inr_iff update_one_Some_iff tx_bind_eq_Inr_iff tx_seq_eq_Inr_iff Let_def split: if_splits)

section \<open>The invariant is kept\<close>

lemmas row_defs = operation_row_ok_def op_terminal_def active_op_def started_row_def cancelled_row_def
  completed_row_def retried_row_def failed_row_def snoozed_row_def coalesce_def

lemma moves_op_inv:
  assumes "moves i n p f st c m a b" "op_inv a" "st \<noteq> AtRunning"
    "st = AtFailed \<longrightarrow> (\<exists>cc mm. c = Some cc \<and> m = Some mm \<and> not_blank cc \<and> not_blank mm)"
    "\<And>r. p r \<Longrightarrow> operation_row_ok r \<Longrightarrow> op_id (f r) = op_id r \<and> operation_row_ok (f r) \<and> op_status (f r) \<noteq> OpRunning"
  shows "op_inv b"
proof -
  obtain r y where f: "List.find (\<lambda>r. op_id r = i \<and> p r) (operations a) = Some r"
    "List.find (\<lambda>r. at_operation_id r = i \<and> at_attempt r = n \<and> at_status r = AtRunning) (op_attempts a) = Some y"
    using assms(1) by (auto simp: moves_def attempt_running_def)
  have r: "op_id r = i" "p r" "operation_row_ok r" using op_invD [OF assms(2) f(1)] by auto
  show ?thesis
    using assms(1) assms(5) [OF r(2,3)] r(1)
    by (intro op_inv_finish [OF assms(2) f(1) _ _ _ _ f(2) assms(3,4)]) (auto simp: moves_def)
qed

lemma StartAttempt_op_inv:
  assumes inv: "op_inv a" and run: "StartAttempt env i n w a = Inr (v, b)"
  shows "op_inv b"
proof -
  have rows: "attempt_row_ok x \<and> (at_operation_id x = i \<or> (\<exists>y \<in> set (op_attempts a). at_operation_id y = at_operation_id x))"
    if "x \<in> set (abandoned i (clock a) (op_attempts a))" for x
    using that inv by (auto simp: abandoned_def in_set_upd_row_iff op_inv_def attempt_row_ok_def not_blank_def split: if_splits)
  consider (start) r x where
      "List.find (\<lambda>r. op_id r = i \<and> active_op r \<and> op_cancel_requested_at r = None \<and> op_attempt_count r < op_max_attempts r)
         (operations a) = Some r"
      "operations b = upd_row (\<lambda>r. op_id r = i \<and> active_op r \<and> op_cancel_requested_at r = None \<and>
             op_attempt_count r < op_max_attempts r) (started_row (clock a)) (operations a)"
      "op_attempts b = abandoned i (clock a) (op_attempts a) @ [x]"
      "at_operation_id x = i" "at_status x = AtRunning" "at_finished_at x = None"
    | (cancel) r where "List.find (\<lambda>r. op_id r = i \<and> active_op r) (operations a) = Some r"
      "operations b = upd_row (\<lambda>r. op_id r = i \<and> active_op r) (cancelled_row (clock a)) (operations a)"
      "op_attempts b = abandoned i (clock a) (op_attempts a)"
    using StartAttempt_effect [OF run] by blast
  then show ?thesis
  proof cases
    case start
    note r = op_invD [OF inv start(1)]
    show ?thesis
      by (rule op_inv_update [OF inv start(1) _ _ _ start(2)])
        (use r rows start in \<open>auto simp: running_of_append running_of_abandoned row_defs attempt_row_ok_def\<close>)
  next
    case cancel
    note r = op_invD [OF inv cancel(1)]
    show ?thesis
      by (rule op_inv_update [OF inv cancel(1) _ _ _ cancel(2)])
        (use r rows cancel in \<open>auto simp: running_of_abandoned row_defs split: option.splits\<close>)
  qed
qed

lemma SucceedAttempt_op_inv: "op_inv a \<Longrightarrow> SucceedAttempt env i n a = Inr (v, b) \<Longrightarrow> op_inv b"
  by (erule moves_op_inv [OF SucceedAttempt_effect]) (auto simp: row_defs)

lemma CancelAttempt_op_inv: "op_inv a \<Longrightarrow> CancelAttempt env i n a = Inr (v, b) \<Longrightarrow> op_inv b"
  by (erule moves_op_inv [OF CancelAttempt_effect]) (auto simp: row_defs)

lemma FailAttempt_op_inv:
  assumes "op_inv a" "FailAttempt env i n c m retryable a = Inr (v, b)"
  shows "op_inv b"
proof (rule FailAttempt_effect [OF assms(2)])
  fix l
  assume h: "op_cancel_requested_at l \<noteq> None \<Longrightarrow> moves i n active_op (cancelled_row (clock a)) AtCancelled None None a b"
    "op_cancel_requested_at l = None \<Longrightarrow> not_blank c \<and> not_blank m"
    "op_cancel_requested_at l = None \<Longrightarrow> retryable \<and> op_attempt_count l < op_max_attempts l \<Longrightarrow>
       moves i n (\<lambda>r. op_status r = OpRunning \<and> op_cancel_requested_at r = None \<and> op_attempt_count r < op_max_attempts r)
         (retried_row c m (clock a)) AtFailed (Some c) (Some m) a b"
    "op_cancel_requested_at l = None \<Longrightarrow> \<not> (retryable \<and> op_attempt_count l < op_max_attempts l) \<Longrightarrow>
       moves i n active_op (failed_row c m (clock a)) AtFailed (Some c) (Some m) a b"
  consider "op_cancel_requested_at l \<noteq> None"
    | "op_cancel_requested_at l = None" "retryable \<and> op_attempt_count l < op_max_attempts l"
    | "op_cancel_requested_at l = None" "\<not> (retryable \<and> op_attempt_count l < op_max_attempts l)" by blast
  then show "op_inv b"
  proof cases
    case 1
    show ?thesis by (rule moves_op_inv [OF h(1) [OF 1] assms(1)]) (auto simp: row_defs)
  next
    case 2
    show ?thesis using h(2) [OF 2(1)]
      by (intro moves_op_inv [OF h(3) [OF 2] assms(1)]) (auto simp: row_defs)
  next
    case 3
    show ?thesis using h(2) [OF 3(1)]
      by (intro moves_op_inv [OF h(4) [OF 3] assms(1)]) (auto simp: row_defs)
  qed
qed

lemma SnoozeAttempt_op_inv:
  assumes inv: "op_inv a" and run: "SnoozeAttempt i n a = Inr (v, b)"
  shows "op_inv b"
proof (rule SnoozeAttempt_effect [OF run])
  fix r
  let ?q = "\<lambda>x. at_operation_id x = i \<and> at_attempt x = n \<and> at_status x = AtRunning"
  assume h: "List.find (\<lambda>r. op_id r = i \<and> op_status r = OpRunning \<and> op_cancel_requested_at r = None \<and> op_attempt_count r > 0)
       (operations a) = Some r"
    "operations b = upd_row (\<lambda>r. op_id r = i \<and> op_status r = OpRunning \<and> op_cancel_requested_at r = None \<and>
       op_attempt_count r > 0) (snoozed_row (clock a)) (operations a)"
    "op_attempts b = filter (\<lambda>x. \<not> ?q x) (op_attempts a)"
    "length (filter ?q (op_attempts a)) = 1"
  note r = op_invD [OF inv h(1)]
  have run: "running_of j (op_attempts b) = (if j = i then 0 else running_of j (op_attempts a))" for j
    using running_of_filter [of ?q i j "op_attempts a"] r h by (auto split: if_splits)
  show ?thesis
    by (rule op_inv_update [OF inv h(1) _ _ _ h(2)])
      (use r run h inv in \<open>auto simp: row_defs op_inv_def\<close>)
qed

lemma op_inv_map_rows:
  assumes inv: "op_inv a"
    and g: "\<And>r. r \<in> set (operations a) \<Longrightarrow> op_id (g r) = op_id r \<and> op_status (g r) = op_status r \<and> operation_row_ok (g r)"
    and b: "operations b = map g (operations a)" "op_attempts b = op_attempts a"
  shows "op_inv b"
proof -
  have eq: "map (op_id \<circ> g) (operations a) = map op_id (operations a)" using g by (intro map_cong) auto
  have "distinct (map (op_id \<circ> g) (operations a))" unfolding eq using inv by (simp add: op_inv_def)
  moreover have "\<exists>r \<in> set (operations b). op_id r = i" if "\<exists>r \<in> set (operations a). op_id r = i" for i
    using that g by (auto simp: b(1))
  ultimately show ?thesis using inv g by (simp add: op_inv_def b)
qed

lemma op_inv_map_attempts:
  assumes inv: "op_inv a"
    and g: "\<And>x. at_operation_id (g x) = at_operation_id x \<and> at_status (g x) = at_status x \<and> (attempt_row_ok x \<longrightarrow> attempt_row_ok (g x))"
    and b: "operations b = operations a" "op_attempts b = map g (op_attempts a)"
  shows "op_inv b"
proof -
  have "running_of i (map g as) = running_of i as" for i as
    using g by (induction as) (simp_all add: running_of_def)
  then show ?thesis using inv g by (simp add: op_inv_def b)
qed

interpretation inv_rel: tx_relation "keeping op_inv"
  by (rule tx_relation_keeping)

lemma log_only_op_inv: "maintains log_only m \<Longrightarrow> maintains (keeping op_inv) m"
  by (erule maintains_mono) (auto simp: keeping_def log_only_frame cong: op_inv_cong)

lemma op_inv_upd_row:
  assumes "op_inv a" "\<And>r. op_id (f r) = op_id r \<and> op_status (f r) = op_status r \<and> (operation_row_ok r \<longrightarrow> operation_row_ok (f r))"
  shows "op_inv (operations_update (upd_row p f) a)"
proof (rule op_inv_map_rows [OF assms(1), where g = "\<lambda>r. if p r then f r else r"])
  fix r assume "r \<in> set (operations a)"
  then have "operation_row_ok r" using assms(1) by (simp add: op_inv_def)
  then show "op_id (if p r then f r else r) = op_id r \<and> op_status (if p r then f r else r) = op_status r \<and>
      operation_row_ok (if p r then f r else r)" using assms(2) [of r] by simp
qed (simp_all add: upd_row_def)

lemma RequestOperationCancellation_op_inv: "maintains (keeping op_inv) (RequestOperationCancellation i)"
  unfolding RequestOperationCancellation_def
  by (rule inv_rel.keeps_update_one) (simp add: keeping_def op_inv_upd_row operation_row_ok_def op_terminal_def)

lemma requestCancellations_op_inv:
  "maintains (keeping op_inv) (requestResourceOperationCancellations env t i u)"
  unfolding requestResourceOperationCancellations_def ListCancellableResourceOperations_def
  by (intro inv_rel.keeps RequestOperationCancellation_op_inv appendResourceEvent_log_only [THEN log_only_op_inv])

lemma Heartbeat_op_inv: "maintains (keeping op_inv) (Heartbeat i n)"
proof -
  have "maintains (keeping op_inv) (HeartbeatOperation i)"
    unfolding HeartbeatOperation_def
    by (rule inv_rel.keeps_update_rows) (simp add: keeping_def op_inv_upd_row operation_row_ok_def op_terminal_def)
  moreover have "maintains (keeping op_inv) (HeartbeatOperationAttempt i n)"
    unfolding HeartbeatOperationAttempt_def
  proof (rule inv_rel.keeps_update_rows)
    fix a :: db
    let ?f = "\<lambda>x. x\<lparr>at_heartbeat_at := Some (clock a)\<rparr>"
    let ?p = "\<lambda>x. at_operation_id x = i \<and> at_attempt x = n \<and> at_status x = AtRunning"
    show "keeping op_inv a (op_attempts_update (upd_row ?p ?f) a)"
      unfolding keeping_def
      by (intro impI, erule op_inv_map_attempts [where g = "\<lambda>x. if ?p x then ?f x else x"])
        (simp_all add: upd_row_def attempt_row_ok_def)
  qed
  ultimately show ?thesis unfolding Heartbeat_def by (intro inv_rel.keeps)
qed

text \<open>Scheduling touches the operations, the jobs and the log.\<close>

definition strip_sched :: "db \<Rightarrow> db" where
  "strip_sched d = d\<lparr>uuid_calls := 0, events := [], operations := [], river_jobs := []\<rparr>"

definition sched_only :: "db \<Rightarrow> db \<Rightarrow> bool" where
  "sched_only a b \<longleftrightarrow> strip_sched b = strip_sched a"

interpretation sched_rel: tx_relation sched_only
  by unfold_locales (simp_all add: sched_only_def)

lemma sched_only_frame:
  assumes "sched_only a b"
  shows "clock b = clock a" "op_attempts b = op_attempts a" "tasks b = tasks a" "artifacts b = artifacts a"
    "artifact_sets b = artifact_sets a" "reviews b = reviews a" "imports_tab b = imports_tab a"
    "cleanups b = cleanups a" "downloads b = downloads a" "download_files b = download_files a"
    "acquisitions b = acquisitions a" "series_tab b = series_tab a" "episodes b = episodes a"
    "mappings b = mappings a" "rss_entries b = rss_entries a" "rss_subscriptions b = rss_subscriptions a"
    "search_runs b = search_runs a" "agent_resolutions b = agent_resolutions a" "emby_scans b = emby_scans a"
    "mapping_profiles b = mapping_profiles a" "fulfillments b = fulfillments a"
    "transcode_profiles b = transcode_profiles a" "emby_items b = emby_items a"
  using assms by (cases a; cases b; simp add: sched_only_def strip_sched_def)+

lemma log_only_sched: "maintains log_only m \<Longrightarrow> maintains sched_only m"
proof (erule maintains_mono)
  fix a b assume "log_only a b"
  then show "sched_only a b"
    by (cases a; cases b) (simp add: log_only_def strip_log_def sched_only_def strip_sched_def)
qed

lemma sched_statements:
  "maintains sched_only (CreateOperation r)" "maintains sched_only (AttachRiverJob j i)"
  "maintains sched_only (InsertTx env args opts)" "maintains sched_only (RequestOperationCancellation i)"
proof -
  show "maintains sched_only (CreateOperation r)"
    by (auto simp: maintains_def CreateOperation_def insert_row_Inr_iff tx_seq_eq_Inr_iff sched_only_def
      strip_sched_def split: if_splits)
  show "maintains sched_only (InsertTx env args opts)"
    by (auto simp: maintains_def InsertTx_def sched_only_def strip_sched_def split: sum.splits option.splits if_splits)
qed (unfold AttachRiverJob_def RequestOperationCancellation_def,
     (rule sched_rel.keeps_update_one, simp add: sched_only_def strip_sched_def)+)

lemmas sched_rules = sched_rel.keeps sched_statements maintains_map_error
  append_event_log_only [THEN log_only_sched] appendResourceEvent_log_only [THEN log_only_sched]
  uuid_New_log_only [THEN log_only_sched] keeps_bool_option [OF sched_rel.tx_relation_axioms]

lemma ScheduleInTx_sched_only: "maintains sched_only (ScheduleInTx env request)"
  unfolding ScheduleInTx_def prepareOperation_def scheduleInScope_def GetOperationByIdempotencyKey_def Let_def
  by (intro sched_rules)

lemma requestCancellations_sched_only: "maintains sched_only (requestResourceOperationCancellations env t i u)"
  unfolding requestResourceOperationCancellations_def ListCancellableResourceOperations_def
  by (intro sched_rules)

lemma ScheduleInTx_op_inv: "maintains (keeping op_inv) (ScheduleInTx env r)"
  unfolding maintains_def keeping_def
proof (intro allI impI)
  fix a v b
  assume run: "ScheduleInTx env r a = Inr (v, b)" and inv: "op_inv a"
  note d = ScheduleInTx_InrD [OF run]
  let ?p = "prepared_for (e_new_uuid env (uuid_calls a)) r" and ?a = "uuid_calls_update Suc a"
  show "op_inv b"
  proof (cases "List.find (\<lambda>q. op_key q = sq_IdempotencyKey (po_request ?p)) (operations ?a)")
    case (Some q)
    then have "b = ?a" using schedule_existing [OF Some, of env] d(3) by (auto split: if_splits)
    then show ?thesis using inv by (auto simp: op_inv_def)
  next
    case None
    then have none: "\<forall>q \<in> set (operations ?a). op_key q \<noteq> sq_IdempotencyKey (po_request ?p)"
      by (simp add: find_eq_None_iff)
    from schedule_new_iff [OF none d(3)] obtain job where
      fresh: "\<forall>q \<in> set (operations a). op_id q \<noteq> po_operationID ?p" and
      ops: "operations b = operations a @ [(new_operation_row ?p)\<lparr>op_river_job := Some job\<rparr>]" by auto
    have att: "op_attempts b = op_attempts a"
      using sched_only_frame(2) [OF maintainsD [OF ScheduleInTx_sched_only run]] .
    have "running_of (po_operationID ?p) (op_attempts a) = 0"
      using fresh inv by (auto simp: running_of_def op_inv_def filter_empty_conv)
    moreover have "operation_row_ok ((new_operation_row ?p)\<lparr>op_river_job := Some job\<rparr>)"
      using d(1) by (auto simp: operation_row_ok_def op_terminal_def new_operation_row_def prepared_for_def
        nullableResource_def request_ok_def Let_def)
    ultimately show ?thesis
      using inv fresh by (auto simp: op_inv_def ops att)
  qed
qed


section \<open>Runs of the queue\<close>

text \<open>
  One step of the system as the operation tables see it: a scheduler call, a call of the lifecycle,
  a cancellation request, the clock, or any other transaction, which leaves these tables alone.
\<close>

inductive op_step :: "env \<Rightarrow> db \<Rightarrow> db \<Rightarrow> bool" for env where
  step_schedule: "ScheduleInTx env r a = Inr (v, b) \<Longrightarrow> op_step env a b"
| step_start: "StartAttempt env i n w a = Inr (v', b) \<Longrightarrow> op_step env a b"
| step_heartbeat: "Heartbeat i n a = Inr (h, b) \<Longrightarrow> op_step env a b"
| step_succeed: "SucceedAttempt env i n a = Inr (u, b) \<Longrightarrow> op_step env a b"
| step_fail: "FailAttempt env i n c m retryable a = Inr (u, b) \<Longrightarrow> op_step env a b"
| step_cancel: "CancelAttempt env i n a = Inr (u, b) \<Longrightarrow> op_step env a b"
| step_snooze: "SnoozeAttempt i n a = Inr (u, b) \<Longrightarrow> op_step env a b"
| step_request: "requestResourceOperationCancellations env t j actor a = Inr (u, b) \<Longrightarrow> op_step env a b"
| step_other: "operations b = operations a \<Longrightarrow> op_attempts b = op_attempts a \<Longrightarrow> op_step env a b"

lemma op_step_inv: "op_step env a b \<Longrightarrow> op_inv a \<Longrightarrow> op_inv b"
proof (induction rule: op_step.induct)
  case (step_schedule r a v b)
  then show ?case using maintainsD [OF ScheduleInTx_op_inv step_schedule(1)] by (simp add: keeping_def)
next
  case (step_heartbeat i n a h b)
  then show ?case using maintainsD [OF Heartbeat_op_inv step_heartbeat(1)] by (simp add: keeping_def)
next
  case (step_request t j actor a u b)
  then show ?case using maintainsD [OF requestCancellations_op_inv step_request(1)] by (simp add: keeping_def)
next
  case (step_other b a)
  then show ?case by (simp add: op_inv_def)
qed (blast intro: StartAttempt_op_inv SucceedAttempt_op_inv FailAttempt_op_inv CancelAttempt_op_inv
      SnoozeAttempt_op_inv)+

lemma op_step_forward: "op_step env a b \<Longrightarrow> ops_forward a b"
  by (induction rule: op_step.induct)
    (blast intro: maintainsD [OF ScheduleInTx_forward] maintainsD [OF lifecycle_forward(1)]
       maintainsD [OF lifecycle_forward(2)] maintainsD [OF lifecycle_forward(3)]
       maintainsD [OF lifecycle_forward(4)] maintainsD [OF lifecycle_forward(5)]
       maintainsD [OF lifecycle_forward(6)] maintainsD [OF requestCancellations_forward] ops_forward_frame)+

lemma op_steps_inv: "(op_step env)\<^sup>*\<^sup>* a b \<Longrightarrow> op_inv a \<Longrightarrow> op_inv b"
  by (induction rule: rtranclp_induct) (auto intro: op_step_inv)

lemma op_steps_forward: "(op_step env)\<^sup>*\<^sup>* a b \<Longrightarrow> ops_forward a b"
  by (induction rule: rtranclp_induct) (auto intro: ops_rel.rel_refl ops_rel.rel_trans op_step_forward)

lemma op_inv_empty: "op_inv empty_db"
  by (simp add: op_inv_def empty_db_def)

section \<open>Bodies that succeed\<close>

text \<open>
  The identifiers \<^verbatim>\<open>uuid.New\<close> has still to give are not in use: its documented uniqueness, for the
  table of events. \<open>succeeds P m\<close>: from a store with \<open>P\<close> the body commits in a store with \<open>P\<close>.
\<close>

definition fresh_draws :: "env \<Rightarrow> db \<Rightarrow> bool" where
  "fresh_draws env a \<longleftrightarrow> inj (e_new_uuid env) \<and>
     (\<forall>k \<ge> uuid_calls a. \<forall>e \<in> set (events a). ev_id e \<noteq> e_new_uuid env k)"

definition succeeds :: "(db \<Rightarrow> bool) \<Rightarrow> 'a tx \<Rightarrow> bool" where
  "succeeds P m \<longleftrightarrow> (\<forall>a. P a \<longrightarrow> (\<exists>x b. m a = Inr (x, b) \<and> P b))"

lemma succeedsD: "succeeds P m \<Longrightarrow> P a \<Longrightarrow> \<exists>x b. m a = Inr (x, b) \<and> P b"
  by (simp add: succeeds_def)

lemma succeeds_return: "succeeds P (tx_return x)"
  by (simp add: succeeds_def)

lemma succeeds_bind: "succeeds P m \<Longrightarrow> (\<And>x. succeeds P (f x)) \<Longrightarrow> succeeds P (tx_bind m f)"
  unfolding succeeds_def by (metis tx_bind_Inr)

lemma succeeds_seq: "succeeds P m \<Longrightarrow> succeeds P k \<Longrightarrow> succeeds P (tx_seq m k)"
  by (simp add: tx_seq_def succeeds_bind)

lemma succeeds_if: "succeeds P m \<Longrightarrow> succeeds P k \<Longrightarrow> succeeds P (if b then m else k)"
  by simp

lemma succeeds_option:
  "succeeds P m \<Longrightarrow> (\<And>x. succeeds P (f x)) \<Longrightarrow> succeeds P (case v of None \<Rightarrow> m | Some x \<Rightarrow> f x)"
  by (simp split: option.splits)

lemma fresh_draws_cong:
  "events b = events a \<Longrightarrow> uuid_calls b = uuid_calls a \<Longrightarrow> fresh_draws env b = fresh_draws env a"
  by (simp add: fresh_draws_def)

lemma append_event_succeeds: "succeeds (fresh_draws env) (append_event env t rt ri oi au d)"
  unfolding succeeds_def
proof (intro allI impI)
  fix a assume f: "fresh_draws env a"
  let ?i = "e_new_uuid env (uuid_calls a)"
  have "\<not> list_ex (\<lambda>r. ev_id r = ?i) (events a)" using f by (auto simp: fresh_draws_def list_ex_iff)
  moreover have "?i \<noteq> e_new_uuid env k" if "Suc (uuid_calls a) \<le> k" for k
    using f that by (metis fresh_draws_def injD not_less_eq_eq order_refl)
  ultimately show "\<exists>x b. append_event env t rt ri oi au d a = Inr (x, b) \<and> fresh_draws env b"
    using f by (auto simp: append_event_def AppendEvent_def insert_row_def fresh_draws_def)
qed

lemma update_one_succeeds:
  assumes "\<And>g a. P (upd g a) = P a"
  shows "succeeds P (update_one get upd p f)"
  using assms by (auto simp: succeeds_def update_one_def split: option.splits)

lemma resource_statements_succeed:
  "succeeds (fresh_draws env) (MarkDownloadEnqueueTerminalFailure c m i)"
  "succeeds (fresh_draws env) (MarkDownloadFileResolutionTerminalFailure c m i)"
  "succeeds (fresh_draws env) (MarkDownloadSyncTerminalFailure c m i)"
  "succeeds (fresh_draws env) (MarkDownloadMaterializeTerminalFailure c m i)"
  "succeeds (fresh_draws env) (MarkSearchRunTerminalFailure c m i)"
  "succeeds (fresh_draws env) (MarkSearchRunCancelled i)"
  "succeeds (fresh_draws env) (MarkAgentResolutionOperationTerminal st c m i)"
  "succeeds (fresh_draws env) (FailEmbyScanRun st c m i)"
  "succeeds (fresh_draws env) (MarkTaskVideoTerminalFailure c m i)"
  "succeeds (fresh_draws env) (MarkTaskSubtitleTerminalFailure c m i)"
  "succeeds (fresh_draws env) (MarkTaskFinalizeTerminalFailure c m i)"
  "succeeds (fresh_draws env) (MarkTaskImportTerminalFailure c m i)"
  "succeeds (fresh_draws env) (MarkTaskVideoCancelled i)"
  "succeeds (fresh_draws env) (MarkTaskSubtitleCancelled i)"
  "succeeds (fresh_draws env) (MarkTaskFinalizeCancelled i)"
  "succeeds (fresh_draws env) (CancelTaskImport i)"
  unfolding MarkDownloadEnqueueTerminalFailure_def MarkDownloadFileResolutionTerminalFailure_def
    MarkDownloadSyncTerminalFailure_def MarkDownloadMaterializeTerminalFailure_def
    MarkSearchRunTerminalFailure_def MarkSearchRunCancelled_def MarkAgentResolutionOperationTerminal_def
    FailEmbyScanRun_def MarkTaskVideoTerminalFailure_def MarkTaskSubtitleTerminalFailure_def
    MarkTaskFinalizeTerminalFailure_def MarkTaskImportTerminalFailure_def MarkTaskVideoCancelled_def
    MarkTaskSubtitleCancelled_def MarkTaskFinalizeCancelled_def CancelTaskImport_def
  by (intro update_one_succeeds, simp add: fresh_draws_def)+

lemma latest_statements_succeed:
  "succeeds (fresh_draws env) (update_latest_import p t f)"
  "succeeds (fresh_draws env) (update_latest_cleanup q t g)"
  "succeeds (fresh_draws env) (MarkDownloadRSSEntryEnqueueFailed c m r u)"
  by (auto simp: succeeds_def update_latest_import_def update_latest_cleanup_def update_one_def
    MarkDownloadRSSEntryEnqueueFailed_def update_rows_def fresh_draws_def split: option.splits)

lemmas succeed_rules = succeeds_return succeeds_bind succeeds_seq succeeds_if succeeds_option
  append_event_succeeds resource_statements_succeed latest_statements_succeed

lemma cancelOperationResource_succeeds: "succeeds (fresh_draws env) (cancelOperationResource env operation)"
  unfolding cancelOperationResource_def failAgentResolutionResource_def failEmbyScanResource_def
    CancelActiveCleanup_def CancelActiveImport_def appendSearchLifecycleEvent_def
    appendTaskLifecycleEvent_def Let_def
  by (intro succeed_rules)

lemma failOperationResource_succeeds: "succeeds (fresh_draws env) (failOperationResource env operation c m r)"
  unfolding failOperationResource_def failAgentResolutionResource_def failEmbyScanResource_def
    failDownloadEnqueueResource_def failDownloadPostEnqueueResource_def failSearchRunResource_def
    failTaskMediaResource_def failTaskImportResource_def failTaskCleanupResource_def
    MarkActiveImportTerminalFailure_def MarkActiveCleanupTerminalFailure_def
    appendSearchLifecycleEvent_def appendTaskLifecycleEvent_def Let_def
  by (intro succeed_rules)

lemma appendOperationEvent_succeeds: "succeeds (fresh_draws env) (appendOperationEvent env operation t d)"
  unfolding appendOperationEvent_def by (intro succeed_rules)


section \<open>Settling an attempt\<close>

lemma attempt_running_op:
  assumes "op_inv a" "attempt_running i n a"
  obtains r where "r \<in> set (operations a)" "op_id r = i" "op_status r = OpRunning"
    "\<And>p. p r \<Longrightarrow> List.find (\<lambda>q. op_id q = i \<and> p q) (operations a) = Some r"
    "List.find (\<lambda>q. op_id q = i) (operations a) = Some r"
proof -
  obtain y where y: "y \<in> set (op_attempts a)" "at_operation_id y = i" "at_status y = AtRunning"
    using assms(2) by (auto simp: attempt_running_def dest!: find_eq_SomeD)
  then obtain r where r: "r \<in> set (operations a)" "op_id r = i" using assms(1) by (auto simp: op_inv_def)
  have "running_of i (op_attempts a) \<noteq> 0" using y by (auto simp: running_of_def filter_empty_conv)
  then have st: "op_status r = OpRunning" using r assms(1) by (auto simp: op_inv_def split: if_splits)
  have uniq: "q = r" if "q \<in> set (operations a)" "op_id q = i" for q
    using that r assms(1) by (metis (no_types, lifting) distinct_map inj_onD op_inv_def)
  have find: "List.find (\<lambda>q. op_id q = i \<and> p q) (operations a) = Some r" if "p r" for p
    using find_SomeI [OF r(1), of "\<lambda>q. op_id q = i \<and> p q"] that r(2) uniq find_eq_SomeD by fastforce
  show thesis
    using that [OF r st find] find [of "\<lambda>_. True"] by simp
qed

lemma finished_not_running:
  "st \<noteq> AtRunning \<Longrightarrow> x \<in> set (finished_with st c m i n now as) \<Longrightarrow>
     \<not> (at_operation_id x = i \<and> at_attempt x = n \<and> at_status x = AtRunning)"
proof -
  let ?P = "\<lambda>r. at_operation_id r = i \<and> at_attempt r = n \<and> at_status r = AtRunning"
  assume st: "st \<noteq> AtRunning" and "x \<in> set (finished_with st c m i n now as)"
  then obtain q where q: "x = (if ?P q then q\<lparr>at_status := st, at_error_code := c, at_error_message := m,
      at_heartbeat_at := Some now, at_finished_at := Some now\<rparr> else q)"
    unfolding finished_with_def in_set_upd_row_iff by blast
  show ?thesis
  proof (cases "?P q")
    case True
    then have "at_status x = st" using q by simp
    then show ?thesis using st by simp
  next
    case False
    then have "x = q" using q by (simp only: if_False)
    then show ?thesis using False by simp
  qed
qed

lemma moves_status:
  assumes "moves i n p f st c m a b" "op_inv a" "st \<noteq> AtRunning" "\<And>r. op_id (f r) = op_id r"
  shows "\<not> attempt_running i n b \<and> (\<exists>r \<in> set (operations a). op_id r = i \<and> p r \<and> f r \<in> set (operations b))"
proof -
  obtain r where r: "List.find (\<lambda>r. op_id r = i \<and> p r) (operations a) = Some r"
    using assms(1) unfolding moves_def by blast
  then have "f r \<in> set (operations b)" using assms(1) find_eq_SomeD [OF r] by (auto simp: moves_def in_set_upd_row_iff)
  moreover have "\<not> attempt_running i n b"
    using assms(1) finished_not_running [OF assms(3)] by (simp add: moves_def attempt_running_def find_eq_None_iff)
  ultimately show ?thesis using find_eq_SomeD [OF r] by blast
qed

lemma fresh_draws_tables [simp]:
  "fresh_draws env (operations_update g a) = fresh_draws env a"
  "fresh_draws env (op_attempts_update h a) = fresh_draws env a"
  by (simp_all add: fresh_draws_def)

lemma finish_required:
  assumes "attempt_running i n a" "st = AtFailed \<longrightarrow> (\<exists>cc mm. c = Some cc \<and> m = Some mm \<and> not_blank cc \<and> not_blank mm)"
  shows "\<exists>x. required what (FinishOperationAttempt st c m i n) a =
    Inr (x, op_attempts_update (finished_with st c m i n (clock a)) a)"
  using assms by (auto simp: required_Inr_iff FinishOperationAttempt_iff attempt_running_def)

lemma cancel_total:
  assumes "fresh_draws env a" "List.find (\<lambda>q. op_id q = i \<and> active_op q) (operations a) = Some r"
  shows "\<exists>b. tx_bind (required what (CancelOperation i)) (\<lambda>c. tx_seq (cancelOperationResource env c)
      (appendOperationEvent env c t d)) a = Inr ((), b)"
proof -
  let ?a = "operations_update (upd_row (\<lambda>q. op_id q = i \<and> active_op q) (cancelled_row (clock a))) a"
  have "required what (CancelOperation i) a = Inr (cancelled_row (clock a) r, ?a)"
    using assms(2) by (simp add: required_Inr_iff CancelOperation_def update_one_Some_iff cancelled_row_def)
  moreover have "succeeds (fresh_draws env) (tx_seq (cancelOperationResource env (cancelled_row (clock a) r))
      (appendOperationEvent env (cancelled_row (clock a) r) t d))"
    by (intro succeeds_seq cancelOperationResource_succeeds appendOperationEvent_succeeds)
  ultimately show ?thesis using succeedsD [of "fresh_draws env" _ ?a] assms(1) by fastforce
qed

lemma lock_bind:
  "List.find (\<lambda>r. op_id r = i) (operations a) = Some l \<Longrightarrow> tx_bind (required what (LockOperation i)) f a = f l a"
  by (simp add: required_def LockOperation_def select_one_def)

lemma finish_cancel_total:
  assumes "op_inv a" "fresh_draws env a" "attempt_running i n a"
  shows "\<exists>b. tx_seq (required what (FinishOperationAttempt AtCancelled None None i n))
    (tx_bind (required what' (CancelOperation i)) (\<lambda>c. tx_seq (cancelOperationResource env c)
      (appendOperationEvent env c t d))) a = Inr ((), b)"
proof -
  obtain r where r: "op_status r = OpRunning" "\<And>p. p r \<Longrightarrow> List.find (\<lambda>q. op_id q = i \<and> p q) (operations a) = Some r"
    using attempt_running_op [OF assms(1,3)] by metis
  let ?a = "op_attempts_update (finished_with AtCancelled None None i n (clock a)) a"
  have "List.find (\<lambda>q. op_id q = i \<and> active_op q) (operations ?a) = Some r" using r by (simp add: active_op_def)
  then show ?thesis
    using finish_required [OF assms(3), of AtCancelled None None what] cancel_total [of env ?a i r] assms(2) by auto
qed

lemma CancelAttempt_total:
  assumes "op_inv a" "fresh_draws env a" "attempt_running i n a"
  shows "\<exists>b. CancelAttempt env i n a = Inr ((), b)"
  unfolding CancelAttempt_def using assms by (rule finish_cancel_total)

lemma FailAttempt_total:
  assumes "op_inv a" "fresh_draws env a" "attempt_running i n a" "not_blank c" "not_blank m"
  shows "\<exists>b. FailAttempt env i n c m retryable a = Inr ((), b)"
proof -
  obtain r where st: "op_status r = OpRunning"
    and find: "\<And>p. p r \<Longrightarrow> List.find (\<lambda>q. op_id q = i \<and> p q) (operations a) = Some r"
      "List.find (\<lambda>q. op_id q = i) (operations a) = Some r"
    using attempt_running_op [OF assms(1,3)] by metis
  show ?thesis
  proof (cases "op_cancel_requested_at r = None")
    case False
    then show ?thesis
      using finish_cancel_total [OF assms(1-3)] unfolding FailAttempt_def lock_bind [OF find(2)] by simp
  next
    case None: True
    let ?a = "op_attempts_update (finished_with AtFailed (Some c) (Some m) i n (clock a)) a"
    obtain x where fin: "required ''finish failed operation attempt''
        (FinishOperationAttempt AtFailed (Some c) (Some m) i n) a = Inr (x, ?a)"
      using finish_required [OF assms(3)] assms(4,5) by blast
    show ?thesis
    proof (cases "retryable \<and> op_attempt_count r < op_max_attempts r")
      case True
      then have "\<exists>q b. required ''schedule operation retry'' (RetryOperation c m i) ?a = Inr (q, b) \<and> fresh_draws env b"
        using find(1) [of "\<lambda>r. op_status r = OpRunning \<and> op_cancel_requested_at r = None \<and> op_attempt_count r < op_max_attempts r"]
          st None assms(2) by (auto simp: required_Inr_iff RetryOperation_def update_one_Some_iff)
      then show ?thesis
        using succeedsD [OF appendOperationEvent_succeeds] True fin None
        unfolding FailAttempt_def lock_bind [OF find(2)] by fastforce
    next
      case False
      obtain b where b: "failOperationResource env r c m retryable ?a = Inr ((), b)" "fresh_draws env b"
        using succeedsD [OF failOperationResource_succeeds [of env r c m retryable], of ?a] assms(2) by auto
      have "operations b = operations a" using ops_frameD(2) [OF b(1)] by (simp add: ops_frame_def)
      then have "\<exists>q d. required ''fail operation'' (FailOperation c m i) b = Inr (q, d) \<and> fresh_draws env d"
        using find(1) [of active_op] st assms(4,5) b(2)
        by (auto simp: required_Inr_iff FailOperation_def update_one_Some_iff active_op_def)
      then show ?thesis
        using succeedsD [OF appendOperationEvent_succeeds] False fin None b(1)
        unfolding FailAttempt_def lock_bind [OF find(2)] by fastforce
    qed
  qed
qed


section \<open>Properties\<close>

text \<open>A store with one operation in its first attempt.\<close>

definition queued_db :: db where
  "queued_db = (case ScheduleInTx sample_env import_request empty_db of Inr (_, d) \<Rightarrow> d | Inl _ \<Rightarrow> empty_db)"

definition running_db :: db where
  "running_db = (case StartAttempt sample_env 1 1 (lit ''worker'') queued_db of Inr (_, d) \<Rightarrow> d | Inl _ \<Rightarrow> queued_db)"

lemma queued_db_run: "\<exists>v. ScheduleInTx sample_env import_request empty_db = Inr (v, queued_db)"
  using import_request_runs by (auto simp: queued_db_def)

lemma running_db_run: "\<exists>v. StartAttempt sample_env 1 1 (lit ''worker'') queued_db = Inr (v, running_db)"
proof -
  have "(case StartAttempt sample_env 1 1 (lit ''worker'') queued_db of Inr _ \<Rightarrow> True | Inl _ \<Rightarrow> False)" by code_simp
  then show ?thesis by (auto simp: running_db_def split: sum.splits)
qed

lemma running_db_step: "op_step sample_env queued_db running_db"
  using running_db_run step_start by blast

lemma running_db_steps: "(op_step sample_env)\<^sup>*\<^sup>* empty_db running_db"
  using queued_db_run running_db_step step_schedule by (meson converse_rtranclp_into_rtranclp r_into_rtranclp)

lemma running_db_facts:
  "op_inv running_db" "fresh_draws sample_env running_db" "attempt_running 1 1 running_db"
  "map op_status (operations running_db) = [OpRunning]" "map op_id (operations running_db) = [1]"
proof -
  show "op_inv running_db" using op_steps_inv [OF running_db_steps op_inv_empty] .
  have e: "list_all (\<lambda>e. ev_id e \<le> uuid_calls running_db) (events running_db)" by code_simp
  have "inj (e_new_uuid sample_env)" by (simp add: sample_env_def inj_def)
  then show "fresh_draws sample_env running_db"
    using e by (fastforce simp: fresh_draws_def sample_env_def list_all_iff)
  have "list_ex (\<lambda>r. at_operation_id r = 1 \<and> at_attempt r = 1 \<and> at_status r = AtRunning) (op_attempts running_db)"
    by code_simp
  then show "attempt_running 1 1 running_db" by (auto simp: attempt_running_def find_eq_None_iff list_ex_iff)
  show "map op_status (operations running_db) = [OpRunning]" "map op_id (operations running_db) = [1]" by code_simp+
qed

text \<open>
  C7: In every store the queue can reach from an empty one, an operation has made between none and
  its maximum number of attempts, it has a finishing time exactly when it succeeded, failed or was
  cancelled, a failure has a code and a message that are not blank, and it has exactly one running
  attempt while it runs and none otherwise.
\<close>

theorem operation_audit_invariant:
  assumes "(op_step env)\<^sup>*\<^sup>* empty_db db" "r \<in> set (operations db)"
  shows "0 \<le> op_attempt_count r \<and> op_attempt_count r \<le> op_max_attempts r \<and>
    (op_finished_at r \<noteq> None \<longleftrightarrow> op_terminal r) \<and>
    (op_status r = OpFailed \<longrightarrow> (\<exists>c m. op_error_code r = Some c \<and> op_error_message r = Some m \<and> not_blank c \<and> not_blank m)) \<and>
    running_of (op_id r) (op_attempts db) = (if op_status r = OpRunning then 1 else 0)"
  using op_steps_inv [OF assms(1) op_inv_empty] assms(2) by (auto simp: op_inv_def operation_row_ok_def)

theorem operation_audit_invariant_witness:
  "\<exists>r. List.member (operations running_db) r \<and> op_attempt_count r \<le> op_max_attempts r \<and>
     running_of (op_id r) (op_attempts running_db) = 1"
proof -
  obtain r where "operations running_db = [r]" "op_status r = OpRunning"
    using running_db_facts(4) by auto
  with operation_audit_invariant [OF running_db_steps, of r] show ?thesis by auto
qed

text \<open>
  C18: However the queue goes on, an operation keeps its command; once it succeeded, failed or was
  cancelled its row never changes again, and once a cancellation was requested the request stays, no
  further attempt is counted and the operation cannot succeed any more.
\<close>

theorem operation_moves_forward:
  assumes "(op_step env)\<^sup>*\<^sup>* a b" "r \<in> set (operations a)"
  shows "\<exists>q. List.member (operations b) q \<and> op_command q = op_command r \<and> (op_terminal r \<longrightarrow> q = r) \<and>
    (op_cancel_requested_at r \<noteq> None \<longrightarrow> op_cancel_requested_at q = op_cancel_requested_at r \<and>
       op_attempt_count q \<le> op_attempt_count r \<and> (op_status q = OpSucceeded \<longrightarrow> op_status r = OpSucceeded))"
proof -
  obtain old new where "operations b = old @ new" "list_all2 op_forward (operations a) old"
    using op_steps_forward [OF assms(1)] unfolding ops_forward_def by blast
  then obtain q where "q \<in> set (operations b)" "op_forward r q"
    using assms(2) by (metis (no_types, lifting) Un_iff in_set_conv_nth list_all2_conv_all_nth set_append)
  then show ?thesis by (auto simp: op_forward_def)
qed

theorem operation_moves_forward_witness:
  "\<exists>r q. List.member (operations queued_db) r \<and> List.member (operations running_db) q \<and> op_command q = op_command r"
proof -
  have "length (operations queued_db) = 1" by code_simp
  then obtain r where "r \<in> set (operations queued_db)" by (cases "operations queued_db") auto
  moreover have "(op_step sample_env)\<^sup>*\<^sup>* queued_db running_db" using running_db_step by blast
  ultimately show ?thesis using operation_moves_forward [of sample_env queued_db running_db r] by auto
qed

lemma moves_row:
  assumes "moves i n p f st c m a b" "op_inv a" "st \<noteq> AtRunning" "\<And>r. op_id (f r) = op_id r"
    "r \<in> set (operations a)" "op_id r = i"
  shows "\<not> attempt_running i n b \<and> f r \<in> set (operations b)"
proof -
  obtain q where q: "\<not> attempt_running i n b" "q \<in> set (operations a)" "op_id q = i" "f q \<in> set (operations b)"
    using moves_status [OF assms(1-4)] by blast
  have "q = r" using q(2,3) assms(2,5,6) by (metis (no_types, lifting) distinct_map inj_onD op_inv_def)
  with q show ?thesis by blast
qed

text \<open>The row that a failure leaves, by the three branches of \<^verbatim>\<open>FailAttempt\<close>.\<close>

definition settled_row :: "gostr \<Rightarrow> gostr \<Rightarrow> bool \<Rightarrow> nat \<Rightarrow> Operation \<Rightarrow> Operation" where
  "settled_row c m retryable now r =
     (if op_cancel_requested_at r \<noteq> None then cancelled_row now r
      else if retryable \<and> op_attempt_count r < op_max_attempts r then retried_row c m now r
      else failed_row c m now r)"

lemma settled_row_simps:
  "op_id (settled_row c m retryable now r) = op_id r"
  "op_status (settled_row c m retryable now r) =
     (if op_cancel_requested_at r \<noteq> None then OpCancelled
      else if retryable \<and> op_attempt_count r < op_max_attempts r then OpQueued else OpFailed)"
  by (simp_all add: settled_row_def cancelled_row_def retried_row_def failed_row_def)

lemma FailAttempt_settles:
  assumes run: "FailAttempt env i n c m retryable a = Inr (v, b)" and inv: "op_inv a"
    and r: "List.find (\<lambda>q. op_id q = i) (operations a) = Some r"
  shows "\<not> attempt_running i n b \<and> settled_row c m retryable (clock a) r \<in> set (operations b)"
proof -
  have mem: "r \<in> set (operations a)" "op_id r = i" using find_eq_SomeD [OF r] by auto
  note rows = moves_row [OF _ inv _ _ mem]
  show ?thesis
  proof (rule FailAttempt_effect [OF run])
    fix l
    assume l: "List.find (\<lambda>r. op_id r = i) (operations a) = Some l"
    assume "op_cancel_requested_at l \<noteq> None \<Longrightarrow> moves i n active_op (cancelled_row (clock a)) AtCancelled None None a b"
      "op_cancel_requested_at l = None \<Longrightarrow> retryable \<and> op_attempt_count l < op_max_attempts l \<Longrightarrow>
         moves i n (\<lambda>r. op_status r = OpRunning \<and> op_cancel_requested_at r = None \<and> op_attempt_count r < op_max_attempts r)
           (retried_row c m (clock a)) AtFailed (Some c) (Some m) a b"
      "op_cancel_requested_at l = None \<Longrightarrow> \<not> (retryable \<and> op_attempt_count l < op_max_attempts l) \<Longrightarrow>
         moves i n active_op (failed_row c m (clock a)) AtFailed (Some c) (Some m) a b"
    note branches = this [THEN rows]
    have "l = r" using l r by simp
    then show ?thesis
      using branches by (simp add: settled_row_def cancelled_row_def retried_row_def failed_row_def)
  qed
qed

text \<open>
  C8: Reporting a failure of the running attempt always commits and ends the attempt; the operation
  is cancelled if that was requested meanwhile, queued again if the failure is retryable and attempts
  are left, and failed otherwise.
\<close>

theorem fail_attempt_settles:
  assumes "op_inv a" "fresh_draws env a" "attempt_running i n a" "not_blank c" "not_blank m"
  shows "\<exists>b r q. FailAttempt env i n c m retryable a = Inr ((), b) \<and> \<not> attempt_running i n b \<and> op_inv b \<and>
    List.member (operations a) r \<and> op_id r = i \<and> List.member (operations b) q \<and> op_id q = i \<and>
    op_status q = (if op_cancel_requested_at r \<noteq> None then OpCancelled
      else if retryable \<and> op_attempt_count r < op_max_attempts r then OpQueued else OpFailed)"
proof -
  obtain b where run: "FailAttempt env i n c m retryable a = Inr ((), b)"
    using FailAttempt_total [OF assms] by blast
  obtain r where r: "r \<in> set (operations a)" "op_id r = i" "List.find (\<lambda>q. op_id q = i) (operations a) = Some r"
    using attempt_running_op [OF assms(1,3)] by metis
  let ?q = "settled_row c m retryable (clock a) r"
  have "\<not> attempt_running i n b" "?q \<in> set (operations b)" using FailAttempt_settles [OF run assms(1) r(3)] by auto
  with run FailAttempt_op_inv [OF assms(1) run] r(1,2) show ?thesis
    by (intro exI [of _ b] exI [of _ r] exI [of _ ?q] conjI) (simp_all add: settled_row_simps)
qed

theorem fail_attempt_settles_witness:
  "\<exists>b q. FailAttempt sample_env 1 1 (lit ''io'') (lit ''disk full'') True running_db = Inr ((), b) \<and>
     \<not> attempt_running 1 1 b \<and> List.member (operations b) q \<and> op_status q = OpQueued"
proof -
  have r: "list_all (\<lambda>r. op_cancel_requested_at r = None \<and> op_attempt_count r < op_max_attempts r) (operations running_db)"
    by code_simp
  from fail_attempt_settles [OF running_db_facts(1-3), of "lit ''io''" "lit ''disk full''" True] r
  show ?thesis by (fastforce simp: not_blank_def list_all_iff)
qed

text \<open>
  C19: Reporting success of the running attempt commits exactly when no cancellation was requested,
  and then the operation has succeeded; after a request the transaction fails at
  \<^verbatim>\<open>CompleteOperation\<close>, so the operation and its attempt stay running.
\<close>

theorem succeed_attempt_outcome:
  assumes "op_inv a" "fresh_draws env a" "attempt_running i n a"
    "List.find (\<lambda>q. op_id q = i) (operations a) = Some r"
  shows "case SucceedAttempt env i n a of
      Inl e \<Rightarrow> op_cancel_requested_at r \<noteq> None \<and> e = OtherError ''complete operation'' \<and>
        WithinTx (SucceedAttempt env i n) a = (Inl e, a)
    | Inr (_, b) \<Rightarrow> op_cancel_requested_at r = None \<and> \<not> attempt_running i n b \<and>
        List.member (operations b) (completed_row (clock a) r)"
proof -
  have r: "op_status r = OpRunning" "\<And>p. p r \<Longrightarrow> List.find (\<lambda>q. op_id q = i \<and> p q) (operations a) = Some r"
    using attempt_running_op [OF assms(1,3)] assms(4) by (metis option.inject)+
  have uniq: "q = r" if "q \<in> set (operations a)" "op_id q = i" for q
    using that find_eq_SomeD [OF assms(4)] assms(1) by (metis (no_types, lifting) distinct_map inj_onD op_inv_def)
  let ?a = "op_attempts_update (finished_with AtSucceeded None None i n (clock a)) a"
  obtain x where fin: "required ''finish successful operation attempt''
      (FinishOperationAttempt AtSucceeded None None i n) a = Inr (x, ?a)"
    using finish_required [OF assms(3), of AtSucceeded None None] by auto
  let ?p = "\<lambda>r. op_status r = OpRunning \<and> op_cancel_requested_at r = None"
  show ?thesis
  proof (cases "op_cancel_requested_at r = None")
    case True
    then have "List.find (\<lambda>q. op_id q = i \<and> ?p q) (operations a) = Some r" using r(2) [of ?p] r(1) by simp
    then have "\<exists>q b. required ''complete operation'' (CompleteOperation i) ?a = Inr (q, b) \<and> fresh_draws env b"
      using assms(2) by (auto simp: required_Inr_iff CompleteOperation_def update_one_Some_iff)
    then obtain b where run: "SucceedAttempt env i n a = Inr ((), b)"
      using succeedsD [OF appendOperationEvent_succeeds] fin unfolding SucceedAttempt_def by fastforce
    from moves_status [OF SucceedAttempt_effect [OF run] assms(1)] uniq True run show ?thesis
      by (auto simp: completed_row_def)
  next
    case False
    have "\<forall>q \<in> set (operations a). \<not> (op_id q = i \<and> op_cancel_requested_at q = None)"
      using uniq False by auto
    then have "CompleteOperation i ?a = Inr (None, ?a)"
      by (auto simp: CompleteOperation_def update_one_None_iff)
    then have "SucceedAttempt env i n a = Inl (OtherError ''complete operation'')"
      using fin by (simp add: SucceedAttempt_def required_def [of "''complete operation''"])
    then show ?thesis using False by (simp add: WithinTx_def)
  qed
qed

theorem succeed_attempt_outcome_witness:
  "\<exists>r b. SucceedAttempt sample_env 1 1 running_db = Inr ((), b) \<and> \<not> attempt_running 1 1 b \<and>
     List.member (operations b) (completed_row (clock running_db) r)"
proof -
  have c: "map op_cancel_requested_at (operations running_db) = [None]" by code_simp
  obtain r where "operations running_db = [r]" "op_id r = 1" "op_cancel_requested_at r = None"
    using c running_db_facts(5) by auto
  with succeed_attempt_outcome [OF running_db_facts(1-3), of r] show ?thesis
    by (auto split: sum.splits)
qed

end
