(* ===== verification/TaskStore.thy ===== *)
theory TaskStore
  imports OperationLifecycle
begin

text \<open>
  The statements on tasks, artifacts, reviews, imports, cleanups and RSS subscriptions that the
  media and task workflows run (\<^verbatim>\<open>db/query/media.sql\<close>, \<^verbatim>\<open>tasks.sql\<close>, \<^verbatim>\<open>retries.sql\<close> and parts of
  \<^verbatim>\<open>rss.sql\<close>, \<^verbatim>\<open>catalog.sql\<close> and \<^verbatim>\<open>deletions.sql\<close>), with the unique indexes and the triggers of
  the schema that can make them fail. The checks of the schema on single rows are not written into
  the statements: \<open>task_row_ok\<close> states them, and that no statement breaks them is proved.
\<close>

section \<open>Lookups and conditional updates\<close>

definition by_key :: "('r \<Rightarrow> uuid) \<Rightarrow> uuid \<Rightarrow> 'r list \<Rightarrow> 'r option" where
  "by_key key i rs = List.find (\<lambda>r. key r = i) rs"

definition by_key_opt :: "('r \<Rightarrow> uuid) \<Rightarrow> uuid option \<Rightarrow> 'r list \<Rightarrow> 'r option" where
  "by_key_opt key i rs = Option.bind i (\<lambda>i. by_key key i rs)"

text \<open>\<^verbatim>\<open>UPDATE\<close> whose condition looks at other tables.\<close>

definition update_where ::
  "(db \<Rightarrow> 'r list) \<Rightarrow> (('r list \<Rightarrow> 'r list) \<Rightarrow> db \<Rightarrow> db) \<Rightarrow> (db \<Rightarrow> 'r \<Rightarrow> bool) \<Rightarrow> (nat \<Rightarrow> 'r \<Rightarrow> 'r) \<Rightarrow> 'r option tx" where
  "update_where get upd p f db = update_one get upd (p db) f db"

text \<open>A statement that the schema refuses unless the store satisfies a condition afterwards.\<close>

definition checked :: "string \<Rightarrow> (db \<Rightarrow> bool) \<Rightarrow> 'a tx \<Rightarrow> 'a tx" where
  "checked what ok m db =
     (case m db of Inl e \<Rightarrow> Inl e
      | Inr (x, db') \<Rightarrow> if ok db' then Inr (x, db') else Inl (OtherError what))"

definition update_task :: "(db \<Rightarrow> EpisodeTask \<Rightarrow> bool) \<Rightarrow> (EpisodeTask \<Rightarrow> EpisodeTask) \<Rightarrow> EpisodeTask option tx" where
  "update_task p f = update_where tasks tasks_update p (\<lambda>now r. f r)"

section \<open>Joins\<close>

definition has_artifact_set :: "db \<Rightarrow> uuid \<Rightarrow> bool" where
  "has_artifact_set db i = list_ex (\<lambda>s. as_task_id s = i) (artifact_sets db)"

definition has_review :: "db \<Rightarrow> uuid \<Rightarrow> TaskState \<Rightarrow> bool" where
  "has_review db i d = list_ex (\<lambda>r. rv_task_id r = i \<and> rv_decision r = d) (reviews db)"

definition has_import :: "db \<Rightarrow> uuid \<Rightarrow> (Import \<Rightarrow> bool) \<Rightarrow> bool" where
  "has_import db i p = list_ex (\<lambda>r. im_task_id r = i \<and> p r) (imports_tab db)"

definition has_cleanup :: "db \<Rightarrow> uuid \<Rightarrow> (CleanupRun \<Rightarrow> bool) \<Rightarrow> bool" where
  "has_cleanup db i p = list_ex (\<lambda>r. cl_task_id r = i \<and> p r) (cleanups db)"

definition task_acquisition :: "db \<Rightarrow> EpisodeTask \<Rightarrow> Acquisition option" where
  "task_acquisition db t = by_key aq_id (tk_acquisition_id t) (acquisitions db)"

definition task_series :: "db \<Rightarrow> EpisodeTask \<Rightarrow> MediaSeries option" where
  "task_series db t = Option.bind (task_acquisition db t) (\<lambda>a. by_key ms_id (aq_series_id a) (series_tab db))"

definition task_mapping :: "db \<Rightarrow> EpisodeTask \<Rightarrow> EpisodeMappingRow option" where
  "task_mapping db t = by_key_opt em_id (tk_mapping_id t) (mappings db)"

definition task_episode :: "db \<Rightarrow> EpisodeTask \<Rightarrow> MediaEpisode option" where
  "task_episode db t = Option.bind (task_mapping db t) (\<lambda>m. by_key_opt me_id (em_target_episode_id m) (episodes db))"

definition task_file :: "db \<Rightarrow> EpisodeTask \<Rightarrow> DownloadFile option" where
  "task_file db t = by_key df_id (tk_source_video_file_id t) (download_files db)"

definition task_download :: "db \<Rightarrow> EpisodeTask \<Rightarrow> Download option" where
  "task_download db t = Option.bind (task_file db t) (\<lambda>f. by_key dl_id (df_download_id f) (downloads db))"

definition task_subscription :: "db \<Rightarrow> EpisodeTask \<Rightarrow> (RssEntry \<times> RssSubscription) option" where
  "task_subscription db t =
     Option.bind (task_acquisition db t) (\<lambda>a.
     Option.bind (by_key_opt re_id (aq_rss_entry_id a) (rss_entries db)) (\<lambda>e.
     Option.bind (by_key rs_id (re_subscription_id e) (rss_subscriptions db)) (\<lambda>s. Some (e, s))))"

text \<open>
  The paired artifacts of a task: the join on \<^verbatim>\<open>kind\<close> and on an ASS subtitle that the review and
  import statements share.
\<close>

definition paired_artifacts :: "db \<Rightarrow> uuid \<Rightarrow> (ArtifactSet \<times> MediaArtifact \<times> MediaArtifact) option" where
  "paired_artifacts db i =
     Option.bind (by_key as_task_id i (artifact_sets db)) (\<lambda>s.
     Option.bind (List.find (\<lambda>a. ar_id a = as_video_artifact_id s \<and> ar_kind a = MediaVideo) (artifacts db)) (\<lambda>v.
     Option.bind (List.find (\<lambda>a. ar_id a = as_subtitle_artifact_id s \<and> ar_kind a = MediaSubtitle \<and>
                    to_lower (ar_format a) = lit ''ass'') (artifacts db)) (\<lambda>t. Some (s, v, t))))"

section \<open>Tasks and their media\<close>

definition LockEpisodeTask :: "uuid \<Rightarrow> EpisodeTask option tx" where
  "LockEpisodeTask i = select_one tasks (\<lambda>r. tk_id r = i)"

definition started_state :: "TaskState \<Rightarrow> TaskState" where
  "started_state s = (if s = TaskMediaQueued then TaskProcessing else s)"

definition media_startable :: "TaskState \<Rightarrow> bool" where
  "media_startable s = (s = TaskMediaQueued \<or> s = TaskProcessing \<or> s = TaskFailed)"

definition task_running :: "EpisodeTask \<Rightarrow> EpisodeTask" where
  "task_running r = r\<lparr>tk_state := started_state (tk_state r), tk_error_code := None, tk_error_message := None,
     tk_version := tk_version r + 1\<rparr>"

definition StartTaskVideo :: "uuid \<Rightarrow> EpisodeTask option tx" where
  "StartTaskVideo i = update_task (\<lambda>db r. tk_id r = i \<and> media_startable (tk_state r) \<and> video_active r)
     (\<lambda>r. task_running (r\<lparr>tk_video_state := VideoTranscoding\<rparr>))"

definition StartTaskSubtitle :: "uuid \<Rightarrow> EpisodeTask option tx" where
  "StartTaskSubtitle i = update_task (\<lambda>db r. tk_id r = i \<and> media_startable (tk_state r) \<and> subtitle_active r)
     (\<lambda>r. task_running (r\<lparr>tk_subtitle_state := SubtitleExtractingConverting\<rparr>))"

definition bump :: "EpisodeTask \<Rightarrow> EpisodeTask" where
  "bump r = r\<lparr>tk_version := tk_version r + 1\<rparr>"

definition MarkTaskVideoReady :: "uuid \<Rightarrow> EpisodeTask option tx" where
  "MarkTaskVideoReady i = update_task (\<lambda>db r. tk_id r = i \<and> video_active r)
     (\<lambda>r. bump (r\<lparr>tk_video_state := VideoReady\<rparr>))"

definition MarkTaskSubtitleReady :: "uuid \<Rightarrow> EpisodeTask option tx" where
  "MarkTaskSubtitleReady i = update_task (\<lambda>db r. tk_id r = i \<and> subtitle_active r)
     (\<lambda>r. bump (r\<lparr>tk_subtitle_state := SubtitleASSReady\<rparr>))"

definition both_ready :: "EpisodeTask \<Rightarrow> bool" where
  "both_ready r = (tk_video_state r = VideoReady \<and> tk_subtitle_state r = SubtitleASSReady)"

definition MarkTaskFinalizingIfReady :: "uuid \<Rightarrow> EpisodeTask option tx" where
  "MarkTaskFinalizingIfReady i = update_task (\<lambda>db r. tk_id r = i \<and> tk_state r = TaskProcessing \<and> both_ready r)
     (\<lambda>r. bump (r\<lparr>tk_state := TaskFinalizing\<rparr>))"

definition error_cleared :: "TaskState \<Rightarrow> EpisodeTask \<Rightarrow> EpisodeTask" where
  "error_cleared st r = r\<lparr>tk_state := st, tk_error_code := None, tk_error_message := None,
     tk_version := tk_version r + 1\<rparr>"

definition MarkTaskAwaitingReview :: "uuid \<Rightarrow> EpisodeTask option tx" where
  "MarkTaskAwaitingReview i = update_task (\<lambda>db r. tk_id r = i \<and> tk_state r = TaskFinalizing \<and> both_ready r)
     (error_cleared TaskAwaitingReview)"

text \<open>
  \<^verbatim>\<open>media_artifacts\<close> has one row per task and kind, unique paths, and a trigger that freezes the
  identity of an artifact once it is part of a set.
\<close>

definition paired_in_set :: "db \<Rightarrow> uuid \<Rightarrow> bool" where
  "paired_in_set db i = list_ex (\<lambda>s. as_video_artifact_id s = i \<or> as_subtitle_artifact_id s = i) (artifact_sets db)"

definition same_identity :: "MediaArtifact \<Rightarrow> MediaArtifact \<Rightarrow> bool" where
  "same_identity a b = (ar_transcode_profile_id a = ar_transcode_profile_id b \<and>
     ar_basename a = ar_basename b \<and> ar_format a = ar_format b)"

definition UpsertMediaArtifact :: "MediaArtifact \<Rightarrow> MediaArtifact tx" where
  "UpsertMediaArtifact a db =
     (case List.find (\<lambda>r. ar_task_id r = ar_task_id a \<and> ar_kind r = ar_kind a) (artifacts db) of
        None \<Rightarrow> insert_row ''persist media artifact'' artifacts artifacts_update
          (\<lambda>r. ar_id r = ar_id a \<or> ar_file_path r = ar_file_path a) a db
      | Some old \<Rightarrow>
          if list_ex (\<lambda>r. ar_id r \<noteq> ar_id old \<and> ar_file_path r = ar_file_path a) (artifacts db) \<or>
             paired_in_set db (ar_id old) \<and> \<not> same_identity old a
          then Inl (OtherError ''persist media artifact'')
          else let new = a\<lparr>ar_id := ar_id old\<rparr>
               in Inr (new, artifacts_update (upd_row (\<lambda>r. ar_id r = ar_id old) (\<lambda>_. new)) db))"

definition GetTaskArtifact :: "uuid \<Rightarrow> MediaKind \<Rightarrow> MediaArtifact option tx" where
  "GetTaskArtifact i kind = select_one artifacts (\<lambda>a. ar_task_id a = i \<and> ar_kind a = kind)"

record FinalizeCommandRow =
  fr_task :: EpisodeTask
  fr_video :: MediaArtifact
  fr_subtitle :: MediaArtifact

definition GetTaskFinalizeCommand :: "uuid \<Rightarrow> FinalizeCommandRow option tx" where
  "GetTaskFinalizeCommand i = tx_read (\<lambda>db.
     Option.bind (by_key tk_id i (tasks db)) (\<lambda>t.
     Option.bind (List.find (\<lambda>a. ar_task_id a = i \<and> ar_kind a = MediaVideo) (artifacts db)) (\<lambda>v.
     Option.bind (List.find (\<lambda>a. ar_task_id a = i \<and> ar_kind a = MediaSubtitle) (artifacts db)) (\<lambda>s.
       Some \<lparr>fr_task = t, fr_video = v, fr_subtitle = s\<rparr>))))"

definition GetTaskRSSAutoReview :: "uuid \<Rightarrow> (uuid \<times> bool) option tx" where
  "GetTaskRSSAutoReview i = tx_read (\<lambda>db.
     Option.bind (by_key tk_id i (tasks db)) (\<lambda>t.
     Option.bind (task_subscription db t) (\<lambda>(e, s).
       if rs_deleted_at s = None then Some (rs_id s, rs_auto_review s) else None)))"

text \<open>The trigger \<^verbatim>\<open>validate_artifact_set\<close> and the unique columns of \<^verbatim>\<open>artifact_sets\<close>.\<close>

definition artifact_set_valid :: "db \<Rightarrow> ArtifactSet \<Rightarrow> bool" where
  "artifact_set_valid db s =
     (case (by_key ar_id (as_video_artifact_id s) (artifacts db), by_key ar_id (as_subtitle_artifact_id s) (artifacts db)) of
        (Some v, Some t) \<Rightarrow>
          ar_task_id v = as_task_id s \<and> ar_task_id t = as_task_id s \<and>
          ar_kind v = MediaVideo \<and> ar_kind t = MediaSubtitle \<and>
          ar_transcode_profile_id v = Some (as_transcode_profile_id s) \<and>
          ar_basename v = as_basename s \<and> ar_basename t = as_basename s \<and>
          to_lower (ar_format t) = lit ''ass''
      | _ \<Rightarrow> False)"

definition CreateArtifactSet :: "ArtifactSet \<Rightarrow> ArtifactSet tx" where
  "CreateArtifactSet s db =
     (let clash = (\<lambda>r. as_task_id r \<noteq> as_task_id s \<and>
            (as_video_artifact_id r = as_video_artifact_id s \<or> as_subtitle_artifact_id r = as_subtitle_artifact_id s))
      in if \<not> artifact_set_valid db s \<or> list_ex clash (artifact_sets db)
         then Inl (OtherError ''create artifact set'')
         else case by_key as_task_id (as_task_id s) (artifact_sets db) of
                None \<Rightarrow> insert_row ''create artifact set'' artifact_sets artifact_sets_update (\<lambda>r. as_id r = as_id s) s db
              | Some old \<Rightarrow>
                  let new = s\<lparr>as_id := as_id old\<rparr>
                  in Inr (new, artifact_sets_update (upd_row (\<lambda>r. as_task_id r = as_task_id s) (\<lambda>_. new)) db))"

section \<open>Reviews, imports and cleanups\<close>

definition GetTaskReviewByTask :: "uuid \<Rightarrow> Review option tx" where
  "GetTaskReviewByTask i = select_one reviews (\<lambda>r. rv_task_id r = i)"

definition CreateTaskReview :: "Review \<Rightarrow> Review tx" where
  "CreateTaskReview r = insert_row ''create task review'' reviews reviews_update
     (\<lambda>q. rv_id q = rv_id r \<or> rv_task_id q = rv_task_id r \<or> rv_key q = rv_key r) r"

definition MarkTaskReviewed :: "TaskState \<Rightarrow> uuid \<Rightarrow> int \<Rightarrow> EpisodeTask option tx" where
  "MarkTaskReviewed decision i expectedVersion = update_task
     (\<lambda>db r. tk_id r = i \<and> tk_state r = TaskAwaitingReview \<and> tk_version r = expectedVersion \<and>
        both_ready r \<and> has_artifact_set db (tk_id r))
     (error_cleared decision)"

definition GetArtifactSetForTask :: "uuid \<Rightarrow> (ArtifactSet \<times> MediaArtifact \<times> MediaArtifact) option tx" where
  "GetArtifactSetForTask i = tx_read (\<lambda>db. paired_artifacts db i)"

definition CreateTaskImport :: "uuid \<Rightarrow> uuid \<Rightarrow> Import tx" where
  "CreateTaskImport i task db =
     (let attempt = foldl max 0 (map im_attempt (filter (\<lambda>r. im_task_id r = task) (imports_tab db))) + 1
      in insert_row ''create task import'' imports_tab imports_tab_update
           (\<lambda>q. im_id q = i \<or> im_task_id q = task \<and> import_active q)
           \<lparr>im_id = i, im_task_id = task, im_attempt = attempt, im_status = ImQueued, im_video_path = None,
            im_subtitle_path = None, im_error_code = None, im_error_message = None,
            im_started_at = None, im_completed_at = None\<rparr> db)"

definition MarkTaskImportQueued :: "uuid \<Rightarrow> int \<Rightarrow> EpisodeTask option tx" where
  "MarkTaskImportQueued i expectedVersion = update_task
     (\<lambda>db r. tk_id r = i \<and> tk_state r = TaskApproved \<and> tk_version r = expectedVersion \<and>
        has_review db (tk_id r) TaskApproved \<and> has_artifact_set db (tk_id r))
     (error_cleared TaskImportQueued)"

record ImportCommandRow =
  ir_task :: EpisodeTask
  ir_import :: Import
  ir_series :: MediaSeries
  ir_target_season :: "int option"
  ir_set :: ArtifactSet
  ir_video :: MediaArtifact
  ir_subtitle :: MediaArtifact

definition GetTaskImportCommand :: "uuid \<Rightarrow> uuid \<Rightarrow> ImportCommandRow option tx" where
  "GetTaskImportCommand task i = tx_read (\<lambda>db.
     Option.bind (by_key tk_id task (tasks db)) (\<lambda>t.
     Option.bind (List.find (\<lambda>r. im_id r = i \<and> im_task_id r = task) (imports_tab db)) (\<lambda>im.
     Option.bind (task_series db t) (\<lambda>series.
     Option.bind (paired_artifacts db task) (\<lambda>(s, v, u).
       Some \<lparr>ir_task = t, ir_import = im, ir_series = series,
             ir_target_season = map_option me_season_number (task_episode db t),
             ir_set = s, ir_video = v, ir_subtitle = u\<rparr>)))))"

definition StartTaskImport :: "uuid \<Rightarrow> EpisodeTask option tx" where
  "StartTaskImport i = update_task
     (\<lambda>db r. tk_id r = i \<and> (tk_state r = TaskImportQueued \<or> tk_state r = TaskImporting))
     (\<lambda>r. bump (r\<lparr>tk_state := TaskImporting\<rparr>))"

definition StartImport :: "uuid \<Rightarrow> Import option tx" where
  "StartImport i = update_one imports_tab imports_tab_update (\<lambda>r. im_id r = i \<and> import_active r)
     (\<lambda>now r. r\<lparr>im_status := ImRunning, im_started_at := coalesce (im_started_at r) now,
        im_error_code := None, im_error_message := None\<rparr>)"

text \<open>The unique indexes on \<^verbatim>\<open>imports\<close> and \<^verbatim>\<open>cleanup_runs\<close>.\<close>

definition one_per_task :: "('r \<Rightarrow> uuid) \<Rightarrow> ('r \<Rightarrow> bool) \<Rightarrow> 'r list \<Rightarrow> bool" where
  "one_per_task task p rs = distinct (map task (filter p rs))"

definition import_succeeded :: "Import \<Rightarrow> bool" where
  "import_succeeded r = (im_status r = ImSucceeded)"

definition import_failed :: "Import \<Rightarrow> bool" where
  "import_failed r = (im_status r = ImFailed)"

definition imports_unique :: "db \<Rightarrow> bool" where
  "imports_unique db = (one_per_task im_task_id import_active (imports_tab db) \<and>
     one_per_task im_task_id import_succeeded (imports_tab db))"

definition cleanups_unique :: "db \<Rightarrow> bool" where
  "cleanups_unique db = one_per_task cl_task_id cleanup_active (cleanups db)"

definition CompleteImport_stmt :: "gostr \<Rightarrow> gostr \<Rightarrow> uuid \<Rightarrow> Import option tx" where
  "CompleteImport_stmt video subtitle i = checked ''imports_one_success_per_task'' imports_unique
     (update_one imports_tab imports_tab_update (\<lambda>r. im_id r = i \<and> im_status r = ImRunning)
       (\<lambda>now r. r\<lparr>im_status := ImSucceeded, im_video_path := Some video, im_subtitle_path := Some subtitle,
          im_error_code := None, im_error_message := None, im_completed_at := Some now\<rparr>))"

definition MarkTaskImported :: "uuid \<Rightarrow> EpisodeTask option tx" where
  "MarkTaskImported i = update_task (\<lambda>db r. tk_id r = i \<and> tk_state r = TaskImporting) (task_cleared TaskImported)"

definition GetTaskDownloadID :: "uuid \<Rightarrow> uuid option tx" where
  "GetTaskDownloadID i = tx_read (\<lambda>db.
     Option.bind (by_key tk_id i (tasks db)) (\<lambda>t. map_option dl_id (task_download db t)))"

definition CreateTaskCleanup :: "uuid \<Rightarrow> uuid \<Rightarrow> uuid \<Rightarrow> CleanupRun tx" where
  "CreateTaskCleanup i task download db =
     (let attempt = foldl max 0 (map cl_attempt (filter (\<lambda>r. cl_task_id r = task) (cleanups db))) + 1
      in insert_row ''create task cleanup'' cleanups cleanups_update
           (\<lambda>q. cl_id q = i \<or> cl_task_id q = task \<and> cleanup_active q)
           \<lparr>cl_id = i, cl_task_id = task, cl_download_id = download, cl_attempt = attempt,
            cl_status = CleanupQueued, cl_torrent_removed = False, cl_staged_files_removed = False,
            cl_error_code = None, cl_error_message = None, cl_started_at = None, cl_completed_at = None\<rparr> db)"

record CleanupCommandRow =
  cr_task :: EpisodeTask
  cr_cleanup :: CleanupRun
  cr_download :: Download
  cr_video :: MediaArtifact
  cr_subtitle :: MediaArtifact
  cr_download_removable :: bool

definition task_settled :: "TaskState \<Rightarrow> bool" where
  "task_settled s = (s = TaskImported \<or> s = TaskRejected \<or> s = TaskCancelled)"

definition download_removable :: "db \<Rightarrow> uuid \<Rightarrow> bool" where
  "download_removable db i = list_all (\<lambda>t. map_option df_download_id (task_file db t) = Some i \<longrightarrow>
     task_settled (tk_state t)) (tasks db)"

definition GetTaskCleanupCommand :: "uuid \<Rightarrow> uuid \<Rightarrow> CleanupCommandRow option tx" where
  "GetTaskCleanupCommand task i = tx_read (\<lambda>db.
     Option.bind (by_key tk_id task (tasks db)) (\<lambda>t.
     Option.bind (List.find (\<lambda>r. cl_id r = i \<and> cl_task_id r = task) (cleanups db)) (\<lambda>c.
     Option.bind (task_download db t) (\<lambda>d.
     Option.bind (by_key as_task_id task (artifact_sets db)) (\<lambda>s.
     Option.bind (by_key ar_id (as_video_artifact_id s) (artifacts db)) (\<lambda>v.
     Option.bind (by_key ar_id (as_subtitle_artifact_id s) (artifacts db)) (\<lambda>u.
       if has_import db task import_succeeded
       then Some \<lparr>cr_task = t, cr_cleanup = c, cr_download = d, cr_video = v, cr_subtitle = u,
                  cr_download_removable = download_removable db (dl_id d)\<rparr>
       else None)))))))"

definition StartCleanup :: "uuid \<Rightarrow> CleanupRun option tx" where
  "StartCleanup i = update_one cleanups cleanups_update (\<lambda>r. cl_id r = i \<and> cleanup_active r)
     (\<lambda>now r. r\<lparr>cl_status := CleanupRunning, cl_started_at := coalesce (cl_started_at r) now,
        cl_error_code := None, cl_error_message := None\<rparr>)"

definition CompleteCleanup_stmt :: "bool \<Rightarrow> bool \<Rightarrow> uuid \<Rightarrow> CleanupRun option tx" where
  "CompleteCleanup_stmt torrent staged i = update_one cleanups cleanups_update
     (\<lambda>r. cl_id r = i \<and> cl_status r = CleanupRunning)
     (\<lambda>now r. r\<lparr>cl_status := CleanupCompleted, cl_torrent_removed := torrent, cl_staged_files_removed := staged,
        cl_error_code := None, cl_error_message := None, cl_completed_at := Some now\<rparr>)"

section \<open>Retrying and cancelling\<close>

definition MarkTaskCleanupRetryRequested :: "uuid \<Rightarrow> int \<Rightarrow> EpisodeTask option tx" where
  "MarkTaskCleanupRetryRequested i expectedVersion = update_task
     (\<lambda>db r. tk_id r = i \<and> tk_state r = TaskImported \<and> tk_version r = expectedVersion \<and>
        has_cleanup db (tk_id r) (\<lambda>c. cl_status c = CleanupFailed)) bump"

definition cleanup_requeued :: "CleanupRun \<Rightarrow> CleanupRun" where
  "cleanup_requeued r = r\<lparr>cl_status := CleanupQueued, cl_error_code := None, cl_error_message := None,
     cl_started_at := None, cl_completed_at := None\<rparr>"

definition import_requeued :: "Import \<Rightarrow> Import" where
  "import_requeued r = r\<lparr>im_status := ImQueued, im_error_code := None, im_error_message := None,
     im_started_at := None, im_completed_at := None\<rparr>"

definition RequeueLatestFailedTaskCleanup :: "uuid \<Rightarrow> CleanupRun option tx" where
  "RequeueLatestFailedTaskCleanup task = checked ''cleanup_runs_one_active_per_task'' cleanups_unique
     (update_latest_cleanup (\<lambda>c. cl_status c = CleanupFailed) (Some task) (\<lambda>now. cleanup_requeued))"

definition RequeueLatestFailedTaskImport :: "uuid \<Rightarrow> Import option tx" where
  "RequeueLatestFailedTaskImport task = checked ''imports_one_active_per_task'' imports_unique
     (update_latest_import import_failed (Some task) (\<lambda>now. import_requeued))"

definition RequeueCancelledTaskImport :: "uuid \<Rightarrow> Import option tx" where
  "RequeueCancelledTaskImport task = checked ''imports_one_active_per_task'' imports_unique
     (update_latest_import (\<lambda>r. \<not> import_succeeded r) (Some task) (\<lambda>now. import_requeued))"

definition RequeueTaskFinalizeBranch :: "uuid \<Rightarrow> EpisodeTask option tx" where
  "RequeueTaskFinalizeBranch i = update_task
     (\<lambda>db r. tk_id r = i \<and> tk_state r = TaskFailed \<and> both_ready r \<and> tk_failure_stage r = Some ''finalize'')
     (task_cleared TaskFinalizing)"

definition RequeueTaskImportBranch :: "uuid \<Rightarrow> EpisodeTask option tx" where
  "RequeueTaskImportBranch i = update_task
     (\<lambda>db r. tk_id r = i \<and> tk_state r = TaskFailed \<and> tk_failure_stage r = Some ''import'' \<and>
        has_import db (tk_id r) import_failed)
     (task_cleared TaskImportQueued)"

definition video_stopped :: "EpisodeTask \<Rightarrow> bool" where
  "video_stopped r = (tk_video_state r = VideoFailed \<or> tk_video_state r = VideoCancelled)"

definition subtitle_stopped :: "EpisodeTask \<Rightarrow> bool" where
  "subtitle_stopped r = (tk_subtitle_state r = SubtitleFailed \<or> tk_subtitle_state r = SubtitleCancelled)"

definition media_requeueable :: "EpisodeTask \<Rightarrow> bool" where
  "media_requeueable r =
     ((tk_state r = TaskFailed \<or> tk_state r = TaskProcessing) \<and>
        (tk_video_state r = VideoFailed \<or> tk_subtitle_state r = SubtitleFailed) \<or>
      tk_state r = TaskCancelled \<and> (video_stopped r \<or> subtitle_stopped r) \<and>
        (video_stopped r \<or> tk_video_state r = VideoReady) \<and>
        (subtitle_stopped r \<or> tk_subtitle_state r = SubtitleASSReady))"

definition media_requeued :: "EpisodeTask \<Rightarrow> EpisodeTask" where
  "media_requeued r = r\<lparr>
     tk_state := (if tk_state r = TaskFailed \<or> tk_state r = TaskCancelled then TaskProcessing else tk_state r),
     tk_video_state := (if tk_video_state r = VideoFailed \<or> tk_state r = TaskCancelled \<and> tk_video_state r = VideoCancelled
                        then VideoTranscodeQueued else tk_video_state r),
     tk_subtitle_state := (if tk_subtitle_state r = SubtitleFailed \<or> tk_state r = TaskCancelled \<and> tk_subtitle_state r = SubtitleCancelled
                           then SubtitleQueued else tk_subtitle_state r),
     tk_failure_stage := None, tk_error_code := None, tk_error_message := None, tk_version := tk_version r + 1\<rparr>"

definition RequeueTaskFailedMediaBranches :: "uuid \<Rightarrow> int \<Rightarrow> EpisodeTask option tx" where
  "RequeueTaskFailedMediaBranches i expectedVersion = update_task
     (\<lambda>db r. tk_id r = i \<and> tk_version r = expectedVersion \<and> media_requeueable r) media_requeued"

definition RequeueCancelledTaskAfterMedia :: "uuid \<Rightarrow> int \<Rightarrow> TaskState \<Rightarrow> EpisodeTask option tx" where
  "RequeueCancelledTaskAfterMedia i expectedVersion nextState = update_task
     (\<lambda>db r. tk_id r = i \<and> tk_state r = TaskCancelled \<and> both_ready r \<and> tk_version r = expectedVersion \<and>
        (nextState = TaskFinalizing \<or> nextState = TaskImportQueued) \<and>
        \<not> has_import db (tk_id r) import_succeeded)
     (task_cleared nextState)"

definition task_stopped :: "EpisodeTask \<Rightarrow> EpisodeTask" where
  "task_stopped r = task_cleared TaskCancelled (r\<lparr>
     tk_video_state := (if video_active r then VideoCancelled else tk_video_state r),
     tk_subtitle_state := (if subtitle_active r then SubtitleCancelled else tk_subtitle_state r)\<rparr>)"

definition CancelEpisodeTaskIfActive :: "uuid \<Rightarrow> int \<Rightarrow> EpisodeTask option tx" where
  "CancelEpisodeTaskIfActive i expectedVersion = update_task
     (\<lambda>db r. tk_id r = i \<and> \<not> task_settled (tk_state r) \<and> tk_version r = expectedVersion) task_stopped"

section \<open>The task as the API shows it\<close>

record TaskView =
  tv_task :: EpisodeTask
  tv_download_id :: uuid
  tv_artifact_set :: "ArtifactSet option"
  tv_review :: "Review option"
  tv_import :: "Import option"
  tv_cleanup :: "CleanupRun option"

text \<open>Titles, coordinates and the Emby link of the view are left out.\<close>

definition GetTaskView :: "uuid \<Rightarrow> TaskView option tx" where
  "GetTaskView i = tx_read (\<lambda>db.
     Option.bind (by_key tk_id i (tasks db)) (\<lambda>t.
     Option.bind (task_acquisition db t) (\<lambda>_.
     Option.bind (task_download db t) (\<lambda>d.
       if dl_deleted_at d \<noteq> None then None
       else Some \<lparr>tv_task = t, tv_download_id = dl_id d,
              tv_artifact_set = by_key as_task_id i (artifact_sets db),
              tv_review = by_key rv_task_id i (reviews db),
              tv_import = latest_by im_attempt (filter (\<lambda>r. im_task_id r = i) (imports_tab db)),
              tv_cleanup = latest_by cl_attempt (filter (\<lambda>r. cl_task_id r = i) (cleanups db))\<rparr>))))"

section \<open>Completing an RSS subscription\<close>

definition LockRSSSubscriptionForTaskImport :: "uuid \<Rightarrow> uuid option tx" where
  "LockRSSSubscriptionForTaskImport i = tx_read (\<lambda>db.
     Option.bind (by_key tk_id i (tasks db)) (\<lambda>t.
     Option.bind (task_subscription db t) (\<lambda>(e, s).
       if rs_deleted_at s = None then Some (rs_id s) else None)))"

text \<open>The entry of an imported task is marked, and the target episode recorded as fulfilled.\<close>

definition fulfil :: "uuid \<Rightarrow> uuid \<Rightarrow> uuid \<Rightarrow> nat \<Rightarrow> RssTargetFulfillment list \<Rightarrow> RssTargetFulfillment list" where
  "fulfil entry target task now fs =
     (let same = (\<lambda>f. ft_rss_entry_id f = entry \<and> ft_target_episode_id f = target \<and> ft_source f = ManagedImport)
      in if list_ex same fs
         then upd_row same (\<lambda>f. f\<lparr>ft_task_id := Some task, ft_verified_at := max (ft_verified_at f) now\<rparr>) fs
         else fs @ [\<lparr>ft_rss_entry_id = entry, ft_target_episode_id = target, ft_source = ManagedImport,
                     ft_task_id = Some task, ft_verified_at = now, ft_invalidated_at = None\<rparr>])"

definition MarkRSSEntryImportedForTask :: "uuid \<Rightarrow> RssEntry option tx" where
  "MarkRSSEntryImportedForTask i db =
     (case Option.bind (by_key tk_id i (tasks db)) (\<lambda>t. if tk_state t = TaskImported
             then Option.bind (task_acquisition db t) (\<lambda>a. map_option (Pair t) (aq_rss_entry_id a)) else None) of
        None \<Rightarrow> Inr (None, db)
      | Some (t, entry) \<Rightarrow>
          tx_bind (update_one rss_entries rss_entries_update (\<lambda>r. re_id r = entry)
                     (\<lambda>now r. r\<lparr>re_imported_at := coalesce (re_imported_at r) now\<rparr>)) (\<lambda>updated.
            case updated of
              None \<Rightarrow> tx_return None
            | Some e \<Rightarrow>
                (case task_mapping db t of
                   None \<Rightarrow> tx_return (Some e)
                 | Some m \<Rightarrow>
                     if \<not> em_mapped m then tx_return (Some e)
                     else case em_target_episode_id m of
                            None \<Rightarrow> tx_fail (OtherError ''mark RSS entry imported'')
                          | Some target \<Rightarrow>
                              tx_seq (tx_modify (fulfillments_update (fulfil entry target i (clock db))))
                                (tx_return (Some e)))) db)"

definition mapped_in :: "db \<Rightarrow> uuid option \<Rightarrow> int \<Rightarrow> EpisodeMappingRow list" where
  "mapped_in db profile season = filter (\<lambda>m. Some (em_profile_id m) = profile \<and> em_source_season m = season \<and>
     em_source_fraction m = 0 \<and> em_mapped m) (mappings db)"

definition max_opt :: "int list \<Rightarrow> int option" where
  "max_opt xs = (case xs of [] \<Rightarrow> None | x # xs \<Rightarrow> Some (foldl max x xs))"

definition final_source_episode :: "db \<Rightarrow> RssSubscription \<Rightarrow> EpisodeMappingProfile \<Rightarrow> int option" where
  "final_source_episode db s p =
     (if mp_anchor_source_season p \<noteq> None
      then max_opt (map em_source_episode (mapped_in db (Some (mp_id p)) (rs_source_season s)))
      else if 1 \<le> rs_source_season s \<and> nat (rs_source_season s) \<le> length (mp_source_season_lengths p)
           then Some (mp_source_season_lengths p ! nat (rs_source_season s - 1)) else None)"

definition target_fulfilled :: "db \<Rightarrow> RssSubscription \<Rightarrow> uuid \<Rightarrow> bool" where
  "target_fulfilled db s target =
     list_ex (\<lambda>f. ft_target_episode_id f = target \<and>
        (ft_source f = ManagedImport \<or> ft_source f = EmbyCatalog \<and> ft_invalidated_at f = None) \<and>
        (case Option.bind (by_key re_id (ft_rss_entry_id f) (rss_entries db))
                 (\<lambda>e. by_key rs_id (re_subscription_id e) (rss_subscriptions db)) of
           None \<Rightarrow> False | Some q \<Rightarrow> rs_series_id q = rs_series_id s)) (fulfillments db)"

definition episode_fulfilled :: "db \<Rightarrow> RssSubscription \<Rightarrow> int \<Rightarrow> bool" where
  "episode_fulfilled db s n =
     (let ms = filter (\<lambda>m. em_source_episode m = n) (mapped_in db (rs_mapping_profile_id s) (rs_source_season s))
      in ms \<noteq> [] \<and> list_all (\<lambda>m. case em_target_episode_id m of None \<Rightarrow> False
                                     | Some target \<Rightarrow> target_fulfilled db s target) ms)"

record CompletedSubscription =
  cs_id :: uuid
  cs_version :: int
  cs_cleanup_source_on_completion :: bool
  cs_source_season :: int
  cs_source_episode :: int

text \<open>A subscription is complete when every source episode up to the last one is fulfilled.\<close>

definition subscription_complete :: "db \<Rightarrow> RssSubscription \<Rightarrow> int option" where
  "subscription_complete db s =
     Option.bind (by_key_opt mp_id (rs_mapping_profile_id s) (mapping_profiles db)) (\<lambda>p.
     Option.bind (by_key ms_id (rs_series_id s) (series_tab db)) (\<lambda>series.
     Option.bind (final_source_episode db s p) (\<lambda>n.
       if rs_deleted_at s = None \<and> rs_completed_at s = None \<and>
          (mp_anchor_source_season p = None \<or>
           (case ms_status series of None \<Rightarrow> False
            | Some st \<Rightarrow> to_lower st = lit ''ended'' \<or> to_lower st = lit ''canceled'')) \<and>
          0 < n \<and> list_all (episode_fulfilled db s) [1..n]
       then Some n else None)))"

definition LockRSSSubscriptionAtCompleteImport :: "uuid \<Rightarrow> CompletedSubscription option tx" where
  "LockRSSSubscriptionAtCompleteImport i = tx_read (\<lambda>db.
     Option.bind (by_key tk_id i (tasks db)) (\<lambda>t.
     Option.bind (task_subscription db t) (\<lambda>(e, s).
       if tk_state t = TaskImported \<and> re_imported_at e \<noteq> None
       then map_option (\<lambda>n. \<lparr>cs_id = rs_id s, cs_version = rs_version s,
                             cs_cleanup_source_on_completion = rs_cleanup_source_on_completion s,
                             cs_source_season = rs_source_season s, cs_source_episode = n\<rparr>)
              (subscription_complete db s)
       else None)))"

definition MarkRSSSubscriptionCompleted :: "uuid \<Rightarrow> int \<Rightarrow> RssSubscription option tx" where
  "MarkRSSSubscriptionCompleted i expectedVersion = update_one rss_subscriptions rss_subscriptions_update
     (\<lambda>r. rs_id r = i \<and> rs_version r = expectedVersion \<and> rs_deleted_at r = None \<and> rs_completed_at r = None)
     (\<lambda>now r. r\<lparr>rs_enabled := False, rs_completed_at := coalesce (rs_completed_at r) now,
        rs_version := rs_version r + 1\<rparr>)"

definition ListRSSCompletionCleanupCandidates :: "uuid \<Rightarrow> (uuid \<times> uuid \<times> uuid) list tx" where
  "ListRSSCompletionCleanupCandidates subscription = tx_read (\<lambda>db.
     concat (map (\<lambda>t.
       case (task_subscription db t, task_download db t) of
         (Some (e, s), Some d) \<Rightarrow>
           if rs_id s = subscription \<and> tk_state t = TaskImported \<and> \<not> has_cleanup db (tk_id t) (\<lambda>_. True)
           then map (\<lambda>r. (tk_id t, im_id r, dl_id d))
                  (filter (\<lambda>r. im_task_id r = tk_id t \<and> import_succeeded r) (imports_tab db))
           else []
       | _ \<Rightarrow> []) (tasks db)))"

end
