(* ===== verification/TaskWorkflow.thy ===== *)
theory TaskWorkflow
  imports TaskStore
begin

text \<open>
  Review, import and cleanup of a task: \<^verbatim>\<open>internal/service/task_workflow.go\<close> with the records of
  \<^verbatim>\<open>internal/domain/task_workflow.go\<close> and the retry predicates of \<^verbatim>\<open>task_retryability.go\<close>.
  The body of each transaction is a definition of type \<open>_ tx\<close>; commands that answer with the task
  read it again after the commit.
\<close>

section \<open>Commands and views\<close>

record ReviewTaskInput =
  rt_TaskID :: uuid
  rt_ExpectedVersion :: int
  rt_Decision :: TaskState
  rt_Notes :: gostr
  rt_IdempotencyKey :: gostr
  rt_ActorUserID :: uuid

record QueueTaskImport =
  qi_TaskID :: uuid
  qi_ExpectedVersion :: int
  qi_IdempotencyKey :: gostr
  qi_ActorUserID :: uuid

record ImportCommand =
  ic_TaskID :: uuid
  ic_ImportID :: uuid
  ic_TaskState :: TaskState
  ic_ImportState :: ImportStatus
  ic_MediaType :: TaskMediaType
  ic_SeriesTitle :: gostr
  ic_MovieTitle :: gostr
  ic_ReleaseYear :: int
  ic_Season :: int
  ic_BaseName :: gostr
  ic_Video :: MediaArtifact
  ic_Subtitle :: MediaArtifact

record ImportCompletion =
  ico_TaskID :: uuid
  ico_ImportID :: uuid
  ico_OperationID :: uuid
  ico_DestinationVideoPath :: gostr
  ico_DestinationSubtitlePath :: gostr

record CleanupCommand =
  cc_TaskID :: uuid
  cc_CleanupID :: uuid
  cc_TaskState :: TaskState
  cc_CleanupState :: CleanupState
  cc_DownloadID :: uuid
  cc_TorrentHash :: gostr
  cc_DownloadPath :: gostr
  cc_StagedVideoPath :: gostr
  cc_StagedSubtitlePath :: gostr
  cc_DownloadRemovable :: bool

record CleanupCompletion =
  cco_TaskID :: uuid
  cco_CleanupID :: uuid
  cco_OperationID :: uuid
  cco_TorrentRemoved :: bool
  cco_StagedFilesRemoved :: bool

record TaskActions =
  CanRetry :: bool
  CanCancel :: bool
  CanReview :: bool
  CanImport :: bool

record EpisodeTaskView =
  et_view :: TaskView
  et_Operations :: "Operation list"
  et_Actions :: TaskActions

definition isCancelledMediaRecoverable :: "TaskState \<Rightarrow> VideoState \<Rightarrow> SubtitleState \<Rightarrow> bool" where
  "isCancelledMediaRecoverable state videoState subtitleState =
     (if state \<noteq> TaskCancelled then False
      else (videoState = VideoFailed \<or> videoState = VideoCancelled \<or> videoState = VideoReady) \<and>
           (subtitleState = SubtitleFailed \<or> subtitleState = SubtitleCancelled \<or> subtitleState = SubtitleASSReady))"

definition isTaskRetryable ::
  "TaskState \<Rightarrow> VideoState \<Rightarrow> SubtitleState \<Rightarrow> string \<Rightarrow> CleanupState option \<Rightarrow> bool" where
  "isTaskRetryable state videoState subtitleState failureStage cleanupStatus =
     (if state = TaskImported \<and> cleanupStatus = Some CleanupFailed then True
      else let hasMediaFailed = (videoState = VideoFailed \<or> subtitleState = SubtitleFailed)
           in if state = TaskFailed \<and> (failureStage \<noteq> '''' \<or> hasMediaFailed) then True
              else if state = TaskProcessing \<and> hasMediaFailed then True
              else isCancelledMediaRecoverable state videoState subtitleState)"

definition buildTaskView :: "TaskView \<Rightarrow> TaskActions" where
  "buildTaskView v =
     (let t = tv_task v
      in \<lparr>CanRetry = isTaskRetryable (tk_state t) (tk_video_state t) (tk_subtitle_state t)
                      (valueOrEmpty (tk_failure_stage t)) (map_option cl_status (tv_cleanup v)),
          CanCancel = (tk_state t \<noteq> TaskImported \<and> tk_state t \<noteq> TaskCancelled \<and> tk_state t \<noteq> TaskRejected),
          CanReview = (tk_state t = TaskAwaitingReview \<and> tv_artifact_set v \<noteq> None),
          CanImport = (tk_state t = TaskApproved \<and> tv_artifact_set v \<noteq> None \<and>
                       map_option rv_decision (tv_review v) = Some TaskApproved)\<rparr>)"

text \<open>Operations are listed newest first, at most ten of them.\<close>

definition attachOperationSummaries :: "db \<Rightarrow> uuid \<Rightarrow> Operation list" where
  "attachOperationSummaries db task =
     take 10 (rev (filter (\<lambda>p. op_resource_type p = Some ''episode_task'' \<and> op_resource_id p = Some task) (operations db)))"

definition or_fail :: "svc_error \<Rightarrow> 'r option tx \<Rightarrow> 'r tx" where
  "or_fail e m = tx_bind m (\<lambda>v. case v of None \<Rightarrow> tx_fail e | Some r \<Rightarrow> tx_return r)"

definition GetTask :: "uuid \<Rightarrow> EpisodeTaskView tx" where
  "GetTask i =
     (if i = uuid_nil then tx_fail ErrNotFound
      else tx_bind (or_fail ErrNotFound (GetTaskView i)) (\<lambda>v.
           tx_read (\<lambda>db. \<lparr>et_view = v, et_Operations = attachOperationSummaries db i, et_Actions = buildTaskView v\<rparr>)))"

section \<open>Validation and errors\<close>

definition invalidTaskCommand :: "string \<Rightarrow> string \<Rightarrow> svc_error" where
  "invalidTaskCommand field reason = NewError ''invalid_task_command'' ''the task command is invalid'' ErrInvalidInput
     [(''field'', jtext field), (''reason'', jtext reason)]"

definition taskStateConflict :: "string \<Rightarrow> uuid \<Rightarrow> TaskState \<Rightarrow> int \<Rightarrow> svc_error" where
  "taskStateConflict message task state version = NewError ''state_conflict'' message ErrStateConflict
     [(''taskId'', JUuid task), (''state'', jtext (task_state_str state)), (''version'', JNum version)]"

definition quoted :: "string \<Rightarrow> string" where
  "quoted s = CHR 0x22 # s @ [CHR 0x22]"

fun import_status_str :: "ImportStatus \<Rightarrow> string" where
  "import_status_str ImQueued = ''queued''"
| "import_status_str ImRunning = ''running''"
| "import_status_str ImSucceeded = ''succeeded''"
| "import_status_str ImFailed = ''failed''"
| "import_status_str ImCancelled = ''cancelled''"

definition validateReviewTask :: "ReviewTaskInput \<Rightarrow> svc_error option" where
  "validateReviewTask input =
     (if rt_TaskID input = uuid_nil then Some (invalidTaskCommand ''taskId'' ''is required'')
      else if rt_ExpectedVersion input \<le> 0 then Some (invalidTaskCommand ''expectedVersion'' ''must be positive'')
      else if rt_Decision input \<noteq> TaskApproved \<and> rt_Decision input \<noteq> TaskRejected
        then Some (invalidTaskCommand ''decision'' ''must be approved or rejected'')
      else if byte_len (rt_Notes input) > 4096 then Some (invalidTaskCommand ''notes'' ''must not exceed 4096 bytes'')
      else if trim_space (rt_IdempotencyKey input) = [] then Some (invalidTaskCommand ''idempotencyKey'' ''must not be blank'')
      else if rt_ActorUserID input = uuid_nil then Some (invalidTaskCommand ''actorUserId'' ''is required'')
      else None)"

definition validateQueueTaskImport :: "QueueTaskImport \<Rightarrow> svc_error option" where
  "validateQueueTaskImport input =
     (if qi_TaskID input = uuid_nil then Some (invalidTaskCommand ''taskId'' ''is required'')
      else if qi_ExpectedVersion input \<le> 0 then Some (invalidTaskCommand ''expectedVersion'' ''must be positive'')
      else if trim_space (qi_IdempotencyKey input) = [] then Some (invalidTaskCommand ''idempotencyKey'' ''must not be blank'')
      else if qi_ActorUserID input = uuid_nil then Some (invalidTaskCommand ''actorUserId'' ''is required'')
      else None)"

section \<open>Review\<close>

abbreviation minute :: int where "minute \<equiv> 60 * second"

definition import_schedule :: "uuid \<Rightarrow> gostr \<Rightarrow> uuid \<Rightarrow> int \<Rightarrow> uuid \<Rightarrow> ScheduleOperationRequest" where
  "import_schedule task key importID version actor =
     \<lparr>sq_Kind = ''emby.import'', sq_ResourceType = ''episode_task'', sq_ResourceID = task,
      sq_IdempotencyKey = key, sq_MaxAttempts = 3, sq_Timeout = 30 * minute,
      sq_Payload = [(''importId'', JUuid importID), (''expectedVersion'', JNum version)],
      sq_ActorUserID = actor\<rparr>"

definition review_key :: "env \<Rightarrow> ReviewTaskInput \<Rightarrow> gostr" where
  "review_key env input = lit ''task.review:'' @ e_uuid_string env (rt_TaskID input) @ lit '':'' @
     trim_space (rt_IdempotencyKey input)"

definition review_replayed :: "env \<Rightarrow> ReviewTaskInput \<Rightarrow> Review \<Rightarrow> bool" where
  "review_replayed env input existing =
     (rv_key existing = review_key env input \<and> rv_expected_task_version existing = rt_ExpectedVersion input \<and>
      rv_decision existing = rt_Decision input \<and> rv_notes existing = trim_space (rt_Notes input))"

definition queue_approved_import :: "env \<Rightarrow> ReviewTaskInput \<Rightarrow> uuid \<Rightarrow> EpisodeTask \<Rightarrow> unit tx" where
  "queue_approved_import env input reviewID updated =
     tx_bind (uuid_New env) (\<lambda>importID.
     tx_seq (CreateTaskImport importID (rt_TaskID input))
     (tx_bind (or_fail (taskStateConflict ''the approved task could not be queued for import'' (rt_TaskID input)
                  (rt_Decision input) (tk_version updated))
                (MarkTaskImportQueued (rt_TaskID input) (tk_version updated))) (\<lambda>queued.
      tx_bind (ScheduleInTx env (import_schedule (rt_TaskID input)
                 (lit ''emby.import:auto:'' @ e_uuid_string env reviewID) importID (tk_version updated)
                 (rt_ActorUserID input))) (\<lambda>scheduled.
      appendResourceEvent env ''episode_task'' (rt_TaskID input) (ov_ID (sr_Operation scheduled)) (rt_ActorUserID input)
        ''task.import_queued''
        [(''automatic'', JBool True), (''importId'', JUuid importID), (''reviewId'', JUuid reviewID),
         (''version'', JNum (tk_version queued))]))))"

definition record_review :: "env \<Rightarrow> ReviewTaskInput \<Rightarrow> EpisodeTask \<Rightarrow> unit tx" where
  "record_review env input locked =
     tx_bind (uuid_New env) (\<lambda>reviewID.
     tx_seq (CreateTaskReview \<lparr>rv_id = reviewID, rv_task_id = rt_TaskID input, rv_decision = rt_Decision input,
               rv_notes = trim_space (rt_Notes input), rv_reviewed_by = Some (rt_ActorUserID input),
               rv_key = review_key env input, rv_expected_task_version = rt_ExpectedVersion input\<rparr>)
     (tx_bind (or_fail (taskStateConflict ''the task is not reviewable'' (rt_TaskID input) (tk_state locked) (tk_version locked))
                (MarkTaskReviewed (rt_Decision input) (rt_TaskID input) (rt_ExpectedVersion input))) (\<lambda>updated.
      tx_seq (appendResourceEvent env ''episode_task'' (rt_TaskID input) uuid_nil (rt_ActorUserID input) ''task.reviewed''
                [(''decision'', jtext (task_state_str (rt_Decision input))), (''version'', JNum (tk_version updated))])
        (if rt_Decision input \<noteq> TaskApproved then tx_return ()
         else queue_approved_import env input reviewID updated))))"

definition review_tx :: "env \<Rightarrow> ReviewTaskInput \<Rightarrow> unit tx" where
  "review_tx env input =
     tx_bind (or_fail ErrNotFound (LockEpisodeTask (rt_TaskID input))) (\<lambda>locked.
     tx_bind (GetTaskReviewByTask (rt_TaskID input)) (\<lambda>existing.
     let conflict = (\<lambda>m. taskStateConflict m (rt_TaskID input) (tk_state locked) (tk_version locked))
     in case existing of
          Some existing \<Rightarrow>
            if review_replayed env input existing then tx_return ()
            else tx_fail (conflict ''the task was already reviewed'')
        | None \<Rightarrow>
            if tk_version locked \<noteq> rt_ExpectedVersion input
            then tx_fail (conflict ''the task was modified by another request'')
            else if ValidateTaskTransition (tk_state locked) (rt_Decision input) \<noteq> None
            then tx_fail (conflict ''the task is not awaiting review'')
            else tx_seq (or_fail (conflict ''the task does not have a valid paired artifact set'')
                           (GetArtifactSetForTask (rt_TaskID input)))
                   (record_review env input locked)))"

definition then_get :: "'a tx \<Rightarrow> uuid \<Rightarrow> db \<Rightarrow> (svc_error, 'a \<times> EpisodeTaskView) result \<times> db" where
  "then_get body i db =
     (case WithinTx body db of
        (Inl e, d) \<Rightarrow> (Inl e, d)
      | (Inr x, d) \<Rightarrow> (case GetTask i d of Inl e \<Rightarrow> (Inl e, d) | Inr (v, _) \<Rightarrow> (Inr (x, v), d)))"

definition ReviewTask :: "env \<Rightarrow> ReviewTaskInput \<Rightarrow> db \<Rightarrow> (svc_error, unit \<times> EpisodeTaskView) result \<times> db" where
  "ReviewTask env input db =
     (case validateReviewTask input of
        Some e \<Rightarrow> (Inl e, db)
      | None \<Rightarrow> then_get (review_tx env input) (rt_TaskID input) db)"

section \<open>Import\<close>

text \<open>\<^verbatim>\<open>taskImportOperationPayload\<close>: a missing key reads as the zero value, a value of another type is an error.\<close>

definition taskImportOperationPayload :: "payload \<Rightarrow> (uuid \<times> int) option" where
  "taskImportOperationPayload p =
     (case (map_of p ''importId'', map_of p ''expectedVersion'') of
        (None, None) \<Rightarrow> Some (uuid_nil, 0)
      | (Some (JUuid i), None) \<Rightarrow> Some (i, 0)
      | (None, Some (JNum v)) \<Rightarrow> Some (uuid_nil, v)
      | (Some (JUuid i), Some (JNum v)) \<Rightarrow> Some (i, v)
      | _ \<Rightarrow> None)"

definition import_key_conflict :: "gostr \<Rightarrow> svc_error" where
  "import_key_conflict key = NewError ''idempotency_conflict''
     ''the idempotency key was already used for different import parameters'' ErrStateConflict
     [(''idempotencyKey'', JStr key)]"

definition queue_import_key :: "env \<Rightarrow> QueueTaskImport \<Rightarrow> gostr" where
  "queue_import_key env input = lit ''emby.import:'' @ e_uuid_string env (qi_TaskID input) @ lit '':'' @
     trim_space (qi_IdempotencyKey input)"

definition queue_new_import :: "env \<Rightarrow> QueueTaskImport \<Rightarrow> (string \<Rightarrow> svc_error) \<Rightarrow> OperationView tx" where
  "queue_new_import env input conflict =
     tx_bind (uuid_New env) (\<lambda>importID.
     tx_seq (CreateTaskImport importID (qi_TaskID input))
     (tx_bind (or_fail (conflict ''the task import guard rejected the command'')
                (MarkTaskImportQueued (qi_TaskID input) (qi_ExpectedVersion input))) (\<lambda>updated.
      tx_bind (ScheduleInTx env (import_schedule (qi_TaskID input) (queue_import_key env input) importID
                 (qi_ExpectedVersion input) (qi_ActorUserID input))) (\<lambda>scheduled.
      tx_seq (appendResourceEvent env ''episode_task'' (qi_TaskID input) (ov_ID (sr_Operation scheduled))
                (qi_ActorUserID input) ''task.import_queued''
                [(''importId'', JUuid importID), (''version'', JNum (tk_version updated))])
        (tx_return (sr_Operation scheduled))))))"

definition queue_import_tx :: "env \<Rightarrow> QueueTaskImport \<Rightarrow> OperationView tx" where
  "queue_import_tx env input =
     tx_bind (or_fail ErrNotFound (LockEpisodeTask (qi_TaskID input))) (\<lambda>locked.
     tx_bind (GetOperationByIdempotencyKey (queue_import_key env input)) (\<lambda>existing.
     let conflict = (\<lambda>m. taskStateConflict m (qi_TaskID input) (tk_state locked) (tk_version locked))
     in case existing of
          Some existing \<Rightarrow>
            if op_kind existing \<noteq> ''emby.import'' \<or> UUIDFromPG (op_resource_id existing) \<noteq> qi_TaskID input
            then tx_fail (conflict ''the idempotency key belongs to another command'')
            else (case taskImportOperationPayload (op_payload existing) of
                    Some (importID, version) \<Rightarrow>
                      if version \<noteq> qi_ExpectedVersion input \<or> importID = uuid_nil
                      then tx_fail (import_key_conflict (qi_IdempotencyKey input))
                      else tx_return (operationFromDB existing)
                  | None \<Rightarrow> tx_fail (import_key_conflict (qi_IdempotencyKey input)))
        | None \<Rightarrow>
            if tk_version locked \<noteq> qi_ExpectedVersion input
            then tx_fail (conflict ''the task was modified by another request'')
            else if ValidateTaskTransition (tk_state locked) TaskImportQueued \<noteq> None
            then tx_fail (conflict ''only an approved task can be queued for import'')
            else tx_seq (or_fail (conflict ''the task does not have a valid paired artifact set'')
                           (GetArtifactSetForTask (qi_TaskID input)))
                   (queue_new_import env input conflict)))"

definition QueueImport :: "env \<Rightarrow> QueueTaskImport \<Rightarrow> db \<Rightarrow> (svc_error, OperationView \<times> EpisodeTaskView) result \<times> db" where
  "QueueImport env input db =
     (case validateQueueTaskImport input of
        Some e \<Rightarrow> (Inl e, db)
      | None \<Rightarrow> then_get (queue_import_tx env input) (qi_TaskID input) db)"

definition movieTitle :: "TaskMediaType \<Rightarrow> gostr \<Rightarrow> gostr" where
  "movieTitle mediaType title = (if mediaType = TaskMediaMovie then title else [])"

definition intValue :: "int option \<Rightarrow> int" where
  "intValue v = (case v of None \<Rightarrow> 0 | Some n \<Rightarrow> n)"

definition importCommandFromRow :: "ImportCommandRow \<Rightarrow> ImportCommand" where
  "importCommandFromRow row =
     \<lparr>ic_TaskID = tk_id (ir_task row), ic_ImportID = im_id (ir_import row), ic_TaskState = tk_state (ir_task row),
      ic_ImportState = im_status (ir_import row), ic_MediaType = tk_media_type (ir_task row),
      ic_SeriesTitle = ms_title (ir_series row),
      ic_MovieTitle = movieTitle (tk_media_type (ir_task row)) (ms_title (ir_series row)),
      ic_ReleaseYear = intValue (ms_release_year (ir_series row)), ic_Season = intValue (ir_target_season row),
      ic_BaseName = as_basename (ir_set row), ic_Video = ir_video row, ic_Subtitle = ir_subtitle row\<rparr>"

definition BeginImport :: "uuid \<Rightarrow> uuid \<Rightarrow> ImportCommand tx" where
  "BeginImport task importID =
     tx_bind (or_fail ErrNotFound (LockEpisodeTask task)) (\<lambda>locked.
     tx_bind (or_fail ErrNotFound (GetTaskImportCommand task importID)) (\<lambda>row.
     let command = importCommandFromRow row
     in if tk_state locked = TaskImported \<and> im_status (ir_import row) = ImSucceeded then tx_return command
        else if tk_state locked \<noteq> TaskImportQueued \<and> tk_state locked \<noteq> TaskImporting
        then tx_fail (mediaWorkflowError ''task_import_state_conflict'' (''task cannot import from state '' @ quoted (task_state_str (tk_state locked))) False)
        else if im_status (ir_import row) \<noteq> ImQueued \<and> im_status (ir_import row) \<noteq> ImRunning
        then tx_fail (mediaWorkflowError ''import_state_conflict'' (''import cannot start from state '' @ quoted (import_status_str (im_status (ir_import row)))) False)
        else tx_seq (required ''start import record'' (StartImport importID))
             (tx_bind (required ''start task import'' (StartTaskImport task)) (\<lambda>started.
                tx_return (command\<lparr>ic_TaskState := tk_state started, ic_ImportState := ImRunning\<rparr>)))))"

section \<open>After the import\<close>

definition scheduleTaskCleanupInTx :: "env \<Rightarrow> uuid \<Rightarrow> uuid \<Rightarrow> uuid \<Rightarrow> unit tx" where
  "scheduleTaskCleanupInTx env task importID download =
     (let cleanupID = deterministicResourceID env
            (lit ''cleanup:'' @ e_uuid_string env task @ lit '':'' @ e_uuid_string env importID)
      in tx_seq (CreateTaskCleanup cleanupID task download)
         (tx_seq (ScheduleInTx env
            \<lparr>sq_Kind = ''cleanup.run'', sq_ResourceType = ''episode_task'', sq_ResourceID = task,
             sq_IdempotencyKey = lit ''cleanup.run:'' @ e_uuid_string env task @ lit '':'' @ e_uuid_string env importID,
             sq_MaxAttempts = 5, sq_Timeout = 30 * minute,
             sq_Payload = [(''cleanupId'', JUuid cleanupID)], sq_ActorUserID = uuid_nil\<rparr>)
          (tx_return ())))"

definition appendRSSEvent :: "env \<Rightarrow> uuid \<Rightarrow> uuid \<Rightarrow> string \<Rightarrow> payload \<Rightarrow> unit tx" where
  "appendRSSEvent env subscription operation topic data =
     append_event env topic (Some ''rss_subscription'') (Some subscription) (nullableUUID operation) None data"

definition scheduleRSSCompletionInTx :: "env \<Rightarrow> ImportCompletion \<Rightarrow> unit tx" where
  "scheduleRSSCompletionInTx env completion =
     tx_bind (LockRSSSubscriptionAtCompleteImport (ico_TaskID completion)) (\<lambda>final.
       case final of
         None \<Rightarrow> tx_return ()
       | Some final \<Rightarrow>
           tx_bind (MarkRSSSubscriptionCompleted (cs_id final) (cs_version final)) (\<lambda>completed.
             case completed of
               None \<Rightarrow> tx_return ()
             | Some completed \<Rightarrow>
                 tx_bind (if cs_cleanup_source_on_completion final
                          then ListRSSCompletionCleanupCandidates (cs_id final) else tx_return []) (\<lambda>candidates.
                 tx_seq (tx_each (\<lambda>(task, importID, download). scheduleTaskCleanupInTx env task importID download) candidates)
                   (appendRSSEvent env (cs_id final) (ico_OperationID completion) ''rss.subscription.final_imported''
                      [(''sourceSeason'', JNum (cs_source_season final)), (''sourceEpisode'', JNum (cs_source_episode final)),
                       (''version'', JNum (rs_version completed)),
                       (''cleanupSourceOnCompletion'', JBool (cs_cleanup_source_on_completion final)),
                       (''cleanupOperations'', JNum (int (length candidates)))]))))"

definition finish_import :: "env \<Rightarrow> ImportCompletion \<Rightarrow> EpisodeTask \<Rightarrow> unit tx" where
  "finish_import env completion updated =
     (let task = ico_TaskID completion; importID = ico_ImportID completion
      in tx_bind (LockRSSSubscriptionForTaskImport task) (\<lambda>rss.
         tx_seq (if rss \<noteq> None then tx_return ()
                 else tx_bind (required ''load task download for cleanup'' (GetTaskDownloadID task)) (\<lambda>download.
                      scheduleTaskCleanupInTx env task importID download))
         (tx_seq (ScheduleInTx env
            \<lparr>sq_Kind = ''emby.refresh'', sq_ResourceType = ''episode_task'', sq_ResourceID = task,
             sq_IdempotencyKey = lit ''emby.refresh:'' @ e_uuid_string env task @ lit '':'' @ e_uuid_string env importID,
             sq_MaxAttempts = 5, sq_Timeout = 2 * minute, sq_Payload = [], sq_ActorUserID = uuid_nil\<rparr>)
         (tx_seq (appendResourceEvent env ''episode_task'' task (ico_OperationID completion) uuid_nil ''task.imported''
            [(''importId'', JUuid importID), (''destinationVideoPath'', JStr (ico_DestinationVideoPath completion)),
             (''destinationSubtitlePath'', JStr (ico_DestinationSubtitlePath completion)),
             (''version'', JNum (tk_version updated))])
         (tx_seq (MarkRSSEntryImportedForTask task)
           (scheduleRSSCompletionInTx env completion))))))"

definition CompleteImport :: "env \<Rightarrow> ImportCompletion \<Rightarrow> unit tx" where
  "CompleteImport env completion =
     (if ico_TaskID completion = uuid_nil \<or> ico_ImportID completion = uuid_nil \<or> ico_OperationID completion = uuid_nil \<or>
         trim_space (ico_DestinationVideoPath completion) = [] \<or> trim_space (ico_DestinationSubtitlePath completion) = []
      then tx_fail (OtherError ''import completion requires task, import, operation, and destination paths'')
      else
        tx_bind (or_fail ErrNotFound (LockEpisodeTask (ico_TaskID completion))) (\<lambda>locked.
        tx_bind (required ''load completed task import''
                   (GetTaskImportCommand (ico_TaskID completion) (ico_ImportID completion))) (\<lambda>command.
        if tk_state locked = TaskImported \<and> im_status (ir_import command) = ImSucceeded then tx_return ()
        else if tk_state locked \<noteq> TaskImporting \<or> im_status (ir_import command) \<noteq> ImRunning
        then tx_fail (mediaWorkflowError ''task_import_state_conflict'' ''the task import is not running'' False)
        else tx_seq (required ''complete import record''
                       (CompleteImport_stmt (ico_DestinationVideoPath completion)
                          (ico_DestinationSubtitlePath completion) (ico_ImportID completion)))
             (tx_bind (required ''mark task imported'' (MarkTaskImported (ico_TaskID completion))) (\<lambda>updated.
                finish_import env completion updated)))))"

section \<open>Cleanup\<close>

definition stringValue :: "gostr option \<Rightarrow> gostr" where
  "stringValue v = (case v of None \<Rightarrow> [] | Some s \<Rightarrow> s)"

definition cleanupCommandFromRow :: "CleanupCommandRow \<Rightarrow> CleanupCommand" where
  "cleanupCommandFromRow row =
     \<lparr>cc_TaskID = tk_id (cr_task row), cc_CleanupID = cl_id (cr_cleanup row), cc_TaskState = tk_state (cr_task row),
      cc_CleanupState = cl_status (cr_cleanup row), cc_DownloadID = dl_id (cr_download row),
      cc_TorrentHash = stringValue (dl_torrent_hash (cr_download row)),
      cc_DownloadPath = stringValue (dl_save_path (cr_download row)),
      cc_StagedVideoPath = ar_file_path (cr_video row), cc_StagedSubtitlePath = ar_file_path (cr_subtitle row),
      cc_DownloadRemovable = cr_download_removable row\<rparr>"

definition BeginCleanup :: "uuid \<Rightarrow> uuid \<Rightarrow> CleanupCommand tx" where
  "BeginCleanup task cleanupID =
     tx_bind (or_fail ErrNotFound (LockEpisodeTask task)) (\<lambda>locked.
     tx_bind (or_fail ErrNotFound (GetTaskCleanupCommand task cleanupID)) (\<lambda>row.
     let command = cleanupCommandFromRow row
     in if cl_status (cr_cleanup row) = CleanupCompleted then tx_return command
        else if tk_state locked \<noteq> TaskImported
        then tx_fail (mediaWorkflowError ''cleanup_import_guard_failed'' ''cleanup requires an imported task'' False)
        else if cl_status (cr_cleanup row) \<noteq> CleanupQueued \<and> cl_status (cr_cleanup row) \<noteq> CleanupRunning
        then tx_fail (mediaWorkflowError ''cleanup_state_conflict'' (''cleanup cannot start from state '' @ quoted (cleanup_state_str (cl_status (cr_cleanup row)))) False)
        else tx_seq (required ''start cleanup record'' (StartCleanup cleanupID))
               (tx_return (command\<lparr>cc_CleanupState := CleanupRunning\<rparr>))))"

definition CompleteCleanup :: "env \<Rightarrow> CleanupCompletion \<Rightarrow> unit tx" where
  "CompleteCleanup env completion =
     (if cco_TaskID completion = uuid_nil \<or> cco_CleanupID completion = uuid_nil \<or> cco_OperationID completion = uuid_nil
      then tx_fail (OtherError ''cleanup completion requires task, cleanup, and operation IDs'')
      else
        tx_bind (or_fail ErrNotFound (GetTaskCleanupCommand (cco_TaskID completion) (cco_CleanupID completion))) (\<lambda>row.
        if cl_status (cr_cleanup row) = CleanupCompleted then tx_return ()
        else if tk_state (cr_task row) \<noteq> TaskImported \<or> cl_status (cr_cleanup row) \<noteq> CleanupRunning
        then tx_fail (mediaWorkflowError ''cleanup_state_conflict'' ''the imported task cleanup is not running'' False)
        else tx_seq (required ''complete cleanup record''
                       (CompleteCleanup_stmt (cco_TorrentRemoved completion) (cco_StagedFilesRemoved completion)
                          (cco_CleanupID completion)))
               (appendResourceEvent env ''episode_task'' (cco_TaskID completion) (cco_OperationID completion) uuid_nil
                  ''task.cleanup_completed''
                  [(''cleanupId'', JUuid (cco_CleanupID completion)),
                   (''torrentRemoved'', JBool (cco_TorrentRemoved completion)),
                   (''stagedFilesRemoved'', JBool (cco_StagedFilesRemoved completion))])))"

definition TaskCancellationReady :: "uuid \<Rightarrow> uuid \<Rightarrow> bool tx" where
  "TaskCancellationReady task operation =
     tx_bind (CountOtherActiveResourceOperations ''episode_task'' task operation) (\<lambda>count. tx_return (count = 0))"

end
