(* ===== verification/Transcode.thy ===== *)
theory Transcode
  imports GoText
begin

text \<open>
  Transcode profiles: \<^verbatim>\<open>internal/domain/transcode.go\<close>. The quality value of a profile is a
  \<^verbatim>\<open>float64\<close>; the theory starts with the part of IEEE 754 binary64 arithmetic and of
  \<^verbatim>\<open>strconv\<close> that the validator and the argument builder use, computed exactly with integers.
\<close>

section \<open>Floating point\<close>

text \<open>
  A finite double is \<open>F64 m e\<close>, the value \<open>m \<cdot> 2\<^sup>e\<close> with a significand of 53 bits, or less when \<open>e\<close> is
  the least exponent; zero is \<open>F64 0 0\<close>.
\<close>

datatype f64 = F64 int int | F64_NaN | F64_Inf bool

fun bits :: "nat \<Rightarrow> int \<Rightarrow> int" where
  "bits 0 n = 0"
| "bits (Suc fuel) n = (if n \<le> 0 then 0 else 1 + bits fuel (drop_bit 1 n))"

text \<open>Numerators and denominators met here stay far below \<open>2\<^sup>4\<^sup>0\<^sup>0\<^sup>0\<close>.\<close>

abbreviation bit_fuel :: nat where "bit_fuel \<equiv> 4000"

definition shl :: "int \<Rightarrow> int \<Rightarrow> int" where
  "shl n k = (if 0 < k then push_bit (nat k) n else n)"

text \<open>The quotient \<open>p / q\<close> rounded to the nearest integer, ties to even.\<close>

definition div_even :: "int \<Rightarrow> int \<Rightarrow> int" where
  "div_even p q = (let n = p div q; r = 2 * (p mod q)
                   in if r < q then n else if r > q then n + 1 else if even n then n else n + 1)"

text \<open>
  The double nearest to \<open>p / q\<close>, with gradual underflow and overflow to infinity: the significand has
  53 bits, the exponent of its last bit is at least -1074.
\<close>

definition f64_ratio :: "int \<Rightarrow> int \<Rightarrow> f64" where
  "f64_ratio p q =
     (if p = 0 then F64 0 0
      else let a = \<bar>p\<bar>; k = bits bit_fuel a - bits bit_fuel q;
               top = (if shl a (- k) < shl q k then k - 1 else k);
               e = max (- 1074) (top - 52); m = div_even (shl a (- e)) (shl q e)
           in if 971 < e \<or> e = 971 \<and> 2 ^ 53 \<le> m then F64_Inf (p < 0)
              else let (m, e) = (if m = 2 ^ 53 then (2 ^ 52, e + 1) else (m, e))
                   in F64 (if p < 0 then - m else m) e)"

definition f64_num :: "int \<Rightarrow> int \<Rightarrow> int" where "f64_num m e = shl m e"
definition f64_den :: "int \<Rightarrow> int \<Rightarrow> int" where "f64_den m e = shl 1 (- e)"

text \<open>
  \<^verbatim>\<open>math.Abs(v*1000-math.Round(v*1000)) > 1e-9\<close> for a finite \<^verbatim>\<open>v\<close>; a product that overflows gives
  \<^verbatim>\<open>Inf - Inf\<close>, which is not a number and compares false. The difference to the nearest integer is
  exact.
\<close>

definition beyond_thousandths :: "int \<Rightarrow> int \<Rightarrow> bool" where
  "beyond_thousandths m e =
     (case f64_ratio (f64_num m e * 1000) (f64_den m e) of
        F64 pm pe \<Rightarrow>
          (let p = \<bar>f64_num pm pe\<bar>; q = f64_den pm pe; r = p mod q; d = (if 2 * r < q then r else q - r)
           in case f64_ratio 1 (10 ^ 9) of
                F64 tm te \<Rightarrow> f64_num tm te * q < d * f64_den tm te
              | _ \<Rightarrow> False)
      | _ \<Rightarrow> False)"

text \<open>
  \<^verbatim>\<open>strconv.FormatFloat(v, 'f', -1, 64)\<close> for a nonnegative finite \<^verbatim>\<open>v\<close> below \<open>2\<^sup>5\<^sup>3\<close>, the values a valid
  profile can have: the fewest decimals that read back as \<^verbatim>\<open>v\<close>. A double has at most 1074 decimals,
  which bounds the search.
\<close>

definition fixed_decimals :: "nat \<Rightarrow> int \<Rightarrow> gostr" where
  "fixed_decimals d n =
     (if d = 0 then itoa n else itoa (n div 10 ^ d) @ lit ''.'' @ pad_zero d (n mod 10 ^ d))"

fun shortest_decimals :: "nat \<Rightarrow> nat \<Rightarrow> int \<Rightarrow> int \<Rightarrow> gostr" where
  "shortest_decimals 0 d m e = fixed_decimals d (div_even (f64_num m e * 10 ^ d) (f64_den m e))"
| "shortest_decimals (Suc fuel) d m e =
     (let n = div_even (f64_num m e * 10 ^ d) (f64_den m e)
      in if f64_ratio n (10 ^ d) = F64 m e then fixed_decimals d n else shortest_decimals fuel (Suc d) m e)"

text \<open>\<open>m \<cdot> 2\<^sup>e \<le> n\<close>\<close>

definition f64_le :: "int \<Rightarrow> int \<Rightarrow> int \<Rightarrow> bool" where
  "f64_le m e n = (f64_num m e \<le> n * f64_den m e)"

section \<open>Profiles\<close>

record TranscodeProfile =
  Name :: gostr
  VideoCodec :: gostr
  Encoder :: gostr
  Container :: gostr
  FileExtension :: gostr
  QualityMode :: gostr
  QualityValue :: f64
  AudioPolicy :: gostr
  AudioCodec :: gostr
  Preset :: gostr
  PixelFormat :: gostr
  ThreadCount :: int
  MaxConcurrency :: int

text \<open>The constant 20.\<close>

definition f64_twenty :: f64 where
  "f64_twenty = F64 5629499534213120 (- 48)"

lemma f64_twenty: "f64_twenty = f64_ratio 20 1"
  by code_simp

definition DefaultTranscodeProfile :: TranscodeProfile where
  "DefaultTranscodeProfile = \<lparr>Name = lit ''default-h264'', VideoCodec = lit ''h264'', Encoder = lit ''libx264'',
     Container = lit ''mp4'', FileExtension = lit ''mp4'', QualityMode = lit ''crf'', QualityValue = f64_twenty,
     AudioPolicy = lit ''transcode'', AudioCodec = lit ''aac'', Preset = lit ''medium'',
     PixelFormat = lit ''yuv420p'', ThreadCount = 0, MaxConcurrency = 1\<rparr>"

datatype TranscodeProfileError = TranscodeProfileError string string

definition invalidTranscodeField :: "string \<Rightarrow> string \<Rightarrow> TranscodeProfileError" where
  "invalidTranscodeField field reason = TranscodeProfileError field reason"

definition codecEncoders :: "(gostr \<times> gostr list) list" where
  "codecEncoders =
     [(lit ''h264'', [lit ''libx264'', lit ''h264_nvenc'']),
      (lit ''hevc'', [lit ''libx265'', lit ''hevc_nvenc'']),
      (lit ''av1'', [lit ''libsvtav1'', lit ''libaom-av1'', lit ''av1_nvenc''])]"

definition containerExtensions :: "(gostr \<times> gostr) list" where
  "containerExtensions = [(lit ''matroska'', lit ''mkv''), (lit ''mp4'', lit ''mp4''), (lit ''webm'', lit ''webm'')]"

definition containerVideoCodecs :: "(gostr \<times> gostr list) list" where
  "containerVideoCodecs =
     [(lit ''matroska'', [lit ''h264'', lit ''hevc'', lit ''av1'']),
      (lit ''mp4'', [lit ''h264'', lit ''hevc'', lit ''av1'']),
      (lit ''webm'', [lit ''av1''])]"

definition containerAudioCodecs :: "(gostr \<times> gostr list) list" where
  "containerAudioCodecs =
     [(lit ''matroska'', [lit ''aac'', lit ''ac3'', lit ''eac3'', lit ''flac'', lit ''opus'', lit ''vorbis'']),
      (lit ''mp4'', [lit ''aac'', lit ''ac3'', lit ''eac3'']),
      (lit ''webm'', [lit ''opus'', lit ''vorbis''])]"

definition pixelFormats :: "gostr list" where
  "pixelFormats = [lit ''yuv420p'', lit ''yuv420p10le'', lit ''yuv422p'', lit ''yuv422p10le'',
     lit ''yuv444p'', lit ''yuv444p10le'', lit ''nv12'', lit ''p010le'']"

definition containsString :: "gostr list \<Rightarrow> gostr \<Rightarrow> bool" where
  "containsString values target = list_ex (\<lambda>v. v = target) values"

definition allowed_in :: "(gostr \<times> gostr list) list \<Rightarrow> gostr \<Rightarrow> gostr \<Rightarrow> bool" where
  "allowed_in table key v = (case map_of table key of None \<Rightarrow> False | Some vs \<Rightarrow> containsString vs v)"

text \<open>\<^verbatim>\<open>strconv.Atoi\<close>: an optional sign and decimal digits within \<^verbatim>\<open>int64\<close>.\<close>

definition atoi :: "gostr \<Rightarrow> int option" where
  "atoi s =
     (let neg = has_prefix s (lit ''-'');
          ds = (if neg \<or> has_prefix s (lit ''+'') then tl s else s);
          n = decimal ds; v = (if neg then - n else n)
      in if ds = [] \<or> \<not> list_all (\<lambda>c. 48 \<le> c \<and> c \<le> 57) ds then None
         else if v < - (2 ^ 63) \<or> v \<ge> 2 ^ 63 then None else Some v)"

definition validPreset :: "gostr \<Rightarrow> gostr \<Rightarrow> bool" where
  "validPreset encoder preset =
     (if encoder = lit ''libx264'' \<or> encoder = lit ''libx265'' then
        containsString [lit ''ultrafast'', lit ''superfast'', lit ''veryfast'', lit ''faster'', lit ''fast'',
          lit ''medium'', lit ''slow'', lit ''slower'', lit ''veryslow'', lit ''placebo''] preset
      else if encoder = lit ''libsvtav1'' then (case atoi preset of None \<Rightarrow> False | Some v \<Rightarrow> 0 \<le> v \<and> v \<le> 13)
      else if encoder = lit ''libaom-av1'' then (case atoi preset of None \<Rightarrow> False | Some v \<Rightarrow> 0 \<le> v \<and> v \<le> 8)
      else if encoder = lit ''h264_nvenc'' \<or> encoder = lit ''hevc_nvenc'' \<or> encoder = lit ''av1_nvenc'' then
        containsString [lit ''p1'', lit ''p2'', lit ''p3'', lit ''p4'', lit ''p5'', lit ''p6'', lit ''p7'',
          lit ''slow'', lit ''medium'', lit ''fast''] preset
      else False)"

definition validateQuality :: "TranscodeProfile \<Rightarrow> TranscodeProfileError option" where
  "validateQuality profile =
     (case QualityValue profile of
        F64 m e \<Rightarrow>
          if beyond_thousandths m e then Some (invalidTranscodeField ''qualityValue'' ''must use at most three decimal places'')
          else if QualityMode profile = lit ''crf'' then
            if has_suffix (Encoder profile) (lit ''_nvenc'')
            then Some (invalidTranscodeField ''qualityMode'' ''CRF is not supported by the selected encoder'')
            else if m < 0 \<or> \<not> f64_le m e 63 then Some (invalidTranscodeField ''qualityValue'' ''CRF must be between 0 and 63'')
            else None
          else if QualityMode profile = lit ''cq'' then
            if \<not> has_suffix (Encoder profile) (lit ''_nvenc'')
            then Some (invalidTranscodeField ''qualityMode'' ''CQ is only supported by configured NVENC encoders'')
            else if m < 0 \<or> \<not> f64_le m e 63 then Some (invalidTranscodeField ''qualityValue'' ''CQ must be between 0 and 63'')
            else None
          else if QualityMode profile = lit ''bitrate'' then
            if m \<le> 0 \<or> \<not> f64_le m e 1000000
            then Some (invalidTranscodeField ''qualityValue'' ''bitrate must be between 1 and 1000000 kbps'')
            else None
          else Some (invalidTranscodeField ''qualityMode'' ''must be crf, cq, or bitrate'')
      | _ \<Rightarrow> Some (invalidTranscodeField ''qualityValue'' ''must be a finite number''))"

definition validateAudio :: "TranscodeProfile \<Rightarrow> TranscodeProfileError option" where
  "validateAudio profile =
     (if AudioPolicy profile = lit ''copy'' then
        (if AudioCodec profile \<noteq> [] then Some (invalidTranscodeField ''audioCodec'' ''must be empty when audio policy is copy'')
         else None)
      else if AudioPolicy profile = lit ''transcode'' then
        (if \<not> allowed_in containerAudioCodecs (Container profile) (AudioCodec profile)
         then Some (invalidTranscodeField ''audioCodec'' ''is not compatible with the selected container'') else None)
      else Some (invalidTranscodeField ''audioPolicy'' ''must be copy or transcode''))"

definition ValidateTranscodeProfile :: "TranscodeProfile \<Rightarrow> TranscodeProfileError option" where
  "ValidateTranscodeProfile profile =
     (if trim_space (Name profile) = [] then Some (invalidTranscodeField ''name'' ''must not be blank'')
      else case map_of codecEncoders (VideoCodec profile) of
        None \<Rightarrow> Some (invalidTranscodeField ''videoCodec'' ''must be h264, hevc, or av1'')
      | Some encoders \<Rightarrow>
          if \<not> containsString encoders (Encoder profile)
          then Some (invalidTranscodeField ''encoder'' ''is not compatible with the selected video codec'')
          else (case map_of containerExtensions (Container profile) of
            None \<Rightarrow> Some (invalidTranscodeField ''container'' ''must be matroska, mp4, or webm'')
          | Some extension \<Rightarrow>
              (case map_of containerVideoCodecs (Container profile) of
                None \<Rightarrow> Some (invalidTranscodeField ''container'' ''has no supported video codecs'')
              | Some allowed \<Rightarrow>
                  if \<not> containsString allowed (VideoCodec profile)
                  then Some (invalidTranscodeField ''container'' ''is not compatible with the selected video codec'')
                  else if FileExtension profile \<noteq> extension
                  then Some (invalidTranscodeField ''fileExtension'' ''does not match the selected container'')
                  else (case validateQuality profile of Some e \<Rightarrow> Some e
                  | None \<Rightarrow> (case validateAudio profile of Some e \<Rightarrow> Some e
                  | None \<Rightarrow>
                      if \<not> validPreset (Encoder profile) (Preset profile)
                      then Some (invalidTranscodeField ''preset'' ''is not allowed for the selected encoder'')
                      else if \<not> containsString pixelFormats (PixelFormat profile)
                      then Some (invalidTranscodeField ''pixelFormat'' ''is not in the supported pixel format allowlist'')
                      else if ThreadCount profile < 0 \<or> ThreadCount profile > 256
                      then Some (invalidTranscodeField ''threadCount'' ''must be between 0 and 256'')
                      else if MaxConcurrency profile < 1 \<or> MaxConcurrency profile > 64
                      then Some (invalidTranscodeField ''maxConcurrency'' ''must be between 1 and 64'')
                      else None)))))"

definition formatProfileNumber :: "f64 \<Rightarrow> gostr" where
  "formatProfileNumber v =
     (case v of F64 m e \<Rightarrow> shortest_decimals 1074 0 m e | F64_NaN \<Rightarrow> lit ''NaN''
      | F64_Inf neg \<Rightarrow> if neg then lit ''-Inf'' else lit ''+Inf'')"

definition BuildTranscodeFFmpegArgs :: "TranscodeProfile \<Rightarrow> gostr \<Rightarrow> gostr \<Rightarrow> TranscodeProfileError + gostr list" where
  "BuildTranscodeFFmpegArgs profile inputPath temporaryOutput =
     (case ValidateTranscodeProfile profile of Some e \<Rightarrow> Inl e
      | None \<Rightarrow>
          if trim_space inputPath = [] then Inl (invalidTranscodeField ''inputPath'' ''must not be blank'')
          else if trim_space temporaryOutput = [] then Inl (invalidTranscodeField ''temporaryOutput'' ''must not be blank'')
          else if trim_prefix (to_lower (path_ext temporaryOutput)) (lit ''.'') \<noteq> FileExtension profile
          then Inl (invalidTranscodeField ''temporaryOutput'' ''must retain the profile file extension'')
          else
            let bitrate = (QualityMode profile = lit ''bitrate'');
                qualityOption = (if bitrate then lit ''-b:v'' else lit ''-'' @ QualityMode profile);
                qualityValue = formatProfileNumber (QualityValue profile) @ (if bitrate then lit ''k'' else []);
                presetOption = (if Encoder profile = lit ''libaom-av1'' then lit ''-cpu-used'' else lit ''-preset'')
            in Inr ([lit ''-y'', lit ''-i'', inputPath, lit ''-map'', lit ''0:v:0'', lit ''-map'', lit ''0:a?'', lit ''-sn'',
                     lit ''-c:v'', Encoder profile, qualityOption, qualityValue, presetOption, Preset profile,
                     lit ''-pix_fmt'', PixelFormat profile, lit ''-threads'', itoa (ThreadCount profile), lit ''-c:a'',
                     (if AudioPolicy profile = lit ''copy'' then lit ''copy'' else AudioCodec profile),
                     lit ''-f'', Container profile, temporaryOutput]))"

record TranscodeProbeExpectation =
  pe_VideoCodec :: gostr
  pe_ContainerNames :: "gostr list"
  pe_FileExtension :: gostr
  pe_AudioPolicy :: gostr
  pe_ExpectedAudioCodec :: gostr

definition BuildTranscodeProbeExpectation :: "TranscodeProfile \<Rightarrow> TranscodeProfileError + TranscodeProbeExpectation" where
  "BuildTranscodeProbeExpectation profile =
     (case ValidateTranscodeProfile profile of Some e \<Rightarrow> Inl e
      | None \<Rightarrow>
          let containers =
                [(lit ''matroska'', [lit ''matroska'', lit ''webm'']),
                 (lit ''mp4'', [lit ''mov'', lit ''mp4'', lit ''m4a'', lit ''3gp'', lit ''3g2'', lit ''mj2'']),
                 (lit ''webm'', [lit ''matroska'', lit ''webm''])]
          in Inr \<lparr>pe_VideoCodec = VideoCodec profile,
                  pe_ContainerNames = (case map_of containers (Container profile) of None \<Rightarrow> [] | Some ns \<Rightarrow> ns),
                  pe_FileExtension = FileExtension profile, pe_AudioPolicy = AudioPolicy profile,
                  pe_ExpectedAudioCodec = (if AudioPolicy profile = lit ''transcode'' then AudioCodec profile else [])\<rparr>)"

section \<open>What a valid profile guarantees\<close>

lemma containsString_iff [simp]: "containsString vs v \<longleftrightarrow> v \<in> set vs"
  by (auto simp: containsString_def list_ex_iff)

lemma ValidateTranscodeProfile_NoneD:
  assumes "ValidateTranscodeProfile p = None"
  shows "allowed_in codecEncoders (VideoCodec p) (Encoder p)"
    "map_of containerExtensions (Container p) = Some (FileExtension p)"
    "allowed_in containerVideoCodecs (Container p) (VideoCodec p)"
    "validateQuality p = None" "validateAudio p = None" "validPreset (Encoder p) (Preset p)"
    "0 \<le> ThreadCount p" "ThreadCount p \<le> 256" "1 \<le> MaxConcurrency p" "MaxConcurrency p \<le> 64"
  using assms unfolding ValidateTranscodeProfile_def allowed_in_def
  by (simp_all split: if_splits option.splits)

text \<open>The tables of the validator, read as relations.\<close>

lemma encoder_determines_codec:
  "allowed_in codecEncoders c v \<Longrightarrow> allowed_in codecEncoders d v \<Longrightarrow> c = d"
  by (auto simp: allowed_in_def codecEncoders_def lit_def split: option.splits if_splits)

lemma container_cases:
  "map_of containerExtensions c = Some x \<Longrightarrow>
     c = lit ''matroska'' \<and> x = lit ''mkv'' \<or> c = lit ''mp4'' \<and> x = lit ''mp4'' \<or> c = lit ''webm'' \<and> x = lit ''webm''"
  by (auto simp: containerExtensions_def split: if_splits)

lemma quality_mode_fits_encoder:
  assumes "validateQuality p = None"
  shows "QualityMode p = lit ''crf'' \<longrightarrow> \<not> has_suffix (Encoder p) (lit ''_nvenc'')"
    "QualityMode p = lit ''cq'' \<longrightarrow> has_suffix (Encoder p) (lit ''_nvenc'')"
    "QualityMode p \<in> {lit ''crf'', lit ''cq'', lit ''bitrate''}"
  using assms unfolding validateQuality_def by (auto split: f64.splits if_splits)

lemma audio_cases:
  assumes "validateAudio p = None"
  shows "AudioPolicy p = lit ''copy'' \<and> AudioCodec p = [] \<or>
    AudioPolicy p = lit ''transcode'' \<and> allowed_in containerAudioCodecs (Container p) (AudioCodec p)"
  using assms unfolding validateAudio_def by (auto split: if_splits)

section \<open>Properties\<close>

text \<open>
  C20: The arguments for ffmpeg and the expectation for the probe of its output come from the same
  profile and agree: the encoder belongs to the expected video codec and to no other, the forced
  container format is one the probe accepts, the output keeps the expected extension, audio is
  copied exactly when no audio codec is expected, and constant-rate-factor quality is never passed
  to an NVENC encoder nor constant quality to another one.
\<close>

theorem transcode_args_match_probe:
  assumes "BuildTranscodeFFmpegArgs p input out = Inr args"
  shows "\<exists>e. BuildTranscodeProbeExpectation p = Inr e \<and>
    allowed_in codecEncoders (pe_VideoCodec e) (args ! 9) \<and>
    (\<forall>c. allowed_in codecEncoders c (args ! 9) \<longrightarrow> c = pe_VideoCodec e) \<and>
    args ! 21 \<in> set (pe_ContainerNames e) \<and>
    trim_prefix (to_lower (path_ext (last args))) (lit ''.'') = pe_FileExtension e \<and>
    (args ! 19 = lit ''copy'' \<and> pe_AudioPolicy e = lit ''copy'' \<and> pe_ExpectedAudioCodec e = [] \<or>
     args ! 19 = pe_ExpectedAudioCodec e \<and> pe_AudioPolicy e = lit ''transcode'' \<and>
       allowed_in containerAudioCodecs (args ! 21) (args ! 19)) \<and>
    (args ! 10 = lit ''-crf'' \<longrightarrow> \<not> has_suffix (args ! 9) (lit ''_nvenc'')) \<and>
    (args ! 10 = lit ''-cq'' \<longrightarrow> has_suffix (args ! 9) (lit ''_nvenc''))"
proof -
  have v: "ValidateTranscodeProfile p = None"
    using assms by (auto simp: BuildTranscodeFFmpegArgs_def split: option.splits)
  note facts = ValidateTranscodeProfile_NoneD [OF v]
  note q = quality_mode_fits_encoder [OF facts(4)] and a = audio_cases [OF facts(5)]
  have args: "args ! 9 = Encoder p" "args ! 21 = Container p" "last args = out"
      "args ! 10 = (if QualityMode p = lit ''bitrate'' then lit ''-b:v'' else lit ''-'' @ QualityMode p)"
      "args ! 19 = (if AudioPolicy p = lit ''copy'' then lit ''copy'' else AudioCodec p)"
      "trim_prefix (to_lower (path_ext out)) (lit ''.'') = FileExtension p"
    using assms v by (auto simp: BuildTranscodeFFmpegArgs_def Let_def split: if_splits)
  obtain e where e: "BuildTranscodeProbeExpectation p = Inr e"
    using v by (simp add: BuildTranscodeProbeExpectation_def Let_def)
  have pe: "pe_VideoCodec e = VideoCodec p" "pe_FileExtension e = FileExtension p" "pe_AudioPolicy e = AudioPolicy p"
      "pe_ExpectedAudioCodec e = (if AudioPolicy p = lit ''transcode'' then AudioCodec p else [])"
    using e v by (auto simp: BuildTranscodeProbeExpectation_def Let_def)
  have "Container p \<in> set (pe_ContainerNames e)"
    using e v container_cases [OF facts(2)]
    by (auto simp: BuildTranscodeProbeExpectation_def Let_def lit_def)
  moreover have "args ! 10 = lit ''-crf'' \<longrightarrow> QualityMode p = lit ''crf''" "args ! 10 = lit ''-cq'' \<longrightarrow> QualityMode p = lit ''cq''"
    using q(3) unfolding args by (auto simp: lit_def)
  moreover have "lit ''transcode'' \<noteq> lit ''copy''"
    by (simp add: lit_def)
  ultimately show ?thesis
    using e facts(1) q(1,2) a encoder_determines_codec args pe by metis
qed

lemma default_profile_args:
  "\<exists>args. BuildTranscodeFFmpegArgs DefaultTranscodeProfile (lit ''/in.mkv'') (lit ''/out.tmp.mp4'') = Inr args \<and>
     args ! 11 = lit ''20'' \<and> args ! 9 = lit ''libx264''"
proof -
  have "case BuildTranscodeFFmpegArgs DefaultTranscodeProfile (lit ''/in.mkv'') (lit ''/out.tmp.mp4'') of
      Inr a \<Rightarrow> a ! 11 = lit ''20'' \<and> a ! 9 = lit ''libx264'' | Inl _ \<Rightarrow> False"
    by code_simp
  then show ?thesis by (auto split: sum.splits)
qed

theorem transcode_args_match_probe_witness:
  "\<exists>args e. BuildTranscodeFFmpegArgs DefaultTranscodeProfile (lit ''/in.mkv'') (lit ''/out.tmp.mp4'') = Inr args \<and>
     BuildTranscodeProbeExpectation DefaultTranscodeProfile = Inr e \<and>
     allowed_in codecEncoders (pe_VideoCodec e) (args ! 9) \<and> args ! 21 \<in> set (pe_ContainerNames e)"
proof -
  obtain args where a: "BuildTranscodeFFmpegArgs DefaultTranscodeProfile (lit ''/in.mkv'') (lit ''/out.tmp.mp4'') = Inr args"
    using default_profile_args by blast
  from transcode_args_match_probe [OF a] a show ?thesis by blast
qed

end
