(* ===== verification/MediaWorkflow.thy ===== *)
theory MediaWorkflow
  imports TaskWorkflow Transcode
begin

text \<open>
  From a completed download to a reviewable task: \<^verbatim>\<open>internal/service/media_workflow.go\<close> with the
  statements of \<^verbatim>\<open>db/query/media.sql\<close> that materialise a download. The scope of the subtitle agent
  (\<^verbatim>\<open>CreateSubtitleVideoMatchScope\<close>) is not modelled. Messages of errors are kept without the paths
  that are formatted into them.
\<close>

section \<open>Materialising a download: statements\<close>

definition LockMaterializeAcquisitionForDownload :: "uuid \<Rightarrow> uuid option tx" where
  "LockMaterializeAcquisitionForDownload download = tx_read (\<lambda>db.
     Option.bind (by_key dl_id download (downloads db)) (\<lambda>d.
       map_option aq_id (by_key aq_id (dl_acquisition_id d) (acquisitions db))))"

record MaterializeDownloadRow =
  md_download :: Download
  md_acquisition :: Acquisition
  md_series :: MediaSeries

definition LockDownloadForMaterialize :: "uuid \<Rightarrow> MaterializeDownloadRow option tx" where
  "LockDownloadForMaterialize download = tx_read (\<lambda>db.
     Option.bind (by_key dl_id download (downloads db)) (\<lambda>d.
     Option.bind (by_key aq_id (dl_acquisition_id d) (acquisitions db)) (\<lambda>a.
     Option.bind (by_key ms_id (aq_series_id a) (series_tab db)) (\<lambda>s.
       Some \<lparr>md_download = d, md_acquisition = a, md_series = s\<rparr>))))"

text \<open>The newest active default profile.\<close>

definition GetDefaultTranscodeProfile :: "TranscodeProfileRow option tx" where
  "GetDefaultTranscodeProfile = tx_read (\<lambda>db.
     List.find (\<lambda>p. tp_active p \<and> tp_is_default p) (rev (transcode_profiles db)))"

record MaterializeVideoRow =
  mv_file :: DownloadFile
  mv_mapping :: "EpisodeMappingRow option"
  mv_episode :: "MediaEpisode option"
  mv_series :: MediaSeries

text \<open>\<^verbatim>\<open>ORDER BY source_season, source_episode, fraction, file_index\<close>, missing coordinates last.\<close>

definition null_last :: "int option \<Rightarrow> int" where
  "null_last v = (if v = None then 1 else 0)"

definition video_order :: "DownloadFile \<Rightarrow> DownloadFile \<Rightarrow> bool" where
  "video_order =
     lex_cmp (\<lambda>f. null_last (df_source_season f)) (lex_cmp (\<lambda>f. intValue (df_source_season f))
       (lex_cmp (\<lambda>f. null_last (df_source_episode f)) (lex_cmp (\<lambda>f. intValue (df_source_episode f))
         (lex_cmp df_source_fraction (\<lambda>x y. df_file_index x < df_file_index y)))))"

definition file_mapping :: "db \<Rightarrow> Acquisition \<Rightarrow> DownloadFile \<Rightarrow> EpisodeMappingRow option" where
  "file_mapping db a f = List.find (\<lambda>m. Some (em_profile_id m) = aq_mapping_profile_id a \<and>
     Some (em_source_season m) = df_source_season f \<and> Some (em_source_episode m) = df_source_episode f \<and>
     em_source_fraction m = df_source_fraction f) (mappings db)"

definition materialize_row :: "db \<Rightarrow> Acquisition \<Rightarrow> MediaSeries \<Rightarrow> DownloadFile \<Rightarrow> MaterializeVideoRow" where
  "materialize_row db a s f =
     \<lparr>mv_file = f, mv_mapping = file_mapping db a f,
      mv_episode = Option.bind (file_mapping db a f) (\<lambda>m. by_key_opt me_id (em_target_episode_id m) (episodes db)),
      mv_series = s\<rparr>"

definition ListMaterializeVideos :: "uuid \<Rightarrow> MaterializeVideoRow list tx" where
  "ListMaterializeVideos download = tx_read (\<lambda>db.
     case Option.bind (by_key dl_id download (downloads db)) (\<lambda>d.
          Option.bind (by_key aq_id (dl_acquisition_id d) (acquisitions db)) (\<lambda>a.
            map_option (Pair a) (by_key ms_id (aq_series_id a) (series_tab db)))) of
       None \<Rightarrow> []
     | Some (a, s) \<Rightarrow>
         map (materialize_row db a s)
           (sort_by video_order (filter (\<lambda>f. df_download_id f = download \<and> df_selected f \<and> df_media_kind f = MediaVideo)
              (download_files db))))"

definition MarkDownloadSelectingFiles :: "uuid \<Rightarrow> Download option tx" where
  "MarkDownloadSelectingFiles i = update_one downloads downloads_update
     (\<lambda>r. dl_id r = i \<and> dl_status r = DownloadCompleted)
     (\<lambda>now r. r\<lparr>dl_status := DownloadSelectingFiles, dl_version := dl_version r + 1\<rparr>)"

definition new_task :: "uuid \<Rightarrow> uuid \<Rightarrow> uuid \<Rightarrow> uuid option \<Rightarrow> uuid \<Rightarrow> TaskMediaType \<Rightarrow> EpisodeTask" where
  "new_task i acquisition file mapping profile mediaType =
     \<lparr>tk_id = i, tk_acquisition_id = acquisition, tk_source_video_file_id = file, tk_mapping_id = mapping,
      tk_transcode_profile_id = profile, tk_state = TaskMediaQueued, tk_video_state = VideoTranscodeQueued,
      tk_subtitle_state = SubtitleQueued, tk_version = 1, tk_error_code = None, tk_error_message = None,
      tk_failure_stage = None, tk_media_type = mediaType\<rparr>"

text \<open>\<^verbatim>\<open>ON CONFLICT (acquisition_id, source_video_file_id) DO NOTHING\<close>; a clash of identifiers is an error.\<close>

definition CreateEpisodeTask :: "EpisodeTask \<Rightarrow> EpisodeTask option tx" where
  "CreateEpisodeTask t db =
     (if list_ex (\<lambda>r. tk_acquisition_id r = tk_acquisition_id t \<and> tk_source_video_file_id r = tk_source_video_file_id t) (tasks db)
      then Inr (None, db)
      else tx_bind (insert_row ''create episode task'' tasks tasks_update (\<lambda>r. tk_id r = tk_id t) t)
             (\<lambda>r. tx_return (Some r)) db)"

definition GetEpisodeTaskBySource :: "uuid \<Rightarrow> uuid \<Rightarrow> EpisodeTask option tx" where
  "GetEpisodeTaskBySource acquisition file =
     select_one tasks (\<lambda>r. tk_acquisition_id r = acquisition \<and> tk_source_video_file_id r = file)"

definition MarkDownloadMaterialized :: "uuid \<Rightarrow> Download option tx" where
  "MarkDownloadMaterialized i = update_one downloads downloads_update
     (\<lambda>r. dl_id r = i \<and> dl_status r = DownloadSelectingFiles)
     (\<lambda>now r. r\<lparr>dl_status := DownloadMaterialized\<rparr>)"

section \<open>Materialising a download\<close>

definition transcode_error_text :: "TranscodeProfileError \<Rightarrow> string" where
  "transcode_error_text e =
     (case e of TranscodeProfileError field reason \<Rightarrow> ''invalid transcode profile field '' @ field @ '': '' @ reason)"

definition naming_error_text :: "EpisodeNamingError \<Rightarrow> string" where
  "naming_error_text e = ''cannot build episode filename: '' @ ne_Field e @ '' '' @ ne_Reason e"

definition library_error_text :: "LibraryPathError \<Rightarrow> string" where
  "library_error_text e = (case e of LibraryPathError m \<Rightarrow> m | LibraryNamingError n \<Rightarrow> naming_error_text n)"

text \<open>The quality value is a \<^verbatim>\<open>numeric(8, 3)\<close> read as the nearest double.\<close>

definition profile_of_row :: "TranscodeProfileRow \<Rightarrow> TranscodeProfile" where
  "profile_of_row row =
     \<lparr>Name = tp_name row, VideoCodec = tp_video_codec row, Encoder = tp_encoder row, Container = tp_container row,
      FileExtension = tp_file_extension row, QualityMode = tp_quality_mode row,
      QualityValue = f64_ratio (tp_quality_thousandths row) 1000, AudioPolicy = tp_audio_policy row,
      AudioCodec = stringValue (tp_audio_codec row), Preset = tp_preset row, PixelFormat = tp_pixel_format row,
      ThreadCount = tp_thread_count row, MaxConcurrency = tp_max_concurrency row\<rparr>"

definition transcodeProfileFromDB :: "TranscodeProfileRow \<Rightarrow> (TranscodeProfileError, TranscodeProfile) result" where
  "transcodeProfileFromDB row =
     (let profile = profile_of_row row
      in case ValidateTranscodeProfile profile of Some e \<Rightarrow> Inl e | None \<Rightarrow> Inr profile)"

definition nullableUUIDForMediaType :: "TaskMediaType \<Rightarrow> uuid option \<Rightarrow> uuid option" where
  "nullableUUIDForMediaType mediaType mapping = (if mediaType = TaskMediaMovie then None else mapping)"

definition mapping_complete :: "MaterializeVideoRow \<Rightarrow> bool" where
  "mapping_complete row =
     (ms_media_type (mv_series row) = ''tv'' \<and>
      (case mv_mapping row of None \<Rightarrow> False | Some m \<Rightarrow> em_mapped m) \<and> mv_episode row \<noteq> None \<and>
      trim_space (ms_title (mv_series row)) \<noteq> [])"

definition validateMaterializeVideo :: "MaterializeVideoRow \<Rightarrow> TranscodeProfile \<Rightarrow> svc_error option" where
  "validateMaterializeVideo row profile =
     (let s = mv_series row
      in if df_source_season (mv_file row) = None \<or> df_source_episode (mv_file row) = None
         then Some (mediaWorkflowError ''source_coordinate_missing'' ''a selected video is missing its source season or episode'' False)
         else if ms_media_type s = ''movie'' then
           (if trim_space (ms_title s) = [] \<or> ms_release_year s = None \<or> ms_tmdb_movie_id s = None
            then Some (mediaWorkflowError ''movie_metadata_required'' ''the selected movie requires canonical TMDb title and release year'' False)
            else case BuildMovieFileNames \<lparr>MovieTitle = ms_title s, ReleaseYear = intValue (ms_release_year s),
                        MVideoExtension = FileExtension profile\<rparr> of
                   Inl e \<Rightarrow> Some (mediaWorkflowError ''movie_naming_invalid'' (naming_error_text e) False)
                 | Inr _ \<Rightarrow> None)
         else if \<not> mapping_complete row then
           (let code = (case Option.bind (mv_mapping row) em_error_code of
                          None \<Rightarrow> ''episode_mapping_required'' | Some c \<Rightarrow> if c = '''' then ''episode_mapping_required'' else c)
            in Some (mediaWorkflowError code ''selected video requires a completed episode mapping'' False))
         else case mv_episode row of
                None \<Rightarrow> None
              | Some ep \<Rightarrow>
                  (case BuildEpisodeFileNames \<lparr>SeriesTitle = ms_title s, NSeason = me_season_number ep,
                          NEpisode = me_episode_number ep, EpisodeTitle = me_title ep, VideoExtension = FileExtension profile\<rparr> of
                     Inl e \<Rightarrow> Some (mediaWorkflowError ''episode_naming_invalid'' (naming_error_text e) False)
                   | Inr _ \<Rightarrow> None))"

fun media_type_str :: "TaskMediaType \<Rightarrow> string" where
  "media_type_str TaskMediaEpisode = ''episode''"
| "media_type_str TaskMediaMovie = ''movie''"

abbreviation hour :: int where "hour \<equiv> 60 * minute"

definition media_job :: "uuid \<Rightarrow> string \<Rightarrow> int \<Rightarrow> gostr \<Rightarrow> ScheduleOperationRequest" where
  "media_job task kind timeout key =
     \<lparr>sq_Kind = kind, sq_ResourceType = ''episode_task'', sq_ResourceID = task, sq_IdempotencyKey = key,
      sq_MaxAttempts = 3, sq_Timeout = timeout, sq_Payload = [], sq_ActorUserID = uuid_nil\<rparr>"

definition materialize_video ::
  "env \<Rightarrow> uuid \<Rightarrow> uuid \<Rightarrow> MaterializeDownloadRow \<Rightarrow> TaskMediaType \<Rightarrow> TranscodeProfileRow \<Rightarrow> MaterializeVideoRow \<Rightarrow> unit tx" where
  "materialize_video env downloadID operationID locked mediaType profileRow video =
     (let acquisition = aq_id (md_acquisition locked); file = df_id (mv_file video);
          mapping = nullableUUIDForMediaType mediaType (map_option em_id (mv_mapping video));
          taskID = deterministicResourceID env (lit (media_type_str mediaType) @ lit ''-task:'' @
                     e_uuid_string env acquisition @ lit '':'' @ e_uuid_string env file);
          target = (\<lambda>f. JNum (case mv_episode video of None \<Rightarrow> 0 | Some ep \<Rightarrow> f ep))
      in tx_bind (CreateEpisodeTask (new_task taskID acquisition file mapping (tp_id profileRow) mediaType)) (\<lambda>inserted.
         tx_bind (case inserted of Some t \<Rightarrow> tx_return t
                  | None \<Rightarrow> required ''create episode task'' (GetEpisodeTaskBySource acquisition file)) (\<lambda>task.
         if tk_mapping_id task \<noteq> mapping \<or> tk_transcode_profile_id task \<noteq> tp_id profileRow \<or> tk_media_type task \<noteq> mediaType
         then tx_fail (mediaWorkflowError ''task_materialization_conflict''
                ''an episode task already exists with different mapping or transcode profile'' False)
         else
           tx_seq (tx_each (\<lambda>job. tx_seq (ScheduleInTx env job) (tx_return ()))
              [media_job taskID ''subtitle.prepare'' (30 * minute) (lit ''subtitle.prepare:'' @ e_uuid_string env taskID),
               media_job taskID ''transcode.run'' (24 * hour) (lit ''transcode.run:'' @ e_uuid_string env taskID @ lit '':'' @
                 e_uuid_string env (tp_id profileRow))])
           (if inserted = None then tx_return ()
            else appendResourceEvent env ''episode_task'' taskID operationID uuid_nil ''task.created''
                   [(''downloadId'', JUuid downloadID), (''mediaType'', jtext (media_type_str mediaType)),
                    (''sourceSeason'', JNum (intValue (df_source_season (mv_file video)))),
                    (''sourceEpisode'', JNum (intValue (df_source_episode (mv_file video)))),
                    (''targetSeason'', target me_season_number), (''targetEpisode'', target me_episode_number),
                    (''transcodeProfile'', JStr (tp_name profileRow))]))))"

definition first_error :: "('a \<Rightarrow> svc_error option) \<Rightarrow> 'a list \<Rightarrow> unit tx" where
  "first_error check xs = tx_each (\<lambda>x. case check x of None \<Rightarrow> tx_return () | Some e \<Rightarrow> tx_fail e) xs"

definition media_type_of :: "string \<Rightarrow> TaskMediaType option" where
  "media_type_of s = (if s = ''tv'' then Some TaskMediaEpisode else if s = ''movie'' then Some TaskMediaMovie else None)"

definition materialize_videos ::
  "env \<Rightarrow> uuid \<Rightarrow> uuid \<Rightarrow> MaterializeDownloadRow \<Rightarrow> TaskMediaType \<Rightarrow> unit tx" where
  "materialize_videos env downloadID operationID locked mediaType =
     tx_bind (or_fail (mediaWorkflowError ''transcode_profile_required'' ''an active default transcode profile is required'' False)
                GetDefaultTranscodeProfile) (\<lambda>profileRow.
     case transcodeProfileFromDB profileRow of
       Inl e \<Rightarrow> tx_fail (mediaWorkflowError ''transcode_profile_invalid'' (transcode_error_text e) False)
     | Inr profile \<Rightarrow>
         tx_bind (ListMaterializeVideos downloadID) (\<lambda>videos.
         if videos = []
         then tx_fail (mediaWorkflowError ''download_no_selected_video'' ''the completed download has no selected episode video'' False)
         else tx_seq (first_error (\<lambda>v. validateMaterializeVideo v profile) videos)
           (tx_seq (required ''mark download selecting files'' (MarkDownloadSelectingFiles downloadID))
           (tx_seq (tx_each (materialize_video env downloadID operationID locked mediaType profileRow) videos)
           (tx_seq (required ''mark download materialized'' (MarkDownloadMaterialized downloadID))
             (appendResourceEvent env ''download'' downloadID operationID uuid_nil ''download.materialized''
                [(''status'', jtext ''materialized''), (''taskCount'', JNum (int (length videos)))]))))))"

definition MaterializeDownload :: "env \<Rightarrow> uuid \<Rightarrow> uuid \<Rightarrow> unit tx" where
  "MaterializeDownload env downloadID operationID =
     tx_bind (or_fail ErrNotFound (LockMaterializeAcquisitionForDownload downloadID)) (\<lambda>lockedAcquisitionID.
     tx_bind (or_fail ErrNotFound (LockDownloadForMaterialize downloadID)) (\<lambda>locked.
     let d = md_download locked; s = md_series locked; a = md_acquisition locked
     in if aq_id a \<noteq> lockedAcquisitionID
        then tx_fail (mediaWorkflowError ''download_acquisition_conflict'' ''the download acquisition changed before materialization'' True)
        else if dl_status d = DownloadMaterialized then tx_return ()
        else if dl_status d \<noteq> DownloadCompleted
        then tx_fail (mediaWorkflowError ''download_state_conflict'' (''download cannot materialize from state '' @ quoted (download_state_str (dl_status d))) False)
        else (case media_type_of (ms_media_type s) of
                None \<Rightarrow> tx_fail (mediaWorkflowError ''media_type_invalid'' ''the acquisition has an unsupported media type'' False)
              | Some mediaType \<Rightarrow>
                  if mediaType = TaskMediaEpisode \<and> aq_mapping_profile_id a = None
                  then tx_fail (mediaWorkflowError ''mapping_profile_required'' ''the episode acquisition requires a mapping profile before materialization'' False)
                  else if mediaType = TaskMediaMovie \<and> (ms_release_year s = None \<or> ms_tmdb_movie_id s = None)
                  then tx_fail (mediaWorkflowError ''movie_metadata_required'' ''the movie acquisition requires canonical TMDb title and release year'' False)
                  else materialize_videos env downloadID operationID locked mediaType)))"

section \<open>Starting a media branch\<close>

record TaskExternalSubtitle =
  es_SourceFileID :: uuid
  es_RelativePath :: gostr
  es_Language :: gostr
  es_Format :: SubtitleFormat

record TaskMediaCommand =
  tc_TaskID :: uuid
  tc_MediaType :: TaskMediaType
  tc_State :: TaskState
  tc_VideoState :: VideoState
  tc_SubtitleState :: SubtitleState
  tc_DownloadID :: uuid
  tc_SavePath :: gostr
  tc_SourceVideoFileID :: uuid
  tc_SourceVideoRelativePath :: gostr
  tc_ExternalSubtitles :: "TaskExternalSubtitle list"
  tc_TranscodeProfileID :: uuid
  tc_TranscodeProfile :: TranscodeProfile
  tc_Names :: EpisodeFileNames
  tc_OutputRelativeDirectory :: gostr

record MediaCommandRow =
  mc_task :: EpisodeTask
  mc_file :: DownloadFile
  mc_download :: Download
  mc_episode :: "MediaEpisode option"
  mc_series :: MediaSeries
  mc_profile :: TranscodeProfileRow

definition GetTaskMediaCommand :: "uuid \<Rightarrow> MediaCommandRow option tx" where
  "GetTaskMediaCommand i = tx_read (\<lambda>db.
     Option.bind (by_key tk_id i (tasks db)) (\<lambda>t.
     Option.bind (task_file db t) (\<lambda>f.
     Option.bind (by_key dl_id (df_download_id f) (downloads db)) (\<lambda>d.
     Option.bind (task_series db t) (\<lambda>s.
     Option.bind (by_key tp_id (tk_transcode_profile_id t) (transcode_profiles db)) (\<lambda>p.
       Some \<lparr>mc_task = t, mc_file = f, mc_download = d,
             mc_episode = Option.bind (task_mapping db t) (\<lambda>m.
               if em_mapped m then by_key_opt me_id (em_target_episode_id m) (episodes db) else None),
             mc_series = s, mc_profile = p\<rparr>))))))"

definition ListTaskExternalSubtitles :: "uuid \<Rightarrow> DownloadFile list tx" where
  "ListTaskExternalSubtitles i = tx_read (\<lambda>db.
     case Option.bind (by_key tk_id i (tasks db)) (task_file db) of
       None \<Rightarrow> []
     | Some v \<Rightarrow>
         sort_by (\<lambda>x y. df_file_index x < df_file_index y)
           (filter (\<lambda>f. df_download_id f = df_download_id v \<and>
              df_source_season f \<noteq> None \<and> df_source_season f = df_source_season v \<and>
              df_source_episode f \<noteq> None \<and> df_source_episode f = df_source_episode v \<and>
              df_source_fraction f = df_source_fraction v \<and> df_selected f \<and> df_media_kind f = MediaSubtitle)
             (download_files db)))"

definition external_subtitle :: "DownloadFile \<Rightarrow> TaskExternalSubtitle" where
  "external_subtitle f = \<lparr>es_SourceFileID = df_id f, es_RelativePath = df_relative_path f,
     es_Language = stringValue (df_language f), es_Format = SubtitleFormatFromPath (df_relative_path f)\<rparr>"

definition media_names :: "MediaCommandRow \<Rightarrow> (svc_error, EpisodeFileNames \<times> LibraryRelativePaths) result" where
  "media_names row =
     (let s = mc_series row; ext = tp_file_extension (mc_profile row)
      in case tk_media_type (mc_task row) of
           TaskMediaMovie \<Rightarrow>
             if ms_release_year s = None \<or> ms_tmdb_movie_id s = None
             then Inl (mediaWorkflowError ''movie_metadata_required'' ''the movie task has incomplete TMDb metadata'' False)
             else (case BuildMovieFileNames \<lparr>MovieTitle = ms_title s, ReleaseYear = intValue (ms_release_year s), MVideoExtension = ext\<rparr> of
                     Inl e \<Rightarrow> Inl (mediaWorkflowError ''movie_naming_invalid'' (naming_error_text e) False)
                   | Inr names \<Rightarrow>
                       (case BuildMovieLibraryRelativePaths (ms_title s) (intValue (ms_release_year s)) (VideoName names) (SubtitleName names) of
                          Inl e \<Rightarrow> Inl (mediaWorkflowError ''movie_directory_invalid'' (library_error_text e) False)
                        | Inr paths \<Rightarrow> Inr (names, paths)))
         | TaskMediaEpisode \<Rightarrow>
             (case mc_episode row of
                None \<Rightarrow> Inl (mediaWorkflowError ''task_mapping_unavailable'' ''the episode task mapping is unavailable'' False)
              | Some ep \<Rightarrow>
                  (case BuildEpisodeFileNames \<lparr>SeriesTitle = ms_title s, NSeason = me_season_number ep,
                          NEpisode = me_episode_number ep, EpisodeTitle = me_title ep, VideoExtension = ext\<rparr> of
                     Inl e \<Rightarrow> Inl (mediaWorkflowError ''episode_naming_invalid'' (naming_error_text e) False)
                   | Inr names \<Rightarrow>
                       (case BuildLibraryRelativePaths (ms_title s) (me_season_number ep) (VideoName names) (SubtitleName names) of
                          Inl e \<Rightarrow> Inl (mediaWorkflowError ''episode_directory_invalid'' (library_error_text e) False)
                        | Inr paths \<Rightarrow> Inr (names, paths)))))"

definition taskMediaCommandFromDB :: "MediaCommandRow \<Rightarrow> DownloadFile list \<Rightarrow> (svc_error, TaskMediaCommand) result" where
  "taskMediaCommandFromDB row externalRows =
     (case transcodeProfileFromDB (mc_profile row) of
        Inl e \<Rightarrow> Inl (mediaWorkflowError ''transcode_profile_invalid'' (transcode_error_text e) False)
      | Inr profile \<Rightarrow>
          (case media_names row of
             Inl e \<Rightarrow> Inl e
           | Inr (names, paths) \<Rightarrow>
               if trim_space (stringValue (dl_save_path (mc_download row))) = []
               then Inl (mediaWorkflowError ''download_save_path_missing'' ''the task download has no save path'' False)
               else Inr \<lparr>tc_TaskID = tk_id (mc_task row), tc_MediaType = tk_media_type (mc_task row),
                         tc_State = tk_state (mc_task row), tc_VideoState = tk_video_state (mc_task row),
                         tc_SubtitleState = tk_subtitle_state (mc_task row), tc_DownloadID = dl_id (mc_download row),
                         tc_SavePath = stringValue (dl_save_path (mc_download row)),
                         tc_SourceVideoFileID = df_id (mc_file row),
                         tc_SourceVideoRelativePath = df_relative_path (mc_file row),
                         tc_ExternalSubtitles = filter (\<lambda>s. es_Format s \<noteq> NoSubtitleFormat) (map external_subtitle externalRows),
                         tc_TranscodeProfileID = tk_transcode_profile_id (mc_task row), tc_TranscodeProfile = profile,
                         tc_Names = names, tc_OutputRelativeDirectory = Directory paths\<rparr>))"

definition media_may_begin :: "TaskState \<Rightarrow> bool" where
  "media_may_begin s = (s = TaskMediaQueued \<or> s = TaskProcessing \<or> s = TaskFailed \<or> s = TaskFinalizing \<or> s = TaskAwaitingReview)"

definition start_branch :: "MediaKind \<Rightarrow> EpisodeTask \<Rightarrow> unit tx" where
  "start_branch kind task =
     (let conflict = (\<lambda>code m. mediaWorkflowError code m False)
      in case kind of
           MediaVideo \<Rightarrow>
             if tk_video_state task = VideoReady then tx_return ()
             else if tk_video_state task = VideoFailed \<or> tk_video_state task = VideoCancelled
             then tx_fail (conflict ''video_state_conflict'' (''video branch cannot start from state '' @ quoted (video_state_str (tk_video_state task))))
             else tx_seq (or_fail (conflict ''video_state_conflict'' (''video branch cannot start from task state '' @ quoted (task_state_str (tk_state task))))
                            (StartTaskVideo (tk_id task))) (tx_return ())
         | MediaSubtitle \<Rightarrow>
             if tk_subtitle_state task = SubtitleASSReady then tx_return ()
             else if tk_subtitle_state task = SubtitleFailed \<or> tk_subtitle_state task = SubtitleCancelled
             then tx_fail (conflict ''subtitle_state_conflict'' (''subtitle branch cannot start from state '' @ quoted (subtitle_state_str (tk_subtitle_state task))))
             else tx_seq (or_fail (conflict ''subtitle_state_conflict'' (''subtitle branch cannot start from task state '' @ quoted (task_state_str (tk_state task))))
                            (StartTaskSubtitle (tk_id task))) (tx_return ())
         | _ \<Rightarrow> tx_fail (OtherError ''unsupported task media kind''))"

definition beginTaskMedia :: "uuid \<Rightarrow> MediaKind \<Rightarrow> TaskMediaCommand tx" where
  "beginTaskMedia taskID kind =
     tx_bind (or_fail ErrNotFound (LockEpisodeTask taskID)) (\<lambda>task.
     if \<not> media_may_begin (tk_state task)
     then tx_fail (mediaWorkflowError ''task_media_state_conflict'' (''task media cannot start from state '' @ quoted (task_state_str (tk_state task))) False)
     else tx_seq (start_branch kind task)
       (tx_bind (or_fail (mediaWorkflowError ''task_mapping_unavailable'' ''the task mapping or transcode profile is unavailable'' False)
                  (GetTaskMediaCommand taskID)) (\<lambda>row.
        tx_bind (ListTaskExternalSubtitles taskID) (\<lambda>externalRows.
          case taskMediaCommandFromDB row externalRows of
            Inl e \<Rightarrow> tx_fail e
          | Inr command \<Rightarrow> tx_return command))))"

definition BeginTranscode :: "uuid \<Rightarrow> TaskMediaCommand tx" where
  "BeginTranscode taskID = beginTaskMedia taskID MediaVideo"

definition BeginSubtitle :: "uuid \<Rightarrow> TaskMediaCommand tx" where
  "BeginSubtitle taskID = beginTaskMedia taskID MediaSubtitle"

section \<open>Completing a branch\<close>

fun media_kind_str :: "MediaKind \<Rightarrow> string" where
  "media_kind_str MediaVideo = ''video''"
| "media_kind_str MediaSubtitle = ''subtitle''"
| "media_kind_str MediaExtra = ''extra''"
| "media_kind_str MediaOther = ''other''"
| "media_kind_str MediaUnknown = ''''"

definition completed_artifact :: "env \<Rightarrow> MediaArtifactCompletion \<Rightarrow> MediaArtifact" where
  "completed_artifact env c =
     \<lparr>ar_id = deterministicResourceID env (lit ''artifact:'' @ e_uuid_string env (ac_TaskID c) @ lit '':'' @ lit (media_kind_str (ac_Kind c))),
      ar_task_id = ac_TaskID c, ar_source_file_id = Some (ac_SourceFileID c),
      ar_transcode_profile_id = nullableUUID (ac_TranscodeProfileID c), ar_kind = ac_Kind c, ar_basename = ac_BaseName c,
      ar_file_path = ac_FilePath c, ar_format = ac_Format c, ar_size_bytes = ac_SizeBytes c, ar_checksum = ac_ChecksumSHA256 c\<rparr>"

definition branch_ready :: "MediaArtifactCompletion \<Rightarrow> EpisodeTask \<Rightarrow> bool" where
  "branch_ready c task =
     (ac_Kind c = MediaVideo \<and> tk_video_state task = VideoReady \<or>
      ac_Kind c = MediaSubtitle \<and> tk_subtitle_state task = SubtitleASSReady)"

definition mark_branch_ready :: "MediaArtifactCompletion \<Rightarrow> unit tx" where
  "mark_branch_ready c =
     (case ac_Kind c of
        MediaVideo \<Rightarrow> tx_seq (required ''mark task video ready'' (MarkTaskVideoReady (ac_TaskID c))) (tx_return ())
      | MediaSubtitle \<Rightarrow> tx_seq (required ''mark task subtitle ready'' (MarkTaskSubtitleReady (ac_TaskID c))) (tx_return ())
      | _ \<Rightarrow> tx_return ())"

definition finalize_if_ready :: "env \<Rightarrow> MediaArtifactCompletion \<Rightarrow> unit tx" where
  "finalize_if_ready env c =
     tx_bind (MarkTaskFinalizingIfReady (ac_TaskID c)) (\<lambda>finalizing.
       case finalizing of
         None \<Rightarrow> tx_return ()
       | Some finalizing \<Rightarrow>
           tx_seq (ScheduleInTx env (media_job (ac_TaskID c) ''media.finalize'' (5 * minute)
                     (lit ''media.finalize:'' @ e_uuid_string env (ac_TaskID c))))
             (appendResourceEvent env ''episode_task'' (ac_TaskID c) (ac_OperationID c) uuid_nil ''task.finalizing''
                [(''version'', JNum (tk_version finalizing))]))"

definition CompleteArtifact :: "env \<Rightarrow> MediaArtifactCompletion \<Rightarrow> unit tx" where
  "CompleteArtifact env c =
     (case ValidateArtifactCompletion c of
        Inl m \<Rightarrow> tx_fail (OtherError m)
      | Inr _ \<Rightarrow>
          tx_bind (or_fail ErrNotFound (LockEpisodeTask (ac_TaskID c))) (\<lambda>task.
          if branch_ready c task then
            tx_bind (GetTaskArtifact (ac_TaskID c) (ac_Kind c)) (\<lambda>existing.
              case existing of
                Some existing \<Rightarrow>
                  if ar_checksum existing = ac_ChecksumSHA256 c \<and> ar_file_path existing = ac_FilePath c then tx_return ()
                  else tx_fail (mediaWorkflowError ''artifact_conflict'' ''the ready task branch already references a different artifact'' False)
              | None \<Rightarrow> tx_fail (mediaWorkflowError ''artifact_conflict'' ''the ready task branch already references a different artifact'' False))
          else
            tx_bind (UpsertMediaArtifact (completed_artifact env c)) (\<lambda>artifact.
            tx_seq (mark_branch_ready c)
            (tx_seq (appendResourceEvent env ''episode_task'' (ac_TaskID c) (ac_OperationID c) uuid_nil
                       (''task.'' @ media_kind_str (ac_Kind c) @ ''_ready'')
                       [(''artifactId'', JUuid (ar_id artifact)), (''checksum'', JBytes (ac_ChecksumSHA256 c))])
              (finalize_if_ready env c)))))"

section \<open>Finalisation\<close>

record FinalizeMediaCommand =
  fm_TaskID :: uuid
  fm_State :: TaskState
  fm_TranscodeProfileID :: uuid
  fm_Video :: MediaArtifact
  fm_Subtitle :: MediaArtifact

definition finalizeCommandFromDB :: "FinalizeCommandRow \<Rightarrow> FinalizeMediaCommand" where
  "finalizeCommandFromDB row = \<lparr>fm_TaskID = tk_id (fr_task row), fm_State = tk_state (fr_task row),
     fm_TranscodeProfileID = tk_transcode_profile_id (fr_task row), fm_Video = fr_video row, fm_Subtitle = fr_subtitle row\<rparr>"

definition LoadFinalizeCommand :: "uuid \<Rightarrow> FinalizeMediaCommand tx" where
  "LoadFinalizeCommand taskID =
     tx_bind (or_fail ErrNotFound (GetTaskFinalizeCommand taskID)) (\<lambda>row. tx_return (finalizeCommandFromDB row))"

definition auto_review :: "env \<Rightarrow> uuid \<Rightarrow> uuid \<Rightarrow> int \<Rightarrow> Review" where
  "auto_review env task subscription expectedVersion =
     \<lparr>rv_id = deterministicResourceID env (lit ''rss-auto-review:'' @ e_uuid_string env task), rv_task_id = task,
      rv_decision = TaskApproved, rv_notes = lit ''Automatically approved by RSS subscription policy.'',
      rv_reviewed_by = None,
      rv_key = lit ''task.review:rss-auto:'' @ e_uuid_string env subscription @ lit '':'' @ e_uuid_string env task,
      rv_expected_task_version = expectedVersion\<rparr>"

definition approveRSSReviewInTx :: "env \<Rightarrow> uuid \<Rightarrow> uuid \<Rightarrow> uuid \<Rightarrow> int \<Rightarrow> unit tx" where
  "approveRSSReviewInTx env task operationID subscription expectedVersion =
     (let review = auto_review env task subscription expectedVersion;
          importID = deterministicResourceID env (lit ''rss-auto-import:'' @ e_uuid_string env task)
      in tx_seq (CreateTaskReview review)
         (tx_bind (required ''mark RSS task automatically reviewed'' (MarkTaskReviewed TaskApproved task expectedVersion)) (\<lambda>reviewed.
          tx_seq (appendResourceEvent env ''episode_task'' task operationID uuid_nil ''task.reviewed''
                    [(''automatic'', JBool True), (''decision'', jtext ''approved''), (''reviewId'', JUuid (rv_id review)),
                     (''rssSubscriptionId'', JUuid subscription), (''version'', JNum (tk_version reviewed))])
          (tx_seq (CreateTaskImport importID task)
          (tx_bind (required ''queue RSS automatically reviewed task'' (MarkTaskImportQueued task (tk_version reviewed))) (\<lambda>queued.
           tx_bind (ScheduleInTx env (import_schedule task (lit ''emby.import:rss-auto:'' @ e_uuid_string env task) importID
                      (tk_version reviewed) uuid_nil)) (\<lambda>scheduled.
           appendResourceEvent env ''episode_task'' task (ov_ID (sr_Operation scheduled)) uuid_nil ''task.import_queued''
             [(''automatic'', JBool True), (''importId'', JUuid importID), (''reviewId'', JUuid (rv_id review)),
              (''rssSubscriptionId'', JUuid subscription), (''version'', JNum (tk_version queued))])))))))"

definition finalized_state :: "TaskState \<Rightarrow> bool" where
  "finalized_state s = (s = TaskAwaitingReview \<or> s = TaskImportQueued \<or> s = TaskImporting \<or> s = TaskImported)"

definition await_review :: "env \<Rightarrow> uuid \<Rightarrow> uuid \<Rightarrow> unit tx" where
  "await_review env taskID operationID =
     tx_bind (required ''mark task awaiting review'' (MarkTaskAwaitingReview taskID)) (\<lambda>awaitingReview.
     tx_seq (appendResourceEvent env ''episode_task'' taskID operationID uuid_nil ''task.awaiting_review''
               [(''status'', jtext ''awaiting_review''), (''version'', JNum (tk_version awaitingReview))])
     (tx_bind (GetTaskRSSAutoReview taskID) (\<lambda>autoReview.
        case autoReview of
          None \<Rightarrow> tx_return ()
        | Some (subscription, enabled) \<Rightarrow>
            if \<not> enabled then tx_return ()
            else approveRSSReviewInTx env taskID operationID subscription (tk_version awaitingReview))))"

definition CompleteFinalize :: "env \<Rightarrow> uuid \<Rightarrow> uuid \<Rightarrow> unit tx" where
  "CompleteFinalize env taskID operationID =
     tx_bind (or_fail ErrNotFound (LockEpisodeTask taskID)) (\<lambda>task.
     if finalized_state (tk_state task) then tx_return ()
     else if tk_state task \<noteq> TaskFinalizing \<or> tk_video_state task \<noteq> VideoReady \<or> tk_subtitle_state task \<noteq> SubtitleASSReady
     then tx_fail (mediaWorkflowError ''task_finalize_state_conflict'' (''task cannot finalize from state '' @ quoted (task_state_str (tk_state task))) False)
     else
       tx_bind (required ''load task artifacts for finalization'' (GetTaskFinalizeCommand taskID)) (\<lambda>row.
       if ar_basename (fr_video row) \<noteq> ar_basename (fr_subtitle row)
       then tx_fail (mediaWorkflowError ''artifact_basename_mismatch'' ''video and subtitle artifacts do not share a basename'' False)
       else
         tx_seq (CreateArtifactSet \<lparr>as_id = deterministicResourceID env (lit ''artifact-set:'' @ e_uuid_string env taskID),
                   as_task_id = taskID, as_transcode_profile_id = tk_transcode_profile_id (fr_task row),
                   as_basename = ar_basename (fr_video row), as_video_artifact_id = ar_id (fr_video row),
                   as_subtitle_artifact_id = ar_id (fr_subtitle row)\<rparr>)
           (await_review env taskID operationID)))"

end
