(* ===== verification/MediaWorkers.thy ===== *)
theory MediaWorkers
  imports LibraryImport MediaWorkflow TaskWorkflow
begin

text \<open>
  The handlers of the worker that move a task on (\<^verbatim>\<open>internal/worker\<close>): transcoding, finalisation,
  import and cleanup. A handler works on the store, one transaction at a time, and on the file
  system; what it did stays done when it fails. Every interaction takes an event, so a transaction
  may fail as a whole and a crash may fall between a file and its record.
\<close>

section \<open>Jobs\<close>

record world =
  w_disk :: disk
  w_db :: db
  w_torrents :: "gostr list"

type_synonym 'a job = "world \<Rightarrow> (handler_error, 'a) result \<times> world"

definition job_return :: "'a \<Rightarrow> 'a job" where
  "job_return x w = (Inr x, w)"

definition job_fail :: "handler_error \<Rightarrow> 'a job" where
  "job_fail e w = (Inl e, w)"

definition job_bind :: "'a job \<Rightarrow> ('a \<Rightarrow> 'b job) \<Rightarrow> 'b job" where
  "job_bind m f w = (case m w of (Inl e, w') \<Rightarrow> (Inl e, w') | (Inr x, w') \<Rightarrow> f x w')"

definition job_seq :: "'a job \<Rightarrow> 'b job \<Rightarrow> 'b job" where
  "job_seq m k = job_bind m (\<lambda>_. k)"

definition job_io :: "(io_error \<Rightarrow> handler_error) \<Rightarrow> 'a io \<Rightarrow> 'a job" where
  "job_io failure m w = (case m (w_disk w) of (r, d) \<Rightarrow> (map_sum failure id r, w\<lparr>w_disk := d\<rparr>))"

definition job_try_io :: "'a io \<Rightarrow> ((io_error, 'a) result \<Rightarrow> 'b job) \<Rightarrow> 'b job" where
  "job_try_io m f w = (case m (w_disk w) of (r, d) \<Rightarrow> f r (w\<lparr>w_disk := d\<rparr>))"

definition job_tx :: "(svc_error \<Rightarrow> handler_error) \<Rightarrow> 'a tx \<Rightarrow> 'a job" where
  "job_tx failure m w =
     (case next_event (w_disk w) of
        (Some n, d) \<Rightarrow> (Inl (failure (OtherError ''transaction failed'')), w\<lparr>w_disk := d\<rparr>)
      | (None, d) \<Rightarrow> (case WithinTx m (w_db w) of (r, db') \<Rightarrow> (map_sum failure id r, w\<lparr>w_disk := d, w_db := db'\<rparr>)))"

definition job_defer :: "unit io \<Rightarrow> 'a job \<Rightarrow> 'a job" where
  "job_defer cleanup body w =
     (case body w of (r, w') \<Rightarrow> (r, w'\<lparr>w_disk := snd (cleanup (w_disk w'))\<rparr>))"

definition handler_result :: "unit job \<Rightarrow> world \<Rightarrow> handler_error option \<times> world" where
  "handler_result m w = (case m w of (Inl e, w') \<Rightarrow> (Some e, w') | (Inr _, w') \<Rightarrow> (None, w'))"

section \<open>Failures and settings\<close>

definition permanentFailure :: "string \<Rightarrow> string \<Rightarrow> handler_error" where
  "permanentFailure code message = HandlerFailure (lit code) (lit message) False"

definition retryableFailure :: "string \<Rightarrow> string \<Rightarrow> handler_error" where
  "retryableFailure code message = HandlerFailure (lit code) (lit message) True"

definition mediaStoreFailure :: "string \<Rightarrow> svc_error \<Rightarrow> handler_error" where
  "mediaStoreFailure branch err =
     (case err of
        ErrNotFound \<Rightarrow> permanentFailure ''task_not_found'' ''the episode task no longer exists''
      | WorkflowError code message retryable \<Rightarrow> HandlerFailure (lit code) (lit message) retryable
      | _ \<Rightarrow> retryableFailure ''media_storage_unavailable'' (branch @ '' state could not be persisted''))"

record PathSettings =
  ps_DownloadRoot :: gostr
  ps_WorkRoot :: gostr
  ps_StagingRoot :: gostr
  ps_AnimeLibraryRoot :: gostr
  ps_MovieLibraryRoot :: gostr
  ps_FFmpegPath :: gostr
  ps_FFprobePath :: gostr
  ps_LibraryRoot :: gostr

definition EffectiveAnimeLibraryRoot :: "PathSettings \<Rightarrow> gostr" where
  "EffectiveAnimeLibraryRoot paths =
     (if trim_space (ps_AnimeLibraryRoot paths) \<noteq> [] then ps_AnimeLibraryRoot paths else ps_LibraryRoot paths)"

section \<open>Probes of media files\<close>

record MediaStreamProbe =
  mp_Index :: int
  mp_Type :: gostr
  mp_Codec :: gostr
  mp_Language :: gostr
  mp_Title :: gostr
  mp_Default :: bool
  mp_Forced :: bool

record MediaProbe =
  FormatNames :: "gostr list"
  Streams :: "MediaStreamProbe list"

definition streamCodecs :: "MediaStreamProbe list \<Rightarrow> gostr \<Rightarrow> gostr list" where
  "streamCodecs streams streamType = map (\<lambda>s. to_lower (mp_Codec s)) (filter (\<lambda>s. mp_Type s = streamType) streams)"

definition ValidateTranscodeProbe ::
  "TranscodeProbeExpectation \<Rightarrow> MediaProbe \<Rightarrow> MediaProbe \<Rightarrow> gostr \<Rightarrow> string option" where
  "ValidateTranscodeProbe expectation inp out outputPath =
     (let extension = trim_prefix (to_lower (path_ext outputPath)) (lit ''.'');
          videoCodecs = streamCodecs (Streams out) (lit ''video'');
          inputAudio = streamCodecs (Streams inp) (lit ''audio'');
          outputAudio = streamCodecs (Streams out) (lit ''audio'')
      in if extension \<noteq> pe_FileExtension expectation then Some ''transcode output extension does not match''
         else if \<not> list_ex (\<lambda>actual. to_lower actual \<in> set (pe_ContainerNames expectation)) (FormatNames out)
         then Some ''transcode output container is incompatible''
         else if videoCodecs \<noteq> [pe_VideoCodec expectation] then Some ''transcode output video codecs do not match''
         else if length inputAudio \<noteq> length outputAudio then Some ''transcode output audio stream count does not match input''
         else if pe_AudioPolicy expectation = lit ''transcode'' then
           (if list_all (\<lambda>c. c = pe_ExpectedAudioCodec expectation) outputAudio then None
            else Some ''transcode output audio codec does not match'')
         else if pe_AudioPolicy expectation = lit ''copy'' then
           (if inputAudio = outputAudio then None else Some ''copied audio codecs do not match input'')
         else Some ''unknown audio policy'')"

section \<open>Tools\<close>

text \<open>
  What the handlers get from outside: the settings (\<open>None\<close> when they cannot be loaded), the hash
  function, whether the file system has \<^verbatim>\<open>RENAME_NOREPLACE\<close>, the working directory, what FFprobe
  reports on the bytes of a file, what FFmpeg writes for its arguments and the files it sees, the
  password of qBittorrent and whether its client can be built from the settings.
\<close>

record tools =
  t_env :: env
  t_settings :: "PathSettings option"
  t_sha256 :: "bytes \<Rightarrow> bytes"
  t_rename :: bool
  t_wd :: "gostr option"
  t_probe :: "bytes \<Rightarrow> MediaProbe option"
  t_ffmpeg :: "gostr list \<Rightarrow> files \<Rightarrow> bytes option"
  t_password :: "(svc_error, gostr) result"
  t_client :: bool

definition loadMediaSettings :: "tools \<Rightarrow> PathSettings job" where
  "loadMediaSettings t =
     (case t_settings t of
        None \<Rightarrow> job_fail (retryableFailure ''configuration_unavailable'' ''runtime configuration is unavailable'')
      | Some settings \<Rightarrow>
          case filter (\<lambda>(field, v). trim_space v = [])
                 [(''staging root'', ps_StagingRoot settings), (''FFmpeg'', ps_FFmpegPath settings),
                  (''FFprobe'', ps_FFprobePath settings)] of
            [] \<Rightarrow> job_return settings
          | (field, _) # _ \<Rightarrow> job_fail (permanentFailure ''media_configuration_invalid'' (field @ '' is not configured'')))"

definition Probe :: "tools \<Rightarrow> gostr \<Rightarrow> MediaProbe io" where
  "Probe t p = io_bind (os_ReadFile p) (\<lambda>content. case t_probe t content of None \<Rightarrow> io_fail ErrIO | Some r \<Rightarrow> io_return r)"

text \<open>FFmpeg writes the file its last argument names; when it fails a part may be left there.\<close>

definition RunFFmpeg :: "tools \<Rightarrow> gostr list \<Rightarrow> unit io" where
  "RunFFmpeg t args d =
     (case next_event d of
        (e, d') \<Rightarrow>
          case t_ffmpeg t args (d_files d') of
            None \<Rightarrow> (Inl ErrIO, d')
          | Some content \<Rightarrow>
              if \<not> parent_is_dir (d_files d') (last args) then (Inl ErrIO, d')
              else case e of
                     Some n \<Rightarrow> (Inl ErrIO, d'\<lparr>d_files := put_node (last args) (FileN (take n content)) (d_files d')\<rparr>)
                   | None \<Rightarrow> (Inr (), d'\<lparr>d_files := put_node (last args) (FileN content) (d_files d')\<rparr>))"

definition verifyArtifactFile :: "(bytes \<Rightarrow> bytes) \<Rightarrow> MediaArtifact \<Rightarrow> unit io" where
  "verifyArtifactFile sha256 artifact =
     io_bind (fileIdentity sha256 (ar_file_path artifact)) (\<lambda>(size, checksum).
       if size \<noteq> ar_size_bytes artifact \<or> checksum \<noteq> ar_checksum artifact
       then io_fail (ErrMedia ''artifact file identity does not match database record'')
       else io_return ())"

definition taskMediaOutputPath :: "TaskMediaCommand \<Rightarrow> gostr \<Rightarrow> gostr" where
  "taskMediaOutputPath command fileName =
     (if tc_OutputRelativeDirectory command = [] then fileName
      else path_join [tc_OutputRelativeDirectory command, fileName])"

section \<open>Materialisation and cancellation\<close>

definition DownloadMaterializeHandler :: "tools \<Rightarrow> OperationView \<Rightarrow> unit job" where
  "DownloadMaterializeHandler t operation =
     (if ov_ResourceType operation \<noteq> ''download'' \<or> ov_ResourceID operation = uuid_nil
      then job_fail (permanentFailure ''invalid_download_operation'' ''download.materialize requires a download resource'')
      else job_tx (\<lambda>err. case err of
               ErrNotFound \<Rightarrow> permanentFailure ''download_not_found'' ''the download no longer exists''
             | WorkflowError code message retryable \<Rightarrow> HandlerFailure (lit code) (lit message) retryable
             | _ \<Rightarrow> retryableFailure ''media_storage_unavailable'' ''the download could not be materialized'')
             (MaterializeDownload (t_env t) (ov_ResourceID operation) (ov_ID operation)))"

definition TaskCancelHandler :: "OperationView \<Rightarrow> unit job" where
  "TaskCancelHandler operation =
     (if ov_ResourceType operation \<noteq> ''episode_task'' \<or> ov_ResourceID operation = uuid_nil
      then job_fail (permanentFailure ''invalid_task_operation'' ''task.cancel requires an episode task resource'')
      else job_bind (job_tx (\<lambda>_. retryableFailure ''task_storage_unavailable'' ''task cancellation could not be reconciled'')
                      (TaskCancellationReady (ov_ResourceID operation) (ov_ID operation)))
             (\<lambda>ready. if ready then job_return () else job_fail HandlerSnooze))"

section \<open>Transcoding\<close>

text \<open>The committed output: encoded, probed and moved into place, or found there and probed.\<close>

definition transcode_output ::
  "tools \<Rightarrow> TaskMediaCommand \<Rightarrow> gostr \<Rightarrow> mediaOutputPaths \<Rightarrow> TranscodeProbeExpectation \<Rightarrow> MediaProbe \<Rightarrow> unit job" where
  "transcode_output t command sourcePath paths expectation inputProbe =
     job_try_io (os_Stat (mo_Final paths)) (\<lambda>stat.
       case stat of
         Inl ErrNotExist \<Rightarrow>
           (case BuildTranscodeFFmpegArgs (tc_TranscodeProfile command) sourcePath (mo_Temporary paths) of
              Inl _ \<Rightarrow> job_fail (permanentFailure ''transcode_profile_invalid'' ''the task transcode command is invalid'')
            | Inr args \<Rightarrow>
                job_seq (job_io (\<lambda>_. retryableFailure ''ffmpeg_transcode_failed'' ''FFmpeg video transcoding failed'')
                          (RunFFmpeg t args))
                (job_bind (job_io (\<lambda>_. retryableFailure ''transcode_output_probe_failed'' ''the temporary video output could not be probed'')
                            (Probe t (mo_Temporary paths))) (\<lambda>outputProbe.
                 if ValidateTranscodeProbe expectation inputProbe outputProbe (mo_Temporary paths) \<noteq> None
                 then job_fail (permanentFailure ''transcode_output_invalid'' ''the temporary video output does not match its profile'')
                 else job_io (\<lambda>_. retryableFailure ''transcode_output_commit_failed'' ''the video output could not be committed atomically'')
                        (commitTemporaryFile (t_rename t) (mo_Temporary paths) (mo_Final paths)))))
       | Inl _ \<Rightarrow> job_fail (retryableFailure ''staging_unavailable'' ''the existing video output could not be inspected'')
       | Inr _ \<Rightarrow>
           job_bind (job_io (\<lambda>_. retryableFailure ''transcode_output_probe_failed'' ''the existing video output could not be probed'')
                      (Probe t (mo_Final paths))) (\<lambda>outputProbe.
           if ValidateTranscodeProbe expectation inputProbe outputProbe (mo_Final paths) \<noteq> None
           then job_fail (permanentFailure ''transcode_output_conflict'' ''the existing video output does not match its profile'')
           else job_return ()))"

definition video_completion ::
  "TaskMediaCommand \<Rightarrow> uuid \<Rightarrow> gostr \<Rightarrow> int \<Rightarrow> bytes \<Rightarrow> MediaArtifactCompletion" where
  "video_completion command operationID outputPath sizeBytes checksum =
     \<lparr>ac_TaskID = tc_TaskID command, ac_OperationID = operationID, ac_SourceFileID = tc_SourceVideoFileID command,
      ac_TranscodeProfileID = tc_TranscodeProfileID command, ac_Kind = MediaVideo,
      ac_BaseName = BaseName (tc_Names command), ac_FilePath = outputPath,
      ac_Format = Container (tc_TranscodeProfile command), ac_SizeBytes = sizeBytes, ac_ChecksumSHA256 = checksum\<rparr>"

definition transcode_run :: "tools \<Rightarrow> OperationView \<Rightarrow> TaskMediaCommand \<Rightarrow> unit job" where
  "transcode_run t operation command =
     job_bind (loadMediaSettings t) (\<lambda>settings.
     case secureJoin (t_wd t) (tc_SavePath command) (tc_SourceVideoRelativePath command) of
       None \<Rightarrow> job_fail (permanentFailure ''source_video_path_invalid'' ''the source video path is unsafe'')
     | Some sourcePath \<Rightarrow>
         (case buildMediaOutputPaths (e_uuid_string (t_env t)) (t_wd t) (ps_StagingRoot settings) (tc_TaskID command)
                 (ov_ID operation) (taskMediaOutputPath command (VideoName (tc_Names command))) of
            None \<Rightarrow> job_fail (permanentFailure ''transcode_output_path_invalid'' ''the transcode output path is invalid'')
          | Some paths \<Rightarrow>
              job_seq (job_io (\<lambda>_. retryableFailure ''staging_unavailable'' ''the transcode staging directory is unavailable'')
                        (prepareOutputDirectory paths))
              (job_defer (os_Remove (mo_Temporary paths))
                (job_bind (job_io (\<lambda>_. retryableFailure ''source_video_probe_failed'' ''the source video could not be probed'')
                            (Probe t sourcePath)) (\<lambda>inputProbe.
                 case BuildTranscodeProbeExpectation (tc_TranscodeProfile command) of
                   Inl _ \<Rightarrow> job_fail (permanentFailure ''transcode_profile_invalid'' ''the task transcode profile is invalid'')
                 | Inr expectation \<Rightarrow>
                     job_seq (transcode_output t command sourcePath paths expectation inputProbe)
                     (job_bind (job_io (\<lambda>_. retryableFailure ''transcode_output_unavailable'' ''the committed video output is unavailable'')
                                 (fileIdentity (t_sha256 t) (mo_Final paths))) (\<lambda>(size, checksum).
                      job_tx (mediaStoreFailure ''transcode'')
                        (CompleteArtifact (t_env t) (video_completion command (ov_ID operation) (mo_Final paths) size checksum)))))))))"

definition TranscodeRunHandler :: "tools \<Rightarrow> OperationView \<Rightarrow> unit job" where
  "TranscodeRunHandler t operation =
     (if ov_ResourceType operation \<noteq> ''episode_task'' \<or> ov_ResourceID operation = uuid_nil
      then job_fail (permanentFailure ''invalid_transcode_operation'' ''transcode.run requires an episode task resource'')
      else job_bind (job_tx (mediaStoreFailure ''transcode'') (BeginTranscode (ov_ResourceID operation))) (\<lambda>command.
           if tc_TaskID command \<noteq> ov_ResourceID operation
           then job_fail (permanentFailure ''transcode_resource_mismatch'' ''the operation does not match its episode task'')
           else if tc_VideoState command = VideoReady then job_return ()
           else transcode_run t operation command))"

section \<open>Finalisation\<close>

definition MediaFinalizeHandler :: "tools \<Rightarrow> OperationView \<Rightarrow> unit job" where
  "MediaFinalizeHandler t operation =
     (if ov_ResourceType operation \<noteq> ''episode_task'' \<or> ov_ResourceID operation = uuid_nil
      then job_fail (permanentFailure ''invalid_finalize_operation'' ''media.finalize requires an episode task resource'')
      else job_bind (job_tx (\<lambda>err. if err = ErrNotFound
               then permanentFailure ''task_artifacts_not_found'' ''the episode task or its paired artifacts do not exist''
               else mediaStoreFailure ''finalize'' err) (LoadFinalizeCommand (ov_ResourceID operation))) (\<lambda>command.
           if fm_TaskID command \<noteq> ov_ResourceID operation
           then job_fail (permanentFailure ''finalize_resource_mismatch'' ''the operation does not match its episode task'')
           else if fm_State command \<in> {TaskAwaitingReview, TaskImportQueued, TaskImporting, TaskImported} then job_return ()
           else if fm_State command \<noteq> TaskFinalizing
           then job_fail (permanentFailure ''task_finalize_state_conflict'' ''the episode task is not ready for finalization'')
           else if ar_basename (fm_Video command) \<noteq> ar_basename (fm_Subtitle command)
           then job_fail (permanentFailure ''artifact_basename_mismatch'' ''video and subtitle artifacts do not share a basename'')
           else job_seq (job_io (\<lambda>_. permanentFailure ''video_artifact_invalid'' ''the video artifact does not match its database identity'')
                          (verifyArtifactFile (t_sha256 t) (fm_Video command)))
                (job_seq (job_io (\<lambda>_. permanentFailure ''subtitle_artifact_invalid'' ''the subtitle artifact does not match its database identity'')
                          (verifyArtifactFile (t_sha256 t) (fm_Subtitle command)))
                  (job_tx (mediaStoreFailure ''finalize'') (CompleteFinalize (t_env t) (fm_TaskID command) (ov_ID operation))))))"

section \<open>Import\<close>

text \<open>A payload that does not decode reads as the nil identifier: both are refused.\<close>

definition payload_id :: "string \<Rightarrow> payload \<Rightarrow> uuid" where
  "payload_id key p = (case map_of p key of Some (JUuid i) \<Rightarrow> i | _ \<Rightarrow> uuid_nil)"

definition library_paths ::
  "PathSettings \<Rightarrow> ImportCommand \<Rightarrow> (handler_error, gostr \<times> LibraryRelativePaths) result" where
  "library_paths settings command =
     (let videoName = path_base (ar_file_path (ic_Video command));
          subtitleName = path_base (ar_file_path (ic_Subtitle command));
          invalid = permanentFailure ''library_path_invalid'' ''the Emby library destination is invalid''
      in case ic_MediaType command of
           TaskMediaMovie \<Rightarrow>
             (let libraryRoot = trim_space (ps_MovieLibraryRoot settings)
              in if libraryRoot = []
                 then Inl (permanentFailure ''movie_library_root_not_configured'' ''the movie library root is not configured'')
                 else map_sum (\<lambda>_. invalid) (Pair libraryRoot)
                        (BuildMovieLibraryRelativePaths (ic_MovieTitle command) (ic_ReleaseYear command) videoName subtitleName))
         | TaskMediaEpisode \<Rightarrow>
             (let libraryRoot = trim_space (EffectiveAnimeLibraryRoot settings)
              in if libraryRoot = []
                 then Inl (permanentFailure ''anime_library_root_not_configured'' ''the anime library root is not configured'')
                 else map_sum (\<lambda>_. invalid) (Pair libraryRoot)
                        (BuildLibraryRelativePaths (ic_SeriesTitle command) (ic_Season command) videoName subtitleName)))"

definition import_failure :: "io_error \<Rightarrow> handler_error" where
  "import_failure err =
     (case err of
        ErrConflict _ \<Rightarrow> permanentFailure ''library_destination_conflict'' ''an Emby library destination contains different content''
      | _ \<Rightarrow> retryableFailure ''library_import_failed'' ''the paired media files could not be imported'')"

definition import_run :: "tools \<Rightarrow> OperationView \<Rightarrow> ImportCommand \<Rightarrow> unit job" where
  "import_run t operation command =
     (case t_settings t of
        None \<Rightarrow> job_fail (retryableFailure ''configuration_unavailable'' ''runtime configuration is unavailable'')
      | Some settings \<Rightarrow>
          case library_paths settings command of
            Inl e \<Rightarrow> job_fail e
          | Inr (libraryRoot, relative) \<Rightarrow>
              case secureJoin (t_wd t) libraryRoot (Video relative) of
                None \<Rightarrow> job_fail (permanentFailure ''library_path_invalid'' ''the video library destination is unsafe'')
              | Some destinationVideo \<Rightarrow>
                  case secureJoin (t_wd t) libraryRoot (Subtitle relative) of
                    None \<Rightarrow> job_fail (permanentFailure ''library_path_invalid'' ''the subtitle library destination is unsafe'')
                  | Some destinationSubtitle \<Rightarrow>
                      job_seq (job_io import_failure
                        (importArtifactPair (t_sha256 t) (t_rename t) (e_uuid_string (t_env t)) (t_wd t) (ic_Video command)
                           (ic_Subtitle command) libraryRoot destinationVideo destinationSubtitle (ov_ID operation)))
                      (job_tx (mediaStoreFailure ''import'')
                        (CompleteImport (t_env t)
                           \<lparr>ico_TaskID = ic_TaskID command, ico_ImportID = ic_ImportID command, ico_OperationID = ov_ID operation,
                            ico_DestinationVideoPath = destinationVideo, ico_DestinationSubtitlePath = destinationSubtitle\<rparr>)))"

definition EmbyImportHandler :: "tools \<Rightarrow> OperationView \<Rightarrow> unit job" where
  "EmbyImportHandler t operation =
     (if ov_ResourceType operation \<noteq> ''episode_task'' \<or> ov_ResourceID operation = uuid_nil
      then job_fail (permanentFailure ''invalid_import_operation'' ''emby.import requires an episode task resource'')
      else
        let importID = payload_id ''importId'' (ov_Payload operation)
        in if importID = uuid_nil
           then job_fail (permanentFailure ''invalid_import_operation'' ''emby.import payload requires an import ID'')
           else job_bind (job_tx (mediaStoreFailure ''import'') (BeginImport (ov_ResourceID operation) importID)) (\<lambda>command.
                if ic_TaskID command \<noteq> ov_ResourceID operation \<or> ic_ImportID command \<noteq> importID
                then job_fail (permanentFailure ''import_resource_mismatch'' ''the operation does not match its task import'')
                else if ic_TaskState command = TaskImported \<and> ic_ImportState command = ImSucceeded then job_return ()
                else import_run t operation command))"

section \<open>Rules for jobs\<close>

definition job_holds :: "(world \<Rightarrow> bool) \<Rightarrow> 'a job \<Rightarrow> ('a \<Rightarrow> world \<Rightarrow> bool) \<Rightarrow> (world \<Rightarrow> bool) \<Rightarrow> bool" where
  "job_holds P m Q E \<longleftrightarrow>
     (\<forall>w. P w \<longrightarrow> (\<forall>x w'. m w = (Inr x, w') \<longrightarrow> Q x w') \<and> (\<forall>e w'. m w = (Inl e, w') \<longrightarrow> E w'))"

abbreviation w_files :: "world \<Rightarrow> files" where
  "w_files w \<equiv> d_files (w_disk w)"

lemma job_holds_return: "(\<And>w. P w \<Longrightarrow> Q x w) \<Longrightarrow> job_holds P (job_return x) Q E"
  and job_holds_fail: "(\<And>w. P w \<Longrightarrow> E w) \<Longrightarrow> job_holds P (job_fail e) Q E"
  by (simp_all add: job_holds_def job_return_def job_fail_def)

lemma job_holds_bind:
  "job_holds P m Q E \<Longrightarrow> (\<And>x. job_holds (Q x) (f x) R E) \<Longrightarrow> job_holds P (job_bind m f) R E"
  unfolding job_holds_def job_bind_def by (fastforce split: prod.splits sum.splits)

lemma job_holds_seq: "job_holds P m (\<lambda>_. Q) E \<Longrightarrow> job_holds Q k R E \<Longrightarrow> job_holds P (job_seq m k) R E"
  unfolding job_seq_def by (rule job_holds_bind)

lemma job_holds_conseq:
  "job_holds P m Q E \<Longrightarrow> (\<And>w. P' w \<Longrightarrow> P w) \<Longrightarrow> (\<And>x w. Q x w \<Longrightarrow> Q' x w) \<Longrightarrow> (\<And>w. E w \<Longrightarrow> E' w) \<Longrightarrow>
     job_holds P' m Q' E'"
  unfolding job_holds_def by blast

text \<open>File operations leave the store and the torrents alone, transactions and client calls the files.\<close>

lemma job_holds_io:
  assumes "\<And>s u. io_holds (\<lambda>fs. P fs s u) m (\<lambda>x fs. Q x fs s u) (\<lambda>fs. E fs s u)"
  shows "job_holds (\<lambda>w. P (w_files w) (w_db w) (w_torrents w)) (job_io failure m)
    (\<lambda>x w. Q x (w_files w) (w_db w) (w_torrents w)) (\<lambda>w. E (w_files w) (w_db w) (w_torrents w))"
  using assms unfolding job_holds_def io_holds_def job_io_def
  by (auto split: prod.splits simp: map_sum_def split: sum.splits)

lemma job_holds_tx:
  assumes "\<And>s fs u. P fs s u \<Longrightarrow> E fs s u"
    "\<And>s s' x fs u. P fs s u \<Longrightarrow> WithinTx m s = (Inr x, s') \<Longrightarrow> Q x fs s' u"
  shows "job_holds (\<lambda>w. P (w_files w) (w_db w) (w_torrents w)) (job_tx failure m)
    (\<lambda>x w. Q x (w_files w) (w_db w) (w_torrents w)) (\<lambda>w. E (w_files w) (w_db w) (w_torrents w))"
  using assms WithinTx_failed unfolding job_holds_def job_tx_def
  by (auto split: prod.splits option.splits sum.splits simp: map_sum_def WithinTx_def dest!: next_event_pair)

end
