(* ===== verification/LinkPaths.thy ===== *)
theory LinkPaths
  imports FileSystem
begin

text \<open>
  Paths through symbolic links. The kernel follows every link among the directories of a path, and
  \<^verbatim>\<open>filepath.EvalSymlinks\<close> also one at its end. \<open>walk\<close> is this resolution over the nodes of a file
  system, \<open>locate\<close> the entry that a call such as \<^verbatim>\<open>lstat\<close> or \<^verbatim>\<open>unlink\<close> acts on, and \<open>via\<close> runs an operation
  there. The relation \<open>reaches\<close> states the same by rules, and its facts hold by rule induction: a larger
  file system and a larger limit on the links resolve what a smaller one does, and a path that
  resolves to a directory can be continued there.
\<close>

section \<open>Resolution\<close>

text \<open>
  \<open>walk k fs base es\<close> follows the elements \<open>es\<close> from the resolved directory \<open>base\<close> through at most \<open>k\<close>
  links. A node that is not a directory may only be the last element.
\<close>

definition link_start :: "gostr \<Rightarrow> gostr list \<Rightarrow> gostr list" where
  "link_start q base = (if is_abs q then [] else base)"

fun walk :: "nat \<Rightarrow> files \<Rightarrow> gostr list \<Rightarrow> gostr list \<Rightarrow> (io_error, gostr list) result" where
  "walk k fs base [] = Inr base"
| "walk k fs base (e # es) =
     (if e = [] \<or> e = [dot] then walk k fs base es
      else if e = [dot, dot] then walk k fs (butlast base) es
      else case node_at fs (abs_path (base @ [e])) of
             None \<Rightarrow> Inl ErrNotExist
           | Some n \<Rightarrow>
               (case n of
                  DirN \<Rightarrow> walk k fs (base @ [e]) es
                | LinkN q \<Rightarrow>
                    (case k of
                       0 \<Rightarrow> Inl ErrIO
                     | Suc j \<Rightarrow> walk j fs (link_start q base) (split_on slash q @ es))
                | _ \<Rightarrow> if es = [] then Inr (base @ [e]) else Inl ErrIO))"

text \<open>
  The entry a path names: its directories are resolved, with the limit of the kernel on links, its
  last element is not. The appended element \<^verbatim>\<open>.\<close> asks for a directory.
\<close>

definition locate :: "files \<Rightarrow> gostr \<Rightarrow> (io_error, gostr) result" where
  "locate fs p =
     (case rev (filter (\<lambda>e. e \<noteq> [dot]) (path_elems p)) of
        [] \<Rightarrow> Inr (abs_path [])
      | e # es \<Rightarrow>
          (case walk 40 fs [] (rev es @ [[dot]]) of
             Inl err \<Rightarrow> Inl err
           | Inr d \<Rightarrow> Inr (abs_path (if e = [dot, dot] then butlast d else d @ [e]))))"

definition via :: "(gostr \<Rightarrow> 'a io) \<Rightarrow> gostr \<Rightarrow> 'a io" where
  "via op p d = (case locate (d_files d) p of Inl e \<Rightarrow> syscall (\<lambda>_. Inl e) d | Inr q \<Rightarrow> op q d)"

definition lstat :: "files \<Rightarrow> gostr \<Rightarrow> (io_error, node) result" where
  "lstat fs p =
     (case locate fs p of
        Inl e \<Rightarrow> Inl e
      | Inr q \<Rightarrow> (case node_at fs q of None \<Rightarrow> Inl ErrNotExist | Some n \<Rightarrow> Inr n))"

definition EvalSymlinks :: "gostr \<Rightarrow> gostr io" where
  "EvalSymlinks p = syscall (\<lambda>fs. map_sum id (\<lambda>q. (abs_path q, fs)) (walk 255 fs [] (path_elems p)))"

section \<open>The same by rules\<close>

definition plain_name :: "gostr \<Rightarrow> bool" where
  "plain_name e \<longleftrightarrow> e \<noteq> [] \<and> e \<noteq> [dot] \<and> e \<noteq> [dot, dot]"

text \<open>Regular files and the like: neither a directory nor a link.\<close>

definition data_node :: "node \<Rightarrow> bool" where
  "data_node n = (case n of DirN \<Rightarrow> False | LinkN q \<Rightarrow> False | _ \<Rightarrow> True)"

inductive reaches :: "files \<Rightarrow> nat \<Rightarrow> gostr list \<Rightarrow> gostr list \<Rightarrow> gostr list \<Rightarrow> bool" for fs where
  reach_here: "reaches fs k base [] base"
| reach_skip: "e = [] \<or> e = [dot] \<Longrightarrow> reaches fs k base es r \<Longrightarrow> reaches fs k base (e # es) r"
| reach_up: "reaches fs k (butlast base) es r \<Longrightarrow> reaches fs k base ([dot, dot] # es) r"
| reach_dir: "plain_name e \<Longrightarrow> node_at fs (abs_path (base @ [e])) = Some DirN \<Longrightarrow>
     reaches fs k (base @ [e]) es r \<Longrightarrow> reaches fs k base (e # es) r"
| reach_link: "plain_name e \<Longrightarrow> node_at fs (abs_path (base @ [e])) = Some (LinkN q) \<Longrightarrow>
     reaches fs k (link_start q base) (split_on slash q @ es) r \<Longrightarrow> reaches fs (Suc k) base (e # es) r"
| reach_data: "plain_name e \<Longrightarrow> node_at fs (abs_path (base @ [e])) = Some n \<Longrightarrow> data_node n \<Longrightarrow>
     reaches fs k base [e] (base @ [e])"

inductive_cases reaches_ConsE: "reaches fs k base (e # es) r"

lemma reaches_Nil [simp]: "reaches fs k base [] r \<longleftrightarrow> r = base"
  by (auto elim: reaches.cases intro: reach_here)

lemma walk_reaches: "walk k fs base es = Inr r \<Longrightarrow> reaches fs k base es r"
proof (induction k fs base es rule: walk.induct)
  case (2 k fs base e es)
  consider "e = [] \<or> e = [dot]" | "e = [dot, dot]" | "plain_name e" by (auto simp: plain_name_def)
  then show ?case
  proof cases
    case 3
    then have e: "\<not> (e = [] \<or> e = [dot])" "e \<noteq> [dot, dot]" by (auto simp: plain_name_def)
    from "2.prems" e obtain n where n: "node_at fs (abs_path (base @ [e])) = Some n" by (auto split: option.splits)
    show ?thesis
      using "2.IH"(3-) [OF e n] "2.prems" e n 3
      by (cases n) (auto split: nat.splits if_splits intro: reach_dir reach_link reach_data simp: data_node_def)
  qed (use 2 in \<open>auto intro: reach_skip reach_up\<close>)
qed simp

lemma reaches_walk: "reaches fs k base es r \<Longrightarrow> walk k fs base es = Inr r"
  by (induction rule: reaches.induct) (auto simp: plain_name_def data_node_def split: node.splits)

lemma walk_iff: "walk k fs base es = Inr r \<longleftrightarrow> reaches fs k base es r"
  using walk_reaches reaches_walk by blast

lemma reaches_det: "reaches fs k base es r \<Longrightarrow> reaches fs k base es s \<Longrightarrow> r = s"
  by (metis reaches_walk sum.inject(2))

text \<open>A larger limit and a larger file system resolve at least as much.\<close>

definition sub_files :: "files \<Rightarrow> files \<Rightarrow> bool" where
  "sub_files gs fs \<longleftrightarrow> (\<forall>p n. node_at gs p = Some n \<longrightarrow> node_at fs p = Some n)"

lemma reaches_more: "reaches fs k base es r \<Longrightarrow> k \<le> j \<Longrightarrow> reaches fs j base es r"
proof (induction arbitrary: j rule: reaches.induct)
  case (reach_link e base q k es r)
  then obtain i where "j = Suc i" "k \<le> i" by (cases j) auto
  with reach_link show ?case by (auto intro: reaches.reach_link)
qed (auto intro: reaches.intros)

lemma reaches_sub: "reaches gs k base es r \<Longrightarrow> sub_files gs fs \<Longrightarrow> reaches fs k base es r"
  by (induction rule: reaches.induct) (auto simp: sub_files_def intro: reaches.intros)

text \<open>What resolves has a first part that resolves, and goes on from a directory.\<close>

lemma reaches_prefix: "reaches fs k base (es @ es') r \<Longrightarrow> \<exists>b. reaches fs k base es b"
proof (induction k base "es @ es'" r arbitrary: es rule: reaches.induct)
  case (reach_link e base q k ds r)
  show ?case
  proof (cases es)
    case (Cons x xs)
    with reach_link have "split_on slash q @ ds = (split_on slash q @ xs) @ es'" by simp
    from reach_link.hyps(4) [OF this] Cons reach_link.hyps show ?thesis by (auto intro: reaches.reach_link)
  qed auto
next
  case (reach_data e base n k)
  then show ?case by (cases es) (auto intro: reaches.reach_data)
qed (auto simp: Cons_eq_append_conv append_eq_Cons_conv intro: reaches.intros)

lemma reaches_continue:
  "reaches fs k base (es @ [[dot]]) d \<Longrightarrow> \<exists>j \<le> k. \<forall>es'. walk k fs base (es @ es') = walk j fs d es'"
proof (induction k base "es @ [[dot]]" d arbitrary: es rule: reaches.induct)
  case (reach_skip e k base ds r)
  then show ?case by (cases es) auto
next
  case (reach_up k base ds r)
  then show ?case by (cases es) (auto simp: plain_name_def)
next
  case (reach_dir e base k ds r)
  then show ?case by (cases es) (auto simp: plain_name_def)
next
  case (reach_link e base q k ds r)
  then obtain xs where es: "es = e # xs" "ds = xs @ [[dot]]" by (cases es) (auto simp: plain_name_def)
  from reach_link.hyps(4) [of "split_on slash q @ xs"] es(2) obtain j where
    "j \<le> k" "\<forall>es'. walk k fs (link_start q base) ((split_on slash q @ xs) @ es') = walk j fs r es'" by auto
  with reach_link.hyps(1,2) es(1) show ?case by (intro exI [of _ j]) (auto simp: plain_name_def)
next
  case (reach_data e base n k)
  then show ?case by (cases es) (auto simp: plain_name_def)
qed auto

lemma plain_proper: "plain_name e \<Longrightarrow> slash \<notin> set e \<Longrightarrow> proper_elem e"
  by (simp add: proper_elem_def plain_name_def)

lemma reaches_propers:
  "reaches fs k base es r \<Longrightarrow> propers base \<Longrightarrow> \<forall>e \<in> set es. slash \<notin> set e \<Longrightarrow> propers r"
proof (induction rule: reaches.induct)
  case (reach_link e base q k es r)
  have "propers (link_start q base)" using reach_link.prems(1) by (simp add: link_start_def)
  moreover have "\<forall>e \<in> set (split_on slash q @ es). slash \<notin> set e" using reach_link.prems(2) split_on_no_slash by auto
  ultimately show ?case using reach_link.IH by blast
next
  case (reach_up k base es r)
  then show ?case by (auto dest: in_set_butlastD)
qed (simp_all add: plain_proper)

section \<open>File systems without links\<close>

definition link_free :: "files \<Rightarrow> bool" where
  "link_free fs \<longleftrightarrow> (\<forall>p q. node_at fs p \<noteq> Some (LinkN q))"

lemma proper_plain: "proper_elem e \<Longrightarrow> plain_name e"
  by (simp add: proper_elem_def plain_name_def)

lemma reaches_link_free:
  "reaches fs k base es r \<Longrightarrow> link_free fs \<Longrightarrow> \<forall>e \<in> set es. proper_elem e \<or> e = [dot] \<Longrightarrow> r = base @ filter (\<lambda>e. e \<noteq> [dot]) es"
  by (induction rule: reaches.induct) (auto simp: link_free_def plain_name_def proper_elem_def)

text \<open>In a tree the parent of every node is a directory, so a node is found at its own path.\<close>

definition tree :: "files \<Rightarrow> bool" where
  "tree fs \<longleftrightarrow> (\<forall>es e. es \<noteq> [] \<longrightarrow> propers (es @ [e]) \<longrightarrow> node_at fs (abs_path (es @ [e])) \<noteq> None \<longrightarrow>
     node_at fs (abs_path es) = Some DirN)"

lemma tree_parent:
  "tree fs \<Longrightarrow> node_at fs (abs_path (es @ [e])) = Some n \<Longrightarrow> propers (es @ [e]) \<Longrightarrow> es = [] \<or> node_at fs (abs_path es) = Some DirN"
  unfolding tree_def by (metis option.distinct(1))

lemma tree_reaches:
  assumes "tree fs"
  shows "propers (es @ [e]) \<Longrightarrow> node_at fs (abs_path (es @ [e])) = Some n \<Longrightarrow> walk k fs [] (es @ [[dot]]) = Inr es"
proof (induction es arbitrary: e n rule: rev_induct)
  case (snoc x xs)
  from tree_parent [OF assms snoc.prems(2)] snoc.prems(1) have x: "node_at fs (abs_path (xs @ [x])) = Some DirN" by auto
  from snoc.IH [OF _ x] snoc.prems(1) have w: "walk k fs [] (xs @ [[dot]]) = Inr xs" by simp
  from reaches_continue [OF walk_reaches [OF this]] obtain j where
    "\<forall>es'. walk k fs [] (xs @ es') = walk j fs xs es'" by blast
  moreover have "plain_name x" using snoc.prems(1) by (simp add: proper_plain)
  ultimately show ?case using x by (simp add: plain_name_def)
qed simp

section \<open>Entries\<close>

lemma locate_proper:
  assumes "propers (es @ [e])"
  shows "locate fs (abs_path (es @ [e])) =
    (case walk 40 fs [] (es @ [[dot]]) of Inl err \<Rightarrow> Inl err | Inr d \<Rightarrow> Inr (abs_path (d @ [e])))"
proof -
  have "filter (\<lambda>e. e \<noteq> [dot]) (es @ [e]) = es @ [e]" using assms by (auto simp: filter_id_conv proper_elem_def)
  moreover have "e \<noteq> [dot, dot]" using assms by (auto simp: proper_elem_def)
  ultimately show ?thesis using assms by (simp add: locate_def cong: sum.case_cong)
qed

lemma locate_properE:
  assumes "locate fs (abs_path (es @ [e])) = Inr q" "propers (es @ [e])"
  obtains d where "reaches fs 40 [] (es @ [[dot]]) d" "q = abs_path (d @ [e])" "propers (d @ [e])"
proof -
  from assms obtain d where d: "walk 40 fs [] (es @ [[dot]]) = Inr d" "q = abs_path (d @ [e])"
    by (auto simp: locate_proper split: sum.splits)
  from reaches_propers [OF walk_reaches [OF d(1)]] assms(2) have "propers d" by (auto simp: proper_elem_def)
  with d assms(2) that show ?thesis by (auto simp: walk_iff)
qed

lemma locate_sub:
  assumes "sub_files gs fs" "locate gs (abs_path (es @ [e])) = Inr q" "propers (es @ [e])"
  shows "locate fs (abs_path (es @ [e])) = Inr q"
proof -
  obtain d where "reaches gs 40 [] (es @ [[dot]]) d" "q = abs_path (d @ [e])" using locate_properE [OF assms(2,3)] .
  with reaches_walk [OF reaches_sub [OF this(1) assms(1)]] assms(3) show ?thesis by (simp add: locate_proper)
qed

text \<open>An entry that is not a link is what \<^verbatim>\<open>EvalSymlinks\<close> finds for its path.\<close>

lemma located_resolves:
  assumes l: "locate fs (abs_path (es @ [e])) = Inr q" "propers (es @ [e])"
    and n: "node_at fs q = Some n" "\<forall>l. n \<noteq> LinkN l"
  obtains d where "reaches fs 255 [] (es @ [e]) d" "q = abs_path d" "propers d"
proof -
  obtain d where d: "reaches fs 40 [] (es @ [[dot]]) d" "q = abs_path (d @ [e])" "propers (d @ [e])"
    using locate_properE [OF l] .
  have "reaches fs 255 [] (es @ [[dot]]) d" by (rule reaches_more [OF d(1)]) simp
  from reaches_continue [OF this] obtain j where "\<forall>es'. walk 255 fs [] (es @ es') = walk j fs d es'" by blast
  moreover have "walk j fs d [e] = Inr (d @ [e])"
    using n d(2) l(2) by (cases n) (auto simp: proper_elem_def)
  ultimately have "walk 255 fs [] (es @ [e]) = Inr (d @ [e])" by simp
  with d(2,3) that show ?thesis by (auto simp: walk_iff)
qed

text \<open>A path whose entry could be located has no data among its directories.\<close>

lemma located_parent_no_data:
  assumes child: "locate fs (abs_path (es @ [x, e])) = Inr q" and l: "locate fs (abs_path (es @ [x])) = Inr p"
    and "propers (es @ [x, e])" "node_at fs p = Some n"
  shows "\<not> data_node n"
proof
  assume n: "data_node n"
  obtain d where d: "reaches fs 40 [] ((es @ [x]) @ [[dot]]) d" using locate_properE [of fs "es @ [x]" e q] assms by auto
  obtain b where b: "reaches fs 40 [] (es @ [[dot]]) b" "p = abs_path (b @ [x])" using locate_properE [OF l] assms(3) by auto
  from reaches_continue [OF b(1)] obtain j where "\<forall>es'. walk 40 fs [] (es @ es') = walk j fs b es'" by blast
  moreover have "walk j fs b [x, [dot]] = Inl ErrIO"
    using n assms(3,4) b(2) by (cases n) (auto simp: proper_elem_def data_node_def)
  ultimately show False using reaches_walk [OF d] by simp
qed

lemma locate_link_free:
  assumes "link_free fs" "locate fs (abs_path (es @ [e])) = Inr q" "propers (es @ [e])"
  shows "q = abs_path (es @ [e])"
proof -
  obtain d where d: "reaches fs 40 [] (es @ [[dot]]) d" "q = abs_path (d @ [e])" using locate_properE [OF assms(2,3)] .
  have "d = filter (\<lambda>e. e \<noteq> [dot]) es" using reaches_link_free [OF d(1) assms(1)] assms(3) by auto
  moreover have "\<dots> = es" using assms(3) by (auto simp: filter_id_conv proper_elem_def)
  ultimately show ?thesis using d(2) by simp
qed

lemma lstat_absent:
  assumes "lstat fs (abs_path es) = Inl ErrNotExist" "tree fs" "propers es"
  shows "node_at fs (abs_path es) = None"
proof (cases es rule: rev_cases)
  case Nil
  then show ?thesis using assms(1) by (auto simp: lstat_def locate_def split: option.splits)
next
  case (snoc xs x)
  show ?thesis
  proof (rule ccontr)
    assume "node_at fs (abs_path es) \<noteq> None"
    then obtain n where n: "node_at fs (abs_path (xs @ [x])) = Some n" using snoc by auto
    from tree_reaches [OF assms(2) _ this, of 40] assms(3) snoc have "locate fs (abs_path (xs @ [x])) = Inr (abs_path (xs @ [x]))"
      by (simp add: locate_proper)
    with n snoc assms(1) show False by (simp add: lstat_def)
  qed
qed

end
