(* ===== verification/CleanupWorker.thy ===== *)
theory CleanupWorker
  imports MediaWorkers LinkPaths
begin

text \<open>
  The cleanup of a task that left the pipeline (\<^verbatim>\<open>internal/worker/cleanup_run.go\<close>): the torrent is
  removed from the client, the downloaded files and the staged artifacts from the disk, and empty
  staging directories after them. Only paths below the configured roots may be removed; the calls reach their
  entries through symbolic links as the kernel does (\<open>LinkPaths\<close>).
\<close>

section \<open>Removing files\<close>

text \<open>
  \<^verbatim>\<open>os.RemoveAll\<close>: an entry that is a directory goes with everything below it, the deepest entries
  first, so that a failure leaves the upper part of it; a link goes alone. A missing path is a success.
\<close>

definition deepest_first :: "gostr list \<Rightarrow> gostr list" where
  "deepest_first ps = rev (sort_key (\<lambda>p. length (path_elems p)) ps)"

definition tree_nodes :: "files \<Rightarrow> gostr \<Rightarrow> gostr list" where
  "tree_nodes fs q =
     (case node_at fs q of
        None \<Rightarrow> []
      | Some DirN \<Rightarrow> deepest_first (filter (below_or_at q) (map fst fs))
      | Some _ \<Rightarrow> [q])"

definition os_RemoveAll :: "gostr \<Rightarrow> unit io" where
  "os_RemoveAll p d =
     (case next_event d of
        (e, d') \<Rightarrow>
          (case locate (d_files d') p of
             Inl err \<Rightarrow> (if e \<noteq> None then Inl ErrIO else if err = ErrNotExist then Inr () else Inl err, d')
           | Inr q \<Rightarrow>
               let victims = tree_nodes (d_files d') q
               in (case e of
                     None \<Rightarrow> (Inr (), d'\<lparr>d_files := fold drop_node victims (d_files d')\<rparr>)
                   | Some n \<Rightarrow> (Inl ErrIO, d'\<lparr>d_files := fold drop_node (take n victims) (d_files d')\<rparr>))))"

definition ensureExistingPathWithinRoot :: "gostr \<Rightarrow> gostr \<Rightarrow> unit io" where
  "ensureExistingPathWithinRoot target root =
     io_try (EvalSymlinks root) (\<lambda>r.
       case r of
         Inl ErrNotExist \<Rightarrow> io_return ()
       | Inl e \<Rightarrow> io_fail e
       | Inr resolvedRoot \<Rightarrow>
           io_try (EvalSymlinks target) (\<lambda>r.
             case r of
               Inl ErrNotExist \<Rightarrow> io_return ()
             | Inl e \<Rightarrow> io_fail e
             | Inr resolvedTarget \<Rightarrow>
                 if escapes (path_rel resolvedRoot resolvedTarget)
                 then io_fail (ErrMedia ''cleanup path resolves outside configured root'')
                 else io_return ()))"

fun allowed_root :: "gostr option \<Rightarrow> gostr \<Rightarrow> gostr list \<Rightarrow> (gostr \<times> gostr) io" where
  "allowed_root wd target [] = io_fail (ErrUnsafe ''cleanup path is outside configured roots'')"
| "allowed_root wd target (rawRoot # roots) =
     (if trim_space rawRoot = [] then allowed_root wd target roots
      else case path_abs wd (path_clean rawRoot) of
             None \<Rightarrow> allowed_root wd target roots
           | Some root \<Rightarrow>
               if escapes (path_rel root target) then allowed_root wd target roots
               else io_try (ensureExistingPathWithinRoot target root) (\<lambda>r.
                      case r of
                        Inl _ \<Rightarrow> io_fail (ErrUnsafe ''cleanup path resolves outside configured root'')
                      | Inr _ \<Rightarrow> io_return (target, root)))"

definition resolveAllowedPath :: "gostr option \<Rightarrow> gostr \<Rightarrow> gostr list \<Rightarrow> (gostr \<times> gostr) io" where
  "resolveAllowedPath wd path roots =
     (if trim_space path = [] then io_fail (ErrMedia ''cleanup path must not be blank'')
      else case path_abs wd (path_clean path) of
             None \<Rightarrow> io_fail ErrIO
           | Some target \<Rightarrow> allowed_root wd target roots)"

definition removeAllowedPath :: "gostr option \<Rightarrow> gostr \<Rightarrow> gostr list \<Rightarrow> bool \<Rightarrow> unit io" where
  "removeAllowedPath wd path roots recursive =
     io_bind (resolveAllowedPath wd path roots) (\<lambda>(target, root).
       if target = root then io_fail (ErrUnsafe ''cleanup target must not be a configured root'')
       else io_try (via os_Lstat target) (\<lambda>r.
         case r of
           Inl ErrNotExist \<Rightarrow> io_return ()
         | Inl e \<Rightarrow> io_fail e
         | Inr info \<Rightarrow>
             if info = DirN \<and> \<not> recursive then io_fail (ErrUnsafe ''staged artifact cleanup target must be a file'')
             else if recursive then os_RemoveAll target
             else via os_Remove target))"

text \<open>
  The loop of \<^verbatim>\<open>pruneEmptyParents\<close> climbs until it meets the root or a directory that cannot be
  removed. \<open>None\<close> means that the fuel was used up.
\<close>

fun prune_loop :: "nat \<Rightarrow> gostr \<Rightarrow> gostr \<Rightarrow> disk \<Rightarrow> disk option" where
  "prune_loop 0 root current d = None"
| "prune_loop (Suc k) root current d =
     (if current = root then Some d
      else case via os_Remove current d of
             (Inl _, d') \<Rightarrow> Some d'
           | (Inr _, d') \<Rightarrow> prune_loop k root (path_dir current) d')"

definition pruneEmptyParents :: "gostr option \<Rightarrow> gostr \<Rightarrow> gostr list \<Rightarrow> disk \<Rightarrow> disk option" where
  "pruneEmptyParents wd directory roots d =
     (case resolveAllowedPath wd directory roots d of
        (Inl _, d') \<Rightarrow> Some d'
      | (Inr (current, root), d') \<Rightarrow> prune_loop (Suc (length (path_elems current))) root current d')"

text \<open>
  The paths of the record are handed to the kernel as they are; it resolves a relative one from the
  working directory.
\<close>

definition kernel_path :: "gostr option \<Rightarrow> gostr \<Rightarrow> gostr option" where
  "kernel_path wd p = (if is_abs p then Some p else map_option (\<lambda>d. d @ slash # p) wd)"

fun pathsAbsent :: "gostr option \<Rightarrow> gostr list \<Rightarrow> bool io" where
  "pathsAbsent wd [] = io_return True"
| "pathsAbsent wd (p # ps) =
     (case kernel_path wd p of
        None \<Rightarrow> io_return False
      | Some q \<Rightarrow> io_try (via os_Lstat q) (\<lambda>r. if r = Inl ErrNotExist then pathsAbsent wd ps else io_return False))"

section \<open>The handler\<close>

definition cleanupPathFailure :: "string \<Rightarrow> io_error \<Rightarrow> handler_error" where
  "cleanupPathFailure kind err =
     (case err of
        ErrUnsafe _ \<Rightarrow> permanentFailure ''cleanup_path_unsafe'' (''the '' @ kind @ '' path is outside configured cleanup roots'')
      | _ \<Rightarrow> retryableFailure ''cleanup_delete_failed'' (''the '' @ kind @ '' path could not be removed''))"

text \<open>A call of the torrent client: it fails as a whole or acts on the torrents.\<close>

definition client_call :: "handler_error \<Rightarrow> (gostr list \<Rightarrow> gostr list) \<Rightarrow> unit job" where
  "client_call failure f w =
     (case next_event (w_disk w) of
        (Some n, d) \<Rightarrow> (Inl failure, w\<lparr>w_disk := d\<rparr>)
      | (None, d) \<Rightarrow> (Inr (), w\<lparr>w_disk := d, w_torrents := f (w_torrents w)\<rparr>))"

section \<open>The torrent client\<close>

text \<open>
  \<^verbatim>\<open>internal/platform/qbittorrent/client.go\<close>. A hash is forty hexadecimal digits or thirty-two of base
  32. Go upper-cases the latter before decoding it, and only an ASCII letter has an ASCII letter of
  the same length as its upper case, so the letters are read in both cases here.
\<close>

definition hex_digit :: "rune \<Rightarrow> bool" where
  "hex_digit c \<longleftrightarrow> 48 \<le> c \<and> c \<le> 57 \<or> 65 \<le> c \<and> c \<le> 70 \<or> 97 \<le> c \<and> c \<le> 102"

definition base32_digit :: "rune \<Rightarrow> nat option" where
  "base32_digit c =
     (if 65 \<le> c \<and> c \<le> 90 then Some (nat (c - 65))
      else if 97 \<le> c \<and> c \<le> 122 then Some (nat (c - 97))
      else if 50 \<le> c \<and> c \<le> 55 then Some (nat (c - 24))
      else None)"

fun base32_number :: "nat \<Rightarrow> gostr \<Rightarrow> nat option" where
  "base32_number n [] = Some n"
| "base32_number n (c # s) = (case base32_digit c of None \<Rightarrow> None | Some d \<Rightarrow> base32_number (n * 32 + d) s)"

text \<open>\<^verbatim>\<open>hex.EncodeToString\<close> of twenty bytes, given as the number they spell.\<close>

fun hex_digits :: "nat \<Rightarrow> nat \<Rightarrow> gostr" where
  "hex_digits 0 n = []"
| "hex_digits (Suc k) n = hex_digits k (n div 16) @ [(let d = int (n mod 16) in if d < 10 then 48 + d else 87 + d)]"

definition normalizeTorrentHash :: "gostr \<Rightarrow> gostr" where
  "normalizeTorrentHash v =
     (let v' = trim_space v
      in if byte_len v' = 40 \<and> list_all hex_digit v' then to_lower v'
         else if byte_len v' \<noteq> 32 then []
         else case base32_number 0 v' of None \<Rightarrow> [] | Some n \<Rightarrow> hex_digits 40 n)"

text \<open>
  The client keeps its torrents under normalised hashes. It acknowledges a request to delete one
  without looking whether it is gone; an acknowledged request removes it.
\<close>

definition DeleteTorrent :: "handler_error \<Rightarrow> gostr \<Rightarrow> unit job" where
  "DeleteTorrent failure hash =
     (let normalized = normalizeTorrentHash hash
      in if normalized = [] then job_fail failure else client_call failure (filter (\<lambda>h. h \<noteq> normalized)))"

section \<open>The body\<close>

definition job_prune :: "gostr option \<Rightarrow> gostr \<Rightarrow> gostr list \<Rightarrow> unit job" where
  "job_prune wd directory roots w =
     (case pruneEmptyParents wd directory roots (w_disk w) of
        None \<Rightarrow> (Inl (HandlerError []), w)
      | Some d \<Rightarrow> (Inr (), w\<lparr>w_disk := d\<rparr>))"

definition remove_download :: "tools \<Rightarrow> PathSettings \<Rightarrow> CleanupCommand \<Rightarrow> unit job" where
  "remove_download t settings command =
     (if trim_space (cc_TorrentHash command) = [] \<or> trim_space (cc_DownloadPath command) = [] \<or>
         trim_space (ps_DownloadRoot settings) = []
      then job_fail (permanentFailure ''cleanup_download_identity_missing''
             ''guarded download cleanup requires a torrent hash and configured download path'')
      else case t_password t of
             Inl ErrNotFound \<Rightarrow> job_fail (permanentFailure ''qbittorrent_not_configured'' ''qBittorrent credentials are not configured'')
           | Inl _ \<Rightarrow> job_fail (retryableFailure ''configuration_unavailable'' ''qBittorrent credentials are unavailable'')
           | Inr _ \<Rightarrow>
               if \<not> t_client t
               then job_fail (permanentFailure ''qbittorrent_configuration_invalid'' ''qBittorrent configuration is invalid'')
               else
                 job_seq (client_call (retryableFailure ''qbittorrent_unavailable'' ''qBittorrent login failed during cleanup'') id)
                 (job_seq (DeleteTorrent (retryableFailure ''qbittorrent_cleanup_failed''
                              ''qBittorrent could not remove the torrent without data deletion'') (cc_TorrentHash command))
                   (job_io (cleanupPathFailure ''download cache'')
                      (removeAllowedPath (t_wd t) (cc_DownloadPath command) [ps_DownloadRoot settings] True))))"

definition cleanup_run :: "tools \<Rightarrow> OperationView \<Rightarrow> CleanupCommand \<Rightarrow> unit job" where
  "cleanup_run t operation command =
     (case t_settings t of
        None \<Rightarrow> job_fail (retryableFailure ''configuration_unavailable'' ''runtime configuration is unavailable'')
      | Some settings \<Rightarrow>
          if trim_space (ps_StagingRoot settings) = []
          then job_fail (permanentFailure ''cleanup_roots_not_configured'' ''the staging cleanup root is not configured'')
          else
            let roots = [ps_StagingRoot settings, ps_WorkRoot settings];
                video = cc_StagedVideoPath command;
                subtitle = cc_StagedSubtitlePath command;
                staged = cleanupPathFailure ''staged artifact''
            in job_seq (if cc_DownloadRemovable command then remove_download t settings command else job_return ())
               (job_seq (job_io staged (removeAllowedPath (t_wd t) video roots False))
               (job_seq (job_io staged (removeAllowedPath (t_wd t) subtitle roots False))
               (job_seq (job_prune (t_wd t) (path_dir video) roots)
               (job_seq (job_prune (t_wd t) (path_dir subtitle) roots)
               (job_bind (job_io (\<lambda>_. HandlerError []) (pathsAbsent (t_wd t) [video, subtitle])) (\<lambda>stagedFilesRemoved.
                if \<not> stagedFilesRemoved
                then job_fail (retryableFailure ''cleanup_staged_files_remain'' ''staged media files remain after cleanup'')
                else if \<not> cc_DownloadRemovable command then job_fail HandlerSnooze
                else job_tx (mediaStoreFailure ''cleanup'')
                       (CompleteCleanup (t_env t)
                          \<lparr>cco_TaskID = cc_TaskID command, cco_CleanupID = cc_CleanupID command,
                           cco_OperationID = ov_ID operation, cco_TorrentRemoved = True,
                           cco_StagedFilesRemoved = stagedFilesRemoved\<rparr>))))))))"

definition CleanupRunHandler :: "tools \<Rightarrow> OperationView \<Rightarrow> unit job" where
  "CleanupRunHandler t operation =
     (if ov_ResourceType operation \<noteq> ''episode_task'' \<or> ov_ResourceID operation = uuid_nil
      then job_fail (permanentFailure ''invalid_cleanup_operation'' ''cleanup.run requires an episode task resource'')
      else
        let cleanupID = payload_id ''cleanupId'' (ov_Payload operation)
        in if cleanupID = uuid_nil
           then job_fail (permanentFailure ''invalid_cleanup_operation'' ''cleanup.run payload requires a cleanup ID'')
           else job_bind (job_tx (mediaStoreFailure ''cleanup'') (BeginCleanup (ov_ResourceID operation) cleanupID)) (\<lambda>command.
                if cc_TaskID command \<noteq> ov_ResourceID operation \<or> cc_CleanupID command \<noteq> cleanupID
                then job_fail (permanentFailure ''cleanup_resource_mismatch'' ''the operation does not match its task cleanup'')
                else if cc_CleanupState command = CleanupCompleted then job_return ()
                else cleanup_run t operation command))"

section \<open>What a cleanup may remove\<close>

definition strictly_below :: "gostr \<Rightarrow> gostr \<Rightarrow> bool" where
  "strictly_below root p \<longleftrightarrow> (\<exists>e es. path_elems p = path_elems root @ e # es)"

text \<open>The paths below a configured root, resolved as the code resolves them.\<close>

definition below_roots :: "gostr option \<Rightarrow> gostr list \<Rightarrow> gostr set" where
  "below_roots wd roots =
     {p. \<exists>raw root. raw \<in> set roots \<and> trim_space raw \<noteq> [] \<and> path_abs wd (path_clean raw) = Some root \<and> strictly_below root p}"

definition configured :: "gostr option \<Rightarrow> gostr list \<Rightarrow> gostr set" where
  "configured wd roots = {root. \<exists>raw \<in> set roots. trim_space raw \<noteq> [] \<and> path_abs wd (path_clean raw) = Some root}"

lemma below_roots_iff: "p \<in> below_roots wd roots \<longleftrightarrow> (\<exists>root \<in> configured wd roots. strictly_below root p)"
  by (auto simp: below_roots_def configured_def)

text \<open>
  \<open>within C fs p\<close>: \<open>p\<close> is at or below the place a configured root resolves to. \<open>removable C fs p\<close>: \<open>p\<close> is at
  or below the entry of a path strictly below a configured root, and data only goes when it is within
  a root. A link or a directory reached through a link may lie elsewhere.
\<close>

definition within :: "gostr set \<Rightarrow> files \<Rightarrow> gostr \<Rightarrow> bool" where
  "within C fs p \<longleftrightarrow> (\<exists>root \<in> C. \<exists>r. walk 255 fs [] (path_elems root) = Inr r \<and> below_or_at (abs_path r) p)"

definition removable :: "gostr set \<Rightarrow> files \<Rightarrow> gostr \<Rightarrow> bool" where
  "removable C fs p \<longleftrightarrow>
     (\<exists>root \<in> C. \<exists>es e q. propers (es @ [e]) \<and> strictly_below root (abs_path (es @ [e])) \<and>
        locate fs (abs_path (es @ [e])) = Inr q \<and> below_or_at q p) \<and>
     (\<forall>n. node_at fs p = Some n \<longrightarrow> data_node n \<longrightarrow> within C fs p)"

definition cleans :: "gostr set \<Rightarrow> files \<Rightarrow> files \<Rightarrow> bool" where
  "cleans C fs gs \<longleftrightarrow>
     (\<forall>p. node_at gs p = node_at fs p \<or> node_at gs p = None \<and> removable C fs p) \<and> (tree fs \<longrightarrow> tree gs)"

lemma below_or_at_refl [simp]: "below_or_at p p"
  by (simp add: below_or_at_def)

lemma below_or_at_trans: "below_or_at p q \<Longrightarrow> below_or_at q r \<Longrightarrow> below_or_at p r"
  unfolding below_or_at_def by (metis length_take min.absorb_iff2 take_take)

lemma below_abs_path: "propers (bs @ es) \<Longrightarrow> below_or_at (abs_path bs) (abs_path (bs @ es))"
  by (simp add: below_or_at_def)

lemma within_sub: "within C gs p \<Longrightarrow> sub_files gs fs \<Longrightarrow> within C fs p"
  unfolding within_def walk_iff by (blast intro: reaches_sub)

lemma within_below: "within C fs q \<Longrightarrow> below_or_at q p \<Longrightarrow> within C fs p"
  unfolding within_def by (blast intro: below_or_at_trans)

lemma removable_sub:
  "removable C gs p \<Longrightarrow> sub_files gs fs \<Longrightarrow> node_at gs p = node_at fs p \<Longrightarrow> removable C fs p"
proof -
  assume r: "removable C gs p" and sub: "sub_files gs fs" and n: "node_at gs p = node_at fs p"
  from r obtain root es e q where "root \<in> C" "propers (es @ [e])" "strictly_below root (abs_path (es @ [e]))"
      "locate gs (abs_path (es @ [e])) = Inr q" "below_or_at q p"
    unfolding removable_def by blast
  moreover from locate_sub [OF sub this(4,2)] have "locate fs (abs_path (es @ [e])) = Inr q" .
  moreover have "within C fs p" if "node_at fs p = Some m" "data_node m" for m
    using r that n within_sub [OF _ sub] by (auto simp: removable_def)
  ultimately show ?thesis unfolding removable_def by blast
qed

lemma cleans_sub: "cleans C fs gs \<Longrightarrow> sub_files gs fs"
  unfolding cleans_def sub_files_def by (metis option.distinct(1))

interpretation cleaner: io_relation "cleans C" for C
proof
  show "cleans C fs fs" for fs by (simp add: cleans_def)
  show "cleans C fs hs" if "cleans C fs gs" "cleans C gs hs" for fs gs hs
    using that removable_sub [OF _ cleans_sub [OF that(1)]] unfolding cleans_def by metis
qed

lemma removable_link_free:
  assumes "removable (configured wd roots) fs p" "link_free fs"
  shows "p \<in> below_roots wd roots"
proof -
  from assms(1) obtain root es e q where r: "root \<in> configured wd roots" "propers (es @ [e])" "strictly_below root (abs_path (es @ [e]))"
      "locate fs (abs_path (es @ [e])) = Inr q" "below_or_at q p"
    unfolding removable_def by blast
  have "q = abs_path (es @ [e])" by (rule locate_link_free [OF assms(2) r(4,2)])
  with r(2,5) have "path_elems p = (es @ [e]) @ drop (length (es @ [e])) (path_elems p)"
    unfolding below_or_at_def by (metis append_take_drop_id path_elems_abs_path)
  moreover obtain x xs where "es @ [e] = path_elems root @ x # xs" using r(2,3) by (auto simp: strictly_below_def)
  ultimately have "strictly_below root p" by (auto simp: strictly_below_def)
  with r(1) show ?thesis by (auto simp: below_roots_iff)
qed

section \<open>One removal\<close>

lemma node_at_drop_all: "node_at (fold drop_node ps fs) q = (if q \<in> set ps then None else node_at fs q)"
  by (induction ps arbitrary: fs) auto

text \<open>A set of paths that contains the children of its members can go without breaking the tree.\<close>

lemma cleans_drop:
  assumes "\<And>p. p \<in> set ps \<Longrightarrow> removable C fs p"
    and "\<And>es e. tree fs \<Longrightarrow> es \<noteq> [] \<Longrightarrow> propers (es @ [e]) \<Longrightarrow> abs_path es \<in> set ps \<Longrightarrow>
      node_at fs (abs_path (es @ [e])) \<noteq> None \<Longrightarrow> node_at fs (abs_path es) = Some DirN \<Longrightarrow> abs_path (es @ [e]) \<in> set ps"
  shows "cleans C fs (fold drop_node ps fs)"
  unfolding cleans_def
proof (intro conjI allI impI)
  fix p
  show "node_at (fold drop_node ps fs) p = node_at fs p \<or> node_at (fold drop_node ps fs) p = None \<and> removable C fs p"
    using assms(1) by (auto simp: node_at_drop_all)
next
  assume t: "tree fs"
  show "tree (fold drop_node ps fs)"
    unfolding tree_def
  proof (intro allI impI)
    fix es e
    assume h: "es \<noteq> []" "propers (es @ [e])" "node_at (fold drop_node ps fs) (abs_path (es @ [e])) \<noteq> None"
    then have c: "node_at fs (abs_path (es @ [e])) \<noteq> None" "abs_path (es @ [e]) \<notin> set ps" by (simp_all add: node_at_drop_all split: if_splits)
    with tree_parent [OF t] h(1,2) have "node_at fs (abs_path es) = Some DirN" by blast
    with assms(2) [OF t h(1,2) _ c(1)] c(2) show "node_at (fold drop_node ps fs) (abs_path es) = Some DirN"
      by (auto simp: node_at_drop_all)
  qed
qed

lemma deepest_first_take:
  assumes "y \<in> set (take n (deepest_first ps))" "x \<in> set ps" "length (path_elems y) < length (path_elems x)"
  shows "x \<in> set (take n (deepest_first ps))"
proof (rule ccontr)
  let ?d = "\<lambda>p. length (path_elems p)" and ?l = "deepest_first ps"
  assume "x \<notin> set (take n ?l)"
  moreover have "x \<in> set (take n ?l @ drop n ?l)" using assms(2) by (simp add: deepest_first_def)
  ultimately have "x \<in> set (drop n ?l)" by (auto simp only: set_append)
  moreover have "sorted (map ?d (rev ?l))" by (simp add: deepest_first_def)
  then have "sorted (map ?d (rev (take n ?l @ drop n ?l)))" by (simp only: append_take_drop_id)
  then have "\<forall>a \<in> set (drop n ?l). \<forall>b \<in> set (take n ?l). ?d a \<le> ?d b"
    unfolding rev_append map_append sorted_append by auto
  ultimately show False using assms(1,3) by fastforce
qed

lemma cleans_tree_nodes:
  assumes "\<And>p. p \<in> set (tree_nodes fs q) \<Longrightarrow> removable C fs p"
  shows "cleans C fs (fold drop_node (take n (tree_nodes fs q)) fs)"
proof (rule cleans_drop)
  show "p \<in> set (take n (tree_nodes fs q)) \<Longrightarrow> removable C fs p" for p using assms in_set_takeD by fast
next
  fix es e
  assume h: "es \<noteq> []" "propers (es @ [e])" "abs_path es \<in> set (take n (tree_nodes fs q))"
    "node_at fs (abs_path (es @ [e])) \<noteq> None" "node_at fs (abs_path es) = Some DirN"
  have m: "abs_path es \<in> set (tree_nodes fs q)" using h(3) in_set_takeD by fast
  have q: "node_at fs q = Some DirN" using m h(5) by (cases "node_at fs q"; cases "the (node_at fs q)") (auto simp: tree_nodes_def)
  let ?k = "filter (below_or_at q) (map fst fs)"
  have v: "tree_nodes fs q = deepest_first ?k" using q by (simp add: tree_nodes_def)
  have "abs_path (es @ [e]) \<in> fst ` set fs" using h(4) by (simp add: node_at_def map_of_eq_None_iff)
  moreover have "below_or_at q (abs_path (es @ [e]))"
    using m v below_or_at_trans [OF _ below_abs_path [of es "[e]"]] h(2) by (auto simp: deepest_first_def)
  ultimately have "abs_path (es @ [e]) \<in> set ?k" by auto
  with deepest_first_take [of "abs_path es" n ?k] h(2,3) v show "abs_path (es @ [e]) \<in> set (take n (tree_nodes fs q))" by simp
qed

lemma cleans_Remove:
  assumes "removable C fs q" "node_at fs q = Some DirN \<Longrightarrow> \<not> has_children fs q"
  shows "cleans C fs (drop_node q fs)"
proof -
  have "cleans C fs (fold drop_node [q] fs)"
  proof (rule cleans_drop)
    fix es e
    assume h: "propers (es @ [e])" "abs_path es \<in> set [q]" "node_at fs (abs_path (es @ [e])) \<noteq> None" "node_at fs (abs_path es) = Some DirN"
    have "path_dir (abs_path (es @ [e])) = q" using path_dir_abs_path [of es e] h(1,2) by (simp add: proper_elem_def)
    moreover have "abs_path (es @ [e]) \<noteq> q" using h(1,2) abs_path_inj [of "es @ [e]" es] by auto
    moreover obtain n where "(abs_path (es @ [e]), n) \<in> set fs"
      using h(3) map_of_SomeD [of fs "abs_path (es @ [e])"] unfolding node_at_def by blast
    ultimately have "has_children fs q" by (fastforce simp: has_children_def list_ex_iff)
    with assms(2) h(2,4) show "abs_path (es @ [e]) \<in> set [q]" by simp
  qed (use assms(1) in simp)
  then show ?thesis by simp
qed

section \<open>The guard\<close>

lemma EvalSymlinks_run:
  assumes "EvalSymlinks p d = (r, d')"
  shows "d_files d' = d_files d"
    "case r of Inr q \<Rightarrow> \<exists>es. walk 255 (d_files d) [] (path_elems p) = Inr es \<and> q = abs_path es
     | Inl e \<Rightarrow> e = ErrNotExist \<longrightarrow> walk 255 (d_files d) [] (path_elems p) = Inl ErrNotExist"
  using assms unfolding EvalSymlinks_def syscall_def
  by (auto simp: map_sum_def split: prod.splits option.splits sum.splits dest!: next_event_pair)

text \<open>What is not a link and passed the guard is within a root.\<close>

definition guarded :: "gostr set \<Rightarrow> files \<Rightarrow> gostr \<Rightarrow> bool" where
  "guarded C fs t \<longleftrightarrow> (\<forall>q n. locate fs t = Inr q \<longrightarrow> node_at fs q = Some n \<longrightarrow> (\<forall>l. n \<noteq> LinkN l) \<longrightarrow> within C fs q)"

lemma guarded_mono: "guarded {root} fs t \<Longrightarrow> root \<in> C \<Longrightarrow> guarded C fs t"
  unfolding guarded_def within_def by blast

lemma ensure_run:
  assumes "ensureExistingPathWithinRoot (abs_path (rs @ es)) (abs_path rs) d = (r, d')" "propers (rs @ es)"
  shows "d_files d' = d_files d" "r = Inr () \<Longrightarrow> es \<noteq> [] \<Longrightarrow> guarded {abs_path rs} (d_files d) (abs_path (rs @ es))"
proof -
  let ?fs = "d_files d" and ?t = "abs_path (rs @ es)" and ?root = "abs_path rs"
  obtain r1 d1 where e1: "EvalSymlinks ?root d = (r1, d1)" by fastforce
  obtain r2 d2 where e2: "EvalSymlinks ?t d1 = (r2, d2)" by fastforce
  note ev = EvalSymlinks_run [OF e1] EvalSymlinks_run [OF e2]
  show "d_files d' = ?fs"
    using assms(1) e1 e2 ev(1,3) unfolding ensureExistingPathWithinRoot_def
    by (auto simp: io_try_def io_return_def io_fail_def split: sum.splits io_error.splits if_splits)
  assume ok: "r = Inr ()" and "es \<noteq> []"
  then obtain xs e where es: "es = xs @ [e]" by (cases es rule: rev_cases) auto
  show "guarded {?root} ?fs ?t"
    unfolding guarded_def
  proof (intro allI impI)
    fix q n
    assume l: "locate ?fs ?t = Inr q" and n: "node_at ?fs q = Some n" "\<forall>l. n \<noteq> LinkN l"
    have p: "propers ((rs @ xs) @ [e])" using assms(2) es by simp
    have l': "locate ?fs (abs_path ((rs @ xs) @ [e])) = Inr q" using l es by simp
    obtain t where t: "reaches ?fs 255 [] (rs @ es) t" "q = abs_path t" "propers t"
      using located_resolves [OF l' p n] es by auto
    from locate_properE [OF l' p] obtain b where "reaches ?fs 40 [] (rs @ xs @ [[dot]]) b" by auto
    from reaches_prefix [OF this] obtain b where "reaches ?fs 40 [] rs b" by blast
    then have b: "reaches ?fs 255 [] rs b" by (rule reaches_more) simp
    from reaches_propers [OF this] assms(2) have pb: "propers b" by (auto simp: proper_elem_def)
    have "r1 = Inr (abs_path b)" "r2 = Inr (abs_path t)"
      using ev assms(2) reaches_walk [OF b] reaches_walk [OF t(1)] assms(1) ok e1 e2
      by (auto simp: ensureExistingPathWithinRoot_def io_try_def io_fail_def split: sum.splits io_error.splits)
    then have "\<not> escapes (path_rel (abs_path b) (abs_path t))"
      using assms(1) ok e1 e2 by (auto simp: ensureExistingPathWithinRoot_def io_try_def io_fail_def split: if_splits)
    with path_rel_escapes_iff [OF pb t(3)] obtain s where "t = b @ s" by blast
    then have "below_or_at (abs_path b) q" using t(2,3) below_abs_path by simp
    then show "within {?root} ?fs q" using reaches_walk [OF b] assms(2) by (auto simp: within_def)
  qed
qed

text \<open>A resolved pair: the root is configured, the target is at or below it and passed the guard.\<close>

definition resolved :: "gostr option \<Rightarrow> gostr list \<Rightarrow> files \<Rightarrow> gostr \<times> gostr \<Rightarrow> bool" where
  "resolved wd roots fs r \<longleftrightarrow>
     (\<exists>rs es. snd r \<in> configured wd roots \<and> snd r = abs_path rs \<and> fst r = abs_path (rs @ es) \<and> propers (rs @ es) \<and>
        (es \<noteq> [] \<longrightarrow> guarded {snd r} fs (fst r)))"

lemma holds_allowed_root:
  assumes wd: "\<forall>w. wd = Some w \<longrightarrow> is_abs w" and t: "target = abs_path ts" "propers ts"
  shows "io_holds P (allowed_root wd target roots) (\<lambda>r fs. P fs \<and> resolved wd roots fs r) P"
proof (induction roots)
  case Nil
  show ?case by (simp add: holds_fail)
next
  case (Cons raw roots)
  have skip: "io_holds P (allowed_root wd target roots) (\<lambda>r fs. P fs \<and> resolved wd (raw # roots) fs r) P"
    by (rule holds_conseq [OF Cons]) (auto simp: resolved_def configured_def)
  show ?case
  proof (cases "trim_space raw = [] \<or> path_abs wd (path_clean raw) = None \<or>
      escapes (path_rel (the (path_abs wd (path_clean raw))) target)")
    case True
    then show ?thesis using skip by (cases "path_abs wd (path_clean raw)") auto
  next
    case False
    then obtain root where root: "path_abs wd (path_clean raw) = Some root" "\<not> escapes (path_rel root target)" by auto
    obtain rs where rs: "root = abs_path rs" "propers rs" using path_abs_abs_path [OF root(1) wd] .
    from path_rel_escapes_iff [OF rs(2) t(2)] root(2) rs(1) t(1) obtain es where es: "ts = rs @ es" by auto
    have c: "root \<in> configured wd (raw # roots)" using False root(1) by (auto simp: configured_def)
    show ?thesis
      unfolding io_holds_def
    proof (intro allI impI)
      fix d :: disk
      assume P: "P (d_files d)"
      obtain r d1 where e: "ensureExistingPathWithinRoot target root d = (r, d1)" by fastforce
      note g = ensure_run [OF e [unfolded t(1) es rs(1)]]
      have "d_files d1 = d_files d" using g(1) t(2) es by blast
      moreover have "resolved wd (raw # roots) (d_files d) (target, root)" if "r = Inr ()"
        unfolding resolved_def using c t es rs(1) g(2) [OF _ that] by auto
      moreover have "allowed_root wd target (raw # roots) d = (case r of
          Inl _ \<Rightarrow> (Inl (ErrUnsafe ''cleanup path resolves outside configured root''), d1) | Inr _ \<Rightarrow> (Inr (target, root), d1))"
        using False root e by (auto simp: io_try_def io_fail_def io_return_def split: sum.split)
      ultimately show "(\<forall>x d'. allowed_root wd target (raw # roots) d = (Inr x, d') \<longrightarrow>
            P (d_files d') \<and> resolved wd (raw # roots) (d_files d') x) \<and>
          (\<forall>e d'. allowed_root wd target (raw # roots) d = (Inl e, d') \<longrightarrow> P (d_files d'))"
        using P by (auto split: sum.splits)
    qed
  qed
qed

lemma holds_resolve:
  assumes wd: "\<forall>w. wd = Some w \<longrightarrow> is_abs w"
  shows "io_holds P (resolveAllowedPath wd path roots) (\<lambda>r fs. P fs \<and> resolved wd roots fs r) P"
proof (cases "path_abs wd (path_clean path)")
  case None
  then show ?thesis by (auto simp: resolveAllowedPath_def intro!: holds_fail)
next
  case (Some target)
  obtain ts where "target = abs_path ts" "propers ts" using path_abs_abs_path [OF Some wd] .
  from holds_allowed_root [OF wd this] show ?thesis
    using Some by (auto simp: resolveAllowedPath_def intro!: holds_fail)
qed

section \<open>Guarded removals\<close>

text \<open>The entry of a path below a root, with data only within a root, may be removed.\<close>

definition entry_ok :: "gostr set \<Rightarrow> files \<Rightarrow> gostr \<Rightarrow> bool" where
  "entry_ok C fs t \<longleftrightarrow> (\<forall>q n. locate fs t = Inr q \<longrightarrow> node_at fs q = Some n \<longrightarrow> data_node n \<longrightarrow> within C fs q)"

lemma guarded_entry: "guarded C fs t \<Longrightarrow> entry_ok C fs t"
  by (auto simp: guarded_def entry_ok_def data_node_def)

lemma strictly_below_abs: "es \<noteq> [] \<Longrightarrow> propers (rs @ es) \<Longrightarrow> strictly_below (abs_path rs) (abs_path (rs @ es))"
  by (cases es) (auto simp: strictly_below_def)

lemma removable_entry:
  assumes "abs_path rs \<in> C" "es \<noteq> []" "propers (rs @ es)" "locate fs (abs_path (rs @ es)) = Inr q" "below_or_at q p"
    and "\<And>n. node_at fs p = Some n \<Longrightarrow> data_node n \<Longrightarrow> within C fs p"
  shows "removable C fs p"
proof -
  obtain xs e where "es = xs @ [e]" using assms(2) by (cases es rule: rev_cases) auto
  then show ?thesis
    using assms strictly_below_abs [OF assms(2,3)] unfolding removable_def
    by (intro conjI bexI [OF _ assms(1)] exI [of _ "rs @ xs"] exI [of _ e] exI [of _ q]) auto
qed

lemma via_Remove_run:
  assumes run: "via os_Remove (abs_path (rs @ es)) d = (r, d')"
    and ok: "abs_path rs \<in> C" "es \<noteq> []" "propers (rs @ es)" "entry_ok C (d_files d) (abs_path (rs @ es))"
  shows "cleans C (d_files d) (d_files d')" "r = Inr () \<Longrightarrow> \<exists>q. locate (d_files d) (abs_path (rs @ es)) = Inr q"
proof -
  let ?fs = "d_files d" and ?t = "abs_path (rs @ es)"
  show "r = Inr () \<Longrightarrow> \<exists>q. locate ?fs ?t = Inr q"
    using run by (auto simp: via_def syscall_def split: sum.splits prod.splits option.splits)
  show "cleans C ?fs (d_files d')"
  proof (cases "locate ?fs ?t")
    case (Inl e)
    then have "d_files d' = ?fs" using run by (auto simp: via_def syscall_def split: prod.splits option.splits dest!: next_event_pair)
    then show ?thesis by (simp add: cleaner.R_refl)
  next
    case (Inr q)
    have "removable C ?fs q"
      using removable_entry [OF ok(1-3) Inr below_or_at_refl] ok(4) Inr by (auto simp: entry_ok_def)
    moreover have "d_files d' = ?fs \<or> d_files d' = drop_node q ?fs \<and> (node_at ?fs q = Some DirN \<longrightarrow> \<not> has_children ?fs q)"
      using run Inr unfolding via_def os_Remove_def syscall_def
      by (auto split: prod.splits option.splits sum.splits node.splits if_splits dest!: next_event_pair)
    ultimately show ?thesis using cleans_Remove cleaner.R_refl by metis
  qed
qed

lemma RemoveAll_run:
  assumes run: "os_RemoveAll (abs_path (rs @ es)) d = (r, d')"
    and ok: "abs_path rs \<in> C" "es \<noteq> []" "propers (rs @ es)" "guarded C (d_files d) (abs_path (rs @ es))"
  shows "cleans C (d_files d) (d_files d')"
proof (cases "locate (d_files d) (abs_path (rs @ es))")
  case (Inl e)
  then have "d_files d' = d_files d"
    using run by (auto simp: os_RemoveAll_def split: prod.splits sum.splits option.splits dest!: next_event_pair)
  then show ?thesis by (simp add: cleaner.R_refl)
next
  case (Inr q)
  let ?fs = "d_files d"
  have "removable C ?fs p" if p: "p \<in> set (tree_nodes ?fs q)" for p
  proof (rule removable_entry [OF ok(1-3) Inr])
    from p obtain m where m: "node_at ?fs q = Some m" by (cases "node_at ?fs q") (auto simp: tree_nodes_def)
    show b: "below_or_at q p" using p m by (cases m) (auto simp: tree_nodes_def deepest_first_def)
    show "within C ?fs p" if n: "node_at ?fs p = Some n" "data_node n" for n
    proof (cases "\<exists>l. m = LinkN l")
      case True
      then have "p = q" using p m by (auto simp: tree_nodes_def)
      with True m n show ?thesis by (auto simp: data_node_def)
    next
      case False
      then show ?thesis using ok(4) Inr m within_below [OF _ b] by (auto simp: guarded_def)
    qed
  qed
  from cleans_tree_nodes [OF this] have c: "cleans C ?fs (fold drop_node (take n (tree_nodes ?fs q)) ?fs)" for n .
  have "d_files d' = fold drop_node (tree_nodes ?fs q) ?fs \<or> (\<exists>n. d_files d' = fold drop_node (take n (tree_nodes ?fs q)) ?fs)"
  proof -
    obtain ev d1 where ev: "next_event d = (ev, d1)" by fastforce
    have "d_files d1 = ?fs" by (rule next_event_pair [OF ev])
    then show ?thesis using run Inr ev by (cases ev) (auto simp: os_RemoveAll_def Let_def)
  qed
  with c c [of "length (tree_nodes ?fs q)"] show ?thesis by auto
qed

lemma reads_via_Lstat: "io_keeps (=) (via os_Lstat p)"
  unfolding io_keeps_def via_def
  using reads_Lstat reads.keeps_syscall [of "\<lambda>_. Inl e" for e] unfolding io_keeps_def by (auto split: sum.split)

lemma holds_run_iff:
  "io_holds P m Q E \<longleftrightarrow> (\<forall>d r d'. P (d_files d) \<longrightarrow> m d = (r, d') \<longrightarrow> (case r of Inl _ \<Rightarrow> E (d_files d') | Inr x \<Rightarrow> Q x (d_files d')))"
  unfolding io_holds_def by (auto split: sum.split)

lemma holds_removeAllowedPath:
  assumes wd: "\<forall>w. wd = Some w \<longrightarrow> is_abs w" and C: "configured wd roots \<subseteq> C"
  shows "io_holds (cleans C fs) (removeAllowedPath wd path roots recursive) (\<lambda>_. cleans C fs) (cleans C fs)"
  unfolding removeAllowedPath_def
proof (rule holds_bind [OF holds_resolve [OF wd]])
  fix r :: "gostr \<times> gostr"
  obtain target root where r: "r = (target, root)" by (cases r)
  let ?G = "\<lambda>gs. cleans C fs gs \<and> resolved wd roots gs r"
  have rm: "io_holds ?G (if recursive then os_RemoveAll target else via os_Remove target) (\<lambda>_. cleans C fs) (cleans C fs)" if "target \<noteq> root"
    unfolding holds_run_iff
  proof (intro allI impI)
    fix d x d'
    assume g: "?G (d_files d)" and run: "(if recursive then os_RemoveAll target else via os_Remove target) d = (x, d')"
    then obtain rs es where e: "root \<in> configured wd roots" "root = abs_path rs" "target = abs_path (rs @ es)" "propers (rs @ es)"
        "es \<noteq> [] \<longrightarrow> guarded {root} (d_files d) target"
      unfolding resolved_def r fst_conv snd_conv by blast
    have ne: "es \<noteq> []" using that e(2,3) by auto
    have gu: "guarded C (d_files d) target" using e(1,5) ne C by (auto intro: guarded_mono)
    have "cleans C (d_files d) (d_files d')"
      using run RemoveAll_run [of rs es d x d' C] via_Remove_run(1) [of rs es d x d' C] e ne C gu guarded_entry [OF gu]
      by (auto split: if_splits)
    then show "case x of Inl _ \<Rightarrow> cleans C fs (d_files d') | Inr _ \<Rightarrow> cleans C fs (d_files d')"
      using g cleaner.R_trans by (auto split: sum.split)
  qed
  have l: "io_holds ?G (via os_Lstat target) (\<lambda>_. ?G) ?G" by (rule holds_reads [OF reads_via_Lstat])
  have f: "io_holds ?G (io_fail e) (\<lambda>_. cleans C fs) (cleans C fs)" for e :: io_error by (rule holds_fail) simp
  have k: "io_holds ?G (case x of Inl ErrNotExist \<Rightarrow> io_return () | Inl e \<Rightarrow> io_fail e
      | Inr info \<Rightarrow>
          if info = DirN \<and> \<not> recursive then io_fail (ErrUnsafe ''staged artifact cleanup target must be a file'')
          else if recursive then os_RemoveAll target else via os_Remove target) (\<lambda>_. cleans C fs) (cleans C fs)"
    if "target \<noteq> root" for x :: "(io_error, node) result"
    using rm [OF that] f by (cases x) (auto intro!: holds_return split: io_error.split if_splits)
  show "io_holds ?G (case r of (target, root) \<Rightarrow>
       if target = root then io_fail (ErrUnsafe ''cleanup target must not be a configured root'')
       else io_try (via os_Lstat target) (\<lambda>r.
         case r of
           Inl ErrNotExist \<Rightarrow> io_return ()
         | Inl e \<Rightarrow> io_fail e
         | Inr info \<Rightarrow>
             if info = DirN \<and> \<not> recursive then io_fail (ErrUnsafe ''staged artifact cleanup target must be a file'')
             else if recursive then os_RemoveAll target
             else via os_Remove target)) (\<lambda>_. cleans C fs) (cleans C fs)"
  proof (cases "target = root")
    case False
    show ?thesis unfolding r prod.case if_not_P [OF False] by (rule holds_try [OF l [unfolded r]]) (rule k [OF False, unfolded r])+
  qed (use f in \<open>simp add: r\<close>)
qed

section \<open>Empty parents\<close>

lemma prune_loop_cleans:
  assumes "propers (rs @ es)" "abs_path rs \<in> C" "length (rs @ es) < k" "es \<noteq> [] \<Longrightarrow> entry_ok C (d_files d) (abs_path (rs @ es))"
  shows "\<exists>d'. prune_loop k (abs_path rs) (abs_path (rs @ es)) d = Some d' \<and> cleans C (d_files d) (d_files d')"
  using assms(1,3,4)
proof (induction es arbitrary: k d rule: rev_induct)
  case Nil
  then show ?case by (cases k) (auto simp: cleaner.R_refl)
next
  case (snoc e es)
  obtain k' where k: "k = Suc k'" using snoc.prems(2) by (cases k) auto
  have ne: "abs_path (rs @ es @ [e]) \<noteq> abs_path rs" using snoc.prems(1) by (subst abs_path_inj) auto
  have dir: "path_dir (abs_path (rs @ es @ [e])) = abs_path (rs @ es)"
    using path_dir_abs_path [of "rs @ es" e] snoc.prems(1) by (simp add: proper_elem_def)
  obtain r d1 where rm: "via os_Remove (abs_path (rs @ es @ [e])) d = (r, d1)" by fastforce
  note c = via_Remove_run [OF rm assms(2) _ snoc.prems(1) snoc.prems(3)]
  show ?case
  proof (cases r)
    case (Inl e')
    then show ?thesis using rm c(1) ne k by auto
  next
    case (Inr u)
    have ok: "entry_ok C (d_files d1) (abs_path (rs @ es))" if es: "es \<noteq> []"
      unfolding entry_ok_def
    proof (intro allI impI)
      fix q n
      assume h: "locate (d_files d1) (abs_path (rs @ es)) = Inr q" "node_at (d_files d1) q = Some n" "data_node n"
      obtain xs x where x: "es = xs @ [x]" using es by (cases es rule: rev_cases) auto
      note sub = cleans_sub [OF c(1)]
      have "locate (d_files d) (abs_path ((rs @ xs) @ [x])) = Inr q"
        by (rule locate_sub [of "d_files d1"]) (use sub h(1) x snoc.prems(1) in auto)
      moreover obtain q' where "locate (d_files d) (abs_path (rs @ es @ [e])) = Inr q'" using c(2) Inr by auto
      moreover have "node_at (d_files d) q = Some n" using sub h(2) by (auto simp: sub_files_def)
      ultimately have "\<not> data_node n"
        using located_parent_no_data [of "d_files d" "rs @ xs" x e q' q n] snoc.prems(1) x by auto
      with h(3) show "within C (d_files d1) q" by blast
    qed
    then obtain d' where "prune_loop k' (abs_path rs) (abs_path (rs @ es)) d1 = Some d'" "cleans C (d_files d1) (d_files d')"
      using snoc.IH [of k' d1] snoc.prems k by auto
    then show ?thesis using rm Inr c(1) ne k dir cleaner.R_trans by auto
  qed
qed

lemma pruneEmptyParents_cleans:
  assumes wd: "\<forall>w. wd = Some w \<longrightarrow> is_abs w" and C: "configured wd roots \<subseteq> C"
  shows "\<exists>d'. pruneEmptyParents wd directory roots d = Some d' \<and> cleans C (d_files d) (d_files d')"
proof -
  obtain r d1 where res: "resolveAllowedPath wd directory roots d = (r, d1)" by fastforce
  have h: "case r of Inl _ \<Rightarrow> d_files d1 = d_files d | Inr x \<Rightarrow> d_files d1 = d_files d \<and> resolved wd roots (d_files d1) x"
    using holds_run [OF holds_resolve [OF wd, of "\<lambda>fs. fs = d_files d"] res] by simp
  show ?thesis
  proof (cases r)
    case (Inl e)
    then show ?thesis using res h by (simp add: pruneEmptyParents_def cleaner.R_refl)
  next
    case (Inr x)
    obtain current root where x: "x = (current, root)" by (cases x)
    obtain rs es where f: "root \<in> configured wd roots" "root = abs_path rs" "current = abs_path (rs @ es)" "propers (rs @ es)"
        "es \<noteq> [] \<longrightarrow> guarded {root} (d_files d1) current"
      using h Inr x by (auto simp: resolved_def)
    have "entry_ok C (d_files d1) current" if "es \<noteq> []"
      using guarded_entry [OF guarded_mono [of root "d_files d1" current C]] f(1,5) C that by blast
    then obtain d' where "prune_loop (Suc (length (path_elems current))) root current d1 = Some d'"
        "cleans C (d_files d1) (d_files d')"
      using prune_loop_cleans [OF f(4), of C "Suc (length (path_elems current))" d1] f C by auto
    then show ?thesis using res Inr x h by (simp add: pruneEmptyParents_def)
  qed
qed

lemma job_holds_client:
  assumes "\<And>fs s u. P fs s u \<Longrightarrow> E fs s u" "\<And>fs s u. P fs s u \<Longrightarrow> Q fs s (f u)"
  shows "job_holds (\<lambda>w. P (w_files w) (w_db w) (w_torrents w)) (client_call failure f)
    (\<lambda>_ w. Q (w_files w) (w_db w) (w_torrents w)) (\<lambda>w. E (w_files w) (w_db w) (w_torrents w))"
  using assms unfolding job_holds_def client_call_def
  by (auto split: prod.splits option.splits dest!: next_event_pair)

section \<open>What the handler keeps\<close>

definition cleaning :: "gostr set \<Rightarrow> files \<Rightarrow> (gostr list \<Rightarrow> bool) \<Rightarrow> world \<Rightarrow> bool" where
  "cleaning C fs K w \<longleftrightarrow> cleans C fs (w_files w) \<and> K (w_torrents w)"

lemma cleaning_weaken: "cleaning C fs K w \<Longrightarrow> cleaning C fs (\<lambda>_. True) w"
  by (simp add: cleaning_def)

lemma cleaning_io:
  assumes "io_holds (cleans C fs) m (\<lambda>x gs. cleans C fs gs \<and> Q x gs) (cleans C fs)"
  shows "job_holds (cleaning C fs K) (job_io failure m) (\<lambda>x w. cleaning C fs K w \<and> Q x (w_files w)) (cleaning C fs (\<lambda>_. True))"
proof -
  have "io_holds (\<lambda>gs. cleans C fs gs \<and> K u) m (\<lambda>x gs. (cleans C fs gs \<and> K u) \<and> Q x gs) (cleans C fs)" for u
  proof (cases "K u")
    case True
    then show ?thesis by (intro holds_conseq [OF assms]) auto
  qed (simp add: io_holds_def)
  from job_holds_io [of "\<lambda>gs s u. cleans C fs gs \<and> K u" m "\<lambda>x gs s u. (cleans C fs gs \<and> K u) \<and> Q x gs"
      "\<lambda>gs s u. cleans C fs gs" failure, OF this]
  show ?thesis unfolding cleaning_def by simp
qed

lemma cleaning_tx:
  "job_holds (\<lambda>w. cleaning C fs K w \<and> G (w_files w)) (job_tx failure m)
     (\<lambda>_ w. cleaning C fs K w \<and> G (w_files w)) (cleaning C fs (\<lambda>_. True))"
  using job_holds_tx [of "\<lambda>gs s u. (cleans C fs gs \<and> K u) \<and> G gs" "\<lambda>gs s u. cleans C fs gs" m
      "\<lambda>x gs s u. (cleans C fs gs \<and> K u) \<and> G gs" failure]
  unfolding cleaning_def by simp

lemma cleaning_prune:
  assumes "\<forall>w. wd = Some w \<longrightarrow> is_abs w" "configured wd roots \<subseteq> C"
  shows "job_holds (cleaning C fs K) (job_prune wd directory roots) (\<lambda>_. cleaning C fs K) E"
  unfolding job_holds_def cleaning_def job_prune_def
proof (intro allI impI conjI)
  fix w :: world and e w'
  show "(case pruneEmptyParents wd directory roots (w_disk w) of None \<Rightarrow> (Inl (HandlerError []), w)
      | Some d \<Rightarrow> (Inr (), w\<lparr>w_disk := d\<rparr>)) = (Inl e, w') \<Longrightarrow> E w'"
    using pruneEmptyParents_cleans [OF assms, of directory "w_disk w"] by auto
next
  fix w :: world and x w'
  assume w: "cleans C fs (w_files w) \<and> K (w_torrents w)"
    and p: "(case pruneEmptyParents wd directory roots (w_disk w) of None \<Rightarrow> (Inl (HandlerError []), w)
      | Some d \<Rightarrow> (Inr (), w\<lparr>w_disk := d\<rparr>)) = (Inr x, w')"
  obtain d where d: "pruneEmptyParents wd directory roots (w_disk w) = Some d" "cleans C (w_files w) (d_files d)"
    using pruneEmptyParents_cleans [OF assms] by blast
  have "w' = w\<lparr>w_disk := d\<rparr>" using p d(1) by simp
  then show "cleans C fs (w_files w')" "K (w_torrents w')"
    using w d(2) cleaner.R_trans by auto
qed

definition torrent_gone :: "CleanupCommand \<Rightarrow> gostr list \<Rightarrow> bool" where
  "torrent_gone command torrents \<longleftrightarrow>
     normalizeTorrentHash (cc_TorrentHash command) \<noteq> [] \<and> normalizeTorrentHash (cc_TorrentHash command) \<notin> set torrents"

lemma cleaning_remove_download:
  assumes wd: "\<forall>w. t_wd t = Some w \<longrightarrow> is_abs w" and C: "configured (t_wd t) [ps_DownloadRoot settings] \<subseteq> C"
  shows "job_holds (cleaning C fs (\<lambda>_. True)) (remove_download t settings command)
    (\<lambda>_. cleaning C fs (\<lambda>u. torrent_gone command u)) (cleaning C fs (\<lambda>_. True))"
proof -
  have c: "job_holds (cleaning C fs (\<lambda>_. True)) (client_call f g) (\<lambda>_. cleaning C fs K) (cleaning C fs (\<lambda>_. True))"
    if "\<And>u. K (g u)" for f g K
    using job_holds_client [of "\<lambda>gs s u. cleans C fs gs" "\<lambda>gs s u. cleans C fs gs" "\<lambda>gs s u. cleans C fs gs \<and> K u" g f] that
    unfolding cleaning_def by simp
  have r: "job_holds (cleaning C fs K) (job_io f (removeAllowedPath (t_wd t) p [ps_DownloadRoot settings] True))
      (\<lambda>_. cleaning C fs K) (cleaning C fs (\<lambda>_. True))" for f p K
    using cleaning_io [of C fs "removeAllowedPath (t_wd t) p [ps_DownloadRoot settings] True" "\<lambda>_ _. True" K f]
      holds_removeAllowedPath [OF wd C] by simp
  have d: "job_holds (cleaning C fs (\<lambda>_. True)) (DeleteTorrent f (cc_TorrentHash command))
      (\<lambda>_. cleaning C fs (\<lambda>u. torrent_gone command u)) (cleaning C fs (\<lambda>_. True))" for f
    unfolding DeleteTorrent_def Let_def by (auto intro!: job_holds_fail c simp: torrent_gone_def)
  show ?thesis
    unfolding remove_download_def
    by (auto intro!: job_holds_fail job_holds_seq [OF c [of "\<lambda>_. True"] job_holds_seq [OF d r]] split: sum.split svc_error.split)
qed

lemma Lstat_absent: "via os_Lstat p d = (Inl ErrNotExist, d') \<Longrightarrow> lstat (d_files d) p = Inl ErrNotExist"
  unfolding via_def os_Lstat_def syscall_def lstat_def
  by (auto split: prod.splits option.splits sum.splits dest!: next_event_pair)

lemma holds_try_Lstat:
  assumes absent: "io_holds (\<lambda>fs. P fs \<and> lstat fs p = Inl ErrNotExist) (f (Inl ErrNotExist)) Q E"
    and other: "\<And>r. r \<noteq> Inl ErrNotExist \<Longrightarrow> io_holds P (f r) Q E"
  shows "io_holds P (io_try (via os_Lstat p) f) Q E"
  unfolding io_holds_def
proof (intro allI impI)
  fix d :: disk
  assume d: "P (d_files d)"
  obtain r d1 where l: "via os_Lstat p d = (r, d1)" by fastforce
  have "d_files d1 = d_files d" using reads_via_Lstat [of p] l unfolding io_keeps_def by (metis snd_conv)
  then have "r = Inl ErrNotExist \<Longrightarrow> P (d_files d1) \<and> lstat (d_files d1) p = Inl ErrNotExist" "P (d_files d1)"
    using l d Lstat_absent [of p d d1] by simp_all
  then show "(\<forall>x d'. io_try (via os_Lstat p) f d = (Inr x, d') \<longrightarrow> Q x (d_files d')) \<and>
      (\<forall>e d'. io_try (via os_Lstat p) f d = (Inl e, d') \<longrightarrow> E (d_files d'))"
    using absent other [of r] l unfolding io_try_def io_holds_def by (cases "r = Inl ErrNotExist") simp_all
qed

text \<open>What the kernel says of a path of the record.\<close>

definition path_gone :: "gostr option \<Rightarrow> files \<Rightarrow> gostr \<Rightarrow> bool" where
  "path_gone wd fs p \<longleftrightarrow> (\<exists>q. kernel_path wd p = Some q \<and> lstat fs q = Inl ErrNotExist)"

lemma holds_pathsAbsent:
  "io_holds P (pathsAbsent wd ps) (\<lambda>b fs. P fs \<and> (b \<longrightarrow> (\<forall>p \<in> set ps. path_gone wd fs p))) P"
proof (induction ps arbitrary: P)
  case Nil
  show ?case by (simp add: holds_return)
next
  case (Cons p ps)
  show ?case
  proof (cases "kernel_path wd p")
    case None
    then show ?thesis by (simp add: holds_return)
  next
    case (Some q)
    then have g: "path_gone wd fs p" if "lstat fs q = Inl ErrNotExist" for fs using that by (simp add: path_gone_def)
    show ?thesis
      unfolding pathsAbsent.simps Some option.case
      by (rule holds_try_Lstat)
        (auto intro!: holds_return holds_conseq [OF Cons [of "\<lambda>fs. P fs \<and> lstat fs q = Inl ErrNotExist"]] g)
  qed
qed

lemma cleaning_run:
  assumes wd: "\<forall>w. t_wd t = Some w \<longrightarrow> is_abs w" and s: "t_settings t = Some settings"
    and C: "configured (t_wd t) [ps_DownloadRoot settings, ps_StagingRoot settings, ps_WorkRoot settings] = C"
  shows "job_holds (cleaning C fs (\<lambda>_. True)) (cleanup_run t operation command)
    (\<lambda>_ w. cleaning C fs (\<lambda>u. torrent_gone command u) w \<and>
       path_gone (t_wd t) (w_files w) (cc_StagedVideoPath command) \<and> path_gone (t_wd t) (w_files w) (cc_StagedSubtitlePath command))
    (cleaning C fs (\<lambda>_. True))"
proof -
  let ?roots = "[ps_StagingRoot settings, ps_WorkRoot settings]"
  let ?K = "\<lambda>u. cc_DownloadRemovable command \<longrightarrow> torrent_gone command u"
  let ?C = "cleaning C fs ?K" and ?E = "cleaning C fs (\<lambda>_. True)"
  let ?gone = "\<lambda>w. path_gone (t_wd t) (w_files w) (cc_StagedVideoPath command) \<and> path_gone (t_wd t) (w_files w) (cc_StagedSubtitlePath command)"
  have sub: "configured (t_wd t) ?roots \<subseteq> C" "configured (t_wd t) [ps_DownloadRoot settings] \<subseteq> C"
    using C by (auto simp: configured_def)
  have d: "job_holds ?E (if cc_DownloadRemovable command then remove_download t settings command else job_return ()) (\<lambda>_. ?C) ?E"
    using cleaning_remove_download [OF wd sub(2), of fs command] by (auto intro!: job_holds_return simp: cleaning_def)
  have r: "job_holds ?C (job_io f (removeAllowedPath (t_wd t) p ?roots False)) (\<lambda>_. ?C) ?E" for f p
    using cleaning_io [of C fs "removeAllowedPath (t_wd t) p ?roots False" "\<lambda>_ _. True" ?K f]
      holds_removeAllowedPath [OF wd sub(1)] by simp
  note pr = cleaning_prune [OF wd sub(1), of fs ?K _ ?E]
  have a: "job_holds ?C (job_io f (pathsAbsent (t_wd t) [cc_StagedVideoPath command, cc_StagedSubtitlePath command]))
      (\<lambda>b w. ?C w \<and> (b \<longrightarrow> ?gone w)) ?E" for f
    using cleaning_io [OF holds_pathsAbsent [of "cleans C fs" "t_wd t" "[cc_StagedVideoPath command, cc_StagedSubtitlePath command]"], of ?K f]
    by simp
  have tx: "job_holds (\<lambda>w. ?C w \<and> ?gone w) (job_tx f m) (\<lambda>_ w. ?C w \<and> ?gone w) ?E" for f and m :: "unit tx"
    by (rule cleaning_tx)
  have fin: "job_holds (\<lambda>w. ?C w \<and> (b \<longrightarrow> ?gone w))
      (if \<not> b then job_fail e1 else if \<not> cc_DownloadRemovable command then job_fail e2 else job_tx f (m b))
      (\<lambda>_ w. cleaning C fs (\<lambda>u. torrent_gone command u) w \<and> ?gone w) ?E" for b e1 e2 f and m :: "bool \<Rightarrow> unit tx"
  proof (cases "b \<and> cc_DownloadRemovable command")
    case True
    then show ?thesis using tx [of f "m b"] by simp
  next
    case False
    then have "(if \<not> b then job_fail e1 else if \<not> cc_DownloadRemovable command then job_fail e2 else job_tx f (m b)) =
        job_fail (if b then e2 else e1)" by auto
    then show ?thesis by (simp only:) (rule job_holds_fail, blast intro: cleaning_weaken)
  qed
  show ?thesis
    unfolding cleanup_run_def s option.case Let_def
    by (split if_split, intro conjI impI job_holds_fail, assumption,
        rule job_holds_seq [OF d job_holds_seq [OF r job_holds_seq [OF r job_holds_seq [OF pr job_holds_seq [OF pr
          job_holds_bind [OF a]]]]]])
      (rule fin)
qed

end
