(* ===== verification/ImportSafety.thy ===== *)
theory ImportSafety
  imports LibraryImport
begin

text \<open>
  What an import may do to the library: a relation on the files that every step of the import keeps,
  the conditions its phases establish for one another, and the safety of the whole import under every
  choice of failures and cancellations.
\<close>

section \<open>What an import may change\<close>

text \<open>
  \<open>import_step sha xs D\<close>: apart from the temporary names nothing that existed changes; a new entry is a
  directory of \<open>D\<close>, or a file at the final name of a destination with the content of its artifact.
\<close>

definition import_step ::
  "(bytes \<Rightarrow> bytes) \<Rightarrow> importDestination list \<Rightarrow> gostr set \<Rightarrow> files \<Rightarrow> files \<Rightarrow> bool" where
  "import_step sha xs D fs gs \<longleftrightarrow>
     (\<forall>p. p \<notin> id_temporary ` set xs \<longrightarrow>
        node_at gs p = node_at fs p \<or>
        node_at fs p = None \<and>
          (p \<in> D \<and> node_at gs p = Some DirN \<or> (\<exists>x \<in> set xs. p = id_final x \<and> artifact_at sha (id_artifact x) p gs)))"

lemma artifact_at_cong: "node_at fs p = node_at gs p \<Longrightarrow> artifact_at sha a p fs = artifact_at sha a p gs"
  by (simp add: artifact_at_def)

lemma import_step_trans:
  assumes "import_step sha xs D fs gs" "import_step sha xs D gs hs"
  shows "import_step sha xs D fs hs"
  unfolding import_step_def
proof (intro allI impI)
  fix p
  assume "p \<notin> id_temporary ` set xs"
  then have a: "node_at gs p = node_at fs p \<or> node_at fs p = None \<and>
      (p \<in> D \<and> node_at gs p = Some DirN \<or> (\<exists>x \<in> set xs. p = id_final x \<and> artifact_at sha (id_artifact x) p gs))"
    and b: "node_at hs p = node_at gs p \<or> node_at gs p = None \<and>
      (p \<in> D \<and> node_at hs p = Some DirN \<or> (\<exists>x \<in> set xs. p = id_final x \<and> artifact_at sha (id_artifact x) p hs))"
    using assms unfolding import_step_def by blast+
  from b show "node_at hs p = node_at fs p \<or> node_at fs p = None \<and>
      (p \<in> D \<and> node_at hs p = Some DirN \<or> (\<exists>x \<in> set xs. p = id_final x \<and> artifact_at sha (id_artifact x) p hs))"
  proof
    assume e: "node_at hs p = node_at gs p"
    with a show ?thesis using artifact_at_cong [OF e] by metis
  next
    assume "node_at gs p = None \<and>
      (p \<in> D \<and> node_at hs p = Some DirN \<or> (\<exists>x \<in> set xs. p = id_final x \<and> artifact_at sha (id_artifact x) p hs))"
    moreover from this have "node_at fs p = None" using a by (auto simp: artifact_at_def)
    ultimately show ?thesis by blast
  qed
qed

interpretation importing: io_relation "import_step sha xs D" for sha xs D
  by (unfold_locales, simp add: import_step_def) (rule import_step_trans)

lemma import_step_temporary: "only_at (id_temporary ` set xs) fs gs \<Longrightarrow> import_step sha xs D fs gs"
  by (auto simp: only_at_def import_step_def)

lemma importing_keeps: "io_keeps (only_at A) m \<Longrightarrow> A \<subseteq> id_temporary ` set xs \<Longrightarrow> io_keeps (import_step sha xs D) m"
  unfolding io_keeps_def using import_step_temporary by (metis only_at_mono io_keeps_def only_at_def subsetD)

section \<open>Preparing and committing\<close>

lemma holds_copy_to_temporary:
  assumes "x \<in> set xs"
  shows "io_holds (import_step sha xs D fs) (copy_to_temporary sha x)
    (\<lambda>b gs. import_step sha xs D fs gs \<and> (b \<longrightarrow> artifact_at sha (id_artifact x) (id_temporary x) gs))
    (import_step sha xs D fs)"
proof -
  let ?I = "import_step sha xs D fs"
  let ?K = "\<lambda>gs. ?I gs \<and> artifact_at sha (id_artifact x) (id_temporary x) gs"
  have t: "{id_temporary x} \<subseteq> id_temporary ` set xs" using assms by simp
  have r: "io_holds ?I (remove_if_exists (id_temporary x)) (\<lambda>_. ?I) ?I"
    "io_holds ?I (copyFile s (id_temporary x)) (\<lambda>_. ?I) ?I" for s
    by (intro importing.holds_keeps importing_keeps [OF _ t] only_remove_if_exists only_copyFile; simp)+
  have a: "io_holds ?K (access_Apply (id_temporary x)) (\<lambda>_. ?K) ?I"
    by (rule holds_conseq [OF holds_reads [OF reads_Apply, of ?K]]) auto
  have "io_holds ?I (io_seq (remove_if_exists (id_temporary x)) (io_seq (copyFile s (id_temporary x))
      (io_seq (verifyFileAgainstArtifact sha (id_temporary x) (id_artifact x))
      (io_seq (access_Apply (id_temporary x)) (io_return True)))))
      (\<lambda>b gs. ?I gs \<and> (b \<longrightarrow> artifact_at sha (id_artifact x) (id_temporary x) gs)) ?I" for s
    by (rule holds_seq [OF r(1) holds_seq [OF r(2) holds_seq [OF holds_verify holds_seq [OF a holds_return]]]]) simp
  then show ?thesis
    unfolding copy_to_temporary_def Let_def
    by (intro holds_bind [OF holds_reads [OF reads_Lstat]]) (auto intro!: holds_fail)
qed

lemma holds_prepare:
  assumes "x \<in> set xs"
  shows "io_holds (import_step sha xs D fs) (prepareImportDestination sha x)
    (\<lambda>b gs. import_step sha xs D fs gs \<and> (b \<longrightarrow> artifact_at sha (id_artifact x) (id_temporary x) gs))
    (import_step sha xs D fs)"
proof -
  let ?I = "import_step sha xs D fs"
  have f: "io_holds ?I (io_seq context_cause (io_fail e)) Q ?I" for e and Q :: "bool \<Rightarrow> files \<Rightarrow> bool"
    by (rule holds_seq [OF holds_cause holds_fail])
  have a: "io_holds ?I (io_seq (access_Apply p) (io_return False))
      (\<lambda>b gs. ?I gs \<and> (b \<longrightarrow> artifact_at sha (id_artifact x) (id_temporary x) gs)) ?I" for p
    by (rule holds_seq [OF holds_reads [OF reads_Apply] holds_return]) simp
  show ?thesis
    unfolding prepareImportDestination_def
    by (rule holds_try [OF holds_reads [OF reads_Lstat]], simp,
        rule holds_try [OF holds_reads [OF reads_verify]])
      (use holds_copy_to_temporary [OF assms] in \<open>auto intro!: a f holds_fail split: io_error.split\<close>)
qed

lemma holds_commit_file:
  assumes "x \<in> set xs" "id_final x \<notin> id_temporary ` set xs"
  shows "io_holds (\<lambda>gs. import_step sha xs D fs gs \<and> artifact_at sha (id_artifact x) (id_temporary x) gs)
    (commitTemporaryFile b (id_temporary x) (id_final x)) (\<lambda>_. import_step sha xs D fs) (import_step sha xs D fs)"
proof -
  let ?I = "import_step sha xs D fs"
  have n: "io_holds (\<lambda>gs. ?I gs \<and> artifact_at sha (id_artifact x) (id_temporary x) gs)
      (syscall (no_replace k (id_temporary x) (id_final x))) (\<lambda>_. ?I) ?I" for k
  proof (rule holds_syscall)
    fix gs u hs
    assume g: "?I gs \<and> artifact_at sha (id_artifact x) (id_temporary x) gs"
      and h: "no_replace k (id_temporary x) (id_final x) gs = Inr (u, hs)"
    obtain n where n: "node_at gs (id_temporary x) = Some n" using g by (auto simp: artifact_at_def split: option.splits)
    with h have f: "node_at gs (id_final x) = None"
      "hs = put_node (id_final x) n (if k then gs else drop_node (id_temporary x) gs)"
      by (auto simp: no_replace_def split: node.splits if_splits)
    have "artifact_at sha (id_artifact x) (id_final x) hs"
      using g n f(2) by (simp add: artifact_at_def)
    then have "import_step sha xs D gs hs" using f assms(1) unfolding import_step_def by auto
    then show "?I hs" using g import_step_trans by blast
  qed simp
  have r: "io_holds ?I (os_Remove (id_temporary x)) (\<lambda>_. ?I) ?I"
    using assms(1) by (intro importing.holds_keeps importing_keeps [OF only_Remove [of _ "{id_temporary x}"]]) auto
  show ?thesis
    using n holds_seq [OF n r]
    by (simp add: commitTemporaryFile_def renameMediaFile_def linkMediaFile_def unix_RenameNoReplace_def os_Link_def)
qed

lemma holds_commit:
  assumes "x \<in> set xs" "id_final x \<notin> id_temporary ` set xs"
  shows "io_holds (\<lambda>gs. import_step sha xs D fs gs \<and> (b \<longrightarrow> artifact_at sha (id_artifact x) (id_temporary x) gs))
    (commit_destination sha s (x, b)) (\<lambda>_. import_step sha xs D fs) (import_step sha xs D fs)"
proof -
  let ?I = "import_step sha xs D fs"
  let ?K = "\<lambda>gs. ?I gs \<and> (b \<longrightarrow> artifact_at sha (id_artifact x) (id_temporary x) gs)"
  have c: "io_holds ?K context_cause (\<lambda>_. ?K) ?I"
    by (rule holds_conseq [OF holds_cause [of ?K]]) auto
  have v: "io_holds ?I (io_try (verifyFileAgainstArtifact sha (id_final x) (id_artifact x)) (\<lambda>v.
      case v of Inr _ \<Rightarrow> access_Apply (id_final x) | Inl _ \<Rightarrow> io_seq context_cause
        (if e = ErrExist then io_fail (ErrConflict (id_final x)) else io_fail e))) (\<lambda>_. ?I) ?I" for e
    by (rule holds_try [OF holds_reads [OF reads_verify]])
      (auto intro!: holds_seq [OF holds_cause] holds_fail holds_reads [OF reads_Apply])
  have t: "io_holds ?K (io_try (commitTemporaryFile s (id_temporary x) (id_final x)) (\<lambda>r.
      case r of Inr _ \<Rightarrow> io_return () | Inl e \<Rightarrow>
        io_try (verifyFileAgainstArtifact sha (id_final x) (id_artifact x)) (\<lambda>v.
          case v of Inr _ \<Rightarrow> access_Apply (id_final x) | Inl _ \<Rightarrow> io_seq context_cause
            (if e = ErrExist then io_fail (ErrConflict (id_final x)) else io_fail e)))) (\<lambda>_. ?I) ?I" if b
    unfolding simp_thms eqTrueI [OF that]
    by (rule holds_try [OF holds_commit_file [OF assms]]; unfold sum.case) (rule holds_return v; assumption?)+
  show ?thesis
    unfolding commit_destination_def prod.case
    by (rule holds_seq [OF c], cases "\<not> b") (simp add: holds_return, simp only: if_False, rule t, simp)
qed

lemma only_commit: "io_keeps (only_at {id_temporary x, id_final x}) (commit_destination sha s (x, b))"
proof -
  let ?P = "{id_temporary x, id_final x}"
  have n: "io_keeps (only_at ?P) (syscall (no_replace k (id_temporary x) (id_final x)))" for k
    by (rule only.keeps_syscall) (auto simp: no_replace_def only_at_def split: option.splits node.splits if_splits)
  have "io_keeps (only_at ?P) (commitTemporaryFile s (id_temporary x) (id_final x))"
    unfolding commitTemporaryFile_def renameMediaFile_def linkMediaFile_def unix_RenameNoReplace_def os_Link_def
    by (auto intro!: n only.keeps only_Remove)
  then show ?thesis
    unfolding commit_destination_def
    by (auto intro!: only.keeps only_at_reads [OF reads_verify] only_at_reads [OF reads_Apply] split: sum.split)
qed

lemma only_prepare_all: "io_keeps (only_at (id_temporary ` set ys)) (prepare_all sha ys)"
proof (induction ys)
  case (Cons y ys)
  have "io_keeps (only_at (id_temporary ` set (y # ys))) (prepareImportDestination sha y)"
    by (rule only_at_mono [OF only_prepare]) auto
  moreover have "io_keeps (only_at (id_temporary ` set (y # ys))) (prepare_all sha ys)"
    by (rule only_at_mono [OF Cons]) auto
  ultimately show ?case by (auto intro!: only.keeps)
qed (simp add: only.keeps_return)

definition all_prepared :: "(bytes \<Rightarrow> bytes) \<Rightarrow> (importDestination \<times> bool) list \<Rightarrow> files \<Rightarrow> bool" where
  "all_prepared sha ps fs \<longleftrightarrow> (\<forall>(x, b) \<in> set ps. b \<longrightarrow> artifact_at sha (id_artifact x) (id_temporary x) fs)"

lemma holds_prepare_all:
  assumes "set ys \<subseteq> set xs" "distinct (map id_temporary ys)"
  shows "io_holds (import_step sha xs D fs) (prepare_all sha ys)
    (\<lambda>ps gs. import_step sha xs D fs gs \<and> map fst ps = ys \<and> all_prepared sha ps gs) (import_step sha xs D fs)"
  using assms
proof (induction ys)
  case (Cons y ys)
  let ?I = "import_step sha xs D fs"
  let ?Y = "\<lambda>b gs. b \<longrightarrow> artifact_at sha (id_artifact y) (id_temporary y) gs"
  have rest: "io_holds (\<lambda>gs. ?I gs \<and> ?Y b gs) (prepare_all sha ys)
      (\<lambda>ps gs. (?I gs \<and> map fst ps = ys \<and> all_prepared sha ps gs) \<and> ?Y b gs) ?I" for b
    using Cons.prems by (intro holds_frame [OF Cons.IH only_prepare_all])
      (auto elim: artifact_at_only)
  have "io_holds (\<lambda>gs. ?I gs \<and> ?Y b gs) (io_bind (prepare_all sha ys) (\<lambda>rest. io_return ((y, b) # rest)))
      (\<lambda>ps gs. ?I gs \<and> map fst ps = y # ys \<and> all_prepared sha ps gs) ?I" for b
    by (rule holds_bind [OF rest holds_return]) (auto simp: all_prepared_def)
  with holds_prepare [of y xs sha D fs] Cons.prems show ?case
    by (auto intro!: holds_seq [OF holds_cause] holds_bind [where Q = "\<lambda>b gs. ?I gs \<and> ?Y b gs"])
qed (simp add: holds_return all_prepared_def)

lemma holds_commit_all:
  assumes "fst ` set ps \<subseteq> set xs" "distinct (map (id_temporary \<circ> fst) ps)"
    "id_final ` set xs \<inter> id_temporary ` set xs = {}"
  shows "io_holds (\<lambda>gs. import_step sha xs D fs gs \<and> all_prepared sha ps gs) (io_each (commit_destination sha s) ps)
    (\<lambda>_. import_step sha xs D fs) (import_step sha xs D fs)"
  using assms(1,2)
proof (induction ps)
  case (Cons p ps)
  obtain x b where p: "p = (x, b)" by (cases p)
  let ?I = "import_step sha xs D fs"
  have x: "x \<in> set xs" "id_final x \<notin> id_temporary ` set xs" using Cons.prems(1) assms(3) p by auto
  have other: "id_temporary y \<notin> {id_temporary x, id_final x}" if "(y, c) \<in> set ps" for y c
    using that Cons.prems x p by force
  have "io_holds (\<lambda>gs. (?I gs \<and> (b \<longrightarrow> artifact_at sha (id_artifact x) (id_temporary x) gs)) \<and> all_prepared sha ps gs)
      (commit_destination sha s (x, b)) (\<lambda>_ gs. ?I gs \<and> all_prepared sha ps gs) ?I"
    by (rule holds_frame [OF holds_commit [OF x] only_commit])
      (use other in \<open>fastforce simp: all_prepared_def elim: artifact_at_only\<close>)
  moreover have "io_holds (\<lambda>gs. ?I gs \<and> all_prepared sha ps gs) (io_each (commit_destination sha s) ps) (\<lambda>_. ?I) ?I"
    using Cons by simp
  ultimately show ?case
    unfolding p io_each.simps by (intro holds_seq) (auto simp: all_prepared_def elim!: holds_conseq)
qed (auto intro: holds_return)

lemma holds_confirm:
  "io_holds P (confirm_destination sha x) (\<lambda>_ fs. P fs \<and> artifact_at sha (id_artifact x) (id_final x) fs) P"
proof -
  let ?A = "\<lambda>fs. P fs \<and> artifact_at sha (id_artifact x) (id_final x) fs"
  have "io_holds ?A (access_Apply p) (\<lambda>_. ?A) P" for p
    by (rule holds_conseq [OF holds_reads [OF reads_Apply, of ?A]]) auto
  then show ?thesis
    unfolding confirm_destination_def
    by (intro holds_try [OF holds_verify]) (auto intro!: holds_seq [OF holds_cause] holds_fail)
qed

lemma holds_confirm_all:
  "io_holds P (io_each (confirm_destination sha) xs)
     (\<lambda>_ fs. P fs \<and> (\<forall>x \<in> set xs. artifact_at sha (id_artifact x) (id_final x) fs)) P"
proof (induction xs arbitrary: P)
  case (Cons x xs)
  let ?A = "\<lambda>fs. P fs \<and> artifact_at sha (id_artifact x) (id_final x) fs"
  have "io_holds ?A (io_each (confirm_destination sha) xs)
      (\<lambda>_ fs. P fs \<and> (\<forall>y \<in> set (x # xs). artifact_at sha (id_artifact y) (id_final y) fs)) P"
    by (rule holds_conseq [OF Cons [of ?A]]) auto
  then show ?case unfolding io_each.simps by (rule holds_seq [OF holds_confirm])
qed (simp add: holds_return)

section \<open>Directories\<close>

lemma importing_Mkdir: "p \<in> D \<Longrightarrow> io_keeps (import_step sha xs D) (os_Mkdir p)"
  unfolding os_Mkdir_def by (rule importing.keeps_syscall) (auto simp: import_step_def split: if_splits)

lemma importing_reads: "io_keeps (=) m \<Longrightarrow> io_keeps (import_step sha xs D) m"
  by (simp add: io_keeps_def importing.R_refl)

lemma importing_library_dirs:
  assumes "propers es" "propers cs" "\<forall>n. abs_path (es @ take (Suc n) cs) \<in> D"
  shows "io_keeps (import_step sha xs D) (library_dirs (abs_path es) tree cs)"
  using assms
proof (induction cs arbitrary: es tree)
  case (Cons c cs)
  have c: "proper_elem c" "c \<noteq> []" "c \<noteq> [dot]" "slash \<notin> set c" "c \<noteq> [dot, dot]"
    using Cons.prems by (auto simp: proper_elem_def)
  have "split_on slash c = [c]" using c split_on_join [of "[c]" slash] by simp
  then have j: "path_join [abs_path es, c] = abs_path (es @ [c])"
    using path_join_abs_path [OF Cons.prems(1), of c] c by simp
  have "abs_path (es @ [c]) \<in> D" using Cons.prems(3) [rule_format, of 0] by simp
  note mk = importing_Mkdir [OF this]
  have "io_keeps (import_step sha xs D) (library_dirs (abs_path (es @ [c])) tr cs)" for tr
    using Cons.prems by (intro Cons.IH) (auto intro: Cons.prems(3) [rule_format, of "Suc _", simplified])
  then show ?case
    using c by (auto simp: Let_def j intro!: importing.keeps importing_reads [OF reads_Apply]
      importing_reads [OF reads_Lstat] mk split: sum.split io_error.split node.split)
qed (simp add: importing.keeps_return)

section \<open>The import of a pair\<close>

lemma importing_prepareDirectories:
  assumes root: "path_abs wd (path_clean root) = Some (abs_path rs)" "propers rs"
    and es: "propers es" "set (path_prefixes (abs_path es)) \<subseteq> D"
  shows "io_keeps (import_step sha xs D) (prepareImportedLibraryDirectories wd root (abs_path es))"
proof -
  let ?rel = "path_rel (abs_path rs) (abs_path es)"
  have dirs: "io_keeps (import_step sha xs D) (library_dirs (abs_path rs) [] (split_on slash ?rel))"
    if ok: "?rel \<noteq> [dot]" "\<not> escapes ?rel"
  proof -
    obtain ts where ts: "es = rs @ ts" using path_rel_escapes_iff [OF root(2) es(1)] ok(2) by blast
    have "ts \<noteq> []" using ok(1) ts by (auto simp: path_rel_def)
    then have "?rel = join ts [slash]" using ts es(1)
      by (simp add: path_rel_def abs_path_inj strip_common_prefix)
    then have s: "split_on slash ?rel = ts"
      using \<open>ts \<noteq> []\<close> es(1) ts by (simp add: split_on_join proper_elem_def)
    have "abs_path (rs @ take (Suc n) ts) \<in> D" for n
    proof -
      let ?k = "length rs + min (Suc n) (length ts)"
      have "take ?k es = rs @ take (Suc n) ts" by (simp add: ts min_def)
      moreover have "abs_path (take ?k es) \<in> set (path_prefixes (abs_path es))"
        using es(1) by (intro path_prefixes_take) (auto simp: ts)
      ultimately show ?thesis using es(2) by auto
    qed
    then show ?thesis unfolding s using es(1) ts by (intro importing_library_dirs) auto
  qed
  have "path_abs wd (abs_path es) = Some (abs_path es)" using es(1) by (simp add: path_abs_def)
  then show ?thesis
    unfolding prepareImportedLibraryDirectories_def
    using dirs by (auto simp: root(1) es(1) Let_def intro!: importing.keeps importing_reads [OF reads_Lstat])
qed

definition import_pair ::
  "(uuid \<Rightarrow> gostr) \<Rightarrow> MediaArtifact \<Rightarrow> MediaArtifact \<Rightarrow> gostr \<Rightarrow> gostr \<Rightarrow> uuid \<Rightarrow> importDestination list" where
  "import_pair uuid_str video subtitle dv ds i =
     [\<lparr>id_artifact = video, id_final = dv, id_temporary = importTemporaryPath uuid_str dv i\<rparr>,
      \<lparr>id_artifact = subtitle, id_final = ds, id_temporary = importTemporaryPath uuid_str ds i\<rparr>]"

lemma holds_import_pair:
  fixes sha :: "bytes \<Rightarrow> bytes" and fs :: files
  assumes root: "path_abs wd (path_clean root) = Some (abs_path rs)" "propers rs"
    and abs: "propers es" "path_dir dv = abs_path es"
    and names: "distinct (map id_temporary xs)" "id_final ` set xs \<inter> id_temporary ` set xs = {}"
    and xs: "xs = import_pair uuid_str video subtitle dv ds i"
  defines "I \<equiv> import_step sha xs (set (path_prefixes (abs_path es))) fs"
  shows "io_holds I (importArtifactPair sha b uuid_str wd video subtitle root dv ds i)
    (\<lambda>_ gs. I gs \<and> (\<forall>x \<in> set xs. artifact_at sha (id_artifact x) (id_final x) gs)) I"
proof -
  let ?A = "\<lambda>gs. I gs \<and> (\<forall>x \<in> set xs. artifact_at sha (id_artifact x) (id_final x) gs)"
  let ?T = "id_temporary ` set xs"
  have confirm: "io_holds I (io_seq context_cause (io_seq (io_each (confirm_destination sha) xs) (access_ApplyTree tr)))
      (\<lambda>_. ?A) I" for tr
    by (rule holds_seq [OF holds_cause holds_seq [OF holds_confirm_all]])
      (rule holds_conseq [OF holds_reads [OF reads_tree, of ?A]]; simp)
  have commit: "io_holds (\<lambda>gs. I gs \<and> map fst ps = xs \<and> all_prepared sha ps gs)
      (io_seq (io_each (commit_destination sha b) ps)
        (io_seq context_cause (io_seq (io_each (confirm_destination sha) xs) (access_ApplyTree tr)))) (\<lambda>_. ?A) I" for ps tr
  proof (cases "map fst ps = xs")
    case True
    then have "fst ` set ps \<subseteq> set xs" "distinct (map (id_temporary \<circ> fst) ps)"
      using names(1) by (metis list.set_map subset_refl, metis map_map)
    from holds_seq [OF holds_commit_all [OF this names(2)] confirm [unfolded I_def]] show ?thesis
      unfolding I_def using True by simp
  qed (simp add: io_holds_def)
  have body: "io_holds I (io_bind (prepare_all sha xs) (\<lambda>prepared.
      io_seq (io_each (commit_destination sha b) prepared)
        (io_seq context_cause (io_seq (io_each (confirm_destination sha) xs) (access_ApplyTree tr))))) (\<lambda>_. ?A) I" for tr
    using holds_bind [OF holds_prepare_all [OF subset_refl names(1)] commit [unfolded I_def]] unfolding I_def .
  have cleanup: "io_keeps (only_at ?T) (io_each (\<lambda>x. io_try (os_Remove (id_temporary x)) (\<lambda>_. io_return ())) xs)"
    by (auto intro!: only.keeps only_Remove)
  have I: "I gs \<Longrightarrow> I hs" if "only_at ?T gs hs" for gs hs
    using import_step_trans [OF _ import_step_temporary [OF that]] by (auto simp: I_def)
  have A: "?A gs \<Longrightarrow> ?A hs" if "only_at ?T gs hs" for gs hs
    using I [OF that] artifact_at_only [OF that] names(2) by fastforce
  have P: "io_holds I (prepareImportedLibraryDirectories wd root (abs_path es)) (\<lambda>_. I) I"
    unfolding I_def by (rule importing.holds_keeps [OF importing_prepareDirectories [OF root abs(1) subset_refl]])
  have all: "io_holds I (io_bind (prepareImportedLibraryDirectories wd root (path_dir dv)) (\<lambda>tr.
      io_defer (io_each (\<lambda>x. io_try (os_Remove (id_temporary x)) (\<lambda>_. io_return ())) xs)
        (io_bind (prepare_all sha xs) (\<lambda>prepared.
          io_seq (io_each (commit_destination sha b) prepared)
            (io_seq context_cause (io_seq (io_each (confirm_destination sha) xs) (access_ApplyTree tr))))))) (\<lambda>_. ?A) I"
    unfolding abs(2)
    by (rule holds_bind [OF P], rule holds_defer [OF body cleanup]) (use A I in blast)+
  show ?thesis
    unfolding importArtifactPair_def import_pair_def [symmetric] xs [symmetric] Let_def
    by (rule holds_seq [OF holds_cause]) (use all in \<open>auto intro!: holds_fail\<close>)
qed

lemma pair_names_distinct:
  assumes "propers es" "slash \<notin> set (b @ v @ s @ u)" "dot \<notin> set v" "dot \<notin> set s" "v \<noteq> s" "v \<noteq> []" "s \<noteq> []"
  shows "distinct (map (\<lambda>n. abs_path (es @ [n]))
    [b @ dot # v, b @ dot # s, (dot # b @ dot # u) @ dot # v, (dot # b @ dot # u) @ dot # s])"
proof -
  have ne: "(dot # b @ dot # u) @ dot # e \<noteq> b @ dot # f" if "e = v \<or> e = s" "f = v \<or> f = s" for e f
  proof
    assume eq: "(dot # b @ dot # u) @ dot # e = b @ dot # f"
    have "path_ext ((dot # b @ dot # u) @ dot # e) = dot # e" "path_ext (b @ dot # f) = dot # f"
      using that assms by (intro path_ext_append; auto)+
    with eq have "e = f" by simp
    with arg_cong [OF eq, of length] show False by simp
  qed
  have four: "w \<noteq> x \<Longrightarrow> y \<noteq> w \<Longrightarrow> z \<noteq> w \<Longrightarrow> y \<noteq> x \<Longrightarrow> z \<noteq> x \<Longrightarrow> y \<noteq> z \<Longrightarrow> distinct [w, x, y, z]" for w x y z :: gostr
    by auto
  have "distinct [b @ dot # v, b @ dot # s, (dot # b @ dot # u) @ dot # v, (dot # b @ dot # u) @ dot # s]"
    using assms(5) by (intro four ne) simp_all
  moreover have "proper_elem (b @ dot # v)" "proper_elem (b @ dot # s)"
    "proper_elem ((dot # b @ dot # u) @ dot # v)" "proper_elem ((dot # b @ dot # u) @ dot # s)"
    using assms by (intro proper_name; simp)+
  then have "\<forall>n \<in> set [b @ dot # v, b @ dot # s, (dot # b @ dot # u) @ dot # v, (dot # b @ dot # u) @ dot # s]. proper_elem n"
    by simp
  ultimately show ?thesis by (rule distinct_snoc_paths [OF assms(1)])
qed

lemma import_pair_safe:
  fixes sha256 :: "bytes \<Rightarrow> bytes" and video subtitle :: MediaArtifact
  assumes root: "path_abs wd (path_clean libraryRoot) = Some (abs_path rs)" "propers rs"
    and n: "propers es" "slash \<notin> set b" "slash \<notin> set v" "dot \<notin> set v" "slash \<notin> set s" "dot \<notin> set s"
    "v \<noteq> s" "v \<noteq> []" "s \<noteq> []" "slash \<notin> set (uuid_str operationID)"
    and dest: "destinationVideo = abs_path (es @ [b @ dot # v])" "destinationSubtitle = abs_path (es @ [b @ dot # s])"
  defines "xs \<equiv> import_pair uuid_str video subtitle destinationVideo destinationSubtitle operationID"
  shows "io_holds (import_step sha256 xs (set (path_prefixes (abs_path es))) fs)
    (importArtifactPair sha256 rename_supported uuid_str wd video subtitle libraryRoot destinationVideo destinationSubtitle operationID)
    (\<lambda>_ gs. import_step sha256 xs (set (path_prefixes (abs_path es))) fs gs \<and>
       artifact_at sha256 video destinationVideo gs \<and> artifact_at sha256 subtitle destinationSubtitle gs)
    (import_step sha256 xs (set (path_prefixes (abs_path es))) fs)"
proof -
  let ?u = "uuid_str operationID @ lit ''.import.part''"
  have t: "importTemporaryPath uuid_str destinationVideo operationID = abs_path (es @ [(dot # b @ dot # ?u) @ dot # v])"
    "importTemporaryPath uuid_str destinationSubtitle operationID = abs_path (es @ [(dot # b @ dot # ?u) @ dot # s])"
    using n dest importTemporaryPath_pair by simp_all
  have "distinct (map (\<lambda>n. abs_path (es @ [n]))
      [b @ dot # v, b @ dot # s, (dot # b @ dot # ?u) @ dot # v, (dot # b @ dot # ?u) @ dot # s])"
    using n by (intro pair_names_distinct) auto
  then have "distinct [destinationVideo, destinationSubtitle, importTemporaryPath uuid_str destinationVideo operationID,
      importTemporaryPath uuid_str destinationSubtitle operationID]"
    by (simp only: t list.map) (simp only: dest)
  then have d: "distinct (map id_temporary xs)" "id_final ` set xs \<inter> id_temporary ` set xs = {}"
    unfolding xs_def import_pair_def by auto
  have "path_dir destinationVideo = abs_path es"
    using path_dir_abs_path [OF n(1), of "b @ dot # v"] n dest by simp
  from holds_import_pair [OF root n(1) this d xs_def [THEN meta_eq_to_obj_eq], of sha256 fs rename_supported] show ?thesis
    by (rule holds_conseq) (auto simp: xs_def import_pair_def)
qed

text \<open>
  C29: an import never damages the library, whatever fails on the way. For a pair of destinations
  that share a directory and a basename and differ in their extension, and for every list of
  failures and cancellations: apart from the two temporary names everything that existed is
  unchanged; a new entry is a directory on the way to the destination or one of the two final files,
  and a final file that appears has the size and the checksum of its artifact, never a part of it;
  when the import reports success both final files are there with the recorded identity.
\<close>

theorem import_never_damages:
  assumes "is_abs libraryRoot" "propers es" "slash \<notin> set b" "slash \<notin> set v" "dot \<notin> set v" "slash \<notin> set s" "dot \<notin> set s"
    and "v \<noteq> s" "v \<noteq> []" "s \<noteq> []" "slash \<notin> set (uuid_str operationID)"
    and "destinationVideo = abs_path (es @ [b @ dot # v])" "destinationSubtitle = abs_path (es @ [b @ dot # s])"
    and run: "importArtifactPair sha256 rename_supported uuid_str wd video subtitle libraryRoot destinationVideo
      destinationSubtitle operationID d = (r, d')"
  shows "(\<forall>p. p \<notin> {importTemporaryPath uuid_str destinationVideo operationID,
              importTemporaryPath uuid_str destinationSubtitle operationID} \<longrightarrow>
        node_at (d_files d') p = node_at (d_files d) p \<or>
        node_at (d_files d) p = None \<and>
          (p \<in> set (path_prefixes (abs_path es)) \<and> node_at (d_files d') p = Some DirN \<or>
           p = destinationVideo \<and> artifact_at sha256 video p (d_files d') \<or>
           p = destinationSubtitle \<and> artifact_at sha256 subtitle p (d_files d'))) \<and>
     (r = Inr () \<longrightarrow> artifact_at sha256 video destinationVideo (d_files d') \<and>
        artifact_at sha256 subtitle destinationSubtitle (d_files d'))"
proof -
  obtain rs where rs: "path_abs wd (path_clean libraryRoot) = Some (abs_path rs)" "propers rs"
    using path_clean_abs [OF assms(1)] by (auto simp: path_abs_def)
  let ?I = "import_step sha256 (import_pair uuid_str video subtitle destinationVideo destinationSubtitle operationID)
      (set (path_prefixes (abs_path es))) (d_files d)"
  have "?I (d_files d') \<and> (r = Inr () \<longrightarrow> artifact_at sha256 video destinationVideo (d_files d') \<and>
      artifact_at sha256 subtitle destinationSubtitle (d_files d'))"
    using holds_run [OF import_pair_safe [where uuid_str = uuid_str and operationID = operationID, OF rs assms(2-13)] run importing.R_refl] by (cases r) simp_all
  then show ?thesis by (auto simp: import_step_def import_pair_def)
qed

definition sample_artifact :: "gostr \<Rightarrow> bytes \<Rightarrow> MediaArtifact" where
  "sample_artifact path content =
     \<lparr>ar_id = 1, ar_task_id = 1, ar_source_file_id = None, ar_transcode_profile_id = None, ar_kind = MediaVideo,
      ar_basename = lit ''x'', ar_file_path = path, ar_format = lit ''mkv'', ar_size_bytes = int (length content),
      ar_checksum = content\<rparr>"

definition sample_disk :: disk where
  "sample_disk = \<lparr>d_files = [(lit ''/l'', DirN), (lit ''/v'', FileN [7]), (lit ''/t'', FileN [8])], d_events = []\<rparr>"

theorem import_never_damages_witness:
  "let (r, d') = importArtifactPair id True (\<lambda>_. lit ''u'') None (sample_artifact (lit ''/v'') [7])
      (sample_artifact (lit ''/t'') [8]) (lit ''/l'') (lit ''/l/a/x.m'') (lit ''/l/a/x.s'') 1 sample_disk
   in r = Inr () \<and> artifact_at id (sample_artifact (lit ''/v'') [7]) (lit ''/l/a/x.m'') (d_files d') \<and>
      artifact_at id (sample_artifact (lit ''/t'') [8]) (lit ''/l/a/x.s'') (d_files d')"
proof -
  let ?run = "importArtifactPair id True (\<lambda>_. lit ''u'') None (sample_artifact (lit ''/v'') [7])
      (sample_artifact (lit ''/t'') [8]) (lit ''/l'') (lit ''/l/a/x.m'') (lit ''/l/a/x.s'') 1 sample_disk"
  have ok: "fst ?run = Inr ()" by code_simp
  obtain r d' where run: "?run = (r, d')" by fastforce
  have h: "is_abs (lit ''/l'')" "propers [lit ''l'', lit ''a'']" "slash \<notin> set (lit ''x'')" "slash \<notin> set (lit ''m'')"
    "dot \<notin> set (lit ''m'')" "slash \<notin> set (lit ''s'')" "dot \<notin> set (lit ''s'')" "lit ''m'' \<noteq> lit ''s''" "lit ''m'' \<noteq> []"
    "lit ''s'' \<noteq> []" "slash \<notin> set ((\<lambda>_. lit ''u'') 1)"
    by (simp_all add: is_abs_def has_prefix_def proper_elem_def)
  have n: "lit ''/l/a/x.m'' = abs_path ([lit ''l'', lit ''a''] @ [lit ''x'' @ dot # lit ''m''])"
    "lit ''/l/a/x.s'' = abs_path ([lit ''l'', lit ''a''] @ [lit ''x'' @ dot # lit ''s''])"
    by (simp_all add: abs_path_def)
  from import_never_damages [OF h n run] ok run show ?thesis by (simp del: lit_simps)
qed

end
