(* ===== verification/TaskCommands.thy ===== *)
theory TaskCommands
  imports MediaWorkflow
begin

text \<open>
  Retry and cancellation of a task: \<^verbatim>\<open>internal/service/task_commands.go\<close> and
  \<^verbatim>\<open>workflow_retry.go\<close>, with the guard statements of \<^verbatim>\<open>db/query/retries.sql\<close>, \<^verbatim>\<open>catalog.sql\<close> and
  \<^verbatim>\<open>deletions.sql\<close>. The advisory locks that \<^verbatim>\<open>LockRSSTargetEpisodes\<close> takes have no effect on the
  store and are left out; an idempotency key is a sequence of runes, so the test for valid UTF-8
  always succeeds.
\<close>

section \<open>Guards of a retry\<close>

text \<open>\<^verbatim>\<open>payload->>'key'\<close> for the scalars a payload holds.\<close>

definition json_text :: "payload \<Rightarrow> string \<Rightarrow> gostr option" where
  "json_text p key =
     (case map_of p key of
        Some (JNum n) \<Rightarrow> Some (itoa n)
      | Some (JStr s) \<Rightarrow> Some s
      | Some (JBool b) \<Rightarrow> Some (lit (if b then ''true'' else ''false''))
      | _ \<Rightarrow> None)"

definition single_episode :: "payload \<Rightarrow> bool" where
  "single_episode p = (map_of p ''singleEpisode'' = Some (JBool True))"

definition same_coordinate :: "EpisodeMappingRow \<Rightarrow> int option \<Rightarrow> int option \<Rightarrow> int \<Rightarrow> bool" where
  "same_coordinate m season episode fraction =
     (season = Some (em_source_season m) \<and> episode = Some (em_source_episode m) \<and> fraction = em_source_fraction m)"

definition file_of_mapping :: "db \<Rightarrow> uuid \<Rightarrow> EpisodeMappingRow \<Rightarrow> bool" where
  "file_of_mapping db download m = list_ex (\<lambda>f. df_download_id f = download \<and> df_selected f \<and> df_media_kind f = MediaVideo \<and>
     same_coordinate m (df_source_season f) (df_source_episode f) (df_source_fraction f)) (download_files db)"

definition payload_names :: "payload \<Rightarrow> EpisodeMappingRow \<Rightarrow> bool" where
  "payload_names p m =
     (single_episode p \<and> json_text p ''sourceSeason'' = Some (itoa (em_source_season m)) \<and>
      json_text p ''sourceEpisode'' = Some (itoa (em_source_episode m)) \<and>
      (case json_text p ''sourceEpisodeFractionHundredths'' of None \<Rightarrow> lit ''0'' | Some t \<Rightarrow> t) = itoa (em_source_fraction m))"

definition retry_target :: "db \<Rightarrow> Acquisition \<Rightarrow> uuid option \<Rightarrow> EpisodeMappingRow \<Rightarrow> bool" where
  "retry_target db a task m =
     (Some (em_profile_id m) = aq_mapping_profile_id a \<and> em_target_episode_id m \<noteq> None \<and> em_mapped m \<and>
      (list_ex (\<lambda>t. tk_acquisition_id t = aq_id a \<and> tk_mapping_id t = Some (em_id m) \<and>
          (task = None \<or> task = Some (tk_id t))) (tasks db) \<or>
       task = None \<and>
         ((case by_key_opt re_id (aq_rss_entry_id a) (rss_entries db) of None \<Rightarrow> False
           | Some e \<Rightarrow> same_coordinate m (re_source_season e) (re_source_episode e) (re_source_fraction e)) \<or>
          list_ex (\<lambda>d. dl_acquisition_id d = aq_id a \<and> dl_deleted_at d = None \<and> file_of_mapping db (dl_id d) m) (downloads db) \<or>
          payload_names (aq_source_payload a) m)))"

definition ListWorkflowRetryTargets :: "uuid \<Rightarrow> uuid option \<Rightarrow> uuid list tx" where
  "ListWorkflowRetryTargets acquisition task = tx_read (\<lambda>db.
     case by_key aq_id acquisition (acquisitions db) of
       None \<Rightarrow> []
     | Some a \<Rightarrow> sort (remdups (List.map_filter em_target_episode_id (filter (retry_target db a task) (mappings db)))))"

definition LockAcquisitionForDeletion :: "uuid \<Rightarrow> Acquisition option tx" where
  "LockAcquisitionForDeletion i = tx_read (\<lambda>db. by_key aq_id i (acquisitions db))"

definition WorkflowRetrySourceDeleted :: "uuid \<Rightarrow> bool tx" where
  "WorkflowRetrySourceDeleted i = tx_read (\<lambda>db.
     case Option.bind (by_key aq_id i (acquisitions db)) (\<lambda>a.
          Option.bind (by_key_opt re_id (aq_rss_entry_id a) (rss_entries db)) (\<lambda>e.
            by_key rs_id (re_subscription_id e) (rss_subscriptions db))) of
       None \<Rightarrow> False
     | Some s \<Rightarrow> rs_deleted_at s \<noteq> None)"

definition stopping_kinds :: "string list" where
  "stopping_kinds = [''task.cancel'', ''download.cancel'', ''acquisition.delete'', ''rss.subscription.delete'']"

definition operation_of_workflow :: "db \<Rightarrow> uuid \<Rightarrow> uuid option \<Rightarrow> Operation \<Rightarrow> bool" where
  "operation_of_workflow db acquisition task p =
     (op_resource_type p = Some ''acquisition'' \<and> op_resource_id p = Some acquisition \<or>
      op_resource_type p = Some ''episode_task'' \<and>
        list_ex (\<lambda>t. tk_acquisition_id t = acquisition \<and> (task = None \<or> task = Some (tk_id t)) \<and>
          op_resource_id p = Some (tk_id t)) (tasks db) \<or>
      op_resource_type p = Some ''download'' \<and>
        list_ex (\<lambda>d. dl_acquisition_id d = acquisition \<and> op_resource_id p = Some (dl_id d)) (downloads db))"

definition WorkflowRetryHasPendingCancellation :: "uuid \<Rightarrow> uuid option \<Rightarrow> bool \<Rightarrow> bool tx" where
  "WorkflowRetryHasPendingCancellation acquisition task requireIdle = tx_read (\<lambda>db.
     list_ex (\<lambda>p. active_op p \<and>
        (requireIdle \<or> op_cancel_requested_at p \<noteq> None \<or> List.member stopping_kinds (op_kind p)) \<and>
        operation_of_workflow db acquisition task p) (operations db))"

section \<open>Who else handles a target episode\<close>

definition provider_is :: "(gostr \<times> gostr) list \<Rightarrow> int option \<Rightarrow> bool" where
  "provider_is ids tmdb =
     (case tmdb of None \<Rightarrow> False
      | Some n \<Rightarrow> list_ex (\<lambda>(k, v). (to_lower k = lit ''tmdb'' \<or> to_lower k = lit ''themoviedb'') \<and> v = itoa n) ids)"

definition belongs_to_series :: "db \<Rightarrow> EmbyLibraryItem \<Rightarrow> int option \<Rightarrow> bool" where
  "belongs_to_series db item tmdbSeries =
     list_ex (\<lambda>s. ei_present s \<and> ei_item_type s = ''Series'' \<and> provider_is (ei_provider_ids s) tmdbSeries \<and>
        (ei_parent_emby_id item = Some (ei_emby_id s) \<or>
         list_ex (\<lambda>q. ei_present q \<and> ei_item_type q = ''Season'' \<and> ei_parent_emby_id item = Some (ei_emby_id q) \<and>
            ei_parent_emby_id q = Some (ei_emby_id s)) (emby_items db))) (emby_items db)"

definition catalog_present :: "db \<Rightarrow> MediaEpisode \<Rightarrow> MediaSeries \<Rightarrow> bool" where
  "catalog_present db ep series =
     list_ex (\<lambda>item. ei_present item \<and> ei_item_type item = ''Episode'' \<and> ei_file_path item \<noteq> None \<and>
        (provider_is (ei_provider_ids item) (me_tmdb_episode_id ep) \<or>
         ei_season_number item = Some (me_season_number ep) \<and> ei_episode_number item = Some (me_episode_number ep) \<and>
           belongs_to_series db item (ms_tmdb_series_id series))) (emby_items db)"

definition mappings_of_target :: "db \<Rightarrow> uuid \<Rightarrow> EpisodeMappingRow list" where
  "mappings_of_target db target = filter (\<lambda>m. em_target_episode_id m = Some target) (mappings db)"

definition tasks_of_target :: "db \<Rightarrow> uuid \<Rightarrow> uuid \<Rightarrow> EpisodeTask list" where
  "tasks_of_target db target excluded = filter (\<lambda>t. tk_acquisition_id t \<noteq> excluded \<and>
     list_ex (\<lambda>m. tk_mapping_id t = Some (em_id m)) (mappings_of_target db target)) (tasks db)"

definition stopping :: "db \<Rightarrow> string \<Rightarrow> uuid \<Rightarrow> string \<Rightarrow> bool" where
  "stopping db rtype i kind = list_ex (\<lambda>p. op_resource_type p = Some rtype \<and> op_resource_id p = Some i \<and>
     active_op p \<and> (op_cancel_requested_at p \<noteq> None \<or> op_kind p = kind)) (operations db)"

text \<open>\<^verbatim>\<open>ORDER BY (status = 'cancelled'), attempt DESC LIMIT 1\<close>\<close>

definition current_download :: "db \<Rightarrow> uuid \<Rightarrow> Download option" where
  "current_download db acquisition =
     (let ds = filter (\<lambda>d. dl_acquisition_id d = acquisition \<and> dl_deleted_at d = None) (downloads db)
      in case latest_by dl_attempt (filter (\<lambda>d. dl_status d \<noteq> DownloadCancelled) ds) of
           Some d \<Rightarrow> Some d
         | None \<Rightarrow> latest_by dl_attempt ds)"

definition payload_number :: "payload \<Rightarrow> string \<Rightarrow> int option" where
  "payload_number p key =
     (case json_text p key of
        Some (c # cs) \<Rightarrow>
          if 49 \<le> c \<and> c \<le> 57 \<and> length cs \<le> 9 \<and> list_all (\<lambda>d. 48 \<le> d \<and> d \<le> 57) cs then Some (decimal (c # cs)) else None
      | _ \<Rightarrow> None)"

definition payload_fraction :: "payload \<Rightarrow> int" where
  "payload_fraction p =
     (case json_text p ''sourceEpisodeFractionHundredths'' of
        Some [c] \<Rightarrow> if 48 \<le> c \<and> c \<le> 57 then decimal [c] else 0
      | Some [c, d] \<Rightarrow> if 49 \<le> c \<and> c \<le> 57 \<and> 48 \<le> d \<and> d \<le> 57 then decimal [c, d] else 0
      | _ \<Rightarrow> 0)"

definition acquisition_coordinate :: "db \<Rightarrow> Acquisition \<Rightarrow> int option \<times> int option \<times> int" where
  "acquisition_coordinate db a =
     (let owner = by_key_opt re_id (aq_rss_entry_id a) (rss_entries db); p = aq_source_payload a;
          manual = (aq_rss_entry_id a = None \<and> single_episode p);
          or_payload = (\<lambda>v key. if v \<noteq> None then v else if manual then payload_number p key else None)
      in (or_payload (Option.bind owner re_source_season) ''sourceSeason'',
          or_payload (Option.bind owner re_source_episode) ''sourceEpisode'',
          (case owner of Some e \<Rightarrow> re_source_fraction e | None \<Rightarrow> if manual then payload_fraction p else 0)))"

definition acquisition_claims :: "db \<Rightarrow> EpisodeMappingRow \<Rightarrow> Acquisition \<Rightarrow> Download \<Rightarrow> bool" where
  "acquisition_claims db m a d =
     (case acquisition_coordinate db a of (season, episode, fraction) \<Rightarrow>
        same_coordinate m season episode fraction \<or> file_of_mapping db (dl_id d) m)"

definition claimed_by_acquisition :: "db \<Rightarrow> uuid \<Rightarrow> uuid \<Rightarrow> bool" where
  "claimed_by_acquisition db target excluded =
     list_ex (\<lambda>m. em_mapped m \<and>
       list_ex (\<lambda>a. aq_mapping_profile_id a = Some (em_profile_id m) \<and> aq_id a \<noteq> excluded \<and>
         aq_deletion_requested_at a = None \<and>
         \<not> list_ex (\<lambda>t. tk_acquisition_id t = aq_id a) (tasks db) \<and>
         (case current_download db (aq_id a) of None \<Rightarrow> False
          | Some d \<Rightarrow> (dl_status d \<noteq> DownloadCancelled \<or> stopping db ''download'' (dl_id d) ''download.cancel'') \<and>
              acquisition_claims db m a d)) (acquisitions db)) (mappings_of_target db target)"

record TargetOccupancy =
  oc_CatalogPresent :: bool
  oc_ManagedImportPresent :: bool
  oc_ProcessingPresent :: bool

definition GetEpisodeMappingTargetOccupancy :: "uuid \<Rightarrow> uuid \<Rightarrow> uuid \<Rightarrow> TargetOccupancy tx" where
  "GetEpisodeMappingTargetOccupancy target seriesID excluded = tx_read (\<lambda>db.
     case Option.bind (by_key me_id target (episodes db)) (\<lambda>ep.
          if me_series_id ep = seriesID then map_option (Pair ep) (by_key ms_id seriesID (series_tab db)) else None) of
       None \<Rightarrow> \<lparr>oc_CatalogPresent = False, oc_ManagedImportPresent = False, oc_ProcessingPresent = False\<rparr>
     | Some (ep, series) \<Rightarrow>
         \<lparr>oc_CatalogPresent = catalog_present db ep series,
          oc_ManagedImportPresent = list_ex (\<lambda>t. has_import db (tk_id t) import_succeeded) (tasks_of_target db target excluded),
          oc_ProcessingPresent =
            (list_ex (\<lambda>t. \<not> task_settled (tk_state t) \<or> stopping db ''episode_task'' (tk_id t) ''task.cancel'')
               (tasks_of_target db target excluded) \<or>
             claimed_by_acquisition db target excluded)\<rparr>)"

definition occupied :: "TargetOccupancy \<Rightarrow> bool" where
  "occupied c = (oc_ProcessingPresent c \<or> oc_ManagedImportPresent c \<or> oc_CatalogPresent c)"

definition conflict_error :: "string \<Rightarrow> string \<Rightarrow> svc_error" where
  "conflict_error code message = NewError code message ErrStateConflict []"

definition lockWorkflowForRetry :: "uuid \<Rightarrow> uuid option \<Rightarrow> bool \<Rightarrow> bool \<Rightarrow> unit tx" where
  "lockWorkflowForRetry acquisitionID taskID reclaimTargets requireIdle =
     tx_bind (ListWorkflowRetryTargets acquisitionID taskID) (\<lambda>targets.
     tx_bind (or_fail ErrNotFound (LockAcquisitionForDeletion acquisitionID)) (\<lambda>acquisition.
     if aq_deletion_requested_at acquisition \<noteq> None
     then tx_fail (conflict_error ''deletion_in_progress'' ''the content is being deleted'')
     else tx_bind (ListWorkflowRetryTargets acquisitionID taskID) (\<lambda>currentTargets.
     if targets \<noteq> currentTargets
     then tx_fail (conflict_error ''state_conflict'' ''the episode mapping changed before retry'')
     else tx_bind (WorkflowRetrySourceDeleted acquisitionID) (\<lambda>sourceDeleted.
     if sourceDeleted
     then tx_fail (conflict_error ''deletion_in_progress'' ''the RSS subscription is being deleted'')
     else tx_bind (WorkflowRetryHasPendingCancellation acquisitionID taskID requireIdle) (\<lambda>pending.
     if pending
     then tx_fail (conflict_error ''operation_in_progress'' ''the previous operation is still stopping; retry after it has stopped'')
     else if reclaimTargets then
       tx_each (\<lambda>target.
         tx_bind (GetEpisodeMappingTargetOccupancy target (aq_series_id acquisition) (aq_id acquisition)) (\<lambda>conflict.
           if occupied conflict
           then tx_fail (conflict_error ''target_episode_processing'' ''the episode is already handled by another task'')
           else tx_return ())) targets
     else tx_return ())))))"

section \<open>Retry\<close>

definition mediaBranchSchedule :: "string \<Rightarrow> string \<times> int \<times> int" where
  "mediaBranchSchedule branch =
     (if branch = ''video'' then (''transcode.run'', 24 * hour, 3)
      else if branch = ''subtitle'' then (''subtitle.prepare'', 30 * minute, 3)
      else ('''', 0, 0))"

definition deriveSecondaryIdempotencyKey :: "env \<Rightarrow> gostr \<Rightarrow> string \<Rightarrow> uuid \<Rightarrow> gostr" where
  "deriveSecondaryIdempotencyKey env primaryKey secondaryKind taskID =
     lit ''task-retry:'' @ e_uuid_string env taskID @ lit '':'' @ lit secondaryKind @ lit '':'' @ e_sha256_hex env primaryKey"

definition retry_schedule :: "uuid \<Rightarrow> gostr \<Rightarrow> uuid \<Rightarrow> string \<Rightarrow> int \<Rightarrow> int \<Rightarrow> payload \<Rightarrow> ScheduleOperationRequest" where
  "retry_schedule task key actor kind timeout attempts extra =
     \<lparr>sq_Kind = kind, sq_ResourceType = ''episode_task'', sq_ResourceID = task, sq_IdempotencyKey = key,
      sq_MaxAttempts = attempts, sq_Timeout = timeout, sq_Payload = (''command'', jtext ''retry'') # extra,
      sq_ActorUserID = actor\<rparr>"

definition retry_event :: "env \<Rightarrow> uuid \<Rightarrow> uuid \<Rightarrow> uuid \<Rightarrow> payload \<Rightarrow> unit tx" where
  "retry_event env task operation actor data =
     appendResourceEvent env ''episode_task'' task operation actor ''task.retry_requested'' data"

text \<open>Scheduling the operation of a retry and recording it, the end of every branch but the media one.\<close>

definition schedule_retry :: "env \<Rightarrow> uuid \<Rightarrow> uuid \<Rightarrow> string \<Rightarrow> ScheduleOperationRequest \<Rightarrow> OperationView tx" where
  "schedule_retry env task actor stage request =
     tx_bind (ScheduleInTx env request) (\<lambda>scheduled.
       tx_seq (retry_event env task (ov_ID (sr_Operation scheduled)) actor [(''failureStage'', jtext stage)])
         (tx_return (sr_Operation scheduled)))"

definition retry_cleanup :: "env \<Rightarrow> uuid \<Rightarrow> int \<Rightarrow> gostr \<Rightarrow> uuid \<Rightarrow> EpisodeTask \<Rightarrow> OperationView tx" where
  "retry_cleanup env taskID expectedVersion key actor task =
     tx_seq (or_fail (NewError ''invalid_state'' ''the imported task has no failed cleanup to retry'' ErrStateConflict
               [(''state'', jtext (task_state_str (tk_state task)))])
               (MarkTaskCleanupRetryRequested taskID expectedVersion))
     (tx_bind (required ''requeue task cleanup record'' (RequeueLatestFailedTaskCleanup taskID)) (\<lambda>cleanup.
        schedule_retry env taskID actor ''cleanup''
          (retry_schedule taskID key actor ''cleanup.run'' (30 * minute) 5 [(''cleanupId'', JUuid (cl_id cleanup))])))"

definition video_failed :: "EpisodeTask \<Rightarrow> bool" where
  "video_failed task = (tk_video_state task = VideoFailed \<or> tk_state task = TaskCancelled \<and> tk_video_state task = VideoCancelled)"

definition subtitle_failed :: "EpisodeTask \<Rightarrow> bool" where
  "subtitle_failed task =
     (tk_subtitle_state task = SubtitleFailed \<or> tk_state task = TaskCancelled \<and> tk_subtitle_state task = SubtitleCancelled)"

text \<open>The branch of the first operation and, when both branches failed, of the second.\<close>

definition retry_branches :: "EpisodeTask \<Rightarrow> string \<times> string option" where
  "retry_branches task =
     (if video_failed task \<and> subtitle_failed task then
        (if valueOrEmpty (tk_failure_stage task) = ''subtitle'' then (''subtitle'', Some ''video'') else (''video'', Some ''subtitle''))
      else if video_failed task then (''video'', None) else (''subtitle'', None))"

definition branch_entry :: "env \<Rightarrow> string \<Rightarrow> string \<Rightarrow> uuid \<Rightarrow> jval" where
  "branch_entry env stage kind operation =
     JObj [(''stage'', jtext stage), (''kind'', jtext kind), (''operationId'', JStr (e_uuid_string env operation))]"

definition sort_strings :: "string list \<Rightarrow> string list" where
  "sort_strings = sort_by (\<lambda>x y. str_less (lit x) (lit y))"

definition branch_events :: "env \<Rightarrow> (string \<times> string \<times> uuid) list \<Rightarrow> payload" where
  "branch_events env ops =
     (let stages = sort_strings (map fst ops)
      in [(''failureStages'', JList (map jtext stages)),
          (''branches'', JList (map (\<lambda>stage. case map_of ops stage of
              None \<Rightarrow> JObj [] | Some (kind, i) \<Rightarrow> branch_entry env stage kind i) stages))])"

definition schedule_branch :: "env \<Rightarrow> uuid \<Rightarrow> gostr \<Rightarrow> uuid \<Rightarrow> string \<Rightarrow> OperationView tx" where
  "schedule_branch env taskID key actor branch =
     (case mediaBranchSchedule branch of (kind, timeout, attempts) \<Rightarrow>
        tx_bind (ScheduleInTx env (retry_schedule taskID key actor kind timeout attempts [])) (\<lambda>scheduled.
          tx_return (sr_Operation scheduled)))"

definition branch_kind :: "string \<Rightarrow> string" where
  "branch_kind branch = fst (mediaBranchSchedule branch)"

definition retry_media :: "env \<Rightarrow> uuid \<Rightarrow> int \<Rightarrow> gostr \<Rightarrow> uuid \<Rightarrow> EpisodeTask \<Rightarrow> OperationView tx" where
  "retry_media env taskID expectedVersion key actor task =
     (case retry_branches task of (primaryBranch, secondaryBranch) \<Rightarrow>
      let stage = valueOrEmpty (tk_failure_stage task);
          eventStage = (if stage = '''' then primaryBranch else stage)
      in tx_seq (or_fail (NewError ''state_conflict'' ''the task is not retryable'' ErrStateConflict
                  [(''state'', jtext (task_state_str (tk_state task))),
                   (''videoState'', jtext (video_state_str (tk_video_state task))),
                   (''subtitleState'', jtext (subtitle_state_str (tk_subtitle_state task)))])
                  (RequeueTaskFailedMediaBranches taskID expectedVersion))
         (tx_bind (schedule_branch env taskID key actor primaryBranch) (\<lambda>operation.
          tx_bind (case secondaryBranch of
                     None \<Rightarrow> tx_return []
                   | Some secondary \<Rightarrow>
                       tx_bind (schedule_branch env taskID (deriveSecondaryIdempotencyKey env key (branch_kind secondary) taskID)
                                  actor secondary) (\<lambda>s. tx_return [(secondary, branch_kind secondary, ov_ID s)])) (\<lambda>secondaries.
          tx_seq (retry_event env taskID (ov_ID operation) actor
                    ((''failureStage'', jtext eventStage) #
                     branch_events env ((primaryBranch, branch_kind primaryBranch, ov_ID operation) # secondaries)))
            (tx_return operation)))))"

definition retryCancelledAfterMedia :: "env \<Rightarrow> uuid \<Rightarrow> int \<Rightarrow> gostr \<Rightarrow> uuid \<Rightarrow> OperationView tx" where
  "retryCancelledAfterMedia env taskID expectedVersion key actor =
     tx_bind (required ''load stopped task stages'' (GetTaskView taskID)) (\<lambda>view.
     let requeue = (\<lambda>nextState stage request.
           tx_seq (or_fail (conflict_error ''state_conflict'' ''the stopped task is no longer retryable'')
                     (RequeueCancelledTaskAfterMedia taskID expectedVersion nextState))
             (schedule_retry env taskID actor stage request))
     in case tv_import view of
          None \<Rightarrow> requeue TaskFinalizing ''finalize'' (retry_schedule taskID key actor ''media.finalize'' (5 * minute) 3 [])
        | Some im \<Rightarrow>
            if map_option rv_decision (tv_review view) \<noteq> Some TaskApproved \<or> im_status im = ImSucceeded
            then tx_fail (conflict_error ''state_conflict'' ''the stopped task has no recoverable import'')
            else tx_bind (required ''requeue stopped import'' (RequeueCancelledTaskImport taskID)) (\<lambda>imported.
                   requeue TaskImportQueued ''import''
                     (retry_schedule taskID key actor ''emby.import'' (10 * minute) 3 [(''importId'', JUuid (im_id imported))])))"

definition retry_failed :: "env \<Rightarrow> uuid \<Rightarrow> gostr \<Rightarrow> uuid \<Rightarrow> EpisodeTask \<Rightarrow> OperationView tx" where
  "retry_failed env taskID key actor task =
     (let stage = valueOrEmpty (tk_failure_stage task);
          conflict = (\<lambda>code m. NewError code m ErrStateConflict [(''failureStage'', jtext stage)])
      in if stage = ''finalize'' then
           tx_seq (or_fail (conflict ''state_conflict'' ''the failed task has no retryable finalize branch'') (RequeueTaskFinalizeBranch taskID))
             (schedule_retry env taskID actor stage (retry_schedule taskID key actor ''media.finalize'' (5 * minute) 3 []))
         else if stage = ''import'' then
           tx_seq (or_fail (conflict ''state_conflict'' ''the failed task has no retryable import branch'') (RequeueTaskImportBranch taskID))
             (tx_bind (required ''requeue task import record'' (RequeueLatestFailedTaskImport taskID)) (\<lambda>latestImport.
                schedule_retry env taskID actor stage
                  (retry_schedule taskID key actor ''emby.import'' (10 * minute) 3 [(''importId'', JUuid (im_id latestImport))])))
         else tx_fail (conflict ''invalid_state'' ''the failed task has no retryable branch''))"

definition retry_locked :: "env \<Rightarrow> uuid \<Rightarrow> int \<Rightarrow> gostr \<Rightarrow> uuid \<Rightarrow> EpisodeTask \<Rightarrow> OperationView tx" where
  "retry_locked env taskID expectedVersion key actor task =
     (let hasMediaFailed = (video_failed task \<or> subtitle_failed task);
          isFailedState = (tk_state task = TaskFailed);
          isProcessingStuck = (tk_state task = TaskProcessing \<and> hasMediaFailed);
          isCancelledRecoverable = isCancelledMediaRecoverable (tk_state task) (tk_video_state task) (tk_subtitle_state task);
          invalid = NewError ''invalid_state'' ''only a failed task or failed imported cleanup can be retried'' ErrStateConflict
                      [(''state'', jtext (task_state_str (tk_state task)))]
      in if tk_state task = TaskImported then retry_cleanup env taskID expectedVersion key actor task
         else if isFailedState \<or> isProcessingStuck \<or> isCancelledRecoverable then
           (if hasMediaFailed then retry_media env taskID expectedVersion key actor task
            else if isCancelledRecoverable then retryCancelledAfterMedia env taskID expectedVersion key actor
            else if \<not> isFailedState then tx_fail invalid
            else retry_failed env taskID key actor task)
         else tx_fail invalid)"

definition version_conflict :: "int \<Rightarrow> svc_error" where
  "version_conflict expectedVersion = NewError ''state_conflict'' ''the task was modified by another request'' ErrStateConflict
     [(''expectedVersion'', JNum expectedVersion)]"

definition retry_tx :: "env \<Rightarrow> uuid \<Rightarrow> int \<Rightarrow> gostr \<Rightarrow> uuid \<Rightarrow> OperationView tx" where
  "retry_tx env taskID expectedVersion key actor =
     tx_bind (findIdempotentResourceCommand key ''episode_task'' taskID (lit ''retry'')
                [''transcode.run'', ''subtitle.prepare'', ''media.finalize'', ''emby.import'', ''cleanup.run'']) (\<lambda>existing.
     case existing of
       Some operation \<Rightarrow> tx_return operation
     | None \<Rightarrow>
         tx_bind (or_fail ErrNotFound (GetTaskView taskID)) (\<lambda>before.
         tx_seq (lockWorkflowForRetry (tk_acquisition_id (tv_task before)) (Some taskID)
                   (tk_state (tv_task before) \<noteq> TaskImported) (tk_state (tv_task before) = TaskCancelled))
         (tx_bind (or_fail ErrNotFound (LockEpisodeTask taskID)) (\<lambda>task.
            if tk_version task \<noteq> expectedVersion then tx_fail (version_conflict expectedVersion)
            else retry_locked env taskID expectedVersion key actor task))))"

definition Retry ::
  "env \<Rightarrow> uuid \<Rightarrow> int \<Rightarrow> gostr \<Rightarrow> uuid \<Rightarrow> db \<Rightarrow> (svc_error, OperationView \<times> EpisodeTaskView) result \<times> db" where
  "Retry env taskID expectedVersion idempotencyKey actor db =
     (let trimmedKey = trim_space idempotencyKey
      in if trimmedKey = [] then (Inl (invalidTaskCommand ''idempotencyKey'' ''must not be blank''), db)
         else if length trimmedKey > 256
         then (Inl (invalidTaskCommand ''idempotencyKey'' ''must not exceed 256 characters''), db)
         else then_get (retry_tx env taskID expectedVersion trimmedKey actor) taskID db)"

section \<open>Cancel\<close>

definition cancel_tx :: "env \<Rightarrow> uuid \<Rightarrow> int \<Rightarrow> gostr \<Rightarrow> uuid \<Rightarrow> OperationView tx" where
  "cancel_tx env taskID expectedVersion idempotencyKey actor =
     tx_bind (findIdempotentResourceCommand idempotencyKey ''episode_task'' taskID (lit ''cancel'') [''task.cancel'']) (\<lambda>existing.
     case existing of
       Some operation \<Rightarrow> tx_return operation
     | None \<Rightarrow>
         tx_seq (requestResourceOperationCancellations env ''episode_task'' taskID actor)
         (tx_bind (or_fail ErrNotFound (LockEpisodeTask taskID)) (\<lambda>task.
          if tk_version task \<noteq> expectedVersion then tx_fail (version_conflict expectedVersion)
          else tx_seq (or_fail (NewError ''invalid_state'' ''only a non-terminal task can be cancelled'' ErrStateConflict
                         [(''state'', jtext (task_state_str (tk_state task)))])
                         (CancelEpisodeTaskIfActive taskID expectedVersion))
               (tx_bind (ScheduleInTx env
                   \<lparr>sq_Kind = ''task.cancel'', sq_ResourceType = ''episode_task'', sq_ResourceID = taskID,
                    sq_IdempotencyKey = idempotencyKey, sq_MaxAttempts = 1, sq_Timeout = minute,
                    sq_Payload = [(''command'', jtext ''cancel'')], sq_ActorUserID = actor\<rparr>) (\<lambda>scheduled.
                tx_seq (appendResourceEvent env ''episode_task'' taskID (ov_ID (sr_Operation scheduled)) actor
                          ''task.cancel_requested'' [])
                  (tx_return (sr_Operation scheduled)))))))"

definition Cancel ::
  "env \<Rightarrow> uuid \<Rightarrow> int \<Rightarrow> gostr \<Rightarrow> uuid \<Rightarrow> db \<Rightarrow> (svc_error, OperationView \<times> EpisodeTaskView) result \<times> db" where
  "Cancel env taskID expectedVersion idempotencyKey actor =
     then_get (cancel_tx env taskID expectedVersion idempotencyKey actor) taskID"

end
