(* ===== verification/TaskFrames.thy ===== *)
theory TaskFrames
  imports TaskCommands
begin

text \<open>
  Which statements leave the tables of a task (\<^verbatim>\<open>episode_tasks\<close>, \<^verbatim>\<open>artifact_sets\<close>, \<^verbatim>\<open>reviews\<close>, \<^verbatim>\<open>imports\<close>)
  alone, the transactions of the system as a step relation, and the interface \<open>task_statements\<close> through
  which a relation proved for the single statements is carried to every handler and to whole runs.
\<close>

section \<open>The tables of a task\<close>

text \<open>The four tables the life of a task is recorded in.\<close>

definition pipe :: "db \<Rightarrow> EpisodeTask list \<times> ArtifactSet list \<times> Review list \<times> Import list" where
  "pipe db = (tasks db, artifact_sets db, reviews db, imports_tab db)"

interpretation pipe_rel: tx_relation "frame pipe"
  by (rule tx_relation_frame)

lemma pipe_eq_iff: "pipe b = pipe a \<longleftrightarrow>
    tasks b = tasks a \<and> artifact_sets b = artifact_sets a \<and> reviews b = reviews a \<and> imports_tab b = imports_tab a"
  by (auto simp: pipe_def)

lemma sched_only_pipe: "maintains sched_only m \<Longrightarrow> maintains (frame pipe) m"
  by (erule maintains_mono) (simp add: frame_def pipe_def sched_only_frame)

lemma log_only_pipe: "maintains log_only m \<Longrightarrow> maintains (frame pipe) m"
  by (intro sched_only_pipe log_only_sched)

lemma or_fail_maintains: "maintains R m \<Longrightarrow> maintains R (or_fail e m)"
  by (auto simp: maintains_def or_fail_def tx_bind_eq_Inr_iff split: option.splits)

lemma required_maintains: "maintains R m \<Longrightarrow> maintains R (required w m)"
  by (auto simp: maintains_def required_def tx_bind_eq_Inr_iff split: option.splits)

lemma checked_maintains: "maintains R m \<Longrightarrow> maintains R (checked w ok m)"
  by (auto simp: maintains_def checked_def split: sum.splits if_splits)

lemma read_statements_pipe:
  "maintains (frame pipe) (LockEpisodeTask i)" "maintains (frame pipe) (GetTaskArtifact i k)"
  "maintains (frame pipe) (GetTaskFinalizeCommand i)" "maintains (frame pipe) (GetTaskRSSAutoReview i)"
  "maintains (frame pipe) (GetTaskReviewByTask i)" "maintains (frame pipe) (GetArtifactSetForTask i)"
  "maintains (frame pipe) (GetTaskImportCommand i j)" "maintains (frame pipe) (GetTaskDownloadID i)"
  "maintains (frame pipe) (GetTaskCleanupCommand i j)" "maintains (frame pipe) (GetTaskView i)"
  "maintains (frame pipe) (LockRSSSubscriptionForTaskImport i)"
  "maintains (frame pipe) (LockRSSSubscriptionAtCompleteImport i)"
  "maintains (frame pipe) (ListRSSCompletionCleanupCandidates i)"
  "maintains (frame pipe) (LockMaterializeAcquisitionForDownload i)"
  "maintains (frame pipe) (LockDownloadForMaterialize i)" "maintains (frame pipe) GetDefaultTranscodeProfile"
  "maintains (frame pipe) (ListMaterializeVideos i)" "maintains (frame pipe) (GetEpisodeTaskBySource i j)"
  "maintains (frame pipe) (GetTaskMediaCommand i)" "maintains (frame pipe) (ListTaskExternalSubtitles i)"
  "maintains (frame pipe) (ListWorkflowRetryTargets i t)" "maintains (frame pipe) (LockAcquisitionForDeletion i)"
  "maintains (frame pipe) (WorkflowRetrySourceDeleted i)" "maintains (frame pipe) (WorkflowRetryHasPendingCancellation i t idle)"
  "maintains (frame pipe) (GetEpisodeMappingTargetOccupancy i j l)" "maintains (frame pipe) (GetOperationByIdempotencyKey key)"
  "maintains (frame pipe) (LockOperation i)"
  unfolding LockEpisodeTask_def GetTaskArtifact_def GetTaskFinalizeCommand_def GetTaskRSSAutoReview_def
    GetTaskReviewByTask_def GetArtifactSetForTask_def GetTaskImportCommand_def GetTaskDownloadID_def
    GetTaskCleanupCommand_def GetTaskView_def LockRSSSubscriptionForTaskImport_def
    LockRSSSubscriptionAtCompleteImport_def ListRSSCompletionCleanupCandidates_def
    LockMaterializeAcquisitionForDownload_def LockDownloadForMaterialize_def GetDefaultTranscodeProfile_def
    ListMaterializeVideos_def GetEpisodeTaskBySource_def GetTaskMediaCommand_def ListTaskExternalSubtitles_def
    ListWorkflowRetryTargets_def LockAcquisitionForDeletion_def WorkflowRetrySourceDeleted_def
    WorkflowRetryHasPendingCancellation_def GetEpisodeMappingTargetOccupancy_def GetOperationByIdempotencyKey_def
    LockOperation_def
  by (rule pipe_rel.keeps)+

lemma db_updates_pipe [simp]:
  "frame pipe db (clock_update f0 db)" "frame pipe db (operations_update f1 db)" "frame pipe db (op_attempts_update f2 db)"
  "frame pipe db (cleanups_update f3 db)" "frame pipe db (rss_entries_update f4 db)" "frame pipe db (rss_subscriptions_update f5 db)"
  "frame pipe db (fulfillments_update f6 db)" "frame pipe db (artifacts_update f7 db)" "frame pipe db (downloads_update f8 db)"
  "frame pipe db (search_runs_update f9 db)" "frame pipe db (agent_resolutions_update f10 db)" "frame pipe db (emby_scans_update f11 db)"
  by (simp_all add: frame_def pipe_def)

lemma update_latest_cleanup_pipe: "maintains (frame pipe) (update_latest_cleanup q j g)"
  by (auto simp: maintains_def update_latest_cleanup_def update_one_Inr_iff pipe_rel.rel_refl split: option.splits)

lemma MarkRSSEntryImportedForTask_pipe: "maintains (frame pipe) (MarkRSSEntryImportedForTask i)"
  unfolding maintains_def
proof (intro allI impI)
  fix db x db'
  assume run: "MarkRSSEntryImportedForTask i db = Inr (x, db')"
  have step: "maintains (frame pipe) (tx_bind (update_one rss_entries rss_entries_update p f) (\<lambda>updated.
      case updated of None \<Rightarrow> tx_return None
      | Some e \<Rightarrow> (case mapping of None \<Rightarrow> tx_return (Some e)
          | Some m \<Rightarrow> if \<not> em_mapped m then tx_return (Some e)
              else case em_target_episode_id m of None \<Rightarrow> tx_fail err
                | Some target \<Rightarrow> tx_seq (tx_modify (fulfillments_update (g target))) (tx_return (Some e)))))"
    for p f mapping err g
    by (intro pipe_rel.keeps pipe_rel.keeps_update_one pipe_rel.keeps_modify db_updates_pipe)
  show "frame pipe db db'"
    using run unfolding MarkRSSEntryImportedForTask_def
    by (cases "Option.bind (by_key tk_id i (tasks db)) (\<lambda>t. if tk_state t = TaskImported
             then Option.bind (task_acquisition db t) (\<lambda>a. map_option (Pair t) (aq_rss_entry_id a)) else None)")
      (auto simp: pipe_rel.rel_refl simp del: tx_bind_Inr tx_bind_Inl dest: maintainsD [OF step])
qed

lemma UpsertMediaArtifact_pipe: "maintains (frame pipe) (UpsertMediaArtifact art)"
  by (auto simp: maintains_def UpsertMediaArtifact_def insert_row_Inr_iff Let_def split: option.splits if_splits)

lemma CreateTaskCleanup_pipe: "maintains (frame pipe) (CreateTaskCleanup i t d)"
  by (auto simp: maintains_def CreateTaskCleanup_def insert_row_Inr_iff Let_def)

lemma other_statements_pipe:
  "maintains (frame pipe) (StartCleanup i)"
  "maintains (frame pipe) (CompleteCleanup_stmt x y i)" "maintains (frame pipe) (RequeueLatestFailedTaskCleanup t)"
  "maintains (frame pipe) (MarkRSSSubscriptionCompleted i v)" "maintains (frame pipe) (MarkDownloadSelectingFiles i)"
  "maintains (frame pipe) (MarkDownloadMaterialized i)"
  unfolding StartCleanup_def CompleteCleanup_stmt_def RequeueLatestFailedTaskCleanup_def
    MarkRSSSubscriptionCompleted_def MarkDownloadSelectingFiles_def MarkDownloadMaterialized_def
  by (intro checked_maintains update_latest_cleanup_pipe pipe_rel.keeps_update_one db_updates_pipe)+

lemma MarkDownloadRSSEntryEnqueueFailed_pipe: "maintains (frame pipe) (MarkDownloadRSSEntryEnqueueFailed c m b u)"
  by (auto simp: maintains_def MarkDownloadRSSEntryEnqueueFailed_def update_rows_def pipe_rel.rel_refl split: option.splits)

lemma resource_statements_pipe:
  "maintains (frame pipe) (MarkDownloadEnqueueTerminalFailure c m j)"
  "maintains (frame pipe) (MarkDownloadFileResolutionTerminalFailure c m j)"
  "maintains (frame pipe) (MarkDownloadSyncTerminalFailure c m j)"
  "maintains (frame pipe) (MarkDownloadMaterializeTerminalFailure c m j)"
  "maintains (frame pipe) (MarkSearchRunTerminalFailure c m j)"
  "maintains (frame pipe) (MarkSearchRunCancelled j)"
  "maintains (frame pipe) (MarkAgentResolutionOperationTerminal st c m j)"
  "maintains (frame pipe) (FailEmbyScanRun st c m j)"
  unfolding MarkDownloadEnqueueTerminalFailure_def MarkDownloadFileResolutionTerminalFailure_def
    MarkDownloadSyncTerminalFailure_def MarkDownloadMaterializeTerminalFailure_def
    MarkSearchRunTerminalFailure_def MarkSearchRunCancelled_def MarkAgentResolutionOperationTerminal_def
    FailEmbyScanRun_def
  by (intro pipe_rel.keeps_update_one db_updates_pipe)+

lemma attempt_statements_pipe:
  "maintains (frame pipe) (CreateOperationAttempt x)" "maintains (frame pipe) (DeleteSnoozedOperationAttempt i n)"
  by (auto simp: maintains_def CreateOperationAttempt_def DeleteSnoozedOperationAttempt_def insert_row_Inr_iff)

lemma failing_statements_pipe:
  "maintains (frame pipe) (FailOperation c m i)" "maintains (frame pipe) (FinishOperationAttempt st ec em i n)"
  by (auto simp: maintains_def FailOperation_def FinishOperationAttempt_def update_one_Inr_iff Let_def pipe_rel.rel_refl
    split: if_splits)

lemma lifecycle_statements_pipe:
  "maintains (frame pipe) (AbandonRunningOperationAttempts i)" "maintains (frame pipe) (StartOperationAttempt i)"
  "maintains (frame pipe) (HeartbeatOperation i)" "maintains (frame pipe) (CompleteOperation i)"
  "maintains (frame pipe) (RetryOperation c m i)" "maintains (frame pipe) (CancelOperation i)"
  "maintains (frame pipe) (HeartbeatOperationAttempt i n)" "maintains (frame pipe) (SnoozeOperation i)"
  unfolding AbandonRunningOperationAttempts_def StartOperationAttempt_def
    HeartbeatOperation_def CompleteOperation_def RetryOperation_def CancelOperation_def
    HeartbeatOperationAttempt_def SnoozeOperation_def
  by (intro pipe_rel.keeps pipe_rel.keeps_update_one pipe_rel.keeps_update_rows db_updates_pipe)+

lemma findIdempotentResourceCommand_pipe: "maintains (frame pipe) (findIdempotentResourceCommand k t i c ks)"
  unfolding findIdempotentResourceCommand_def Let_def by (intro pipe_rel.keeps read_statements_pipe)

lemmas event_pipe = append_event_log_only [THEN log_only_pipe] appendResourceEvent_log_only [THEN log_only_pipe]
  uuid_New_log_only [THEN log_only_pipe]

lemmas pipe_rules = pipe_rel.keeps read_statements_pipe other_statements_pipe resource_statements_pipe
  update_latest_cleanup_pipe MarkRSSEntryImportedForTask_pipe UpsertMediaArtifact_pipe CreateTaskCleanup_pipe
  MarkDownloadRSSEntryEnqueueFailed_pipe attempt_statements_pipe failing_statements_pipe lifecycle_statements_pipe findIdempotentResourceCommand_pipe event_pipe
  ScheduleInTx_sched_only [THEN sched_only_pipe] requestCancellations_sched_only [THEN sched_only_pipe]
  or_fail_maintains required_maintains

lemma cleanup_parts_pipe:
  "maintains (frame pipe) (scheduleTaskCleanupInTx env i j d)" "maintains (frame pipe) (scheduleRSSCompletionInTx env c)"
proof -
  show "maintains (frame pipe) (scheduleTaskCleanupInTx env i j d)" for i j d
    unfolding scheduleTaskCleanupInTx_def Let_def by (intro pipe_rules)
  then show "maintains (frame pipe) (scheduleRSSCompletionInTx env c)"
    unfolding scheduleRSSCompletionInTx_def appendRSSEvent_def by (intro pipe_rules)
qed

lemma finish_import_pipe: "maintains (frame pipe) (finish_import env c t)"
  unfolding finish_import_def Let_def by (intro pipe_rules cleanup_parts_pipe)

lemma BeginCleanup_pipe: "maintains (frame pipe) (BeginCleanup i j)"
  unfolding BeginCleanup_def Let_def by (intro pipe_rules)

lemma CompleteCleanup_pipe: "maintains (frame pipe) (CompleteCleanup env c)"
  unfolding CompleteCleanup_def by (intro pipe_rules)

lemma lockWorkflowForRetry_pipe: "maintains (frame pipe) (lockWorkflowForRetry i t r q)"
  unfolding lockWorkflowForRetry_def by (intro pipe_rules)

lemma schedule_retry_pipe: "maintains (frame pipe) (schedule_retry env i u s r)"
  unfolding schedule_retry_def retry_event_def by (intro pipe_rules)

lemma schedule_branch_pipe: "maintains (frame pipe) (schedule_branch env i k u b)"
  unfolding schedule_branch_def by (intro pipe_rules)

lemma lifecycle_pipe:
  "maintains (frame pipe) (Heartbeat i n)" "maintains (frame pipe) (SucceedAttempt env i n)"
  "maintains (frame pipe) (SnoozeAttempt i n)"
  unfolding Heartbeat_def SucceedAttempt_def SnoozeAttempt_def appendOperationEvent_def
  by (intro pipe_rules)+

section \<open>Runs of the pipeline\<close>

text \<open>
  One committed transaction of the system as the tables of a task see it: a handler of the media and task
  workflows, a task command, a call of the operation lifecycle, or any other transaction, which leaves
  these tables alone.
\<close>

inductive task_step :: "env \<Rightarrow> db \<Rightarrow> db \<Rightarrow> bool" for env where
  step_materialize: "MaterializeDownload env d o' a = Inr (u, b) \<Longrightarrow> task_step env a b"
| step_transcode: "BeginTranscode i a = Inr (mc, b) \<Longrightarrow> task_step env a b"
| step_subtitle: "BeginSubtitle i a = Inr (mc, b) \<Longrightarrow> task_step env a b"
| step_artifact: "CompleteArtifact env ac a = Inr (u, b) \<Longrightarrow> task_step env a b"
| step_finalize: "CompleteFinalize env i o' a = Inr (u, b) \<Longrightarrow> task_step env a b"
| step_review: "validateReviewTask rt = None \<Longrightarrow> review_tx env rt a = Inr (u, b) \<Longrightarrow> task_step env a b"
| step_queue: "validateQueueTaskImport qi = None \<Longrightarrow> queue_import_tx env qi a = Inr (ov, b) \<Longrightarrow> task_step env a b"
| step_begin_import: "BeginImport i j a = Inr (ic, b) \<Longrightarrow> task_step env a b"
| step_complete_import: "CompleteImport env ico a = Inr (u, b) \<Longrightarrow> task_step env a b"
| step_begin_cleanup: "BeginCleanup i j a = Inr (cc, b) \<Longrightarrow> task_step env a b"
| step_complete_cleanup: "CompleteCleanup env cco a = Inr (u, b) \<Longrightarrow> task_step env a b"
| step_retry: "retry_tx env i v k actor a = Inr (ov, b) \<Longrightarrow> task_step env a b"
| step_cancel: "cancel_tx env i v k actor a = Inr (ov, b) \<Longrightarrow> task_step env a b"
| step_schedule: "ScheduleInTx env r a = Inr (sr, b) \<Longrightarrow> task_step env a b"
| step_start: "StartAttempt env i n w a = Inr (ov, b) \<Longrightarrow> task_step env a b"
| step_heartbeat: "Heartbeat i n a = Inr (h, b) \<Longrightarrow> task_step env a b"
| step_succeed: "SucceedAttempt env i n a = Inr (u, b) \<Longrightarrow> task_step env a b"
| step_fail: "FailAttempt env i n c m rt a = Inr (u, b) \<Longrightarrow> task_step env a b"
| step_cancelled: "CancelAttempt env i n a = Inr (u, b) \<Longrightarrow> task_step env a b"
| step_snooze: "SnoozeAttempt i n a = Inr (u, b) \<Longrightarrow> task_step env a b"
| step_request: "requestResourceOperationCancellations env t j actor a = Inr (u, b) \<Longrightarrow> task_step env a b"
| step_other: "pipe b = pipe a \<Longrightarrow> task_step env a b"

section \<open>Relations kept by every handler\<close>

text \<open>
  The contract of a relation that the statements on the tables of a task keep. Every handler is built
  from these statements and from bodies that leave the tables alone, so every step of the system keeps
  the relation.
\<close>

locale task_statements = tx_relation R for R :: "db \<Rightarrow> db \<Rightarrow> bool" +
  assumes unchanged: "pipe b = pipe a \<Longrightarrow> R a b"
    and task_statements_R:
      "maintains R (StartTaskVideo i)"
      "maintains R (StartTaskSubtitle i)"
      "maintains R (MarkTaskVideoReady i)"
      "maintains R (MarkTaskSubtitleReady i)"
      "maintains R (MarkTaskFinalizingIfReady i)"
      "maintains R (MarkTaskAwaitingReview i)"
      "maintains R (MarkTaskImportQueued i v)"
      "maintains R (StartTaskImport i)"
      "maintains R (MarkTaskImported i)"
      "maintains R (MarkTaskCleanupRetryRequested i v)"
      "maintains R (RequeueTaskFinalizeBranch i)"
      "maintains R (RequeueTaskImportBranch i)"
      "maintains R (RequeueTaskFailedMediaBranches i v)"
      "maintains R (RequeueCancelledTaskAfterMedia i v s)"
      "maintains R (CancelEpisodeTaskIfActive i v)"
    and outcome_statements_R:
      "maintains R (MarkTaskVideoTerminalFailure c m j)"
      "maintains R (MarkTaskSubtitleTerminalFailure c m j)"
      "maintains R (MarkTaskFinalizeTerminalFailure c m j)"
      "maintains R (MarkTaskImportTerminalFailure c m j)"
      "maintains R (MarkTaskVideoCancelled j)"
      "maintains R (MarkTaskSubtitleCancelled j)"
      "maintains R (MarkTaskFinalizeCancelled j)"
      "maintains R (CancelTaskImport j)"
    and record_statements_R:
      "maintains R (CreateArtifactSet st)"
      "maintains R (CreateTaskImport i k)"
      "maintains R (StartImport i)"
      "maintains R (CompleteImport_stmt vp sp i)"
      "maintains R (RequeueLatestFailedTaskImport i)"
      "maintains R (RequeueCancelledTaskImport i)"
      "maintains R (MarkActiveImportTerminalFailure c m j)"
      "maintains R (CancelActiveImport j)"
    and MarkTaskReviewed_R: "d = TaskApproved \<or> d = TaskRejected \<Longrightarrow> maintains R (MarkTaskReviewed d i v)"
    and CreateTaskReview_R: "maintains R (CreateTaskReview rv)"
    and CreateEpisodeTask_R: "maintains R (CreateEpisodeTask (new_task i ac f mp tp mt))"
begin

lemma frame_R: "maintains (frame pipe) m \<Longrightarrow> maintains R m"
  by (erule maintains_mono) (simp add: frame_def unchanged)

lemmas step_rules = keeps task_statements_R outcome_statements_R record_statements_R MarkTaskReviewed_R CreateTaskReview_R
  CreateEpisodeTask_R or_fail_maintains required_maintains
  read_statements_pipe [THEN frame_R] other_statements_pipe [THEN frame_R]
  resource_statements_pipe [THEN frame_R] update_latest_cleanup_pipe [THEN frame_R]
  MarkRSSEntryImportedForTask_pipe [THEN frame_R] UpsertMediaArtifact_pipe [THEN frame_R]
  CreateTaskCleanup_pipe [THEN frame_R] MarkDownloadRSSEntryEnqueueFailed_pipe [THEN frame_R]
  attempt_statements_pipe [THEN frame_R] failing_statements_pipe [THEN frame_R]
  lifecycle_statements_pipe [THEN frame_R] findIdempotentResourceCommand_pipe [THEN frame_R]
  event_pipe [THEN frame_R] ScheduleInTx_sched_only [THEN sched_only_pipe, THEN frame_R]
  requestCancellations_sched_only [THEN sched_only_pipe, THEN frame_R]

lemma start_branch_R: "maintains R (start_branch k t)"
  unfolding start_branch_def Let_def by (cases k; simp only: MediaKind.case; intro step_rules)

lemma mark_branch_ready_R: "maintains R (mark_branch_ready ac)"
  unfolding mark_branch_ready_def by (cases "ac_Kind ac"; simp only: MediaKind.case; intro step_rules)

lemma beginTaskMedia_R: "maintains R (beginTaskMedia i k)"
  unfolding beginTaskMedia_def by (intro step_rules start_branch_R)

lemma workflow_R:
  "maintains R (BeginImport i j)" "maintains R (CompleteImport env ic)"
  "maintains R (queue_import_tx env qi)" "maintains R (BeginTranscode i)"
  "maintains R (BeginSubtitle i)" "maintains R (CompleteArtifact env ac)"
  "maintains R (CompleteFinalize env i j)"
  subgoal unfolding BeginImport_def Let_def by (intro step_rules)
  subgoal unfolding CompleteImport_def by (intro step_rules finish_import_pipe [THEN frame_R])
  subgoal unfolding queue_import_tx_def queue_new_import_def Let_def by (intro step_rules)
  subgoal unfolding BeginTranscode_def by (rule beginTaskMedia_R)
  subgoal unfolding BeginSubtitle_def by (rule beginTaskMedia_R)
  subgoal unfolding CompleteArtifact_def finalize_if_ready_def by (intro step_rules mark_branch_ready_R)
  subgoal unfolding CompleteFinalize_def await_review_def approveRSSReviewInTx_def Let_def by (intro step_rules) simp
  done

lemma review_tx_R: "validateReviewTask input = None \<Longrightarrow> maintains R (review_tx env input)"
  unfolding review_tx_def record_review_def queue_approved_import_def Let_def
  by (intro step_rules) (auto simp: validateReviewTask_def split: if_splits)

lemma materialize_video_R: "maintains R (materialize_video env d i l mt pr v)"
  unfolding materialize_video_def Let_def by (intro step_rules)

lemma MaterializeDownload_R: "maintains R (MaterializeDownload env d i)"
  unfolding MaterializeDownload_def materialize_videos_def first_error_def Let_def
  by (intro step_rules materialize_video_R)

lemma retry_tx_R: "maintains R (retry_tx env i v k u)"
proof -
  note parts = schedule_retry_pipe [THEN frame_R] schedule_branch_pipe [THEN frame_R]
    lockWorkflowForRetry_pipe [THEN frame_R]
  have "maintains R (retry_media env i v k u t)" for t
    unfolding retry_media_def retry_event_def Let_def by (intro step_rules parts)
  moreover have "maintains R (retryCancelledAfterMedia env i v k u)"
    unfolding retryCancelledAfterMedia_def Let_def by (intro step_rules parts)
  moreover have "maintains R (retry_failed env i k u t)" for t
    unfolding retry_failed_def Let_def by (intro step_rules parts)
  moreover have "maintains R (retry_cleanup env i v k u t)" for t
    unfolding retry_cleanup_def by (intro step_rules parts)
  ultimately show ?thesis
    unfolding retry_tx_def retry_locked_def Let_def by (intro step_rules parts)
qed

lemma cancel_tx_R: "maintains R (cancel_tx env i v k u)"
  unfolding cancel_tx_def by (intro step_rules)

lemma resource_R:
  "maintains R (failOperationResource env p c m r)" "maintains R (cancelOperationResource env p)"
  subgoal unfolding failOperationResource_def failAgentResolutionResource_def failDownloadEnqueueResource_def
    failDownloadPostEnqueueResource_def failSearchRunResource_def failTaskMediaResource_def failTaskImportResource_def
    failTaskCleanupResource_def failEmbyScanResource_def appendSearchLifecycleEvent_def appendTaskLifecycleEvent_def
    MarkActiveCleanupTerminalFailure_def Let_def
    by (intro step_rules)
  subgoal unfolding cancelOperationResource_def failAgentResolutionResource_def failEmbyScanResource_def
    appendSearchLifecycleEvent_def appendTaskLifecycleEvent_def CancelActiveCleanup_def Let_def
    by (intro step_rules)
  done

lemma lifecycle_R:
  "maintains R (StartAttempt env i n w)" "maintains R (FailAttempt env i n c m r)"
  "maintains R (CancelAttempt env i n)"
  unfolding StartAttempt_def FailAttempt_def CancelAttempt_def appendOperationEvent_def
  by (intro step_rules resource_R)+

lemma task_step_R: "task_step env a b \<Longrightarrow> R a b"
proof (induction rule: task_step.induct)
  case (step_other b a)
  then show ?case by (rule unchanged)
qed (blast intro: MaterializeDownload_R [THEN maintainsD] workflow_R [THEN maintainsD] review_tx_R [THEN maintainsD]
      retry_tx_R [THEN maintainsD] cancel_tx_R [THEN maintainsD] lifecycle_R [THEN maintainsD]
      BeginCleanup_pipe [THEN frame_R, THEN maintainsD] CompleteCleanup_pipe [THEN frame_R, THEN maintainsD]
      lifecycle_pipe [THEN frame_R, THEN maintainsD] ScheduleInTx_sched_only [THEN sched_only_pipe, THEN frame_R, THEN maintainsD]
      requestCancellations_sched_only [THEN sched_only_pipe, THEN frame_R, THEN maintainsD])+

lemma task_steps_R: "(task_step env)\<^sup>*\<^sup>* a b \<Longrightarrow> R a b"
  by (induction rule: rtranclp_induct) (auto intro: rel_refl rel_trans task_step_R)

end

text \<open>The statements on the other three tables.\<close>

lemma record_statements_frame:
  "maintains (frame tasks) (CreateArtifactSet s)" "maintains (frame tasks) (CreateTaskReview r)"
  "maintains (frame tasks) (CreateTaskImport i t)" "maintains (frame tasks) (update_latest_import ip j g)"
  by (auto simp: maintains_def frame_def CreateArtifactSet_def CreateTaskReview_def CreateTaskImport_def update_latest_import_def
    insert_row_Inr_iff update_one_Inr_iff Let_def split: if_splits option.splits)

lemma import_statements_frame:
  "maintains (frame tasks) (StartImport i)" "maintains (frame tasks) (CompleteImport_stmt v s i)"
  "maintains (frame tasks) (RequeueLatestFailedTaskImport t)" "maintains (frame tasks) (RequeueCancelledTaskImport t)"
  "maintains (frame tasks) (MarkActiveImportTerminalFailure c m j)" "maintains (frame tasks) (CancelActiveImport j)"
  unfolding StartImport_def CompleteImport_stmt_def RequeueLatestFailedTaskImport_def RequeueCancelledTaskImport_def
    MarkActiveImportTerminalFailure_def CancelActiveImport_def
  by (intro checked_maintains record_statements_frame tx_relation.keeps_update_one [OF tx_relation_frame];
    simp add: frame_def)+

end
