(* ===== verification/TaskRows.thy ===== *)
theory TaskRows
  imports TaskFrames
begin

text \<open>
  What the statements and the handlers may do to the rows of \<^verbatim>\<open>episode_tasks\<close>: the checks of the schema
  always hold, rows are never lost, every change increases the version (the optimistic lock) and moves
  the state along \<open>task_edge\<close>.
\<close>

section \<open>Rows of a task\<close>

text \<open>The states in which both media branches are done.\<close>

definition late_state :: "TaskState \<Rightarrow> bool" where
  "late_state s \<longleftrightarrow> s = TaskFinalizing \<or> s = TaskAwaitingReview \<or> s = TaskApproved \<or> s = TaskRejected \<or>
     s = TaskImportQueued \<or> s = TaskImporting \<or> s = TaskImported"

definition failure_stages :: "string list" where
  "failure_stages = [''video'', ''subtitle'', ''finalize'', ''import'']"

text \<open>
  The checks of the schema (\<^verbatim>\<open>episode_tasks_version_positive\<close>, \<^verbatim>\<open>episode_tasks_failure_stage_valid\<close>,
  \<^verbatim>\<open>episode_tasks_failure_consistent\<close>) and what the statements rely on beyond them.
\<close>

definition task_row_ok :: "EpisodeTask \<Rightarrow> bool" where
  "task_row_ok r \<longleftrightarrow>
     0 < tk_version r \<and> (tk_failure_stage r \<noteq> None \<longleftrightarrow> tk_state r = TaskFailed) \<and>
     pred_option (\<lambda>s. s \<in> set failure_stages) (tk_failure_stage r) \<and>
     (late_state (tk_state r) \<longrightarrow> both_ready r) \<and>
     (tk_failure_stage r = Some ''video'' \<longrightarrow> tk_video_state r = VideoFailed) \<and>
     (tk_failure_stage r = Some ''subtitle'' \<longrightarrow> tk_subtitle_state r = SubtitleFailed) \<and>
     (tk_failure_stage r = Some ''finalize'' \<or> tk_failure_stage r = Some ''import'' \<longrightarrow> both_ready r)"

text \<open>
  The state changes the statements make: none, one of \<^verbatim>\<open>ValidateTaskTransition\<close>, or one that a retry or
  the late outcome of a branch adds to them.
\<close>

fun retry_successors :: "TaskState \<Rightarrow> TaskState list" where
  "retry_successors TaskFailed = [TaskFinalizing]"
| "retry_successors TaskCancelled = [TaskProcessing, TaskFinalizing, TaskImportQueued, TaskFailed]"
| "retry_successors _ = []"

definition task_edge :: "TaskState \<Rightarrow> TaskState \<Rightarrow> bool" where
  "task_edge s t \<longleftrightarrow> s = t \<or> t \<in> set (task_successors s) \<or> t \<in> set (retry_successors s)"

text \<open>The columns no statement writes after the insert.\<close>

definition task_identity :: "EpisodeTask \<Rightarrow> uuid \<times> uuid \<times> uuid \<times> uuid option \<times> uuid \<times> TaskMediaType" where
  "task_identity r = (tk_id r, tk_acquisition_id r, tk_source_video_file_id r, tk_mapping_id r,
     tk_transcode_profile_id r, tk_media_type r)"

definition row_step :: "EpisodeTask \<Rightarrow> EpisodeTask \<Rightarrow> bool" where
  "row_step r q \<longleftrightarrow> task_row_ok q \<and> task_identity q = task_identity r \<and> tk_version q = tk_version r + 1 \<and>
     task_edge (tk_state r) (tk_state q)"

definition task_advance :: "EpisodeTask \<Rightarrow> EpisodeTask \<Rightarrow> bool" where
  "task_advance r q \<longleftrightarrow> q = r \<or>
     task_identity q = task_identity r \<and> tk_version r < tk_version q \<and> task_edge\<^sup>*\<^sup>* (tk_state r) (tk_state q)"

definition rows_ok :: "db \<Rightarrow> bool" where
  "rows_ok db \<longleftrightarrow> distinct (map tk_id (tasks db)) \<and> (\<forall>r \<in> set (tasks db). task_row_ok r)"

text \<open>Every row is still there, unchanged or with a larger version and a state reached along the edges.\<close>

definition tasks_advance :: "db \<Rightarrow> db \<Rightarrow> bool" where
  "tasks_advance a b \<longleftrightarrow> (rows_ok a \<longrightarrow>
     rows_ok b \<and> (\<forall>r \<in> set (tasks a). \<exists>q \<in> set (tasks b). task_advance r q))"

lemma row_step_advance: "row_step r q \<Longrightarrow> task_advance r q"
  by (auto simp: row_step_def task_advance_def)

lemma task_advance_trans: "task_advance r q \<Longrightarrow> task_advance q s \<Longrightarrow> task_advance r s"
  by (auto simp: task_advance_def)

lemma task_advance_id: "task_advance r q \<Longrightarrow> tk_id q = tk_id r"
  by (auto simp: task_advance_def task_identity_def)

interpretation advance_rel: tx_relation tasks_advance
proof
  show "tasks_advance db db" for db
    by (auto simp: tasks_advance_def task_advance_def)
  show "tasks_advance a b \<Longrightarrow> tasks_advance b c \<Longrightarrow> tasks_advance a c" for a b c
    unfolding tasks_advance_def by (meson task_advance_trans)
qed

lemma tasks_advance_frame: "tasks b = tasks a \<Longrightarrow> tasks_advance a b"
  by (auto simp: tasks_advance_def rows_ok_def task_advance_def)

lemma tasks_advance_update:
  assumes "\<And>r. r \<in> set (tasks a) \<Longrightarrow> p r \<Longrightarrow> task_row_ok r \<Longrightarrow> row_step r (f r)"
  shows "tasks_advance a (tasks_update (upd_row p f) a)"
  unfolding tasks_advance_def
proof (intro impI conjI ballI)
  assume ok: "rows_ok a"
  have ids: "map tk_id (upd_row p f (tasks a)) = map tk_id (tasks a)"
    using assms ok by (auto simp: upd_row_def rows_ok_def row_step_def task_identity_def)
  show "rows_ok (tasks_update (upd_row p f) a)"
    using ok ids assms by (auto simp: rows_ok_def in_set_upd_row_iff row_step_def)
  fix r assume "r \<in> set (tasks a)"
  then show "\<exists>q \<in> set (tasks (tasks_update (upd_row p f) a)). task_advance r q"
    using ok assms row_step_advance [of r "f r"]
    by (intro bexI [of _ "if p r then f r else r"]) (auto simp: in_set_upd_row_iff rows_ok_def task_advance_def [of r r])
qed

lemma update_task_advance:
  assumes "\<And>db r. p db r \<Longrightarrow> task_row_ok r \<Longrightarrow> row_step r (f r)"
  shows "maintains tasks_advance (update_task p f)"
  unfolding maintains_def update_task_def update_where_def update_one_Inr_iff
  by (auto intro: advance_rel.rel_refl tasks_advance_update assms)

lemma update_task_one: "update_one tasks tasks_update p (\<lambda>now r. f r) = update_task (\<lambda>db. p) f"
  by (simp add: update_task_def update_where_def fun_eq_iff)

lemma late_active: "task_row_ok r \<Longrightarrow> video_active r \<or> subtitle_active r \<Longrightarrow>
    \<not> late_state (tk_state r) \<and> tk_failure_stage r \<noteq> Some ''finalize'' \<and> tk_failure_stage r \<noteq> Some ''import''"
  by (auto simp: task_row_ok_def both_ready_def video_active_def subtitle_active_def)

lemma not_late_iff:
  "\<not> late_state s \<longleftrightarrow> s = TaskMediaQueued \<or> s = TaskProcessing \<or> s = TaskFailed \<or> s = TaskCancelled"
  by (cases s) (simp_all add: late_state_def)

lemmas task_row_defs = row_step_def task_row_ok_def task_identity_def task_edge_def late_state_def failure_stages_def
  both_ready_def task_failed_def task_cleared_def error_cleared_def bump_def task_running_def started_state_def
  media_startable_def video_active_def subtitle_active_def media_requeued_def media_requeueable_def
  task_stopped_def task_settled_def video_stopped_def subtitle_stopped_def

lemma active_states:
  assumes "task_row_ok r" "video_active r \<or> subtitle_active r"
  obtains "tk_state r = TaskMediaQueued" | "tk_state r = TaskProcessing" | "tk_state r = TaskFailed" | "tk_state r = TaskCancelled"
  using late_active [OF assms] not_late_iff by blast

lemma failure_rows:
  assumes ok: "task_row_ok r"
  shows "video_active r \<Longrightarrow> row_step r (task_failed ''video'' c m (r\<lparr>tk_video_state := VideoFailed\<rparr>))"
    and "subtitle_active r \<Longrightarrow> row_step r (task_failed ''subtitle'' c m (r\<lparr>tk_subtitle_state := SubtitleFailed\<rparr>))"
    and "tk_state r = TaskFinalizing \<Longrightarrow> row_step r (task_failed ''finalize'' c m r)"
    and "tk_state r = TaskImportQueued \<or> tk_state r = TaskImporting \<Longrightarrow> row_step r (task_failed ''import'' c m r)"
  subgoal by (rule active_states [OF ok]) (use ok in \<open>simp_all add: task_row_defs\<close>)
  subgoal by (rule active_states [OF ok]) (use ok in \<open>simp_all add: task_row_defs\<close>)
  subgoal using ok by (simp add: task_row_defs)
  subgoal using ok by (elim disjE) (simp_all add: task_row_defs)
  done

lemma cancelled_rows:
  assumes ok: "task_row_ok r"
  shows "video_active r \<Longrightarrow> row_step r (task_cleared TaskCancelled (r\<lparr>tk_video_state := VideoCancelled\<rparr>))"
    and "subtitle_active r \<Longrightarrow> row_step r (task_cleared TaskCancelled (r\<lparr>tk_subtitle_state := SubtitleCancelled\<rparr>))"
    and "tk_state r = TaskFinalizing \<Longrightarrow> row_step r (task_cleared TaskCancelled r)"
    and "tk_state r = TaskImportQueued \<or> tk_state r = TaskImporting \<Longrightarrow> row_step r (task_cleared TaskCancelled r)"
    and "\<not> task_settled (tk_state r) \<Longrightarrow> row_step r (task_stopped r)"
  subgoal by (rule active_states [OF ok]) (use ok in \<open>simp_all add: task_row_defs\<close>)
  subgoal by (rule active_states [OF ok]) (use ok in \<open>simp_all add: task_row_defs\<close>)
  subgoal using ok by (simp add: task_row_defs)
  subgoal using ok by (elim disjE) (simp_all add: task_row_defs)
  subgoal using ok by (cases "tk_state r") (simp_all add: task_row_defs)
  done

lemma media_rows:
  assumes ok: "task_row_ok r"
  shows "media_startable (tk_state r) \<Longrightarrow> video_active r \<Longrightarrow> row_step r (task_running (r\<lparr>tk_video_state := VideoTranscoding\<rparr>))"
    and "media_startable (tk_state r) \<Longrightarrow> subtitle_active r \<Longrightarrow>
           row_step r (task_running (r\<lparr>tk_subtitle_state := SubtitleExtractingConverting\<rparr>))"
    and "video_active r \<Longrightarrow> row_step r (bump (r\<lparr>tk_video_state := VideoReady\<rparr>))"
    and "subtitle_active r \<Longrightarrow> row_step r (bump (r\<lparr>tk_subtitle_state := SubtitleASSReady\<rparr>))"
    and "tk_state r = TaskProcessing \<Longrightarrow> both_ready r \<Longrightarrow> row_step r (bump (r\<lparr>tk_state := TaskFinalizing\<rparr>))"
    and "tk_state r = TaskFinalizing \<Longrightarrow> row_step r (error_cleared TaskAwaitingReview r)"
    and "media_requeueable r \<Longrightarrow> row_step r (media_requeued r)"
  subgoal by (rule active_states [OF ok]) (use ok in \<open>simp_all add: task_row_defs, auto\<close>)
  subgoal by (rule active_states [OF ok]) (use ok in \<open>simp_all add: task_row_defs, auto\<close>)
  subgoal by (rule active_states [OF ok]) (use ok in \<open>simp_all add: task_row_defs, auto\<close>)
  subgoal by (rule active_states [OF ok]) (use ok in \<open>simp_all add: task_row_defs, auto\<close>)
  subgoal using ok by (simp add: task_row_defs)
  subgoal using ok by (simp add: task_row_defs)
  subgoal using ok by (cases "tk_state r") (simp_all add: task_row_defs)
  done

lemma review_rows:
  assumes ok: "task_row_ok r"
  shows "tk_state r = TaskAwaitingReview \<Longrightarrow> d = TaskApproved \<or> d = TaskRejected \<Longrightarrow> row_step r (error_cleared d r)"
    and "tk_state r = TaskApproved \<Longrightarrow> row_step r (error_cleared TaskImportQueued r)"
    and "tk_state r = TaskImportQueued \<or> tk_state r = TaskImporting \<Longrightarrow> row_step r (bump (r\<lparr>tk_state := TaskImporting\<rparr>))"
    and "tk_state r = TaskImporting \<Longrightarrow> row_step r (task_cleared TaskImported r)"
    and "row_step r (bump r)"
    and "tk_state r = TaskFailed \<Longrightarrow> both_ready r \<Longrightarrow> row_step r (task_cleared TaskFinalizing r)"
    and "tk_state r = TaskFailed \<Longrightarrow> tk_failure_stage r = Some ''import'' \<Longrightarrow> row_step r (task_cleared TaskImportQueued r)"
    and "tk_state r = TaskCancelled \<Longrightarrow> both_ready r \<Longrightarrow> s = TaskFinalizing \<or> s = TaskImportQueued \<Longrightarrow>
           row_step r (task_cleared s r)"
  subgoal using ok by (elim disjE) (simp_all add: task_row_defs)
  subgoal using ok by (simp add: task_row_defs)
  subgoal using ok by (elim disjE) (simp_all add: task_row_defs)
  subgoal using ok by (simp add: task_row_defs)
  subgoal using ok by (simp add: row_step_def bump_def task_row_ok_def both_ready_def task_identity_def task_edge_def)
  subgoal using ok by (simp add: task_row_defs)
  subgoal using ok by (simp add: task_row_defs)
  subgoal using ok by (elim disjE) (simp_all add: task_row_defs)
  done

text \<open>Every statement on tasks makes such a step.\<close>

lemma task_statements_advance:
  "maintains tasks_advance (StartTaskVideo i)" "maintains tasks_advance (StartTaskSubtitle i)"
  "maintains tasks_advance (MarkTaskVideoReady i)" "maintains tasks_advance (MarkTaskSubtitleReady i)"
  "maintains tasks_advance (MarkTaskFinalizingIfReady i)" "maintains tasks_advance (MarkTaskAwaitingReview i)"
  "maintains tasks_advance (MarkTaskImportQueued i v)" "maintains tasks_advance (StartTaskImport i)"
  "maintains tasks_advance (MarkTaskImported i)" "maintains tasks_advance (MarkTaskCleanupRetryRequested i v)"
  "maintains tasks_advance (RequeueTaskFinalizeBranch i)" "maintains tasks_advance (RequeueTaskImportBranch i)"
  "maintains tasks_advance (RequeueTaskFailedMediaBranches i v)"
  "maintains tasks_advance (RequeueCancelledTaskAfterMedia i v s)"
  "maintains tasks_advance (CancelEpisodeTaskIfActive i v)"
  unfolding StartTaskVideo_def StartTaskSubtitle_def MarkTaskVideoReady_def MarkTaskSubtitleReady_def
    MarkTaskFinalizingIfReady_def MarkTaskAwaitingReview_def MarkTaskImportQueued_def StartTaskImport_def
    MarkTaskImported_def MarkTaskCleanupRetryRequested_def RequeueTaskFinalizeBranch_def RequeueTaskImportBranch_def
    RequeueTaskFailedMediaBranches_def RequeueCancelledTaskAfterMedia_def CancelEpisodeTaskIfActive_def
  by (rule update_task_advance, blast intro: media_rows review_rows cancelled_rows)+

lemma MarkTaskReviewed_advance:
  "d = TaskApproved \<or> d = TaskRejected \<Longrightarrow> maintains tasks_advance (MarkTaskReviewed d i v)"
  unfolding MarkTaskReviewed_def by (rule update_task_advance) (blast intro: review_rows)

lemma outcome_statements_advance:
  "maintains tasks_advance (MarkTaskVideoTerminalFailure c m j)" "maintains tasks_advance (MarkTaskSubtitleTerminalFailure c m j)"
  "maintains tasks_advance (MarkTaskFinalizeTerminalFailure c m j)" "maintains tasks_advance (MarkTaskImportTerminalFailure c m j)"
  "maintains tasks_advance (MarkTaskVideoCancelled j)" "maintains tasks_advance (MarkTaskSubtitleCancelled j)"
  "maintains tasks_advance (MarkTaskFinalizeCancelled j)" "maintains tasks_advance (CancelTaskImport j)"
  unfolding MarkTaskVideoTerminalFailure_def MarkTaskSubtitleTerminalFailure_def MarkTaskFinalizeTerminalFailure_def
    MarkTaskImportTerminalFailure_def MarkTaskVideoCancelled_def MarkTaskSubtitleCancelled_def
    MarkTaskFinalizeCancelled_def CancelTaskImport_def update_task_one
  by (rule update_task_advance, blast intro: failure_rows cancelled_rows)+

lemma new_task_row_ok: "task_row_ok (new_task i a f m p t)"
  by (simp add: new_task_def task_row_defs)

lemma CreateEpisodeTask_advance: "task_row_ok t \<Longrightarrow> maintains tasks_advance (CreateEpisodeTask t)"
  by (auto simp: maintains_def CreateEpisodeTask_def tx_bind_eq_Inr_iff insert_row_Inr_iff tasks_advance_def rows_ok_def
    task_advance_def split: if_splits)

lemma tasks_frame_advance: "maintains (frame tasks) m \<Longrightarrow> maintains tasks_advance m"
  by (erule maintains_mono) (simp add: frame_def tasks_advance_frame)

interpretation task_rel: task_statements tasks_advance
  by unfold_locales
    (simp_all add: tasks_advance_frame pipe_eq_iff task_statements_advance outcome_statements_advance MarkTaskReviewed_advance
      record_statements_frame [THEN tasks_frame_advance] import_statements_frame [THEN tasks_frame_advance]
      CreateEpisodeTask_advance [OF new_task_row_ok])

section \<open>Reviews are kept\<close>

definition reviews_grow :: "db \<Rightarrow> db \<Rightarrow> bool" where
  "reviews_grow a b \<longleftrightarrow> (\<exists>rs. reviews b = reviews a @ rs)"

lemma reviews_frame_grow: "maintains (frame reviews) m \<Longrightarrow> maintains reviews_grow m"
  by (erule maintains_mono) (simp add: frame_def reviews_grow_def)

lemma update_task_reviews: "maintains (frame reviews) (update_task p f)"
  by (auto simp: maintains_def frame_def update_task_def update_where_def update_one_Inr_iff)

lemma task_statements_reviews:
  "maintains (frame reviews) (StartTaskVideo i)" "maintains (frame reviews) (StartTaskSubtitle i)"
  "maintains (frame reviews) (MarkTaskVideoReady i)" "maintains (frame reviews) (MarkTaskSubtitleReady i)"
  "maintains (frame reviews) (MarkTaskFinalizingIfReady i)" "maintains (frame reviews) (MarkTaskAwaitingReview i)"
  "maintains (frame reviews) (MarkTaskImportQueued i v)" "maintains (frame reviews) (StartTaskImport i)"
  "maintains (frame reviews) (MarkTaskImported i)" "maintains (frame reviews) (MarkTaskCleanupRetryRequested i v)"
  "maintains (frame reviews) (RequeueTaskFinalizeBranch i)" "maintains (frame reviews) (RequeueTaskImportBranch i)"
  "maintains (frame reviews) (RequeueTaskFailedMediaBranches i v)"
  "maintains (frame reviews) (RequeueCancelledTaskAfterMedia i v s)"
  "maintains (frame reviews) (CancelEpisodeTaskIfActive i v)" "maintains (frame reviews) (MarkTaskReviewed d i v)"
  "maintains (frame reviews) (MarkTaskVideoTerminalFailure c m j)" "maintains (frame reviews) (MarkTaskSubtitleTerminalFailure c m j)"
  "maintains (frame reviews) (MarkTaskFinalizeTerminalFailure c m j)" "maintains (frame reviews) (MarkTaskImportTerminalFailure c m j)"
  "maintains (frame reviews) (MarkTaskVideoCancelled j)" "maintains (frame reviews) (MarkTaskSubtitleCancelled j)"
  "maintains (frame reviews) (MarkTaskFinalizeCancelled j)" "maintains (frame reviews) (CancelTaskImport j)"
  unfolding StartTaskVideo_def StartTaskSubtitle_def MarkTaskVideoReady_def MarkTaskSubtitleReady_def
    MarkTaskFinalizingIfReady_def MarkTaskAwaitingReview_def MarkTaskImportQueued_def StartTaskImport_def
    MarkTaskImported_def MarkTaskCleanupRetryRequested_def RequeueTaskFinalizeBranch_def RequeueTaskImportBranch_def
    RequeueTaskFailedMediaBranches_def RequeueCancelledTaskAfterMedia_def CancelEpisodeTaskIfActive_def MarkTaskReviewed_def
    MarkTaskVideoTerminalFailure_def MarkTaskSubtitleTerminalFailure_def MarkTaskFinalizeTerminalFailure_def
    MarkTaskImportTerminalFailure_def MarkTaskVideoCancelled_def MarkTaskSubtitleCancelled_def
    MarkTaskFinalizeCancelled_def CancelTaskImport_def update_task_one
  by (rule update_task_reviews)+

lemma record_statements_reviews:
  "maintains (frame reviews) (CreateArtifactSet st)" "maintains (frame reviews) (CreateTaskImport i k)"
  "maintains (frame reviews) (update_latest_import ip j g)" "maintains (frame reviews) (CreateEpisodeTask t)"
  by (auto simp: maintains_def frame_def CreateArtifactSet_def CreateTaskImport_def update_latest_import_def CreateEpisodeTask_def
    tx_bind_eq_Inr_iff insert_row_Inr_iff update_one_Inr_iff Let_def split: if_splits option.splits)

lemma import_statements_reviews:
  "maintains (frame reviews) (StartImport i)" "maintains (frame reviews) (CompleteImport_stmt vp sp i)"
  "maintains (frame reviews) (RequeueLatestFailedTaskImport i)" "maintains (frame reviews) (RequeueCancelledTaskImport i)"
  "maintains (frame reviews) (MarkActiveImportTerminalFailure c m j)" "maintains (frame reviews) (CancelActiveImport j)"
  unfolding StartImport_def CompleteImport_stmt_def RequeueLatestFailedTaskImport_def RequeueCancelledTaskImport_def
    MarkActiveImportTerminalFailure_def CancelActiveImport_def
  by (intro checked_maintains record_statements_reviews tx_relation.keeps_update_one [OF tx_relation_frame];
    simp add: frame_def)+

lemma CreateTaskReview_grows: "maintains reviews_grow (CreateTaskReview r)"
  by (auto simp: maintains_def reviews_grow_def CreateTaskReview_def insert_row_Inr_iff)

interpretation review_rel: task_statements reviews_grow
proof
  show "reviews_grow a c" if "reviews_grow a b" "reviews_grow b c" for a b c
    using that by (auto simp: reviews_grow_def)
qed (simp_all add: task_statements_reviews [THEN reviews_frame_grow] record_statements_reviews [THEN reviews_frame_grow]
      import_statements_reviews [THEN reviews_frame_grow] CreateTaskReview_grows, simp_all add: reviews_grow_def pipe_eq_iff)

end
