(* ===== verification/TaskPipeline.thy ===== *)
theory TaskPipeline
  imports TaskRows
begin

text \<open>
  The life of a task across its tables. Assertions about transaction bodies (\<open>triple\<close>, in the style of a
  Hoare logic with the statements as commands) carry the invariant \<open>pipe_inv\<close> through the handlers: what
  has to be recorded in \<^verbatim>\<open>artifact_sets\<close>, \<^verbatim>\<open>reviews\<close> and \<^verbatim>\<open>imports\<close> for a task in each state.
\<close>

section \<open>Assertions about a body\<close>

definition triple :: "(db \<Rightarrow> bool) \<Rightarrow> 'a tx \<Rightarrow> ('a \<Rightarrow> db \<Rightarrow> bool) \<Rightarrow> bool" where
  "triple P m Q \<longleftrightarrow> (\<forall>db x db'. P db \<longrightarrow> m db = Inr (x, db') \<longrightarrow> Q x db')"

lemma tripleD: "triple P m Q \<Longrightarrow> P db \<Longrightarrow> m db = Inr (x, db') \<Longrightarrow> Q x db'"
  by (auto simp: triple_def)

lemma tripleI: "(\<And>db x db'. P db \<Longrightarrow> m db = Inr (x, db') \<Longrightarrow> Q x db') \<Longrightarrow> triple P m Q"
  by (auto simp: triple_def)

lemma triple_keeping: "triple P m (\<lambda>_. P) \<longleftrightarrow> maintains (keeping P) m"
  by (auto simp: triple_def maintains_def keeping_def)

lemma triple_bind: "triple P m R \<Longrightarrow> (\<And>x. triple (R x) (f x) Q) \<Longrightarrow> triple P (tx_bind m f) Q"
  unfolding triple_def tx_bind_eq_Inr_iff by meson

lemma triple_seq: "triple P m (\<lambda>_. R) \<Longrightarrow> triple R k Q \<Longrightarrow> triple P (tx_seq m k) Q"
  unfolding triple_def tx_seq_eq_Inr_iff by meson

lemma triple_return: "(\<And>db. P db \<Longrightarrow> Q x db) \<Longrightarrow> triple P (tx_return x) Q"
  by (simp add: triple_def)

lemma triple_fail: "triple P (tx_fail e) Q"
  by (simp add: triple_def)

lemma triple_if: "(b \<Longrightarrow> triple P m Q) \<Longrightarrow> (\<not> b \<Longrightarrow> triple P k Q) \<Longrightarrow> triple P (if b then m else k) Q"
  by simp

lemma triple_option:
  "(v = None \<Longrightarrow> triple P m Q) \<Longrightarrow> (\<And>x. v = Some x \<Longrightarrow> triple P (f x) Q) \<Longrightarrow>
     triple P (case v of None \<Rightarrow> m | Some x \<Rightarrow> f x) Q"
  by (cases v) simp_all

lemma triple_sum:
  "(\<And>x. v = Inl x \<Longrightarrow> triple P (f x) Q) \<Longrightarrow> (\<And>x. v = Inr x \<Longrightarrow> triple P (g x) Q) \<Longrightarrow>
     triple P (case v of Inl x \<Rightarrow> f x | Inr x \<Rightarrow> g x) Q"
  by (cases v) simp_all

lemma triple_pre: "triple P m Q \<Longrightarrow> (\<And>db. P' db \<Longrightarrow> P db) \<Longrightarrow> triple P' m Q"
  unfolding triple_def by blast

lemma triple_post: "triple P m Q \<Longrightarrow> (\<And>x db. Q x db \<Longrightarrow> Q' x db) \<Longrightarrow> triple P m Q'"
  unfolding triple_def by blast

lemma triple_or_fail: "triple P m Q \<Longrightarrow> triple P (or_fail e m) (\<lambda>x. Q (Some x))"
  unfolding triple_def or_fail_def tx_bind_eq_Inr_iff by (force split: option.splits)

lemma triple_required: "triple P m Q \<Longrightarrow> triple P (required w m) (\<lambda>x. Q (Some x))"
  unfolding triple_def required_def tx_bind_eq_Inr_iff by (force split: option.splits)

text \<open>Assertions on the four tables survive every body that leaves the tables alone.\<close>

definition on_pipe :: "(db \<Rightarrow> bool) \<Rightarrow> bool" where
  "on_pipe P \<longleftrightarrow> (\<forall>a b. pipe b = pipe a \<longrightarrow> P a \<longrightarrow> P b)"

lemma triple_frame: "maintains (frame pipe) m \<Longrightarrow> on_pipe P \<Longrightarrow> triple P m (\<lambda>_. P)"
  unfolding triple_def maintains_def on_pipe_def frame_def by blast

lemma on_pipe_conj: "on_pipe P \<Longrightarrow> on_pipe Q \<Longrightarrow> on_pipe (\<lambda>db. P db \<and> Q db)"
  unfolding on_pipe_def by blast

section \<open>The invariant\<close>

definition paired_state :: "TaskState \<Rightarrow> bool" where
  "paired_state s \<longleftrightarrow> s = TaskAwaitingReview \<or> s = TaskApproved \<or> s = TaskRejected \<or> s = TaskImportQueued \<or>
     s = TaskImporting \<or> s = TaskImported"

definition approved_state :: "TaskState \<Rightarrow> bool" where
  "approved_state s \<longleftrightarrow> s = TaskApproved \<or> s = TaskImportQueued \<or> s = TaskImporting \<or> s = TaskImported"

definition importing_state :: "TaskState \<Rightarrow> bool" where
  "importing_state s \<longleftrightarrow> s = TaskImportQueued \<or> s = TaskImporting"

text \<open>
  What the other tables hold for a task in its state. The set \<open>X\<close> names the tasks that are exempt from
  having an active import while a handler is between its statements.
\<close>

definition task_recorded :: "uuid set \<Rightarrow> db \<Rightarrow> EpisodeTask \<Rightarrow> bool" where
  "task_recorded X db r \<longleftrightarrow>
     (paired_state (tk_state r) \<longrightarrow> has_artifact_set db (tk_id r)) \<and>
     (approved_state (tk_state r) \<longrightarrow> has_review db (tk_id r) TaskApproved) \<and>
     (tk_state r = TaskRejected \<longrightarrow> has_review db (tk_id r) TaskRejected) \<and>
     (importing_state (tk_state r) \<longrightarrow> tk_id r \<in> X \<or> has_import db (tk_id r) import_active) \<and>
     (tk_state r = TaskImported \<longrightarrow> has_import db (tk_id r) import_succeeded) \<and>
     (tk_state r = TaskFailed \<and> tk_failure_stage r = Some ''import'' \<longrightarrow> has_import db (tk_id r) import_failed)"

definition import_recorded :: "db \<Rightarrow> Import \<Rightarrow> bool" where
  "import_recorded db r \<longleftrightarrow> has_artifact_set db (im_task_id r) \<and> has_review db (im_task_id r) TaskApproved \<and>
     (import_succeeded r \<longrightarrow> (\<exists>v s. im_video_path r = Some v \<and> im_subtitle_path r = Some s \<and>
        trim_space v \<noteq> [] \<and> trim_space s \<noteq> []))"

definition pipe_inv :: "uuid set \<Rightarrow> db \<Rightarrow> bool" where
  "pipe_inv X db \<longleftrightarrow>
     distinct (map tk_id (tasks db)) \<and> (\<forall>r \<in> set (tasks db). task_recorded X db r) \<and> (\<forall>r \<in> set (imports_tab db). import_recorded db r) \<and>
     distinct (map im_id (imports_tab db)) \<and> imports_unique db \<and> distinct (map rv_task_id (reviews db))"

lemma on_pipe_facts:
  "on_pipe (pipe_inv X)" "on_pipe (\<lambda>db. has_artifact_set db i)" "on_pipe (\<lambda>db. has_review db i d)"
  "on_pipe (\<lambda>db. has_import db i p)"
  unfolding on_pipe_def pipe_eq_iff
  by (simp_all add: pipe_inv_def task_recorded_def import_recorded_def has_artifact_set_def has_review_def has_import_def
    imports_unique_def)

text \<open>Facts about the records of a task do not look at the tasks.\<close>

definition on_records :: "(db \<Rightarrow> bool) \<Rightarrow> bool" where
  "on_records F \<longleftrightarrow> (\<forall>f db. F (tasks_update f db) \<longleftrightarrow> F db)"

lemma on_records_facts:
  "on_records (\<lambda>db. has_artifact_set db i)" "on_records (\<lambda>db. has_review db i d)" "on_records (\<lambda>db. has_import db i p)"
  "on_records (\<lambda>db. True)"
  by (simp_all add: on_records_def has_artifact_set_def has_review_def has_import_def)

lemma on_records_conj: "on_records F \<Longrightarrow> on_records G \<Longrightarrow> on_records (\<lambda>db. F db \<and> G db)"
  by (simp add: on_records_def)

lemma task_recorded_records [simp]: "task_recorded X (tasks_update f db) r = task_recorded X db r"
  by (simp add: task_recorded_def has_artifact_set_def has_review_def has_import_def)

lemma import_recorded_records [simp]: "import_recorded (tasks_update f db) r = import_recorded db r"
  by (simp add: import_recorded_def has_artifact_set_def has_review_def)

lemma pipe_inv_tasks:
  assumes "pipe_inv X db" "\<And>r. r \<in> set (f (tasks db)) \<Longrightarrow> task_recorded Y db r" "distinct (map tk_id (f (tasks db)))"
  shows "pipe_inv Y (tasks_update f db)"
  using assms by (auto simp: pipe_inv_def imports_unique_def)

text \<open>
  A statement on tasks: the rows it changes are recorded for their new state, and a fact that its guard
  reads off the records holds afterwards when a row was found.
\<close>

lemma triple_update_task:
  assumes new: "\<And>db r. pipe_inv X db \<Longrightarrow> F db \<Longrightarrow> r \<in> set (tasks db) \<Longrightarrow> p db r \<Longrightarrow> task_recorded Y db (f r)"
    and old: "\<And>db r. pipe_inv X db \<Longrightarrow> F db \<Longrightarrow> r \<in> set (tasks db) \<Longrightarrow> \<not> p db r \<Longrightarrow> task_recorded Y db r"
    and id: "\<And>r. tk_id (f r) = tk_id r"
    and guard: "\<And>db r. p db r \<Longrightarrow> G db" and F: "on_records F" and G: "on_records G"
  shows "triple (\<lambda>db. pipe_inv X db \<and> F db) (update_task p f)
           (\<lambda>v db. pipe_inv Y db \<and> F db \<and> (v \<noteq> None \<longrightarrow> G db))"
proof (rule tripleI)
  fix db x db'
  assume pre: "pipe_inv X db \<and> F db" and run: "update_task p f db = Inr (x, db')"
  then consider "x = None" "\<forall>r \<in> set (tasks db). \<not> p db r" "db' = db"
    | r where "p db r" "r \<in> set (tasks db)" "db' = tasks_update (upd_row (p db) f) db"
    by (auto simp: update_task_def update_where_def update_one_Inr_iff dest: find_eq_SomeD)
  then show "pipe_inv Y db' \<and> F db' \<and> (x \<noteq> None \<longrightarrow> G db')"
  proof cases
    case 1
    with pre old have "\<forall>r \<in> set (tasks db). task_recorded Y db r" by blast
    then show ?thesis using 1 pre by (simp add: pipe_inv_def)
  next
    case 2
    have "pipe_inv Y db'"
      unfolding 2(3)
    proof (rule pipe_inv_tasks)
      show "distinct (map tk_id (upd_row (p db) f (tasks db)))"
        using pre id by (simp add: map_key_upd_row pipe_inv_def)
    qed (use pre new old in \<open>auto simp: in_set_upd_row_iff\<close>)
    then show ?thesis using 2 pre guard F G by (simp add: on_records_def)
  qed
qed

text \<open>A statement that keeps the state, or moves the task where nothing has to be recorded.\<close>

lemma task_recorded_state:
  "task_recorded X db r \<Longrightarrow> tk_id q = tk_id r \<Longrightarrow> tk_state q = tk_state r \<Longrightarrow> tk_failure_stage q = tk_failure_stage r \<Longrightarrow>
     task_recorded X db q"
  by (simp add: task_recorded_def)

definition plain_row :: "EpisodeTask \<Rightarrow> bool" where
  "plain_row r \<longleftrightarrow> tk_state r = TaskMediaQueued \<or> tk_state r = TaskProcessing \<or> tk_state r = TaskFinalizing \<or>
     tk_state r = TaskFailed \<and> tk_failure_stage r \<noteq> Some ''import'' \<or> tk_state r = TaskCancelled"

lemma task_recorded_plain: "plain_row r \<Longrightarrow> task_recorded X db r"
  by (auto simp: task_recorded_def plain_row_def paired_state_def approved_state_def importing_state_def)

lemma pipe_inv_recorded: "pipe_inv X db \<Longrightarrow> r \<in> set (tasks db) \<Longrightarrow> task_recorded X db r"
  by (simp add: pipe_inv_def)

lemma update_task_keeps:
  assumes "\<And>db r. p db r \<Longrightarrow> tk_state (f r) = tk_state r \<and> tk_failure_stage (f r) = tk_failure_stage r \<or> plain_row (f r)"
    "\<And>r. tk_id (f r) = tk_id r"
  shows "maintains (keeping (pipe_inv X)) (update_task p f)"
proof -
  have new: "task_recorded X db (f r)" if "pipe_inv X db" "r \<in> set (tasks db)" "p db r" for db r
    using that assms(1) [OF that(3)] assms(2)
    by (auto intro: task_recorded_plain task_recorded_state pipe_inv_recorded)
  have "triple (\<lambda>db. pipe_inv X db \<and> True) (update_task p f) (\<lambda>v db. pipe_inv X db \<and> True \<and> (v \<noteq> None \<longrightarrow> True))"
    by (rule triple_update_task) (use new assms(2) on_records_facts in \<open>auto intro: pipe_inv_recorded\<close>)
  then show ?thesis by (simp add: triple_keeping)
qed

lemmas state_defs = task_failed_def task_cleared_def error_cleared_def bump_def task_running_def started_state_def
  media_requeued_def media_requeueable_def task_stopped_def plain_row_def media_startable_def

lemma plain_statements:
  "maintains (keeping (pipe_inv X)) (StartTaskVideo i)"
  "maintains (keeping (pipe_inv X)) (StartTaskSubtitle i)"
  "maintains (keeping (pipe_inv X)) (MarkTaskVideoReady i)"
  "maintains (keeping (pipe_inv X)) (MarkTaskSubtitleReady i)"
  "maintains (keeping (pipe_inv X)) (MarkTaskFinalizingIfReady i)"
  "maintains (keeping (pipe_inv X)) (MarkTaskCleanupRetryRequested i v)"
  "maintains (keeping (pipe_inv X)) (RequeueTaskFinalizeBranch i)"
  "maintains (keeping (pipe_inv X)) (RequeueTaskFailedMediaBranches i v)"
  "maintains (keeping (pipe_inv X)) (CancelEpisodeTaskIfActive i v)"
  "maintains (keeping (pipe_inv X)) (MarkTaskVideoTerminalFailure c m j)"
  "maintains (keeping (pipe_inv X)) (MarkTaskSubtitleTerminalFailure c m j)"
  "maintains (keeping (pipe_inv X)) (MarkTaskFinalizeTerminalFailure c m j)"
  "maintains (keeping (pipe_inv X)) (MarkTaskVideoCancelled j)"
  "maintains (keeping (pipe_inv X)) (MarkTaskSubtitleCancelled j)"
  "maintains (keeping (pipe_inv X)) (MarkTaskFinalizeCancelled j)"
  unfolding StartTaskVideo_def StartTaskSubtitle_def MarkTaskVideoReady_def MarkTaskSubtitleReady_def
    MarkTaskFinalizingIfReady_def MarkTaskCleanupRetryRequested_def RequeueTaskFinalizeBranch_def
    RequeueTaskFailedMediaBranches_def CancelEpisodeTaskIfActive_def MarkTaskVideoTerminalFailure_def
    MarkTaskSubtitleTerminalFailure_def MarkTaskFinalizeTerminalFailure_def MarkTaskVideoCancelled_def
    MarkTaskSubtitleCancelled_def MarkTaskFinalizeCancelled_def update_task_one
  by (rule update_task_keeps; auto simp: state_defs)+

section \<open>Statements that need the records of the task\<close>

lemmas recorded_defs = task_recorded_def paired_state_def approved_state_def importing_state_def

lemma task_record_update:
  assumes "\<And>db r. pipe_inv X db \<Longrightarrow> F db \<Longrightarrow> r \<in> set (tasks db) \<Longrightarrow> p db r \<Longrightarrow> task_recorded X db (f r)"
    and "\<And>r. tk_id (f r) = tk_id r" and "\<And>db r. p db r \<Longrightarrow> G db" and "on_records F" and "on_records G"
  shows "triple (\<lambda>db. pipe_inv X db \<and> F db) (update_task p f)
           (\<lambda>v db. pipe_inv X db \<and> F db \<and> (v \<noteq> None \<longrightarrow> G db))"
  by (rule triple_update_task) (use assms in \<open>auto intro: pipe_inv_recorded\<close>)

lemma MarkTaskAwaitingReview_triple:
  "triple (\<lambda>db. pipe_inv X db \<and> has_artifact_set db i) (MarkTaskAwaitingReview i)
     (\<lambda>_ db. pipe_inv X db \<and> has_artifact_set db i)"
  unfolding MarkTaskAwaitingReview_def
  by (rule triple_post [OF task_record_update [where G = "\<lambda>_. True"]])
    (auto simp: error_cleared_def recorded_defs on_records_facts)

lemma MarkTaskReviewed_triple:
  assumes "d = TaskApproved \<or> d = TaskRejected"
  shows "triple (\<lambda>db. pipe_inv X db \<and> has_review db i d) (MarkTaskReviewed d i v)
     (\<lambda>q db. pipe_inv X db \<and> has_review db i d \<and> (q \<noteq> None \<longrightarrow> has_artifact_set db i))"
  unfolding MarkTaskReviewed_def
  by (rule task_record_update) (use assms in \<open>auto simp: error_cleared_def recorded_defs on_records_facts\<close>)

lemma MarkTaskImportQueued_triple:
  "triple (\<lambda>db. pipe_inv X db \<and> has_import db i import_active) (MarkTaskImportQueued i v) (\<lambda>_. pipe_inv X)"
  unfolding MarkTaskImportQueued_def
  by (rule triple_post [OF task_record_update [where G = "\<lambda>_. True"]])
    (auto simp: error_cleared_def recorded_defs on_records_facts)

lemma StartTaskImport_keeps: "maintains (keeping (pipe_inv X)) (StartTaskImport i)"
proof -
  have new: "task_recorded X db (bump (r\<lparr>tk_state := TaskImporting\<rparr>))"
    if "pipe_inv X db" "r \<in> set (tasks db)" "tk_state r = TaskImportQueued \<or> tk_state r = TaskImporting" for db r
    using pipe_inv_recorded [OF that(1,2)] that(3) by (auto simp: bump_def recorded_defs)
  have "triple (\<lambda>db. pipe_inv X db \<and> True) (StartTaskImport i) (\<lambda>v db. pipe_inv X db \<and> True \<and> (v \<noteq> None \<longrightarrow> True))"
    unfolding StartTaskImport_def by (rule task_record_update) (auto simp: new on_records_facts, simp add: bump_def)
  then show ?thesis by (simp add: triple_keeping)
qed

lemma RequeueCancelledTaskAfterMedia_triple:
  "triple (\<lambda>db. pipe_inv X db \<and> (s = TaskImportQueued \<longrightarrow>
       has_artifact_set db i \<and> has_review db i TaskApproved \<and> has_import db i import_active))
     (RequeueCancelledTaskAfterMedia i v s) (\<lambda>_. pipe_inv X)"
  unfolding RequeueCancelledTaskAfterMedia_def
  by (rule triple_post [OF task_record_update [where G = "\<lambda>_. True"]])
    (auto simp: task_cleared_def recorded_defs on_records_def has_artifact_set_def has_review_def has_import_def)

text \<open>Leaving the importing states ends an exemption, entering them through a retry begins one.\<close>

lemma exempt_leave:
  assumes "\<And>db r. F db \<Longrightarrow> tk_id r = i \<Longrightarrow> task_recorded {} db (f r)" "\<And>r. tk_id (f r) = tk_id r" "on_records F"
  shows "triple (\<lambda>db. pipe_inv {i} db \<and> F db)
     (update_task (\<lambda>db r. Some (tk_id r) = Some i \<and> (tk_state r = TaskImportQueued \<or> tk_state r = TaskImporting)) f) (\<lambda>_. pipe_inv {})"
proof -
  have old: "task_recorded {} db r"
    if "task_recorded {i} db r" "\<not> (tk_id r = i \<and> (tk_state r = TaskImportQueued \<or> tk_state r = TaskImporting))" for db r
    using that by (cases "tk_state r") (simp_all add: recorded_defs)
  show ?thesis
    by (rule triple_post [OF triple_update_task [where X = "{i}" and F = F and G = "\<lambda>_. True"]])
      (use assms old in \<open>auto simp: on_records_facts pipe_inv_recorded\<close>)
qed

lemma import_outcome_triples:
  "triple (\<lambda>db. pipe_inv {i} db \<and> has_import db i import_failed) (MarkTaskImportTerminalFailure c m (Some i)) (\<lambda>_. pipe_inv {})"
  "triple (\<lambda>db. pipe_inv {i} db \<and> True) (CancelTaskImport (Some i)) (\<lambda>_. pipe_inv {})"
  unfolding MarkTaskImportTerminalFailure_def CancelTaskImport_def update_task_one
  by (rule exempt_leave; simp add: task_failed_def task_cleared_def recorded_defs on_records_facts)+

lemma has_import_recorded:
  "pipe_inv X db \<Longrightarrow> has_import db i p \<Longrightarrow> has_artifact_set db i \<and> has_review db i TaskApproved"
  by (auto simp: pipe_inv_def has_import_def import_recorded_def list_ex_iff)

lemma pipe_inv_exempt: "pipe_inv X db \<Longrightarrow> pipe_inv (X \<union> Y) db"
  by (auto simp: pipe_inv_def task_recorded_def)

text \<open>A task that is not failed does not need its failed import.\<close>

definition not_failed :: "uuid \<Rightarrow> EpisodeTask list \<Rightarrow> bool" where
  "not_failed i ts \<longleftrightarrow> (\<forall>r \<in> set ts. tk_id r = i \<longrightarrow> tk_state r \<noteq> TaskFailed)"

lemma RequeueTaskImportBranch_triple:
  "triple (pipe_inv {}) (RequeueTaskImportBranch i) (\<lambda>v db. v \<noteq> None \<longrightarrow> pipe_inv {i} db \<and> not_failed i (tasks db))"
proof (rule tripleI, rule impI)
  fix db x db'
  assume inv: "pipe_inv {} db" and run: "RequeueTaskImportBranch i db = Inr (x, db')" and x: "x \<noteq> None"
  let ?p = "\<lambda>r. tk_id r = i \<and> tk_state r = TaskFailed \<and> tk_failure_stage r = Some ''import'' \<and> has_import db (tk_id r) import_failed"
  let ?f = "task_cleared TaskImportQueued"
  from run x obtain t where t: "t \<in> set (tasks db)" "?p t" and db': "db' = tasks_update (upd_row ?p ?f) db"
    by (auto simp: RequeueTaskImportBranch_def update_task_def update_where_def update_one_Inr_iff dest: find_eq_SomeD)
  have only: "r = t" if "r \<in> set (tasks db)" "tk_id r = i" for r
    using inv t that unfolding pipe_inv_def distinct_map inj_on_def by auto
  have rows: "task_recorded {i} db (if ?p r then ?f r else r)" if "r \<in> set (tasks db)" for r
  proof (cases "?p r")
    case True
    then show ?thesis using has_import_recorded [OF inv, of i] by (auto simp: task_cleared_def recorded_defs)
  next
    case False
    then show ?thesis using pipe_inv_recorded [OF inv that] by (simp only: if_False) (simp add: task_recorded_def)
  qed
  have "pipe_inv {i} db'"
    unfolding db' by (rule pipe_inv_tasks [OF inv])
      (use rows inv in \<open>auto simp: in_set_upd_row_iff pipe_inv_def map_key_upd_row task_cleared_def\<close>)
  moreover have "not_failed i (tasks db')"
    unfolding not_failed_def
  proof (intro ballI impI)
    fix r assume "r \<in> set (tasks db')" "tk_id r = i"
    then obtain q where q: "q \<in> set (tasks db)" "r = (if ?p q then ?f q else q)" by (auto simp: db' in_set_upd_row_iff)
    then have "tk_id q = i" using \<open>tk_id r = i\<close> by (auto simp: task_cleared_def split: if_splits)
    then have "q = t" using only q by simp
    then show "tk_state r \<noteq> TaskFailed" using t(2) q(2) by (auto simp: task_cleared_def)
  qed
  ultimately show "pipe_inv {i} db' \<and> not_failed i (tasks db')" by simp
qed

text \<open>The row found by a lock is the only one with its identifier.\<close>

lemma LockEpisodeTask_triple:
  "triple (pipe_inv X) (LockEpisodeTask i)
     (\<lambda>v db. pipe_inv X db \<and> (\<forall>t. v = Some t \<longrightarrow> (\<forall>r \<in> set (tasks db). tk_id r = i \<longrightarrow> r = t)))"
proof -
  have "r = t" if "distinct (map tk_id ts)" "List.find (\<lambda>r. tk_id r = i) ts = Some t" "r \<in> set ts" "tk_id r = i" for ts r t
    using that find_eq_SomeD [OF that(2)] by (metis distinct_map inj_onD)
  then show ?thesis
    by (auto simp: triple_def LockEpisodeTask_def select_one_def pipe_inv_def)
qed

lemma MarkTaskImported_triple:
  "triple (\<lambda>db. pipe_inv {i} db \<and> has_import db i import_succeeded \<and> (\<forall>r \<in> set (tasks db). tk_id r = i \<longrightarrow> tk_state r = TaskImporting))
     (MarkTaskImported i) (\<lambda>_. pipe_inv {})"
proof (rule tripleI, elim conjE)
  fix db x db'
  assume inv: "pipe_inv {i} db" and imp: "has_import db i import_succeeded"
    and st: "\<forall>r \<in> set (tasks db). tk_id r = i \<longrightarrow> tk_state r = TaskImporting" and run: "MarkTaskImported i db = Inr (x, db')"
  let ?p = "\<lambda>r. tk_id r = i \<and> tk_state r = TaskImporting"
  have rows: "task_recorded {} db (if ?p r then task_cleared TaskImported r else r)" if "r \<in> set (tasks db)" for r
    using pipe_inv_recorded [OF inv that] st that imp
    by (cases "tk_state r") (simp_all add: task_cleared_def recorded_defs split: if_splits, auto)
  have "pipe_inv {} (tasks_update (upd_row ?p (task_cleared TaskImported)) db)"
    by (rule pipe_inv_tasks [OF inv])
      (use rows inv in \<open>auto simp: in_set_upd_row_iff pipe_inv_def map_key_upd_row task_cleared_def\<close>)
  moreover have "db' = tasks_update (upd_row ?p (task_cleared TaskImported)) db \<or>
      (db' = db \<and> (\<forall>r \<in> set (tasks db). \<not> ?p r))"
    using run by (auto simp: MarkTaskImported_def update_task_def update_where_def update_one_Inr_iff)
  moreover have "upd_row ?p (task_cleared TaskImported) (tasks db) = tasks db" if "\<forall>r \<in> set (tasks db). \<not> ?p r"
    using that by (simp add: upd_row_none)
  ultimately show "pipe_inv {} db'"
    by (auto simp: pipe_inv_def imports_unique_def)
qed

section \<open>Statements on the records\<close>

lemma pipe_inv_grow:
  assumes "pipe_inv X a" "tasks b = tasks a" "imports_tab b = imports_tab a" "distinct (map rv_task_id (reviews b))"
    and "\<And>i. has_artifact_set a i \<Longrightarrow> has_artifact_set b i" "\<And>i d. has_review a i d \<Longrightarrow> has_review b i d"
  shows "pipe_inv X b"
  using assms by (auto simp: pipe_inv_def task_recorded_def import_recorded_def has_import_def imports_unique_def)

lemma has_artifact_set_upd:
  "as_task_id new = t \<Longrightarrow>
     has_artifact_set (artifact_sets_update (upd_row (\<lambda>r. as_task_id r = t) (\<lambda>_. new)) db) i = has_artifact_set db i"
proof -
  assume "as_task_id new = t"
  then have "list_ex (\<lambda>s. as_task_id s = i) (upd_row (\<lambda>r. as_task_id r = t) (\<lambda>_. new) rs) = list_ex (\<lambda>s. as_task_id s = i) rs" for rs
    by (induction rs) auto
  then show ?thesis by (simp add: has_artifact_set_def)
qed

lemma CreateArtifactSet_triple:
  "triple (pipe_inv X) (CreateArtifactSet s) (\<lambda>_ db. pipe_inv X db \<and> has_artifact_set db (as_task_id s))"
proof (rule tripleI)
  fix db x db'
  assume inv: "pipe_inv X db" and run: "CreateArtifactSet s db = Inr (x, db')"
  then have eq: "tasks db' = tasks db" "imports_tab db' = imports_tab db" "reviews db' = reviews db"
    and sets: "\<And>i. has_artifact_set db' i \<longleftrightarrow> has_artifact_set db i \<or> i = as_task_id s"
    by (auto simp: CreateArtifactSet_def insert_row_Inr_iff by_key_def Let_def has_artifact_set_upd split: if_splits option.splits)
      (auto simp: has_artifact_set_def list_ex_iff dest: find_eq_SomeD)
  have "pipe_inv X db'" by (rule pipe_inv_grow [OF inv]) (use eq sets inv in \<open>simp_all add: has_review_def pipe_inv_def\<close>)
  then show "pipe_inv X db' \<and> has_artifact_set db' (as_task_id s)" using sets by simp
qed

lemma CreateTaskReview_triple:
  "triple (pipe_inv X) (CreateTaskReview r) (\<lambda>_ db. pipe_inv X db \<and> has_review db (rv_task_id r) (rv_decision r))"
proof (rule tripleI)
  fix db x db'
  assume inv: "pipe_inv X db" and run: "CreateTaskReview r db = Inr (x, db')"
  then have new: "db' = reviews_update (\<lambda>rs. rs @ [r]) db" "\<forall>q \<in> set (reviews db). rv_task_id q \<noteq> rv_task_id r"
    by (auto simp: CreateTaskReview_def insert_row_Inr_iff)
  have "pipe_inv X db'"
    by (rule pipe_inv_grow [OF inv])
      (use new inv in \<open>auto simp: has_review_def has_artifact_set_def pipe_inv_def\<close>)
  then show "pipe_inv X db' \<and> has_review db' (rv_task_id r) (rv_decision r)" using new by (simp add: has_review_def)
qed

lemma CreateTaskImport_triple:
  "triple (\<lambda>db. pipe_inv X db \<and> has_artifact_set db t \<and> has_review db t TaskApproved) (CreateTaskImport i t)
     (\<lambda>_ db. pipe_inv X db \<and> has_import db t import_active)"
proof (rule tripleI, elim conjE)
  fix db q db'
  assume inv: "pipe_inv X db" and rec: "has_artifact_set db t" "has_review db t TaskApproved"
    and run: "CreateTaskImport i t db = Inr (q, db')"
  from run have new: "db' = imports_tab_update (\<lambda>rs. rs @ [q]) db" "im_id q = i" "im_task_id q = t" "im_status q = ImQueued"
      "\<forall>r \<in> set (imports_tab db). im_id r \<noteq> i \<and> \<not> (im_task_id r = t \<and> import_active r)"
    unfolding CreateTaskImport_def Let_def insert_row_Inr_iff by simp_all
  have more: "has_import db' j p \<longleftrightarrow> has_import db j p \<or> j = t \<and> p q" for j p
    using new by (auto simp: has_import_def)
  have "imports_unique db'"
    using inv new by (auto simp: pipe_inv_def imports_unique_def one_per_task_def import_active_def import_succeeded_def)
  moreover have "import_recorded db' r = import_recorded db r" for r
    using new by (simp add: import_recorded_def has_artifact_set_def has_review_def)
  moreover have "import_recorded db q" using rec new by (simp add: import_recorded_def import_succeeded_def)
  moreover have "task_recorded X db r \<Longrightarrow> task_recorded X db' r" for r
    using new more by (auto simp: task_recorded_def has_artifact_set_def has_review_def)
  ultimately have "pipe_inv X db'" using inv new by (auto simp: pipe_inv_def)
  then show "pipe_inv X db' \<and> has_import db' t import_active" using more new by (auto simp: import_active_def)
qed

lemma one_per_task_upd:
  assumes "one_per_task t q rs" "\<And>r. t (f r) = t r" "\<And>r. p r \<Longrightarrow> q (f r) \<Longrightarrow> q r"
  shows "one_per_task t q (upd_row p f rs)"
proof -
  have sub: "t ` set (filter q (upd_row p f rs)) \<subseteq> t ` set (filter q rs)" for rs
    using assms(2,3) by (force simp: in_set_upd_row_iff)
  show ?thesis
    using assms(1) unfolding one_per_task_def
  proof (induction rs)
    case (Cons r rs)
    then show ?case using sub [of rs] assms(2,3) by (auto split: if_splits)
  qed simp
qed

lemma pipe_inv_imports:
  assumes inv: "pipe_inv X a" and b: "b = imports_tab_update (upd_row p f) a"
    and f: "\<And>r. im_id (f r) = im_id r" "\<And>r. im_task_id (f r) = im_task_id r"
    and rec: "\<And>r. r \<in> set (imports_tab a) \<Longrightarrow> p r \<Longrightarrow> import_recorded a (f r)"
    and uniq: "imports_unique b"
    and tasks: "\<And>r. r \<in> set (tasks a) \<Longrightarrow> importing_state (tk_state r) \<Longrightarrow> tk_id r \<in> Y \<or> has_import b (tk_id r) import_active"
      "\<And>r. r \<in> set (tasks a) \<Longrightarrow> tk_state r = TaskImported \<Longrightarrow> has_import b (tk_id r) import_succeeded"
      "\<And>r. r \<in> set (tasks a) \<Longrightarrow> tk_state r = TaskFailed \<Longrightarrow> tk_failure_stage r = Some ''import'' \<Longrightarrow> has_import b (tk_id r) import_failed"
  shows "pipe_inv Y b"
proof -
  have "import_recorded b r = import_recorded a r" for r
    by (simp add: b import_recorded_def has_artifact_set_def has_review_def)
  then have "\<forall>r \<in> set (imports_tab b). import_recorded b r"
    using inv rec by (auto simp: b pipe_inv_def in_set_upd_row_iff)
  moreover have "\<forall>r \<in> set (tasks b). task_recorded Y b r"
    using inv tasks by (auto simp: b pipe_inv_def task_recorded_def has_artifact_set_def has_review_def)
  moreover have "distinct (map im_id (imports_tab b))"
    using inv f by (simp add: b pipe_inv_def map_key_upd_row)
  ultimately show ?thesis using inv uniq by (simp add: b pipe_inv_def)
qed

lemma has_import_upd:
  "has_import db i q \<Longrightarrow> (\<And>r. im_task_id (f r) = im_task_id r) \<Longrightarrow> (\<And>r. r \<in> set (imports_tab db) \<Longrightarrow> im_task_id r = i \<Longrightarrow> p r \<Longrightarrow> q r \<Longrightarrow> q (f r)) \<Longrightarrow>
     has_import (imports_tab_update (upd_row p f) db) i q"
  unfolding has_import_def list_ex_iff
proof (elim bexE conjE)
  fix x
  assume f: "\<And>r. im_task_id (f r) = im_task_id r" and q: "\<And>r. r \<in> set (imports_tab db) \<Longrightarrow> im_task_id r = i \<Longrightarrow> p r \<Longrightarrow> q r \<Longrightarrow> q (f r)"
    and x: "x \<in> set (imports_tab db)" "im_task_id x = i" "q x"
  show "\<exists>x \<in> set (imports_tab (imports_tab_update (upd_row p f) db)). im_task_id x = i \<and> q x"
    by (rule bexI [of _ "if p x then f x else x"]) (use f q x in \<open>auto simp: in_set_upd_row_iff\<close>)
qed

lemma StartImport_keeps: "maintains (keeping (pipe_inv X)) (StartImport i)"
  unfolding maintains_def keeping_def
proof (intro allI impI)
  fix db x db'
  assume run: "StartImport i db = Inr (x, db')" and inv: "pipe_inv X db"
  let ?p = "\<lambda>r. im_id r = i \<and> import_active r"
  let ?f = "\<lambda>r. r\<lparr>im_status := ImRunning, im_started_at := coalesce (im_started_at r) (clock db),
        im_error_code := None, im_error_message := None\<rparr>"
  from run have "db' = db \<or> db' = imports_tab_update (upd_row ?p ?f) db"
    by (auto simp: StartImport_def update_one_Inr_iff)
  moreover have "pipe_inv X (imports_tab_update (upd_row ?p ?f) db)"
  proof (rule pipe_inv_imports [OF inv refl])
    show "imports_unique (imports_tab_update (upd_row ?p ?f) db)"
      using inv by (auto simp: imports_unique_def pipe_inv_def import_succeeded_def import_active_def intro!: one_per_task_upd)
    fix r assume "r \<in> set (tasks db)"
    note rec = pipe_inv_recorded [OF inv this]
    show "importing_state (tk_state r) \<Longrightarrow> tk_id r \<in> X \<or> has_import (imports_tab_update (upd_row ?p ?f) db) (tk_id r) import_active"
      using rec by (auto simp: task_recorded_def intro!: has_import_upd simp: import_active_def)
    show "tk_state r = TaskImported \<Longrightarrow> has_import (imports_tab_update (upd_row ?p ?f) db) (tk_id r) import_succeeded"
      using rec by (auto simp: task_recorded_def intro!: has_import_upd simp: import_succeeded_def import_active_def)
    show "tk_state r = TaskFailed \<Longrightarrow> tk_failure_stage r = Some ''import'' \<Longrightarrow>
        has_import (imports_tab_update (upd_row ?p ?f) db) (tk_id r) import_failed"
      using rec by (auto simp: task_recorded_def intro!: has_import_upd simp: import_failed_def import_active_def)
  qed (use inv in \<open>auto simp: pipe_inv_def import_recorded_def import_succeeded_def\<close>)
  ultimately show "pipe_inv X db'" using inv by auto
qed

text \<open>Changing one import: only its task can lose its active import.\<close>

lemma change_import:
  assumes inv: "pipe_inv X a" and c: "c \<in> set (imports_tab a)" and p: "\<And>r. r \<in> set (imports_tab a) \<Longrightarrow> p r \<Longrightarrow> r = c"
    and b: "b = imports_tab_update (upd_row p f) a"
    and f: "\<And>r. im_id (f r) = im_id r" "\<And>r. im_task_id (f r) = im_task_id r"
    and succ: "import_succeeded c \<Longrightarrow> import_succeeded (f c)" and rec: "import_recorded a (f c)" and uniq: "imports_unique b"
    and Y: "\<And>i. i \<in> X \<Longrightarrow> i \<in> Y \<or> i = im_task_id c \<and> p c \<and> import_active (f c)"
    and act: "im_task_id c \<in> Y \<or> (import_active c \<longrightarrow> import_active (f c))"
    and failed: "import_failed c \<longrightarrow> not_failed (im_task_id c) (tasks a)"
  shows "pipe_inv Y b"
proof (rule pipe_inv_imports [OF inv b f])
  fix r assume r: "r \<in> set (tasks a)"
  note recd = pipe_inv_recorded [OF inv r]
  show "tk_state r = TaskImported \<Longrightarrow> has_import b (tk_id r) import_succeeded"
    unfolding b by (rule has_import_upd) (use recd succ p f in \<open>auto simp: task_recorded_def\<close>)
  show "tk_state r = TaskFailed \<Longrightarrow> tk_failure_stage r = Some ''import'' \<Longrightarrow> has_import b (tk_id r) import_failed"
    unfolding b by (rule has_import_upd) (use recd failed p f r in \<open>auto simp: task_recorded_def not_failed_def\<close>)
  assume st: "importing_state (tk_state r)"
  show "tk_id r \<in> Y \<or> has_import b (tk_id r) import_active"
  proof (cases "tk_id r \<in> X")
    case True
    then consider "tk_id r \<in> Y" | "tk_id r = im_task_id c" "p c" "import_active (f c)" using Y by blast
    then show ?thesis
    proof cases
      case 2
      have "f c \<in> set (imports_tab b)" using c 2 by (auto simp: b in_set_upd_row_iff)
      then show ?thesis using 2 f by (auto simp: has_import_def list_ex_iff)
    qed simp
  next
    case False
    then have "has_import a (tk_id r) import_active" using recd st by (simp add: task_recorded_def)
    then show ?thesis
    proof (cases "tk_id r \<in> Y")
      case False
      show ?thesis
        unfolding b
        by (rule disjI2, rule has_import_upd)
          (use \<open>has_import a (tk_id r) import_active\<close> p f act False in auto)
    qed simp
  qed
qed (use p rec uniq in auto)

lemma has_importI: "r \<in> set (imports_tab db) \<Longrightarrow> im_task_id r = i \<Longrightarrow> q r \<Longrightarrow> has_import db i q"
  by (auto simp: has_import_def list_ex_iff)

lemma import_by_id: "pipe_inv X db \<Longrightarrow> c \<in> set (imports_tab db) \<Longrightarrow> r \<in> set (imports_tab db) \<Longrightarrow> im_id r = im_id c \<Longrightarrow> r = c"
  unfolding pipe_inv_def distinct_map inj_on_def by blast

lemma latest_by_member: "latest_by f xs = Some c \<Longrightarrow> c \<in> set xs"
  by (induction xs arbitrary: c) (auto split: option.splits if_splits)

lemma update_latest_importD:
  assumes "update_latest_import p j g db = Inr (x, db')"
  obtains "x = None" "db' = db"
  | c where "c \<in> set (imports_tab db)" "j = Some (im_task_id c)" "p c" "x \<noteq> None"
      "db' = imports_tab_update (upd_row (\<lambda>r. im_id r = im_id c) (g (clock db))) db"
proof (cases "latest_by im_attempt (filter (\<lambda>r. Some (im_task_id r) = j \<and> p r) (imports_tab db))")
  case None
  then show thesis using assms that(1) by (simp add: update_latest_import_def)
next
  case (Some c)
  then have c: "c \<in> set (imports_tab db)" "j = Some (im_task_id c)" "p c" using latest_by_member by fastforce+
  then obtain r where "List.find (\<lambda>r. im_id r = im_id c) (imports_tab db) = Some r"
    using find_SomeI [of c "imports_tab db" "\<lambda>r. im_id r = im_id c"] by auto
  then show thesis using assms Some that(2) [OF c] by (auto simp: update_latest_import_def update_one_def)
qed

text \<open>Ending the active import of a task.\<close>

lemma end_import_triple:
  assumes f: "\<And>n r. im_id (g n r) = im_id r" "\<And>n r. im_task_id (g n r) = im_task_id r"
    and ended: "\<And>n r. \<not> import_active (g n r) \<and> \<not> import_succeeded (g n r)" and q: "\<And>n r. q (g n r)"
  shows "triple (pipe_inv {}) (update_latest_import import_active j g)
     (\<lambda>v db. (v = None \<longrightarrow> pipe_inv {} db) \<and> (v \<noteq> None \<longrightarrow> (\<exists>i. j = Some i \<and> pipe_inv {i} db \<and> has_import db i q)))"
proof (rule tripleI)
  fix db x db'
  assume inv: "pipe_inv {} db" and run: "update_latest_import import_active j g db = Inr (x, db')"
  from run show "(x = None \<longrightarrow> pipe_inv {} db') \<and> (x \<noteq> None \<longrightarrow> (\<exists>i. j = Some i \<and> pipe_inv {i} db' \<and> has_import db' i q))"
  proof (cases rule: update_latest_importD)
    case 1
    then show ?thesis using inv by simp
  next
    case (2 c)
    have "pipe_inv {im_task_id c} db'"
    proof (rule change_import [OF inv 2(1) _ 2(5)])
      show "imports_unique db'"
        using inv ended by (auto simp: 2(5) imports_unique_def pipe_inv_def f intro!: one_per_task_upd)
      show "import_recorded db (g (clock db) c)"
        using inv 2(1) ended by (auto simp: pipe_inv_def import_recorded_def f)
      show "import_succeeded c \<Longrightarrow> import_succeeded (g (clock db) c)" "import_failed c \<longrightarrow> not_failed (im_task_id c) (tasks db)"
        using 2(3) by (auto simp: import_active_def import_succeeded_def import_failed_def)
    qed (use import_by_id [OF inv 2(1)] f in auto)
    moreover have "g (clock db) c \<in> set (imports_tab db')" using 2(1) by (auto simp: 2(5) in_set_upd_row_iff)
    ultimately show ?thesis using 2 q f by (auto intro: has_importI)
  qed
qed

lemma end_import_statements:
  "triple (pipe_inv {}) (MarkActiveImportTerminalFailure c m j)
     (\<lambda>v db. (v = None \<longrightarrow> pipe_inv {} db) \<and> (v \<noteq> None \<longrightarrow> (\<exists>i. j = Some i \<and> pipe_inv {i} db \<and> has_import db i import_failed)))"
  "triple (pipe_inv {}) (CancelActiveImport j)
     (\<lambda>v db. (v = None \<longrightarrow> pipe_inv {} db) \<and> (v \<noteq> None \<longrightarrow> (\<exists>i. j = Some i \<and> pipe_inv {i} db \<and> has_import db i (\<lambda>_. True))))"
  unfolding MarkActiveImportTerminalFailure_def CancelActiveImport_def
  by (rule end_import_triple; simp add: import_active_def import_succeeded_def import_failed_def)+

text \<open>Putting an import back into the queue.\<close>

lemma requeue_import_triple:
  assumes "\<And>r. p r \<Longrightarrow> \<not> import_succeeded r"
  shows "triple (\<lambda>db. pipe_inv {i} db \<and> not_failed i (tasks db))
     (checked w imports_unique (update_latest_import p (Some i) (\<lambda>now. import_requeued)))
     (\<lambda>v db. v \<noteq> None \<longrightarrow> pipe_inv {} db \<and> has_import db i import_active)"
proof (rule tripleI, rule impI, elim conjE)
  fix db x db'
  assume inv: "pipe_inv {i} db" and calm: "not_failed i (tasks db)" and x: "x \<noteq> None"
    and run: "checked w imports_unique (update_latest_import p (Some i) (\<lambda>now. import_requeued)) db = Inr (x, db')"
  then have upd: "update_latest_import p (Some i) (\<lambda>now. import_requeued) db = Inr (x, db')" and uniq: "imports_unique db'"
    by (auto simp: checked_def split: sum.splits if_splits)
  from upd show "pipe_inv {} db' \<and> has_import db' i import_active"
  proof (cases rule: update_latest_importD)
    case (2 c)
    have act: "import_active (import_requeued c)" by (simp add: import_requeued_def import_active_def)
    have "pipe_inv {} db'"
    proof (rule change_import [OF inv 2(1) _ 2(5)])
      show "import_recorded db (import_requeued c)"
        using inv 2(1) by (auto simp: pipe_inv_def import_recorded_def import_requeued_def import_succeeded_def)
    qed (use import_by_id [OF inv 2(1)] assms 2 uniq act calm in \<open>auto simp: import_requeued_def\<close>)
    moreover have "import_requeued c \<in> set (imports_tab db')" using 2(1) by (auto simp: 2(5) in_set_upd_row_iff)
    moreover have "im_task_id (import_requeued c) = i" using 2(2) by (simp add: import_requeued_def)
    ultimately show ?thesis using act by (blast intro: has_importI)
  qed (use x in simp)
qed

lemma requeue_import_statements:
  "triple (\<lambda>db. pipe_inv {i} db \<and> not_failed i (tasks db)) (RequeueLatestFailedTaskImport i) (\<lambda>v db. v \<noteq> None \<longrightarrow> pipe_inv {} db \<and> has_import db i import_active)"
  "triple (\<lambda>db. pipe_inv {i} db \<and> not_failed i (tasks db)) (RequeueCancelledTaskImport i) (\<lambda>v db. v \<noteq> None \<longrightarrow> pipe_inv {} db \<and> has_import db i import_active)"
  unfolding RequeueLatestFailedTaskImport_def RequeueCancelledTaskImport_def
  by (rule requeue_import_triple; simp add: import_failed_def import_succeeded_def)+

text \<open>Completing an import, whose task is exempt until it is marked imported.\<close>

lemma CompleteImport_stmt_triple:
  assumes paths: "trim_space v \<noteq> []" "trim_space s \<noteq> []"
  shows "triple (\<lambda>db. pipe_inv {} db \<and> has_import db t (\<lambda>r. im_id r = i)) (CompleteImport_stmt v s i)
     (\<lambda>x db. x \<noteq> None \<longrightarrow> pipe_inv {t} db \<and> has_import db t import_succeeded)"
proof (rule tripleI, rule impI, elim conjE)
  fix db x db'
  assume inv: "pipe_inv {} db" and imp: "has_import db t (\<lambda>r. im_id r = i)" and x: "x \<noteq> None"
    and run: "CompleteImport_stmt v s i db = Inr (x, db')"
  let ?p = "\<lambda>r. im_id r = i \<and> im_status r = ImRunning"
  let ?f = "\<lambda>r. r\<lparr>im_status := ImSucceeded, im_video_path := Some v, im_subtitle_path := Some s,
          im_error_code := None, im_error_message := None, im_completed_at := Some (clock db)\<rparr>"
  from run x obtain c where c: "List.find ?p (imports_tab db) = Some c"
      and db': "db' = imports_tab_update (upd_row ?p ?f) db" and uniq: "imports_unique db'"
    by (auto simp: CompleteImport_stmt_def checked_def update_one_Inr_iff split: sum.splits if_splits)
  note c = find_eq_SomeD [OF c]
  from imp c import_by_id [OF inv] have t: "im_task_id c = t" by (auto simp: has_import_def list_ex_iff)
  have "pipe_inv {t} db'"
  proof (rule change_import [OF inv _ _ db'])
    show "c \<in> set (imports_tab db)" using c by simp
    show "import_recorded db (?f c)"
      using inv c paths by (auto simp: pipe_inv_def import_recorded_def)
  qed (use import_by_id [OF inv, of c] c t uniq in \<open>auto simp: import_succeeded_def import_failed_def\<close>)
  moreover have "?f c \<in> set (imports_tab db')" using c by (auto simp: db' in_set_upd_row_iff)
  ultimately show "pipe_inv {t} db' \<and> has_import db' t import_succeeded"
    using t by (auto intro: has_importI simp: import_succeeded_def)
qed

section \<open>Handlers keep the invariant\<close>

interpretation pipe_keep: tx_relation "keeping (pipe_inv {})"
  by (rule tx_relation_keeping)

lemma pipe_keeps: "maintains (frame pipe) m \<Longrightarrow> maintains (keeping (pipe_inv X)) m"
  by (erule maintains_mono) (use on_pipe_facts(1) in \<open>auto simp: frame_def keeping_def on_pipe_def\<close>)

lemmas keep_reads = read_statements_pipe [THEN pipe_keeps] other_statements_pipe [THEN pipe_keeps]
  resource_statements_pipe [THEN pipe_keeps] update_latest_cleanup_pipe [THEN pipe_keeps]
  MarkRSSEntryImportedForTask_pipe [THEN pipe_keeps] UpsertMediaArtifact_pipe [THEN pipe_keeps]
  CreateTaskCleanup_pipe [THEN pipe_keeps] MarkDownloadRSSEntryEnqueueFailed_pipe [THEN pipe_keeps]
  attempt_statements_pipe [THEN pipe_keeps] failing_statements_pipe [THEN pipe_keeps]
  lifecycle_statements_pipe [THEN pipe_keeps] findIdempotentResourceCommand_pipe [THEN pipe_keeps]
  event_pipe [THEN pipe_keeps] ScheduleInTx_sched_only [THEN sched_only_pipe, THEN pipe_keeps]
  requestCancellations_sched_only [THEN sched_only_pipe, THEN pipe_keeps]

lemmas keep_rules = pipe_keep.keeps plain_statements StartTaskImport_keeps StartImport_keeps
  or_fail_maintains required_maintains keep_reads

lemmas frame_triples = event_pipe [THEN triple_frame] ScheduleInTx_sched_only [THEN sched_only_pipe, THEN triple_frame]

lemma CreateEpisodeTask_keeps: "maintains (keeping (pipe_inv {})) (CreateEpisodeTask (new_task i a f m p t))"
proof -
  have "pipe_inv X (tasks_update (\<lambda>rs. rs @ [new_task i a f m p t]) db)"
    if "pipe_inv X db" "\<forall>r \<in> set (tasks db). tk_id r \<noteq> i" for X db
    by (rule pipe_inv_tasks [OF that(1)])
      (use that in \<open>auto simp: pipe_inv_recorded pipe_inv_def intro: task_recorded_plain simp: new_task_def plain_row_def\<close>)
  then show ?thesis
    by (auto simp: maintains_def keeping_def CreateEpisodeTask_def tx_bind_eq_Inr_iff insert_row_Inr_iff new_task_def
      split: if_splits)
qed

text \<open>Queueing the import of a task whose approval is recorded.\<close>

lemma queue_import_triple:
  "triple (\<lambda>db. pipe_inv {} db \<and> has_artifact_set db i \<and> has_review db i TaskApproved)
     (tx_seq (CreateTaskImport j i) (tx_bind (or_fail e (MarkTaskImportQueued i v)) k)) Q"
  if "\<And>x. triple (pipe_inv {}) (k x) Q"
  by (rule triple_seq [OF CreateTaskImport_triple triple_bind [OF triple_or_fail [OF MarkTaskImportQueued_triple] that]])

lemma reviewed_triple:
  assumes "d = TaskApproved \<or> d = TaskRejected" "rv_task_id r = i" "rv_decision r = d"
    and "\<And>x. triple (\<lambda>db. pipe_inv {} db \<and> has_review db i d \<and> has_artifact_set db i) (k x) Q"
  shows "triple (pipe_inv {}) (tx_seq (CreateTaskReview r) (tx_bind (or_fail e (MarkTaskReviewed d i v)) k)) Q"
  by (rule triple_seq [OF CreateTaskReview_triple triple_bind [OF triple_pre [OF triple_or_fail [OF MarkTaskReviewed_triple [OF assms(1)]]]
      triple_pre [OF assms(4)]]])
    (auto simp: assms(2,3))

lemma required_or_fail: "required w m = or_fail (OtherError w) m"
  by (simp add: required_def or_fail_def)

lemma queue_approved_import_triple:
  "triple (\<lambda>db. pipe_inv {} db \<and> has_artifact_set db (rt_TaskID input) \<and> has_review db (rt_TaskID input) TaskApproved)
     (queue_approved_import env input ri t) (\<lambda>_. pipe_inv {})"
  unfolding queue_approved_import_def
  by (intro triple_bind [OF frame_triples(3)] queue_import_triple triple_bind [OF frame_triples(4)] frame_triples(2)
    on_pipe_conj on_pipe_facts)

lemma review_tx_keeps: "validateReviewTask input = None \<Longrightarrow> maintains (keeping (pipe_inv {})) (review_tx env input)"
proof -
  assume v: "validateReviewTask input = None"
  let ?i = "rt_TaskID input" and ?d = "rt_Decision input"
  have d: "?d = TaskApproved \<or> ?d = TaskRejected" using v by (auto simp: validateReviewTask_def split: if_splits)
  have "triple (pipe_inv {}) (record_review env input locked) (\<lambda>_. pipe_inv {})" for locked
    unfolding record_review_def
  proof (intro triple_bind [OF frame_triples(3)] reviewed_triple [OF d] on_pipe_facts)
    fix ri t
    let ?P = "\<lambda>db. pipe_inv {} db \<and> has_review db ?i ?d \<and> has_artifact_set db ?i"
    show "triple ?P (tx_seq (appendResourceEvent env ''episode_task'' ?i uuid_nil (rt_ActorUserID input) ''task.reviewed''
        [(''decision'', jtext (task_state_str ?d)), (''version'', JNum (tk_version t))])
        (if ?d \<noteq> TaskApproved then tx_return () else queue_approved_import env input ri t)) (\<lambda>_. pipe_inv {})"
      by (intro triple_seq [OF frame_triples(2)] triple_if triple_return on_pipe_conj on_pipe_facts
          triple_pre [OF queue_approved_import_triple]) auto
  qed auto
  then have "maintains (keeping (pipe_inv {})) (record_review env input locked)" for locked by (simp add: triple_keeping)
  then show ?thesis unfolding review_tx_def Let_def by (intro keep_rules)
qed

lemma CompleteFinalize_keeps: "maintains (keeping (pipe_inv {})) (CompleteFinalize env i j)"
proof -
  have "triple (pipe_inv {}) (approveRSSReviewInTx env i j sub v) (\<lambda>_. pipe_inv {})" for sub v
    unfolding approveRSSReviewInTx_def Let_def required_or_fail
    by (intro reviewed_triple triple_seq [OF frame_triples(2)] triple_pre [OF queue_import_triple]
        triple_bind [OF frame_triples(4)] frame_triples(2) on_pipe_conj on_pipe_facts)
      (auto simp: auto_review_def)
  then have auto: "maintains (keeping (pipe_inv {})) (approveRSSReviewInTx env i j sub v)" for sub v
    by (simp add: triple_keeping)
  have rest: "triple (\<lambda>db. pipe_inv {} db \<and> has_artifact_set db i)
      (tx_seq (appendResourceEvent env a b c d e f) (tx_bind (GetTaskRSSAutoReview i) (\<lambda>autoReview.
        case autoReview of None \<Rightarrow> tx_return ()
        | Some (subscription, enabled) \<Rightarrow> if \<not> enabled then tx_return ()
            else approveRSSReviewInTx env i j subscription w))) (\<lambda>_. pipe_inv {})" for a b c d e f w
    by (rule triple_pre [OF iffD2 [OF triple_keeping]]) (intro keep_rules auto, simp)
  have "triple (\<lambda>db. pipe_inv {} db \<and> has_artifact_set db i) (await_review env i j) (\<lambda>_. pipe_inv {})"
    unfolding await_review_def
    by (rule triple_bind [OF triple_required [OF MarkTaskAwaitingReview_triple] rest])
  then have "triple (pipe_inv {}) (tx_seq (CreateArtifactSet s) (await_review env i j)) (\<lambda>_. pipe_inv {})" if "as_task_id s = i" for s
    using triple_seq [OF CreateArtifactSet_triple [of "{}" s]] that by simp
  then have "maintains (keeping (pipe_inv {})) (tx_seq (CreateArtifactSet s) (await_review env i j))" if "as_task_id s = i" for s
    using that by (simp add: triple_keeping)
  then show ?thesis
    unfolding CompleteFinalize_def
    by (intro pipe_keep.keeps_bind pipe_keep.keeps_if pipe_keep.keeps_return pipe_keep.keeps_fail or_fail_maintains required_maintains
        keep_reads) simp
qed

lemma task_frame_triple:
  "maintains (frame tasks) m \<Longrightarrow> triple (\<lambda>db. P (tasks db)) m (\<lambda>_ db. P (tasks db))"
  by (auto simp: triple_def maintains_def frame_def)

lemma triple_conj: "triple P m Q \<Longrightarrow> triple P' m Q' \<Longrightarrow> triple (\<lambda>db. P db \<and> P' db) m (\<lambda>x db. Q x db \<and> Q' x db)"
  by (auto simp: triple_def)

lemma CompleteImport_keeps: "maintains (keeping (pipe_inv {})) (CompleteImport env c)"
proof -
  let ?t = "ico_TaskID c" and ?i = "ico_ImportID c" and ?v = "ico_DestinationVideoPath c" and ?s = "ico_DestinationSubtitlePath c"
  let ?only = "\<lambda>ts. \<forall>r \<in> set ts. tk_id r = ?t \<longrightarrow> tk_state r = TaskImporting"
  let ?only' = "\<lambda>t ts. \<forall>r \<in> set ts. tk_id r = ?t \<longrightarrow> r = t"
  have get: "triple (\<lambda>db. pipe_inv {} db \<and> ?only' t (tasks db)) (GetTaskImportCommand ?t ?i)
      (\<lambda>v db. (pipe_inv {} db \<and> ?only' t (tasks db)) \<and> (v \<noteq> None \<longrightarrow> has_import db ?t (\<lambda>r. im_id r = ?i)))" for t
    by (auto simp: triple_def GetTaskImportCommand_def bind_eq_Some_conv split: prod.splits
      dest!: find_eq_SomeD intro: has_importI)
  have stmt: "triple (\<lambda>db. (pipe_inv {} db \<and> has_import db ?t (\<lambda>r. im_id r = ?i)) \<and> ?only (tasks db)) (CompleteImport_stmt ?v ?s ?i)
      (\<lambda>x db. (x \<noteq> None \<longrightarrow> pipe_inv {?t} db \<and> has_import db ?t import_succeeded) \<and> ?only (tasks db))"
    if "trim_space ?v \<noteq> []" "trim_space ?s \<noteq> []"
    by (rule triple_conj [OF CompleteImport_stmt_triple [OF that] task_frame_triple [OF import_statements_frame(2)]])
  have fin: "triple (pipe_inv {}) (finish_import env c u) (\<lambda>_. pipe_inv {})" for u
    by (rule triple_frame [OF finish_import_pipe on_pipe_facts(1)])
  have work: "triple (\<lambda>db. (pipe_inv {} db \<and> has_import db ?t (\<lambda>r. im_id r = ?i)) \<and> ?only (tasks db))
      (tx_seq (required w (CompleteImport_stmt ?v ?s ?i)) (tx_bind (required w' (MarkTaskImported ?t)) (finish_import env c)))
      (\<lambda>_. pipe_inv {})" if "trim_space ?v \<noteq> []" "trim_space ?s \<noteq> []" for w w'
    by (rule triple_seq [OF triple_post [OF triple_required [OF stmt [OF that]]]
        triple_bind [OF triple_required [OF MarkTaskImported_triple] fin]]) auto
  have "triple (pipe_inv {}) (CompleteImport env c) (\<lambda>_. pipe_inv {})"
    unfolding CompleteImport_def
    by (intro triple_if triple_fail triple_bind [OF triple_or_fail [OF LockEpisodeTask_triple]]
        triple_bind [OF triple_pre [OF triple_required [OF get]]] triple_return triple_pre [OF work]) auto
  then show ?thesis by (simp add: triple_keeping)
qed

lemma queue_import_tx_keeps: "maintains (keeping (pipe_inv {})) (queue_import_tx env q)"
proof -
  let ?i = "qi_TaskID q" and ?v = "qi_ExpectedVersion q"
  let ?only = "\<lambda>t db. pipe_inv {} db \<and> (\<forall>r \<in> set (tasks db). tk_id r = ?i \<longrightarrow> r = t)"
  have queue: "triple (\<lambda>db. pipe_inv {} db \<and> has_artifact_set db ?i \<and> has_review db ?i TaskApproved)
      (queue_new_import env q conflict) (\<lambda>_. pipe_inv {})" for conflict
    unfolding queue_new_import_def
    by (intro triple_bind [OF frame_triples(3)] queue_import_triple triple_bind [OF frame_triples(4)]
      triple_seq [OF frame_triples(2)] triple_return on_pipe_conj on_pipe_facts)
  have never: "queue_new_import env q conflict db \<noteq> Inr (x, db')"
    if "\<forall>r \<in> set (tasks db). tk_id r = ?i \<longrightarrow> tk_state r \<noteq> TaskApproved" for conflict db x db'
    using that
    by (auto simp: queue_new_import_def tx_bind_eq_Inr_iff tx_seq_eq_Inr_iff or_fail_def MarkTaskImportQueued_def update_task_def
      update_where_def update_one_Inr_iff uuid_New_def CreateTaskImport_def insert_row_Inr_iff Let_def split: option.splits
      dest!: find_eq_SomeD)
  have "triple (\<lambda>db. ?only t db \<and> t \<in> set (tasks db) \<and> tk_id t = ?i) (queue_new_import env q conflict) (\<lambda>_. pipe_inv {})" for t conflict
  proof (cases "tk_state t = TaskApproved")
    case True
    show ?thesis
      by (rule triple_pre [OF queue]) (use True in \<open>auto dest!: pipe_inv_recorded simp: recorded_defs\<close>)
  next
    case False
    show ?thesis by (rule tripleI) (use False never in blast)
  qed
  note new = this
  have lock: "triple (pipe_inv {}) (LockEpisodeTask ?i)
      (\<lambda>v db. \<forall>t. v = Some t \<longrightarrow> ?only t db \<and> t \<in> set (tasks db) \<and> tk_id t = ?i)"
    using LockEpisodeTask_triple [of "{}" ?i]
    by (auto simp: triple_def LockEpisodeTask_def select_one_def dest: find_eq_SomeD)
  have stable: "on_pipe (\<lambda>db. ?only t db \<and> t \<in> set (tasks db) \<and> tk_id t = ?i)" for t
    using on_pipe_facts(1) [of "{}"] by (auto simp: on_pipe_def pipe_eq_iff)
  let ?P = "\<lambda>t db. ?only t db \<and> t \<in> set (tasks db) \<and> tk_id t = ?i"
  have found: "triple (pipe_inv {}) (or_fail e (LockEpisodeTask ?i)) ?P" for e
    by (rule triple_post [OF triple_or_fail [OF lock]]) simp
  have payload: "triple (?P t) (case taskImportOperationPayload p of
      Some (importID, version) \<Rightarrow> if version \<noteq> ?v \<or> importID = uuid_nil then tx_fail e else tx_return x
    | None \<Rightarrow> tx_fail e) (\<lambda>_. pipe_inv {})" for p e x t
    by (auto simp: triple_def split: option.splits)
  have "triple (pipe_inv {}) (queue_import_tx env q) (\<lambda>_. pipe_inv {})"
    unfolding queue_import_tx_def Let_def
    by (intro triple_bind [OF found] triple_bind [OF triple_frame [OF read_statements_pipe(26) stable]] triple_option triple_if
       triple_fail payload triple_seq [OF triple_frame [OF or_fail_maintains [OF read_statements_pipe(6)] stable]] new)
  then show ?thesis by (simp add: triple_keeping)
qed

lemma start_branch_keeps: "maintains (keeping (pipe_inv {})) (start_branch k t)"
  unfolding start_branch_def Let_def by (cases k; simp only: MediaKind.case; intro keep_rules)

lemma mark_branch_ready_keeps: "maintains (keeping (pipe_inv {})) (mark_branch_ready c)"
  unfolding mark_branch_ready_def by (cases "ac_Kind c"; simp only: MediaKind.case; intro keep_rules)

lemma beginTaskMedia_keeps: "maintains (keeping (pipe_inv {})) (beginTaskMedia i k)"
  unfolding beginTaskMedia_def by (intro keep_rules start_branch_keeps)

lemma CompleteArtifact_keeps: "maintains (keeping (pipe_inv {})) (CompleteArtifact env c)"
  unfolding CompleteArtifact_def finalize_if_ready_def by (intro keep_rules mark_branch_ready_keeps)

lemma BeginImport_keeps: "maintains (keeping (pipe_inv {})) (BeginImport i j)"
  unfolding BeginImport_def Let_def by (intro keep_rules)

lemma materialize_video_keeps: "maintains (keeping (pipe_inv {})) (materialize_video env d i l mt pr v)"
  unfolding materialize_video_def Let_def by (intro keep_rules CreateEpisodeTask_keeps)

lemma MaterializeDownload_keeps: "maintains (keeping (pipe_inv {})) (MaterializeDownload env d i)"
  unfolding MaterializeDownload_def materialize_videos_def first_error_def Let_def
  by (intro keep_rules materialize_video_keeps)

lemma retry_tx_keeps: "maintains (keeping (pipe_inv {})) (retry_tx env i v k u)"
proof -
  note parts = schedule_retry_pipe [THEN pipe_keeps] schedule_branch_pipe [THEN pipe_keeps]
    lockWorkflowForRetry_pipe [THEN pipe_keeps]
  note sched = schedule_retry_pipe [THEN triple_frame, OF on_pipe_facts(1)]
  have media: "maintains (keeping (pipe_inv {})) (retry_media env i v k u t)" for t
    unfolding retry_media_def retry_event_def Let_def by (intro keep_rules parts)
  have cleanup: "maintains (keeping (pipe_inv {})) (retry_cleanup env i v k u t)" for t
    unfolding retry_cleanup_def by (intro keep_rules parts)
  have after: "triple (pipe_inv {}) (tx_seq (or_fail e (RequeueCancelledTaskAfterMedia i v TaskFinalizing)) (schedule_retry env i u s r)) (\<lambda>_. pipe_inv {})"
    for e s r
    by (rule triple_seq [OF triple_or_fail [OF triple_pre [OF RequeueCancelledTaskAfterMedia_triple]] sched]) simp
  have import: "triple (\<lambda>db. pipe_inv {} db \<and> not_failed i (tasks db)) (tx_bind (required w (RequeueCancelledTaskImport i)) (\<lambda>x.
      tx_seq (or_fail e (RequeueCancelledTaskAfterMedia i v TaskImportQueued)) (schedule_retry env i u s (r x)))) (\<lambda>_. pipe_inv {})"
    for w e s and r :: "Import \<Rightarrow> ScheduleOperationRequest"
    by (rule triple_bind [OF triple_pre [OF triple_required [OF requeue_import_statements(2)]]
        triple_seq [OF triple_or_fail [OF triple_pre [OF RequeueCancelledTaskAfterMedia_triple]] sched]])
      (use pipe_inv_exempt [of "{}" _ "{i}"] has_import_recorded in auto)
  have calm: "on_pipe (\<lambda>db. pipe_inv {} db \<and> not_failed i (tasks db))"
    using on_pipe_facts(1) [of "{}"] by (auto simp: on_pipe_def pipe_eq_iff)
  have cancelled: "triple (\<lambda>db. pipe_inv {} db \<and> not_failed i (tasks db)) (retryCancelledAfterMedia env i v k u) (\<lambda>_. pipe_inv {})"
    unfolding retryCancelledAfterMedia_def Let_def
    by (intro triple_bind [OF triple_frame [OF required_maintains [OF read_statements_pipe(10)] calm]]
      triple_option triple_if triple_fail triple_pre [OF after] import) simp
  have failed: "triple (pipe_inv {}) (tx_seq (or_fail e (RequeueTaskImportBranch i)) (tx_bind (required w (RequeueLatestFailedTaskImport i)) (\<lambda>x.
      schedule_retry env i u s (r x)))) (\<lambda>_. pipe_inv {})"
    for w e s and r :: "Import \<Rightarrow> ScheduleOperationRequest"
    by (rule triple_seq [OF triple_post [OF triple_or_fail [OF RequeueTaskImportBranch_triple]]
        triple_bind [OF triple_pre [OF triple_required [OF requeue_import_statements(1)]] triple_pre [OF sched]]]) simp_all
  have retry_failed: "maintains (keeping (pipe_inv {})) (retry_failed env i k u t)" for t
    unfolding retry_failed_def Let_def
    by (intro pipe_keep.keeps_if failed [unfolded triple_keeping] pipe_keep.keeps_fail)
      (intro pipe_keep.keeps_seq parts or_fail_maintains plain_statements)
  have locked: "triple (\<lambda>db. pipe_inv {} db \<and> (\<forall>r \<in> set (tasks db). tk_id r = i \<longrightarrow> r = t)) (retry_locked env i v k u t) (\<lambda>_. pipe_inv {})" for t
    unfolding retry_locked_def Let_def
    by (intro triple_if triple_fail triple_pre [OF cancelled]
        triple_pre [OF iffD2 [OF triple_keeping cleanup]] triple_pre [OF iffD2 [OF triple_keeping media]]
        triple_pre [OF iffD2 [OF triple_keeping retry_failed]])
      (auto simp: isCancelledMediaRecoverable_def not_failed_def split: if_splits)
  have lock: "triple (pipe_inv {}) (tx_bind (or_fail e (LockEpisodeTask i)) (\<lambda>task. if tk_version task \<noteq> v then tx_fail e' else
      retry_locked env i v k u task)) (\<lambda>_. pipe_inv {})" for e e'
    by (rule triple_bind [OF triple_post [OF triple_or_fail [OF LockEpisodeTask_triple]]], assumption)
      (intro triple_if triple_fail triple_pre [OF locked], simp)
  show ?thesis
    unfolding retry_tx_def
    by (intro pipe_keep.keeps_bind [OF findIdempotentResourceCommand_pipe [THEN pipe_keeps]] pipe_keep.keeps_seq pipe_keep.keeps_option pipe_keep.keeps_return parts
        lock [unfolded triple_keeping] pipe_keep.keeps_bind [OF or_fail_maintains [OF read_statements_pipe(10) [THEN pipe_keeps]]])
qed

lemma cancel_tx_keeps: "maintains (keeping (pipe_inv {})) (cancel_tx env i v k u)"
  unfolding cancel_tx_def by (intro keep_rules)

text \<open>The failure or cancellation of an import operation.\<close>

lemma import_outcome_keeps:
  "maintains (keeping (pipe_inv {})) (failTaskImportResource env p c m)"
  "maintains (keeping (pipe_inv {})) (tx_bind (CancelActiveImport j) (\<lambda>i. case i of None \<Rightarrow> tx_return ()
     | Some _ \<Rightarrow> tx_bind (CancelTaskImport j) (\<lambda>t. case t of None \<Rightarrow> tx_return ()
         | Some task \<Rightarrow> appendTaskLifecycleEvent env (tk_id task) o1 topic d)))"
proof -
  have tail: "triple (\<lambda>db. \<exists>i. j = Some i \<and> pipe_inv {i} db \<and> has_import db i q) (tx_bind (m j) (\<lambda>t. case t of None \<Rightarrow> tx_return ()
       | Some task \<Rightarrow> appendTaskLifecycleEvent env (tk_id task) o1 topic d)) (\<lambda>_. pipe_inv {})"
    if "\<And>i. triple (\<lambda>db. pipe_inv {i} db \<and> has_import db i q) (m (Some i)) (\<lambda>_. pipe_inv {})"
    for m :: "uuid option \<Rightarrow> EpisodeTask option tx" and j o1 topic d q
  proof (cases j)
    case (Some i)
    have "triple (\<lambda>db. pipe_inv {i} db \<and> has_import db i q) (tx_bind (m (Some i)) (\<lambda>t. case t of None \<Rightarrow> tx_return ()
       | Some task \<Rightarrow> appendTaskLifecycleEvent env (tk_id task) o1 topic d)) (\<lambda>_. pipe_inv {})"
      unfolding appendTaskLifecycleEvent_def
      by (intro triple_bind [OF that] triple_option triple_return frame_triples(1) on_pipe_facts)
    then show ?thesis using Some by (auto simp: triple_def)
  qed (simp add: triple_def)
  have cancel: "triple (\<lambda>db. pipe_inv {i} db \<and> has_import db i (\<lambda>_. True)) (CancelTaskImport (Some i)) (\<lambda>_. pipe_inv {})" for i
    by (rule triple_pre [OF import_outcome_triples(2)]) simp
  have "triple (pipe_inv {}) (failTaskImportResource env p c m) (\<lambda>_. pipe_inv {})"
    unfolding failTaskImportResource_def
    by (intro triple_bind [OF end_import_statements(1)] triple_option triple_return triple_pre [OF tail [OF import_outcome_triples(1)]]) simp_all
  then show "maintains (keeping (pipe_inv {})) (failTaskImportResource env p c m)" by (simp add: triple_keeping)
  have "triple (pipe_inv {}) (tx_bind (CancelActiveImport j) (\<lambda>i. case i of None \<Rightarrow> tx_return ()
     | Some _ \<Rightarrow> tx_bind (CancelTaskImport j) (\<lambda>t. case t of None \<Rightarrow> tx_return ()
         | Some task \<Rightarrow> appendTaskLifecycleEvent env (tk_id task) o1 topic d))) (\<lambda>_. pipe_inv {})"
    by (intro triple_bind [OF end_import_statements(2)] triple_option triple_return triple_pre [OF tail [OF cancel]]) simp_all
  then show "maintains (keeping (pipe_inv {})) (tx_bind (CancelActiveImport j) (\<lambda>i. case i of None \<Rightarrow> tx_return ()
     | Some _ \<Rightarrow> tx_bind (CancelTaskImport j) (\<lambda>t. case t of None \<Rightarrow> tx_return ()
         | Some task \<Rightarrow> appendTaskLifecycleEvent env (tk_id task) o1 topic d)))" by (simp add: triple_keeping)
qed

lemma resource_keeps:
  "maintains (keeping (pipe_inv {})) (failOperationResource env p c m r)" "maintains (keeping (pipe_inv {})) (cancelOperationResource env p)"
  subgoal unfolding failOperationResource_def failAgentResolutionResource_def failDownloadEnqueueResource_def
    failDownloadPostEnqueueResource_def failSearchRunResource_def failTaskMediaResource_def
    failTaskCleanupResource_def failEmbyScanResource_def appendSearchLifecycleEvent_def appendTaskLifecycleEvent_def
    MarkActiveCleanupTerminalFailure_def Let_def
    by (intro import_outcome_keeps keep_rules)
  subgoal unfolding cancelOperationResource_def Let_def
    apply (intro import_outcome_keeps pipe_keep.keeps_if)
    unfolding failAgentResolutionResource_def failEmbyScanResource_def appendSearchLifecycleEvent_def appendTaskLifecycleEvent_def
      CancelActiveCleanup_def
    by (intro keep_rules)+
  done

lemma lifecycle_keeps:
  "maintains (keeping (pipe_inv {})) (StartAttempt env i n w)" "maintains (keeping (pipe_inv {})) (FailAttempt env i n c m r)"
  "maintains (keeping (pipe_inv {})) (CancelAttempt env i n)"
  unfolding StartAttempt_def FailAttempt_def CancelAttempt_def appendOperationEvent_def
  by (intro keep_rules resource_keeps)+

section \<open>Runs of the pipeline\<close>

lemma begin_branch_keeps:
  "maintains (keeping (pipe_inv {})) (BeginTranscode i)" "maintains (keeping (pipe_inv {})) (BeginSubtitle i)"
  by (simp_all add: BeginTranscode_def BeginSubtitle_def beginTaskMedia_keeps)

lemmas handler_keeps = MaterializeDownload_keeps begin_branch_keeps CompleteArtifact_keeps CompleteFinalize_keeps review_tx_keeps
  queue_import_tx_keeps BeginImport_keeps CompleteImport_keeps retry_tx_keeps cancel_tx_keeps lifecycle_keeps

lemmas handler_frames = BeginCleanup_pipe CompleteCleanup_pipe lifecycle_pipe ScheduleInTx_sched_only [THEN sched_only_pipe]
  requestCancellations_sched_only [THEN sched_only_pipe]

lemma pipe_inv_cong: "pipe b = pipe a \<Longrightarrow> pipe_inv X a \<Longrightarrow> pipe_inv X b"
  using on_pipe_facts(1) by (auto simp: on_pipe_def)

lemma task_step_keeps: "task_step env a b \<Longrightarrow> keeping (pipe_inv {}) a b"
proof (induction rule: task_step.induct)
  case (step_other b a)
  then show ?case using pipe_inv_cong by (auto simp: keeping_def)
qed (blast intro: handler_keeps [THEN maintainsD] handler_frames [THEN pipe_keeps, THEN maintainsD])+

lemma task_step_inv: "task_step env a b \<Longrightarrow> pipe_inv {} a \<Longrightarrow> pipe_inv {} b"
  using task_step_keeps by (auto simp: keeping_def)

lemma task_steps_inv: "(task_step env)\<^sup>*\<^sup>* a b \<Longrightarrow> pipe_inv {} a \<Longrightarrow> pipe_inv {} b"
  by (induction rule: rtranclp_induct) (auto intro: task_step_inv)

text \<open>The system before its first task.\<close>

definition no_tasks :: "db \<Rightarrow> bool" where
  "no_tasks db \<longleftrightarrow> tasks db = [] \<and> reviews db = [] \<and> imports_tab db = []"

lemma no_tasks_inv: "no_tasks db \<Longrightarrow> pipe_inv {} db \<and> rows_ok db"
  by (simp add: no_tasks_def pipe_inv_def rows_ok_def imports_unique_def one_per_task_def)

lemma run_inv: "(task_step env)\<^sup>*\<^sup>* a b \<Longrightarrow> no_tasks a \<Longrightarrow> pipe_inv {} b \<and> rows_ok b"
  using task_steps_inv [of env a b] task_rel.task_steps_R [of env a b] no_tasks_inv [of a] by (simp add: tasks_advance_def)

lemma distinct_key_filter:
  assumes "distinct (map k xs)" "x \<in> set xs" "k x = i"
  shows "filter (\<lambda>y. k y = i) xs = [x]"
  using assms
proof (induction xs)
  case (Cons y ys)
  show ?case
  proof (cases "y = x")
    case True
    then have "filter (\<lambda>y. k y = i) ys = []" 
      using Cons.prems by (metis (mono_tags, lifting) distinct.simps(2) filter_False imageI list.set_map list.simps(9))
    then show ?thesis using True Cons.prems by simp
  next
    case False
    then show ?thesis using Cons by auto
  qed
qed simp

lemma one_review: "pipe_inv X db \<Longrightarrow> has_review db i d \<Longrightarrow> \<exists>r. filter (\<lambda>r. rv_task_id r = i) (reviews db) = [r] \<and> rv_decision r = d"
  by (auto simp: pipe_inv_def has_review_def list_ex_iff dest: distinct_key_filter)

lemma one_success:
  assumes "pipe_inv X db" "has_import db i import_succeeded"
  shows "\<exists>m v s. filter (\<lambda>m. im_task_id m = i \<and> im_status m = ImSucceeded) (imports_tab db) = [m] \<and>
    im_video_path m = Some v \<and> im_subtitle_path m = Some s \<and> trim_space v \<noteq> [] \<and> trim_space s \<noteq> []"
proof -
  from assms obtain m where m: "m \<in> set (filter import_succeeded (imports_tab db))" "im_task_id m = i"
    by (auto simp: has_import_def list_ex_iff)
  have "distinct (map im_task_id (filter import_succeeded (imports_tab db)))"
    using assms(1) by (simp add: pipe_inv_def imports_unique_def one_per_task_def)
  from distinct_key_filter [OF this m]
  have "filter (\<lambda>m. im_task_id m = i \<and> im_status m = ImSucceeded) (imports_tab db) = [m]"
    by (simp add: import_succeeded_def conj_commute)
  moreover have "import_recorded db m" using assms(1) m by (simp add: pipe_inv_def)
  ultimately show ?thesis using m by (auto simp: import_recorded_def)
qed

end
