(* ===== verification/TaskRuns.thy ===== *)
theory TaskRuns
  imports TaskPipeline
begin

text \<open>
  Properties of whole runs of the task pipeline, and a concrete run that reaches the library.
\<close>

section \<open>A run of the pipeline\<close>

text \<open>
  A movie from the completed download to the library. The states between the transactions keep the
  tables the next transaction reads; the log, the operations and the jobs are cleared, as any other
  transaction may leave them.
\<close>

definition run_env :: env where
  "run_env = \<lparr>e_new_uuid = (\<lambda>n. n + 1), e_new_sha1 = length, e_uuid_string = nat_str,
     e_sha256_hex = (\<lambda>s. s), e_insert_tx = (\<lambda>js j. Inr (False, Some (int (length js) + 1)))\<rparr>"

definition run_profile_row :: TranscodeProfileRow where
  "run_profile_row = \<lparr>tp_id = 5, tp_name = lit ''hd'', tp_active = True, tp_is_default = True,
       tp_video_codec = lit ''h264'', tp_encoder = lit ''libx264'', tp_container = lit ''matroska'', tp_file_extension = lit ''mkv'',
       tp_quality_mode = lit ''crf'', tp_quality_thousandths = 20000, tp_audio_policy = lit ''copy'', tp_audio_codec = None,
       tp_preset = lit ''medium'', tp_pixel_format = lit ''yuv420p'', tp_thread_count = 0, tp_max_concurrency = 1\<rparr>"

definition run_profile :: TranscodeProfile where
  "run_profile = \<lparr>Name = lit ''hd'', VideoCodec = lit ''h264'', Encoder = lit ''libx264'', Container = lit ''matroska'',
     FileExtension = lit ''mkv'', QualityMode = lit ''crf'', QualityValue = f64_twenty, AudioPolicy = lit ''copy'', AudioCodec = [],
     Preset = lit ''medium'', PixelFormat = lit ''yuv420p'', ThreadCount = 0, MaxConcurrency = 1\<rparr>"

lemma run_profile: "transcodeProfileFromDB run_profile_row = Inr run_profile"
proof -
  have row: "profile_of_row run_profile_row = run_profile" by code_simp
  have "ValidateTranscodeProfile run_profile = None" by code_simp
  then show ?thesis by (simp add: transcodeProfileFromDB_def row)
qed

text \<open>Evaluation of the run looks the sample profile up instead of validating it again.\<close>

lemma transcodeProfileFromDB_run [code]:
  "transcodeProfileFromDB row =
     (if row = run_profile_row then Inr run_profile
      else let profile = profile_of_row row
           in case ValidateTranscodeProfile profile of Some e \<Rightarrow> Inl e | None \<Rightarrow> Inr profile)"
  using run_profile by (simp add: transcodeProfileFromDB_def)

definition run_db0 :: db where
  "run_db0 = empty_db\<lparr>
     acquisitions := [\<lparr>aq_id = 1, aq_series_id = 2, aq_mapping_profile_id = None, aq_rss_entry_id = None,
       aq_source_payload = [], aq_deletion_requested_at = None\<rparr>],
     series_tab := [\<lparr>ms_id = 2, ms_title = lit ''Up'', ms_tmdb_series_id = None, ms_media_type = ''movie'',
       ms_tmdb_movie_id = Some 14160, ms_release_year = Some 2009, ms_status = None\<rparr>],
     downloads := [\<lparr>dl_id = 3, dl_acquisition_id = 1, dl_attempt = 1, dl_torrent_hash = Some (lit ''h''),
       dl_status = DownloadCompleted, dl_save_path = Some (lit ''/d''), dl_error_code = None, dl_error_message = None,
       dl_version = 1, dl_failure_stage = None, dl_deleted_at = None\<rparr>],
     download_files := [\<lparr>df_id = 4, df_download_id = 3, df_file_index = 0, df_relative_path = lit ''Up.mkv'',
       df_media_kind = MediaVideo, df_selected = True, df_source_season = Some 1, df_source_episode = Some 1,
       df_source_fraction = 0, df_language = None\<rparr>],
     transcode_profiles := [run_profile_row]\<rparr>"

definition run_artifact :: "MediaKind \<Rightarrow> MediaArtifactCompletion" where
  "run_artifact kind = \<lparr>ac_TaskID = 47, ac_OperationID = 9, ac_SourceFileID = 4, ac_TranscodeProfileID = 5, ac_Kind = kind,
     ac_BaseName = lit ''Up'', ac_FilePath = (if kind = MediaVideo then lit ''/s/Up.mkv'' else lit ''/s/Up.ass''),
     ac_Format = (if kind = MediaVideo then lit ''mkv'' else lit ''ass''), ac_SizeBytes = 7, ac_ChecksumSHA256 = replicate 32 0\<rparr>"

definition run_review :: "TaskState \<Rightarrow> ReviewTaskInput" where
  "run_review d = \<lparr>rt_TaskID = 47, rt_ExpectedVersion = 6, rt_Decision = d, rt_Notes = [], rt_IdempotencyKey = lit ''k'', rt_ActorUserID = 8\<rparr>"

definition run_completion :: "uuid \<Rightarrow> ImportCompletion" where
  "run_completion i = \<lparr>ico_TaskID = 47, ico_ImportID = i, ico_OperationID = 9, ico_DestinationVideoPath = lit ''/l/Up.mkv'',
     ico_DestinationSubtitlePath = lit ''/l/Up.ass''\<rparr>"


definition run_task :: "TaskState \<Rightarrow> VideoState \<Rightarrow> SubtitleState \<Rightarrow> int \<Rightarrow> EpisodeTask" where
  "run_task s v u n = (new_task 47 1 4 None 5 TaskMediaMovie)\<lparr>tk_state := s, tk_video_state := v, tk_subtitle_state := u, tk_version := n\<rparr>"

definition run_row :: "MediaKind \<Rightarrow> MediaArtifact" where
  "run_row kind = completed_artifact run_env (run_artifact kind)"

definition run_set :: ArtifactSet where
  "run_set = \<lparr>as_id = 48, as_task_id = 47, as_transcode_profile_id = 5, as_basename = lit ''Up'', as_video_artifact_id = 50,
     as_subtitle_artifact_id = 53\<rparr>"

definition run_import :: "ImportStatus \<Rightarrow> Import" where
  "run_import s = \<lparr>im_id = 3, im_task_id = 47, im_attempt = 1, im_status = s,
     im_video_path = (if s = ImSucceeded then Some (lit ''/l/Up.mkv'') else None),
     im_subtitle_path = (if s = ImSucceeded then Some (lit ''/l/Up.ass'') else None), im_error_code = None, im_error_message = None,
     im_started_at = (if s = ImQueued then None else Some 0), im_completed_at = (if s = ImSucceeded then Some 0 else None)\<rparr>"

definition run_reviewed :: "TaskState \<Rightarrow> Review" where
  "run_reviewed d = \<lparr>rv_id = 1, rv_task_id = 47, rv_decision = d, rv_notes = [], rv_reviewed_by = Some 8,
     rv_key = lit ''task.review:47:k'', rv_expected_task_version = 6\<rparr>"

definition "run_db1 = run_db0\<lparr>tasks := [run_task TaskMediaQueued VideoTranscodeQueued SubtitleQueued 1]\<rparr>"
definition "run_db2 = run_db0\<lparr>tasks := [run_task TaskProcessing VideoTranscoding SubtitleQueued 2]\<rparr>"
definition "run_db3 = run_db0\<lparr>tasks := [run_task TaskProcessing VideoReady SubtitleQueued 3], artifacts := [run_row MediaVideo]\<rparr>"
definition "run_db4 = run_db0\<lparr>tasks := [run_task TaskFinalizing VideoReady SubtitleASSReady 5],
  artifacts := [run_row MediaVideo, run_row MediaSubtitle]\<rparr>"
definition "run_db5 = run_db4\<lparr>tasks := [run_task TaskAwaitingReview VideoReady SubtitleASSReady 6], artifact_sets := [run_set]\<rparr>"
definition "run_db6 = run_db5\<lparr>tasks := [run_task TaskImportQueued VideoReady SubtitleASSReady 8],
  reviews := [run_reviewed TaskApproved], imports_tab := [run_import ImQueued]\<rparr>"
definition "run_db7 = run_db6\<lparr>tasks := [run_task TaskImporting VideoReady SubtitleASSReady 9], imports_tab := [run_import ImRunning]\<rparr>"
definition "run_db8 = run_db7\<lparr>tasks := [run_task TaskImported VideoReady SubtitleASSReady 10], imports_tab := [run_import ImSucceeded]\<rparr>"
definition "run_rejected = run_db5\<lparr>tasks := [run_task TaskRejected VideoReady SubtitleASSReady 7], reviews := [run_reviewed TaskRejected]\<rparr>"

definition runs_to :: "'a tx \<Rightarrow> db \<Rightarrow> db \<Rightarrow> bool" where
  "runs_to m a b = (case m a of Inr (x, c) \<Rightarrow> pipe c = pipe b | Inl e \<Rightarrow> False)"


lemma run_steps:
  "runs_to (MaterializeDownload run_env 3 9) run_db0 run_db1"
  "runs_to (BeginTranscode 47) run_db1 run_db2"
  "runs_to (CompleteArtifact run_env (run_artifact MediaVideo)) run_db2 run_db3"
  "runs_to (CompleteArtifact run_env (run_artifact MediaSubtitle)) run_db3 run_db4"
  "runs_to (CompleteFinalize run_env 47 9) run_db4 run_db5"
  "runs_to (review_tx run_env (run_review TaskApproved)) run_db5 run_db6"
  "runs_to (review_tx run_env (run_review TaskRejected)) run_db5 run_rejected"
  "runs_to (BeginImport 47 3) run_db6 run_db7"
  "runs_to (CompleteImport run_env (run_completion 3)) run_db7 run_db8"
  subgoal by code_simp
  subgoal by code_simp
  subgoal by code_simp
  subgoal by code_simp
  subgoal by code_simp
  subgoal by code_simp
  subgoal by code_simp
  subgoal by code_simp
  subgoal by code_simp
  done

lemma run_reviews_valid: "validateReviewTask (run_review TaskApproved) = None" "validateReviewTask (run_review TaskRejected) = None"
  by code_simp+

lemma runs_toD:
  assumes "runs_to m a b" "\<And>x c. m a = Inr (x, c) \<Longrightarrow> task_step env a c"
  shows "(task_step env)\<^sup>*\<^sup>* a b"
proof -
  from assms(1) obtain x c where "m a = Inr (x, c)" "pipe b = pipe c"
    by (auto simp: runs_to_def split: sum.splits)
  with assms(2) step_other [of b c env] show ?thesis by (meson converse_rtranclp_into_rtranclp rtranclp.rtrancl_refl)
qed

lemma run_to_review: "(task_step run_env)\<^sup>*\<^sup>* run_db0 run_db5"
  by (rule rtranclp_trans [OF runs_toD [OF run_steps(1) step_materialize] rtranclp_trans [OF runs_toD [OF run_steps(2) step_transcode]
      rtranclp_trans [OF runs_toD [OF run_steps(3) step_artifact] rtranclp_trans [OF runs_toD [OF run_steps(4) step_artifact]
      runs_toD [OF run_steps(5) step_finalize]]]]])

lemma run_to_library: "(task_step run_env)\<^sup>*\<^sup>* run_db0 run_db8"
  by (rule rtranclp_trans [OF run_to_review rtranclp_trans [OF runs_toD [OF run_steps(6) step_review [OF run_reviews_valid(1)]]
      rtranclp_trans [OF runs_toD [OF run_steps(8) step_begin_import] runs_toD [OF run_steps(9) step_complete_import]]]])

lemma run_to_rejection: "(task_step run_env)\<^sup>*\<^sup>* run_db0 run_rejected"
  by (rule rtranclp_trans [OF run_to_review runs_toD [OF run_steps(7) step_review [OF run_reviews_valid(2)]]])

lemma run_db0_no_tasks: "no_tasks run_db0"
  by (simp add: no_tasks_def run_db0_def empty_db_def)

lemmas run_dbs = run_db8_def run_db7_def run_db6_def run_db5_def run_db4_def run_db1_def run_db0_def run_rejected_def

section \<open>Properties of every run\<close>

text \<open>
  C1: In every run from a system without tasks, an imported task has both media branches ready, a paired
  artifact set, exactly one review, which approved it, and exactly one succeeded import, with the
  destination paths of the video and the subtitle.
\<close>

theorem imported_task_records:
  assumes "no_tasks a" "(task_step env)\<^sup>*\<^sup>* a db" "t \<in> set (tasks db)" "tk_state t = TaskImported"
  shows "both_ready t \<and> has_artifact_set db (tk_id t) \<and>
    (\<exists>r. filter (\<lambda>r. rv_task_id r = tk_id t) (reviews db) = [r] \<and> rv_decision r = TaskApproved) \<and>
    (\<exists>m v s. filter (\<lambda>m. im_task_id m = tk_id t \<and> im_status m = ImSucceeded) (imports_tab db) = [m] \<and>
       im_video_path m = Some v \<and> im_subtitle_path m = Some s \<and> trim_space v \<noteq> [] \<and> trim_space s \<noteq> [])"
proof -
  note inv = run_inv [OF assms(2,1)]
  then have rec: "task_recorded {} db t" using assms(3) by (simp add: pipe_inv_def)
  then have "has_artifact_set db (tk_id t)" "has_review db (tk_id t) TaskApproved" "has_import db (tk_id t) import_succeeded"
    using assms(4) by (simp_all add: recorded_defs)
  moreover have "both_ready t" using inv assms(3,4) by (auto simp: rows_ok_def task_row_ok_def late_state_def)
  ultimately show ?thesis using inv one_review one_success by blast
qed

text \<open>
  C3: In every such run a task that was rejected stays without an import: its one review is the rejection,
  and no import row exists for it.
\<close>

theorem rejected_task_never_imports:
  assumes "no_tasks a" "(task_step env)\<^sup>*\<^sup>* a db" "r \<in> set (reviews db)" "rv_decision r = TaskRejected"
  shows "\<not> has_import db (rv_task_id r) (\<lambda>_. True) \<and>
    (\<forall>t \<in> set (tasks db). tk_id t = rv_task_id r \<longrightarrow> \<not> approved_state (tk_state t))"
proof -
  from run_inv [OF assms(2,1)] have inv: "pipe_inv {} db" by simp
  have "has_review db (rv_task_id r) TaskRejected" using assms(3,4) by (auto simp: has_review_def list_ex_iff)
  then have no: "\<not> has_review db (rv_task_id r) TaskApproved" 
    using one_review [OF inv, of "rv_task_id r"] by (metis TaskState.distinct list.inject)
  then show ?thesis using inv has_import_recorded [OF inv] by (auto simp: pipe_inv_def task_recorded_def)
qed

text \<open>
  C2: Across any run every task row is kept with its identity; a row that differs has a larger version, and
  its state was reached along the transitions of \<^verbatim>\<open>ValidateTaskTransition\<close> and the five a retry or a late
  failure adds. The checks of the schema on the row hold throughout.
\<close>

theorem task_rows_refine_lifecycle:
  assumes "(task_step env)\<^sup>*\<^sup>* a b" "rows_ok a" "r \<in> set (tasks a)"
  shows "rows_ok b \<and> (\<exists>!q. q \<in> set (tasks b) \<and> tk_id q = tk_id r) \<and>
    (\<forall>q \<in> set (tasks b). tk_id q = tk_id r \<longrightarrow>
       task_identity q = task_identity r \<and> (q = r \<or> tk_version r < tk_version q) \<and> task_edge\<^sup>*\<^sup>* (tk_state r) (tk_state q))"
proof -
  from task_rel.task_steps_R [OF assms(1)] assms(2,3) obtain q where
    ok: "rows_ok b" and q: "q \<in> set (tasks b)" "task_advance r q" by (auto simp: tasks_advance_def)
  have uniq: "p = q" if "p \<in> set (tasks b)" "tk_id p = tk_id r" for p
    using ok q(1) task_advance_id [OF q(2)] that unfolding rows_ok_def distinct_map inj_on_def by auto
  have "task_identity q = task_identity r \<and> (q = r \<or> tk_version r < tk_version q) \<and> task_edge\<^sup>*\<^sup>* (tk_state r) (tk_state q)"
    using q(2) by (auto simp: task_advance_def)
  then show ?thesis using ok q(1) task_advance_id [OF q(2)] uniq by metis
qed

theorem imported_task_records_witness:
  "tk_state (run_task TaskImported VideoReady SubtitleASSReady 10) = TaskImported \<and>
   has_artifact_set run_db8 47 \<and>
   (\<exists>m. filter (\<lambda>m. im_task_id m = 47 \<and> im_status m = ImSucceeded) (imports_tab run_db8) = [m] \<and>
      im_video_path m = Some (lit ''/l/Up.mkv''))"
  using imported_task_records [OF run_db0_no_tasks run_to_library, of "run_task TaskImported VideoReady SubtitleASSReady 10"]
  by (simp add: run_dbs run_task_def new_task_def run_import_def)

theorem rejected_task_never_imports_witness:
  "run_reviewed TaskRejected \<in> set (reviews run_rejected) \<and> \<not> has_import run_rejected 47 (\<lambda>_. True)"
  using rejected_task_never_imports [OF run_db0_no_tasks run_to_rejection, of "run_reviewed TaskRejected"]
  by (simp add: run_dbs run_reviewed_def)

theorem task_rows_refine_lifecycle_witness:
  "run_task TaskAwaitingReview VideoReady SubtitleASSReady 6 \<in> set (tasks run_db5) \<and>
   task_edge\<^sup>*\<^sup>* TaskAwaitingReview TaskRejected \<and> rows_ok run_rejected"
proof -
  have "rows_ok run_db5" using run_inv [OF run_to_review run_db0_no_tasks] by simp
  moreover have "(task_step run_env)\<^sup>*\<^sup>* run_db5 run_rejected"
    by (rule runs_toD [OF run_steps(7) step_review [OF run_reviews_valid(2)]])
  ultimately show ?thesis
    using task_rows_refine_lifecycle [of run_env run_db5 run_rejected "run_task TaskAwaitingReview VideoReady SubtitleASSReady 6"]
    by (simp add: run_dbs run_task_def new_task_def)
qed

section \<open>Replays and refusals\<close>

lemma LockEpisodeTask_apply: "LockEpisodeTask i db = Inr (List.find (\<lambda>r. tk_id r = i) (tasks db), db)"
  by (simp add: LockEpisodeTask_def select_one_def)

lemma GetTaskReview_apply: "GetTaskReviewByTask i db = Inr (List.find (\<lambda>r. rv_task_id r = i) (reviews db), db)"
  by (simp add: GetTaskReviewByTask_def select_one_def)

lemma or_fail_apply [simp]:
  "m db = Inr (Some x, db') \<Longrightarrow> or_fail e m db = Inr (x, db')" "m db = Inr (None, db') \<Longrightarrow> or_fail e m db = Inl e"
  by (simp_all add: or_fail_def)

lemma find_distinct_key:
  "distinct (map k xs) \<Longrightarrow> x \<in> set xs \<Longrightarrow> List.find (\<lambda>y. k y = k x) xs = Some x"
proof (induction xs)
  case (Cons y ys)
  then show ?case by (cases "k y = k x") (auto simp: image_iff)
qed simp

lemma review_tx_reviewed:
  assumes "t \<in> set (tasks db)" "tk_id t = rt_TaskID input" "rows_ok db" "pipe_inv {} db" "r \<in> set (reviews db)" "rv_task_id r = rt_TaskID input"
  shows "review_tx env input db = (if review_replayed env input r then Inr ((), db)
    else Inl (taskStateConflict ''the task was already reviewed'' (rt_TaskID input) (tk_state t) (tk_version t)))"
proof -
  have "List.find (\<lambda>q. tk_id q = rt_TaskID input) (tasks db) = Some t"
    using assms(1-3) find_distinct_key [of tk_id "tasks db" t] by (simp add: rows_ok_def)
  moreover have "List.find (\<lambda>q. rv_task_id q = rt_TaskID input) (reviews db) = Some r"
    using assms(4-6) find_distinct_key [of rv_task_id "reviews db" r] by (simp add: pipe_inv_def)
  ultimately show ?thesis
    by (simp add: review_tx_def tx_bind_def LockEpisodeTask_apply GetTaskReview_apply or_fail_def)
qed

lemma record_review_stores:
  assumes "rt_Decision input = TaskApproved \<or> rt_Decision input = TaskRejected"
  shows "triple (\<lambda>_. True) (record_review env input t)
    (\<lambda>_ db. \<exists>r \<in> set (reviews db). rv_task_id r = rt_TaskID input \<and> review_replayed env input r)" (is "triple _ _ ?Q")
proof -
  have grow: "triple P m (\<lambda>_. P)" if "maintains reviews_grow m" "\<And>a b. P a \<Longrightarrow> reviews_grow a b \<Longrightarrow> P b" for P and m :: "unit tx"
    using that unfolding triple_def maintains_def by blast
  have create: "triple P (CreateTaskReview r) (\<lambda>_ db. r \<in> set (reviews db))" for P r
    by (auto simp: triple_def CreateTaskReview_def insert_row_Inr_iff)
  have found: "triple (\<lambda>db. r \<in> set (reviews db)) m ?Q"
    if "maintains reviews_grow m" "rv_task_id r = rt_TaskID input" "review_replayed env input r" for m and r :: Review
    by (rule triple_post [OF grow [OF that(1)]]) (use that in \<open>auto simp: reviews_grow_def\<close>)
  show ?thesis
    unfolding record_review_def queue_approved_import_def
    by (rule triple_bind [where R = "\<lambda>_ _. True"], simp add: triple_def)
      (rule triple_seq [OF create found], intro review_rel.step_rules, use assms in \<open>auto simp: review_replayed_def\<close>)
qed

lemma review_tx_stores:
  assumes "review_tx env input a = Inr (u, b)" "validateReviewTask input = None"
  shows "\<exists>r \<in> set (reviews b). rv_task_id r = rt_TaskID input \<and> review_replayed env input r"
    and "\<exists>t \<in> set (tasks a). tk_id t = rt_TaskID input"
proof -
  from assms(1) obtain t where t: "List.find (\<lambda>q. tk_id q = rt_TaskID input) (tasks a) = Some t"
    by (auto simp: review_tx_def tx_bind_eq_Inr_iff or_fail_def LockEpisodeTask_apply split: option.splits)
  then show "\<exists>t \<in> set (tasks a). tk_id t = rt_TaskID input" using find_eq_SomeD by fastforce
  note run = assms(1) [unfolded review_tx_def Let_def]
  show "\<exists>r \<in> set (reviews b). rv_task_id r = rt_TaskID input \<and> review_replayed env input r"
  proof (cases "List.find (\<lambda>q. rv_task_id q = rt_TaskID input) (reviews a)")
    case (Some r)
    then show ?thesis
      using run t find_eq_SomeD [OF Some]
      by (auto simp: tx_bind_def or_fail_def LockEpisodeTask_apply GetTaskReview_apply split: if_splits)
  next
    case None
    with run t obtain y c where "record_review env input t c = Inr (u, b)"
      by (auto simp: tx_bind_eq_Inr_iff tx_seq_eq_Inr_iff or_fail_def LockEpisodeTask_apply GetTaskReview_apply split: if_splits option.splits)
    moreover have "rt_Decision input = TaskApproved \<or> rt_Decision input = TaskRejected"
      using assms(2) by (auto simp: validateReviewTask_def split: if_splits)
    ultimately show ?thesis using tripleD [OF record_review_stores] by blast
  qed
qed

text \<open>
  C5: A review command that was committed can be repeated after any further steps: the repetition succeeds
  and changes nothing, and every different review of that task is refused as a conflict and changes
  nothing.
\<close>

theorem review_replay:
  assumes "no_tasks a0" "(task_step env)\<^sup>*\<^sup>* a0 a" "validateReviewTask input = None" "review_tx env input a = Inr (u, b)"
    and "(task_step env)\<^sup>*\<^sup>* b c"
  shows "review_tx env input c = Inr ((), c) \<and>
    (\<forall>other. rt_TaskID other = rt_TaskID input \<longrightarrow>
       (rt_ExpectedVersion other \<noteq> rt_ExpectedVersion input \<or> rt_Decision other \<noteq> rt_Decision input \<or>
        trim_space (rt_Notes other) \<noteq> trim_space (rt_Notes input)) \<longrightarrow>
       (\<exists>s v. review_tx env other c = Inl (taskStateConflict ''the task was already reviewed'' (rt_TaskID input) s v)))"
proof -
  have ab: "task_step env a b" by (rule step_review [OF assms(3,4)])
  have inv: "pipe_inv {} c" "rows_ok c" and "rows_ok a"
    using run_inv [OF _ assms(1)] assms(2,5) ab by (meson rtranclp.rtrancl_into_rtrancl rtranclp_trans)+
  from review_tx_stores [OF assms(4,3)] obtain r t where
    r: "r \<in> set (reviews b)" "rv_task_id r = rt_TaskID input" "review_replayed env input r"
    and t: "t \<in> set (tasks a)" "tk_id t = rt_TaskID input" by blast
  have rc: "r \<in> set (reviews c)" using review_rel.task_steps_R [OF assms(5)] r(1) by (auto simp: reviews_grow_def)
  have "tasks_advance a c"
    using task_rel.task_steps_R [OF converse_rtranclp_into_rtranclp [of "task_step env", OF ab assms(5)]] .
  then obtain q where q: "q \<in> set (tasks c)" "tk_id q = rt_TaskID input"
    using \<open>rows_ok a\<close> t task_advance_id unfolding tasks_advance_def by metis
  show ?thesis
  proof (intro conjI allI impI)
    show "review_tx env input c = Inr ((), c)"
      using review_tx_reviewed [OF q inv(2,1) rc r(2), of env] r(3) by simp
  next
    fix other :: ReviewTaskInput
    assume o: "rt_TaskID other = rt_TaskID input" and d: "rt_ExpectedVersion other \<noteq> rt_ExpectedVersion input \<or>
        rt_Decision other \<noteq> rt_Decision input \<or> trim_space (rt_Notes other) \<noteq> trim_space (rt_Notes input)"
    then have "\<not> review_replayed env other r" using r(3) by (auto simp: review_replayed_def)
    then show "\<exists>s v. review_tx env other c = Inl (taskStateConflict ''the task was already reviewed'' (rt_TaskID input) s v)"
      using review_tx_reviewed [of q c other r env] q inv rc r(2) o by auto
  qed
qed
















definition requeue_failed :: "EpisodeTask \<Rightarrow> EpisodeTask option tx" where
  "requeue_failed t =
     (if video_failed t \<or> subtitle_failed t then RequeueTaskFailedMediaBranches (tk_id t) (tk_version t)
      else if tk_failure_stage t = Some ''finalize'' then RequeueTaskFinalizeBranch (tk_id t)
      else RequeueTaskImportBranch (tk_id t))"

lemma retry_begins:
  assumes "tk_state t = TaskFailed" "tk_failure_stage t = Some s" "s \<in> set failure_stages" "task_row_ok t"
  shows "\<exists>e rest. retry_locked env (tk_id t) (tk_version t) key actor t = tx_seq (or_fail e (requeue_failed t)) rest"
proof (cases "video_failed t \<or> subtitle_failed t")
  case True
  then have "retry_locked env (tk_id t) (tk_version t) key actor t = retry_media env (tk_id t) (tk_version t) key actor t"
    using assms(1) by (simp add: retry_locked_def)
  then show ?thesis using True unfolding retry_media_def requeue_failed_def Let_def by (simp split: prod.splits) blast
next
  case False
  then have "s = ''finalize'' \<or> s = ''import''"
    using assms by (auto simp: task_row_ok_def video_failed_def subtitle_failed_def failure_stages_def)
  moreover have "retry_locked env (tk_id t) (tk_version t) key actor t = retry_failed env (tk_id t) key actor t"
    using False assms(1) by (simp add: retry_locked_def isCancelledMediaRecoverable_def)
  ultimately show ?thesis
    using False assms(2) by (auto simp: retry_failed_def requeue_failed_def valueOrEmpty_def)
qed

lemma update_task_found:
  assumes "rows_ok db" "t \<in> set (tasks db)" "p db t" "\<And>r. p db r \<Longrightarrow> tk_id r = tk_id t"
  shows "\<exists>db'. update_task p f db = Inr (Some (f t), db')"
proof -
  from assms(2,3) obtain r where r: "List.find (p db) (tasks db) = Some r" using find_SomeI by metis
  then have "r \<in> set (tasks db)" "tk_id r = tk_id t" using find_eq_SomeD [OF r] assms(4) by auto
  then have "r = t" using assms(1,2) unfolding rows_ok_def distinct_map inj_on_def by blast
  then show ?thesis using r by (simp add: update_task_def update_where_def update_one_def)
qed

text \<open>The statement a retry begins with finds the failed row, whatever branch failed.\<close>

lemma requeue_failed_finds:
  assumes t: "t \<in> set (tasks db)" "tk_state t = TaskFailed" and ok: "task_row_ok t" "rows_ok db" "task_recorded {} db t"
    and s: "tk_failure_stage t = Some s" "s \<in> set failure_stages"
  shows "\<exists>q db'. requeue_failed t db = Inr (Some q, db') \<and> tk_failure_stage q = None \<and>
     (tk_state q = TaskProcessing \<or> tk_state q = TaskFinalizing \<or> tk_state q = TaskImportQueued)"
proof -
  note found = update_task_found [OF ok(2) t(1)]
  consider "video_failed t \<or> subtitle_failed t"
    | "\<not> (video_failed t \<or> subtitle_failed t)" "s = ''finalize''"
    | "\<not> (video_failed t \<or> subtitle_failed t)" "s = ''import''"
  proof -
    have "video_failed t \<or> subtitle_failed t \<or> s = ''finalize'' \<or> s = ''import''"
      using ok(1) s by (auto simp: task_row_ok_def video_failed_def subtitle_failed_def failure_stages_def)
    then show thesis using that by blast
  qed
  then show ?thesis
  proof cases
    case 1
    have "\<exists>db'. RequeueTaskFailedMediaBranches (tk_id t) (tk_version t) db = Inr (Some (media_requeued t), db')"
      unfolding RequeueTaskFailedMediaBranches_def
      by (rule found) (use 1 t(2) in \<open>auto simp: media_requeueable_def video_failed_def subtitle_failed_def\<close>)
    then show ?thesis using 1 t(2) by (auto simp: requeue_failed_def media_requeued_def)
  next
    case 2
    then have "both_ready t" using ok(1) s by (auto simp: task_row_ok_def)
    then have "\<exists>db'. RequeueTaskFinalizeBranch (tk_id t) db = Inr (Some (task_cleared TaskFinalizing t), db')"
      unfolding RequeueTaskFinalizeBranch_def by (intro found) (use 2 s t(2) in auto)
    then show ?thesis using 2 s by (auto simp: requeue_failed_def task_cleared_def)
  next
    case 3
    then have "has_import db (tk_id t) import_failed" using ok(3) s t(2) by (simp add: task_recorded_def)
    then have "\<exists>db'. RequeueTaskImportBranch (tk_id t) db = Inr (Some (task_cleared TaskImportQueued t), db')"
      unfolding RequeueTaskImportBranch_def using 3 s t(2) by (intro found) auto
    then show ?thesis using 3 s by (auto simp: requeue_failed_def task_cleared_def)
  qed
qed

text \<open>
  C4: A failed task can always be retried: the view offers it, and the statement with which a retry of
  that failure begins finds the row at its current version and takes it out of the failed state.
\<close>

theorem failed_task_can_be_retried:
  assumes "no_tasks a" "(task_step env)\<^sup>*\<^sup>* a db" "t \<in> set (tasks db)" "tk_state t = TaskFailed"
  shows "isTaskRetryable (tk_state t) (tk_video_state t) (tk_subtitle_state t) (valueOrEmpty (tk_failure_stage t)) c \<and>
    (\<exists>e rest. retry_locked env (tk_id t) (tk_version t) key actor t = tx_seq (or_fail e (requeue_failed t)) rest) \<and>
    (\<exists>q db'. requeue_failed t db = Inr (Some q, db') \<and> tk_failure_stage q = None \<and>
       (tk_state q = TaskProcessing \<or> tk_state q = TaskFinalizing \<or> tk_state q = TaskImportQueued))"
proof -
  have ok: "task_row_ok t" "rows_ok db" "task_recorded {} db t"
    using run_inv [OF assms(2,1)] assms(3) by (auto simp: rows_ok_def pipe_inv_def)
  from ok(1) assms(4) obtain s where s: "tk_failure_stage t = Some s" "s \<in> set failure_stages"
    by (auto simp: task_row_ok_def)
  have "isTaskRetryable (tk_state t) (tk_video_state t) (tk_subtitle_state t) (valueOrEmpty (tk_failure_stage t)) c"
    using s assms(4) by (auto simp: isTaskRetryable_def valueOrEmpty_def failure_stages_def)
  then show ?thesis
    using retry_begins [OF assms(4) s ok(1)] requeue_failed_finds [OF assms(3,4) ok s] by (intro conjI)
qed

section \<open>Witnesses\<close>

theorem review_replay_witness:
  "\<exists>b. review_tx run_env (run_review TaskApproved) run_db5 = Inr ((), b) \<and> review_tx run_env (run_review TaskApproved) b = Inr ((), b) \<and>
     (\<exists>s v. review_tx run_env (run_review TaskRejected) b = Inl (taskStateConflict ''the task was already reviewed'' 47 s v))"
proof -
  obtain b where run: "review_tx run_env (run_review TaskApproved) run_db5 = Inr ((), b)"
    using run_steps(6) by (auto simp: runs_to_def split: sum.splits)
  from review_replay [OF run_db0_no_tasks run_to_review run_reviews_valid(1) run rtranclp.rtrancl_refl] run show ?thesis
    by (auto simp: run_review_def)
qed


text \<open>The transcode operation of the sample task runs its last attempt, which fails.\<close>

definition run_failing :: db where
  "run_failing = run_db2\<lparr>
     operations := [\<lparr>op_id = 1, op_kind = ''transcode.run'', op_resource_type = Some ''episode_task'', op_resource_id = Some 47,
       op_key = lit ''t'', op_status = OpRunning, op_river_job = Some 1, op_max_attempts = 1, op_attempt_count = 1,
       op_timeout_seconds = 60, op_cancel_requested_at = None, op_heartbeat_at = None, op_error_code = None,
       op_error_message = None, op_payload = [], op_started_at = Some 0, op_finished_at = None\<rparr>],
     op_attempts := [\<lparr>at_id = 2, at_operation_id = 1, at_attempt = 1, at_status = AtRunning, at_worker_id = None,
       at_error_code = None, at_error_message = None, at_heartbeat_at = None, at_finished_at = None\<rparr>]\<rparr>"

definition run_failed :: db where
  "run_failed = run_db2\<lparr>tasks := [task_failed ''video'' (lit ''c'') (lit ''m'')
     (run_task TaskProcessing VideoFailed SubtitleQueued 2)]\<rparr>"

lemma run_fails: "runs_to (FailAttempt run_env 1 1 (lit ''c'') (lit ''m'') False) run_failing run_failed"
  by code_simp

lemma run_to_failure: "(task_step run_env)\<^sup>*\<^sup>* run_db0 run_failed"
proof -
  have other: "task_step run_env run_db2 run_failing" by (rule step_other) (simp add: pipe_def run_failing_def)
  show ?thesis
    by (rule rtranclp_trans [OF runs_toD [OF run_steps(1) step_materialize] rtranclp_trans [OF runs_toD [OF run_steps(2) step_transcode]
        converse_rtranclp_into_rtranclp [of "task_step run_env", OF other runs_toD [OF run_fails step_fail]]]])
qed

theorem failed_task_can_be_retried_witness:
  "\<exists>t q db'. t \<in> set (tasks run_failed) \<and> tk_state t = TaskFailed \<and> requeue_failed t run_failed = Inr (Some q, db') \<and>
     tk_failure_stage q = None"
proof -
  let ?t = "task_failed ''video'' (lit ''c'') (lit ''m'') (run_task TaskProcessing VideoFailed SubtitleQueued 2)"
  have t: "?t \<in> set (tasks run_failed)" "tk_state ?t = TaskFailed" by (simp_all add: run_failed_def task_failed_def)
  from failed_task_can_be_retried [OF run_db0_no_tasks run_to_failure t]
  obtain q db' where "requeue_failed ?t run_failed = Inr (Some q, db')" "tk_failure_stage q = None" by blast
  with t show ?thesis by blast
qed

end
