(* ===== verification/WorkerRuns.thy ===== *)
theory WorkerRuns
  imports CleanupWorker ImportSafety TaskRuns
begin

text \<open>
  The handlers as a whole, over the store and the file system together: an import that succeeds
  leaves the recorded files in the library, a cleanup stays below the configured roots and its loop
  ends. The sample worlds at the end run the handlers on concrete stores and disks.
\<close>

section \<open>Destinations in the library\<close>

lemma secureJoin_elems:
  assumes "secureJoin wd root (join cs [slash]) = Some d" "\<forall>w. wd = Some w \<longrightarrow> is_abs w"
    and cs: "propers cs" "cs \<noteq> []" "\<forall>e \<in> set cs. 92 \<notin> set e"
  obtains bs where "path_abs wd (path_clean root) = Some (abs_path bs)" "propers bs" "d = abs_path (bs @ cs)"
proof -
  from assms(1) obtain base where base: "path_abs wd (path_clean root) = Some base"
    "path_abs wd (path_join [base, replace_rune 92 slash (join cs [slash])]) = Some d"
    by (auto simp: secureJoin_def split: if_splits Option.bind_splits)
  obtain bs where bs: "base = abs_path bs" "propers bs" using path_abs_abs_path [OF base(1) assms(2)] .
  have "92 \<notin> set (join cs [slash])" using cs(3) set_join [of cs "[slash]"] by auto
  then have "replace_rune 92 slash (join cs [slash]) = join cs [slash]"
    unfolding replace_rune_def by (intro map_idI) auto
  moreover have "split_on slash (join cs [slash]) = cs" using cs by (simp add: split_on_join proper_elem_def)
  ultimately have "path_join [base, replace_rune 92 slash (join cs [slash])] = abs_path (bs @ cs)"
    using path_join_abs_path(1) [OF bs(2)] clean_elems_proper [OF cs(1), of True "rev bs"] by (simp add: bs(1))
  then have "d = abs_path (bs @ cs)" using base(2) bs(2) cs(1) by (auto simp: path_abs_def ball_Un)
  with that base(1) bs show ?thesis by simp
qed

text \<open>
  The file names of a pair: one stem and two extensions, without separators. Names built for a task
  are like this, and \<^verbatim>\<open>ValidateArtifactCompletion\<close> lets only files with the canonical stem in.
\<close>

definition plain_text :: "gostr \<Rightarrow> bool" where
  "plain_text s \<longleftrightarrow> slash \<notin> set s \<and> 92 \<notin> set s"

definition named_pair :: "gostr \<Rightarrow> gostr \<Rightarrow> bool" where
  "named_pair video subtitle \<longleftrightarrow>
     (\<exists>b x y. video = b @ dot # x \<and> subtitle = b @ dot # y \<and> x \<noteq> y \<and> x \<noteq> [] \<and> y \<noteq> [] \<and>
        dot \<notin> set x \<and> dot \<notin> set y \<and> plain_text b \<and> plain_text x \<and> plain_text y)"

lemma named_pair_proper:
  "named_pair v s \<Longrightarrow> proper_elem v \<and> proper_elem s \<and> plain_text v \<and> plain_text s"
  by (auto simp: named_pair_def plain_text_def intro!: proper_name)

lemma sanitize_plain: "plain_text (sanitizeMediaNamePart v)"
  using sanitize_safe [of 92 v] sanitize_no_slash [of v] by (auto simp: plain_text_def unsafe_rune_def forbidden_runes_def)

lemma digits_plain: "plain_text (nat_str n)"
  using nat_str_set [of 47 n] nat_str_set [of 92 n] by (auto simp: plain_text_def)

lemma library_paths_elems:
  assumes "library_paths settings command = Inr (root, relative)"
    and n: "named_pair (path_base (ar_file_path (ic_Video command))) (path_base (ar_file_path (ic_Subtitle command)))"
  obtains cs where "propers cs" "\<forall>e \<in> set cs. plain_text e"
    "Video relative = join (cs @ [path_base (ar_file_path (ic_Video command))]) [slash]"
    "Subtitle relative = join (cs @ [path_base (ar_file_path (ic_Subtitle command))]) [slash]"
proof -
  let ?v = "path_base (ar_file_path (ic_Video command))" and ?s = "path_base (ar_file_path (ic_Subtitle command))"
  note p = named_pair_proper [OF n]
  show ?thesis
  proof (cases "ic_MediaType command")
    case TaskMediaEpisode
    let ?series = "sanitizeMediaNamePart (ic_SeriesTitle command)" and ?season = "lit ''Season'' @ itoa (ic_Season command)"
    have b: "?series \<noteq> []" "0 \<le> ic_Season command"
      "relative = \<lparr>Directory = path_join [?series, ?season], Video = path_join [path_join [?series, ?season], ?v],
         Subtitle = path_join [path_join [?series, ?season], ?s]\<rparr>"
      using assms(1) TaskMediaEpisode
      by (auto simp: library_paths_def BuildLibraryRelativePaths_def Let_def map_sum_def split: if_splits sum.splits)
    have "itoa (ic_Season command) = nat_str (nat (ic_Season command))" using b(2) by (simp add: itoa_def)
    then have "plain_text ?season" using digits_plain by (auto simp: plain_text_def lit_Cons)
    then show ?thesis
      using b p sanitize_proper sanitize_plain season_dir_proper path_join_nested [of ?series ?season]
      by (intro that [of "[?series, ?season]"]) auto
  next
    case TaskMediaMovie
    then obtain names where names: "BuildMovieFileNames \<lparr>MovieTitle = sanitizeMediaNamePart (ic_MovieTitle command),
          ReleaseYear = ic_ReleaseYear command, MVideoExtension = trim_prefix (to_lower (path_ext ?v)) (lit ''.'')\<rparr> = Inr names"
      "relative = \<lparr>Directory = BaseName names, Video = path_join [BaseName names, ?v], Subtitle = path_join [BaseName names, ?s]\<rparr>"
      using assms(1)
      by (auto simp: library_paths_def BuildMovieLibraryRelativePaths_def Let_def map_sum_def split: if_splits sum.splits)
    note d = BuildMovieFileNames_InrD [OF names(1)]
    have "plain_text (pad_zero 4 (ic_ReleaseYear command))"
      using d(2) pad_zero_set [of "ic_ReleaseYear command" _ 4] by (fastforce simp: plain_text_def)
    then have "plain_text (BaseName names)"
      using d(5) sanitize_plain by (auto simp: plain_text_def sanitize_idem lit_Cons)
    then show ?thesis
      using names(2) p movie_base_ok(4) [OF names(1)] path_join_proper [of "[BaseName names, ?v]"]
        path_join_proper [of "[BaseName names, ?s]"]
      by (intro that [of "[BaseName names]"]) auto
  qed
qed

section \<open>What the import records\<close>

lemma or_fail_Inr_iff: "or_fail e m db = Inr (x, db') \<longleftrightarrow> m db = Inr (Some x, db')"
  by (auto simp: or_fail_def tx_bind_eq_Inr_iff tx_return_def tx_fail_def split: option.splits)

lemma upd_row_found: "List.find p rs = Some r \<Longrightarrow> p r \<and> f r \<in> set (upd_row p f rs)"
  by (auto simp: in_set_upd_row_iff dest!: find_eq_SomeD)

lemma find_upd_row:
  assumes "distinct (map key rs)" "\<And>r. key (f r) = key r" "\<And>r. p r \<Longrightarrow> key r = k"
    and "List.find p rs = Some r"
  shows "List.find (\<lambda>r. key r = k) (upd_row p f rs) = Some (f r)"
  using assms
proof (induction rs)
  case (Cons a rs)
  show ?case
  proof (cases "p a")
    case True
    then show ?thesis using Cons.prems by auto
  next
    case False
    then have "List.find p rs = Some r" using Cons.prems(4) by simp
    moreover from this have "key a \<noteq> k" using Cons.prems(1,3) find_eq_SomeD [of p rs r] by (auto simp: image_iff)
    ultimately show ?thesis using False Cons by simp
  qed
qed simp

lemma BeginImport_effect:
  assumes run: "BeginImport task i db = Inr (c, db1)" and ids: "distinct (map tk_id (tasks db))"
    and new: "\<forall>r \<in> set (tasks db). tk_id r = task \<longrightarrow> tk_state r \<noteq> TaskImported"
  shows "\<exists>s. paired_artifacts db task = Some (s, ic_Video c, ic_Subtitle c)"
    "ic_TaskID c = task" "ic_ImportID c = i" "ic_TaskState c \<noteq> TaskImported"
    "\<exists>r. List.find (\<lambda>r. tk_id r = task) (tasks db1) = Some r \<and> tk_state r = TaskImporting"
proof -
  let ?p = "\<lambda>r. tk_id r = task \<and> (tk_state r = TaskImportQueued \<or> tk_state r = TaskImporting)"
  have lock: "LockEpisodeTask task db = Inr (List.find (\<lambda>r. tk_id r = task) (tasks db), db)"
    by (simp add: LockEpisodeTask_def select_one_def tx_read_def)
  have get: "GetTaskImportCommand task i db = Inr (x, d) \<Longrightarrow> d = db" for x d
    by (simp add: GetTaskImportCommand_def tx_read_def)
  from run obtain locked row where l: "List.find (\<lambda>r. tk_id r = task) (tasks db) = Some locked"
      "GetTaskImportCommand task i db = Inr (Some row, db)"
      "(let command = importCommandFromRow row
       in if tk_state locked = TaskImported \<and> im_status (ir_import row) = ImSucceeded then tx_return command
        else if tk_state locked \<noteq> TaskImportQueued \<and> tk_state locked \<noteq> TaskImporting
        then tx_fail (mediaWorkflowError ''task_import_state_conflict'' (''task cannot import from state '' @ quoted (task_state_str (tk_state locked))) False)
        else if im_status (ir_import row) \<noteq> ImQueued \<and> im_status (ir_import row) \<noteq> ImRunning
        then tx_fail (mediaWorkflowError ''import_state_conflict'' (''import cannot start from state '' @ quoted (import_status_str (im_status (ir_import row)))) False)
        else tx_seq (required ''start import record'' (StartImport i))
             (tx_bind (required ''start task import'' (StartTaskImport task)) (\<lambda>started.
                tx_return (command\<lparr>ic_TaskState := tk_state started, ic_ImportState := ImRunning\<rparr>)))) db = Inr (c, db1)"
    unfolding BeginImport_def tx_bind_eq_Inr_iff [of "or_fail _ _"] or_fail_Inr_iff lock by (auto dest: get)
  have "tk_state locked \<noteq> TaskImported" using l(1) new by (auto dest: find_eq_SomeD)
  with l(3) obtain im' db2 started where r:
      "StartImport i db = Inr (Some im', db2)" "StartTaskImport task db2 = Inr (Some started, db1)"
      "c = (importCommandFromRow row)\<lparr>ic_TaskState := tk_state started, ic_ImportState := ImRunning\<rparr>"
    unfolding Let_def by (auto simp: tx_seq_eq_Inr_iff tx_bind_eq_Inr_iff required_Inr_iff tx_return_def tx_fail_def split: if_splits)
  from l(2) obtain s where row: "paired_artifacts db task = Some (s, ir_video row, ir_subtitle row)"
      "tk_id (ir_task row) = task" "im_id (ir_import row) = i"
    by (auto simp: GetTaskImportCommand_def tx_read_def by_key_def bind_eq_Some_conv split: prod.splits dest!: find_eq_SomeD)
  have tasks2: "tasks db2 = tasks db" using r(1) by (auto simp: StartImport_def update_one_Inr_iff)
  from r(2) obtain r0 where r0: "List.find ?p (tasks db) = Some r0" "started = bump (r0\<lparr>tk_state := TaskImporting\<rparr>)"
      "tasks db1 = upd_row ?p (\<lambda>r. bump (r\<lparr>tk_state := TaskImporting\<rparr>)) (tasks db)"
    by (auto simp: StartTaskImport_def update_task_def update_where_def update_one_Inr_iff tasks2)
  have b: "tk_state (bump (r\<lparr>tk_state := TaskImporting\<rparr>)) = TaskImporting"
    "tk_id (bump (r\<lparr>tk_state := TaskImporting\<rparr>)) = tk_id r" for r by (simp_all add: bump_def)
  show "\<exists>s. paired_artifacts db task = Some (s, ic_Video c, ic_Subtitle c)" "ic_TaskID c = task" "ic_ImportID c = i"
    "ic_TaskState c \<noteq> TaskImported"
    using row r0(2) b(1) by (simp_all add: r(3) importCommandFromRow_def)
  show "\<exists>r. List.find (\<lambda>r. tk_id r = task) (tasks db1) = Some r \<and> tk_state r = TaskImporting"
    using find_upd_row [OF ids b(2) _ r0(1), of task] b(1) r0(3) by simp
qed

lemma CompleteImport_effect:
  assumes run: "CompleteImport env c db = Inr (u, db')"
    and task: "List.find (\<lambda>r. tk_id r = ico_TaskID c) (tasks db) = Some r0" "tk_state r0 = TaskImporting"
  shows "\<exists>r \<in> set (imports_tab db'). im_id r = ico_ImportID c \<and> im_status r = ImSucceeded \<and>
      im_video_path r = Some (ico_DestinationVideoPath c) \<and> im_subtitle_path r = Some (ico_DestinationSubtitlePath c)"
    "\<exists>r \<in> set (tasks db'). tk_id r = ico_TaskID c \<and> tk_state r = TaskImported"
proof -
  have lock: "LockEpisodeTask (ico_TaskID c) db = Inr (Some r0, db)"
    using task by (simp add: LockEpisodeTask_def select_one_def tx_read_def)
  have get: "GetTaskImportCommand i j db = Inr (x, d) \<Longrightarrow> d = db" for i j x d
    by (simp add: GetTaskImportCommand_def tx_read_def)
  from run obtain x db2 y db3 where r:
      "CompleteImport_stmt (ico_DestinationVideoPath c) (ico_DestinationSubtitlePath c) (ico_ImportID c) db = Inr (Some x, db2)"
      "MarkTaskImported (ico_TaskID c) db2 = Inr (Some y, db3)" "finish_import env c y db3 = Inr (u, db')"
    unfolding CompleteImport_def
    by (auto simp: tx_bind_eq_Inr_iff tx_seq_eq_Inr_iff or_fail_Inr_iff required_Inr_iff lock task(2)
        tx_return_def tx_fail_def split: if_splits dest!: get)
  have p: "tasks db' = tasks db3" "imports_tab db' = imports_tab db3"
    using maintainsD [OF finish_import_pipe r(3)] by (simp_all add: frame_def pipe_eq_iff)
  have i: "imports_tab db3 = imports_tab db2"
    using r(2) by (auto simp: MarkTaskImported_def update_task_def update_where_def update_one_Inr_iff)
  let ?p = "\<lambda>r. im_id r = ico_ImportID c \<and> im_status r = ImRunning"
  let ?f = "\<lambda>r. r\<lparr>im_status := ImSucceeded, im_video_path := Some (ico_DestinationVideoPath c),
      im_subtitle_path := Some (ico_DestinationSubtitlePath c), im_error_code := None, im_error_message := None,
      im_completed_at := Some (clock db)\<rparr>"
  from r(1) obtain q where "List.find ?p (imports_tab db) = Some q" "x = ?f q" "imports_tab db2 = upd_row ?p ?f (imports_tab db)"
    by (auto simp: CompleteImport_stmt_def checked_def update_one_Inr_iff split: sum.splits if_splits)
  with upd_row_found [of ?p "imports_tab db" q ?f]
  have "x \<in> set (imports_tab db2)" "im_id x = ico_ImportID c \<and> im_status x = ImSucceeded \<and>
      im_video_path x = Some (ico_DestinationVideoPath c) \<and> im_subtitle_path x = Some (ico_DestinationSubtitlePath c)"
    by simp_all
  then show "\<exists>r \<in> set (imports_tab db'). im_id r = ico_ImportID c \<and> im_status r = ImSucceeded \<and>
      im_video_path r = Some (ico_DestinationVideoPath c) \<and> im_subtitle_path r = Some (ico_DestinationSubtitlePath c)"
    using p i by auto
  let ?q = "\<lambda>r. tk_id r = ico_TaskID c \<and> tk_state r = TaskImporting"
  from r(2) obtain z where "List.find ?q (tasks db2) = Some z" "y = task_cleared TaskImported z"
      "tasks db3 = upd_row ?q (task_cleared TaskImported) (tasks db2)"
    by (auto simp: MarkTaskImported_def update_task_def update_where_def update_one_Inr_iff)
  with upd_row_found [of ?q "tasks db2" z "task_cleared TaskImported"]
  have "y \<in> set (tasks db3)" "tk_id y = ico_TaskID c \<and> tk_state y = TaskImported"
    by (simp_all add: task_cleared_def)
  then show "\<exists>r \<in> set (tasks db'). tk_id r = ico_TaskID c \<and> tk_state r = TaskImported" using p by auto
qed

section \<open>The import handler\<close>

lemma job_bind_Inr: "job_bind m f w = (Inr x, w') \<longleftrightarrow> (\<exists>y w1. m w = (Inr y, w1) \<and> f y w1 = (Inr x, w'))"
  by (auto simp: job_bind_def split: prod.splits sum.splits)

lemma job_seq_Inr: "job_seq m k w = (Inr x, w') \<longleftrightarrow> (\<exists>y w1. m w = (Inr y, w1) \<and> k w1 = (Inr x, w'))"
  by (simp add: job_seq_def job_bind_Inr)

lemma job_io_Inr: "job_io f m w = (Inr x, w') \<longleftrightarrow> (\<exists>d. m (w_disk w) = (Inr x, d) \<and> w' = w\<lparr>w_disk := d\<rparr>)"
  by (auto simp: job_io_def map_sum_def split: prod.splits sum.splits)

lemma job_tx_Inr:
  "job_tx f m w = (Inr x, w') \<Longrightarrow> m (w_db w) = Inr (x, w_db w') \<and> w_files w' = w_files w"
  by (auto simp: job_tx_def WithinTx_def map_sum_def split: prod.splits sum.splits option.splits dest!: next_event_pair)

lemma job_fail_Inr [simp]: "job_fail e w \<noteq> (Inr x, w')"
  by (simp add: job_fail_def)

lemma import_run_effect:
  assumes run: "import_run t operation command w = (Inr (), w')"
    and wd: "\<forall>x. t_wd t = Some x \<longrightarrow> is_abs x"
    and uuid: "slash \<notin> set (e_uuid_string (t_env t) (ov_ID operation))"
    and names: "named_pair (path_base (ar_file_path (ic_Video command))) (path_base (ar_file_path (ic_Subtitle command)))"
  shows "\<exists>dv ds. artifact_at (t_sha256 t) (ic_Video command) dv (w_files w') \<and>
    artifact_at (t_sha256 t) (ic_Subtitle command) ds (w_files w') \<and>
    CompleteImport (t_env t) \<lparr>ico_TaskID = ic_TaskID command, ico_ImportID = ic_ImportID command,
       ico_OperationID = ov_ID operation, ico_DestinationVideoPath = dv, ico_DestinationSubtitlePath = ds\<rparr> (w_db w) = Inr ((), w_db w')"
proof -
  let ?v = "path_base (ar_file_path (ic_Video command))" and ?s = "path_base (ar_file_path (ic_Subtitle command))"
  from run obtain settings root rel dv ds w1 where r: "library_paths settings command = Inr (root, rel)"
      "secureJoin (t_wd t) root (Video rel) = Some dv" "secureJoin (t_wd t) root (Subtitle rel) = Some ds"
      "job_io import_failure (importArtifactPair (t_sha256 t) (t_rename t) (e_uuid_string (t_env t)) (t_wd t) (ic_Video command)
         (ic_Subtitle command) root dv ds (ov_ID operation)) w = (Inr (), w1)"
      "job_tx (mediaStoreFailure ''import'') (CompleteImport (t_env t)
         \<lparr>ico_TaskID = ic_TaskID command, ico_ImportID = ic_ImportID command, ico_OperationID = ov_ID operation,
          ico_DestinationVideoPath = dv, ico_DestinationSubtitlePath = ds\<rparr>) w1 = (Inr (), w')"
    by (auto simp: import_run_def job_seq_Inr split: option.splits sum.splits)
  obtain cs where cs: "propers cs" "\<forall>e \<in> set cs. plain_text e" "Video rel = join (cs @ [?v]) [slash]" "Subtitle rel = join (cs @ [?s]) [slash]"
    using library_paths_elems [OF r(1) names] .
  note p = named_pair_proper [OF names]
  obtain bs where bs: "path_abs (t_wd t) (path_clean root) = Some (abs_path bs)" "propers bs" "dv = abs_path (bs @ cs @ [?v])"
    by (rule secureJoin_elems [OF r(2) [unfolded cs(3)] wd]) (use cs p in \<open>auto simp: plain_text_def\<close>)
  obtain bs' where bs': "path_abs (t_wd t) (path_clean root) = Some (abs_path bs')" "propers bs'" "ds = abs_path (bs' @ cs @ [?s])"
    by (rule secureJoin_elems [OF r(3) [unfolded cs(4)] wd]) (use cs p in \<open>auto simp: plain_text_def\<close>)
  have "bs' = bs" using bs(1,2) bs'(1,2) by (simp add: abs_path_inj)
  obtain b x y where n: "?v = b @ dot # x" "?s = b @ dot # y" "x \<noteq> y" "x \<noteq> []" "y \<noteq> []" "dot \<notin> set x" "dot \<notin> set y"
      "slash \<notin> set b" "slash \<notin> set x" "slash \<notin> set y"
    using names by (auto simp: named_pair_def plain_text_def)
  have d: "dv = abs_path ((bs @ cs) @ [b @ dot # x])" "ds = abs_path ((bs @ cs) @ [b @ dot # y])"
    using bs(3) bs'(3) n(1,2) by (simp_all add: \<open>bs' = bs\<close>)
  have es: "propers (bs @ cs)" using bs(2) cs(1) by auto
  from r(4) obtain d1 where io: "importArtifactPair (t_sha256 t) (t_rename t) (e_uuid_string (t_env t)) (t_wd t) (ic_Video command)
       (ic_Subtitle command) root dv ds (ov_ID operation) (w_disk w) = (Inr (), d1)" "w1 = w\<lparr>w_disk := d1\<rparr>"
    by (auto simp: job_io_Inr)
  have "artifact_at (t_sha256 t) (ic_Video command) dv (d_files d1) \<and> artifact_at (t_sha256 t) (ic_Subtitle command) ds (d_files d1)"
    using holds_run [OF import_pair_safe [where uuid_str = "e_uuid_string (t_env t)" and operationID = "ov_ID operation",
        OF bs(1,2) es n(8,9,6,10,7,3,4,5) uuid d] io(1) importing.R_refl] by simp
  then show ?thesis using job_tx_Inr [OF r(5)] io(2) by auto
qed

definition well_named :: "db \<Rightarrow> bool" where
  "well_named db \<longleftrightarrow> (\<forall>i s v u. paired_artifacts db i = Some (s, v, u) \<longrightarrow>
     named_pair (path_base (ar_file_path v)) (path_base (ar_file_path u)))"

text \<open>
  C31: a task is marked imported only with its files in the library. When the import handler reports
  success for a task that was not imported yet, the import record it was started for has succeeded, the
  task is imported, and at the two recorded destinations lie the video and the subtitle of the
  task's artifact set, with the size and the checksum the store has for them, whatever else the
  handler met on the way.
\<close>

theorem import_handler_places_files:
  assumes run: "EmbyImportHandler t operation w = (Inr (), w')"
    and wd: "\<forall>x. t_wd t = Some x \<longrightarrow> is_abs x"
    and uuid: "slash \<notin> set (e_uuid_string (t_env t) (ov_ID operation))"
    and db: "well_named (w_db w)" "distinct (map tk_id (tasks (w_db w)))"
      "\<forall>r \<in> set (tasks (w_db w)). tk_id r = ov_ResourceID operation \<longrightarrow> tk_state r \<noteq> TaskImported"
  shows "\<exists>s v u m dv ds. paired_artifacts (w_db w) (ov_ResourceID operation) = Some (s, v, u) \<and>
     m \<in> set (imports_tab (w_db w')) \<and> im_id m = payload_id ''importId'' (ov_Payload operation) \<and> im_status m = ImSucceeded \<and>
     im_video_path m = Some dv \<and> im_subtitle_path m = Some ds \<and>
     (\<exists>r \<in> set (tasks (w_db w')). tk_id r = ov_ResourceID operation \<and> tk_state r = TaskImported) \<and>
     artifact_at (t_sha256 t) v dv (w_files w') \<and> artifact_at (t_sha256 t) u ds (w_files w')"
proof -
  let ?i = "payload_id ''importId'' (ov_Payload operation)"
  from run obtain command w1 where
      started: "job_tx (mediaStoreFailure ''import'') (BeginImport (ov_ResourceID operation) ?i) w = (Inr command, w1)"
    and rest: "(if ic_TaskID command \<noteq> ov_ResourceID operation \<or> ic_ImportID command \<noteq> ?i
        then job_fail (permanentFailure ''import_resource_mismatch'' ''the operation does not match its task import'')
        else if ic_TaskState command = TaskImported \<and> ic_ImportState command = ImSucceeded then job_return ()
        else import_run t operation command) w1 = (Inr (), w')"
    by (auto simp: EmbyImportHandler_def Let_def job_bind_Inr split: if_splits)
  note b = job_tx_Inr [OF started]
  note e = BeginImport_effect [OF b [THEN conjunct1] db(2,3)]
  obtain s where s: "paired_artifacts (w_db w) (ov_ResourceID operation) = Some (s, ic_Video command, ic_Subtitle command)"
    using e(1) by blast
  obtain r0 where r0: "List.find (\<lambda>r. tk_id r = ov_ResourceID operation) (tasks (w_db w1)) = Some r0" "tk_state r0 = TaskImporting"
    using e(5) by blast
  have "import_run t operation command w1 = (Inr (), w')" using rest e(2-4) by simp
  from import_run_effect [OF this wd uuid] db(1) s obtain dv ds where f:
      "artifact_at (t_sha256 t) (ic_Video command) dv (w_files w')" "artifact_at (t_sha256 t) (ic_Subtitle command) ds (w_files w')"
      "CompleteImport (t_env t) \<lparr>ico_TaskID = ic_TaskID command, ico_ImportID = ic_ImportID command,
       ico_OperationID = ov_ID operation, ico_DestinationVideoPath = dv, ico_DestinationSubtitlePath = ds\<rparr> (w_db w1) = Inr ((), w_db w')"
    unfolding well_named_def by blast
  have k: "List.find (\<lambda>r. tk_id r = ico_TaskID \<lparr>ico_TaskID = ic_TaskID command, ico_ImportID = ic_ImportID command,
       ico_OperationID = ov_ID operation, ico_DestinationVideoPath = dv, ico_DestinationSubtitlePath = ds\<rparr>) (tasks (w_db w1)) = Some r0"
    using r0(1) e(2) by simp
  show ?thesis
    using CompleteImport_effect [OF f(3) k r0(2)] s f(1,2) e(2,3) by auto
qed

definition sample_row :: "MediaKind \<Rightarrow> gostr \<Rightarrow> bytes \<Rightarrow> MediaArtifact" where
  "sample_row kind path content = (run_row kind)\<lparr>ar_basename := lit ''Up(2009)'', ar_file_path := path,
     ar_size_bytes := int (length content), ar_checksum := content\<rparr>"

definition sample_tools :: tools where
  "sample_tools = \<lparr>t_env = run_env, t_settings = Some \<lparr>ps_DownloadRoot = lit ''/d'', ps_WorkRoot = [], ps_StagingRoot = lit ''/s'',
       ps_AnimeLibraryRoot = lit ''/l'', ps_MovieLibraryRoot = lit ''/l'', ps_FFmpegPath = lit ''f'', ps_FFprobePath = lit ''p'', ps_LibraryRoot = []\<rparr>,
     t_sha256 = id, t_rename = True, t_wd = None, t_probe = (\<lambda>_. None), t_ffmpeg = (\<lambda>_ _. None), t_password = Inr [], t_client = True\<rparr>"

definition sample_operation :: "payload \<Rightarrow> OperationView" where
  "sample_operation p = \<lparr>ov_ID = 9, ov_Kind = ''emby.import'', ov_ResourceType = ''episode_task'', ov_ResourceID = 47, ov_IdempotencyKey = [],
     ov_Status = OpRunning, ov_RiverJobID = 1, ov_MaxAttempts = 5, ov_AttemptCount = 1, ov_Timeout = 60, ov_Payload = p\<rparr>"

definition sample_world :: world where
  "sample_world = \<lparr>w_disk = \<lparr>d_files = [(lit ''/l'', DirN), (lit ''/s'', DirN), (lit ''/s/Up(2009).mkv'', FileN [7]), (lit ''/s/Up(2009).ass'', FileN [8])], d_events = []\<rparr>,
     w_db = run_db6\<lparr>artifacts := [sample_row MediaVideo (lit ''/s/Up(2009).mkv'') [7], sample_row MediaSubtitle (lit ''/s/Up(2009).ass'') [8]]\<rparr>,
     w_torrents = [lit ''h'']\<rparr>"

section \<open>The cleanup handler\<close>



lemma job_holds_run:
  "job_holds P m Q E \<Longrightarrow> m w = (r, w') \<Longrightarrow> P w \<Longrightarrow> case r of Inl _ \<Rightarrow> E w' | Inr x \<Rightarrow> Q x w'"
  unfolding job_holds_def by (cases r) auto



text \<open>
  C33: a cleanup that reports success has done its work. The staged video and subtitle are gone: a
  look at their paths reports that they do not exist, and in a file system whose nodes all lie in
  directories there is no node at a clean path of theirs. The hash of the torrent was valid, and the
  client no longer knows the torrent under its normalised form.
\<close>

theorem cleanup_completes:
  assumes "cleanup_run t operation command w = (Inr (), w')"
    and wd: "\<forall>x. t_wd t = Some x \<longrightarrow> is_abs x" and s: "t_settings t = Some settings"
  shows "(\<forall>p \<in> {cc_StagedVideoPath command, cc_StagedSubtitlePath command}.
      (\<exists>q. kernel_path (t_wd t) p = Some q \<and> lstat (w_files w') q = Inl ErrNotExist) \<and>
      (tree (w_files w) \<longrightarrow> is_abs p \<longrightarrow> path_clean p = p \<longrightarrow> node_at (w_files w') p = None)) \<and>
    normalizeTorrentHash (cc_TorrentHash command) \<noteq> [] \<and>
    normalizeTorrentHash (cc_TorrentHash command) \<notin> set (w_torrents w')"
proof -
  let ?C = "configured (t_wd t) [ps_DownloadRoot settings, ps_StagingRoot settings, ps_WorkRoot settings]"
  have "cleaning ?C (w_files w) (\<lambda>_. True) w" by (simp add: cleaning_def cleaner.R_refl)
  then have c: "cleans ?C (w_files w) (w_files w')" "torrent_gone command (w_torrents w')"
      "\<forall>p \<in> {cc_StagedVideoPath command, cc_StagedSubtitlePath command}. path_gone (t_wd t) (w_files w') p"
    using job_holds_run [OF cleaning_run [OF wd s refl] assms(1), of "w_files w"] by (simp_all add: cleaning_def)
  have "node_at (w_files w') p = None" if "path_gone (t_wd t) (w_files w') p" "tree (w_files w)" "is_abs p" "path_clean p = p" for p
  proof -
    note h = that
    have "lstat (w_files w') p = Inl ErrNotExist" using h(1,3) by (simp add: path_gone_def kernel_path_def)
    moreover obtain es where "p = abs_path es" "propers es" using path_clean_abs [OF h(3)] h(4) by metis
    ultimately show ?thesis using lstat_absent c(1) h(2) by (simp add: cleans_def)
  qed
  with c show ?thesis by (auto simp: path_gone_def torrent_gone_def)
qed

section \<open>Termination of the climb\<close>

lemma prune_loop_mono: "prune_loop k root current d = Some d' \<Longrightarrow> k \<le> j \<Longrightarrow> prune_loop j root current d = Some d'"
proof (induction k arbitrary: j current d)
  case (Suc k)
  obtain i where "j = Suc i" using Suc.prems(2) by (cases j) auto
  then show ?case using Suc by (auto split: if_splits prod.splits sum.splits)
qed simp

text \<open>
  C34: the loop that removes empty staging directories ends. Once the directory has been resolved
  below a root, the loop reaches the root or a directory it cannot remove after at most as many steps
  as the path has elements, whatever fails; more fuel gives the same result, so \<open>pruneEmptyParents\<close>
  always returns.
\<close>

theorem prune_terminates:
  assumes wd: "\<forall>w. wd = Some w \<longrightarrow> is_abs w" and "resolveAllowedPath wd directory roots d = (Inr (current, root), d1)"
  shows "\<exists>d'. (\<forall>k > length (path_elems current). prune_loop k root current d1 = Some d') \<and>
    pruneEmptyParents wd directory roots d = Some d'"
proof -
  obtain d' where "pruneEmptyParents wd directory roots d = Some d'"
    using pruneEmptyParents_cleans [OF wd subset_refl] by blast
  moreover from this have "prune_loop (Suc (length (path_elems current))) root current d1 = Some d'"
    using assms(2) by (simp add: pruneEmptyParents_def)
  ultimately show ?thesis using prune_loop_mono [of "Suc (length (path_elems current))"] by auto
qed

definition sample_hash :: gostr where
  "sample_hash = replicate 20 65 @ replicate 20 55"

definition cleanup_world :: "nat option list \<Rightarrow> world" where
  "cleanup_world faults = \<lparr>w_disk = \<lparr>d_files = [(lit ''/d'', DirN), (lit ''/d/t'', DirN), (lit ''/d/t/v'', FileN [7]), (lit ''/l'', DirN),
       (lit ''/s'', DirN), (lit ''/s/a'', DirN), (lit ''/s/a/v'', FileN [7]), (lit ''/s/a/u'', FileN [8])], d_events = faults\<rparr>,
     w_db = run_db8\<lparr>artifacts := [sample_row MediaVideo (lit ''/s/a/v'') [7], sample_row MediaSubtitle (lit ''/s/a/u'') [8]],
       downloads := map (\<lambda>r. r\<lparr>dl_save_path := Some (lit ''/d/t''), dl_torrent_hash := Some sample_hash\<rparr>) (downloads run_db0),
       cleanups := [\<lparr>cl_id = 4, cl_task_id = 47, cl_download_id = 3, cl_attempt = 1, cl_status = CleanupQueued, cl_torrent_removed = False,
         cl_staged_files_removed = False, cl_error_code = None, cl_error_message = None, cl_started_at = None, cl_completed_at = None\<rparr>]\<rparr>,
     w_torrents = [to_lower sample_hash, lit ''k'']\<rparr>"

lemma sample_import: "fst (EmbyImportHandler sample_tools (sample_operation [(''importId'', JUuid 3)]) sample_world) = Inr ()"
  by code_simp


theorem import_handler_places_files_witness:
  "\<exists>m. m \<in> set (imports_tab (w_db (snd (EmbyImportHandler sample_tools (sample_operation [(''importId'', JUuid 3)]) sample_world)))) \<and>
     im_id m = 3 \<and> im_status m = ImSucceeded"
proof -
  let ?o = "sample_operation [(''importId'', JUuid 3)]"
  obtain w' where run: "EmbyImportHandler sample_tools ?o sample_world = (Inr (), w')"
    using sample_import by (metis prod.collapse)
  have art: "artifacts (w_db sample_world) = [sample_row MediaVideo (lit ''/s/Up(2009).mkv'') [7], sample_row MediaSubtitle (lit ''/s/Up(2009).ass'') [8]]"
    by (simp add: sample_world_def del: lit_simps)
  have kinds: "ar_kind (sample_row k p c) = k" "ar_file_path (sample_row k p c) = p" for k p c
    by (simp_all add: sample_row_def run_row_def completed_artifact_def run_artifact_def)
  have base: "path_base (lit ''/s/Up(2009).mkv'') = lit ''Up(2009)'' @ dot # lit ''mkv''"
    "path_base (lit ''/s/Up(2009).ass'') = lit ''Up(2009)'' @ dot # lit ''ass''"
    by code_simp+
  have "named_pair (lit ''Up(2009)'' @ dot # lit ''mkv'') (lit ''Up(2009)'' @ dot # lit ''ass'')"
    unfolding named_pair_def
    by (intro exI [of _ "lit ''Up(2009)''"] exI [of _ "lit ''mkv''"] exI [of _ "lit ''ass''"]) (simp add: plain_text_def)
  then have "well_named (w_db sample_world)"
    unfolding well_named_def paired_artifacts_def art
    by (auto simp: bind_eq_Some_conv kinds base simp del: lit_simps split: if_splits)
  moreover have "distinct (map tk_id (tasks (w_db sample_world)))"
      "\<forall>r \<in> set (tasks (w_db sample_world)). tk_id r = ov_ResourceID ?o \<longrightarrow> tk_state r \<noteq> TaskImported"
      "slash \<notin> set (e_uuid_string (t_env sample_tools) (ov_ID ?o))"
    by code_simp+
  ultimately have "\<exists>m \<in> set (imports_tab (w_db w')). im_id m = payload_id ''importId'' (ov_Payload ?o) \<and> im_status m = ImSucceeded"
    using import_handler_places_files [OF run] by (auto simp: sample_tools_def simp del: lit_simps)
  then show ?thesis using run by (auto simp: sample_operation_def payload_id_def)
qed


text \<open>
  A staged path through a directory that is a link: the file it leads to outside the root is refused
  as unsafe and stays. A link there is removed: neither a dangling one nor one that leads back is
  resolved to where it lies.
\<close>

definition linked_disk :: "node \<Rightarrow> disk" where
  "linked_disk n = \<lparr>d_files = [(lit ''/s'', DirN), (lit ''/s/l'', LinkN (lit ''../o'')), (lit ''/o'', DirN), (lit ''/o/f'', n)], d_events = []\<rparr>"

lemma linked_file_refused:
  "removeAllowedPath None (lit ''/s/l/f'') [lit ''/s''] False (linked_disk (FileN [7])) =
     (Inl (ErrUnsafe ''cleanup path resolves outside configured root''), linked_disk (FileN [7]))"
  by code_simp

lemma linked_link_removed:
  "(case removeAllowedPath None (lit ''/s/l/f'') [lit ''/s''] False (linked_disk (LinkN (lit ''/none''))) of
      (r, d) \<Rightarrow> r = Inr () \<and> node_at (d_files d) (lit ''/o/f'') = None)"
  "(case removeAllowedPath None (lit ''/s/l/f'') [lit ''/s''] False (linked_disk (LinkN (lit ''/s''))) of
      (r, d) \<Rightarrow> r = Inr () \<and> node_at (d_files d) (lit ''/o/f'') = None)"
  by code_simp+

text \<open>
  The climb does not look again where the parents lie: once it has removed a link that leads back into
  the root, it removes the empty directory outside the root that held it.
\<close>

lemma linked_parent_pruned:
  "(case pruneEmptyParents None (lit ''/s/l/f/k'') [lit ''/s'']
       ((linked_disk DirN)\<lparr>d_files := (lit ''/o/f/k'', LinkN (lit ''/s'')) # d_files (linked_disk DirN)\<rparr>) of
      Some d \<Rightarrow> node_at (d_files d) (lit ''/o/f'') = None \<and> node_at (d_files d) (lit ''/o'') = Some DirN | None \<Rightarrow> False)"
  by code_simp

definition sample_cleanup_command :: CleanupCommand where
  "sample_cleanup_command = \<lparr>cc_TaskID = 47, cc_CleanupID = 4, cc_TaskState = TaskImported, cc_CleanupState = CleanupRunning,
     cc_DownloadID = 3, cc_TorrentHash = sample_hash, cc_DownloadPath = lit ''/d/t'', cc_StagedVideoPath = lit ''/s/a/v'',
     cc_StagedSubtitlePath = lit ''/s/a/u'', cc_DownloadRemovable = True\<rparr>"

definition sample_cleanup_run :: "(handler_error, unit) result \<times> world" where
  "sample_cleanup_run = cleanup_run sample_tools (sample_operation []) sample_cleanup_command
     ((cleanup_world [])\<lparr>w_db := cleanups_update (map (cl_status_update (\<lambda>_. CleanupRunning))) (w_db (cleanup_world []))\<rparr>)"

lemma tree_listed:
  assumes "list_all (\<lambda>(p, n). path_dir p = abs_path [] \<or> node_at fs (path_dir p) = Some DirN) fs"
  shows "tree fs"
  unfolding tree_def
proof (intro allI impI)
  fix es e
  assume h: "es \<noteq> []" "propers (es @ [e])" "node_at fs (abs_path (es @ [e])) \<noteq> None"
  then obtain n where "(abs_path (es @ [e]), n) \<in> set fs" using map_of_SomeD [of fs "abs_path (es @ [e])"] unfolding node_at_def by blast
  with assms have "path_dir (abs_path (es @ [e])) = abs_path [] \<or> node_at fs (path_dir (abs_path (es @ [e]))) = Some DirN"
    by (auto simp: list_all_iff)
  moreover have "path_dir (abs_path (es @ [e])) = abs_path es" using h(2) path_dir_abs_path [of es e] by (simp add: proper_elem_def)
  moreover have "abs_path es \<noteq> abs_path []" using h(1,2) abs_path_inj [of es "[]"] by auto
  ultimately show "node_at fs (abs_path es) = Some DirN" by simp
qed

theorem cleanup_completes_witness:
  "fst sample_cleanup_run = Inr () \<and> node_at (w_files (snd sample_cleanup_run)) (lit ''/s/a/v'') = None \<and>
     to_lower sample_hash \<notin> set (w_torrents (snd sample_cleanup_run))"
proof -
  have ok: "fst sample_cleanup_run = Inr ()" by code_simp
  obtain settings where s: "t_settings sample_tools = Some settings" by (simp add: sample_tools_def del: lit_simps)
  have wd: "\<forall>x. t_wd sample_tools = Some x \<longrightarrow> is_abs x" by (simp add: sample_tools_def)
  from ok have run: "cleanup_run sample_tools (sample_operation []) sample_cleanup_command
     ((cleanup_world [])\<lparr>w_db := cleanups_update (map (cl_status_update (\<lambda>_. CleanupRunning))) (w_db (cleanup_world []))\<rparr>) =
     (Inr (), snd sample_cleanup_run)"
    unfolding sample_cleanup_run_def by (metis prod.collapse)
  have t: "tree (w_files ((cleanup_world [])\<lparr>w_db := cleanups_update (map (cl_status_update (\<lambda>_. CleanupRunning))) (w_db (cleanup_world []))\<rparr>))"
    by (rule tree_listed) code_simp
  have "is_abs (lit ''/s/a/v'')" "path_clean (lit ''/s/a/v'') = lit ''/s/a/v''" "normalizeTorrentHash sample_hash = to_lower sample_hash"
    by code_simp+
  then show ?thesis using cleanup_completes [OF run wd s] ok t by (simp add: sample_cleanup_command_def del: lit_simps)
qed

theorem prune_terminates_witness:
  "\<exists>d'. pruneEmptyParents None (lit ''/s/a'') [lit ''/s''] (w_disk (cleanup_world [])) = Some d'"
proof -
  have "fst (resolveAllowedPath None (lit ''/s/a'') [lit ''/s''] (w_disk (cleanup_world []))) = Inr (lit ''/s/a'', lit ''/s'')"
    by code_simp
  then have "resolveAllowedPath None (lit ''/s/a'') [lit ''/s''] (w_disk (cleanup_world [])) =
      (Inr (lit ''/s/a'', lit ''/s''), snd (resolveAllowedPath None (lit ''/s/a'') [lit ''/s''] (w_disk (cleanup_world []))))"
    by (metis prod.collapse)
  from prune_terminates [OF _ this] show ?thesis by (auto simp del: lit_simps)
qed

end
