(* ===== verification/RssRelease.thy ===== *)
theory RssRelease
  imports FileSelection
begin

text \<open>
  Source coordinates of RSS releases (\<^verbatim>\<open>internal/domain/rss_release_parser.go\<close>): normalisation of
  a release title, the ranked patterns, the scan for overlapping matches, numbers in Arabic and
  Chinese digits, and the choice of one coordinate, which refuses conflicting evidence of the
  same rank. The main result is that the sort, the early exits and the map of resolved
  coordinates implement a plain specification by the candidates of highest rank.
\<close>

section \<open>Patterns\<close>

text \<open>
  The classes the patterns share: \<^verbatim>\<open>rssReleaseNumber\<close> accepts Arabic digits and the Chinese digits,
  ten and hundred; the counters of episodes; the opening and the closing brackets.
\<close>

abbreviation rss_number_ranges :: "(int \<times> int) list" where
  "rss_number_ranges \<equiv> [(48, 57), (38646, 38646), (12295, 12295), (19968, 19968), (20108, 20108),
     (19977, 19977), (22235, 22235), (20116, 20116), (20845, 20845), (19971, 19971),
     (20843, 20843), (20061, 20061), (21313, 21313), (30334, 30334), (20004, 20004), (20841, 20841)]"

abbreviation rss_counter_ranges :: "(int \<times> int) list" where
  "rss_counter_ranges \<equiv> [(35805, 35805), (35441, 35441), (38598, 38598), (22238, 22238)]"

abbreviation rss_open_ranges :: "(int \<times> int) list" where
  "rss_open_ranges \<equiv> [(91, 91), (40, 40), (12304, 12304), (65288, 65288)]"

abbreviation rss_close_ranges :: "(int \<times> int) list" where
  "rss_close_ranges \<equiv> [(93, 93), (41, 41), (12305, 12305), (65289, 65289)]"

definition rssReleaseNumber :: rx where
  "rssReleaseNumber =
     between (Cls False rss_number_ranges) 1 6"

definition rssTechnicalDecimalPattern :: rx where
  "rssTechnicalDecimalPattern =
     cat [left_edge, alts [cat [between digit 1 2, ch 46, digit, opt (ci ''ch'')], cat
     [ci ''h'', opt (ch 46), str (lit ''26''), Cls False [(52, 52), (53, 53), (54, 54)]],
     cat [ci ''x26'', Cls False [(52, 52), (53, 53), (54, 54)]]], right_edge]"

definition rss_season_s :: rx where
  "rss_season_s =
     cat [left_edge, ci ''s'', star sep_rx, Grp 1 (between digit 1 2), right_edge]"

definition rss_season_word :: rx where
  "rss_season_word =
     cat [left_edge, ci ''season'', star (Cls False [(32, 32), (46, 46), (95, 95)]),
     Grp 1 (between digit 1 2), right_edge]"

definition rss_season_ordinal :: rx where
  "rss_season_ordinal =
     cat [left_edge, Grp 1 (between digit 1 2), alts [ci ''st'', ci ''nd'', ci ''rd'',
     ci ''th''], star sep_rx, ci ''season'', right_edge]"

definition rss_season_east_asian :: rx where
  "rss_season_east_asian =
     cat [ch 31532, star space_rx, Grp 1 rssReleaseNumber, star space_rx, ch 23395]"

definition rss_fraction_season_episode :: rx where
  "rss_fraction_season_episode =
     cat [left_edge, alts [cat [ci ''s'', star sep_rx, between digit 1 2, star sep_rx,
     ci ''e'', star sep_rx], cat [between digit 1 2, ci ''x''], cat [ci ''season'',
     star sep_rx, between digit 1 2, plus (Cls False [(32, 32), (46, 46), (95, 95),
     (47, 47), (45, 45)]), alts [ci ''episode'', ci ''ep'', ci ''e''], star sep_rx]],
     between digit 1 4, ch 46, plus digit, version_rx, right_edge]"

definition rss_fraction_marker :: rx where
  "rss_fraction_marker =
     cat [left_edge, alts [ci ''episode'', ci ''ep'', ci ''e'', ch 35], star sep_rx,
     between digit 1 4, ch 46, plus digit, version_rx, right_edge]"

definition rss_fraction_east_asian :: rx where
  "rss_fraction_east_asian =
     cat [opt (cat [ch 31532, star space_rx]), rssReleaseNumber, ch 46, plus digit,
     star space_rx, Cls False rss_counter_ranges]"

definition rss_fraction_bracket :: rx where
  "rss_fraction_bracket =
     alts [cat [Cls False rss_open_ranges, star space_rx, between digit 1 4, ch 46,
     plus digit, version_rx, star space_rx, Cls False rss_close_ranges], cat [alts [Bot,
     Cls False (space_ranges @ rss_close_ranges)], ch 45, star space_rx, between digit 1 4,
     ch 46, plus digit, version_rx, alts [Eot, Cls False (space_ranges @ rss_open_ranges)]]]"

definition rss_fraction_delimited :: rx where
  "rss_fraction_delimited =
     cat [alts [Bot, Cls False (space_ranges @ [(95, 95), (46, 46)])], between digit 1 4,
     ch 46, plus digit, alts [Eot, Cls False (space_ranges @ [(95, 95), (46, 46)])]]"

definition rss_season_episode :: rx where
  "rss_season_episode =
     cat [left_edge, ci ''s'', star sep_rx, Grp 1 (between digit 1 2), star sep_rx,
     ci ''e'', star sep_rx, Grp 2 (between digit 1 4), version_rx, right_edge]"

definition rss_season_x_episode :: rx where
  "rss_season_x_episode =
     cat [left_edge, Grp 1 (between digit 1 2), ci ''x'', Grp 2 (between digit 1 4),
     version_rx, right_edge]"

definition rss_season_episode_words :: rx where
  "rss_season_episode_words =
     cat [left_edge, ci ''season'', star sep_rx, Grp 1 (between digit 1 2),
     plus (Cls False [(32, 32), (46, 46), (95, 95), (47, 47), (45, 45)]), alts
     [ci ''episode'', ci ''ep'', ci ''e''], star sep_rx, Grp 2 (between digit 1 4),
     version_rx, right_edge]"

definition rss_east_asian_season_episode :: rx where
  "rss_east_asian_season_episode =
     cat [ch 31532, star space_rx, Grp 1 rssReleaseNumber, star space_rx, ch 23395,
     between (Cls True rss_number_ranges) 0 32, opt (ch 31532), star space_rx,
     Grp 2 rssReleaseNumber, star space_rx, Cls False rss_counter_ranges]"

definition rss_episode_marker :: rx where
  "rss_episode_marker =
     cat [left_edge, alts [ci ''episode'', ci ''ep'', ci ''e''], star sep_rx,
     Grp 1 (between digit 1 4), version_rx, right_edge]"

definition rss_hash_marker :: rx where
  "rss_hash_marker =
     cat [alts [Bot, not_alnum], ch 35, star space_rx, Grp 1 (between digit 1 4), opt (cat
     [ch 118, plus digit]), alts [Eot, not_alnum]]"

definition rss_east_asian_episode :: rx where
  "rss_east_asian_episode =
     cat [opt (cat [ch 31532, star space_rx]), Grp 1 rssReleaseNumber, star space_rx,
     Cls False rss_counter_ranges]"

definition rss_release_dash :: rx where
  "rss_release_dash =
     cat [alts [Bot, Cls False (space_ranges @ rss_close_ranges)], ch 45, star space_rx,
     Grp 1 (between digit 1 4), opt (cat [ch 118, plus digit]), alts [Eot,
     Cls False (space_ranges @ rss_open_ranges)]]"

definition rss_bracketed_episode :: rx where
  "rss_bracketed_episode =
     cat [Cls False rss_open_ranges, star space_rx, Grp 1 (between digit 1 4), version_rx,
     star space_rx, Cls False rss_close_ranges]"

definition rss_delimited_episode :: rx where
  "rss_delimited_episode =
     cat [alts [Bot, Cls False (space_ranges @ [(95, 95), (46, 46)])],
     Grp 1 (between digit 1 3), opt (cat [ch 118, plus digit]), alts [Eot,
     Cls False (space_ranges @ [(95, 95), (46, 46)])]]"


definition rssStandaloneSeasonPatterns :: "rx list" where
  "rssStandaloneSeasonPatterns = [rss_season_s, rss_season_word, rss_season_ordinal, rss_season_east_asian]"

section \<open>Data\<close>

datatype RSSCoordinateParseStatus =
    RSSCoordinateMatched
  | RSSCoordinateNotFound
  | RSSCoordinateAmbiguous
  | RSSCoordinateFractional

record RSSCoordinateParseResult =
  pr_Status :: RSSCoordinateParseStatus
  pr_SourceSeason :: int
  pr_SourceEpisode :: int
  pr_Evidence :: gostr

record rssCoordinatePattern =
  cp_expression :: rx
  cp_priority :: int
  cp_seasonGroup :: nat
  cp_episodeGroup :: nat
  cp_evidence :: gostr
  cp_weak :: bool
  cp_fractional :: bool

record rssCoordinateCandidate =
  cc_season :: int
  cc_episode :: int
  cc_priority :: int
  cc_evidence :: gostr
  cc_fractional :: bool

text \<open>A literal of a pattern that names only its non-zero fields, as a Go composite literal does.\<close>

definition fraction_pattern :: "rx \<Rightarrow> int \<Rightarrow> bool \<Rightarrow> rssCoordinatePattern" where
  "fraction_pattern r p weak =
     \<lparr>cp_expression = r, cp_priority = p, cp_seasonGroup = 0, cp_episodeGroup = 0,
      cp_evidence = [], cp_weak = weak, cp_fractional = True\<rparr>"

definition coordinate_pattern :: "rx \<Rightarrow> int \<Rightarrow> nat \<Rightarrow> nat \<Rightarrow> string \<Rightarrow> bool \<Rightarrow> rssCoordinatePattern" where
  "coordinate_pattern r p s e evidence weak =
     \<lparr>cp_expression = r, cp_priority = p, cp_seasonGroup = s, cp_episodeGroup = e,
      cp_evidence = lit evidence, cp_weak = weak, cp_fractional = False\<rparr>"

definition rssCoordinatePatterns :: "rssCoordinatePattern list" where
  "rssCoordinatePatterns =
     [fraction_pattern rss_fraction_season_episode 400 False,
      fraction_pattern rss_fraction_marker 300 False,
      fraction_pattern rss_fraction_east_asian 300 False,
      fraction_pattern rss_fraction_bracket 200 False,
      fraction_pattern rss_fraction_delimited 100 True,
      coordinate_pattern rss_season_episode 400 1 2 ''season_episode'' False,
      coordinate_pattern rss_season_x_episode 400 1 2 ''season_x_episode'' False,
      coordinate_pattern rss_season_episode_words 400 1 2 ''season_episode_words'' False,
      coordinate_pattern rss_east_asian_season_episode 400 1 2 ''east_asian_season_episode'' False,
      coordinate_pattern rss_episode_marker 300 0 1 ''episode_marker'' False,
      coordinate_pattern rss_hash_marker 300 0 1 ''hash_marker'' False,
      coordinate_pattern rss_east_asian_episode 300 0 1 ''east_asian_episode'' False,
      coordinate_pattern rss_release_dash 200 0 1 ''release_dash'' False,
      coordinate_pattern rss_bracketed_episode 200 0 1 ''bracketed_episode'' False,
      coordinate_pattern rss_delimited_episode 100 0 1 ''delimited_episode'' True]"

section \<open>Operations\<close>

text \<open>
  The scan restarts at the last rune of the match it found (the right edge of one match may be
  the left edge of the next), or one rune after its start when that is no progress. Offsets
  count runes. Every search is over the rest of the input as a string of its own, so \<^verbatim>\<open>^\<close> matches
  at each restart.
\<close>

lemma find_from_start:
  "find_from r i b cs = Some m \<Longrightarrow> i \<le> m_start m \<and> m_end m \<le> i + length cs"
proof (induction cs arbitrary: i b)
  case Nil
  then show ?case
    by (subst (asm) find_from.simps) (auto simp: m_end_def split: option.splits)
next
  case (Cons c cs)
  show ?case
  proof (cases "rx_match r \<lparr>prior = b, after = c # cs, groups = []\<rparr> Some")
    case None
    with Cons.prems have "find_from r (Suc i) (Some c) cs = Some m"
      by (subst (asm) find_from.simps) simp
    from Cons.IH [OF this] show ?thesis by simp
  next
    case (Some e)
    with Cons.prems show ?thesis
      by (subst (asm) find_from.simps) (auto simp: m_end_def)
  qed
qed

function find_submatches :: "rx \<Rightarrow> gostr \<Rightarrow> nat \<Rightarrow> rmatch list" where
  "find_submatches expression input searchOffset =
     (if searchOffset < length input then
        (case rx_find expression (drop searchOffset input) of
           None \<Rightarrow> []
         | Some m \<Rightarrow>
             let matchStart = searchOffset + m_start m;
                 matchEnd = searchOffset + m_end m
             in m # (if matchEnd = 0 \<or> matchEnd - 1 \<le> matchStart then
                       (if matchStart < length input
                        then find_submatches expression input (matchStart + 1) else [])
                     else find_submatches expression input (matchEnd - 1)))
      else [])"
  by pat_completeness auto
termination
  by (relation "measure (\<lambda>(expression, input, searchOffset). length input - searchOffset)")
    (auto simp: rx_find_def dest!: find_from_start)

declare find_submatches.simps [simp del]

definition findRSSPatternSubmatches :: "rx \<Rightarrow> gostr \<Rightarrow> rmatch list" where
  "findRSSPatternSubmatches expression input = find_submatches expression input 0"

text \<open>Full-width forms become ASCII, the dashes a hyphen, the wide blanks a blank; blanks are collapsed.\<close>

definition normalize_rune :: "rune \<Rightarrow> rune" where
  "normalize_rune c =
     (if 65281 \<le> c \<and> c \<le> 65374 then c - 65248
      else if c \<in> set [8208, 8209, 8210, 8211, 8212, 8213, 8722] then 45
      else if c = 160 \<or> c = 12288 then 32
      else c)"

definition normalizeRSSReleaseTitle :: "gostr \<Rightarrow> gostr" where
  "normalizeRSSReleaseTitle title =
     join (str_fields (map normalize_rune (trim_space title))) [32]"

definition cjk_digits :: "(rune \<times> int) list" where
  "cjk_digits = [(38646, 0), (12295, 0), (19968, 1), (20108, 2), (20004, 2), (20841, 2), (19977, 3),
     (22235, 4), (20116, 5), (20845, 6), (19971, 7), (20843, 8), (20061, 9)]"

definition cjk_units :: "(rune \<times> int) list" where
  "cjk_units = [(21313, 10), (30334, 100)]"

fun cjk_number :: "int \<Rightarrow> int \<Rightarrow> gostr \<Rightarrow> int" where
  "cjk_number acc current [] = acc + current"
| "cjk_number acc current (token # tokens) =
     (case map_of cjk_digits token of
        Some d \<Rightarrow> cjk_number acc d tokens
      | None \<Rightarrow>
          (case map_of cjk_units token of
             None \<Rightarrow> 0
           | Some unit \<Rightarrow> cjk_number (acc + (if current = 0 then 1 else current) * unit) 0 tokens))"

definition parseRSSReleaseNumber :: "gostr \<Rightarrow> int" where
  "parseRSSReleaseNumber val =
     (let v = trim_space val; number = decimal v
      in if number > 0 then number else cjk_number 0 0 v)"

text \<open>The set \<^verbatim>\<open>seasons\<close> is the list of its elements without repetition; \<open>None\<close> is the result \<^verbatim>\<open>(0, false)\<close>.\<close>

definition resolveRSSReleaseSeason :: "gostr \<Rightarrow> int \<Rightarrow> int option" where
  "resolveRSSReleaseSeason title defaultSeason =
     (let seasons = remdups (filter (\<lambda>season. season > 0)
            (concat (map (\<lambda>pattern. map (\<lambda>m. parseRSSReleaseNumber (submatch m 1))
                                      (findRSSPatternSubmatches pattern title))
                         rssStandaloneSeasonPatterns)))
      in case seasons of
           [] \<Rightarrow> Some defaultSeason
         | [season] \<Rightarrow> Some season
         | _ \<Rightarrow> None)"

definition match_candidate :: "rssCoordinatePattern \<Rightarrow> rmatch \<Rightarrow> rssCoordinateCandidate list" where
  "match_candidate pattern m =
     (if cp_fractional pattern then
        [\<lparr>cc_season = 0, cc_episode = 0, cc_priority = cp_priority pattern, cc_evidence = [],
          cc_fractional = True\<rparr>]
      else
        (let episode = parseRSSReleaseNumber (submatch m (cp_episodeGroup pattern))
         in if episode \<le> 0 then []
            else
              (let season = (if cp_seasonGroup pattern > 0
                             then parseRSSReleaseNumber (submatch m (cp_seasonGroup pattern)) else 0)
               in if cp_seasonGroup pattern > 0 \<and> season \<le> 0 then []
                  else [\<lparr>cc_season = season, cc_episode = episode, cc_priority = cp_priority pattern,
                         cc_evidence = cp_evidence pattern, cc_fractional = False\<rparr>])))"

definition pattern_candidates :: "gostr \<Rightarrow> rssCoordinatePattern \<Rightarrow> rssCoordinateCandidate list" where
  "pattern_candidates normalized pattern =
     (let input = (if cp_weak pattern then rx_replace_all rssTechnicalDecimalPattern normalized [32]
                   else normalized)
      in concat (map (match_candidate pattern) (findRSSPatternSubmatches (cp_expression pattern) input)))"

definition release_candidates :: "gostr \<Rightarrow> rssCoordinateCandidate list" where
  "release_candidates normalized = concat (map (pattern_candidates normalized) rssCoordinatePatterns)"

definition candidate_before :: "rssCoordinateCandidate \<Rightarrow> rssCoordinateCandidate \<Rightarrow> bool" where
  "candidate_before left right = (cc_priority left > cc_priority right)"

definition no_coordinate :: "RSSCoordinateParseStatus \<Rightarrow> RSSCoordinateParseResult" where
  "no_coordinate status =
     \<lparr>pr_Status = status, pr_SourceSeason = 0, pr_SourceEpisode = 0, pr_Evidence = []\<rparr>"

text \<open>
  The loop over the sorted candidates: it stops at the first candidate of a lower rank, and
  collects the coordinates with the evidence that named them first; \<open>None\<close> is the early return
  of \<^verbatim>\<open>RSSCoordinateAmbiguous\<close>. The map \<^verbatim>\<open>resolved\<close> is an association list.
\<close>

fun resolve_loop ::
  "gostr \<Rightarrow> int \<Rightarrow> int \<Rightarrow> rssCoordinateCandidate list \<Rightarrow> (EpisodeCoordinate \<times> gostr) list \<Rightarrow>
     (EpisodeCoordinate \<times> gostr) list option" where
  "resolve_loop normalized defaultSeason highestPriority [] resolved = Some resolved"
| "resolve_loop normalized defaultSeason highestPriority (candidate # rest) resolved =
     (if cc_priority candidate \<noteq> highestPriority then Some resolved
      else
        (case (if cc_season candidate = 0 then resolveRSSReleaseSeason normalized defaultSeason
               else Some (cc_season candidate)) of
           None \<Rightarrow> None
         | Some season \<Rightarrow>
             (let coordinate = coord season (cc_episode candidate)
              in resolve_loop normalized defaultSeason highestPriority rest
                   (if map_of resolved coordinate = None
                    then resolved @ [(coordinate, cc_evidence candidate)] else resolved))))"

definition ParseRSSReleaseCoordinate :: "gostr \<Rightarrow> int \<Rightarrow> RSSCoordinateParseResult" where
  "ParseRSSReleaseCoordinate title defaultSeason =
     (let normalized = normalizeRSSReleaseTitle title
      in if normalized = [] \<or> defaultSeason \<le> 0 then no_coordinate RSSCoordinateNotFound
         else
           (case sort_by candidate_before (release_candidates normalized) of
              [] \<Rightarrow> no_coordinate RSSCoordinateNotFound
            | first # rest \<Rightarrow>
                let candidates = first # rest; highestPriority = cc_priority first
                in if list_ex (\<lambda>c. cc_priority c = highestPriority \<and> cc_fractional c) candidates
                   then no_coordinate RSSCoordinateFractional
                   else
                     (case resolve_loop normalized defaultSeason highestPriority candidates [] of
                        Some [(coordinate, evidence)] \<Rightarrow>
                          \<lparr>pr_Status = RSSCoordinateMatched, pr_SourceSeason = Season coordinate,
                           pr_SourceEpisode = Episode coordinate, pr_Evidence = evidence\<rparr>
                      | _ \<Rightarrow> no_coordinate RSSCoordinateAmbiguous)))"

section \<open>The ranked choice\<close>

interpretation release_order: comparator candidate_before
  by unfold_locales (auto simp: candidate_before_def)

text \<open>
  The specification: only the candidates of the highest rank count, in the order of the patterns;
  a fractional one among them wins, otherwise they must name one coordinate.
\<close>

definition top_candidates :: "rssCoordinateCandidate list \<Rightarrow> rssCoordinateCandidate list" where
  "top_candidates cs = filter (\<lambda>c. \<forall>c' \<in> set cs. cc_priority c' \<le> cc_priority c) cs"

definition candidate_coordinate :: "gostr \<Rightarrow> int \<Rightarrow> rssCoordinateCandidate \<Rightarrow> EpisodeCoordinate option" where
  "candidate_coordinate normalized defaultSeason c =
     map_option (\<lambda>season. coord season (cc_episode c))
       (if cc_season c = 0 then resolveRSSReleaseSeason normalized defaultSeason else Some (cc_season c))"

definition matched_coordinate :: "EpisodeCoordinate \<Rightarrow> gostr \<Rightarrow> RSSCoordinateParseResult" where
  "matched_coordinate k evidence =
     \<lparr>pr_Status = RSSCoordinateMatched, pr_SourceSeason = Season k, pr_SourceEpisode = Episode k,
      pr_Evidence = evidence\<rparr>"

definition release_coordinate_spec :: "gostr \<Rightarrow> int \<Rightarrow> RSSCoordinateParseResult" where
  "release_coordinate_spec title defaultSeason =
     (let normalized = normalizeRSSReleaseTitle title;
          ts = (if normalized = [] \<or> defaultSeason \<le> 0 then [] else top_candidates (release_candidates normalized));
          coordinates = candidate_coordinate normalized defaultSeason ` set ts
      in if ts = [] then no_coordinate RSSCoordinateNotFound
         else if \<exists>c \<in> set ts. cc_fractional c then no_coordinate RSSCoordinateFractional
         else if \<exists>k. coordinates = {Some k} then
           matched_coordinate (the (candidate_coordinate normalized defaultSeason (hd ts))) (cc_evidence (hd ts))
         else no_coordinate RSSCoordinateAmbiguous)"

lemma resolve_loop_step:
  "cc_priority c = p \<Longrightarrow> resolve_loop n d p (c # cs) resolved =
     (case candidate_coordinate n d c of
        None \<Rightarrow> None
      | Some k \<Rightarrow> resolve_loop n d p cs
          (if map_of resolved k = None then resolved @ [(k, cc_evidence c)] else resolved))"
  by (auto simp: candidate_coordinate_def Let_def split: option.splits)

declare resolve_loop.simps(2) [simp del]

text \<open>On a list sorted by rank the early exit is a filter.\<close>

lemma resolve_loop_filter:
  "release_order.ordered cs \<Longrightarrow> \<forall>c \<in> set cs. cc_priority c \<le> p \<Longrightarrow>
     resolve_loop n d p cs resolved = resolve_loop n d p (filter (\<lambda>c. cc_priority c = p) cs) resolved"
proof (induction cs arbitrary: resolved)
  case Nil
  then show ?case by simp
next
  case (Cons c cs)
  have rest: "release_order.ordered cs" "\<forall>c \<in> set cs. cc_priority c \<le> p"
    and below: "\<forall>c' \<in> set cs. cc_priority c' \<le> cc_priority c"
    using Cons.prems unfolding release_order.ordered_def by (auto simp: candidate_before_def)
  show ?case
  proof (cases "cc_priority c = p")
    case True
    then show ?thesis
      using Cons.IH [OF rest] by (simp add: resolve_loop_step split: option.split)
  next
    case False
    with Cons.prems(2) below have "filter (\<lambda>c. cc_priority c = p) (c # cs) = []"
      by (fastforce simp: filter_empty_conv)
    with False show ?thesis by (simp add: resolve_loop.simps(2))
  qed
qed

lemma resolve_loop_agrees:
  "\<forall>c \<in> set cs. cc_priority c = p \<and> candidate_coordinate n d c = Some k \<Longrightarrow>
     resolve_loop n d p cs [(k, e)] = Some [(k, e)]"
  by (induction cs) (simp_all add: resolve_loop_step)

lemma resolve_loop_mono:
  "\<forall>c \<in> set cs. cc_priority c = p \<Longrightarrow> resolve_loop n d p cs resolved = Some out \<Longrightarrow>
     set resolved \<subseteq> set out \<and> (\<forall>c \<in> set cs. \<exists>k e. candidate_coordinate n d c = Some k \<and> (k, e) \<in> set out)"
proof (induction cs arbitrary: resolved)
  case Nil
  then show ?case by simp
next
  case (Cons c cs)
  then obtain k where k: "candidate_coordinate n d c = Some k"
    by (auto simp: resolve_loop_step split: option.splits)
  let ?next = "if map_of resolved k = None then resolved @ [(k, cc_evidence c)] else resolved"
  have out: "set ?next \<subseteq> set out" "\<forall>c \<in> set cs. \<exists>k e. candidate_coordinate n d c = Some k \<and> (k, e) \<in> set out"
    using Cons.IH [of ?next] Cons.prems k by (auto simp: resolve_loop_step)
  have "\<exists>e. (k, e) \<in> set ?next"
    by (cases "map_of resolved k") (auto dest: map_of_SomeD)
  with out(1) have "\<exists>e. (k, e) \<in> set out" by blast
  moreover have "set resolved \<subseteq> set ?next" by auto
  ultimately show ?case using k out by auto
qed

lemma resolve_loop_singleton_iff:
  assumes "cs \<noteq> []" "\<forall>c \<in> set cs. cc_priority c = p"
  shows "resolve_loop n d p cs [] = Some [(k, e)] \<longleftrightarrow>
     candidate_coordinate n d ` set cs = {Some k} \<and> e = cc_evidence (hd cs)"
proof -
  obtain c rest where cs: "cs = c # rest" using assms(1) by (cases cs) auto
  have rest: "\<forall>c \<in> set rest. cc_priority c = p" "cc_priority c = p" using assms(2) cs by auto
  show ?thesis
  proof
    assume out: "resolve_loop n d p cs [] = Some [(k, e)]"
    have all: "\<forall>c \<in> set cs. candidate_coordinate n d c = Some k"
      using resolve_loop_mono [OF assms(2) out] by auto
    with out cs rest(2) have "resolve_loop n d p rest [(k, cc_evidence c)] = Some [(k, e)]"
      by (simp add: resolve_loop_step)
    with resolve_loop_mono [OF rest(1)] have "e = cc_evidence c" by fastforce
    with all cs show "candidate_coordinate n d ` set cs = {Some k} \<and> e = cc_evidence (hd cs)" by auto
  next
    assume "candidate_coordinate n d ` set cs = {Some k} \<and> e = cc_evidence (hd cs)"
    then have "\<forall>c \<in> set cs. candidate_coordinate n d c = Some k" "e = cc_evidence c" using cs by auto
    then show "resolve_loop n d p cs [] = Some [(k, e)]"
      using cs rest resolve_loop_agrees [of rest p n d k e] by (simp add: resolve_loop_step)
  qed
qed

lemma top_candidates_sorted:
  assumes "sort_by candidate_before cs = first # rest"
  shows "top_candidates cs = filter (\<lambda>c. cc_priority c = cc_priority first) (first # rest)"
    "\<forall>c \<in> set (first # rest). cc_priority c \<le> cc_priority first"
proof -
  have set: "set cs = set (first # rest)" using assms set_sort_by [of candidate_before cs] by simp
  show below: "\<forall>c \<in> set (first # rest). cc_priority c \<le> cc_priority first"
    using release_order.hd_sort_by_minimal [OF _ assms [symmetric]] set
    by (fastforce simp: candidate_before_def)
  have "top_candidates cs = filter (\<lambda>c. cc_priority c = cc_priority first) cs"
    unfolding top_candidates_def set using below set
    by (intro filter_cong refl) (auto intro: antisym)
  also have "\<dots> = filter (\<lambda>c. cc_priority c = cc_priority first) (sort_by candidate_before cs)"
    by (rule release_order.sort_by_stable [symmetric]) (simp add: candidate_before_def)
  finally show "top_candidates cs = filter (\<lambda>c. cc_priority c = cc_priority first) (first # rest)"
    using assms by simp
qed

lemma top_candidates_Nil [simp]: "top_candidates [] = []"
  by (simp add: top_candidates_def)

lemma ranked_choice:
  assumes "sort_by candidate_before cs = first # rest" "ts = top_candidates cs" "p = cc_priority first"
  shows "list_ex (\<lambda>c. cc_priority c = p \<and> cc_fractional c) (first # rest) \<longleftrightarrow> (\<exists>c \<in> set ts. cc_fractional c)"
    "resolve_loop n d p (first # rest) [] = resolve_loop n d p ts []"
    "ts \<noteq> []" "\<forall>c \<in> set ts. cc_priority c = p"
proof -
  note top = top_candidates_sorted [OF assms(1)]
  have o: "release_order.ordered (first # rest)"
    using release_order.ordered_sort_by [of cs] assms(1) by simp
  show "resolve_loop n d p (first # rest) [] = resolve_loop n d p ts []"
    using resolve_loop_filter [OF o top(2)] assms(2,3) top(1) by simp
  show "list_ex (\<lambda>c. cc_priority c = p \<and> cc_fractional c) (first # rest) \<longleftrightarrow> (\<exists>c \<in> set ts. cc_fractional c)"
    unfolding assms(2,3) top(1) list_ex_iff by auto
  show "ts \<noteq> []" "\<forall>c \<in> set ts. cc_priority c = p"
    unfolding assms(2,3) top(1) by auto
qed

lemma ParseRSSReleaseCoordinate_spec:
  "ParseRSSReleaseCoordinate title d = release_coordinate_spec title d"
proof (cases "sort_by candidate_before (release_candidates (normalizeRSSReleaseTitle title))")
  case Nil
  then have "release_candidates (normalizeRSSReleaseTitle title) = []" by simp
  then show ?thesis by (simp add: ParseRSSReleaseCoordinate_def release_coordinate_spec_def Let_def)
next
  case (Cons first rest)
  let ?n = "normalizeRSSReleaseTitle title"
  let ?top = "top_candidates (release_candidates ?n)"
  note rc = ranked_choice [OF Cons refl refl]
  note single = resolve_loop_singleton_iff [OF rc(3,4), of ?n d]
  have "(case resolve_loop ?n d (cc_priority first) ?top [] of
      Some [(coordinate, evidence)] \<Rightarrow> matched_coordinate coordinate evidence
    | _ \<Rightarrow> no_coordinate RSSCoordinateAmbiguous) =
    (if \<exists>k. candidate_coordinate ?n d ` set ?top = {Some k}
     then matched_coordinate (the (candidate_coordinate ?n d (hd ?top))) (cc_evidence (hd ?top))
     else no_coordinate RSSCoordinateAmbiguous)"
  proof (cases "\<exists>k. candidate_coordinate ?n d ` set ?top = {Some k}")
    case True
    then obtain k where k: "candidate_coordinate ?n d ` set ?top = {Some k}" by blast
    with rc(3) have "candidate_coordinate ?n d (hd ?top) = Some k"
      by (metis image_eqI list.set_sel(1) singletonD)
    with k single [of k "cc_evidence (hd ?top)"] show ?thesis by simp
  next
    case False
    then have "\<And>k e. resolve_loop ?n d (cc_priority first) ?top [] \<noteq> Some [(k, e)]" using single by blast
    with False show ?thesis by (auto split: option.split list.split)
  qed
  with Cons rc(1,2,3) show ?thesis
    unfolding ParseRSSReleaseCoordinate_def release_coordinate_spec_def Let_def
    by (simp only: matched_coordinate_def list.case if_False if_True) simp
qed

section \<open>Normalised titles\<close>

lemma last_join_words: "words_ok ws \<Longrightarrow> ws \<noteq> [] \<Longrightarrow> \<not> is_space (last (join ws [32]))"
proof (induction ws "[32::int]" rule: join.induct)
  case (3 x y ys)
  then have "join (y # ys) [32] \<noteq> []" using join_words [of "y # ys"] by auto
  with 3 show ?case by (auto simp: last_append)
qed auto

text \<open>
  A text whose blanks were collapsed after a rune map \<open>f\<close> is a fixed point of trimming, of \<open>f\<close>
  and of collapsing.
\<close>

lemma join_fields_normal:
  assumes f: "\<And>c. f (f c) = f c" "f 32 = 32"
    and s: "s = join (str_fields (map f t)) [32]"
  shows "trim_space s = s" "map f s = s" "join (str_fields s) [32] = s"
proof -
  let ?ws = "str_fields (map f t)"
  note ok = words_ok_fields [of "map f t"]
  have single: "single_spaced s" and hd: "s \<noteq> [] \<Longrightarrow> \<not> is_space (hd s)"
    and last: "s \<noteq> [] \<Longrightarrow> \<not> is_space (last s)"
    using join_words [OF ok] last_join_words [OF ok] s by (cases "?ws = []"; force)+
  show "join (str_fields s) [32] = s" using join_fields_fixed single hd last by blast
  show "trim_space s = s"
    unfolding trim_space_def using hd last by (rule trim_func_fixed)
  have "set s \<subseteq> set (map f t) \<union> {32}"
    using set_join [of ?ws "[32]"] set_fields [of _ "map f t"] s by fastforce
  with f show "map f s = s" by (intro map_idI) auto
qed

lemma normalize_rune_idem: "normalize_rune (normalize_rune c) = normalize_rune c"
  by (auto simp: normalize_rune_def)

lemma normalizeRSSReleaseTitle_idem:
  "normalizeRSSReleaseTitle (normalizeRSSReleaseTitle t) = normalizeRSSReleaseTitle t"
  using join_fields_normal [OF normalize_rune_idem _ normalizeRSSReleaseTitle_def]
  by (simp add: normalizeRSSReleaseTitle_def [of "normalizeRSSReleaseTitle t"] normalize_rune_def)

lemma ParseRSSReleaseCoordinate_normalized:
  "ParseRSSReleaseCoordinate (normalizeRSSReleaseTitle t) d = ParseRSSReleaseCoordinate t d"
  by (simp add: ParseRSSReleaseCoordinate_def normalizeRSSReleaseTitle_idem)

section \<open>Bounds\<close>

lemma decimal_acc_other: "\<not> all_digits s \<Longrightarrow> decimal_acc r s = 0"
  by (induction s arbitrary: r) (auto simp: all_digits_def not_le)

lemma decimal_length: "length s \<le> k \<Longrightarrow> decimal s < 10 ^ k"
  by (cases "all_digits s") (simp_all add: decimal_bounds, simp add: decimal_def decimal_acc_other)

lemma cjk_digit_range: "map_of cjk_digits c = Some v \<Longrightarrow> 0 \<le> v \<and> v \<le> 9"
  by (auto simp: cjk_digits_def split: if_splits)

lemma cjk_unit_range: "map_of cjk_units c = Some v \<Longrightarrow> 0 \<le> v \<and> v \<le> 100"
  by (auto simp: cjk_units_def split: if_splits)

lemma cjk_number_bound:
  "0 \<le> acc \<Longrightarrow> 0 \<le> cur \<Longrightarrow> cur \<le> 9 \<Longrightarrow> cjk_number acc cur s \<le> acc + 9 + 900 * int (length s)"
proof (induction acc cur s rule: cjk_number.induct)
  case (2 acc cur c s)
  consider v where "map_of cjk_digits c = Some v"
    | v where "map_of cjk_digits c = None" "map_of cjk_units c = Some v"
    | "map_of cjk_digits c = None" "map_of cjk_units c = None" by fastforce
  then show ?case
  proof cases
    case 1
    then show ?thesis using "2.IH"(2) [OF 1] "2.prems" cjk_digit_range [OF 1] by simp
  next
    case (2 v)
    let ?n = "if cur = 0 then 1 else cur"
    have v: "0 \<le> v" "v \<le> 100" using cjk_unit_range [OF 2(2)] by auto
    then have n: "0 \<le> ?n * v" "?n * v \<le> 9 * 100"
      using \<open>0 \<le> cur\<close> \<open>cur \<le> 9\<close> by (simp, intro mult_mono) auto
    with "2.IH"(1) [OF 2] \<open>0 \<le> acc\<close> have "cjk_number (acc + ?n * v) 0 s \<le> acc + ?n * v + 9 + 900 * int (length s)"
      by simp
    with n 2 show ?thesis by simp
  next
    case 3
    then show ?thesis using "2.prems" by simp
  qed
qed simp

lemma trim_func_length: "length (trim_func p s) \<le> length s"
  using trim_func_infix [of s p] by (metis length_append trans_le_add2 le_add1)

text \<open>Six runes never denote a number beyond six digits, in either script.\<close>

lemma parseRSSReleaseNumber_bound:
  assumes "length s \<le> 6"
  shows "parseRSSReleaseNumber s \<le> 999999"
proof -
  let ?v = "trim_space s"
  have l: "length ?v \<le> 6" using assms trim_func_length [of is_space s] by (simp add: trim_space_def)
  have "decimal ?v < 10 ^ 6" using decimal_length [OF l] .
  moreover have "cjk_number 0 0 ?v \<le> 9 + 900 * int (length ?v)" using cjk_number_bound [of 0 0 ?v] by simp
  ultimately show ?thesis using l by (simp add: parseRSSReleaseNumber_def Let_def)
qed

lemma find_submatches_found:
  "m \<in> set (find_submatches r input i) \<Longrightarrow> \<exists>s. rx_find r s = Some m"
proof (induction r input i rule: find_submatches.induct)
  case (1 r input i)
  have i: "i < length input"
    using "1.prems" by (rule contrapos_pp) (simp add: find_submatches.simps [of r input i])
  show ?case
  proof (cases "rx_find r (drop i input)")
    case None
    with "1.prems" i show ?thesis by (simp add: find_submatches.simps [of r input i])
  next
    case (Some m')
    consider "m = m'"
      | "i + m_end m' = 0 \<or> i + m_end m' - 1 \<le> i + m_start m'" "i + m_start m' < length input"
          "m \<in> set (find_submatches r input (i + m_start m' + 1))"
      | "\<not> (i + m_end m' = 0 \<or> i + m_end m' - 1 \<le> i + m_start m')"
          "m \<in> set (find_submatches r input (i + m_end m' - 1))"
      using "1.prems" i Some
      by (auto simp: find_submatches.simps [of r input i] Let_def simp del: add_is_0 split: if_splits)
    then show ?thesis
    proof cases
      case 1
      with Some show ?thesis by blast
    next
      case 2
      show ?thesis by (rule "1.IH"(1) [OF i Some refl refl 2])
    next
      case 3
      show ?thesis by (rule "1.IH"(2) [OF i Some refl refl 3])
    qed
  qed
qed

definition short_group :: "rx \<Rightarrow> bool" where
  "short_group sub = (\<exists>neg rs lo hi. sub = Rep (Cls neg rs) lo (Some hi) \<and> hi \<le> 6)"

lemma submatch_short:
  assumes "m \<in> set (findRSSPatternSubmatches r s)" "\<forall>(k, sub) \<in> set (grps r). short_group sub"
  shows "length (submatch m n) \<le> 6"
proof -
  obtain s' where "rx_find r s' = Some m"
    using assms(1) find_submatches_found unfolding findRSSPatternSubmatches_def by blast
  from submatch_captured [OF this, of n] show ?thesis
    using assms(2) by (fastforce simp: short_group_def captures_def dest!: bounded_class_run)
qed

lemmas rss_pattern_defs = rss_season_s_def rss_season_word_def rss_season_ordinal_def rss_season_east_asian_def
  rss_season_episode_def rss_season_x_episode_def rss_season_episode_words_def
  rss_east_asian_season_episode_def rss_episode_marker_def rss_hash_marker_def rss_east_asian_episode_def
  rss_release_dash_def rss_bracketed_episode_def rss_delimited_episode_def

lemma short_group_between [simp]: "hi \<le> 6 \<Longrightarrow> short_group (between (Cls neg rs) lo hi)"
  by (auto simp: short_group_def)

lemma short_group_number [simp]: "short_group rssReleaseNumber"
  by (simp add: rssReleaseNumber_def)

lemma grps_number [simp]: "grps rssReleaseNumber = []"
  by (simp add: rssReleaseNumber_def)

lemma season_patterns_short:
  "r \<in> set rssStandaloneSeasonPatterns \<Longrightarrow> \<forall>(k, sub) \<in> set (grps r). short_group sub"
  by (auto simp add: rssStandaloneSeasonPatterns_def rss_pattern_defs simp del: cat.simps alts.simps)

lemma coordinate_patterns_short:
  "p \<in> set rssCoordinatePatterns \<Longrightarrow> \<not> cp_fractional p \<Longrightarrow> \<forall>(k, sub) \<in> set (grps (cp_expression p)). short_group sub"
  by (auto simp add: rssCoordinatePatterns_def coordinate_pattern_def fraction_pattern_def rss_pattern_defs
      simp del: cat.simps alts.simps)

text \<open>A candidate that is not fractional names a positive episode, and no season or a positive one.\<close>

definition candidate_ok :: "rssCoordinateCandidate \<Rightarrow> bool" where
  "candidate_ok c \<longleftrightarrow> cc_fractional c \<or>
     (0 < cc_episode c \<and> cc_episode c \<le> 999999 \<and> 0 \<le> cc_season c \<and> cc_season c \<le> 999999)"

lemma match_candidate_ok:
  assumes "c \<in> set (match_candidate p m)" "\<not> cp_fractional p \<Longrightarrow> \<forall>n. parseRSSReleaseNumber (submatch m n) \<le> 999999"
  shows "candidate_ok c"
  using assms by (auto simp: match_candidate_def candidate_ok_def Let_def split: if_splits)

lemma release_candidates_ok:
  assumes "c \<in> set (release_candidates n)"
  shows "candidate_ok c"
proof -
  obtain p input m where p: "p \<in> set rssCoordinatePatterns"
    and m: "m \<in> set (findRSSPatternSubmatches (cp_expression p) input)" and c: "c \<in> set (match_candidate p m)"
    using assms unfolding release_candidates_def pattern_candidates_def Let_def by auto
  show ?thesis
    using match_candidate_ok [OF c] submatch_short [OF m coordinate_patterns_short [OF p]]
      parseRSSReleaseNumber_bound by blast
qed

lemma single_or_default:
  "(case xs of [] \<Rightarrow> Some d | [x] \<Rightarrow> Some x | _ \<Rightarrow> None) = Some s \<Longrightarrow> s = d \<or> s \<in> set xs"
  by (auto split: list.splits)

lemma resolveRSSReleaseSeason_bound:
  assumes "resolveRSSReleaseSeason title d = Some s" "0 < d"
  shows "0 < s \<and> (s = d \<or> s \<le> 999999)"
proof -
  consider "s = d" | p m where "p \<in> set rssStandaloneSeasonPatterns"
      "m \<in> set (findRSSPatternSubmatches p title)" "s = parseRSSReleaseNumber (submatch m 1)" "0 < s"
    using single_or_default [OF assms(1) [unfolded resolveRSSReleaseSeason_def Let_def]] by auto
  then show ?thesis
    using assms(2) submatch_short [OF _ season_patterns_short] parseRSSReleaseNumber_bound by cases blast+
qed

lemma candidate_coordinate_bound:
  assumes "candidate_coordinate n d c = Some k" "candidate_ok c" "\<not> cc_fractional c" "0 < d"
  shows "0 < Season k \<and> (Season k = d \<or> Season k \<le> 999999) \<and> 0 < Episode k \<and> Episode k \<le> 999999 \<and>
     EpisodeFractionHundredths k = 0"
  using assms resolveRSSReleaseSeason_bound [of n d]
  by (auto simp: candidate_coordinate_def candidate_ok_def split: if_splits)

text \<open>What a match means, in terms of the candidates of the normalised title.\<close>

lemma release_matched:
  assumes "ParseRSSReleaseCoordinate title d = r" "pr_Status r = RSSCoordinateMatched"
  obtains k c where "0 < d" "c \<in> set (release_candidates (normalizeRSSReleaseTitle title))" "\<not> cc_fractional c"
    "candidate_coordinate (normalizeRSSReleaseTitle title) d c = Some k" "r = matched_coordinate k (cc_evidence c)"
proof -
  let ?n = "normalizeRSSReleaseTitle title"
  let ?ts = "top_candidates (release_candidates ?n)"
  have r: "release_coordinate_spec title d = r" using assms(1) by (simp add: ParseRSSReleaseCoordinate_spec)
  with assms(2) have ts: "?n \<noteq> [] \<and> 0 < d" "?ts \<noteq> []" "\<forall>c \<in> set ?ts. \<not> cc_fractional c"
    "\<exists>k. candidate_coordinate ?n d ` set ?ts = {Some k}"
    by (auto simp: release_coordinate_spec_def no_coordinate_def Let_def split: if_splits)
  then obtain k where k: "candidate_coordinate ?n d ` set ?ts = {Some k}" by blast
  let ?c = "hd ?ts"
  have c: "?c \<in> set ?ts" using ts(2) by simp
  with k have kc: "candidate_coordinate ?n d ?c = Some k" by blast
  have "r = matched_coordinate k (cc_evidence ?c)"
    using r ts kc by (auto simp: release_coordinate_spec_def Let_def)
  moreover have "?c \<in> set (release_candidates ?n)" using c by (auto simp: top_candidates_def)
  ultimately show thesis using that c kc ts by blast
qed

lemma ParseRSSReleaseCoordinate_bound:
  assumes "pr_Status (ParseRSSReleaseCoordinate title d) = RSSCoordinateMatched"
  shows "0 < pr_SourceSeason (ParseRSSReleaseCoordinate title d)"
    "pr_SourceSeason (ParseRSSReleaseCoordinate title d) = d \<or> pr_SourceSeason (ParseRSSReleaseCoordinate title d) \<le> 999999"
    "0 < pr_SourceEpisode (ParseRSSReleaseCoordinate title d)"
    "pr_SourceEpisode (ParseRSSReleaseCoordinate title d) \<le> 999999"
proof -
  obtain k c where "0 < d" "c \<in> set (release_candidates (normalizeRSSReleaseTitle title))" "\<not> cc_fractional c"
    "candidate_coordinate (normalizeRSSReleaseTitle title) d c = Some k"
    and r: "ParseRSSReleaseCoordinate title d = matched_coordinate k (cc_evidence c)"
    using release_matched [OF refl assms] by blast
  then have "0 < Season k \<and> (Season k = d \<or> Season k \<le> 999999) \<and> 0 < Episode k \<and> Episode k \<le> 999999"
    using candidate_coordinate_bound release_candidates_ok by blast
  with r show "0 < pr_SourceSeason (ParseRSSReleaseCoordinate title d)"
    "pr_SourceSeason (ParseRSSReleaseCoordinate title d) = d \<or> pr_SourceSeason (ParseRSSReleaseCoordinate title d) \<le> 999999"
    "0 < pr_SourceEpisode (ParseRSSReleaseCoordinate title d)"
    "pr_SourceEpisode (ParseRSSReleaseCoordinate title d) \<le> 999999"
    by (auto simp: matched_coordinate_def)
qed

section \<open>Results\<close>

text \<open>
  C35: the parser ranks all evidence and refuses conflicting peers: its result is the one the
  specification reads off the candidates of highest rank. Nothing below that rank counts; a
  fractional candidate of that rank refuses the whole title; otherwise the candidates must agree
  on one coordinate, and the first of them gives the evidence.
\<close>

theorem release_coordinate_reference:
  "ParseRSSReleaseCoordinate title defaultSeason = release_coordinate_spec title defaultSeason"
  by (rule ParseRSSReleaseCoordinate_spec)

text \<open>
  C36: a matched coordinate is positive and fits the 32-bit columns it is stored in, whatever the
  title, when the default season of the subscription does.
\<close>

theorem matched_release_fits:
  assumes "pr_Status (ParseRSSReleaseCoordinate title defaultSeason) = RSSCoordinateMatched"
    and "defaultSeason < 2 ^ 31"
  shows "0 < pr_SourceSeason (ParseRSSReleaseCoordinate title defaultSeason) \<and>
    pr_SourceSeason (ParseRSSReleaseCoordinate title defaultSeason) < 2 ^ 31 \<and>
    0 < pr_SourceEpisode (ParseRSSReleaseCoordinate title defaultSeason) \<and>
    pr_SourceEpisode (ParseRSSReleaseCoordinate title defaultSeason) \<le> 999999"
  using ParseRSSReleaseCoordinate_bound [OF assms(1)] assms(2) by auto

theorem matched_release_fits_witness:
  "pr_Status (ParseRSSReleaseCoordinate (lit ''S1E2'') 1) = RSSCoordinateMatched \<and>
     0 < pr_SourceEpisode (ParseRSSReleaseCoordinate (lit ''S1E2'') 1) \<and>
     pr_SourceEpisode (ParseRSSReleaseCoordinate (lit ''S1E2'') 1) \<le> 999999"
proof -
  have m: "pr_Status (ParseRSSReleaseCoordinate (lit ''S1E2'') 1) = RSSCoordinateMatched" by code_simp
  from matched_release_fits [OF this] m show ?thesis by (simp del: lit_simps)
qed

text \<open>
  The scan restarts on the last rune of a match that ended at the end of the title, where the
  anchor \<^verbatim>\<open>^\<close> holds again: a bare number of two or three digits at the end of a title is found once
  more by its last digit, and the two readings conflict. The same number followed by a word is
  matched.
\<close>

lemma trailing_number_ambiguous:
  "pr_Status (ParseRSSReleaseCoordinate (lit ''A 12'') 1) = RSSCoordinateAmbiguous"
  by code_simp

lemma inner_number_matched:
  "ParseRSSReleaseCoordinate (lit ''A 12 B'') 1 =
     matched_coordinate (coord 1 12) (lit ''delimited_episode'')"
  by code_simp

end
