(* ===== verification/RssAnalysis.thy ===== *)
theory RssAnalysis
  imports RssRelease
begin

text \<open>
  Analysis of RSS entries (\<^verbatim>\<open>internal/domain/rss.go\<close>): the rejection reasons of a release, the
  keyword filter, the identity that removes duplicates, and the plan that decides which entries
  of a poll an agent must adjudicate.

  The package \<^verbatim>\<open>net/url\<close> is a parameter, the record \<open>net_url\<close>: which hosts \<^verbatim>\<open>url.Parse\<close> accepts
  changes between Go releases, and decoding percent escapes leaves the valid UTF-8 of the text
  model. The digest and the time format of the last resort of \<^verbatim>\<open>BuildRSSIdentity\<close> are parameters
  as well. No result assumes anything about them.
\<close>

section \<open>Data\<close>

record RSSFeedEntry =
  fe_GUID :: gostr
  fe_Title :: gostr
  fe_URL :: gostr
  fe_DownloadURI :: gostr
  fe_PublishedAt :: "int option"

record RSSIdentityInput =
  ii_GUID :: gostr
  ii_BTIH :: gostr
  ii_URL :: gostr
  ii_Title :: gostr
  ii_PublishedAt :: "int option"

record RSSReleaseAnalysis =
  ra_SourceSeason :: int
  ra_SourceEpisode :: int
  ra_Downloadable :: bool
  ra_RejectionReasons :: "gostr list"

text \<open>
  The fields of \<^verbatim>\<open>url.URL\<close> that the program reads or sets, the other ones in \<open>url_rest\<close>; a query
  is its keys with their values.
\<close>

record url =
  url_Scheme :: gostr
  url_User :: "gostr option"
  url_Host :: gostr
  url_RawQuery :: gostr
  url_ForceQuery :: bool
  url_Fragment :: gostr
  url_rest :: gostr

record net_url =
  url_Parse :: "gostr \<Rightarrow> url option"
  url_Hostname :: "gostr \<Rightarrow> gostr"
  url_Port :: "gostr \<Rightarrow> gostr"
  url_Query :: "gostr \<Rightarrow> (gostr \<times> gostr list) list"
  url_Encode :: "(gostr \<times> gostr list) list \<Rightarrow> gostr"
  url_String :: "url \<Rightarrow> gostr"
  sha256_hex :: "gostr \<Rightarrow> gostr"
  rfc3339_nano :: "int \<Rightarrow> gostr"

section \<open>Patterns\<close>

definition btihPattern :: rx where
  "btihPattern = cat [Bot, between (Cls False [(48, 57), (97, 102), (65, 70)]) 40 40, Eot]"

definition rssRangePattern :: rx where
  "rssRangePattern =
     cat [alts [Bot, Cls True [(48, 57)]], Grp 1 (between digit 1 3), star space_rx,
       Cls False [(45, 45), (126, 126), (43, 43), (38, 38), (8212, 8212), (8211, 8211)],
       star space_rx, Grp 2 (between digit 1 3), alts [Eot, Cls True [(48, 57)]]]"

definition rssMarkedRangePattern :: rx where
  "rssMarkedRangePattern =
     cat [left_edge, opt (cat [ci ''s'', between digit 1 2, star sep_rx]),
       alts [ci ''episode'', ci ''ep'', ci ''e''], star sep_rx, between digit 1 4, version_rx,
       star space_rx, Cls False [(45, 45), (126, 126), (43, 43), (38, 38)], star space_rx,
       opt (alts [ci ''episode'', ci ''ep'', ci ''e'']), star sep_rx, between digit 1 4, version_rx,
       right_edge]"

definition rssCompilationPattern :: rx where
  "rssCompilationPattern =
     Grp 1 (alts [str [32207, 38598, 32232], str [24635, 38598, 31687], str [21512, 38598],
       str [21512, 36655], str [20840, 38598],
       cat [Wb, alts [ci ''recap'', ci ''compilation'', ci ''complete''], Wb]])"

section \<open>Filters and download links\<close>

definition keyword_in :: "gostr \<Rightarrow> gostr \<Rightarrow> bool" where
  "keyword_in normalizedTitle rawKeyword =
     (let keyword = trim_space rawKeyword
      in keyword \<noteq> [] \<and> contains_str normalizedTitle (to_lower keyword))"

definition RSSFilterRejectionReason :: "gostr \<Rightarrow> gostr list \<Rightarrow> gostr list \<Rightarrow> gostr" where
  "RSSFilterRejectionReason title includeKeywords excludeKeywords =
     (let normalizedTitle = to_lower title
      in if list_ex (keyword_in normalizedTitle) excludeKeywords then lit ''title_excluded''
         else if includeKeywords = [] then []
         else if list_ex (keyword_in normalizedTitle) includeKeywords then []
         else lit ''title_include_mismatch'')"

definition isDownloadURI :: "net_url \<Rightarrow> gostr \<Rightarrow> bool" where
  "isDownloadURI net rawURL =
     (case url_Parse net (trim_space rawURL) of
        None \<Rightarrow> False
      | Some parsed \<Rightarrow>
          if url_User parsed \<noteq> None then False
          else let scheme = to_lower (url_Scheme parsed)
               in if scheme = lit ''magnet'' then url_RawQuery parsed \<noteq> []
                  else if scheme = lit ''http'' \<or> scheme = lit ''https'' then url_Host parsed \<noteq> []
                  else False)"

section \<open>Analysis\<close>

definition rejected :: "string \<Rightarrow> RSSReleaseAnalysis" where
  "rejected reason =
     \<lparr>ra_SourceSeason = 0, ra_SourceEpisode = 0, ra_Downloadable = False,
      ra_RejectionReasons = [lit reason]\<rparr>"

definition coordinate_reasons :: "RSSCoordinateParseStatus \<Rightarrow> gostr list" where
  "coordinate_reasons status =
     (case status of
        RSSCoordinateMatched \<Rightarrow> []
      | RSSCoordinateAmbiguous \<Rightarrow> [lit ''episode_ambiguous'']
      | RSSCoordinateFractional \<Rightarrow> [lit ''fractional_episode_requires_explicit_mapping'']
      | RSSCoordinateNotFound \<Rightarrow> [lit ''episode_not_detected''])"

definition AnalyzeRSSRelease ::
  "net_url \<Rightarrow> gostr \<Rightarrow> gostr \<Rightarrow> int \<Rightarrow> gostr list \<Rightarrow> gostr list \<Rightarrow> RSSReleaseAnalysis" where
  "AnalyzeRSSRelease net title downloadURI defaultSeason includeKeywords excludeKeywords =
     (let filterTitle = trim_space title;
          normalizedTitle = normalizeRSSReleaseTitle filterTitle
      in if rx_matches rssRangePattern normalizedTitle \<or> rx_matches rssMarkedRangePattern normalizedTitle
         then rejected ''episode_range_batch''
         else if rx_matches extraTokenPattern normalizedTitle \<or> rx_matches rssCompilationPattern normalizedTitle
         then rejected ''non_episode_extra''
         else
           (let coordinate = ParseRSSReleaseCoordinate normalizedTitle defaultSeason;
                matched = (pr_Status coordinate = RSSCoordinateMatched);
                reason = RSSFilterRejectionReason filterTitle includeKeywords excludeKeywords;
                reasons = coordinate_reasons (pr_Status coordinate)
                  @ (if isDownloadURI net downloadURI then [] else [lit ''download_uri_missing''])
                  @ (if reason \<noteq> [] then [reason] else [])
            in \<lparr>ra_SourceSeason = (if matched then pr_SourceSeason coordinate else 0),
                ra_SourceEpisode = (if matched then pr_SourceEpisode coordinate else 0),
                ra_Downloadable = (reasons = []), ra_RejectionReasons = reasons\<rparr>))"

definition soft_reason :: "gostr \<Rightarrow> bool" where
  "soft_reason reason = (reason = lit ''episode_not_detected'' \<or> reason = lit ''episode_ambiguous'')"

definition canAdjudicateRSSReleaseAnalysis :: "RSSReleaseAnalysis \<Rightarrow> bool" where
  "canAdjudicateRSSReleaseAnalysis analysis =
     (if ra_Downloadable analysis \<or> ra_RejectionReasons analysis = [] then False
      else list_all soft_reason (ra_RejectionReasons analysis))"

definition CanAdjudicateRSSRelease ::
  "net_url \<Rightarrow> gostr \<Rightarrow> gostr \<Rightarrow> int \<Rightarrow> gostr list \<Rightarrow> gostr list \<Rightarrow> bool" where
  "CanAdjudicateRSSRelease net title downloadURI defaultSeason includeKeywords excludeKeywords =
     canAdjudicateRSSReleaseAnalysis
       (AnalyzeRSSRelease net title downloadURI defaultSeason includeKeywords excludeKeywords)"

section \<open>Identities\<close>

text \<open>
  The base32 alphabet of RFC 4648 and the twenty bytes of a hash as forty hexadecimal digits.
  Go upper-cases the text and drops line breaks before decoding; twenty bytes come out exactly
  when thirty-two symbols of the alphabet remain, so a text of thirty-two bytes must consist of
  them, in either case.
\<close>

definition base32_symbol :: "rune \<Rightarrow> int option" where
  "base32_symbol c =
     (if 97 \<le> c \<and> c \<le> 122 then Some (c - 97)
      else if 65 \<le> c \<and> c \<le> 90 then Some (c - 65)
      else if 50 \<le> c \<and> c \<le> 55 then Some (c - 50 + 26)
      else None)"

definition hex_rune :: "int \<Rightarrow> rune" where
  "hex_rune d = (if d < 10 then 48 + d else 87 + d)"

fun hex_digits :: "nat \<Rightarrow> int \<Rightarrow> gostr" where
  "hex_digits 0 v = []"
| "hex_digits (Suc n) v = hex_digits n (v div 16) @ [hex_rune (v mod 16)]"

fun base32_value :: "int \<Rightarrow> gostr \<Rightarrow> int option" where
  "base32_value acc [] = Some acc"
| "base32_value acc (c # cs) =
     (case base32_symbol c of None \<Rightarrow> None | Some d \<Rightarrow> base32_value (acc * 32 + d) cs)"

definition base32_hash :: "gostr \<Rightarrow> gostr option" where
  "base32_hash v = (if length v = 32 then map_option (hex_digits 40) (base32_value 0 v) else None)"

definition normalizeBTIH :: "gostr \<Rightarrow> gostr" where
  "normalizeBTIH val =
     (let v = trim_prefix (to_lower (trim_space val)) (lit ''urn:btih:'')
      in if rx_matches btihPattern v then v
         else if byte_len v = 32 then (case base32_hash v of Some h \<Rightarrow> h | None \<Rightarrow> [])
         else [])"

text \<open>\<^verbatim>\<open>strings.EqualFold\<close> with \<^verbatim>\<open>"magnet"\<close>, whose letters have no folding outside ASCII.\<close>

definition btihFromMagnet :: "net_url \<Rightarrow> gostr \<Rightarrow> gostr" where
  "btihFromMagnet net rawURL =
     (case url_Parse net (trim_space rawURL) of
        None \<Rightarrow> []
      | Some parsed \<Rightarrow>
          if \<not> equal_fold_ascii (url_Scheme parsed) (lit ''magnet'') then []
          else
            (case map_of (url_Query net (url_RawQuery parsed)) (lit ''xt'') of
               None \<Rightarrow> []
             | Some topics \<Rightarrow>
                 (case filter (\<lambda>h. h \<noteq> []) (map normalizeBTIH topics) of [] \<Rightarrow> [] | h # _ \<Rightarrow> h)))"

definition join_host_port :: "gostr \<Rightarrow> gostr \<Rightarrow> gostr" where
  "join_host_port host port =
     (if 58 \<in> set host then [91] @ host @ [93, 58] @ port else host @ [58] @ port)"

definition canonical_host :: "gostr \<Rightarrow> gostr \<Rightarrow> gostr \<Rightarrow> gostr" where
  "canonical_host scheme hostname rawPort =
     (let port = (if (scheme = lit ''http'' \<and> rawPort = lit ''80'') \<or> (scheme = lit ''https'' \<and> rawPort = lit ''443'')
                  then [] else rawPort)
      in if port \<noteq> [] then join_host_port hostname port
         else if 58 \<in> set hostname then [91] @ hostname @ [93]
         else hostname)"

definition canonicalHTTPURL :: "net_url \<Rightarrow> gostr \<Rightarrow> gostr option" where
  "canonicalHTTPURL net rawURL =
     (case url_Parse net (trim_space rawURL) of
        None \<Rightarrow> None
      | Some parsed \<Rightarrow>
          if url_User parsed \<noteq> None \<or> url_Host parsed = [] then None
          else
            (let scheme = to_lower (url_Scheme parsed)
             in if scheme \<noteq> lit ''http'' \<and> scheme \<noteq> lit ''https'' then None
                else
                  Some (url_String net (parsed\<lparr>
                    url_Scheme := scheme,
                    url_Host := canonical_host scheme (to_lower (url_Hostname net (url_Host parsed)))
                                  (url_Port net (url_Host parsed)),
                    url_RawQuery := url_Encode net
                      (map (\<lambda>(key, values). (key, sort_by str_less values)) (url_Query net (url_RawQuery parsed))),
                    url_ForceQuery := False,
                    url_Fragment := []\<rparr>))))"

text \<open>\<open>None\<close> is the error of an entry without any usable signal; a zero time is \<open>None\<close> too.\<close>

definition BuildRSSIdentity :: "net_url \<Rightarrow> RSSIdentityInput \<Rightarrow> gostr option" where
  "BuildRSSIdentity net input =
     (let hash = normalizeBTIH (ii_BTIH input); guid = trim_space (ii_GUID input);
          urlHash = btihFromMagnet net (ii_URL input)
      in if hash \<noteq> [] then Some (lit ''btih:'' @ hash)
         else if guid \<noteq> [] then Some (lit ''guid:'' @ guid)
         else if urlHash \<noteq> [] then Some (lit ''btih:'' @ urlHash)
         else
           (case canonicalHTTPURL net (ii_URL input) of
              Some canonicalURL \<Rightarrow> Some (lit ''url:'' @ canonicalURL)
            | None \<Rightarrow>
                let title = join (str_fields (ii_Title input)) [32]
                in (case ii_PublishedAt input of
                      None \<Rightarrow> None
                    | Some at \<Rightarrow>
                        if title = [] then None
                        else Some (lit ''title-time:'' @ sha256_hex net (title @ [10] @ rfc3339_nano net at)))))"

definition BuildRSSFeedEntryIdentity :: "net_url \<Rightarrow> RSSFeedEntry \<Rightarrow> gostr option" where
  "BuildRSSFeedEntryIdentity net entry =
     (let identityURL = (if trim_space (fe_URL entry) = [] then trim_space (fe_DownloadURI entry)
                         else trim_space (fe_URL entry))
      in BuildRSSIdentity net
           \<lparr>ii_GUID = fe_GUID entry, ii_BTIH = btihFromMagnet net (fe_DownloadURI entry), ii_URL = identityURL,
            ii_Title = fe_Title entry, ii_PublishedAt = fe_PublishedAt entry\<rparr>)"

section \<open>The plan of a poll\<close>

text \<open>
  The two maps of \<^verbatim>\<open>PlanRSSReleaseAdjudication\<close> are association lists; a set of identities is a
  list without repetition. The second loop visits the coordinates in any order.
\<close>

record plan_state =
  ps_planned :: "bool list"
  ps_coordinates :: "(EpisodeCoordinate \<times> nat list) list"
  ps_identities :: "(EpisodeCoordinate \<times> gostr list) list"

definition lookup_list :: "('k \<times> 'v list) list \<Rightarrow> 'k \<Rightarrow> 'v list" where
  "lookup_list m k = (case map_of m k of None \<Rightarrow> [] | Some vs \<Rightarrow> vs)"

definition plan_entry ::
  "net_url \<Rightarrow> int \<Rightarrow> gostr list \<Rightarrow> gostr list \<Rightarrow> nat \<Rightarrow> RSSFeedEntry \<Rightarrow> plan_state \<Rightarrow> plan_state" where
  "plan_entry net defaultSeason includeKeywords excludeKeywords index entry st =
     (let analysis = AnalyzeRSSRelease net (fe_Title entry) (fe_DownloadURI entry) defaultSeason
                       includeKeywords excludeKeywords;
          st1 = st\<lparr>ps_planned := (ps_planned st)[index := canAdjudicateRSSReleaseAnalysis analysis]\<rparr>
      in if \<not> ra_Downloadable analysis then st1
         else
           (case BuildRSSFeedEntryIdentity net entry of
              None \<Rightarrow> st1
            | Some identity \<Rightarrow>
                let c = coord (ra_SourceSeason analysis) (ra_SourceEpisode analysis)
                in st1\<lparr>ps_coordinates := AList.update c (lookup_list (ps_coordinates st) c @ [index]) (ps_coordinates st),
                       ps_identities := AList.update c (List.insert identity (lookup_list (ps_identities st) c))
                                          (ps_identities st)\<rparr>))"

fun plan_loop ::
  "net_url \<Rightarrow> int \<Rightarrow> gostr list \<Rightarrow> gostr list \<Rightarrow> nat \<Rightarrow> RSSFeedEntry list \<Rightarrow> plan_state \<Rightarrow> plan_state" where
  "plan_loop net defaultSeason includeKeywords excludeKeywords index [] st = st"
| "plan_loop net defaultSeason includeKeywords excludeKeywords index (entry # entries) st =
     plan_loop net defaultSeason includeKeywords excludeKeywords (Suc index) entries
       (plan_entry net defaultSeason includeKeywords excludeKeywords index entry st)"

definition mark_all :: "nat list \<Rightarrow> bool list \<Rightarrow> bool list" where
  "mark_all indexes planned = fold (\<lambda>index planned. planned[index := True]) indexes planned"

definition mark_conflicts :: "plan_state \<Rightarrow> bool list" where
  "mark_conflicts st =
     fold (\<lambda>(coordinate, indexes) planned.
             if length (lookup_list (ps_identities st) coordinate) < 2 then planned
             else mark_all indexes planned)
       (ps_coordinates st) (ps_planned st)"

definition PlanRSSReleaseAdjudication ::
  "net_url \<Rightarrow> RSSFeedEntry list \<Rightarrow> int \<Rightarrow> gostr list \<Rightarrow> gostr list \<Rightarrow> bool list" where
  "PlanRSSReleaseAdjudication net entries defaultSeason includeKeywords excludeKeywords =
     mark_conflicts (plan_loop net defaultSeason includeKeywords excludeKeywords 0 entries
       \<lparr>ps_planned = replicate (length entries) False, ps_coordinates = [], ps_identities = []\<rparr>)"

section \<open>Verdicts\<close>

text \<open>The rules that no adjudication can lift: transport, keywords, batches and extras.\<close>

definition single_episode_release :: "gostr \<Rightarrow> bool" where
  "single_episode_release title =
     list_all (\<lambda>r. \<not> rx_matches r (normalizeRSSReleaseTitle title))
       [rssRangePattern, rssMarkedRangePattern, extraTokenPattern, rssCompilationPattern]"

definition passes_hard_rules :: "net_url \<Rightarrow> gostr \<Rightarrow> gostr \<Rightarrow> gostr list \<Rightarrow> gostr list \<Rightarrow> bool" where
  "passes_hard_rules net title downloadURI includeKeywords excludeKeywords \<longleftrightarrow>
     single_episode_release title \<and> isDownloadURI net downloadURI \<and>
     RSSFilterRejectionReason (trim_space title) includeKeywords excludeKeywords = []"

lemma normalizeRSSReleaseTitle_trim [simp]:
  "normalizeRSSReleaseTitle (trim_space t) = normalizeRSSReleaseTitle t"
  by (simp add: normalizeRSSReleaseTitle_def)

lemma coordinate_reasons_iff:
  "coordinate_reasons s = [] \<longleftrightarrow> s = RSSCoordinateMatched"
  "list_all soft_reason (coordinate_reasons s) \<longleftrightarrow> s \<noteq> RSSCoordinateFractional"
  by (cases s; simp add: coordinate_reasons_def soft_reason_def)+

lemma hard_reasons [simp]:
  "\<not> soft_reason (lit ''download_uri_missing'')"
  "\<not> soft_reason (lit ''episode_range_batch'')"
  "\<not> soft_reason (lit ''non_episode_extra'')"
  by (simp_all add: soft_reason_def)

lemma filter_reason_hard:
  "soft_reason (RSSFilterRejectionReason t i e) \<longleftrightarrow> False"
  by (simp add: RSSFilterRejectionReason_def soft_reason_def Let_def)

lemma AnalyzeRSSRelease_rejected:
  assumes "\<not> single_episode_release title"
  shows "AnalyzeRSSRelease net title uri d inc exc
     \<in> {rejected ''episode_range_batch'', rejected ''non_episode_extra''}"
  using assms
  by (simp add: AnalyzeRSSRelease_def single_episode_release_def Let_def del: lit_simps) blast

lemma AnalyzeRSSRelease_single:
  assumes "single_episode_release title" "p = ParseRSSReleaseCoordinate title d"
    "reason = RSSFilterRejectionReason (trim_space title) inc exc"
    "reasons = coordinate_reasons (pr_Status p)
       @ (if isDownloadURI net uri then [] else [lit ''download_uri_missing''])
       @ (if reason \<noteq> [] then [reason] else [])"
  shows "AnalyzeRSSRelease net title uri d inc exc =
    \<lparr>ra_SourceSeason = (if pr_Status p = RSSCoordinateMatched then pr_SourceSeason p else 0),
     ra_SourceEpisode = (if pr_Status p = RSSCoordinateMatched then pr_SourceEpisode p else 0),
     ra_Downloadable = (reasons = []), ra_RejectionReasons = reasons\<rparr>"
  using assms(1) unfolding assms(2-4)
  by (simp add: AnalyzeRSSRelease_def single_episode_release_def Let_def ParseRSSReleaseCoordinate_normalized del: lit_simps)

lemma canAdjudicate_single:
  assumes "single_episode_release title"
  shows "canAdjudicateRSSReleaseAnalysis (AnalyzeRSSRelease net title uri d inc exc) \<longleftrightarrow>
     passes_hard_rules net title uri inc exc \<and>
     pr_Status (ParseRSSReleaseCoordinate title d) \<in> {RSSCoordinateNotFound, RSSCoordinateAmbiguous}"
proof -
  let ?s = "pr_Status (ParseRSSReleaseCoordinate title d)"
  have "?s \<in> {RSSCoordinateNotFound, RSSCoordinateAmbiguous} \<longleftrightarrow>
      coordinate_reasons ?s \<noteq> [] \<and> list_all soft_reason (coordinate_reasons ?s)"
    unfolding coordinate_reasons_iff by (cases ?s) simp_all
  then show ?thesis
    unfolding AnalyzeRSSRelease_single [OF assms refl refl refl] canAdjudicateRSSReleaseAnalysis_def
      passes_hard_rules_def
    using assms by (auto simp: filter_reason_hard simp del: lit_simps)
qed

text \<open>
  C37: a release is downloadable exactly when it passes the hard rules and names one coordinate,
  and then nothing is held against it; an agent may adjudicate it exactly when it passes the hard
  rules and its coordinate is missing or ambiguous, so never a fractional or a filtered one; the
  coordinate reported is the parsed one or none.
\<close>

theorem release_verdict:
  fixes net title uri d inc exc
  defines "a \<equiv> AnalyzeRSSRelease net title uri d inc exc" and "p \<equiv> ParseRSSReleaseCoordinate title d"
    and "hard \<equiv> passes_hard_rules net title uri inc exc"
  shows "(ra_Downloadable a \<longleftrightarrow> hard \<and> pr_Status p = RSSCoordinateMatched) \<and>
    (ra_Downloadable a \<longleftrightarrow> ra_RejectionReasons a = []) \<and>
    (CanAdjudicateRSSRelease net title uri d inc exc \<longleftrightarrow>
       hard \<and> pr_Status p \<in> {RSSCoordinateNotFound, RSSCoordinateAmbiguous}) \<and>
    (ra_SourceSeason a, ra_SourceEpisode a) =
       (if single_episode_release title \<and> pr_Status p = RSSCoordinateMatched
        then (pr_SourceSeason p, pr_SourceEpisode p) else (0, 0))"
proof (cases "single_episode_release title")
  case True
  then show ?thesis
    unfolding a_def p_def hard_def CanAdjudicateRSSRelease_def canAdjudicate_single [OF True]
    unfolding AnalyzeRSSRelease_single [OF True refl refl refl] passes_hard_rules_def
    by (auto simp: coordinate_reasons_iff simp del: lit_simps)
next
  case False
  then obtain reason where r: "a = rejected reason" "\<not> soft_reason (lit reason)"
    using AnalyzeRSSRelease_rejected [of title net uri d inc exc] hard_reasons unfolding a_def by blast
  from False show ?thesis
    unfolding CanAdjudicateRSSRelease_def a_def [symmetric] r(1) hard_def passes_hard_rules_def using r(2)
    by (simp add: rejected_def canAdjudicateRSSReleaseAnalysis_def del: lit_simps)
qed

section \<open>Which entries an agent must adjudicate\<close>

text \<open>
  What an entry claims: the coordinate it would download and its identity, when it is
  downloadable and has one.
\<close>

definition release_claim ::
  "net_url \<Rightarrow> int \<Rightarrow> gostr list \<Rightarrow> gostr list \<Rightarrow> RSSFeedEntry \<Rightarrow> (EpisodeCoordinate \<times> gostr) option" where
  "release_claim net d inc exc e =
     (let a = AnalyzeRSSRelease net (fe_Title e) (fe_DownloadURI e) d inc exc
      in if ra_Downloadable a
         then map_option (\<lambda>identity. (coord (ra_SourceSeason a) (ra_SourceEpisode a), identity))
                (BuildRSSFeedEntryIdentity net e)
         else None)"

definition adjudicable :: "net_url \<Rightarrow> int \<Rightarrow> gostr list \<Rightarrow> gostr list \<Rightarrow> RSSFeedEntry \<Rightarrow> bool" where
  "adjudicable net d inc exc e = CanAdjudicateRSSRelease net (fe_Title e) (fe_DownloadURI e) d inc exc"

lemma plan_entry_claim:
  "plan_entry net d inc exc i e st =
     (let st1 = st\<lparr>ps_planned := (ps_planned st)[i := adjudicable net d inc exc e]\<rparr>
      in case release_claim net d inc exc e of
           None \<Rightarrow> st1
         | Some (c, identity) \<Rightarrow>
             st1\<lparr>ps_coordinates := AList.update c (lookup_list (ps_coordinates st) c @ [i]) (ps_coordinates st),
                 ps_identities := AList.update c (List.insert identity (lookup_list (ps_identities st) c))
                                    (ps_identities st)\<rparr>)"
  by (simp add: plan_entry_def release_claim_def adjudicable_def CanAdjudicateRSSRelease_def Let_def
      split: option.split)

lemma lookup_list_update:
  "lookup_list (AList.update k vs m) k' = (if k' = k then vs else lookup_list m k')"
  by (simp add: lookup_list_def update_conv')

lemma mark_all_nth:
  "j < length ps \<Longrightarrow> mark_all ixs ps ! j \<longleftrightarrow> ps ! j \<or> j \<in> set ixs"
  "length (mark_all ixs ps) = length ps"
proof -
  have len: "length (mark_all ixs ps) = length ps" for ps
    by (induction ixs arbitrary: ps) (simp_all add: mark_all_def)
  then show "length (mark_all ixs ps) = length ps" .
  show "j < length ps \<Longrightarrow> mark_all ixs ps ! j \<longleftrightarrow> ps ! j \<or> j \<in> set ixs"
  proof (induction ixs arbitrary: ps)
    case (Cons i ixs)
    have "ps[i := True] ! j \<longleftrightarrow> ps ! j \<or> j = i"
      using Cons.prems by (cases "i < length ps") (auto simp: nth_list_update)
    with Cons.IH [of "ps[i := True]"] Cons.prems show ?case by (auto simp: mark_all_def)
  qed (simp add: mark_all_def)
qed

lemma mark_fold_nth:
  defines "mark \<equiv> (\<lambda>few (c, ixs) ps. if few c then ps else mark_all ixs ps)"
  shows "j < length ps \<Longrightarrow> fold (mark few) m ps ! j \<longleftrightarrow> ps ! j \<or> (\<exists>(c, ixs) \<in> set m. \<not> few c \<and> j \<in> set ixs)"
    "length (fold (mark few) m ps) = length ps"
proof -
  have len: "length (fold (mark few) m ps) = length ps" for ps
    by (induction m arbitrary: ps) (auto simp: mark_def mark_all_nth)
  then show "length (fold (mark few) m ps) = length ps" .
  show "j < length ps \<Longrightarrow> fold (mark few) m ps ! j \<longleftrightarrow> ps ! j \<or> (\<exists>(c, ixs) \<in> set m. \<not> few c \<and> j \<in> set ixs)"
  proof (induction m arbitrary: ps)
    case (Cons b m)
    obtain c ixs where b: "b = (c, ixs)" by (cases b)
    have step: "mark few b ps ! j \<longleftrightarrow> ps ! j \<or> (\<not> few c \<and> j \<in> set ixs)" "length (mark few b ps) = length ps"
      using Cons.prems b by (simp_all add: mark_def mark_all_nth)
    with Cons show ?case by (simp add: b)
  qed simp
qed

text \<open>The state after the entries \<open>pre\<close> of a poll with \<open>n\<close> entries.\<close>

definition plan_inv ::
  "(RSSFeedEntry \<Rightarrow> bool) \<Rightarrow> (RSSFeedEntry \<Rightarrow> (EpisodeCoordinate \<times> gostr) option) \<Rightarrow> nat \<Rightarrow>
     RSSFeedEntry list \<Rightarrow> plan_state \<Rightarrow> bool" where
  "plan_inv adj claim n pre st \<longleftrightarrow>
     ps_planned st = map adj pre @ replicate (n - length pre) False \<and>
     distinct (map fst (ps_coordinates st)) \<and>
     (\<forall>c. set (lookup_list (ps_coordinates st) c) = {i. i < length pre \<and> (\<exists>x. claim (pre ! i) = Some (c, x))}) \<and>
     (\<forall>c. set (lookup_list (ps_identities st) c) = {x. \<exists>e \<in> set pre. claim e = Some (c, x)} \<and>
          distinct (lookup_list (ps_identities st) c))"

lemma plan_inv_entry:
  assumes "plan_inv (adjudicable net d inc exc) (release_claim net d inc exc) n pre st" "length pre < n"
  shows "plan_inv (adjudicable net d inc exc) (release_claim net d inc exc) n (pre @ [e])
     (plan_entry net d inc exc (length pre) e st)"
proof -
  obtain k where k: "n - length pre = Suc k" "n - Suc (length pre) = k"
    using assms(2) by (metis Suc_diff_Suc)
  have planned: "(ps_planned st)[length pre := b] = map (adjudicable net d inc exc) pre @ [b] @ replicate k False" for b
    using assms(1) k by (simp add: plan_inv_def list_update_append)
  show ?thesis
  proof (cases "release_claim net d inc exc e")
    case None
    then show ?thesis
      using assms(1) planned k by (auto simp: plan_inv_def plan_entry_claim nth_append less_Suc_eq)
  next
    case (Some ci)
    obtain c x where [simp]: "ci = (c, x)" by (cases ci)
    show ?thesis
      using assms(1) planned k Some
      by (auto simp: plan_inv_def plan_entry_claim lookup_list_update distinct_update nth_append less_Suc_eq)
  qed
qed

lemma plan_inv_loop:
  "plan_inv (adjudicable net d inc exc) (release_claim net d inc exc) n pre st \<Longrightarrow> n = length pre + length es \<Longrightarrow>
   plan_inv (adjudicable net d inc exc) (release_claim net d inc exc) n (pre @ es)
     (plan_loop net d inc exc (length pre) es st)"
proof (induction es arbitrary: pre st)
  case Nil
  then show ?case by simp
next
  case (Cons e es)
  from Cons.prems plan_inv_entry [of net d inc exc n pre st e]
  have "plan_inv (adjudicable net d inc exc) (release_claim net d inc exc) n (pre @ [e])
     (plan_entry net d inc exc (length pre) e st)" by simp
  from Cons.IH [OF this] Cons.prems(2) show ?case by simp
qed

lemma two_elements: "distinct xs \<Longrightarrow> x \<in> set xs \<Longrightarrow> \<not> length xs < 2 \<longleftrightarrow> (\<exists>y \<in> set xs. y \<noteq> x)"
  by (cases xs; cases "tl xs") auto

lemma lookup_list_entries:
  assumes "distinct (map fst m)"
  shows "(\<exists>(c, ixs) \<in> set m. P c \<and> j \<in> set ixs) \<longleftrightarrow> (\<exists>c. P c \<and> j \<in> set (lookup_list m c))"
proof
  assume "\<exists>(c, ixs) \<in> set m. P c \<and> j \<in> set ixs"
  then obtain c ixs where "map_of m c = Some ixs" "P c" "j \<in> set ixs" using assms by auto
  then show "\<exists>c. P c \<and> j \<in> set (lookup_list m c)" by (force simp: lookup_list_def)
next
  assume "\<exists>c. P c \<and> j \<in> set (lookup_list m c)"
  then obtain c where c: "P c" "j \<in> set (lookup_list m c)" by blast
  then show "\<exists>(c, ixs) \<in> set m. P c \<and> j \<in> set ixs"
    by (cases "map_of m c") (auto simp: lookup_list_def dest: map_of_SomeD)
qed

text \<open>The second loop marks what two claims with one coordinate and different identities share.\<close>

lemma plan_inv_marks:
  assumes inv: "plan_inv adj claim (length entries) entries st" and j: "j < length entries"
  shows "mark_conflicts st ! j \<longleftrightarrow> adj (entries ! j) \<or>
    (\<exists>c x. claim (entries ! j) = Some (c, x) \<and> (\<exists>e' \<in> set entries. \<exists>x'. claim e' = Some (c, x') \<and> x' \<noteq> x))"
proof -
  let ?ids = "lookup_list (ps_identities st)"
  have conflict: "\<not> length (?ids c) < 2 \<longleftrightarrow> (\<exists>e' \<in> set entries. \<exists>x'. claim e' = Some (c, x') \<and> x' \<noteq> x)"
    if "claim (entries ! j) = Some (c, x)" for c x
  proof -
    have ids: "set (?ids c) = {x. \<exists>e \<in> set entries. claim e = Some (c, x)}" "distinct (?ids c)"
      using inv by (simp_all add: plan_inv_def)
    have "x \<in> set (?ids c)" unfolding ids(1) using that j nth_mem by blast
    from two_elements [OF ids(2) this] show ?thesis unfolding ids(1) by blast
  qed
  have "mark_conflicts st ! j \<longleftrightarrow> ps_planned st ! j \<or>
      (\<exists>(c, ixs) \<in> set (ps_coordinates st). \<not> length (?ids c) < 2 \<and> j \<in> set ixs)"
    unfolding mark_conflicts_def using j inv by (intro mark_fold_nth(1)) (simp add: plan_inv_def)
  also have "\<dots> \<longleftrightarrow> adj (entries ! j) \<or>
      (\<exists>c. \<not> length (?ids c) < 2 \<and> j \<in> set (lookup_list (ps_coordinates st) c))"
    using inv j lookup_list_entries [of "ps_coordinates st" "\<lambda>c. \<not> length (?ids c) < 2" j]
    by (simp add: plan_inv_def)
  also have "\<dots> \<longleftrightarrow> adj (entries ! j) \<or> (\<exists>c x. claim (entries ! j) = Some (c, x) \<and> \<not> length (?ids c) < 2)"
    using inv j unfolding plan_inv_def by blast
  finally show ?thesis using conflict by blast
qed

lemma plan_inv_length:
  "plan_inv adj claim (length entries) entries st \<Longrightarrow> length (mark_conflicts st) = length entries"
  unfolding mark_conflicts_def by (subst mark_fold_nth(2)) (simp add: plan_inv_def)

lemma plan_inv_start:
  "plan_inv (adjudicable net d inc exc) (release_claim net d inc exc) (length entries) entries
     (plan_loop net d inc exc 0 entries
       \<lparr>ps_planned = replicate (length entries) False, ps_coordinates = [], ps_identities = []\<rparr>)"
proof -
  have "plan_inv (adjudicable net d inc exc) (release_claim net d inc exc) (length entries) []
     \<lparr>ps_planned = replicate (length entries) False, ps_coordinates = [], ps_identities = []\<rparr>"
    by (simp add: plan_inv_def lookup_list_def)
  from plan_inv_loop [OF this, of entries] show ?thesis by simp
qed

text \<open>
  C38: a complete poll sends to adjudication exactly the entries that may be adjudicated on their
  own, and the downloadable entries whose coordinate another entry of the poll claims with a
  different identity; repeated records of one release do not conflict.
\<close>

theorem adjudication_plan:
  fixes net d inc exc
  defines "claim \<equiv> release_claim net d inc exc"
  shows "PlanRSSReleaseAdjudication net entries d inc exc =
    map (\<lambda>e. adjudicable net d inc exc e \<or>
        (\<exists>c x. claim e = Some (c, x) \<and> (\<exists>e' \<in> set entries. \<exists>x'. claim e' = Some (c, x') \<and> x' \<noteq> x))) entries"
  unfolding PlanRSSReleaseAdjudication_def claim_def
  using plan_inv_marks [OF plan_inv_start] plan_inv_length [OF plan_inv_start]
  by (intro nth_equalityI) simp_all

end
