(* ===== verification/SubtitleGroups.thy ===== *)
theory SubtitleGroups
  imports RssAnalysis
begin

text \<open>
  Subtitle groups of RSS feeds (\<^verbatim>\<open>internal/domain/rss_subtitle_group.go\<close>): bracket matching, the
  normal form and the key of a group name, the names the maintained list accepts, and the ranked
  candidates a feed suggests.
\<close>

section \<open>Data\<close>

definition maxRSSSubtitleGroupCandidates :: nat where
  "maxRSSSubtitleGroupCandidates = 8"

text \<open>The ranks of evidence.\<close>

definition rssSubtitleGroupTextMatch :: int where "rssSubtitleGroupTextMatch = 1"
definition rssSubtitleGroupUnknownLabel :: int where "rssSubtitleGroupUnknownLabel = 2"
definition rssSubtitleGroupJointLabel :: int where "rssSubtitleGroupJointLabel = 3"
definition rssSubtitleGroupExactLabel :: int where "rssSubtitleGroupExactLabel = 4"

record rssSubtitleGroupName =
  gn_name :: gostr
  gn_key :: gostr
  gn_canMatchText :: bool

record rssSubtitleGroupLabel =
  gl_name :: gostr
  gl_key :: gostr
  gl_known :: bool
  gl_metadata :: bool
  gl_matched :: bool

record rssSubtitleGroupSource =
  gs_text :: gostr
  gs_labels :: "rssSubtitleGroupLabel list"
  gs_score :: int

record rssSubtitleGroupCandidate =
  gc_name :: gostr
  gc_key :: gostr
  gc_rank :: int
  gc_score :: int

record RSSFeed =
  rf_Title :: gostr
  rf_Entries :: "RSSFeedEntry list"

definition rssSubtitleGroupMetadataPattern :: rx where
  "rssSubtitleGroupMetadataPattern =
     cat [Bot, alts [cat [between digit 3 4, ch 112], cat [Cls False [(50, 50), (52, 52), (56, 56)], ch 107],
       cat [between digit 1 2, str (lit ''bit'')],
       cat [opt (cat [ch 115, between digit 1 2]),
         opt (cat [ch 101, opt (cat [ch 112, opt (str (lit ''isode''))])]), between digit 1 4,
         opt (cat [ch 118, plus digit])],
       cat [ch 31532, plus digit, Cls False [(35805, 35805), (35441, 35441), (38598, 38598)]]], Eot]"

definition rssSubtitleGroupMetadataTokens :: "gostr list" where
  "rssSubtitleGroupMetadataTokens =
     map lit [''bdrip'', ''brrip'', ''bluray'', ''blu'', ''ray'', ''bd'', ''dvd'', ''dvdrip'', ''web'', ''webdl'',
       ''dl'', ''webrip'', ''hdtv'', ''raw'', ''remux'', ''av1'', ''avc'', ''hevc'', ''h264'', ''h265'', ''h.264'',
       ''h.265'', ''x264'', ''x265'', ''hi10p'', ''aac'', ''flac'', ''opus'', ''ac3'', ''dts'', ''mkv'', ''mp4'',
       ''ass'', ''srt'', ''chs'', ''cht'', ''chinese'', ''jpn'', ''jp'', ''japanese'', ''eng'', ''english'', ''gb'',
       ''big5''] @
     [[31616, 20307], [31777, 39636], [32321, 20307], [32321, 39636], [31616, 20307, 20013, 25991],
      [31777, 39636, 20013, 25991], [32321, 20307, 20013, 25991], [32321, 39636, 20013, 25991],
      [31616, 26085], [31777, 26085], [32321, 26085], [31616, 32321], [31777, 32321],
      [31616, 32321, 20869, 23553], [31777, 32321, 20839, 23553], [31616, 32321, 23383, 24149],
      [31777, 32321, 23383, 24149], [31616, 20307, 23383, 24149], [31777, 39636, 23383, 24149],
      [32321, 20307, 23383, 24149], [32321, 39636, 23383, 24149], [21452, 35821], [38617, 35486],
      [21452, 35821, 23383, 24149], [38617, 35486, 23383, 24149], [20869, 23553], [20839, 23553],
      [22806, 25346], [22806, 25499]]"

section \<open>Brackets\<close>

definition rssSubtitleGroupOpeningBracket :: "rune \<Rightarrow> rune option" where
  "rssSubtitleGroupOpeningBracket val =
     map_of [(91, 93), (12304, 12305), (40, 41), (65288, 65289), (12300, 12301), (12302, 12303), (12310, 12311)] val"

definition closing_bracket :: "rune \<Rightarrow> bool" where
  "closing_bracket token = (token \<in> set [93, 12305, 41, 65289, 12301, 12303, 12311])"

text \<open>\<open>None\<close> is the result \<^verbatim>\<open>-1\<close>; the stack has its top first and is empty only in a branch that is not reached.\<close>

fun bracket_loop :: "rune list \<Rightarrow> nat \<Rightarrow> gostr \<Rightarrow> nat option" where
  "bracket_loop stack index [] = None"
| "bracket_loop stack index (token # tokens) =
     (case rssSubtitleGroupOpeningBracket token of
        Some closing \<Rightarrow> bracket_loop (closing # stack) (Suc index) tokens
      | None \<Rightarrow>
          if closing_bracket token then
            (case stack of
               [] \<Rightarrow> None
             | t # rest \<Rightarrow>
                 if token \<noteq> t then None
                 else if rest = [] then Some index
                 else bracket_loop rest (Suc index) tokens)
          else bracket_loop stack (Suc index) tokens)"

definition rssSubtitleGroupBracketEnd :: "gostr \<Rightarrow> nat option" where
  "rssSubtitleGroupBracketEnd val =
     (case val of
        [] \<Rightarrow> None
      | first # rest \<Rightarrow>
          (case rssSubtitleGroupOpeningBracket first of
             None \<Rightarrow> None
           | Some closing \<Rightarrow> bracket_loop [closing] 1 rest))"

lemma bracket_loop_bounds: "bracket_loop stack i s = Some e \<Longrightarrow> i \<le> e \<and> e < i + length s"
  by (induction stack i s rule: bracket_loop.induct) (fastforce split: option.splits if_splits list.splits)+

lemma bracket_end_bounds: "rssSubtitleGroupBracketEnd s = Some e \<Longrightarrow> 0 < e \<and> e < length s"
  by (auto simp: rssSubtitleGroupBracketEnd_def dest!: bracket_loop_bounds split: list.splits option.splits)

section \<open>Names\<close>

definition group_rune :: "rune \<Rightarrow> rune" where
  "group_rune token =
     (if 65281 \<le> token \<and> token \<le> 65374 then token - 65248
      else if token = 160 \<or> token = 12288 then 32
      else token)"

definition normalizeRSSSubtitleGroupText :: "gostr \<Rightarrow> gostr" where
  "normalizeRSSSubtitleGroupText val = join (str_fields (map group_rune val)) [32]"

text \<open>The loop of \<^verbatim>\<open>NormalizeRSSSubtitleGroupName\<close>: brackets around the whole name are removed, then blanks.\<close>

function strip_brackets :: "gostr \<Rightarrow> gostr" where
  "strip_brackets runes =
     (if 2 \<le> length runes \<and> rssSubtitleGroupBracketEnd runes = Some (length runes - 1)
      then strip_brackets (trim_right_func is_space (trim_left_func is_space (butlast (tl runes))))
      else runes)"
  by pat_completeness auto
termination
proof (relation "measure length")
  fix runes :: gostr
  assume "2 \<le> length runes \<and> rssSubtitleGroupBracketEnd runes = Some (length runes - 1)"
  then show "(trim_right_func is_space (trim_left_func is_space (butlast (tl runes))), runes) \<in> measure length"
    using trim_func_length [of is_space "butlast (tl runes)"] by (auto simp: trim_func_def)
qed simp

declare strip_brackets.simps [simp del]

definition NormalizeRSSSubtitleGroupName :: "gostr \<Rightarrow> gostr" where
  "NormalizeRSSSubtitleGroupName val = strip_brackets (normalizeRSSSubtitleGroupText val)"

definition RSSSubtitleGroupNameKey :: "gostr \<Rightarrow> gostr" where
  "RSSSubtitleGroupNameKey val = to_lower (NormalizeRSSSubtitleGroupName val)"

text \<open>Every string of the model is valid UTF-8, so \<^verbatim>\<open>utf8.ValidString\<close> holds.\<close>

definition visible_rune :: "rune \<Rightarrow> bool" where
  "visible_rune c = (is_letter c \<or> is_number c \<or> is_punct c \<or> is_symbol c)"

definition ValidRSSSubtitleGroupName :: "gostr \<Rightarrow> bool" where
  "ValidRSSSubtitleGroupName val =
     (if val = [] \<or> length val > 128 then False
      else list_all (\<lambda>c. \<not> (is_control c \<and> \<not> is_space c)) val \<and> list_ex visible_rune val)"

definition isRSSSubtitleGroupMetadata :: "gostr \<Rightarrow> bool" where
  "isRSSSubtitleGroupMetadata val =
     (let tokens = fields_func (\<lambda>c. is_space c \<or> c \<in> set (lit ''-_+/&|,'')) val
      in tokens \<noteq> [] \<and>
         list_all (\<lambda>token. token \<in> set rssSubtitleGroupMetadataTokens \<or>
                           rx_matches rssSubtitleGroupMetadataPattern token) tokens)"

definition validRSSSubtitleGroupCandidate :: "gostr \<Rightarrow> bool" where
  "validRSSSubtitleGroupCandidate val =
     (if \<not> ValidRSSSubtitleGroupName val \<or> isRSSSubtitleGroupMetadata (to_lower val) then False
      else 2 \<le> length (filter (\<lambda>c. is_letter c \<or> is_number c) val) \<and> list_ex is_letter val)"

section \<open>Matching in labels and text\<close>

text \<open>
  \<open>contains_at\<close> visits the positions of the text from left to right; the Go loop jumps from
  occurrence to occurrence of the key and tests the same boundaries, given here as the text
  pre and after the occurrence.
\<close>

fun contains_at :: "gostr \<Rightarrow> gostr \<Rightarrow> gostr \<Rightarrow> (gostr \<Rightarrow> gostr \<Rightarrow> bool) \<Rightarrow> bool" where
  "contains_at pre [] key boundary = False"
| "contains_at pre (c # rest) key boundary =
     ((has_prefix (c # rest) key \<and> boundary pre (drop (length key) (c # rest))) \<or>
      contains_at (pre @ [c]) rest key boundary)"

definition rssSubtitleGroupContains :: "gostr \<Rightarrow> gostr \<Rightarrow> (gostr \<Rightarrow> gostr \<Rightarrow> bool) \<Rightarrow> bool" where
  "rssSubtitleGroupContains txt key boundary =
     (if txt = [] \<or> key = [] then False else contains_at [] txt key boundary)"

definition joint_separator :: "rune \<Rightarrow> bool" where
  "joint_separator c = (c \<in> set [38, 43, 47, 124, 44, 12289, 215])"

definition rssSubtitleGroupJointBoundary :: "gostr \<Rightarrow> gostr \<Rightarrow> bool" where
  "rssSubtitleGroupJointBoundary rawBefore rawAfter =
     (let pre = trim_space rawBefore; aft = trim_space rawAfter
      in (pre = [] \<or> joint_separator (last pre)) \<and> (aft = [] \<or> joint_separator (hd aft)))"

definition group_word_rune :: "rune \<Rightarrow> bool" where
  "group_word_rune c = (is_letter c \<or> is_number c \<or> is_mark c \<or> in_ranges format_table c)"

definition rssSubtitleGroupBoundary :: "gostr \<Rightarrow> gostr \<Rightarrow> bool" where
  "rssSubtitleGroupBoundary pre aft =
     ((pre = [] \<or> \<not> group_word_rune (last pre)) \<and> (aft = [] \<or> \<not> group_word_rune (hd aft)))"

function leadingRSSSubtitleGroupBrackets :: "gostr \<Rightarrow> gostr list \<times> gostr" where
  "leadingRSSSubtitleGroupBrackets runes =
     (case rssSubtitleGroupBracketEnd runes of
        None \<Rightarrow> ([], runes)
      | Some close \<Rightarrow>
          (case leadingRSSSubtitleGroupBrackets (trim_left_func is_space (drop (close + 1) runes)) of
             (labels, remaining) \<Rightarrow> (drop 1 (take close runes) # labels, remaining)))"
  by pat_completeness auto
termination
proof (relation "measure length")
  fix runes close
  assume "rssSubtitleGroupBracketEnd runes = Some close"
  then have "close < length runes" by (simp add: bracket_end_bounds)
  moreover have "length (trim_left_func is_space (drop (close + 1) runes)) \<le> length (drop (close + 1) runes)"
    by (simp add: trim_left_func_def length_dropWhile_le del: length_drop)
  ultimately show "(trim_left_func is_space (drop (close + 1) runes), runes) \<in> measure length" by simp
qed simp

declare leadingRSSSubtitleGroupBrackets.simps [simp del]

section \<open>Candidates of a feed\<close>

text \<open>
  The map \<^verbatim>\<open>byKey\<close>, an association list with one entry per key; of the names with one key it keeps
  the least. \<open>maintained_names\<close> is the slice \<^verbatim>\<open>names\<close> sorted by key.
\<close>

definition add_maintained :: "gostr \<Rightarrow> (gostr \<times> rssSubtitleGroupName) list \<Rightarrow> (gostr \<times> rssSubtitleGroupName) list" where
  "add_maintained rawName byKey =
     (let name = NormalizeRSSSubtitleGroupName rawName; key = to_lower name
      in if \<not> ValidRSSSubtitleGroupName name then byKey
         else if (case map_of byKey key of None \<Rightarrow> True | Some existing \<Rightarrow> str_less name (gn_name existing))
         then AList.update key
                \<lparr>gn_name = name, gn_key = key, gn_canMatchText = validRSSSubtitleGroupCandidate name\<rparr> byKey
         else byKey)"

definition maintained_by_key :: "gostr list \<Rightarrow> (gostr \<times> rssSubtitleGroupName) list" where
  "maintained_by_key maintained = fold add_maintained maintained []"

definition name_before :: "rssSubtitleGroupName \<Rightarrow> rssSubtitleGroupName \<Rightarrow> bool" where
  "name_before l r = str_less (gn_key l) (gn_key r)"

definition maintained_names :: "(gostr \<times> rssSubtitleGroupName) list \<Rightarrow> rssSubtitleGroupName list" where
  "maintained_names byKey = sort_by name_before (map snd byKey)"

definition feed_label :: "gostr \<Rightarrow> rssSubtitleGroupLabel" where
  "feed_label raw =
     (let name = NormalizeRSSSubtitleGroupName raw; key = to_lower name
      in \<lparr>gl_name = name, gl_key = key, gl_known = False, gl_metadata = isRSSSubtitleGroupMetadata key,
          gl_matched = False\<rparr>)"

definition feed_source :: "gostr \<Rightarrow> int \<Rightarrow> rssSubtitleGroupSource list" where
  "feed_source title score =
     (let txt = normalizeRSSSubtitleGroupText title
      in if txt = [] then []
         else (case leadingRSSSubtitleGroupBrackets txt of (labels, remaining) \<Rightarrow>
                 [\<lparr>gs_text = to_lower remaining, gs_labels = map feed_label labels, gs_score = score\<rparr>]))"

definition feed_sources :: "RSSFeed \<Rightarrow> rssSubtitleGroupSource list" where
  "feed_sources feed =
     feed_source (rf_Title feed) 1000 @
     concat (map (\<lambda>(index, entry). feed_source (fe_Title entry) (800 - int index * 10))
                 (enumerate 0 (take 20 (rf_Entries feed))))"

text \<open>The map \<^verbatim>\<open>candidates\<close> and the closure \<^verbatim>\<open>add\<close>, which keeps the name that came first.\<close>

definition add_candidate ::
  "gostr \<Rightarrow> gostr \<Rightarrow> int \<Rightarrow> int \<Rightarrow> (gostr \<times> rssSubtitleGroupCandidate) list \<Rightarrow>
     (gostr \<times> rssSubtitleGroupCandidate) list" where
  "add_candidate name key rank score candidates =
     (case map_of candidates key of
        Some existing \<Rightarrow>
          if rank > gc_rank existing \<or> (rank = gc_rank existing \<and> score > gc_score existing)
          then AList.update key (existing\<lparr>gc_rank := rank, gc_score := score\<rparr>) candidates
          else candidates
      | None \<Rightarrow> AList.update key \<lparr>gc_name = name, gc_key = key, gc_rank = rank, gc_score = score\<rparr> candidates)"

type_synonym label_state = "rssSubtitleGroupLabel list \<times> (gostr \<times> rssSubtitleGroupCandidate) list"

text \<open>The three passes over a source; the flags of a label change as the Go code sets them.\<close>

definition exact_label ::
  "(gostr \<times> rssSubtitleGroupName) list \<Rightarrow> int \<Rightarrow> nat \<Rightarrow> label_state \<Rightarrow> label_state" where
  "exact_label byKey score index st =
     (case st of (labels, candidates) \<Rightarrow>
        (case map_of byKey (gl_key (labels ! index)) of
           None \<Rightarrow> (labels, candidates)
         | Some name \<Rightarrow>
             (labels[index := (labels ! index)\<lparr>gl_known := True, gl_matched := True\<rparr>],
              add_candidate (gn_name name) (gn_key name) rssSubtitleGroupExactLabel (score - int index * 20) candidates)))"

definition joint_label :: "rssSubtitleGroupName \<Rightarrow> int \<Rightarrow> nat \<Rightarrow> label_state \<Rightarrow> label_state" where
  "joint_label name score index st =
     (case st of (labels, candidates) \<Rightarrow>
        let label = labels ! index
        in if gl_known label \<or> gl_metadata label then (labels, candidates)
           else if rssSubtitleGroupContains (gl_key label) (gn_key name) rssSubtitleGroupJointBoundary
           then (labels[index := label\<lparr>gl_matched := True\<rparr>],
                 add_candidate (gn_name name) (gn_key name) rssSubtitleGroupJointLabel
                   (score - int index * 20 + int (length (gn_name name))) candidates)
           else (labels, candidates))"

definition match_name :: "gostr \<Rightarrow> int \<Rightarrow> rssSubtitleGroupName \<Rightarrow> label_state \<Rightarrow> label_state" where
  "match_name txt score name st =
     (if \<not> gn_canMatchText name then st
      else
        (case fold (joint_label name score) [0..<length (fst st)] st of (labels, candidates) \<Rightarrow>
           if rssSubtitleGroupContains txt (gn_key name) rssSubtitleGroupBoundary
           then (labels, add_candidate (gn_name name) (gn_key name) rssSubtitleGroupTextMatch
                   (score + int (length (gn_name name))) candidates)
           else (labels, candidates)))"

definition unknown_label ::
  "int \<Rightarrow> nat \<times> rssSubtitleGroupLabel \<Rightarrow> (gostr \<times> rssSubtitleGroupCandidate) list \<Rightarrow>
     (gostr \<times> rssSubtitleGroupCandidate) list" where
  "unknown_label score il candidates =
     (case il of (index, label) \<Rightarrow>
        if \<not> gl_matched label \<and> validRSSSubtitleGroupCandidate (gl_name label)
        then add_candidate (gl_name label) (gl_key label) rssSubtitleGroupUnknownLabel (score - int index * 20) candidates
        else candidates)"

definition source_candidates ::
  "(gostr \<times> rssSubtitleGroupName) list \<Rightarrow> rssSubtitleGroupSource \<Rightarrow>
     (gostr \<times> rssSubtitleGroupCandidate) list \<Rightarrow> (gostr \<times> rssSubtitleGroupCandidate) list" where
  "source_candidates byKey source candidates =
     (case fold (match_name (gs_text source) (gs_score source)) (maintained_names byKey)
             (fold (exact_label byKey (gs_score source)) [0..<length (gs_labels source)]
                (gs_labels source, candidates)) of
        (labels, found) \<Rightarrow> fold (unknown_label (gs_score source)) (enumerate 0 labels) found)"

definition group_before :: "rssSubtitleGroupCandidate \<Rightarrow> rssSubtitleGroupCandidate \<Rightarrow> bool" where
  "group_before l r =
     (if gc_rank l \<noteq> gc_rank r then gc_rank l > gc_rank r
      else if gc_score l \<noteq> gc_score r then gc_score l > gc_score r
      else str_less (gc_key l) (gc_key r))"

definition feed_candidates :: "RSSFeed \<Rightarrow> gostr list \<Rightarrow> (gostr \<times> rssSubtitleGroupCandidate) list" where
  "feed_candidates feed maintained =
     fold (source_candidates (maintained_by_key maintained)) (feed_sources feed) []"

definition ExtractRSSSubtitleGroupCandidates :: "RSSFeed \<Rightarrow> gostr list \<Rightarrow> gostr list" where
  "ExtractRSSSubtitleGroupCandidates feed maintained =
     map gc_name (take maxRSSSubtitleGroupCandidates
       (sort_by group_before (map snd (feed_candidates feed maintained))))"

section \<open>Normal names\<close>

lemma group_rune_idem: "group_rune (group_rune c) = group_rune c"
  by (auto simp: group_rune_def)

text \<open>Trimmed single-spaced text without full-width forms: what normalisation of a text leaves alone.\<close>

definition group_text :: "gostr \<Rightarrow> bool" where
  "group_text s \<longleftrightarrow> map group_rune s = s \<and> single_spaced s \<and>
     (s \<noteq> [] \<longrightarrow> \<not> is_space (hd s) \<and> \<not> is_space (last s))"

lemma group_text_fixed: "group_text s \<Longrightarrow> normalizeRSSSubtitleGroupText s = s"
  by (simp add: group_text_def normalizeRSSSubtitleGroupText_def join_fields_fixed)

lemma group_text_normalize: "group_text (normalizeRSSSubtitleGroupText s)"
proof -
  let ?ws = "str_fields (map group_rune s)"
  have "map group_rune (normalizeRSSSubtitleGroupText s) = normalizeRSSSubtitleGroupText s"
    using join_fields_normal(2) [OF group_rune_idem _ normalizeRSSSubtitleGroupText_def]
    by (simp add: group_rune_def)
  then show ?thesis
    using join_words [OF words_ok_fields] last_join_words [OF words_ok_fields, of "map group_rune s"]
    by (cases "?ws = []") (auto simp: group_text_def normalizeRSSSubtitleGroupText_def)
qed

lemma group_text_trim_infix:
  assumes "map group_rune s = s" "single_spaced s" "s = u @ v @ w"
  shows "group_text (trim_func is_space v)"
proof -
  obtain a b where v: "v = a @ trim_func is_space v @ b" using trim_func_infix by blast
  have "single_spaced (trim_func is_space v)"
    using assms(2,3) v by (metis single_spaced_append)
  moreover have "map group_rune (trim_func is_space v) = trim_func is_space v"
    using assms(1,3) set_trim_func [of is_space v]
    by (intro map_idI) (auto simp: map_eq_conv [of group_rune _ "\<lambda>x. x", simplified] dest!: subsetD)
  ultimately show ?thesis
    using trim_func_hd [of is_space v] trim_func_last [of is_space v] by (auto simp: group_text_def)
qed

abbreviation bracketed :: "gostr \<Rightarrow> bool" where
  "bracketed s \<equiv> 2 \<le> length s \<and> rssSubtitleGroupBracketEnd s = Some (length s - 1)"

lemma strip_brackets_step:
  "bracketed s \<Longrightarrow> strip_brackets s = strip_brackets (trim_func is_space (butlast (tl s)))"
  unfolding trim_func_def by (subst strip_brackets.simps) (rule if_P)

lemma strip_brackets_stop: "\<not> bracketed s \<Longrightarrow> strip_brackets s = s"
  by (subst strip_brackets.simps) (rule if_not_P)

lemma strip_brackets_text: "group_text s \<Longrightarrow> group_text (strip_brackets s)"
proof (induction s rule: strip_brackets.induct)
  case (1 s)
  show ?case
  proof (cases "bracketed s")
    case True
    then obtain u v w where s: "s = [u] @ v @ [w]" "butlast (tl s) = v"
      by (cases s; cases "tl s" rule: rev_cases) auto
    have "group_text (trim_func is_space v)"
      using group_text_trim_infix s(1) "1.prems" unfolding group_text_def by blast
    then show ?thesis
      using "1.IH" [OF True] s(2) unfolding strip_brackets_step [OF True] by (simp add: trim_func_def)
  next
    case False
    from "1.prems" show ?thesis unfolding strip_brackets_stop [OF False] .
  qed
qed

lemma strip_brackets_idem: "strip_brackets (strip_brackets s) = strip_brackets s"
proof (induction s rule: strip_brackets.induct)
  case (1 s)
  show ?case
  proof (cases "bracketed s")
    case True
    with "1.IH" show ?thesis unfolding strip_brackets_step [OF True] trim_func_def by blast
  next
    case False
    show ?thesis unfolding strip_brackets_stop [OF False] ..
  qed
qed

lemma NormalizeRSSSubtitleGroupName_idem:
  "NormalizeRSSSubtitleGroupName (NormalizeRSSSubtitleGroupName v) = NormalizeRSSSubtitleGroupName v"
  by (simp add: NormalizeRSSSubtitleGroupName_def group_text_fixed strip_brackets_text
      group_text_normalize strip_brackets_idem)

lemma RSSSubtitleGroupNameKey_normalized:
  "RSSSubtitleGroupNameKey (NormalizeRSSSubtitleGroupName v) = RSSSubtitleGroupNameKey v"
  by (simp add: RSSSubtitleGroupNameKey_def NormalizeRSSSubtitleGroupName_idem)

section \<open>The suggested names\<close>

text \<open>A name the maintained list stores as it is: in normal form and valid.\<close>

definition storable :: "gostr \<Rightarrow> bool" where
  "storable name \<longleftrightarrow> NormalizeRSSSubtitleGroupName name = name \<and> ValidRSSSubtitleGroupName name"

lemma storable_key: "storable name \<Longrightarrow> RSSSubtitleGroupNameKey name = to_lower name"
  by (simp add: storable_def RSSSubtitleGroupNameKey_def)

definition name_ok :: "gostr \<times> rssSubtitleGroupName \<Rightarrow> bool" where
  "name_ok kn \<longleftrightarrow> gn_key (snd kn) = fst kn \<and> to_lower (gn_name (snd kn)) = fst kn \<and> storable (gn_name (snd kn))"

definition candidate_entry_ok :: "gostr \<times> rssSubtitleGroupCandidate \<Rightarrow> bool" where
  "candidate_entry_ok kc \<longleftrightarrow> gc_key (snd kc) = fst kc \<and> to_lower (gc_name (snd kc)) = fst kc \<and> storable (gc_name (snd kc))"

definition candidates_ok :: "(gostr \<times> rssSubtitleGroupCandidate) list \<Rightarrow> bool" where
  "candidates_ok cs \<longleftrightarrow> distinct (map fst cs) \<and> list_all candidate_entry_ok cs"

lemma set_AList_update: "x \<in> set (AList.update k v m) \<Longrightarrow> x = (k, v) \<or> x \<in> set m"
  by (induction m) (auto split: if_splits)

lemma list_all_update: "list_all P m \<Longrightarrow> P (k, v) \<Longrightarrow> list_all P (AList.update k v m)"
  by (auto simp: list_all_iff dest!: set_AList_update)

lemma map_of_list_all: "list_all P m \<Longrightarrow> map_of m k = Some v \<Longrightarrow> P (k, v)"
  by (auto simp: list_all_iff dest: map_of_SomeD)

lemma add_maintained_ok: "list_all name_ok m \<Longrightarrow> list_all name_ok (add_maintained raw m)"
  by (auto simp: add_maintained_def Let_def name_ok_def storable_def NormalizeRSSSubtitleGroupName_idem intro!: list_all_update)

lemma maintained_by_key_ok: "list_all name_ok (maintained_by_key maintained)"
proof -
  have "list_all name_ok m \<Longrightarrow> list_all name_ok (fold add_maintained maintained m)" for m
    by (induction maintained arbitrary: m) (auto simp: add_maintained_ok)
  then show ?thesis by (simp add: maintained_by_key_def)
qed

lemma maintained_names_ok:
  "list_all name_ok m \<Longrightarrow> n \<in> set (maintained_names m) \<Longrightarrow> name_ok (gn_key n, n)"
  by (fastforce simp: maintained_names_def list_all_iff name_ok_def)

lemma candidates_ok_update:
  "candidates_ok cs \<Longrightarrow> candidate_entry_ok (k, c) \<Longrightarrow> candidates_ok (AList.update k c cs)"
  by (simp add: candidates_ok_def distinct_update list_all_update)

lemma add_candidate_ok:
  assumes "candidates_ok cs" "to_lower name = key" "storable name"
  shows "candidates_ok (add_candidate name key rank score cs)"
proof (cases "map_of cs key")
  case None
  with assms show ?thesis by (simp add: add_candidate_def candidates_ok_update candidate_entry_ok_def)
next
  case (Some e)
  have "candidate_entry_ok (key, e)" using assms(1) Some map_of_list_all unfolding candidates_ok_def by metis
  then have "candidate_entry_ok (key, e\<lparr>gc_rank := rank, gc_score := score\<rparr>)" by (simp add: candidate_entry_ok_def)
  with Some assms(1) show ?thesis by (simp add: add_candidate_def candidates_ok_update)
qed

definition label_ok :: "rssSubtitleGroupLabel \<Rightarrow> bool" where
  "label_ok l \<longleftrightarrow> gl_key l = to_lower (gl_name l) \<and> NormalizeRSSSubtitleGroupName (gl_name l) = gl_name l"

definition label_state_ok :: "label_state \<Rightarrow> bool" where
  "label_state_ok st \<longleftrightarrow> list_all label_ok (fst st) \<and> candidates_ok (snd st)"

lemma list_all_list_update: "list_all P xs \<Longrightarrow> P x \<Longrightarrow> list_all P (xs[i := x])"
  using set_update_subset_insert [of xs i x] by (auto simp: list_all_iff)

lemma exact_label_ok:
  assumes "list_all name_ok byKey" "label_state_ok st" "i < length (fst st)"
  shows "label_state_ok (exact_label byKey score i st) \<and> length (fst (exact_label byKey score i st)) = length (fst st)"
proof -
  obtain ls cs where st: "st = (ls, cs)" by (cases st)
  have l: "label_ok (ls ! i)" using assms(2,3) st by (auto simp: label_state_ok_def list_all_length)
  show ?thesis
  proof (cases "map_of byKey (gl_key (ls ! i))")
    case None
    then show ?thesis using assms(2) st by (simp add: exact_label_def)
  next
    case (Some n)
    have "name_ok (gl_key (ls ! i), n)" by (rule map_of_list_all [OF assms(1) Some])
    then show ?thesis
      using assms(2) st Some l
      by (auto simp: exact_label_def label_state_ok_def name_ok_def label_ok_def intro!: list_all_list_update add_candidate_ok)
  qed
qed

lemma joint_label_ok:
  assumes "name_ok (gn_key n, n)" "label_state_ok st" "i < length (fst st)"
  shows "label_state_ok (joint_label n score i st) \<and> length (fst (joint_label n score i st)) = length (fst st)"
proof -
  obtain ls cs where st: "st = (ls, cs)" by (cases st)
  have "label_ok (ls ! i)" using assms(2,3) st by (auto simp: label_state_ok_def list_all_length)
  then show ?thesis
    using assms st
    by (auto simp: joint_label_def Let_def label_state_ok_def name_ok_def label_ok_def intro!: list_all_list_update add_candidate_ok)
qed

text \<open>A fold over the indexes of the labels keeps what each step keeps.\<close>

lemma fold_labels_ok:
  assumes "\<And>i st. label_state_ok st \<Longrightarrow> i < length (fst st) \<Longrightarrow>
      label_state_ok (f i st) \<and> length (fst (f i st)) = length (fst st)"
  shows "label_state_ok st \<Longrightarrow> \<forall>i \<in> set is. i < length (fst st) \<Longrightarrow> label_state_ok (fold f is st)"
  using assms by (induction "is" arbitrary: st) auto

lemma match_name_ok:
  assumes "name_ok (gn_key n, n)" "label_state_ok st"
  shows "label_state_ok (match_name txt score n st)"
proof -
  have "label_state_ok (fold (joint_label n score) [0..<length (fst st)] st)"
    by (rule fold_labels_ok) (use assms joint_label_ok in auto)
  then show ?thesis
    using assms by (auto simp: match_name_def label_state_ok_def name_ok_def intro!: add_candidate_ok split: prod.splits)
qed

lemma unknown_label_ok:
  assumes "candidates_ok cs" "label_ok l"
  shows "candidates_ok (unknown_label score (i, l) cs)"
  using assms
  by (auto simp: unknown_label_def label_ok_def storable_def validRSSSubtitleGroupCandidate_def intro!: add_candidate_ok split: if_splits)

lemma fold_unknown_ok:
  "candidates_ok cs \<Longrightarrow> list_all label_ok ls \<Longrightarrow> candidates_ok (fold (unknown_label score) (enumerate i ls) cs)"
  by (induction ls arbitrary: i cs) (auto simp: unknown_label_ok)

lemma source_candidates_ok:
  assumes "list_all name_ok byKey" "list_all label_ok (gs_labels source)" "candidates_ok cs"
  shows "candidates_ok (source_candidates byKey source cs)"
proof -
  let ?exact = "fold (exact_label byKey (gs_score source)) [0..<length (gs_labels source)] (gs_labels source, cs)"
  let ?step = "match_name (gs_text source) (gs_score source)"
  have "label_state_ok ?exact"
    by (rule fold_labels_ok) (use assms exact_label_ok in \<open>auto simp: label_state_ok_def\<close>)
  moreover have "label_state_ok st \<Longrightarrow> \<forall>n \<in> set ns. name_ok (gn_key n, n) \<Longrightarrow> label_state_ok (fold ?step ns st)" for st ns
    by (induction ns arbitrary: st) (auto simp: match_name_ok)
  ultimately have "label_state_ok (fold ?step (maintained_names byKey) ?exact)"
    using maintained_names_ok [OF assms(1)] by blast
  then show ?thesis
    by (auto simp: source_candidates_def label_state_ok_def fold_unknown_ok split: prod.splits)
qed

lemma feed_source_ok: "s \<in> set (feed_source title score) \<Longrightarrow> list_all label_ok (gs_labels s)"
  by (auto simp: feed_source_def feed_label_def label_ok_def list_all_iff Let_def NormalizeRSSSubtitleGroupName_idem
      split: if_splits prod.splits)

lemma feed_sources_ok: "s \<in> set (feed_sources feed) \<Longrightarrow> list_all label_ok (gs_labels s)"
  by (auto simp: feed_sources_def dest: feed_source_ok)

lemma feed_candidates_ok: "candidates_ok (feed_candidates feed maintained)"
proof -
  have "candidates_ok cs \<Longrightarrow> \<forall>s \<in> set ss. list_all label_ok (gs_labels s) \<Longrightarrow>
      candidates_ok (fold (source_candidates (maintained_by_key maintained)) ss cs)" for ss cs
    by (induction ss arbitrary: cs) (auto simp: source_candidates_ok maintained_by_key_ok)
  then show ?thesis
    using feed_sources_ok by (auto simp: feed_candidates_def candidates_ok_def)
qed

text \<open>
  C39: a feed suggests at most eight names. No two of them have one key of the maintained list, so
  that none can stand for another, and each is in normal form and valid: the list stores it as it is.
\<close>

theorem suggested_groups:
  fixes feed maintained
  defines "names \<equiv> ExtractRSSSubtitleGroupCandidates feed maintained"
  shows "length names \<le> 8 \<and> distinct (map RSSSubtitleGroupNameKey names) \<and>
    list_all (\<lambda>name. NormalizeRSSSubtitleGroupName name = name \<and> ValidRSSSubtitleGroupName name) names"
proof -
  let ?cs = "map snd (feed_candidates feed maintained)"
  let ?sorted = "sort_by group_before ?cs"
  have ok: "candidates_ok (feed_candidates feed maintained)" by (rule feed_candidates_ok)
  have keys: "RSSSubtitleGroupNameKey (gc_name c) = gc_key c \<and> storable (gc_name c)" if "c \<in> set ?cs" for c
    using that ok by (auto simp: candidates_ok_def candidate_entry_ok_def list_all_iff storable_key)
  have "map gc_key ?cs = map fst (feed_candidates feed maintained)"
    using ok by (auto simp: candidates_ok_def candidate_entry_ok_def list_all_iff)
  then have "distinct (map gc_key ?cs)" using ok unfolding candidates_ok_def by metis
  then have "distinct (map gc_key ?sorted)"
    by (metis mset_map mset_sort_by mset_eq_imp_distinct_iff)
  moreover have "map RSSSubtitleGroupNameKey names = take 8 (map gc_key ?sorted)"
    unfolding names_def ExtractRSSSubtitleGroupCandidates_def maxRSSSubtitleGroupCandidates_def
    using keys by (auto simp: take_map dest!: in_set_takeD)
  ultimately have "distinct (map RSSSubtitleGroupNameKey names)" by simp
  moreover have "list_all storable names"
    unfolding names_def ExtractRSSSubtitleGroupCandidates_def list_all_iff
    using keys by (auto dest!: in_set_takeD)
  ultimately show ?thesis
    by (simp add: names_def ExtractRSSSubtitleGroupCandidates_def maxRSSSubtitleGroupCandidates_def storable_def [abs_def])
qed

section \<open>The order of the maintained names\<close>

lemma str_less_total: "s \<noteq> t \<Longrightarrow> str_less s t \<or> str_less t s"
  by (induction s t rule: str_less.induct) auto

interpretation name_order: comparator name_before
  by unfold_locales (auto simp: name_before_def dest: str_less_asym str_less_negative_trans)

definition names_of_key :: "gostr set \<Rightarrow> gostr \<Rightarrow> gostr set" where
  "names_of_key raws key =
     {name \<in> NormalizeRSSSubtitleGroupName ` raws. ValidRSSSubtitleGroupName name \<and> to_lower name = key}"

definition maintained_entry :: "gostr \<Rightarrow> rssSubtitleGroupName" where
  "maintained_entry name =
     \<lparr>gn_name = name, gn_key = to_lower name, gn_canMatchText = validRSSSubtitleGroupCandidate name\<rparr>"

text \<open>What the map holds for a key: the least of the names with that key.\<close>

definition holds_least :: "gostr set \<Rightarrow> rssSubtitleGroupName option \<Rightarrow> bool" where
  "holds_least names entry \<longleftrightarrow>
     (case entry of
        None \<Rightarrow> names = {}
      | Some r \<Rightarrow> \<exists>name \<in> names. r = maintained_entry name \<and> (\<forall>n \<in> names. \<not> str_less n name))"

lemma holds_least_unique: "holds_least names a \<Longrightarrow> holds_least names b \<Longrightarrow> a = b"
proof (cases a; cases b)
  fix r r'
  assume h: "holds_least names a" "holds_least names b" and ab: "a = Some r" "b = Some r'"
  from h(1) ab(1) obtain n where n: "n \<in> names" "r = maintained_entry n" "\<forall>x \<in> names. \<not> str_less x n"
    unfolding holds_least_def by auto
  from h(2) ab(2) obtain n' where n': "n' \<in> names" "r' = maintained_entry n'" "\<forall>x \<in> names. \<not> str_less x n'"
    unfolding holds_least_def by auto
  have "n = n'" using str_less_total [of n n'] n(1,3) n'(1,3) by blast
  with ab n n' show "a = b" by simp
qed (auto simp: holds_least_def)

definition by_key_inv :: "gostr set \<Rightarrow> (gostr \<times> rssSubtitleGroupName) list \<Rightarrow> bool" where
  "by_key_inv raws m \<longleftrightarrow> distinct (map fst m) \<and> (\<forall>key. holds_least (names_of_key raws key) (map_of m key))"

lemma names_of_key_insert:
  "names_of_key (insert raw raws) key =
     (let name = NormalizeRSSSubtitleGroupName raw
      in if ValidRSSSubtitleGroupName name \<and> to_lower name = key then insert name (names_of_key raws key)
         else names_of_key raws key)"
  by (auto simp: names_of_key_def Let_def)

lemma holds_least_insert:
  assumes "holds_least names entry"
  shows "holds_least (insert name names)
    (if (case entry of None \<Rightarrow> True | Some existing \<Rightarrow> str_less name (gn_name existing))
     then Some (maintained_entry name) else entry)"
proof (cases entry)
  case None
  then show ?thesis using assms by (simp add: holds_least_def str_less_irrefl)
next
  case (Some r)
  then obtain least where r: "least \<in> names" "r = maintained_entry least" "\<forall>n \<in> names. \<not> str_less n least"
    using assms by (auto simp: holds_least_def)
  show ?thesis
  proof (cases "str_less name least")
    case True
    then have "\<forall>n \<in> names. \<not> str_less n name"
      using r(3) str_less_asym str_less_negative_trans by blast
    with True Some r show ?thesis by (simp add: holds_least_def maintained_entry_def str_less_irrefl)
  next
    case False
    with Some r show ?thesis by (auto simp: holds_least_def maintained_entry_def)
  qed
qed

lemma add_maintained_inv:
  assumes "by_key_inv raws m"
  shows "by_key_inv (insert raw raws) (add_maintained raw m)"
proof (cases "ValidRSSSubtitleGroupName (NormalizeRSSSubtitleGroupName raw)")
  case False
  with assms show ?thesis by (simp add: by_key_inv_def add_maintained_def names_of_key_insert Let_def)
next
  case True
  let ?name = "NormalizeRSSSubtitleGroupName raw"
  let ?key = "to_lower ?name"
  define new where "new = (if (case map_of m ?key of None \<Rightarrow> True | Some existing \<Rightarrow> str_less ?name (gn_name existing))
     then Some (maintained_entry ?name) else map_of m ?key)"
  have "map_of (add_maintained raw m) key = (if key = ?key then new else map_of m key)" for key
    using True by (simp add: new_def add_maintained_def Let_def update_conv' maintained_entry_def)
  moreover have "holds_least (insert ?name (names_of_key raws ?key)) new"
    unfolding new_def using assms by (intro holds_least_insert) (simp add: by_key_inv_def)
  moreover have "distinct (map fst (add_maintained raw m))"
    using assms by (simp add: by_key_inv_def add_maintained_def Let_def distinct_update)
  ultimately show ?thesis using assms True by (simp add: by_key_inv_def names_of_key_insert Let_def)
qed

lemma maintained_by_key_inv: "by_key_inv (set maintained) (maintained_by_key maintained)"
proof -
  have "by_key_inv raws m \<Longrightarrow> by_key_inv (set maintained \<union> raws) (fold add_maintained maintained m)" for raws m
  proof (induction maintained arbitrary: raws m)
    case (Cons raw rest)
    from Cons.IH [OF add_maintained_inv [OF Cons.prems, of raw]] show ?case by simp
  qed simp
  from this [of "{}" "[]"] show ?thesis
    by (simp add: maintained_by_key_def by_key_inv_def names_of_key_def holds_least_def)
qed

lemma maintained_set_eq:
  assumes "set maintained = set maintained'"
  shows "map_of (maintained_by_key maintained) = map_of (maintained_by_key maintained')"
    "maintained_names (maintained_by_key maintained) = maintained_names (maintained_by_key maintained')"
proof -
  let ?m = "maintained_by_key maintained" and ?m' = "maintained_by_key maintained'"
  have inv: "by_key_inv (set maintained') ?m" "by_key_inv (set maintained') ?m'"
    using maintained_by_key_inv [of maintained] maintained_by_key_inv [of maintained'] assms by simp_all
  then show eq: "map_of ?m = map_of ?m'"
    unfolding by_key_inv_def by (intro ext) (metis holds_least_unique)
  have d: "distinct (map fst ?m)" "distinct (map fst ?m')" using inv by (simp_all add: by_key_inv_def)
  then have "set ?m = set ?m'" using eq by (metis map_of_inject_set)
  then have "mset ?m = mset ?m'" using d by (metis distinct_map set_eq_iff_mset_eq_distinct)
  then have "mset (map snd ?m) = mset (map snd ?m')" by simp
  moreover have "name_before x y \<or> name_before y x" if "x \<in> set (map snd ?m)" "y \<in> set (map snd ?m)" "x \<noteq> y" for x y
  proof -
    have key: "map_of ?m (gn_key z) = Some z" if "z \<in> set (map snd ?m)" for z
      using that maintained_by_key_ok [of maintained] d(1) by (auto simp: list_all_iff name_ok_def)
    have "gn_key x \<noteq> gn_key y" using key [OF that(1)] key [OF that(2)] that(3) by auto
    then show ?thesis using str_less_total by (simp add: name_before_def)
  qed
  ultimately show "maintained_names ?m = maintained_names ?m'"
    unfolding maintained_names_def by (rule name_order.sort_by_unique)
qed

text \<open>Neither order nor repetition of the maintained names changes the suggestions.\<close>

theorem suggestions_order_independent:
  assumes "set maintained = set maintained'"
  shows "ExtractRSSSubtitleGroupCandidates feed maintained = ExtractRSSSubtitleGroupCandidates feed maintained'"
proof -
  note eq = maintained_set_eq [OF assms]
  have "exact_label (maintained_by_key maintained) = exact_label (maintained_by_key maintained')"
    using eq(1) by (intro ext) (simp add: exact_label_def)
  then have "source_candidates (maintained_by_key maintained) = source_candidates (maintained_by_key maintained')"
    using eq(2) by (intro ext) (simp add: source_candidates_def)
  then show ?thesis by (simp add: ExtractRSSSubtitleGroupCandidates_def feed_candidates_def)
qed

theorem suggestions_order_independent_witness:
  "ExtractRSSSubtitleGroupCandidates \<lparr>rf_Title = lit ''[Beta] Show'', rf_Entries = []\<rparr> [lit ''Alpha'', lit ''Beta''] =
   ExtractRSSSubtitleGroupCandidates \<lparr>rf_Title = lit ''[Beta] Show'', rf_Entries = []\<rparr> [lit ''Beta'', lit ''Alpha'', lit ''Beta'']"
  by (rule suggestions_order_independent) auto

end
