(* ===== verification/SubtitleGroupStore.thy ===== *)
theory SubtitleGroupStore
  imports SubtitleGroups Store
begin

text \<open>
  The maintained list of subtitle groups: the statements of \<^verbatim>\<open>db/sqlc/rss_subtitle_groups.sql.go\<close>
  that change rows, with the constraints of their table, and the handlers of
  \<^verbatim>\<open>internal/service/rss_subtitle_groups.go\<close>. The two listings only differ in what they return and
  order by the collation of the database; they are not modelled.
\<close>

section \<open>Statements\<close>

text \<open>
  A violated unique key is the error with the code 23505 of PostgreSQL; the primary key and the
  normalised name are unique. \<^verbatim>\<open>btrim\<close> removes blanks only.
\<close>

definition unique_violation :: svc_error where
  "unique_violation = OtherError ''23505''"

definition sql_blank :: "gostr \<Rightarrow> bool" where
  "sql_blank s = (trim_func (\<lambda>c. c = 32) s = [])"

definition group_row_check :: "RssSubtitleGroup \<Rightarrow> unit tx" where
  "group_row_check r =
     (if sql_blank (sg_name r) \<or> sql_blank (sg_normalized_name r) then tx_fail (OtherError ''23514'')
      else tx_return ())"

definition CreateRSSSubtitleGroup :: "uuid \<Rightarrow> gostr \<Rightarrow> gostr \<Rightarrow> RssSubtitleGroup tx" where
  "CreateRSSSubtitleGroup groupID name normalized =
     (let r = \<lparr>sg_id = groupID, sg_name = name, sg_normalized_name = normalized\<rparr>
      in tx_seq (group_row_check r)
           (insert_row ''23505'' subtitle_groups subtitle_groups_update
              (\<lambda>q. sg_id q = groupID \<or> sg_normalized_name q = normalized) r))"

definition UpdateRSSSubtitleGroup :: "uuid \<Rightarrow> gostr \<Rightarrow> gostr \<Rightarrow> RssSubtitleGroup option tx" where
  "UpdateRSSSubtitleGroup groupID name normalized =
     tx_bind (select_one subtitle_groups (\<lambda>q. sg_id q = groupID)) (\<lambda>row.
       case row of
         None \<Rightarrow> tx_return None
       | Some q \<Rightarrow>
           tx_seq (group_row_check (q\<lparr>sg_name := name, sg_normalized_name := normalized\<rparr>))
             (tx_bind (select_one subtitle_groups (\<lambda>q. sg_id q \<noteq> groupID \<and> sg_normalized_name q = normalized))
                (\<lambda>other. case other of
                   Some _ \<Rightarrow> tx_fail unique_violation
                 | None \<Rightarrow> update_one subtitle_groups subtitle_groups_update (\<lambda>q. sg_id q = groupID)
                     (\<lambda>now q. q\<lparr>sg_name := name, sg_normalized_name := normalized\<rparr>))))"

definition GetRSSSubtitleGroup :: "uuid \<Rightarrow> RssSubtitleGroup option tx" where
  "GetRSSSubtitleGroup groupID = select_one subtitle_groups (\<lambda>q. sg_id q = groupID)"

definition DeleteRSSSubtitleGroup :: "uuid \<Rightarrow> nat tx" where
  "DeleteRSSSubtitleGroup groupID =
     tx_bind (tx_read (\<lambda>db. length (filter (\<lambda>q. sg_id q = groupID) (subtitle_groups db)))) (\<lambda>n.
     tx_seq (tx_modify (subtitle_groups_update (filter (\<lambda>q. sg_id q \<noteq> groupID)))) (tx_return n))"

section \<open>Handlers\<close>

record RSSSubtitleGroup =
  group_ID :: uuid
  group_Name :: gostr

definition rssSubtitleGroupFromRow :: "RssSubtitleGroup \<Rightarrow> RSSSubtitleGroup" where
  "rssSubtitleGroupFromRow row = \<lparr>group_ID = sg_id row, group_Name = sg_name row\<rparr>"

definition invalidRSSSubtitleGroup :: "string \<Rightarrow> string \<Rightarrow> svc_error" where
  "invalidRSSSubtitleGroup field reason =
     NewError ''invalid_rss_subtitle_group'' ''the RSS subtitle group is invalid'' ErrInvalidInput
       [(''field'', JStr (lit field)), (''reason'', JStr (lit reason))]"

definition normalizeRSSSubtitleGroupInput :: "gostr \<Rightarrow> (svc_error, gostr \<times> gostr) result" where
  "normalizeRSSSubtitleGroupInput val =
     (let name = NormalizeRSSSubtitleGroupName val
      in if name = [] then Inl (invalidRSSSubtitleGroup ''name'' ''must not be blank'')
         else if length name > 128
         then Inl (invalidRSSSubtitleGroup ''name'' ''must not exceed 128 characters'')
         else if \<not> ValidRSSSubtitleGroupName name
         then Inl (invalidRSSSubtitleGroup ''name''
                ''must contain visible content without non-whitespace control characters'')
         else Inr (name, RSSSubtitleGroupNameKey name))"

definition appendRSSSubtitleGroupEvent :: "env \<Rightarrow> RSSSubtitleGroup \<Rightarrow> uuid \<Rightarrow> string \<Rightarrow> unit tx" where
  "appendRSSSubtitleGroupEvent env g actorUserID topic =
     append_event env topic (Some ''rss_subtitle_group'') (Some (group_ID g)) None (Some actorUserID)
       [(''name'', JStr (group_Name g))]"

definition rssSubtitleGroupMutationError :: "string \<Rightarrow> svc_error \<Rightarrow> svc_error" where
  "rssSubtitleGroupMutationError action err =
     (if err = unique_violation
      then NewError ''rss_subtitle_group_exists'' ''the RSS subtitle group already exists'' ErrStateConflict []
      else OtherError action)"

definition create_body :: "env \<Rightarrow> uuid \<Rightarrow> gostr \<Rightarrow> gostr \<Rightarrow> RSSSubtitleGroup tx" where
  "create_body env actorUserID name normalized =
     tx_bind (uuid_New env) (\<lambda>groupID.
     tx_bind (tx_map_error (rssSubtitleGroupMutationError ''create RSS subtitle group'')
                (CreateRSSSubtitleGroup groupID name normalized)) (\<lambda>row.
     tx_seq (appendRSSSubtitleGroupEvent env (rssSubtitleGroupFromRow row) actorUserID ''rss.subtitle_group.created'')
       (tx_return (rssSubtitleGroupFromRow row))))"

definition Create :: "env \<Rightarrow> gostr \<Rightarrow> uuid \<Rightarrow> db \<Rightarrow> (svc_error, RSSSubtitleGroup) result \<times> db" where
  "Create env inputName actorUserID db =
     (case normalizeRSSSubtitleGroupInput inputName of
        Inl e \<Rightarrow> (Inl e, db)
      | Inr (name, normalized) \<Rightarrow> WithinTx (create_body env actorUserID name normalized) db)"

definition update_body :: "env \<Rightarrow> uuid \<Rightarrow> uuid \<Rightarrow> gostr \<Rightarrow> gostr \<Rightarrow> RSSSubtitleGroup tx" where
  "update_body env groupID actorUserID name normalized =
     tx_bind (tx_map_error (rssSubtitleGroupMutationError ''update RSS subtitle group'')
                (UpdateRSSSubtitleGroup groupID name normalized)) (\<lambda>row.
       case row of
         None \<Rightarrow> tx_fail ErrNotFound
       | Some r \<Rightarrow>
           tx_seq (appendRSSSubtitleGroupEvent env (rssSubtitleGroupFromRow r) actorUserID ''rss.subtitle_group.updated'')
             (tx_return (rssSubtitleGroupFromRow r)))"

definition Update :: "env \<Rightarrow> uuid \<Rightarrow> gostr \<Rightarrow> uuid \<Rightarrow> db \<Rightarrow> (svc_error, RSSSubtitleGroup) result \<times> db" where
  "Update env groupID inputName actorUserID db =
     (if groupID = uuid_nil then (Inl ErrNotFound, db)
      else
        (case normalizeRSSSubtitleGroupInput inputName of
           Inl e \<Rightarrow> (Inl e, db)
         | Inr (name, normalized) \<Rightarrow> WithinTx (update_body env groupID actorUserID name normalized) db))"

definition delete_body :: "env \<Rightarrow> uuid \<Rightarrow> uuid \<Rightarrow> unit tx" where
  "delete_body env groupID actorUserID =
     tx_bind (GetRSSSubtitleGroup groupID) (\<lambda>row.
       case row of
         None \<Rightarrow> tx_fail ErrNotFound
       | Some r \<Rightarrow>
           tx_bind (DeleteRSSSubtitleGroup groupID) (\<lambda>deleted.
             if deleted \<noteq> 1 then tx_fail ErrNotFound
             else appendRSSSubtitleGroupEvent env (rssSubtitleGroupFromRow r) actorUserID ''rss.subtitle_group.deleted''))"

definition Delete :: "env \<Rightarrow> uuid \<Rightarrow> uuid \<Rightarrow> db \<Rightarrow> (svc_error, unit) result \<times> db" where
  "Delete env groupID actorUserID db =
     (if groupID = uuid_nil then (Inl ErrNotFound, db) else WithinTx (delete_body env groupID actorUserID) db)"

section \<open>The invariant of the list\<close>

text \<open>Rows hold storable names in normal form with their keys, and neither identifier nor key twice.\<close>

definition group_row_ok :: "RssSubtitleGroup \<Rightarrow> bool" where
  "group_row_ok r \<longleftrightarrow> NormalizeRSSSubtitleGroupName (sg_name r) = sg_name r \<and>
     ValidRSSSubtitleGroupName (sg_name r) \<and> sg_normalized_name r = RSSSubtitleGroupNameKey (sg_name r)"

definition groups_ok :: "db \<Rightarrow> bool" where
  "groups_ok db \<longleftrightarrow> distinct (map sg_id (subtitle_groups db)) \<and>
     distinct (map sg_normalized_name (subtitle_groups db)) \<and> list_all group_row_ok (subtitle_groups db)"

interpretation groups_rel: tx_relation "keeping groups_ok"
  by (rule tx_relation_keeping)

lemma groups_ok_cong: "subtitle_groups b = subtitle_groups a \<Longrightarrow> groups_ok b = groups_ok a"
  by (simp add: groups_ok_def)

lemma log_only_groups: "maintains log_only m \<Longrightarrow> maintains (keeping groups_ok) m"
  by (erule maintains_mono) (simp add: keeping_def groups_ok_def log_only_frame(26))

lemma input_ok:
  "normalizeRSSSubtitleGroupInput v = Inr (name, key) \<Longrightarrow>
     name = NormalizeRSSSubtitleGroupName v \<and> ValidRSSSubtitleGroupName name \<and> key = RSSSubtitleGroupNameKey name \<and>
     NormalizeRSSSubtitleGroupName name = name"
  by (auto simp: normalizeRSSSubtitleGroupInput_def Let_def NormalizeRSSSubtitleGroupName_idem split: if_splits)

lemma create_keeps:
  assumes "group_row_ok \<lparr>sg_id = groupID, sg_name = name, sg_normalized_name = key\<rparr>"
  shows "maintains (keeping groups_ok) (CreateRSSSubtitleGroup groupID name key)"
  unfolding CreateRSSSubtitleGroup_def group_row_check_def Let_def
  using assms
  by (intro groups_rel.keeps groups_rel.keeps_insert_row) (auto simp: keeping_def groups_ok_def)

lemma update_keeps:
  assumes "group_row_ok \<lparr>sg_id = groupID, sg_name = name, sg_normalized_name = key\<rparr>"
  shows "maintains (keeping groups_ok) (UpdateRSSSubtitleGroup groupID name key)"
proof -
  have row: "group_row_ok (q\<lparr>sg_name := name, sg_normalized_name := key\<rparr>)" for q
    using assms by (simp add: group_row_ok_def)
  have "groups_ok db'"
    if ok: "groups_ok db" and run: "UpdateRSSSubtitleGroup groupID name key db = Inr (x, db')" for db db' x
  proof (cases "db' = db")
    case False
    let ?f = "\<lambda>q. if sg_id q = groupID then q\<lparr>sg_name := name, sg_normalized_name := key\<rparr> else q"
    from run False have db': "subtitle_groups db' = map ?f (subtitle_groups db)"
      and other: "\<forall>q \<in> set (subtitle_groups db). sg_id q = groupID \<or> sg_normalized_name q \<noteq> key"
      by (auto simp: UpdateRSSSubtitleGroup_def group_row_check_def tx_bind_eq_Inr_iff tx_seq_eq_Inr_iff
          select_one_def update_one_Inr_iff upd_row_def find_eq_None_iff split: option.splits if_splits)
    have norm: "distinct (map sg_normalized_name (map ?f rs))"
      if "distinct (map sg_id rs)" "distinct (map sg_normalized_name rs)"
        "\<forall>q \<in> set rs. sg_id q = groupID \<or> sg_normalized_name q \<noteq> key" for rs
    proof -
      have "inj_on (sg_normalized_name \<circ> ?f) (set rs)"
        using that by (intro inj_onI) (simp add: distinct_map inj_on_def split: if_splits, metis+)
      with that(1) show ?thesis by (simp only: map_map distinct_map)
    qed
    have ids: "map sg_id (map ?f rs) = map sg_id rs" for rs by simp
    have rows: "list_all group_row_ok (map ?f rs)" if "list_all group_row_ok rs" for rs
      using that row by (induction rs) auto
    from ok have o: "distinct (map sg_id (subtitle_groups db))" "distinct (map sg_normalized_name (subtitle_groups db))"
      "list_all group_row_ok (subtitle_groups db)" by (simp_all add: groups_ok_def)
    show ?thesis unfolding groups_ok_def db' ids by (intro conjI o(1) norm [OF o(1,2) other] rows [OF o(3)])
  qed (use ok in simp)
  then show ?thesis by (auto simp: maintains_def keeping_def)
qed

lemma delete_keeps: "maintains (keeping groups_ok) (DeleteRSSSubtitleGroup groupID)"
  unfolding DeleteRSSSubtitleGroup_def
  by (intro groups_rel.keeps groups_rel.keeps_modify)
    (auto simp: keeping_def groups_ok_def distinct_map_filter list_all_iff)

lemma event_keeps: "maintains (keeping groups_ok) (appendRSSSubtitleGroupEvent env g actor topic)"
  unfolding appendRSSSubtitleGroupEvent_def by (intro log_only_groups append_event_log_only)

lemma handlers_keep:
  "group_row_ok \<lparr>sg_id = 0, sg_name = name, sg_normalized_name = key\<rparr> \<Longrightarrow>
     maintains (keeping groups_ok) (create_body env actor name key)"
  "group_row_ok \<lparr>sg_id = 0, sg_name = name, sg_normalized_name = key\<rparr> \<Longrightarrow>
     maintains (keeping groups_ok) (update_body env groupID actor name key)"
  "maintains (keeping groups_ok) (delete_body env groupID actor)"
  unfolding create_body_def update_body_def delete_body_def GetRSSSubtitleGroup_def
  by (intro groups_rel.keeps maintains_map_error create_keeps update_keeps delete_keeps event_keeps
      log_only_groups [OF uuid_New_log_only]; simp add: group_row_ok_def)+

section \<open>What the handlers answer\<close>

lemma lower_lookup_above:
  "list_all (\<lambda>(a, b, st, d). 32 < a + d) ts \<Longrightarrow> 32 < r \<Longrightarrow> 32 < lower_lookup ts r"
  by (induction ts r rule: lower_lookup.induct) auto

lemma rune_lower_not_blank: "r \<noteq> 32 \<Longrightarrow> rune_lower r \<noteq> 32"
  using lower_lookup_above [of lower_table r]
  by (auto simp: rune_lower_def lower_table_def simp del: lower_lookup.simps)

lemma trim_func_eq_Nil_iff: "trim_func p s = [] \<longleftrightarrow> (\<forall>c \<in> set s. p c)"
proof -
  have "(\<forall>c \<in> set (dropWhile p s). p c) \<longleftrightarrow> (\<forall>c \<in> set s. p c)"
  proof
    assume "\<forall>c \<in> set (dropWhile p s). p c"
    then have "dropWhile p s = []" by (metis hd_dropWhile list.set_sel(1))
    then show "\<forall>c \<in> set s. p c" by (simp add: dropWhile_eq_Nil_conv)
  qed (use set_dropWhile_subset [of p s] in blast)
  then show ?thesis by (simp add: trim_func_def trim_right_func_def trim_left_func_def dropWhile_eq_Nil_conv)
qed

lemma sql_blank_iff: "sql_blank s \<longleftrightarrow> (\<forall>c \<in> set s. c = 32)"
  by (simp add: sql_blank_def trim_func_eq_Nil_iff)

lemma visible_not_blank: "visible_rune c \<Longrightarrow> c \<noteq> 32"
  by (auto simp: visible_rune_def is_letter_def is_number_def is_punct_def is_symbol_def punct_table_def symbol_table_def)

lemma valid_name_not_blank:
  assumes "ValidRSSSubtitleGroupName name"
  shows "\<not> sql_blank name" "\<not> sql_blank (to_lower name)"
proof -
  obtain c where "c \<in> set name" "visible_rune c"
    using assms by (auto simp: ValidRSSSubtitleGroupName_def list_ex_iff split: if_splits)
  then show "\<not> sql_blank name" "\<not> sql_blank (to_lower name)"
    using visible_not_blank rune_lower_not_blank by (auto simp: sql_blank_iff to_lower_def)
qed

definition fresh_uuids :: "env \<Rightarrow> db \<Rightarrow> bool" where
  "fresh_uuids env db \<longleftrightarrow>
     (\<forall>r \<in> set (subtitle_groups db). sg_id r \<noteq> e_new_uuid env (uuid_calls db)) \<and>
     (\<forall>e \<in> set (events db). ev_id e \<noteq> e_new_uuid env (Suc (uuid_calls db)))"

lemma append_event_run:
  assumes "\<forall>e \<in> set (events db). ev_id e \<noteq> e_new_uuid env (uuid_calls db)"
  shows "\<exists>db'. append_event env topic rt ri oi au data db = Inr ((), db') \<and> log_only db db'"
proof -
  obtain db' where "append_event env topic rt ri oi au data db = Inr ((), db')"
    using assms by (auto simp: append_event_def uuid_New_def AppendEvent_def insert_row_def list_ex_iff tx_bind_def tx_seq_def)
  moreover from this have "log_only db db'" by (rule maintainsD [OF append_event_log_only])
  ultimately show ?thesis by blast
qed

lemma valid_name_bounds: "ValidRSSSubtitleGroupName name \<Longrightarrow> name \<noteq> [] \<and> length name \<le> 128"
  by (simp add: ValidRSSSubtitleGroupName_def split: if_splits)

lemma input_valid:
  "ValidRSSSubtitleGroupName (NormalizeRSSSubtitleGroupName raw) \<Longrightarrow>
     normalizeRSSSubtitleGroupInput raw = Inr (NormalizeRSSSubtitleGroupName raw, RSSSubtitleGroupNameKey raw)"
  using valid_name_bounds [of "NormalizeRSSSubtitleGroupName raw"]
  by (simp add: normalizeRSSSubtitleGroupInput_def Let_def RSSSubtitleGroupNameKey_normalized)

lemma input_invalid:
  "\<not> ValidRSSSubtitleGroupName (NormalizeRSSSubtitleGroupName raw) \<Longrightarrow>
     \<exists>reason. normalizeRSSSubtitleGroupInput raw = Inl (invalidRSSSubtitleGroup ''name'' reason)"
  by (auto simp: normalizeRSSSubtitleGroupInput_def Let_def)

lemma create_statement:
  assumes "ValidRSSSubtitleGroupName name"
  shows "CreateRSSSubtitleGroup i name (to_lower name) db =
    (if \<exists>r \<in> set (subtitle_groups db). sg_id r = i \<or> sg_normalized_name r = to_lower name then Inl unique_violation
     else let r = \<lparr>sg_id = i, sg_name = name, sg_normalized_name = to_lower name\<rparr>
          in Inr (r, subtitle_groups_update (\<lambda>rs. rs @ [r]) db))"
  using valid_name_not_blank [OF assms]
  by (auto simp: CreateRSSSubtitleGroup_def group_row_check_def insert_row_def list_ex_iff unique_violation_def Let_def)

lemma create_body_run:
  assumes "ValidRSSSubtitleGroupName name" "fresh_uuids env db"
  shows "\<exists>r \<in> set (subtitle_groups db). sg_normalized_name r = to_lower name \<Longrightarrow>
      create_body env actor name (to_lower name) db =
        Inl (NewError ''rss_subtitle_group_exists'' ''the RSS subtitle group already exists'' ErrStateConflict [])"
    and "\<forall>r \<in> set (subtitle_groups db). sg_normalized_name r \<noteq> to_lower name \<Longrightarrow>
      \<exists>db'. create_body env actor name (to_lower name) db =
        Inr (\<lparr>group_ID = e_new_uuid env (uuid_calls db), group_Name = name\<rparr>, db') \<and>
      subtitle_groups db' = subtitle_groups db @
        [\<lparr>sg_id = e_new_uuid env (uuid_calls db), sg_name = name, sg_normalized_name = to_lower name\<rparr>]"
proof -
  let ?i = "e_new_uuid env (uuid_calls db)"
  let ?r = "\<lparr>sg_id = ?i, sg_name = name, sg_normalized_name = to_lower name\<rparr>"
  let ?db1 = "uuid_calls_update Suc db"
  have new: "uuid_New env db = Inr (?i, ?db1)" by (simp add: uuid_New_def)
  note st = create_statement [OF assms(1), of ?i ?db1]
  show "create_body env actor name (to_lower name) db =
        Inl (NewError ''rss_subtitle_group_exists'' ''the RSS subtitle group already exists'' ErrStateConflict [])"
    if "\<exists>r \<in> set (subtitle_groups db). sg_normalized_name r = to_lower name"
    using that st
    by (auto simp: create_body_def new tx_bind_def tx_map_error_def rssSubtitleGroupMutationError_def)
  show "\<exists>db'. create_body env actor name (to_lower name) db =
        Inr (\<lparr>group_ID = ?i, group_Name = name\<rparr>, db') \<and> subtitle_groups db' = subtitle_groups db @ [?r]"
    if "\<forall>r \<in> set (subtitle_groups db). sg_normalized_name r \<noteq> to_lower name"
  proof -
    let ?db2 = "subtitle_groups_update (\<lambda>rs. rs @ [?r]) ?db1"
    have ins: "CreateRSSSubtitleGroup ?i name (to_lower name) ?db1 = Inr (?r, ?db2)"
      using st that assms(2) by (simp add: fresh_uuids_def Let_def)
    obtain db' where ev: "appendRSSSubtitleGroupEvent env (rssSubtitleGroupFromRow ?r) actor
        ''rss.subtitle_group.created'' ?db2 = Inr ((), db')" "log_only ?db2 db'"
      using append_event_run [of ?db2 env] assms(2) unfolding appendRSSSubtitleGroupEvent_def fresh_uuids_def by fastforce
    have "subtitle_groups db' = subtitle_groups db @ [?r]" using log_only_frame(26) [OF ev(2)] by simp
    with ev(1) show ?thesis
      by (simp add: create_body_def new ins tx_bind_def tx_map_error_def tx_seq_def rssSubtitleGroupFromRow_def)
  qed
qed

section \<open>Runs\<close>

text \<open>The rest of the system is any step that leaves the table alone.\<close>

inductive group_step :: "env \<Rightarrow> db \<Rightarrow> db \<Rightarrow> bool" for env where
  create: "group_step env db (snd (Create env name actor db))"
| update: "group_step env db (snd (Update env groupID name actor db))"
| delete: "group_step env db (snd (Delete env groupID actor db))"
| elsewhere: "subtitle_groups db' = subtitle_groups db \<Longrightarrow> group_step env db db'"

lemma committed_keeps:
  "maintains (keeping groups_ok) m \<Longrightarrow> groups_ok db \<Longrightarrow> groups_ok (snd (WithinTx m db))"
  using maintains_WithinTx [of "keeping groups_ok" m db] groups_rel.rel_refl by (auto simp: keeping_def)

lemma input_row_ok:
  "normalizeRSSSubtitleGroupInput raw = Inr (name, key) \<Longrightarrow>
     group_row_ok \<lparr>sg_id = 0, sg_name = name, sg_normalized_name = key\<rparr>"
  by (auto simp: group_row_ok_def dest!: input_ok)

lemma group_step_keeps: "group_step env db db' \<Longrightarrow> groups_ok db \<Longrightarrow> groups_ok db'"
proof (induction rule: group_step.induct)
  case (create db name actor)
  then show ?case
    by (auto simp: Create_def intro!: committed_keeps handlers_keep input_row_ok split: sum.split)
next
  case (update db groupID name actor)
  then show ?case
    by (auto simp: Update_def intro!: committed_keeps handlers_keep input_row_ok split: sum.split)
next
  case (delete db groupID actor)
  then show ?case by (simp add: Delete_def committed_keeps handlers_keep)
next
  case (elsewhere db' db)
  then show ?case by (simp add: groups_ok_def)
qed

lemma group_runs_keep: "(group_step env)\<^sup>*\<^sup>* db db' \<Longrightarrow> groups_ok db \<Longrightarrow> groups_ok db'"
  by (induction rule: rtranclp_induct) (auto dest: group_step_keeps)

text \<open>
  C40: in every run that starts with an empty list, the maintained names are storable names in
  normal form, stored with their keys, and creating a group by any spelling answers by the list:
  an invalid name and a spelling whose key is stored are refused without a change, any other name
  is appended in its normal form.
\<close>

theorem maintained_groups:
  assumes "subtitle_groups db0 = []" "(group_step env)\<^sup>*\<^sup>* db0 db" "fresh_uuids env db"
  shows "groups_ok db \<and>
    (let name = NormalizeRSSSubtitleGroupName raw; key = RSSSubtitleGroupNameKey raw; out = Create env raw actor db
     in if \<not> ValidRSSSubtitleGroupName name
        then (\<exists>reason. fst out = Inl (invalidRSSSubtitleGroup ''name'' reason)) \<and> snd out = db
        else if key \<in> sg_normalized_name ` set (subtitle_groups db)
        then fst out = Inl (NewError ''rss_subtitle_group_exists'' ''the RSS subtitle group already exists''
               ErrStateConflict []) \<and> snd out = db
        else fst out = Inr \<lparr>group_ID = e_new_uuid env (uuid_calls db), group_Name = name\<rparr> \<and>
          subtitle_groups (snd out) = subtitle_groups db @
            [\<lparr>sg_id = e_new_uuid env (uuid_calls db), sg_name = name, sg_normalized_name = key\<rparr>])"
proof -
  let ?name = "NormalizeRSSSubtitleGroupName raw"
  have key: "RSSSubtitleGroupNameKey raw = to_lower ?name" by (simp add: RSSSubtitleGroupNameKey_def)
  have ok: "groups_ok db" using group_runs_keep [OF assms(2)] assms(1) by (simp add: groups_ok_def)
  show ?thesis
  proof (cases "ValidRSSSubtitleGroupName ?name")
    case False
    with ok input_invalid [OF False] show ?thesis by (auto simp: Create_def Let_def)
  next
    case True
    have c: "Create env raw actor db = WithinTx (create_body env actor ?name (to_lower ?name)) db"
      using input_valid [OF True] by (simp add: Create_def key)
    show ?thesis
    proof (cases "to_lower ?name \<in> sg_normalized_name ` set (subtitle_groups db)")
      case True': True
      then have "\<exists>r \<in> set (subtitle_groups db). sg_normalized_name r = to_lower ?name" by force
      from create_body_run(1) [OF True assms(3) this, of actor] show ?thesis
        using ok True True' unfolding Let_def c key by (simp add: WithinTx_def)
    next
      case False
      then have none: "\<forall>r \<in> set (subtitle_groups db). sg_normalized_name r \<noteq> to_lower ?name" by force
      obtain db' where "create_body env actor ?name (to_lower ?name) db =
          Inr (\<lparr>group_ID = e_new_uuid env (uuid_calls db), group_Name = ?name\<rparr>, db')"
        "subtitle_groups db' = subtitle_groups db @
          [\<lparr>sg_id = e_new_uuid env (uuid_calls db), sg_name = ?name, sg_normalized_name = to_lower ?name\<rparr>]"
        using create_body_run(2) [OF True assms(3) none, of actor] by blast
      with ok True False show ?thesis unfolding Let_def c key by (simp add: WithinTx_def)
    qed
  qed
qed

definition group_env :: env where
  "group_env = \<lparr>e_new_uuid = (\<lambda>n. n + 1), e_new_sha1 = (\<lambda>s. 1000 + length s), e_uuid_string = nat_str,
     e_sha256_hex = (\<lambda>s. s), e_insert_tx = (\<lambda>js j. Inr (False, Some 1))\<rparr>"

definition one_group :: db where
  "one_group = snd (Create group_env (lit ''[A]'') 7 empty_db)"

theorem maintained_groups_witness:
  "groups_ok one_group \<and> map sg_name (subtitle_groups one_group) = [lit ''A''] \<and>
     fst (Create group_env (lit ''a '') 7 one_group) =
       Inl (NewError ''rss_subtitle_group_exists'' ''the RSS subtitle group already exists'' ErrStateConflict [])"
proof -
  have rows: "map (\<lambda>r. (sg_id r, sg_name r, sg_normalized_name r)) (subtitle_groups one_group) = [(1, lit ''A'', lit ''a'')]"
    and ids: "map ev_id (events one_group) = [2]" "uuid_calls one_group = 2" by code_simp+
  then obtain r where r: "subtitle_groups one_group = [r]" "sg_id r = 1" "sg_name r = lit ''A''"
    "sg_normalized_name r = lit ''a''" by auto
  have run: "(group_step group_env)\<^sup>*\<^sup>* empty_db one_group" unfolding one_group_def by (blast intro: group_step.create)
  have fresh: "fresh_uuids group_env one_group" using ids r by (auto simp: fresh_uuids_def group_env_def)
  have name: "ValidRSSSubtitleGroupName (NormalizeRSSSubtitleGroupName (lit ''a ''))"
    "RSSSubtitleGroupNameKey (lit ''a '') = lit ''a''" by code_simp+
  have "subtitle_groups empty_db = []" by (simp add: empty_db_def)
  from maintained_groups [OF this run fresh, of "lit ''a ''" 7] show ?thesis
    using name r unfolding Let_def by (simp del: lit_simps)
qed

end
