(* ===== verification/SubtitleScript.thy ===== *)
theory SubtitleScript
  imports Subtitle "HOL-Library.AList"
begin

text \<open>
  The Chinese script of ASS subtitles (\<^verbatim>\<open>internal/domain/subtitle_script.go\<close>): the visible text of the
  dialogue lines, the verdict on its script, and the rewriting of a candidate into simplified
  Chinese. The converters of the package \<^verbatim>\<open>github.com/longbridgeapp/opencc\<close> are parameters.
\<close>

section \<open>Data\<close>

record ChineseScriptAnalysis =
  an_Script :: ChineseScript
  an_SimplifiedEvidence :: int
  an_TraditionalEvidence :: int
  an_HanCharacters :: int
  an_KanaCharacters :: int

text \<open>Errors: a \<^verbatim>\<open>SubtitleError\<close> with its code, or a plain error with its text.\<close>

datatype script_error = ScriptSubtitleError SubtitleError | ScriptFailure string

text \<open>The two converters, and whether \<^verbatim>\<open>opencc.New\<close> could build them.\<close>

record opencc =
  cc_ready :: bool
  cc_s2t :: "gostr \<Rightarrow> gostr option"
  cc_t2s :: "gostr \<Rightarrow> gostr option"

definition initializeSubtitleOpenCC :: "opencc \<Rightarrow> (script_error, unit) result" where
  "initializeSubtitleOpenCC cc = (if cc_ready cc then Inr () else Inl (ScriptFailure ''initialize OpenCC''))"

definition assOverridePattern :: rx where
  "assOverridePattern = cat [ch 123, star (Cls True [(125, 125)]), ch 125]"

section \<open>Columns of the events\<close>

text \<open>The section and the position of the text column, which both passes over a file track.\<close>

record ass_columns =
  cl_section :: gostr
  cl_textColumn :: int
  cl_columnCount :: nat

definition columns_init :: ass_columns where
  "columns_init = \<lparr>cl_section = [], cl_textColumn = -1, cl_columnCount = 0\<rparr>"

fun text_column :: "int \<Rightarrow> gostr list \<Rightarrow> int" where
  "text_column i [] = -1"
| "text_column i (column # columns) =
     (if equal_fold_ascii (trim_space column) (lit ''text'') then i else text_column (i + 1) columns)"

definition read_format :: "gostr \<Rightarrow> ass_columns \<Rightarrow> ass_columns" where
  "read_format line st =
     (let columns = split_on 44 (byte_drop 7 line)
      in st\<lparr>cl_textColumn := text_column 0 columns, cl_columnCount := length columns\<rparr>)"

definition dialogue_fields :: "gostr \<Rightarrow> ass_columns \<Rightarrow> gostr list" where
  "dialogue_fields line st = split_n 44 (cl_columnCount st) (byte_drop 9 line)"

section \<open>Visible text\<close>

text \<open>\<^verbatim>\<open>strings.NewReplacer\<close> of the three escapes of ASS text.\<close>

fun replace_escapes :: "gostr \<Rightarrow> gostr" where
  "replace_escapes (c # d # s) =
     (if c = backslash \<and> (d = 78 \<or> d = 110) then 10 # replace_escapes s
      else if c = backslash \<and> d = 104 then 32 # replace_escapes s
      else c # replace_escapes (d # s))"
| "replace_escapes s = s"

record text_state =
  ts_columns :: ass_columns
  ts_hasTextColumn :: bool
  ts_dialogue :: gostr

definition dialogue_line :: "gostr \<Rightarrow> text_state \<Rightarrow> text_state" where
  "dialogue_line text st =
     (let line = trim_space text; cols = ts_columns st; lower = to_lower line
      in if section_line line then st\<lparr>ts_columns := cols\<lparr>cl_section := to_lower line\<rparr>\<rparr>
         else if cl_section cols \<noteq> lit ''[events]'' then st
         else if has_prefix lower (lit ''format:'') then
           st\<lparr>ts_columns := read_format line cols,
              ts_hasTextColumn := ts_hasTextColumn st \<or> 0 \<le> cl_textColumn (read_format line cols)\<rparr>
         else if \<not> has_prefix lower (lit ''dialogue:'') \<or> cl_textColumn cols < 0 \<or>
                 int (cl_columnCount cols) \<le> cl_textColumn cols then st
         else
           (let fields = dialogue_fields line cols
            in if int (length fields) \<le> cl_textColumn cols then st
               else st\<lparr>ts_dialogue := ts_dialogue st @
                      replace_escapes (rx_replace_all assOverridePattern (fields ! nat (cl_textColumn cols)) []) @ [10]\<rparr>))"

definition invalid_ass :: "string \<Rightarrow> script_error" where
  "invalid_ass message = ScriptSubtitleError \<lparr>se_Code = ''subtitle_invalid_ass'', se_Message = message\<rparr>"

definition assDialogueText :: "gostr \<Rightarrow> (script_error, gostr) result" where
  "assDialogueText content =
     (case ValidateASSCandidate content of
        Some e \<Rightarrow> Inl (ScriptSubtitleError e)
      | None \<Rightarrow>
          (case newASSScanner (trim_bom content) of (lines, complete) \<Rightarrow>
             let st = fold dialogue_line lines \<lparr>ts_columns = columns_init, ts_hasTextColumn = False, ts_dialogue = []\<rparr>
             in if \<not> complete then Inl (invalid_ass ''read ASS subtitle dialogue: bufio.Scanner: token too long'')
                else if \<not> ts_hasTextColumn st then Inl (invalid_ass ''ASS Events format requires a Text column'')
                else Inr (ts_dialogue st)))"

definition ASSDialogueText :: "gostr \<Rightarrow> (script_error, gostr) result" where
  "ASSDialogueText content = assDialogueText content"

section \<open>The script of a text\<close>

definition minimumChineseScriptEvidence :: int where
  "minimumChineseScriptEvidence = 20"

definition chineseScriptDominanceRatio :: int where
  "chineseScriptDominanceRatio = 3"

definition dominantChineseScriptEvidence :: "int \<Rightarrow> int \<Rightarrow> bool" where
  "dominantChineseScriptEvidence primary secondary =
     (primary \<ge> minimumChineseScriptEvidence \<and> primary \<ge> secondary * chineseScriptDominanceRatio)"

text \<open>The loop over the text: the frequencies of Han runes, as a map in order of appearance.\<close>

definition count_rune :: "rune \<Rightarrow> (rune \<times> int) list \<times> int \<times> int \<Rightarrow> (rune \<times> int) list \<times> int \<times> int" where
  "count_rune character st =
     (case st of (frequencies, han, kana) \<Rightarrow>
        if is_han character then
          (AList.update character (case map_of frequencies character of None \<Rightarrow> 1 | Some n \<Rightarrow> n + 1) frequencies, han + 1, kana)
        else if is_kana character then (frequencies, han, kana + 1)
        else st)"

text \<open>The loop over the frequencies; the first conversion that fails ends it.\<close>

fun weigh_runes :: "opencc \<Rightarrow> (rune \<times> int) list \<Rightarrow> int \<times> int \<Rightarrow> (script_error, int \<times> int) result" where
  "weigh_runes cc [] st = Inr st"
| "weigh_runes cc ((character, occurrences) # rest) (simplified, traditional) =
     (case cc_s2t cc [character] of
        None \<Rightarrow> Inl (ScriptFailure ''convert simplified Chinese evidence'')
      | Some s \<Rightarrow>
          (case cc_t2s cc [character] of
             None \<Rightarrow> Inl (ScriptFailure ''convert traditional Chinese evidence'')
           | Some t \<Rightarrow>
               weigh_runes cc rest
                 (simplified + (if s \<noteq> [character] then occurrences else 0), traditional + (if t \<noteq> [character] then occurrences else 0))))"

text \<open>Go ranges over a map in an order of its own choice: \<open>order\<close> rearranges the entries.\<close>

definition AnalyzeASSChineseScript ::
  "opencc \<Rightarrow> ((rune \<times> int) list \<Rightarrow> (rune \<times> int) list) \<Rightarrow> gostr \<Rightarrow> (script_error, ChineseScriptAnalysis) result" where
  "AnalyzeASSChineseScript cc order content =
     bind_result (assDialogueText content) (\<lambda>text.
     bind_result (initializeSubtitleOpenCC cc) (\<lambda>_.
       case fold count_rune text ([], 0, 0) of (frequencies, han, kana) \<Rightarrow>
         bind_result (weigh_runes cc (order frequencies) (0, 0)) (\<lambda>(simplified, traditional).
           Inr \<lparr>an_Script =
                  (if dominantChineseScriptEvidence simplified traditional then ChineseScriptSimplified
                   else if dominantChineseScriptEvidence traditional simplified then ChineseScriptTraditional
                   else ChineseScriptUnknown),
                an_SimplifiedEvidence = simplified, an_TraditionalEvidence = traditional,
                an_HanCharacters = han, an_KanaCharacters = kana\<rparr>)))"

definition SubtitleContentIsLikelyChinese :: "ChineseScriptAnalysis \<Rightarrow> SubtitleEvidence \<Rightarrow> bool" where
  "SubtitleContentIsLikelyChinese analysis evidence =
     (case evidence of
        SubtitleEvidenceGeneric \<Rightarrow>
          an_HanCharacters analysis \<ge> 4 \<and> an_HanCharacters analysis \<ge> an_KanaCharacters analysis * 2
      | SubtitleEvidenceUnknown \<Rightarrow>
          an_HanCharacters analysis \<ge> 20 \<and> an_HanCharacters analysis \<ge> an_KanaCharacters analysis * 3
      | SubtitleEvidenceOther \<Rightarrow> False
      | _ \<Rightarrow> True)"

section \<open>Conversion to simplified Chinese\<close>










section \<open>The evidence counted\<close>

definition weight :: "(rune \<Rightarrow> bool) \<Rightarrow> (rune \<times> int) list \<Rightarrow> int" where
  "weight P frequencies = (\<Sum>(c, n) \<leftarrow> frequencies. if P c then n else 0)"

lemma weight_update:
  "weight P (AList.update c (case map_of fs c of None \<Rightarrow> 1 | Some n \<Rightarrow> n + 1) fs) = weight P fs + (if P c then 1 else 0)"
  by (induction fs) (auto simp: weight_def split: option.split)

lemma count_runes:
  assumes "fold count_rune text (fs, h, k) = (fs', h', k')"
  shows "weight P fs' = weight P fs + int (length (filter (\<lambda>c. is_han c \<and> P c) text))"
    "h' = h + int (length (filter is_han text))"
    "k' = k + int (length (filter (\<lambda>c. \<not> is_han c \<and> is_kana c) text))"
    "fst ` set fs' = fst ` set fs \<union> {c \<in> set text. is_han c}"
proof -
  have "weight P fs' = weight P fs + int (length (filter (\<lambda>c. is_han c \<and> P c) text)) \<and>
    h' = h + int (length (filter is_han text)) \<and>
    k' = k + int (length (filter (\<lambda>c. \<not> is_han c \<and> is_kana c) text)) \<and>
    fst ` set fs' = fst ` set fs \<union> {c \<in> set text. is_han c}"
    using assms
  proof (induction "text" arbitrary: fs h k)
    case (Cons c cs)
    obtain fs1 h1 k1 where st: "count_rune c (fs, h, k) = (fs1, h1, k1)" by (metis prod.exhaust)
    with Cons.prems have "fold count_rune cs (fs1, h1, k1) = (fs', h', k')" by simp
    note ih = Cons.IH [OF this]
    have "fst ` set fs1 = fst ` set fs \<union> (if is_han c then {c} else {})"
      using st by (clarsimp simp: count_rune_def dom_update split: if_splits)
    with ih have "fst ` set fs' = fst ` set fs \<union> {x \<in> set (c # cs). is_han x}" by auto
    then show ?case using ih st by (auto simp: count_rune_def weight_update split: if_splits)
  qed simp
  then show "weight P fs' = weight P fs + int (length (filter (\<lambda>c. is_han c \<and> P c) text))"
    "h' = h + int (length (filter is_han text))"
    "k' = k + int (length (filter (\<lambda>c. \<not> is_han c \<and> is_kana c) text))"
    "fst ` set fs' = fst ` set fs \<union> {c \<in> set text. is_han c}" by blast+
qed

definition convertible :: "opencc \<Rightarrow> rune \<Rightarrow> bool" where
  "convertible cc c \<longleftrightarrow> cc_s2t cc [c] \<noteq> None \<and> cc_t2s cc [c] \<noteq> None"

definition changes :: "(gostr \<Rightarrow> gostr option) \<Rightarrow> rune \<Rightarrow> bool" where
  "changes conv c \<longleftrightarrow> conv [c] \<noteq> Some [c]"

lemma weigh_runes_eq:
  "\<forall>c \<in> fst ` set fs. convertible cc c \<Longrightarrow>
     weigh_runes cc fs (s, t) = Inr (s + weight (changes (cc_s2t cc)) fs, t + weight (changes (cc_t2s cc)) fs)"
  by (induction fs arbitrary: s t) (auto simp: weight_def convertible_def changes_def)

lemma weigh_runes_fails:
  "\<exists>c \<in> fst ` set fs. \<not> convertible cc c \<Longrightarrow> \<exists>m. weigh_runes cc fs st = Inl (ScriptFailure m)"
proof (induction fs arbitrary: st)
  case (Cons x fs)
  obtain c n s t where [simp]: "x = (c, n)" "st = (s, t)" by (cases x; cases st)
  show ?case
  proof (cases "convertible cc c")
    case True
    with Cons.prems have "\<exists>c \<in> fst ` set fs. \<not> convertible cc c" by auto
    with Cons.IH True show ?thesis by (auto simp: convertible_def)
  qed (auto simp: convertible_def split: option.split)
qed simp

lemma weight_mset: "mset fs = mset gs \<Longrightarrow> weight P fs = weight P gs"
  unfolding weight_def by (metis mset_map sum_mset_sum_list)

section \<open>Pieces of a text\<close>

















section \<open>Lines of a text\<close>






section \<open>What a line becomes\<close>














section \<open>Rewritten lines\<close>






section \<open>Structure of the result\<close>



text \<open>The pieces that \<open>kept\<close> relates: no new line breaks, visible text stays visible, at most twice the bytes.\<close>

definition kept :: "gostr \<Rightarrow> gostr \<Rightarrow> bool" where
  "kept s s' \<longleftrightarrow> (10 \<in> set s' \<longrightarrow> 10 \<in> set s) \<and> (\<forall>c \<in> set s. \<not> is_space c \<longrightarrow> (\<exists>c' \<in> set s'. \<not> is_space c')) \<and>
     byte_len s' \<le> 2 * byte_len s"

lemma kept_refl [simp]: "kept s s"
  by (auto simp: kept_def)






lemma dropWhile_all: "(\<forall>x \<in> set (dropWhile p s). p x) \<longleftrightarrow> (\<forall>x \<in> set s. p x)"
  by (induction s) auto


lemma trim_drop_cr [simp]: "trim_space (drop_cr l) = trim_space l"
proof (cases "has_suffix l [13]")
  case True
  then obtain s where "l = s @ [13]" by (auto simp: has_suffix_iff)
  moreover have "is_space 13" by (simp add: is_space_def)
  ultimately show ?thesis using True dropWhile_all [of is_space s]
    by (auto simp: drop_cr_def trim_space_def trim_func_def trim_left_func_def trim_right_func_def dropWhile_append)
qed (simp add: drop_cr_def)



lemma byte_drop_0 [simp]: "byte_drop 0 s = s"
  by (cases s) auto







section \<open>Sizes and runes of lines\<close>

lemma split_acc_elem:
  "l \<in> set (split_acc sep cur s) \<Longrightarrow> byte_len l \<le> byte_len cur + byte_len s \<and> set l \<subseteq> set cur \<union> set s \<and>
     (sep \<notin> set cur \<longrightarrow> sep \<notin> set l)"
  by (induction sep cur s rule: split_acc.induct) (fastforce simp: byte_len_def rev_map [symmetric] split: if_splits)+




lemma byte_len_rev [simp]: "byte_len (rev s) = byte_len s"
  by (simp add: byte_len_def rev_map [symmetric])




section \<open>The header\<close>









lemma candidate_scanned:
  "ValidateASSCandidate content = None \<longleftrightarrow>
     (\<exists>ls. newASSScanner (trim_bom content) = (ls, True) \<and>
        as_hasEvents (fold ass_line ls ass_init) \<and> as_hasFormat (fold ass_line ls ass_init) \<and>
        as_hasDialogue (fold ass_line ls ass_init))"
  by (auto simp: ValidateASSCandidate_def validateASSStructure_def Let_def split: prod.splits if_splits)






section \<open>Properties\<close>

definition evidence :: "(gostr \<Rightarrow> gostr option) \<Rightarrow> gostr \<Rightarrow> int" where
  "evidence conv dialogue = int (length (filter (\<lambda>c. is_han c \<and> changes conv c) dialogue))"

definition script_of :: "int \<Rightarrow> int \<Rightarrow> ChineseScript" where
  "script_of simplified traditional =
     (if 20 \<le> simplified \<and> 3 * traditional \<le> simplified then ChineseScriptSimplified
      else if 20 \<le> traditional \<and> 3 * simplified \<le> traditional then ChineseScriptTraditional
      else ChineseScriptUnknown)"

text \<open>
  C24: the verdict on the script of a subtitle. In whatever order the frequencies are visited, the
  evidence for a script is the number of Han runes of the dialogue that its converter changes, the
  verdict needs twenty of them and three times those of the other script, and a rune that a
  converter refuses is an error.
\<close>

theorem script_verdict:
  assumes "assDialogueText content = Inr dialogue" "cc_ready cc" "\<forall>xs. mset (order xs) = mset xs"
  shows "if \<forall>c \<in> set dialogue. is_han c \<longrightarrow> convertible cc c then
      AnalyzeASSChineseScript cc order content = Inr
        \<lparr>an_Script = script_of (evidence (cc_s2t cc) dialogue) (evidence (cc_t2s cc) dialogue),
         an_SimplifiedEvidence = evidence (cc_s2t cc) dialogue, an_TraditionalEvidence = evidence (cc_t2s cc) dialogue,
         an_HanCharacters = int (length (filter is_han dialogue)),
         an_KanaCharacters = int (length (filter (\<lambda>c. \<not> is_han c \<and> is_kana c) dialogue))\<rparr>
    else \<exists>m. AnalyzeASSChineseScript cc order content = Inl (ScriptFailure m)"
proof -
  obtain fs h k where f: "fold count_rune dialogue ([], 0, 0) = (fs, h, k)" by (metis prod.exhaust)
  note c = count_runes [OF f]
  have w: "weight P (order fs) = int (length (filter (\<lambda>c. is_han c \<and> P c) dialogue))" for P
    using weight_mset [of "order fs" fs P] assms(3) c(1) [of P] by (simp add: weight_def)
  have s: "set (order fs) = set fs" using assms(3) by (metis set_mset_mset)
  show ?thesis
  proof (cases "\<forall>c \<in> set dialogue. is_han c \<longrightarrow> convertible cc c")
    case True
    then have "\<forall>c \<in> fst ` set (order fs). convertible cc c" using c(4) s by auto
    from weigh_runes_eq [OF this, of 0 0] True show ?thesis
      by (simp add: AnalyzeASSChineseScript_def assms f w c(2,3) initializeSubtitleOpenCC_def evidence_def script_of_def
          dominantChineseScriptEvidence_def minimumChineseScriptEvidence_def chineseScriptDominanceRatio_def mult.commute)
  next
    case False
    then have "\<exists>c \<in> fst ` set (order fs). \<not> convertible cc c" using c(4) s by auto
    from weigh_runes_fails [OF this, of "(0, 0)"] False show ?thesis
      by (auto simp: AnalyzeASSChineseScript_def assms f initializeSubtitleOpenCC_def)
  qed
qed


section \<open>A sample\<close>

text \<open>Converters that know one pair of characters, and a candidate without the section Script Info.\<close>

definition sample_opencc :: opencc where
  "sample_opencc = \<lparr>cc_ready = True, cc_s2t = (\<lambda>s. Some (map (\<lambda>c. if c = 20204 then 20497 else c) s)),
     cc_t2s = (\<lambda>s. Some (map (\<lambda>c. if c = 20497 then 20204 else c) s))\<rparr>"

definition sample_candidate :: gostr where
  "sample_candidate = lit ''[Events]'' @ [13, 10] @ lit ''Format: Start, Text'' @ [10] @ lit ''dialogue: 1,{'' @ [20497] @ lit ''}'' @
     [25105, 20497, 10]"

definition sample_lines :: "gostr list" where
  "sample_lines = [lit ''[Events]'', lit ''Format: Start, Text'', lit ''dialogue: 1,{'' @ [20497] @ lit ''}'' @ [25105, 20497]]"


lemma scanner_small: "byte_len s < maxASSScanTokenBytes \<Longrightarrow> newASSScanner s = (map drop_cr (scanner_tokens s), True)"
proof -
  assume b: "byte_len s < maxASSScanTokenBytes"
  have "byte_len t \<le> byte_len s" if "t \<in> set (scanner_tokens s)" for t
    using that split_acc_elem [of t 10 "[]" s]
    by (auto simp: scanner_tokens_def split_on_def byte_len_def Let_def split: if_splits dest: in_set_butlastD)
  with b have "\<forall>t \<in> set (scanner_tokens s). byte_len t < maxASSScanTokenBytes" by (metis le_less_trans)
  then show ?thesis by (simp add: newASSScanner_def Let_def takeWhile_eq_all_conv [THEN iffD2])
qed

lemma sample_scanned: "newASSScanner (trim_bom sample_candidate) = (sample_lines, True)" "trim_bom sample_candidate = sample_candidate"
proof -
  show b: "trim_bom sample_candidate = sample_candidate" by code_simp
  have "map drop_cr (scanner_tokens sample_candidate) = sample_lines" by code_simp
  moreover have "byte_len sample_candidate < maxASSScanTokenBytes"
    by (simp add: sample_candidate_def byte_len_def rune_len_def maxASSScanTokenBytes_def)
  ultimately show "newASSScanner (trim_bom sample_candidate) = (sample_lines, True)" by (simp add: b scanner_small)
qed

lemma sample_valid: "ValidateASSCandidate sample_candidate = None"
proof -
  have "as_hasEvents (fold ass_line sample_lines ass_init) \<and> as_hasFormat (fold ass_line sample_lines ass_init) \<and>
    as_hasDialogue (fold ass_line sample_lines ass_init)" by code_simp
  then show ?thesis by (simp add: candidate_scanned sample_scanned(1))
qed




theorem script_verdict_witness:
  "AnalyzeASSChineseScript sample_opencc rev sample_candidate =
     Inr \<lparr>an_Script = ChineseScriptUnknown, an_SimplifiedEvidence = 0, an_TraditionalEvidence = 1, an_HanCharacters = 2,
          an_KanaCharacters = 0\<rparr>"
proof -
  have "fold dialogue_line sample_lines \<lparr>ts_columns = columns_init, ts_hasTextColumn = False, ts_dialogue = []\<rparr> =
    \<lparr>ts_columns = \<lparr>cl_section = lit ''[events]'', cl_textColumn = 1, cl_columnCount = 2\<rparr>, ts_hasTextColumn = True,
     ts_dialogue = [25105, 20497, 10]\<rparr>" by code_simp
  then have d: "assDialogueText sample_candidate = Inr [25105, 20497, 10]"
    by (simp add: assDialogueText_def sample_valid sample_scanned(1) Let_def)
  have h: "is_han 25105" "is_han 20497" "\<not> is_han 10" "\<not> is_kana 10" by code_simp+
  show ?thesis
    using script_verdict [OF d, of sample_opencc rev] h
    by (simp add: sample_opencc_def convertible_def evidence_def changes_def script_of_def)
qed


end
