(* ===== verification/Spec2Isabelle.thy ===== *)
theory Spec2Isabelle
  imports EpisodeMapping FileSelectionSpec WorkerRuns SubtitleGroupStore SubtitleScript
begin

text \<open>
  \<^bold>\<open>A verification of the Emby Auto backend.\<close>

  Emby Auto (\<^verbatim>\<open>src/backend\<close>, Go) acquires episodes and movies, downloads them, selects and transcodes
  the video and a Chinese subtitle, asks for a review and imports the result into an Emby library.
  The program has three layers. \<^verbatim>\<open>internal/domain\<close> holds the pure rules: state machines, mapping of
  episodes, file selection, subtitles, names, transcode profiles, feed entries.
  \<^verbatim>\<open>internal/service\<close> and \<^verbatim>\<open>internal/repository\<close> hold the commands; each is one PostgreSQL transaction
  over the statements generated by sqlc (\<^verbatim>\<open>db/sqlc\<close>). \<^verbatim>\<open>internal/worker\<close> runs the queued operations,
  whose River jobs a command inserts in its own transaction. The model follows the same layers.

  \<^bold>\<open>Foundations.\<close>
  \<^item> \<open>Prelude\<close>: results as sums, stable sorting by a comparator (\<^verbatim>\<open>sort.Slice\<close>, \<^verbatim>\<open>sort.SliceStable\<close>) with
    the locale \<open>comparator\<close>, row updates on lists.
  \<^item> \<open>UnicodeTables\<close>, \<open>GoText\<close>, \<open>GoRegex\<close>: runes, the functions of \<^verbatim>\<open>strings\<close>, \<^verbatim>\<open>path\<close> and \<^verbatim>\<open>strconv\<close>
    that the program calls, and an executable regular expression matcher with the leftmost-first
    rule of Go, proved against a relational semantics. Strings are lists of runes (valid UTF-8).
  \<^item> \<open>Store\<close>: the tables as lists of rows, and transactions as functions that fail without effect or
    return a new store (\<^verbatim>\<open>Transactor.WithinTx\<close>). Clients of third-party code are parameters in the
    record \<open>env\<close>.

  \<^bold>\<open>Rules of the domain.\<close>
  \<^item> \<open>LifecycleStates\<close> (\<^verbatim>\<open>state.go\<close>): the transition validators, each an interpretation of one locale.
  \<^item> \<open>EpisodeMapping\<close> (\<^verbatim>\<open>mapping.go\<close>): anchored and explicit mapping of source to TMDb episodes; the
    absolute numbering is a bijection, mapping is monotone and hits the anchor.
  \<^item> \<open>MediaNaming\<close> (\<^verbatim>\<open>naming.go\<close>, \<^verbatim>\<open>task_workflow.go\<close>, \<^verbatim>\<open>media_workflow.go\<close>): names and library paths; built
    paths stay below the library root and are accepted by the validators.
  \<^item> \<open>Transcode\<close> (\<^verbatim>\<open>transcode.go\<close>): profile validation and FFmpeg arguments with the float64 arithmetic
    they use.
  \<^item> \<open>Subtitle\<close> (\<^verbatim>\<open>subtitle.go\<close>): language evidence, ranking and selection of subtitle sources, candidate
    identifiers, FFmpeg arguments and the structure check of ASS files; ranking is a stable sort of
    the usable candidates and its plans always run.
  \<^item> \<open>SubtitleScript\<close> (\<^verbatim>\<open>subtitle_script.go\<close>): the visible text of ASS dialogue, the verdict on its Chinese
    script and the rewriting into simplified Chinese. The OpenCC converters are parameters (record
    \<open>opencc\<close>), what a conversion keeps is the hypothesis \<open>t2s_keeps\<close>. A simulation between the checks of
    the candidate and of its rewritten lines (\<open>found_by\<close>) shows that every candidate can be normalised;
    the verdict is the same for every order in which Go ranges over its frequency map.
  \<^item> \<open>FileSelection\<close> (\<^verbatim>\<open>file_selection.go\<close>): validation and classification of a torrent manifest, the
    coordinate a path names, the choice of one video and up to eight subtitles per episode.
    \<open>FileSelectionSpec\<close> proves it equal to a specification over sets of files, and independent of
    the order of the manifest.
  \<^item> \<open>RssRelease\<close> (\<^verbatim>\<open>rss_release_parser.go\<close>): the coordinate an RSS title names; the ranked choice is
    proved equal to a specification by the candidates of highest rank.
  \<^item> \<open>RssAnalysis\<close> (\<^verbatim>\<open>rss.go\<close>): rejection reasons, keyword filter, identities of entries and the plan of
    adjudications of a poll. \<^verbatim>\<open>net/url\<close>, SHA-256 and the time format are parameters.
  \<^item> \<open>SubtitleGroups\<close> (\<^verbatim>\<open>rss_subtitle_group.go\<close>) and \<open>SubtitleGroupStore\<close> (\<^verbatim>\<open>rss_subtitle_groups.go\<close>,
    \<^verbatim>\<open>rss_subtitle_groups.sql.go\<close>): names and keys of subtitle groups, the suggestions a feed gives,
    and the maintained list with its invariant over all runs of its handlers.

  \<^bold>\<open>Operations.\<close>
  \<^item> \<open>OperationScheduler\<close> (\<^verbatim>\<open>operations.go\<close>, \<^verbatim>\<open>jobs.go\<close>, \<^verbatim>\<open>operations.sql.go\<close>): scheduling with idempotency keys.
  \<^item> \<open>OperationLifecycle\<close> (\<^verbatim>\<open>operation_lifecycle.go\<close>, \<^verbatim>\<open>runtime.go\<close>): attempts, heartbeats, failure,
    retry and cancellation of an operation and the cascade into the resource it works on; the step
    relation of the handlers keeps the audit invariant between operations and attempts.

  \<^bold>\<open>Tasks.\<close>
  \<^item> \<open>TaskStore\<close> (statements), \<open>TaskWorkflow\<close>, \<open>MediaWorkflow\<close>, \<open>TaskCommands\<close>: materialising a download
    into tasks, the video and subtitle branches, finalisation, review, import, cleanup, retry and
    cancellation.
  \<^item> \<open>TaskFrames\<close>, \<open>TaskRows\<close>, \<open>TaskPipeline\<close>, \<open>TaskRuns\<close>: the step relation \<open>task_step\<close> over all
    handlers, the locale \<open>task_statements\<close> that lifts a relation kept by every statement to every
    run, the refinement of the task state machine and the invariant of the pipeline; the runs at
    the end are the concrete executions the witnesses use.

  \<^bold>\<open>Files and workers.\<close>
  \<^item> \<open>FilePaths\<close> and \<open>FileSystem\<close> (\<^verbatim>\<open>media_files.go\<close>, \<^verbatim>\<open>media_commit_linux.go\<close>): paths below a root, and
    a file system of regular files and directories whose operations run in a monad over a list of
    faults: before each system call the next element decides whether it succeeds, fails, or the
    context is cancelled. \<open>io_holds\<close> states what holds of every run, whatever fails; the locale
    \<open>io_relation\<close> lifts a relation kept by the primitive calls to whole procedures.
  \<^item> \<open>LibraryImport\<close> (\<^verbatim>\<open>emby_import.go\<close>, \<^verbatim>\<open>imported_library_access.go\<close>) and \<open>ImportSafety\<close>: copying a
    verified pair of files into the library under temporary names and committing them without
    replacing anything; whatever fails, no file that existed is changed or lost.
  \<^item> \<open>MediaWorkers\<close> (\<^verbatim>\<open>download_materialize.go\<close>, \<^verbatim>\<open>task_cancel.go\<close>, \<^verbatim>\<open>transcode_run.go\<close>,
    \<^verbatim>\<open>media_finalize.go\<close>, \<^verbatim>\<open>emby_import.go\<close>) and \<open>CleanupWorker\<close> (\<^verbatim>\<open>cleanup_run.go\<close>): the handlers of
    the queue over the world of disk, store and torrents. FFmpeg, FFprobe, qBittorrent and the
    settings are parameters, the record \<open>tools\<close>.
  \<^item> \<open>WorkerRuns\<close>: what a handler guarantees of the disk and of the store together: an import that
    reports success has its files where the import row says, a cleanup only removes paths below the
    configured roots of an imported task, and the loop over empty parents ends.

  \<^bold>\<open>Bounds.\<close> Unbounded repetitions of the matcher make at most as many iterations as there are runes
  left (\<open>rep_bound\<close>), which is enough since every repeated pattern consumes one (\<open>rx_match_complete\<close>);
  a search lists at most as many matches as the subject has runes. The float printing of
  \<open>Transcode\<close> carries its fuel in \<open>bit_fuel\<close> and \<open>shortest_decimals\<close>, the widths of the float64
  format. \<open>prune_loop\<close> has as fuel the number of elements of the path, which \<open>prune_terminates\<close>
  proves enough. Go integers are far from overflow in the modelled code and are modelled by \<open>int\<close>.

  \<^bold>\<open>Limits of the model.\<close> Directories are not reached through symbolic links that change during a
  run; ownership and mode changes of imported files touch no content. Transactions are serial:
  interleaving is the sequence of committed bodies. Where the code ranges over a Go map, either the
  result does not depend on the order or the model fixes the order of the source.

  \<^bold>\<open>Not modelled.\<close> The HTTP transport (largely generated), the web application, process start-up, the
  clients of external services, metrics, migration and maintenance tools; read models and list
  endpoints. Of the services, the agent dialogue, the catalog, the RSS polling transactions, the
  search sessions, the deletion of acquisitions and the configuration: they consist mostly of
  statements over tables that triggers and other services maintain, and their decisions that are
  pure are modelled (episode mapping, release analysis, adjudication plans). The workers for
  subtitle preparation, torrent synchronisation and enqueueing drive external tools. Columns such
  as \<^verbatim>\<open>updated_at\<close>, foreign keys, connection failures and the text that error wrapping adds are left
  out. A deletion of an acquisition removes tasks and is outside the runs considered.
\<close>

end
